(* ===== verification/Eloq_Prelude.thy ===== *)
theory Eloq_Prelude
  imports Main "HOL-Library.Word" "HOL-Library.AList" "HOL-Library.List_Lexorder" "HOL-Library.Char_ord"
begin

text \<open>
  Shared vocabulary of the development: machine integers, results with errors as values, and
  the string and collection operations of the Rust standard library that the program uses.

  A Rust \<open>str\<close> is a list of bytes here. The operations whose Rust versions look at Unicode
  classes (\<open>trim\<close>, \<open>split_whitespace\<close>) are modelled on their ASCII part, which is what host
  names, ports, identifiers and wire formats of this program consist of.
\<close>

section \<open>Collections of rewrite rules\<close>

named_theorems res_simps \<open>how results of sequenced fallible operations decompose\<close>
named_theorems str_simps \<open>facts about the string operations\<close>

section \<open>Machine integers and results\<close>

type_synonym u8 = "8 word"
type_synonym u16 = "16 word"
type_synonym u32 = "32 word"
type_synonym u64 = "64 word"

text \<open>
  \<open>Err m\<close> is an \<open>Err(anyhow!(m))\<close> that travels up through \<open>?\<close>; \<open>Panic m\<close> is a panic of the
  process (an \<open>unwrap\<close> on \<open>None\<close>, a slice out of range, an overflow in a checked build).
\<close>

datatype err = Err string | Panic string

type_synonym 'a res = "err + 'a"

definition bindE :: "'a res \<Rightarrow> ('a \<Rightarrow> 'b res) \<Rightarrow> 'b res" where
  "bindE m f = (case m of Inl e \<Rightarrow> Inl e | Inr a \<Rightarrow> f a)"

lemma bindE_simps [simp]: "bindE (Inl e) f = Inl e" "bindE (Inr a) f = f a"
  by (simp_all add: bindE_def)

lemma bindE_Inr_iff [res_simps]: "(bindE m f = Inr b) = (\<exists>a. m = Inr a \<and> f a = Inr b)"
  by (cases m) simp_all

lemma bindE_Inl_iff [res_simps]:
  "(bindE m f = Inl e) = (m = Inl e \<or> (\<exists>a. m = Inr a \<and> f a = Inl e))"
  by (cases m) simp_all

text \<open>A \<open>for\<close> loop over a list whose body may return early with an error.\<close>

fun foldE :: "('s \<Rightarrow> 'a \<Rightarrow> 's res) \<Rightarrow> 's \<Rightarrow> 'a list \<Rightarrow> 's res" where
  "foldE f s [] = Inr s"
| "foldE f s (x # xs) = bindE (f s x) (\<lambda>s'. foldE f s' xs)"

fun mapE :: "('a \<Rightarrow> 'b res) \<Rightarrow> 'a list \<Rightarrow> 'b list res" where
  "mapE f [] = Inr []"
| "mapE f (x # xs) = bindE (f x) (\<lambda>y. bindE (mapE f xs) (\<lambda>ys. Inr (y # ys)))"

fun checkE :: "('a \<Rightarrow> unit res) \<Rightarrow> 'a list \<Rightarrow> unit res" where
  "checkE f [] = Inr ()"
| "checkE f (x # xs) = bindE (f x) (\<lambda>_. checkE f xs)"

lemma checkE_Inr [res_simps]: "(checkE f xs = Inr u) = (\<forall>x \<in> set xs. f x = Inr ())"
  by (induction xs) (auto simp: res_simps)

lemma mapE_Inr_nth: "mapE f xs = Inr ys \<Longrightarrow>
    length ys = length xs \<and> (\<forall>i < length xs. f (xs ! i) = Inr (ys ! i))"
proof (induction xs arbitrary: ys)
  case Nil
  then show ?case by simp
next
  case (Cons x xs)
  then obtain y ys' where "f x = Inr y" "mapE f xs = Inr ys'" "ys = y # ys'"
    by (auto simp: res_simps)
  with Cons.IH show ?case by (auto simp: less_Suc_eq_0_disj)
qed

lemma foldE_append: "foldE f s (xs @ ys) = bindE (foldE f s xs) (\<lambda>s'. foldE f s' ys)"
proof (induction xs arbitrary: s)
  case (Cons x xs)
  then show ?case by (cases "f s x") simp_all
qed simp

text \<open>Invariants of such loops: what every step keeps, the loop keeps.\<close>

lemma foldE_invariant:
  assumes "foldE f s xs = Inr s'" and "I s"
    and "\<And>s x s'. I s \<Longrightarrow> x \<in> set xs \<Longrightarrow> f s x = Inr s' \<Longrightarrow> I s'"
  shows "I s'"
  using assms
proof (induction xs arbitrary: s)
  case (Cons x xs)
  from Cons.prems(1) obtain s1 where s1: "f s x = Inr s1" "foldE f s1 xs = Inr s'"
    by (auto simp: res_simps)
  have "I s1" by (rule Cons.prems(3) [OF Cons.prems(2) _ s1(1)]) simp
  with s1(2) show ?case
    by (rule Cons.IH) (rule Cons.prems(3), simp_all)
qed simp

section \<open>Characters and whitespace\<close>

definition is_ws :: "char \<Rightarrow> bool" where
  "is_ws c \<longleftrightarrow> (let n = (of_char c :: nat) in n = 32 \<or> 9 \<le> n \<and> n \<le> 13)"

definition is_digit :: "char \<Rightarrow> bool" where
  "is_digit c \<longleftrightarrow> (let n = (of_char c :: nat) in 48 \<le> n \<and> n \<le> 57)"

definition is_ascii_alnum :: "char \<Rightarrow> bool" where
  "is_ascii_alnum c \<longleftrightarrow> (let n = (of_char c :: nat) in
     48 \<le> n \<and> n \<le> 57 \<or> 65 \<le> n \<and> n \<le> 90 \<or> 97 \<le> n \<and> n \<le> 122)"

definition ascii_lower :: "char \<Rightarrow> char" where
  "ascii_lower c = (let n = (of_char c :: nat) in if 65 \<le> n \<and> n \<le> 90 then char_of (n + 32) else c)"

definition ascii_upper :: "char \<Rightarrow> char" where
  "ascii_upper c = (let n = (of_char c :: nat) in if 97 \<le> n \<and> n \<le> 122 then char_of (n - 32) else c)"

definition to_lower :: "string \<Rightarrow> string" where
  "to_lower s = map ascii_lower s"

definition eq_ignore_case :: "string \<Rightarrow> string \<Rightarrow> bool" where
  "eq_ignore_case a b \<longleftrightarrow> to_lower a = to_lower b"

lemma to_lower_simps [simp]:
  "to_lower [] = []" "to_lower (c # cs) = ascii_lower c # to_lower cs"
  by (simp_all add: to_lower_def)

lemma is_digit_not_ws: "is_digit c \<Longrightarrow> \<not> is_ws c"
  by (auto simp: is_digit_def is_ws_def Let_def)

section \<open>Trimming\<close>

definition trim_start :: "string \<Rightarrow> string" where
  "trim_start s = dropWhile is_ws s"

definition trim_end :: "string \<Rightarrow> string" where
  "trim_end s = rev (dropWhile is_ws (rev s))"

definition trim :: "string \<Rightarrow> string" where
  "trim s = trim_end (trim_start s)"

lemma dropWhile_not_hd: "xs = [] \<or> \<not> P (hd xs) \<Longrightarrow> dropWhile P xs = xs"
  by (cases xs) auto

lemma trim_id [str_simps]: "\<forall>c \<in> set s. \<not> is_ws c \<Longrightarrow> trim s = s"
proof -
  assume a: "\<forall>c \<in> set s. \<not> is_ws c"
  have "dropWhile is_ws s = s" using a by (cases s) auto
  moreover have "dropWhile is_ws (rev s) = rev s"
    using a by (intro dropWhile_not_hd) (auto simp: hd_rev)
  ultimately show ?thesis by (simp add: trim_def trim_start_def trim_end_def)
qed

lemma trim_Nil [simp]: "trim [] = []"
  by (simp add: trim_def trim_start_def trim_end_def)

lemma set_trim: "set (trim s) \<subseteq> set s"
  unfolding trim_def trim_start_def trim_end_def
  by (metis set_dropWhileD set_rev subsetI)

lemma trim_no_outer_ws:
  "trim s \<noteq> [] \<Longrightarrow> \<not> is_ws (hd (trim s)) \<and> \<not> is_ws (last (trim s))"
proof -
  assume ne: "trim s \<noteq> []"
  let ?t = "trim_start s"
  have last: "\<not> is_ws (last (trim s))"
    using ne unfolding trim_def trim_end_def
    by (metis hd_dropWhile last_rev rev_is_Nil_conv)
  obtain ws where ws: "?t = trim s @ ws"
    unfolding trim_def trim_end_def
    by (metis dropWhile_eq_drop rev_drop rev_rev_ident append_take_drop_id)
  have "hd (trim s) = hd ?t" using ne ws by simp
  moreover have "\<not> is_ws (hd ?t)"
    using ne ws unfolding trim_start_def by (metis append_is_Nil_conv hd_dropWhile)
  ultimately show ?thesis using last by simp
qed

lemma trim_outer: "s \<noteq> [] \<Longrightarrow> \<not> is_ws (hd s) \<Longrightarrow> \<not> is_ws (last s) \<Longrightarrow> trim s = s"
  by (simp add: trim_def trim_start_def trim_end_def dropWhile_not_hd hd_rev)

lemma trim_trim [simp]: "trim (trim s) = trim s"
proof (cases "trim s = []")
  case False
  have "dropWhile is_ws (trim s) = trim s"
    using trim_no_outer_ws [OF False] by (intro dropWhile_not_hd) simp
  moreover have "dropWhile is_ws (rev (trim s)) = rev (trim s)"
    using trim_no_outer_ws [OF False] by (intro dropWhile_not_hd) (simp add: hd_rev)
  ultimately show ?thesis by (subst trim_def) (simp add: trim_start_def trim_end_def)
qed simp

section \<open>Splitting and joining\<close>

text \<open>\<open>str::split\<close> on a character or a set of characters, given as a predicate.\<close>

fun split_on :: "(char \<Rightarrow> bool) \<Rightarrow> string \<Rightarrow> string list" where
  "split_on P [] = [[]]"
| "split_on P (c # cs) =
     (if P c then [] # split_on P cs
      else case split_on P cs of [] \<Rightarrow> [[c]] | t # ts \<Rightarrow> (c # t) # ts)"

definition is_comma :: "char \<Rightarrow> bool" where "is_comma c \<longleftrightarrow> c = CHR '',''"
definition is_colon :: "char \<Rightarrow> bool" where "is_colon c \<longleftrightarrow> c = CHR '':''"
definition is_pipe :: "char \<Rightarrow> bool" where "is_pipe c \<longleftrightarrow> c = CHR ''|''"
definition is_pipe_comma :: "char \<Rightarrow> bool" where
  "is_pipe_comma c \<longleftrightarrow> c = CHR ''|'' \<or> c = CHR '',''"
definition is_dash :: "char \<Rightarrow> bool" where "is_dash c \<longleftrightarrow> c = CHR ''-''"
definition is_dot :: "char \<Rightarrow> bool" where "is_dot c \<longleftrightarrow> c = CHR ''.''"
definition is_slash :: "char \<Rightarrow> bool" where "is_slash c \<longleftrightarrow> c = CHR ''/''"
definition is_eq :: "char \<Rightarrow> bool" where "is_eq c \<longleftrightarrow> c = CHR ''=''"
definition is_nl :: "char \<Rightarrow> bool" where "is_nl c \<longleftrightarrow> c = CHR 0x0A"

lemmas sep_defs = is_comma_def is_colon_def is_pipe_def is_pipe_comma_def is_dash_def
  is_dot_def is_slash_def is_eq_def is_nl_def

lemma split_on_not_Nil [simp]: "split_on P s \<noteq> []"
  by (cases s) (auto split: list.split)

fun join :: "string \<Rightarrow> string list \<Rightarrow> string" where
  "join sep [] = []"
| "join sep [x] = x"
| "join sep (x # y # ys) = x @ sep @ join sep (y # ys)"

lemma split_on_no_sep: "\<forall>c \<in> set s. \<not> P c \<Longrightarrow> split_on P s = [s]"
  by (induction s) auto

lemma split_on_append_sep:
  "\<forall>c \<in> set a. \<not> P c \<Longrightarrow> P d \<Longrightarrow> split_on P (a @ d # b) = a # split_on P b"
  by (induction a) auto

lemma split_on_parts: "t \<in> set (split_on P s) \<Longrightarrow> c \<in> set t \<Longrightarrow> \<not> P c"
proof (induction s arbitrary: t c)
  case (Cons x xs)
  show ?case
  proof (cases "split_on P xs")
    case Nil
    then show ?thesis by simp
  next
    case (Cons u us)
    then show ?thesis using Cons.prems Cons.IH [of u c] Cons.IH [of t c]
      by (auto split: if_splits)
  qed
qed simp

lemma split_on_subset: "t \<in> set (split_on P s) \<Longrightarrow> set t \<subseteq> set s"
proof (induction s arbitrary: t)
  case (Cons x xs)
  show ?case
  proof (cases "split_on P xs")
    case (Cons u us)
    then show ?thesis using Cons.prems Cons.IH [of u] Cons.IH [of t]
      by (auto split: if_splits)
  qed simp
qed simp

lemma split_on_join:
  "xs \<noteq> [] \<Longrightarrow> \<forall>x \<in> set xs. \<forall>c \<in> set x. \<not> P c \<Longrightarrow> P d \<Longrightarrow> split_on P (join [d] xs) = xs"
proof (induction "[d]" xs rule: join.induct)
  case (2 x)
  then show ?case by (simp add: split_on_no_sep)
next
  case (3 x y ys)
  then show ?case by (simp add: split_on_append_sep)
qed simp

lemma split_on_append: "P d \<Longrightarrow> split_on P (a @ d # b) = split_on P a @ split_on P b"
proof (induction a)
  case (Cons c a)
  then show ?case by (cases "split_on P a") auto
qed simp

lemma split_on_join_concat:
  "xs \<noteq> [] \<Longrightarrow> P d \<Longrightarrow> split_on P (join [d] xs) = concat (map (split_on P) xs)"
proof (induction "[d]" xs rule: join.induct)
  case (3 x y ys)
  then show ?case by (simp add: split_on_append)
qed simp_all

lemma join_Cons: "xs \<noteq> [] \<Longrightarrow> join sep (x # xs) = x @ sep @ join sep xs"
  by (cases xs) simp_all

lemma join_split_on: "join [d] (split_on (\<lambda>c. c = d) s) = s"
proof (induction s)
  case (Cons x xs)
  then show ?case
    by (cases "split_on (\<lambda>c. c = d) xs"; cases "tl (split_on (\<lambda>c. c = d) xs)")
      (auto simp: join_Cons)
qed simp

text \<open>\<open>split_once\<close> and \<open>rsplit_once\<close> on a character.\<close>

definition split_once :: "(char \<Rightarrow> bool) \<Rightarrow> string \<Rightarrow> (string \<times> string) option" where
  "split_once P s = (case dropWhile (\<lambda>c. \<not> P c) s of
     [] \<Rightarrow> None | _ # post \<Rightarrow> Some (takeWhile (\<lambda>c. \<not> P c) s, post))"

definition rsplit_once :: "(char \<Rightarrow> bool) \<Rightarrow> string \<Rightarrow> (string \<times> string) option" where
  "rsplit_once P s = (case split_once P (rev s) of
     None \<Rightarrow> None | Some (post, pre) \<Rightarrow> Some (rev pre, rev post))"

lemma split_once_append [str_simps]:
  "\<forall>c \<in> set a. \<not> P c \<Longrightarrow> P d \<Longrightarrow> split_once P (a @ d # b) = Some (a, b)"
  by (simp add: split_once_def dropWhile_append3 takeWhile_append2)

lemma split_once_None [str_simps]: "\<forall>c \<in> set a. \<not> P c \<Longrightarrow> split_once P a = None"
proof -
  assume "\<forall>c \<in> set a. \<not> P c"
  then have e: "dropWhile (\<lambda>c. \<not> P c) a = []" by simp
  show ?thesis by (simp only: split_once_def e list.case)
qed

lemma split_once_Some:
  assumes "split_once P s = Some (a, b)"
  shows "\<exists>d. P d \<and> s = a @ d # b \<and> (\<forall>c \<in> set a. \<not> P c)"
proof -
  let ?Q = "\<lambda>c. \<not> P c"
  from assms obtain d where d: "dropWhile ?Q s = d # b" "takeWhile ?Q s = a"
    by (auto simp: split_once_def split: list.splits)
  have "P d" using hd_dropWhile [of ?Q s] d(1) by simp
  moreover have "s = a @ d # b" using takeWhile_dropWhile_id [of ?Q s] d by simp
  moreover have "\<forall>c \<in> set a. \<not> P c" using d(2) by (metis set_takeWhileD)
  ultimately show ?thesis by blast
qed

lemma rsplit_once_append [str_simps]:
  "\<forall>c \<in> set b. \<not> P c \<Longrightarrow> P d \<Longrightarrow> rsplit_once P (a @ d # b) = Some (a, b)"
  using split_once_append [of "rev b" P d "rev a"] by (simp add: rsplit_once_def)

lemma rsplit_once_Some:
  assumes "rsplit_once P s = Some (a, b)"
  shows "\<exists>d. P d \<and> s = a @ d # b \<and> (\<forall>c \<in> set b. \<not> P c)"
proof -
  from assms have "split_once P (rev s) = Some (rev b, rev a)"
    by (auto simp: rsplit_once_def split: option.splits)
  then obtain d where "P d" "rev s = rev b @ d # rev a" "\<forall>c \<in> set (rev b). \<not> P c"
    using split_once_Some by blast
  then show ?thesis by (metis append.assoc append_Cons append_Nil rev_append rev_rev_ident
        rev_singleton_conv set_rev rev.simps(2))
qed

text \<open>\<open>split_whitespace\<close>, \<open>lines\<close>, prefixes and suffixes.\<close>

definition split_ws :: "string \<Rightarrow> string list" where
  "split_ws s = filter (\<lambda>t. t \<noteq> []) (split_on is_ws s)"

definition strip_cr :: "string \<Rightarrow> string" where
  "strip_cr l = (if l \<noteq> [] \<and> last l = CHR 0x0D then butlast l else l)"

definition str_lines :: "string \<Rightarrow> string list" where
  "str_lines s = (let ps = split_on is_nl s; body = map strip_cr (butlast ps)
     in if last ps = [] then body else body @ [last ps])"

lemma split_ws_join:
  assumes "\<forall>w \<in> set ws. w \<noteq> [] \<and> (\<forall>c \<in> set w. \<not> is_ws c)"
  shows "split_ws (join '' '' ws) = ws"
proof (cases "ws = []")
  case True
  then show ?thesis by (simp add: split_ws_def)
next
  case False
  have "split_on is_ws (join '' '' ws) = ws"
    by (rule split_on_join) (use False assms in \<open>auto simp: is_ws_def\<close>)
  then show ?thesis using assms by (simp add: split_ws_def filter_id_conv)
qed

lemma strip_cr_id: "CHR 0x0D \<notin> set l \<Longrightarrow> strip_cr l = l"
  by (auto simp: strip_cr_def dest: last_in_set)

lemma str_lines_join:
  assumes "ls \<noteq> []" "last ls \<noteq> []" "\<forall>l \<in> set ls. \<forall>c \<in> set l. c \<noteq> CHR 0x0A \<and> c \<noteq> CHR 0x0D"
  shows "str_lines (join [CHR 0x0A] ls) = ls"
proof -
  have s: "split_on is_nl (join [CHR 0x0A] ls) = ls"
  proof (rule split_on_join [OF assms(1)])
    show "\<forall>l \<in> set ls. \<forall>c \<in> set l. \<not> is_nl c" unfolding is_nl_def using assms(3) by blast
    show "is_nl (CHR 0x0A)" by (simp add: is_nl_def)
  qed
  have "map strip_cr (butlast ls) = butlast ls"
  proof (rule map_idI)
    fix l assume "l \<in> set (butlast ls)"
    then have "l \<in> set ls" by (rule in_set_butlastD)
    with assms(3) show "strip_cr l = l" by (intro strip_cr_id) blast
  qed
  then show ?thesis using assms(1,2) by (simp add: str_lines_def s Let_def)
qed

definition starts_with :: "string \<Rightarrow> string \<Rightarrow> bool" where
  "starts_with p s \<longleftrightarrow> take (length p) s = p"

definition ends_with :: "string \<Rightarrow> string \<Rightarrow> bool" where
  "ends_with p s \<longleftrightarrow> starts_with (rev p) (rev s)"

definition strip_prefix :: "string \<Rightarrow> string \<Rightarrow> string option" where
  "strip_prefix p s = (if starts_with p s then Some (drop (length p) s) else None)"

definition strip_suffix :: "string \<Rightarrow> string \<Rightarrow> string option" where
  "strip_suffix p s = (if ends_with p s then Some (take (length s - length p) s) else None)"

lemma starts_with_append [str_simps]: "starts_with p (p @ s)"
  by (simp add: starts_with_def)

lemma strip_prefix_append [str_simps]: "strip_prefix p (p @ s) = Some s"
  by (simp add: strip_prefix_def starts_with_def)

lemma strip_prefix_Some: "strip_prefix p s = Some t \<Longrightarrow> s = p @ t"
  by (auto simp: strip_prefix_def starts_with_def split: if_splits)
    (metis append_take_drop_id)

lemma strip_suffix_append [str_simps]: "strip_suffix p (s @ p) = Some s"
  by (simp add: strip_suffix_def ends_with_def starts_with_def)

text \<open>\<open>trim_start_matches(p)\<close> removes the prefix as often as it occurs.\<close>

function trim_start_matches :: "string \<Rightarrow> string \<Rightarrow> string" where
  "trim_start_matches p s =
     (if p \<noteq> [] \<and> starts_with p s then trim_start_matches p (drop (length p) s) else s)"
  by pat_completeness auto
termination
  by (relation "measure (\<lambda>(p, s). length s)")
    (auto simp: starts_with_def, metis diff_less length_greater_0_conv take_Nil)

declare trim_start_matches.simps [simp del]

fun contains_sub :: "string \<Rightarrow> string \<Rightarrow> bool" where
  "contains_sub p [] = (p = [])"
| "contains_sub p (c # cs) = (starts_with p (c # cs) \<or> contains_sub p cs)"

text \<open>\<open>split_once\<close> on a string: at its first occurrence.\<close>

fun split_once_str :: "string \<Rightarrow> string \<Rightarrow> (string \<times> string) option" where
  "split_once_str p [] = (if p = [] then Some ([], []) else None)"
| "split_once_str p (c # cs) =
     (if starts_with p (c # cs) then Some ([], drop (length p) (c # cs))
      else map_option (\<lambda>(a, b). (c # a, b)) (split_once_str p cs))"

definition quoted :: "string \<Rightarrow> string" where
  "quoted s = CHR 0x27 # s @ [CHR 0x27]"

text \<open>\<open>str::replace\<close>: from the left, every occurrence of a pattern that is not empty.\<close>

fun replace_all :: "string \<Rightarrow> string \<Rightarrow> string \<Rightarrow> string" where
  "replace_all p r [] = []"
| "replace_all p r (c # cs) =
     (if starts_with p (c # cs) then r @ replace_all p r (drop (length p - 1) cs) else c # replace_all p r cs)"

definition replace_char :: "char \<Rightarrow> string \<Rightarrow> string \<Rightarrow> string" where
  "replace_char c r s = concat (map (\<lambda>x. if x = c then r else [x]) s)"

section \<open>Decimal numbers\<close>

fun digits_value :: "nat \<Rightarrow> string \<Rightarrow> nat option" where
  "digits_value acc [] = Some acc"
| "digits_value acc (c # cs) =
     (if is_digit c then digits_value (10 * acc + (of_char c - 48)) cs else None)"

text \<open>
  \<open>str::parse\<close> at an unsigned type with values below \<open>bound\<close>: one optional leading plus sign,
  at least one digit, nothing else, and no overflow.
\<close>

definition parse_below :: "nat \<Rightarrow> string \<Rightarrow> nat option" where
  "parse_below bound s =
     (let ds = (case s of c # cs \<Rightarrow> if c = CHR ''+'' then cs else s | [] \<Rightarrow> [])
      in if ds = [] then None
         else case digits_value 0 ds of
                None \<Rightarrow> None | Some n \<Rightarrow> if n < bound then Some n else None)"

definition parse_u8 :: "string \<Rightarrow> u8 option" where
  "parse_u8 s = map_option of_nat (parse_below (2 ^ 8) s)"

definition parse_u16 :: "string \<Rightarrow> u16 option" where
  "parse_u16 s = map_option of_nat (parse_below (2 ^ 16) s)"

definition parse_u32 :: "string \<Rightarrow> u32 option" where
  "parse_u32 s = map_option of_nat (parse_below (2 ^ 32) s)"

definition parse_u64 :: "string \<Rightarrow> u64 option" where
  "parse_u64 s = map_option of_nat (parse_below (2 ^ 64) s)"

definition parse_usize :: "string \<Rightarrow> nat option" where
  "parse_usize s = parse_below (2 ^ 64) s"

text \<open>\<open>str::parse::<i32>\<close>: an optional sign, then digits, within the range of the type.\<close>

definition parse_i32 :: "string \<Rightarrow> int option" where
  "parse_i32 s = (case s of
     c # cs \<Rightarrow>
       if c = CHR ''-'' then
         (if cs = [] then None else
          case digits_value 0 cs of None \<Rightarrow> None
          | Some n \<Rightarrow> if n \<le> 2 ^ 31 then Some (- int n) else None)
       else map_option int (parse_below (2 ^ 31) s)
   | [] \<Rightarrow> None)"

function show_nat :: "nat \<Rightarrow> string" where
  "show_nat n = (if n < 10 then [char_of (48 + n)] else show_nat (n div 10) @ [char_of (48 + n mod 10)])"
  by pat_completeness auto
termination
  by (relation "measure id") auto

declare show_nat.simps [simp del]

definition show_u16 :: "u16 \<Rightarrow> string" where "show_u16 w = show_nat (unat w)"
definition show_u32 :: "u32 \<Rightarrow> string" where "show_u32 w = show_nat (unat w)"
definition show_u64 :: "u64 \<Rightarrow> string" where "show_u64 w = show_nat (unat w)"
definition show_bool :: "bool \<Rightarrow> string" where
  "show_bool b = (if b then ''true'' else ''false'')"

lemma digit_char: "d < 10 \<Longrightarrow> is_digit (char_of (48 + d)) \<and> of_char (char_of (48 + d :: nat)) = (48 + d :: nat)"
  by (simp add: is_digit_def Let_def)

lemma digits_value_append:
  "digits_value acc (xs @ ys) = Option.bind (digits_value acc xs) (\<lambda>n. digits_value n ys)"
  by (induction acc xs rule: digits_value.induct) auto

lemma show_nat_digits: "c \<in> set (show_nat n) \<Longrightarrow> is_digit c"
proof (induction n rule: show_nat.induct)
  case (1 n)
  then show ?case
    using digit_char [of n] digit_char [of "n mod 10"]
    by (auto simp: show_nat.simps [of n] split: if_splits)
qed

lemma show_nat_not_Nil [simp]: "show_nat n \<noteq> []"
  by (subst show_nat.simps) simp

lemma digits_value_show_nat: "digits_value 0 (show_nat n) = Some n"
proof (induction n rule: show_nat.induct)
  case (1 n)
  show ?case
  proof (cases "n < 10")
    case True
    then show ?thesis using digit_char [of n] by (simp add: show_nat.simps [of n])
  next
    case False
    then have "digits_value 0 (show_nat (n div 10)) = Some (n div 10)" using 1 by simp
    then show ?thesis using digit_char [of "n mod 10"] False
      by (simp add: show_nat.simps [of n] digits_value_append)
  qed
qed

lemma parse_below_digits:
  assumes "s \<noteq> []" "\<forall>c \<in> set s. is_digit c" "digits_value 0 s = Some n"
  shows "parse_below bound s = (if n < bound then Some n else None)"
proof -
  obtain c cs where s: "s = c # cs" using assms(1) by (cases s) auto
  have "c \<noteq> CHR ''+''" using assms(2) s by (auto simp: is_digit_def)
  then show ?thesis using assms s by (simp add: parse_below_def)
qed

lemma parse_below_show_nat [str_simps]:
  "parse_below bound (show_nat n) = (if n < bound then Some n else None)"
  by (rule parse_below_digits) (auto simp: show_nat_digits digits_value_show_nat)

lemma parse_u16_show [simp]: "parse_u16 (show_u16 p) = Some p"
proof -
  have "unat p < 2 ^ 16" using unsigned_less [of p, where ?'a = nat] by simp
  then show ?thesis unfolding parse_u16_def show_u16_def parse_below_show_nat by simp
qed

lemma parse_u32_show [simp]: "parse_u32 (show_u32 p) = Some p"
proof -
  have "unat p < 2 ^ 32" using unsigned_less [of p, where ?'a = nat] by simp
  then show ?thesis unfolding parse_u32_def show_u32_def parse_below_show_nat by simp
qed

lemma parse_u64_show [simp]: "parse_u64 (show_u64 p) = Some p"
proof -
  have "unat p < 2 ^ 64" using unsigned_less [of p, where ?'a = nat] by simp
  then show ?thesis unfolding parse_u64_def show_u64_def parse_below_show_nat by simp
qed

lemma parse_usize_show: "n < 2 ^ 64 \<Longrightarrow> parse_usize (show_nat n) = Some n"
  by (simp add: parse_usize_def str_simps)

lemma digits_value_all_digits: "digits_value acc s = Some n \<Longrightarrow> \<forall>c \<in> set s. is_digit c"
  by (induction acc s rule: digits_value.induct) (auto split: if_splits)

lemma parse_below_chars:
  "parse_below b s = Some n \<Longrightarrow> \<forall>c \<in> set s. is_digit c \<or> c = CHR ''+''"
  by (auto simp: parse_below_def Let_def split: list.splits if_splits option.splits
      dest!: digits_value_all_digits)

lemma show_u16_no_sep [simp]:
  "c \<in> set (show_u16 p) \<Longrightarrow> \<not> is_comma c" "c \<in> set (show_u16 p) \<Longrightarrow> \<not> is_colon c"
  "c \<in> set (show_u16 p) \<Longrightarrow> \<not> is_pipe c" "c \<in> set (show_u16 p) \<Longrightarrow> \<not> is_pipe_comma c"
  "c \<in> set (show_u16 p) \<Longrightarrow> \<not> is_ws c"
  by (auto simp: show_u16_def sep_defs is_digit_def is_ws_def Let_def dest!: show_nat_digits)

lemma digit_chars [simp]:
  "char_of (48 :: nat) = CHR ''0''" "char_of (49 :: nat) = CHR ''1''" "char_of (50 :: nat) = CHR ''2''"
  "char_of (51 :: nat) = CHR ''3''" "char_of (52 :: nat) = CHR ''4''" "char_of (53 :: nat) = CHR ''5''"
  "char_of (54 :: nat) = CHR ''6''" "char_of (55 :: nat) = CHR ''7''" "char_of (56 :: nat) = CHR ''8''"
  "char_of (57 :: nat) = CHR ''9''"
  by code_simp+

text \<open>To evaluate the string operations on literals by \<open>simp\<close>.\<close>

lemmas eval_str = trim_def trim_start_def trim_end_def is_ws_def is_digit_def sep_defs
  split_once_def rsplit_once_def parse_u8_def parse_u16_def parse_u32_def parse_u64_def parse_usize_def
  parse_below_def

section \<open>Duplicates, insertion-ordered maps\<close>

text \<open>
  \<open>Itertools::unique\<close>, or a filter by \<open>HashSet::insert\<close>: the first occurrence of each value, in order.
\<close>

definition uniq :: "'a list \<Rightarrow> 'a list" where
  "uniq xs = rev (remdups (rev xs))"

lemma set_uniq [simp]: "set (uniq xs) = set xs" and distinct_uniq [simp]: "distinct (uniq xs)"
  by (simp_all add: uniq_def)

lemma uniq_Nil [simp]: "uniq [] = []" by (simp add: uniq_def)

lemma uniq_distinct [simp]: "distinct xs \<Longrightarrow> uniq xs = xs"
  by (simp add: uniq_def distinct_remdups_id)

text \<open>
  An \<open>IndexMap\<close> is an association list in insertion order without duplicate keys: inserting a
  present key replaces its value in place, a new key goes to the end (\<^theory_text>\<open>AList.update\<close>).
\<close>

definition im_insert :: "'k \<Rightarrow> 'v \<Rightarrow> ('k \<times> 'v) list \<Rightarrow> ('k \<times> 'v) list" where
  "im_insert k v m = AList.update k v m"

definition im_extend :: "('k \<times> 'v) list \<Rightarrow> ('k \<times> 'v) list \<Rightarrow> ('k \<times> 'v) list" where
  "im_extend m kvs = fold (\<lambda>(k, v) m. im_insert k v m) kvs m"

lemma update_new: "k \<notin> fst ` set m \<Longrightarrow> AList.update k v m = m @ [(k, v)]"
  by (induction m) auto

lemma length_update_present: "k \<in> fst ` set m \<Longrightarrow> length (AList.update k v m) = length m"
  by (induction m) auto

lemma length_im_insert: "length (im_insert k v m) = (if k \<in> fst ` set m then length m else Suc (length m))"
  by (simp add: im_insert_def length_update_present update_new)

lemma keys_im_insert: "fst ` set (im_insert k v m) = insert k (fst ` set m)"
  by (simp add: im_insert_def dom_update)

lemma distinct_im_insert [simp]: "distinct (map fst m) \<Longrightarrow> distinct (map fst (im_insert k v m))"
  by (simp add: im_insert_def distinct_update)

lemma im_extend_simps [simp]:
  "im_extend m [] = m" "im_extend m ((k, v) # kvs) = im_extend (im_insert k v m) kvs"
  by (simp_all add: im_extend_def)

lemma distinct_im_extend [simp]: "distinct (map fst m) \<Longrightarrow> distinct (map fst (im_extend m kvs))"
  by (induction kvs arbitrary: m) auto

lemma im_extend_disjoint:
  "distinct (map fst kvs) \<Longrightarrow> fst ` set m \<inter> fst ` set kvs = {} \<Longrightarrow> im_extend m kvs = m @ kvs"
proof (induction kvs arbitrary: m)
  case (Cons kv kvs)
  obtain k v where kv: "kv = (k, v)" by (cases kv)
  from Cons.prems have "k \<notin> fst ` set m" by (auto simp: kv)
  then have "im_insert k v m = m @ [(k, v)]" by (simp add: im_insert_def update_new)
  with Cons show ?case by (auto simp: kv)
qed simp

lemma length_im_extend_le: "length (im_extend m kvs) \<le> length m + length kvs"
proof (induction kvs arbitrary: m)
  case (Cons kv kvs)
  obtain k v where kv: "kv = (k, v)" by (cases kv)
  have "length (im_insert k v m) \<le> Suc (length m)" by (simp add: length_im_insert)
  then show ?case using Cons.IH [of "im_insert k v m"] by (simp add: kv)
qed simp

lemma keys_im_extend: "fst ` set (im_extend m kvs) = fst ` set m \<union> fst ` set kvs"
proof (induction kvs arbitrary: m)
  case (Cons kv kvs)
  obtain k v where kv: "kv = (k, v)" by (cases kv)
  show ?case using Cons.IH [of "im_insert k v m"] by (simp add: kv keys_im_insert)
qed simp

lemma length_im_extend_collision:
  "k \<in> fst ` set m \<Longrightarrow> k \<in> fst ` set kvs \<Longrightarrow> length (im_extend m kvs) < length m + length kvs"
proof (induction kvs arbitrary: m)
  case (Cons kv kvs)
  obtain k' v where kv: "kv = (k', v)" by (cases kv)
  show ?case
  proof (cases "k' \<in> fst ` set m")
    case True
    then show ?thesis using length_im_extend_le [of "im_insert k' v m" kvs]
      by (simp add: kv length_im_insert)
  next
    case False
    then have "k \<in> fst ` set kvs" using Cons.prems kv by auto
    moreover have "k \<in> fst ` set (im_insert k' v m)" using Cons.prems by (simp add: keys_im_insert)
    ultimately show ?thesis using Cons.IH [of "im_insert k' v m"] False
      by (simp add: kv length_im_insert)
  qed
qed simp

section \<open>Positions, grouping, optional lists\<close>

definition nth_opt :: "'a list \<Rightarrow> nat \<Rightarrow> 'a option" where
  "nth_opt xs i = (if i < length xs then Some (xs ! i) else None)"

fun position :: "('a \<Rightarrow> bool) \<Rightarrow> 'a list \<Rightarrow> nat option" where
  "position P [] = None"
| "position P (x # xs) = (if P x then Some 0 else map_option Suc (position P xs))"

text \<open>\<open>Itertools::into_group_map_by\<close>: the elements with a key, in their order.\<close>

definition group_map_by :: "('a \<Rightarrow> 'k) \<Rightarrow> 'a list \<Rightarrow> ('k \<rightharpoonup> 'a list)" where
  "group_map_by f xs = (\<lambda>k. if k \<in> f ` set xs then Some (filter (\<lambda>x. f x = k) xs) else None)"

fun those_opt :: "'a option list \<Rightarrow> 'a list option" where
  "those_opt [] = Some []"
| "those_opt (x # xs) = (case x of None \<Rightarrow> None | Some y \<Rightarrow> map_option (\<lambda>ys. y # ys) (those_opt xs))"

lemma those_opt_map_Some: "\<forall>x \<in> set xs. f x = Some (g x) \<Longrightarrow> those_opt (map f xs) = Some (map g xs)"
  by (induction xs) auto

lemma distinct_map_nths:
  assumes "distinct js" "set js \<subseteq> {..<length xs}" "distinct (map f xs)"
  shows "distinct (map (\<lambda>i. f (xs ! i)) js)"
proof -
  have "inj_on (\<lambda>i. f (xs ! i)) (set js)"
  proof (rule inj_onI)
    fix i j assume "i \<in> set js" "j \<in> set js" and e: "f (xs ! i) = f (xs ! j)"
    then have "i < length xs" "j < length xs" using assms(2) by auto
    with e assms(3) show "i = j" using nth_eq_iff_index_eq [of "map f xs" i j] by simp
  qed
  with assms(1) show ?thesis by (simp add: distinct_map)
qed

end
