(* ===== verification/Eloq_Ini.thy ===== *)
theory Eloq_Ini
  imports Eloq_Prelude
begin

text \<open>
  The interface of the \<open>configparser\<close> crate's \<open>Ini\<close> that the program uses to write node
  configurations. The crate is not part of the program: its operations are the fields of a record
  that the generators take as an argument, and what the program relies on is stated by the locale
  \<open>ini_lib\<close>: keys and sections are case-insensitive, \<open>get\<close> after \<open>set\<close> returns the value set, and
  after a removal nothing. An association list of sections satisfies these laws.
\<close>

section \<open>Operations\<close>

record 'i ini_ops =
  ini_get :: "'i \<Rightarrow> string \<Rightarrow> string \<Rightarrow> string option"
  ini_set :: "'i \<Rightarrow> string \<Rightarrow> string \<Rightarrow> string option \<Rightarrow> 'i"
  ini_section :: "'i \<Rightarrow> string \<Rightarrow> (string \<times> string option) list option"
  ini_remove_key :: "'i \<Rightarrow> string \<Rightarrow> string \<Rightarrow> 'i"
  ini_remove_section :: "'i \<Rightarrow> string \<Rightarrow> 'i"

definition override_mark :: string where
  "override_mark = ''${OVERRIDE}''"

text \<open>A run of \<open>ini.set(section, key, Some(value))\<close> statements is a list of triples.\<close>

type_synonym ini_cmd = "string \<times> string \<times> string"

definition set_all :: "('i, 'm) ini_ops_scheme \<Rightarrow> ini_cmd list \<Rightarrow> 'i \<Rightarrow> 'i" where
  "set_all ops cmds i = fold (\<lambda>(s, k, v) i. ini_set ops i s k (Some v)) cmds i"

text \<open>\<open>if let Some(v) = value { ini.set(section, key, Some(v)) }\<close>.\<close>

definition opt_set :: "string \<Rightarrow> string \<Rightarrow> string option \<Rightarrow> ini_cmd list" where
  "opt_set s k v = (case v of None \<Rightarrow> [] | Some x \<Rightarrow> [(s, k, x)])"

lemma set_all_simps [simp]:
  "set_all ops [] i = i"
  "set_all ops ((s, k, v) # cmds) i = set_all ops cmds (ini_set ops i s k (Some v))"
  "set_all ops (cmds @ cmds') i = set_all ops cmds' (set_all ops cmds i)"
  by (simp_all add: set_all_def)

section \<open>What the commands leave behind\<close>

definition same_key :: "string \<Rightarrow> string \<Rightarrow> string \<Rightarrow> string \<Rightarrow> bool" where
  "same_key s k s' k' \<longleftrightarrow> to_lower s = to_lower s' \<and> to_lower k = to_lower k'"

text \<open>The value of the last command for a key, if there is one.\<close>

fun last_set :: "ini_cmd list \<Rightarrow> string \<Rightarrow> string \<Rightarrow> string option" where
  "last_set [] s k = None"
| "last_set ((s', k', v) # cmds) s k =
     (case last_set cmds s k of
        Some x \<Rightarrow> Some x | None \<Rightarrow> if same_key s' k' s k then Some v else None)"

lemma last_set_append:
  "last_set (cmds @ cmds') s k = (case last_set cmds' s k of Some x \<Rightarrow> Some x | None \<Rightarrow> last_set cmds s k)"
  by (induction cmds s k rule: last_set.induct) (auto split: option.splits)

lemma last_set_opt_set [simp]:
  "last_set (opt_set s k v) s' k' = (if same_key s k s' k' then v else None)"
  by (auto simp: opt_set_def split: option.splits)

lemma last_set_None: "(\<And>s' k' v. (s', k', v) \<in> set cmds \<Longrightarrow> \<not> same_key s' k' s k) \<Longrightarrow> last_set cmds s k = None"
proof (induction cmds)
  case (Cons c cmds)
  obtain s' k' v where c: "c = (s', k', v)" by (cases c)
  have "last_set cmds s k = None" by (rule Cons.IH) (use Cons.prems in auto)
  moreover have "\<not> same_key s' k' s k" using Cons.prems [of s' k' v] c by simp
  ultimately show ?case by (simp add: c)
qed simp

locale ini_lib =
  fixes ops :: "'i ini_ops"
  assumes get_set: "ini_get ops (ini_set ops i s k v) s' k' =
      (if same_key s k s' k' then v else ini_get ops i s' k')"
    and get_remove_key: "ini_get ops (ini_remove_key ops i s k) s' k' =
      (if same_key s k s' k' then None else ini_get ops i s' k')"
    and get_remove_section: "ini_get ops (ini_remove_section ops i s) s' k' =
      (if to_lower s = to_lower s' then None else ini_get ops i s' k')"
    and get_section: "to_lower s = s \<Longrightarrow> ini_get ops i s k =
      (case ini_section ops i s of None \<Rightarrow> None
       | Some kvs \<Rightarrow> (case map_of kvs (to_lower k) of None \<Rightarrow> None | Some v \<Rightarrow> v))"
begin

lemma get_set_all:
  "ini_get ops (set_all ops cmds i) s k =
   (case last_set cmds s k of Some v \<Rightarrow> Some v | None \<Rightarrow> ini_get ops i s k)"
  by (induction cmds s k arbitrary: i rule: last_set.induct)
    (auto simp: get_set split: option.splits)

lemma get_set_all_other:
  "last_set cmds s k = None \<Longrightarrow> ini_get ops (set_all ops cmds i) s k = ini_get ops i s k"
  by (simp add: get_set_all)

lemma get_remove_keys:
  "ini_get ops (fold (\<lambda>k i. ini_remove_key ops i s k) ks i) s' k' =
   (if \<exists>k \<in> set ks. same_key s k s' k' then None else ini_get ops i s' k')"
  by (induction ks arbitrary: i) (auto simp: get_remove_key)

end

section \<open>An association list of sections\<close>

type_synonym mini = "(string \<times> (string \<times> string option) list) list"

definition mini_sec :: "mini \<Rightarrow> string \<Rightarrow> (string \<times> string option) list option" where
  "mini_sec i s = map_of i (to_lower s)"

definition mini_ops :: "mini ini_ops" where
  "mini_ops = \<lparr>
     ini_get = (\<lambda>i s k. case mini_sec i s of None \<Rightarrow> None
       | Some kvs \<Rightarrow> (case map_of kvs (to_lower k) of None \<Rightarrow> None | Some v \<Rightarrow> v)),
     ini_set = (\<lambda>i s k v. AList.update (to_lower s)
       (AList.update (to_lower k) v (case mini_sec i s of None \<Rightarrow> [] | Some kvs \<Rightarrow> kvs)) i),
     ini_section = (\<lambda>i s. map_of i s),
     ini_remove_key = (\<lambda>i s k. case mini_sec i s of None \<Rightarrow> i
       | Some kvs \<Rightarrow> AList.update (to_lower s) (AList.delete (to_lower k) kvs) i),
     ini_remove_section = (\<lambda>i s. AList.delete (to_lower s) i)\<rparr>"

interpretation mini: ini_lib mini_ops
  by unfold_locales
    (auto simp: mini_ops_def mini_sec_def same_key_def update_conv' delete_conv' split: option.splits)

section \<open>Evaluating keys\<close>

lemma ascii_lower_id [simp]:
  "ascii_lower CHR ''a'' = CHR ''a''" "ascii_lower CHR ''b'' = CHR ''b''" "ascii_lower CHR ''c'' = CHR ''c''"
  "ascii_lower CHR ''d'' = CHR ''d''" "ascii_lower CHR ''e'' = CHR ''e''" "ascii_lower CHR ''f'' = CHR ''f''"
  "ascii_lower CHR ''g'' = CHR ''g''" "ascii_lower CHR ''h'' = CHR ''h''" "ascii_lower CHR ''i'' = CHR ''i''"
  "ascii_lower CHR ''j'' = CHR ''j''" "ascii_lower CHR ''k'' = CHR ''k''" "ascii_lower CHR ''l'' = CHR ''l''"
  "ascii_lower CHR ''m'' = CHR ''m''" "ascii_lower CHR ''n'' = CHR ''n''" "ascii_lower CHR ''o'' = CHR ''o''"
  "ascii_lower CHR ''p'' = CHR ''p''" "ascii_lower CHR ''q'' = CHR ''q''" "ascii_lower CHR ''r'' = CHR ''r''"
  "ascii_lower CHR ''s'' = CHR ''s''" "ascii_lower CHR ''t'' = CHR ''t''" "ascii_lower CHR ''u'' = CHR ''u''"
  "ascii_lower CHR ''v'' = CHR ''v''" "ascii_lower CHR ''w'' = CHR ''w''" "ascii_lower CHR ''x'' = CHR ''x''"
  "ascii_lower CHR ''y'' = CHR ''y''" "ascii_lower CHR ''z'' = CHR ''z''" "ascii_lower CHR ''_'' = CHR ''_''"
  "ascii_lower CHR ''0'' = CHR ''0''" "ascii_lower CHR ''3'' = CHR ''3''"
  by code_simp+

end
