(* ===== verification/Deploy_Model.thy ===== *)
theory Deploy_Model
  imports Eloq_Prelude
begin

text \<open>
  The configuration data of the program: the structures that a deployment YAML file is parsed
  into (\<open>src/cluster_mgr/src/config/\<close>). Every record has the fields of its Rust structure, in its
  order and under its name with a short prefix where the name occurs in several structures.
  A \<open>HashMap\<close> is a partial map; the environment variables, whose iteration order reaches an
  output, are the list of pairs in that order. The only floating-point field is never computed
  with, so the model keeps the text it is displayed as.
\<close>

section \<open>Connections (connection.rs)\<close>

record auth =
  auth_password :: "string option"
  auth_keypair :: "string option"

record ssh_endpoint_t =
  ssh_ep_host :: string
  ssh_ep_port :: "u16 option"

record service_endpoint_t =
  svc_ep_host :: string
  svc_ep_port :: "u16 option"

record connection =
  username :: string
  auth_type :: string
  conn_auth :: auth
  conn_port :: "u16 option"
  ssh_endpoints :: "(string \<rightharpoonup> ssh_endpoint_t) option"
  service_endpoints :: "(string \<rightharpoonup> service_endpoint_t) option"

section \<open>Packages and providers (mod.rs)\<close>

datatype deployment_package =
    EloqTx | Storage | PrometheusPkg | AlertmanagerPkg | GrafanaPkg | PrometheusAlert
  | EloqLog | EloqStandby | EloqVoter

datatype storage_provider = RocksdbProvider | EloqDSSProvider

section \<open>The transaction service and hardware (deployment.rs)\<close>

record eloq_port =
  ep_start :: u16
  ep_end :: u16

record port =
  cs_conn :: "u16 option"
  port_eloq :: "eloq_port option"

record eloq_service =
  tx_srv_image :: "string option"
  tx_host_ports :: "string list"
  standby_host_ports :: "string list option"
  voter_host_ports :: "string list option"
  requirepass :: "string option"
  enable_cache_replacement :: "string option"
  client_port :: "u16 option"
  max_standby_lag :: "u32 option"

datatype product = EloqKV

record hardware =
  hw_cpu :: u16
  hw_memory :: u32
  hw_event_dispatcher_num :: "u16 option"
  hw_eloq_data_path :: "string option"
  hw_eloq_store_data_path_list :: "string option"

datatype version = Nightly | Debug | Tag u32 u32 u32 | Devel string

section \<open>The log service (log\_service.rs)\<close>

record log_service_node =
  lsn_host :: string
  lsn_data_dir :: "string list"
  lsn_port :: u16

record log_readiness =
  timeout_sec :: u64
  delay_ms :: "nat option"
  success_threshold :: "nat option"

record log_service =
  log_srv_image :: "string option"
  log_nodes :: "log_service_node list"
  log_replica_num :: u32
  readiness :: "log_readiness option"
  bthread_concurrency :: "u32 option"
  ls_aws_access_key_id :: "string option"
  ls_aws_secret_key :: "string option"
  ls_bucket_name :: "string option"
  ls_endpoint :: "string option"
  ls_region :: "string option"
  ls_bucket_prefix :: "string option"
  ls_object_path :: "string option"
  ls_target_file_size_base :: "string option"
  ls_sst_file_cache_size :: "string option"

section \<open>Storage (storage\_service\_config.rs)\<close>

record dynamodb =
  dyn_access_key_id :: string
  dyn_secret_key :: string
  dyn_region :: string
  dyn_endpoint :: string

record rocks_local =
  rl_path :: "string option"

record rocks_s3 =
  s3_aws_access_key_id :: string
  s3_aws_secret_key :: string
  s3_region :: string
  s3_bucket_name :: string
  s3_bucket_prefix :: string
  s3_endpoint :: "string option"
  s3_target_file_size_base :: string
  s3_sst_file_cache_size :: string
  s3_max_background_jobs :: "string option"
  s3_max_background_flush :: "string option"
  s3_max_background_compaction :: "string option"
  s3_level0_stop_writes_trigger :: "string option"
  s3_level0_slowdown_writes_trigger :: "string option"
  s3_level0_file_num_compaction_trigger :: "string option"
  s3_max_write_buffer_number :: "string option"
  s3_write_buffer_size :: "string option"
  s3_enable_stats :: "string option"
  s3_stats_dump_period_sec :: "string option"
  s3_periodic_compaction_seconds :: "string option"
  s3_delete_obsolete_files_period_micros :: "string option"
  s3_storage_path :: "string option"
  s3_object_path :: "string option"

record rocks_gcp =
  gcs_region :: string
  gcs_bucket_name :: string
  gcs_bucket_prefix :: string
  gcs_target_file_size_base :: string
  gcs_sst_file_cache_size :: string
  gcs_enable_stats :: "string option"
  gcs_stats_dump_period_sec :: "string option"
  gcs_periodic_compaction_seconds :: "string option"
  gcs_delete_obsolete_files_period_micros :: "string option"
  gcs_object_path :: "string option"

record rocks_minio =
  minio_aws_access_key_id :: string
  minio_aws_secret_key :: string
  minio_bucket_name :: string
  minio_bucket_prefix :: string
  minio_endpoint :: string
  minio_enable_stats :: "string option"
  minio_stats_dump_period_sec :: "string option"
  minio_periodic_compaction_seconds :: "string option"
  minio_delete_obsolete_files_period_micros :: "string option"
  minio_object_path :: "string option"

record eloq_dss =
  ed_peer_host_ports :: "string list"
  ed_aws_access_key_id :: "string option"
  ed_aws_secret_key :: "string option"
  ed_region :: "string option"
  ed_bucket_name :: "string option"
  ed_bucket_prefix :: "string option"
  ed_target_file_size_base :: "string option"
  ed_sst_file_cache_size :: "string option"
  ed_enable_stats :: "string option"
  ed_stats_dump_period_sec :: "string option"
  ed_periodic_compaction_seconds :: "string option"
  ed_delete_obsolete_files_period_micros :: "string option"
  ed_object_path :: "string option"

datatype rocks_db =
  LOCAL rocks_local | S3 rocks_s3 | GCS rocks_gcp | MINIO rocks_minio | EloqDssRocksdb eloq_dss

datatype dss_mode = Internal | External

record eloq_store_cloud_config =
  cloud_provider :: string
  cloud_access_key :: "string option"
  cloud_secret_key :: "string option"
  cloud_endpoint :: string
  cloud_region :: string
  cloud_verify_ssl :: "bool option"
  max_cloud_concurrency :: "u32 option"
  cloud_request_threads :: "u32 option"
  prewarm_cloud_cache :: "bool option"
  prewarm_task_count :: "u32 option"
  reuse_local_files :: "bool option"

type_synonym f32_text = string

record eloq_store_config =
  es_worker_num :: "u32 option"
  es_data_path_list :: "string option"
  es_open_files_limit :: "u32 option"
  es_data_page_restart_interval :: "u32 option"
  es_index_page_restart_interval :: "u32 option"
  es_init_page_count :: "u32 option"
  es_skip_verify_checksum :: "bool option"
  es_buffer_pool_size :: "string option"
  es_manifest_limit :: "u32 option"
  es_io_queue_size :: "u32 option"
  es_max_inflight_write :: "u32 option"
  es_max_write_batch_pages :: "u32 option"
  es_buf_ring_size :: "u32 option"
  es_coroutine_stack_size :: "u32 option"
  es_num_retained_archives :: "u32 option"
  es_archive_interval_secs :: "u32 option"
  es_max_archive_tasks :: "u32 option"
  es_file_amplify_factor :: "u32 option"
  es_local_space_limit :: "string option"
  es_reserve_space_ratio :: "f32_text option"
  es_data_page_size :: "u32 option"
  es_pages_per_file_shift :: "u32 option"
  es_overflow_pointers :: "u32 option"
  es_enable_compression :: "bool option"
  es_max_upload_batch :: "u32 option"
  es_standby_max_concurrency :: "u32 option"
  es_cloud_store_path :: "string option"
  es_data_append_mode :: "bool option"
  es_cloud_config :: "eloq_store_cloud_config option"

datatype dss_backend = EloqStore eloq_store_config

record data_store_service =
  dss_backend_of :: dss_backend
  dss_peer_host_ports :: "string list option"
  dss_mode_of :: dss_mode

record storage_service =
  st_dynamodb :: "dynamodb option"
  st_rocksdb :: "rocks_db option"
  st_eloqdss :: "data_store_service option"

section \<open>Monitoring (monitor.rs)\<close>

record grafana =
  graf_download_url :: string
  graf_port :: u16
  graf_host :: string

record alertmanager =
  am_download_url :: string
  am_port :: u16
  am_host :: string
  am_feishu_robot_urls :: "string list option"
  am_webhook_adapter_download_url :: string
  am_webhook_adapter_port :: u16

record alert_thresholds =
  memory_warning_pct :: u8
  memory_critical_pct :: u8
  memory_emergency_pct :: u8
  cache_hit_ratio_pct :: u8
  fragmentation_ratio_pct :: u8
  max_connections_pct :: u8
  max_standby_lag_pct :: u8
  leader_change_max_per_10m :: u8

record prometheus =
  prom_download_url :: string
  prom_port :: u16
  prom_host :: string
  retention_time :: "string option"
  retention_size :: "string option"
  remote_write_urls :: "string list option"
  alertmanager_targets :: "string list option"
  alert_thresholds_of :: "alert_thresholds option"

record eloq_metrics =
  metrics_path :: "string option"
  metrics_port :: "u16 option"

record exporter =
  exporter_url :: string
  exporter_port :: u16

record monitor =
  mon_data_dir :: "string option"
  mon_prometheus :: "prometheus option"
  mon_alertmanager :: "alertmanager option"
  mon_grafana :: "grafana option"
  mon_node_exporter :: "exporter option"
  mon_eloq_metrics :: "eloq_metrics option"

section \<open>The deployment (deployment.rs, config\_base.rs)\<close>

record deployment =
  dep_product :: product
  dep_version :: "string option"
  cluster_name :: string
  dep_install_dir :: string
  tx_service :: eloq_service
  dep_log_service :: "log_service option"
  dep_storage_service :: "storage_service option"
  dep_monitor :: "monitor option"
  dep_hardware :: "(string \<rightharpoonup> hardware) option"
  enable_wal :: "bool option"
  enable_io_uring :: "bool option"
  bind_all :: "bool option"
  checkpoint_interval :: "u32 option"
  enable_tls :: "bool option"
  maxclients :: "u32 option"
  cluster_mode :: "bool option"
  environment_variables :: "(string \<times> string) list option"

record deploy_config =
  cfg_connection :: connection
  cfg_deployment :: deployment
  conf_opts :: "(string \<rightharpoonup> bool) option"
  tx_version_override :: "string option"
  tx_image_override :: "string option"

section \<open>Small configurations for examples\<close>

definition bare_service :: "string list \<Rightarrow> string list option \<Rightarrow> string list option \<Rightarrow> eloq_service" where
  "bare_service tx sb vo = \<lparr>tx_srv_image = None, tx_host_ports = tx, standby_host_ports = sb,
     voter_host_ports = vo, requirepass = None, enable_cache_replacement = None, client_port = None,
     max_standby_lag = None\<rparr>"

definition bare_deployment :: "string \<Rightarrow> string \<Rightarrow> eloq_service \<Rightarrow> deployment" where
  "bare_deployment name dir svc = \<lparr>dep_product = EloqKV, dep_version = None, cluster_name = name,
     dep_install_dir = dir, tx_service = svc, dep_log_service = None, dep_storage_service = None,
     dep_monitor = None, dep_hardware = None, enable_wal = None, enable_io_uring = None,
     bind_all = None, checkpoint_interval = None, enable_tls = None, maxclients = None,
     cluster_mode = None, environment_variables = None\<rparr>"

definition bare_config :: "deployment \<Rightarrow> deploy_config" where
  "bare_config d = \<lparr>cfg_connection = \<lparr>username = ''eloq'', auth_type = ''keypair'',
       conn_auth = \<lparr>auth_password = None, auth_keypair = None\<rparr>, conn_port = None,
       ssh_endpoints = None, service_endpoints = None\<rparr>,
     cfg_deployment = d, conf_opts = None, tx_version_override = None, tx_image_override = None\<rparr>"

lemma bare_service_simps [simp]:
  "tx_host_ports (bare_service tx sb vo) = tx" "standby_host_ports (bare_service tx sb vo) = sb"
  "voter_host_ports (bare_service tx sb vo) = vo" "requirepass (bare_service tx sb vo) = None"
  "max_standby_lag (bare_service tx sb vo) = None"
  by (simp_all add: bare_service_def)

lemma bare_deployment_simps [simp]:
  "tx_service (bare_deployment n i svc) = svc" "cluster_name (bare_deployment n i svc) = n"
  "dep_install_dir (bare_deployment n i svc) = i" "dep_product (bare_deployment n i svc) = EloqKV"
  "dep_version (bare_deployment n i svc) = None" "dep_log_service (bare_deployment n i svc) = None"
  "dep_storage_service (bare_deployment n i svc) = None" "dep_monitor (bare_deployment n i svc) = None"
  "dep_hardware (bare_deployment n i svc) = None" "enable_wal (bare_deployment n i svc) = None"
  "enable_tls (bare_deployment n i svc) = None"
  "environment_variables (bare_deployment n i svc) = None"
  by (simp_all add: bare_deployment_def)

lemma bare_config_simps [simp]:
  "cfg_deployment (bare_config d) = d" "service_endpoints (cfg_connection (bare_config d)) = None"
  by (simp_all add: bare_config_def)

end
