(* ===== verification/Storage.thy ===== *)
theory Storage
  imports Deploy_Model
begin

text \<open>
  The storage service configuration (\<open>config/storage_service_config.rs\<close>): which provider is
  selected, the names under which its packages are found, the S3 coordinates, and the modes of the
  data store service.
\<close>

section \<open>Data store service and EloqStore\<close>

definition is_remote_mode :: "data_store_service \<Rightarrow> bool" where
  "is_remote_mode dss \<longleftrightarrow> (case dss_peer_host_ports dss of None \<Rightarrow> False | Some ps \<Rightarrow> ps \<noteq> [])"

definition is_local_mode :: "data_store_service \<Rightarrow> bool" where
  "is_local_mode dss \<longleftrightarrow> \<not> is_remote_mode dss"

definition requires_dss :: "data_store_service \<Rightarrow> bool" where
  "requires_dss dss \<longleftrightarrow> is_remote_mode dss"

definition is_external :: "data_store_service \<Rightarrow> bool" where
  "is_external dss \<longleftrightarrow> (if is_remote_mode dss then dss_mode_of dss = External else False)"

definition is_cloud_mode :: "eloq_store_config \<Rightarrow> bool" where
  "is_cloud_mode c \<longleftrightarrow> (case es_cloud_store_path c of None \<Rightarrow> False | Some s \<Rightarrow> s \<noteq> [])"

definition parse_cloud_store_path :: "eloq_store_config \<Rightarrow> string option" where
  "parse_cloud_store_path c = (case es_cloud_store_path c of
     None \<Rightarrow> None | Some s \<Rightarrow> if trim s = [] then None else Some (trim s))"

definition compute_default_eloq_store_data_path :: "string \<Rightarrow> string" where
  "compute_default_eloq_store_data_path eloq_data_path = eloq_data_path @ ''/eloq_dss/eloqstore_data''"

definition needs_credentials :: "string \<Rightarrow> bool" where
  "needs_credentials provider \<longleftrightarrow> provider = ''aws'' \<or> provider = ''minio''"

definition validate_credentials :: "eloq_store_cloud_config \<Rightarrow> unit res" where
  "validate_credentials c =
     (if needs_credentials (cloud_provider c) \<and> (cloud_access_key c = None \<or> cloud_secret_key c = None)
      then Inl (Err (''eloq_store_cloud_access_key and eloq_store_cloud_secret_key must be set for provider ''
             @ CHR 0x27 # cloud_provider c @ [CHR 0x27]))
      else Inr ())"

section \<open>The provider\<close>

definition provider :: "storage_service \<Rightarrow> storage_provider option" where
  "provider st =
     (if st_rocksdb st \<noteq> None then Some RocksdbProvider
      else if st_eloqdss st \<noteq> None then Some EloqDSSProvider
      else None)"

definition eloq_store_name :: "eloq_store_config \<Rightarrow> string" where
  "eloq_store_name c =
     (if is_cloud_mode c then
        (case es_cloud_config c of
           Some cc \<Rightarrow> if needs_credentials (cloud_provider cc) then ''eloqstore_s3''
                      else if cloud_provider cc = ''gcs'' then ''eloqstore_gcs''
                      else ''eloqstore_s3''
         | None \<Rightarrow> ''eloqstore_s3'')
      else ''eloqstore_local'')"

fun rocks_name :: "rocks_db \<Rightarrow> string" where
  "rocks_name (LOCAL _) = ''rocksdb''"
| "rocks_name (S3 _) = ''rocks_s3''"
| "rocks_name (GCS _) = ''rocks_gcs''"
| "rocks_name (MINIO _) = ''rocks_s3''"
| "rocks_name (EloqDssRocksdb _) = ''eloqdss_rocksdb''"

text \<open>The provider is unwrapped: a storage service without one is a panic.\<close>

definition pretty_name :: "storage_service \<Rightarrow> string res" where
  "pretty_name st = (case provider st of
     None \<Rightarrow> Inl (Panic ''called `Option::unwrap()` on a `None` value'')
   | Some EloqDSSProvider \<Rightarrow>
       (case st_eloqdss st of
          Some dss \<Rightarrow> (case dss_backend_of dss of EloqStore c \<Rightarrow> Inr (eloq_store_name c))
        | None \<Rightarrow> Inr ''eloqdss'')
   | Some RocksdbProvider \<Rightarrow>
       Inr (case st_rocksdb st of Some r \<Rightarrow> rocks_name r | None \<Rightarrow> ''rocksdb''))"

definition is_rocksdb_cloud :: "storage_service \<Rightarrow> bool" where
  "is_rocksdb_cloud st \<longleftrightarrow> (case st_rocksdb st of
     None \<Rightarrow> False
   | Some r \<Rightarrow> (case r of LOCAL _ \<Rightarrow> False | EloqDssRocksdb _ \<Rightarrow> False | S3 _ \<Rightarrow> True | GCS _ \<Rightarrow> True
                 | MINIO _ \<Rightarrow> True))"

definition is_rocksdb_s3 :: "storage_service \<Rightarrow> bool" where
  "is_rocksdb_s3 st \<longleftrightarrow> (case st_rocksdb st of Some (S3 _) \<Rightarrow> True | Some (MINIO _) \<Rightarrow> True | _ \<Rightarrow> False)"

definition get_s3_config :: "storage_service \<Rightarrow> (string \<times> string \<times> string \<times> string \<times> string option) option" where
  "get_s3_config st = (case st_rocksdb st of
     Some (S3 s) \<Rightarrow> Some (s3_bucket_prefix s @ s3_bucket_name s, s3_aws_access_key_id s,
                          s3_aws_secret_key s, s3_region s, s3_endpoint s)
   | Some (MINIO m) \<Rightarrow> Some (minio_bucket_prefix m @ minio_bucket_name m, minio_aws_access_key_id m,
                          minio_aws_secret_key m, ''us-east-1'', Some (minio_endpoint m))
   | _ \<Rightarrow> None)"

definition get_eloq_storage :: "storage_service option \<Rightarrow> storage_provider res" where
  "get_eloq_storage s = (case s of
     Some st \<Rightarrow> (case provider st of Some sp \<Rightarrow> Inr sp | None \<Rightarrow> Inl (Err ''storage provider is missing''))
   | None \<Rightarrow> Inl (Err ''storage service is missing''))"

definition abstract_store_name :: "deployment \<Rightarrow> string res" where
  "abstract_store_name d = (case dep_storage_service d of Some st \<Rightarrow> pretty_name st | None \<Rightarrow> Inr ''rocksdb'')"

lemma is_rocksdb_s3_config: "is_rocksdb_s3 st \<longleftrightarrow> get_s3_config st \<noteq> None"
  by (auto simp: is_rocksdb_s3_def get_s3_config_def split: option.splits rocks_db.splits)

lemma s3_is_cloud: "is_rocksdb_s3 st \<Longrightarrow> is_rocksdb_cloud st"
  by (auto simp: is_rocksdb_s3_def is_rocksdb_cloud_def split: option.splits rocks_db.splits)

end
