(* ===== verification/Endpoints.thy ===== *)
theory Endpoints
  imports Deploy_Model
begin

text \<open>
  Address redirection (\<open>config/connection.rs\<close>, and its clients in \<open>config/config_base.rs\<close> and
  \<open>cli/task/redis_op_task.rs\<close>): a node's configured address may be replaced by an endpoint that is
  reachable from the control machine, for SSH and for the service port.
\<close>

section \<open>Resolving endpoints\<close>

definition ssh_port :: "connection \<Rightarrow> u16" where
  "ssh_port c = (case conn_port c of None \<Rightarrow> 22 | Some p \<Rightarrow> p)"

definition ssh_auth_key :: "connection \<Rightarrow> string option" where
  "ssh_auth_key c = auth_keypair (conn_auth c)"

definition ssh_endpoint :: "connection \<Rightarrow> string \<Rightarrow> string \<times> u16" where
  "ssh_endpoint c host =
     (case Option.bind (ssh_endpoints c) (\<lambda>eps. eps host) of
        Some ep \<Rightarrow> (ssh_ep_host ep, case ssh_ep_port ep of None \<Rightarrow> ssh_port c | Some p \<Rightarrow> p)
      | None \<Rightarrow> (host, ssh_port c))"

definition host_port_key :: "string \<Rightarrow> u16 \<Rightarrow> string" where
  "host_port_key host p = host @ '':'' @ show_u16 p"

definition resolve_service_endpoint ::
  "(string \<rightharpoonup> service_endpoint_t) option \<Rightarrow> string \<Rightarrow> u16 \<Rightarrow> string \<times> u16" where
  "resolve_service_endpoint endpoints host p =
     (case Option.bind endpoints (\<lambda>eps. case eps (host_port_key host p) of
             Some ep \<Rightarrow> Some ep | None \<Rightarrow> eps host) of
        Some ep \<Rightarrow> (svc_ep_host ep, case svc_ep_port ep of None \<Rightarrow> p | Some q \<Rightarrow> q)
      | None \<Rightarrow> (host, p))"

definition service_endpoint :: "connection \<Rightarrow> string \<Rightarrow> u16 \<Rightarrow> string \<times> u16" where
  "service_endpoint c host p = resolve_service_endpoint (service_endpoints c) host p"

definition cfg_service_endpoint :: "deploy_config \<Rightarrow> string \<Rightarrow> u16 \<Rightarrow> string \<times> u16" where
  "cfg_service_endpoint cfg host p = service_endpoint (cfg_connection cfg) host p"

definition service_endpoint_url :: "deploy_config \<Rightarrow> string \<Rightarrow> string \<Rightarrow> u16 \<Rightarrow> string" where
  "service_endpoint_url cfg scheme host p =
     (case cfg_service_endpoint cfg host p of
        (eh, ep) \<Rightarrow> scheme @ ''://'' @ eh @ '':'' @ show_u16 ep)"

section \<open>Redirecting \<open>host:port\<close> strings\<close>

text \<open>
  \<open>DeployConfig::service_host_port\<close> and \<open>RedisOpTask::service_host_port\<close> are the same code over two
  resolvers; the shared part takes the resolver as an argument.
\<close>

definition redirect_host_port :: "(string \<Rightarrow> u16 \<Rightarrow> string \<times> u16) \<Rightarrow> string \<Rightarrow> string" where
  "redirect_host_port resolve hp =
     (case rsplit_once is_colon hp of
        None \<Rightarrow> hp
      | Some (host, ps) \<Rightarrow>
          (case parse_u16 ps of
             None \<Rightarrow> hp
           | Some p \<Rightarrow> (case resolve host p of (eh, ep) \<Rightarrow> eh @ '':'' @ show_u16 ep)))"

definition service_host_port :: "deploy_config \<Rightarrow> string \<Rightarrow> string" where
  "service_host_port cfg hp = redirect_host_port (cfg_service_endpoint cfg) hp"

definition service_host_ports :: "deploy_config \<Rightarrow> string list \<Rightarrow> string list" where
  "service_host_ports cfg hps = map (service_host_port cfg) hps"

definition redis_service_host_port ::
  "(string \<rightharpoonup> service_endpoint_t) option \<Rightarrow> string \<Rightarrow> string" where
  "redis_service_host_port eps hp = redirect_host_port (resolve_service_endpoint eps) hp"

definition redis_grpc_url ::
  "(string \<rightharpoonup> service_endpoint_t) option \<Rightarrow> string \<Rightarrow> u16 \<Rightarrow> string" where
  "redis_grpc_url eps host p =
     (case resolve_service_endpoint eps host p of
        (eh, ep) \<Rightarrow> ''http://'' @ eh @ '':'' @ show_u16 ep)"

text \<open>\<open>format!("{host}:{port}")\<close>, and the addresses it produces read back.\<close>

definition addr :: "string \<Rightarrow> u16 \<Rightarrow> string" where
  "addr host p = host @ '':'' @ show_u16 p"

lemma rsplit_addr [simp]: "rsplit_once is_colon (addr host p) = Some (host, show_u16 p)"
  unfolding addr_def by (simp add: str_simps is_colon_def)
    (metis (no_types) is_colon_def rsplit_once_append show_u16_no_sep(2))

lemma split_once_addr [simp]:
  "\<forall>c \<in> set host. \<not> is_colon c \<Longrightarrow> split_once is_colon (addr host p) = Some (host, show_u16 p)"
  by (simp add: addr_def split_once_append is_colon_def)

lemma addr_inject [simp]: "addr h p = addr h' p' \<longleftrightarrow> h = h' \<and> p = p'"
proof
  assume e: "addr h p = addr h' p'"
  then have "rsplit_once is_colon (addr h p) = rsplit_once is_colon (addr h' p')" by simp
  then have "h = h'" "show_u16 p = show_u16 p'" by simp_all
  then show "h = h' \<and> p = p'" using parse_u16_show by (metis option.inject)
qed simp

lemma addr_no_comma: "\<forall>c \<in> set h. \<not> is_comma c \<Longrightarrow> \<forall>c \<in> set (addr h p). \<not> is_comma c"
proof -
  assume h: "\<forall>c \<in> set h. \<not> is_comma c"
  have "\<forall>c \<in> set (show_u16 p). \<not> is_comma c" by (blast dest: show_u16_no_sep(1))
  moreover have "\<not> is_comma (CHR '':'')" by (simp add: is_comma_def)
  ultimately show ?thesis using h by (simp add: addr_def ball_Un)
qed

section \<open>The interface of a resolver\<close>

text \<open>
  What the clients of a resolver rely on: an address without an override is left alone, and two
  lookups of the same address give the same endpoint (it is a function). \<open>overridden\<close> says which
  addresses have an entry.
\<close>

locale resolver =
  fixes resolve :: "string \<Rightarrow> u16 \<Rightarrow> string \<times> u16"
    and overridden :: "string \<Rightarrow> u16 \<Rightarrow> bool"
  assumes passthrough: "\<not> overridden host p \<Longrightarrow> resolve host p = (host, p)"
begin

lemma redirect_addr:
  "redirect_host_port resolve (addr host p) = addr (fst (resolve host p)) (snd (resolve host p))"
proof -
  have "redirect_host_port resolve (addr host p) =
      (case resolve host p of (eh, ep) \<Rightarrow> eh @ '':'' @ show_u16 ep)"
    by (simp add: redirect_host_port_def)
  then show ?thesis by (simp add: addr_def split_beta)
qed

lemma redirect_plain: "\<not> overridden host p \<Longrightarrow> redirect_host_port resolve (addr host p) = addr host p"
  by (simp add: redirect_addr passthrough)

lemma redirect_plain_list:
  "\<forall>(host, p) \<in> set nodes. \<not> overridden host p \<Longrightarrow>
   map (redirect_host_port resolve) (map (\<lambda>(h, p). addr h p) nodes) = map (\<lambda>(h, p). addr h p) nodes"
  by (induction nodes) (auto simp: redirect_plain)

end

definition has_override :: "(string \<rightharpoonup> service_endpoint_t) option \<Rightarrow> string \<Rightarrow> u16 \<Rightarrow> bool" where
  "has_override eps host p \<longleftrightarrow>
     (case eps of None \<Rightarrow> False | Some m \<Rightarrow> m (host_port_key host p) \<noteq> None \<or> m host \<noteq> None)"

interpretation svc: resolver "resolve_service_endpoint eps" "has_override eps"
  by unfold_locales
    (auto simp: resolve_service_endpoint_def has_override_def split: option.splits)

interpretation cfg: resolver "cfg_service_endpoint c" "has_override (service_endpoints (cfg_connection c))"
  unfolding cfg_service_endpoint_def service_endpoint_def
  by unfold_locales (rule svc.passthrough)

end
