(* ===== verification/Log_Groups.thy ===== *)
theory Log_Groups
  imports Endpoints
begin

text \<open>
  The log service (\<open>config/log_service.rs\<close>): how the log nodes are divided into replication groups,
  how group members get their node ids, and what is generated from them (start commands,
  directories, cloud flags). The grouping loop is a \<^theory_text>\<open>partial_function\<close>: that it always
  returns is a theorem.
\<close>

section \<open>Nodes, hosts, group arithmetic\<close>

record node_disk_cell =
  host_idx :: int
  cell_host :: string
  dist_idx :: int
  disk :: string

record log_group_member =
  node_id :: nat
  group_id :: nat
  member_host :: string
  member_port :: u16
  storage_path :: string
  check_health_url :: string

record log_cmd_items =
  group_members_config :: string
  log_member :: log_group_member

definition default_readiness :: log_readiness where
  "default_readiness = \<lparr>timeout_sec = 300, delay_ms = None, success_threshold = Some 3\<rparr>"

definition log_host_unique :: "log_service \<Rightarrow> string list" where
  "log_host_unique srv = uniq (map lsn_host (log_nodes srv))"

definition host_used_ports :: "log_service \<Rightarrow> string \<Rightarrow> u16 list" where
  "host_used_ports srv h = map lsn_port (filter (\<lambda>n. lsn_host n = h) (log_nodes srv))"

definition readiness_opts :: "log_service \<Rightarrow> log_readiness" where
  "readiness_opts srv = (case readiness srv of Some r \<Rightarrow> r | None \<Rightarrow> default_readiness)"

definition log_replica :: "log_service \<Rightarrow> nat" where
  "log_replica srv = unat (log_replica_num srv)"

text \<open>The remainder by a replica count of zero panics.\<close>

definition log_group_count :: "log_service \<Rightarrow> nat res" where
  "log_group_count srv =
     (let host_num = length (log_host_unique srv); m = log_replica srv
      in if host_num < m then Inr 1
         else if m = 0 then Inl (Panic ''remainder with a divisor of zero'')
         else if host_num mod m = 0 then Inr (host_num div m)
         else Inr (host_num div m + 1))"

definition gen_log_node_ids :: "log_service \<Rightarrow> nat \<Rightarrow> nat list res" where
  "gen_log_node_ids srv start =
     (let n = length (log_nodes srv); from = (if start > n then 0 else start)
      in if n = 0 \<and> log_replica srv \<noteq> 0 then Inl (Panic ''subtract with overflow'')
         else Inr (map (\<lambda>idx. if from + idx > n - 1 then n - 1 else from + idx) [0..<log_replica srv]))"

section \<open>Distributing the nodes over groups\<close>

definition host_nodes :: "log_service_node list \<Rightarrow> string \<Rightarrow> (nat \<times> log_service_node) list" where
  "host_nodes ns h = filter (\<lambda>(i, n). lsn_host n = h) (enumerate 0 ns)"

definition sorted_hosts :: "log_service_node list \<Rightarrow> string list" where
  "sorted_hosts ns = sort (remdups (map lsn_host ns))"

definition first_free ::
  "bool list \<Rightarrow> (nat \<times> log_service_node) list \<Rightarrow> (nat \<times> log_service_node) option" where
  "first_free asg cands = find (\<lambda>(i, n). \<not> asg ! i) cands"

definition mk_cell :: "nat \<Rightarrow> log_service_node \<Rightarrow> node_disk_cell" where
  "mk_cell i n = \<lparr>host_idx = int i, cell_host = lsn_host n, dist_idx = 0,
     disk = (case lsn_data_dir n of [] \<Rightarrow> ''default'' | d # _ \<Rightarrow> d)\<rparr>"

text \<open>Step 1 of a group: the leader comes from the next host, in turn, that has a free node.\<close>

fun leader_loop :: "log_service_node list \<Rightarrow> string list \<Rightarrow> nat \<Rightarrow> nat \<Rightarrow> bool list \<Rightarrow>
    nat \<times> (string \<times> nat \<times> log_service_node) option" where
  "leader_loop ns hosts 0 lhi asg = (lhi, None)"
| "leader_loop ns hosts (Suc k) lhi asg =
     (let h = hosts ! (lhi mod length hosts)
      in case first_free asg (host_nodes ns h) of
           Some (i, n) \<Rightarrow> (Suc lhi, Some (h, i, n))
         | None \<Rightarrow> leader_loop ns hosts k (Suc lhi) asg)"

record group_state =
  gs_assigned :: "bool list"
  gs_used :: "string list"
  gs_cells :: "node_disk_cell list"

definition take_node :: "nat \<Rightarrow> log_service_node \<Rightarrow> string list \<Rightarrow> group_state \<Rightarrow> group_state" where
  "take_node i n used st = \<lparr>gs_assigned = (gs_assigned st)[i := True],
     gs_used = used @ gs_used st, gs_cells = gs_cells st @ [mk_cell i n]\<rparr>"

text \<open>Step 2: fill a slot from a host the group does not use yet, else from any free node.\<close>

fun other_host_node :: "log_service_node list \<Rightarrow> string list \<Rightarrow> group_state \<Rightarrow>
    (string \<times> nat \<times> log_service_node) option" where
  "other_host_node ns [] st = None"
| "other_host_node ns (h # hs) st =
     (if h \<in> set (gs_used st) then other_host_node ns hs st
      else case first_free (gs_assigned st) (host_nodes ns h) of
             Some (i, n) \<Rightarrow> Some (h, i, n)
           | None \<Rightarrow> other_host_node ns hs st)"

definition fill_slot :: "log_service_node list \<Rightarrow> string list \<Rightarrow> group_state \<Rightarrow> group_state" where
  "fill_slot ns hosts st =
     (case other_host_node ns hosts st of
        Some (h, i, n) \<Rightarrow> take_node i n [h] st
      | None \<Rightarrow> (case first_free (gs_assigned st) (enumerate 0 ns) of
                  Some (i, n) \<Rightarrow> take_node i n [] st
                | None \<Rightarrow> st))"

fun fill_slots :: "log_service_node list \<Rightarrow> string list \<Rightarrow> nat \<Rightarrow> group_state \<Rightarrow> group_state" where
  "fill_slots ns hosts 0 st = st"
| "fill_slots ns hosts (Suc k) st = fill_slots ns hosts k (fill_slot ns hosts st)"

definition build_group :: "log_service_node list \<Rightarrow> string list \<Rightarrow> nat \<Rightarrow> bool list \<Rightarrow> nat \<Rightarrow>
    group_state \<times> nat" where
  "build_group ns hosts replica asg lhi =
     (case leader_loop ns hosts (length hosts) lhi asg of (lhi', leader) \<Rightarrow>
        (let st0 = \<lparr>gs_assigned = asg, gs_used = [], gs_cells = []\<rparr>;
             st1 = (case leader of None \<Rightarrow> st0 | Some (h, i, n) \<Rightarrow> take_node i n [h] st0)
         in (fill_slots ns hosts (replica - 1) st1, lhi')))"

partial_function (option) grouping_loop :: "log_service_node list \<Rightarrow> string list \<Rightarrow> nat \<Rightarrow>
    bool list \<Rightarrow> nat \<Rightarrow> node_disk_cell list list \<Rightarrow> node_disk_cell list list option" where
  "grouping_loop ns hosts replica asg lhi acc =
     (if list_all (\<lambda>b. b) asg then Some acc
      else case build_group ns hosts replica asg lhi of (st, lhi') \<Rightarrow>
        grouping_loop ns hosts replica (gs_assigned st) lhi'
          (if gs_cells st = [] then acc else acc @ [gs_cells st]))"

definition members_grouping :: "log_service \<Rightarrow> log_service_node list \<Rightarrow>
    node_disk_cell list list option" where
  "members_grouping srv ns =
     grouping_loop ns (sorted_hosts ns) (log_replica srv) (replicate (length ns) False) 0 []"

section \<open>The loop places every node once\<close>

definition cell_idx :: "node_disk_cell \<Rightarrow> nat" where
  "cell_idx c = nat (host_idx c)"

lemma cell_idx_mk_cell [simp]: "cell_idx (mk_cell i n) = i"
  by (simp add: cell_idx_def mk_cell_def)

lemma first_free_host:
  "first_free asg (host_nodes ns h) = Some (i, n) \<Longrightarrow>
   i < length ns \<and> n = ns ! i \<and> lsn_host n = h \<and> \<not> asg ! i"
  by (auto simp: first_free_def host_nodes_def find_Some_iff in_set_enumerate_eq
      dest!: nth_mem)

lemma first_free_any:
  "first_free asg (enumerate 0 ns) = Some (i, n) \<Longrightarrow> i < length ns \<and> n = ns ! i \<and> \<not> asg ! i"
  by (auto simp: first_free_def find_Some_iff nth_enumerate_eq)

lemma first_free_any_None:
  "first_free asg (enumerate 0 ns) = None \<Longrightarrow> i < length ns \<Longrightarrow> asg ! i"
  by (auto simp: first_free_def find_None_iff in_set_enumerate_eq)

lemma first_free_host_None:
  "first_free asg (host_nodes ns h) = None \<Longrightarrow> i < length ns \<Longrightarrow> lsn_host (ns ! i) = h \<Longrightarrow> asg ! i"
  by (auto simp: first_free_def find_None_iff host_nodes_def in_set_enumerate_eq)

lemma leader_loop_Some:
  "leader_loop ns hosts k lhi asg = (lhi', Some (h, i, n)) \<Longrightarrow>
   i < length ns \<and> n = ns ! i \<and> lsn_host n = h \<and> \<not> asg ! i"
  by (induction ns hosts k lhi asg rule: leader_loop.induct)
    (auto simp: Let_def split: option.splits dest: first_free_host)

lemma leader_loop_None:
  "leader_loop ns hosts k lhi asg = (lhi', None) \<Longrightarrow> t < k \<Longrightarrow>
   first_free asg (host_nodes ns (hosts ! ((lhi + t) mod length hosts))) = None"
proof (induction ns hosts k lhi asg arbitrary: t rule: leader_loop.induct)
  case (2 ns hosts k lhi asg)
  from "2.prems"(1) have ff: "first_free asg (host_nodes ns (hosts ! (lhi mod length hosts))) = None"
    and rec: "leader_loop ns hosts k (Suc lhi) asg = (lhi', None)"
    by (auto simp: Let_def split: option.splits)
  show ?case
  proof (cases t)
    case 0
    then show ?thesis using ff by simp
  next
    case (Suc t')
    then show ?thesis using "2.IH" [OF refl ff rec, of t'] "2.prems"(2) by simp
  qed
qed simp

lemma mod_cover: "(m::nat) < L \<Longrightarrow> \<exists>t < L. (lhi + t) mod L = m"
proof -
  assume m: "m < L"
  let ?r = "lhi mod L"
  have r: "?r < L" using m by simp
  have "(lhi + (m + (L - ?r)) mod L) mod L = (?r + (m + (L - ?r))) mod L"
    by (simp add: mod_add_left_eq mod_add_right_eq)
  also have "?r + (m + (L - ?r)) = m + L" using r by simp
  also have "(m + L) mod L = m" using m by simp
  finally show ?thesis using m by (intro exI [of _ "(m + (L - ?r)) mod L"]) simp
qed

lemma leader_found:
  assumes "i < length ns" "\<not> asg ! i"
  shows "\<exists>lhi' h j n. leader_loop ns (sorted_hosts ns) (length (sorted_hosts ns)) lhi asg
    = (lhi', Some (h, j, n))"
proof (rule ccontr)
  let ?hs = "sorted_hosts ns"
  assume "\<not> ?thesis"
  then obtain lhi' where none: "leader_loop ns ?hs (length ?hs) lhi asg = (lhi', None)"
    by (metis option.exhaust prod_cases3 surj_pair)
  have "lsn_host (ns ! i) \<in> set ?hs" using assms(1) by (simp add: sorted_hosts_def)
  then obtain m where m: "m < length ?hs" "?hs ! m = lsn_host (ns ! i)"
    by (metis in_set_conv_nth)
  obtain t where "t < length ?hs" "(lhi + t) mod length ?hs = m" using mod_cover [OF m(1)] by blast
  with leader_loop_None [OF none, of t] m(2)
  have "first_free asg (host_nodes ns (lsn_host (ns ! i))) = None" by simp
  from first_free_host_None [OF this assms(1) refl] assms(2) show False by simp
qed

text \<open>
  The invariant of a group under construction, against the assignment \<open>asg0\<close> it started from: the
  cells are those of distinct nodes that were free, and exactly these nodes became assigned.
\<close>

definition group_inv :: "log_service_node list \<Rightarrow> bool list \<Rightarrow> group_state \<Rightarrow> bool" where
  "group_inv ns asg0 st \<longleftrightarrow>
     (let is = map cell_idx (gs_cells st) in
      length (gs_assigned st) = length ns \<and> distinct is \<and>
      (\<forall>i \<in> set is. i < length ns \<and> \<not> asg0 ! i) \<and>
      (\<forall>j < length ns. gs_assigned st ! j = (asg0 ! j \<or> j \<in> set is)) \<and>
      gs_cells st = map (\<lambda>i. mk_cell i (ns ! i)) is)"

lemma group_inv_init:
  "length asg = length ns \<Longrightarrow> group_inv ns asg \<lparr>gs_assigned = asg, gs_used = u, gs_cells = []\<rparr>"
  by (simp add: group_inv_def)

lemma group_inv_take:
  assumes "group_inv ns asg0 st" "i < length ns" "\<not> gs_assigned st ! i"
  shows "group_inv ns asg0 (take_node i (ns ! i) u st)"
  using assms by (auto simp: group_inv_def take_node_def Let_def nth_list_update)

lemma other_host_node_Some:
  "other_host_node ns hosts st = Some (h, i, n) \<Longrightarrow>
   i < length ns \<and> n = ns ! i \<and> \<not> gs_assigned st ! i \<and> h \<notin> set (gs_used st) \<and> lsn_host n = h"
  by (induction ns hosts st rule: other_host_node.induct)
    (auto split: if_splits option.splits dest: first_free_host)

lemma group_inv_fill_slot: "group_inv ns asg0 st \<Longrightarrow> group_inv ns asg0 (fill_slot ns hosts st)"
  unfolding fill_slot_def
  by (auto split: option.split intro!: group_inv_take
      dest!: other_host_node_Some first_free_any)

lemma group_inv_fill_slots: "group_inv ns asg0 st \<Longrightarrow> group_inv ns asg0 (fill_slots ns hosts k st)"
  by (induction ns hosts k st rule: fill_slots.induct) (simp_all add: group_inv_fill_slot)

text \<open>A slot stays empty only when no node is left.\<close>

lemma fill_slot_length:
  "length (gs_cells (fill_slot ns hosts st)) = Suc (length (gs_cells st)) \<or>
   (\<forall>i < length ns. gs_assigned st ! i) \<and> fill_slot ns hosts st = st"
  unfolding fill_slot_def
  by (auto simp: take_node_def split: option.split dest: first_free_any_None)

lemma fill_slots_full: "\<forall>i < length ns. gs_assigned st ! i \<Longrightarrow> fill_slots ns hosts k st = st"
proof (induction k)
  case (Suc k)
  have "fill_slot ns hosts st = st"
    unfolding fill_slot_def using Suc.prems
    by (auto split: option.split dest!: other_host_node_Some first_free_any)
  then show ?case using Suc by simp
qed simp

lemma fill_slots_length:
  "length (gs_cells (fill_slots ns hosts k st)) = length (gs_cells st) + k \<or>
   length (gs_cells (fill_slots ns hosts k st)) < length (gs_cells st) + k \<and>
   (\<forall>i < length ns. gs_assigned (fill_slots ns hosts k st) ! i)"
proof (induction k arbitrary: st)
  case (Suc k)
  show ?case
  proof (cases "\<forall>i < length ns. gs_assigned st ! i")
    case True
    then show ?thesis using fill_slots_full [OF True, of hosts "Suc k"] by auto
  next
    case False
    then have "length (gs_cells (fill_slot ns hosts st)) = Suc (length (gs_cells st))"
      using fill_slot_length [of ns hosts st] by blast
    then show ?thesis using Suc.IH [of "fill_slot ns hosts st"] by auto
  qed
qed simp

definition group_ok :: "log_service_node list \<Rightarrow> nat \<Rightarrow> bool list \<Rightarrow> group_state \<Rightarrow> bool" where
  "group_ok ns replica asg st \<longleftrightarrow> group_inv ns asg st \<and> gs_cells st \<noteq> [] \<and>
     (length (gs_cells st) = max 1 replica \<or>
      length (gs_cells st) < max 1 replica \<and> list_all (\<lambda>b. b) (gs_assigned st))"

lemma fill_slots_mono: "length (gs_cells st) \<le> length (gs_cells (fill_slots ns hosts k st))"
proof (induction k arbitrary: st)
  case (Suc k)
  have "length (gs_cells st) \<le> length (gs_cells (fill_slot ns hosts st))"
    using fill_slot_length [of ns hosts st] by auto
  then show ?case using Suc.IH [of "fill_slot ns hosts st"] by simp
qed simp

lemma build_group_ok:
  assumes len: "length asg = length ns" and free: "\<not> list_all (\<lambda>b. b) asg"
  shows "group_ok ns replica asg (fst (build_group ns (sorted_hosts ns) replica asg lhi))"
proof -
  let ?hs = "sorted_hosts ns"
  from free len obtain i where i: "i < length ns" "\<not> asg ! i" by (auto simp: list_all_length)
  obtain lhi' h j n where ld: "leader_loop ns ?hs (length ?hs) lhi asg = (lhi', Some (h, j, n))"
    using leader_found [OF i] by blast
  define st1 where "st1 = take_node j n [h] \<lparr>gs_assigned = asg, gs_used = [], gs_cells = []\<rparr>"
  define st where "st = fill_slots ns ?hs (replica - 1) st1"
  have bg: "fst (build_group ns ?hs replica asg lhi) = st"
    by (simp add: build_group_def ld st_def st1_def)
  from leader_loop_Some [OF ld] have "group_inv ns asg st1"
    unfolding st1_def using group_inv_init [OF len] group_inv_take by auto
  then have inv: "group_inv ns asg st" unfolding st_def by (rule group_inv_fill_slots)
  have one: "length (gs_cells st1) = 1" by (simp add: st1_def take_node_def)
  have ne: "gs_cells st \<noteq> []"
    using fill_slots_mono [of st1 ns ?hs "replica - 1"] one unfolding st_def by auto
  have len': "length (gs_assigned st) = length ns" using inv by (simp add: group_inv_def Let_def)
  have max: "max 1 replica = 1 + (replica - 1)" by (cases replica) simp_all
  have "length (gs_cells st) = max 1 replica \<or>
      length (gs_cells st) < max 1 replica \<and> (\<forall>i < length ns. gs_assigned st ! i)"
    using fill_slots_length [of ns ?hs "replica - 1" st1] one unfolding st_def max by simp
  then show ?thesis using inv ne len' unfolding bg group_ok_def by (auto simp: list_all_length)
qed

text \<open>
  The table that a run of the loop adds, described by the assignment it starts from.
\<close>

definition table_ok :: "log_service_node list \<Rightarrow> nat \<Rightarrow> bool list \<Rightarrow> node_disk_cell list list \<Rightarrow> bool" where
  "table_ok ns replica asg tab \<longleftrightarrow>
     distinct (map cell_idx (concat tab)) \<and>
     set (map cell_idx (concat tab)) = {j. j < length ns \<and> \<not> asg ! j} \<and>
     concat tab = map (\<lambda>i. mk_cell i (ns ! i)) (map cell_idx (concat tab)) \<and>
     (\<forall>g \<in> set tab. g \<noteq> [] \<and> length g \<le> max 1 replica) \<and>
     (\<forall>g \<in> set (butlast tab). length g = max 1 replica)"

lemma table_ok_Nil: "list_all (\<lambda>b. b) asg \<Longrightarrow> length asg = length ns \<Longrightarrow> table_ok ns replica asg []"
  by (auto simp: table_ok_def list_all_length)

lemma table_ok_Cons:
  assumes g: "group_ok ns replica asg st"
    and t: "table_ok ns replica (gs_assigned st) tab"
  shows "table_ok ns replica asg (gs_cells st # tab)"
proof -
  let ?is = "map cell_idx (gs_cells st)"
  from g have inv: "distinct ?is" "\<forall>i \<in> set ?is. i < length ns \<and> \<not> asg ! i"
    "\<forall>j < length ns. gs_assigned st ! j = (asg ! j \<or> j \<in> set ?is)"
    "gs_cells st = map (\<lambda>i. mk_cell i (ns ! i)) ?is"
    "length (gs_assigned st) = length ns"
    by (simp_all add: group_ok_def group_inv_def Let_def)
  from t have st: "set (map cell_idx (concat tab)) = {j. j < length ns \<and> \<not> gs_assigned st ! j}"
    by (simp add: table_ok_def)
  have d: "distinct (map cell_idx (concat (gs_cells st # tab)))"
    using inv(1) t st inv(3) by (auto simp: table_ok_def)
  have s: "set (map cell_idx (concat (gs_cells st # tab))) = {j. j < length ns \<and> \<not> asg ! j}"
  proof -
    have "set (map cell_idx (concat (gs_cells st # tab))) =
        set ?is \<union> {j. j < length ns \<and> \<not> gs_assigned st ! j}"
      using st by (simp add: image_Un)
    also have "\<dots> = {j. j < length ns \<and> \<not> asg ! j}" using inv(2,3) by blast
    finally show ?thesis .
  qed
  have c: "concat (gs_cells st # tab) =
      map (\<lambda>i. mk_cell i (ns ! i)) (map cell_idx (concat (gs_cells st # tab)))"
    using inv(4) t by (simp add: table_ok_def)
  have sz: "\<forall>x \<in> set (gs_cells st # tab). x \<noteq> [] \<and> length x \<le> max 1 replica"
    using g t by (auto simp: group_ok_def table_ok_def)
  have bl: "\<forall>x \<in> set (butlast (gs_cells st # tab)). length x = max 1 replica"
  proof (cases "tab = []")
    case False
    then obtain x xs where tab: "tab = x # xs" "x \<noteq> []"
      using t by (cases tab) (auto simp: table_ok_def)
    then obtain y ys where "x = y # ys" by (cases x) auto
    with tab have "cell_idx y \<in> set (map cell_idx (concat tab))" by simp
    then have "cell_idx y < length ns" "\<not> gs_assigned st ! cell_idx y" using st by auto
    then have "\<not> list_all (\<lambda>b. b) (gs_assigned st)" using inv(5) by (auto simp: list_all_length)
    then have "length (gs_cells st) = max 1 replica" using g by (auto simp: group_ok_def)
    then show ?thesis using t False by (auto simp: table_ok_def)
  qed simp
  show ?thesis unfolding table_ok_def using d s c sz bl by blast
qed

lemma grouping_loop_total:
  "length asg = length ns \<Longrightarrow>
   \<exists>tab. grouping_loop ns (sorted_hosts ns) replica asg lhi acc = Some (acc @ tab) \<and>
     table_ok ns replica asg tab"
proof (induction "card {j. j < length ns \<and> \<not> asg ! j}" arbitrary: asg lhi acc rule: less_induct)
  case less
  show ?case
  proof (cases "list_all (\<lambda>b. b) asg")
    case True
    then show ?thesis using table_ok_Nil [OF True less.prems] by (auto simp: grouping_loop.simps)
  next
    case False
    obtain st lhi' where bg: "build_group ns (sorted_hosts ns) replica asg lhi = (st, lhi')"
      by (cases "build_group ns (sorted_hosts ns) replica asg lhi")
    have ok: "group_ok ns replica asg st" using build_group_ok [OF less.prems False, of replica lhi] bg by simp
    then have ne: "gs_cells st \<noteq> []" and len: "length (gs_assigned st) = length ns"
      by (simp_all add: group_ok_def group_inv_def Let_def)
    let ?is = "map cell_idx (gs_cells st)"
    have upd: "\<forall>i \<in> set ?is. i < length ns \<and> \<not> asg ! i"
      "\<forall>j < length ns. gs_assigned st ! j = (asg ! j \<or> j \<in> set ?is)"
      using ok by (simp_all add: group_ok_def group_inv_def Let_def)
    obtain c cs where c: "gs_cells st = c # cs" using ne by (cases "gs_cells st") auto
    have "{j. j < length ns \<and> \<not> gs_assigned st ! j} \<subset> {j. j < length ns \<and> \<not> asg ! j}"
    proof
      show "{j. j < length ns \<and> \<not> gs_assigned st ! j} \<subseteq> {j. j < length ns \<and> \<not> asg ! j}"
        using upd(2) by auto
      have "cell_idx c < length ns" "\<not> asg ! cell_idx c" "gs_assigned st ! cell_idx c"
        using upd c by auto
      then show "{j. j < length ns \<and> \<not> gs_assigned st ! j} \<noteq> {j. j < length ns \<and> \<not> asg ! j}"
        by blast
    qed
    then have "card {j. j < length ns \<and> \<not> gs_assigned st ! j} < card {j. j < length ns \<and> \<not> asg ! j}"
      by (intro psubset_card_mono) simp_all
    from less.hyps [OF this len, of lhi' "acc @ [gs_cells st]"] obtain tab where
      tab: "grouping_loop ns (sorted_hosts ns) replica (gs_assigned st) lhi' (acc @ [gs_cells st])
              = Some ((acc @ [gs_cells st]) @ tab)" "table_ok ns replica (gs_assigned st) tab"
      by blast
    have "grouping_loop ns (sorted_hosts ns) replica asg lhi acc = Some (acc @ gs_cells st # tab)"
      using False bg ne tab(1) by (subst grouping_loop.simps) simp
    with table_ok_Cons [OF ok tab(2)] show ?thesis by blast
  qed
qed

lemma members_grouping_total:
  "\<exists>tab. members_grouping srv ns = Some tab \<and>
     table_ok ns (log_replica srv) (replicate (length ns) False) tab"
  using grouping_loop_total [of "replicate (length ns) False" ns "log_replica srv" 0 "[]"]
  by (simp add: members_grouping_def)

section \<open>Group members and their node ids\<close>

definition is_hole :: "node_disk_cell \<Rightarrow> bool" where
  "is_hole c \<longleftrightarrow> disk c = ''_NONE_''"

text \<open>A row of the table with holes is completed from the row after it, or dropped.\<close>

definition merge_cells :: "nat \<Rightarrow> node_disk_cell list \<Rightarrow> node_disk_cell list list \<Rightarrow> node_disk_cell list" where
  "merge_cells replica cells rest =
     (let hole_count = length (filter is_hole cells)
      in if hole_count > 0 then
           (case rest of
              [] \<Rightarrow> (let fc = filter (\<lambda>c. \<not> is_hole c) cells
                     in if length fc \<ge> replica then take replica fc else [])
            | next_row # _ \<Rightarrow>
                (let fc = filter (\<lambda>c. \<not> is_hole c) (cells @ take hole_count next_row)
                 in if length fc = replica then fc else []))
         else cells)"

definition mk_member :: "log_service \<Rightarrow> log_service_node list \<Rightarrow> nat \<Rightarrow> nat \<Rightarrow> node_disk_cell \<Rightarrow>
    log_group_member option" where
  "mk_member srv ns gid local_idx cell =
     (case nth_opt ns (cell_idx cell) of
        None \<Rightarrow> None
      | Some node \<Rightarrow>
          Some \<lparr>node_id = (case position (\<lambda>n. lsn_host n = lsn_host node \<and> lsn_port n = lsn_port node)
                                 (log_nodes srv) of Some i \<Rightarrow> i | None \<Rightarrow> local_idx),
                group_id = gid, member_host = lsn_host node, member_port = lsn_port node,
                storage_path = disk cell,
                check_health_url = ''http://'' @ addr (lsn_host node) (lsn_port node) @ ''/healthz''\<rparr>)"

fun group_rows :: "log_service \<Rightarrow> log_service_node list \<Rightarrow> nat \<Rightarrow> nat \<Rightarrow> node_disk_cell list list \<Rightarrow>
    (nat \<times> log_group_member list) list option" where
  "group_rows srv ns replica gid [] = Some []"
| "group_rows srv ns replica gid (cells # rest) =
     (let mc = merge_cells replica cells rest
      in if mc = [] then group_rows srv ns replica gid rest
         else case those_opt (map (\<lambda>(l, c). mk_member srv ns gid l c) (enumerate 0 mc)) of
                None \<Rightarrow> None
              | Some ms \<Rightarrow> map_option (\<lambda>gs. (gid, ms) # gs) (group_rows srv ns replica (Suc gid) rest))"

definition member_addr :: "log_group_member \<Rightarrow> string" where
  "member_addr m = addr (member_host m) (member_port m)"

text \<open>The map from \<open>host:port\<close> to its index in the flattened groups; a later entry replaces an earlier one.\<close>

definition node_id_index :: "log_group_member list \<Rightarrow> (string \<rightharpoonup> nat)" where
  "node_id_index ms = map_of (rev (map (\<lambda>(i, m). (member_addr m, i)) (enumerate 0 ms)))"

definition fix_node_id :: "(string \<rightharpoonup> nat) \<Rightarrow> log_group_member \<Rightarrow> log_group_member" where
  "fix_node_id index m =
     (case index (member_addr m) of Some i \<Rightarrow> m\<lparr>node_id := i\<rparr> | None \<Rightarrow> m)"

definition group_members :: "log_service \<Rightarrow> (nat \<times> log_group_member list) list option" where
  "group_members srv =
     (let ns = sort_key lsn_host (log_nodes srv)
      in case members_grouping srv ns of
           None \<Rightarrow> None
         | Some table \<Rightarrow>
             (case group_rows srv ns (log_replica srv) 0 table of
                None \<Rightarrow> None
              | Some gs \<Rightarrow>
                  (let index = node_id_index (concat (map snd gs))
                   in Some (map (\<lambda>(gid, ms). (gid, map (fix_node_id index) ms)) gs))))"

definition group_member_as_vec :: "log_service \<Rightarrow> log_group_member list option" where
  "group_member_as_vec srv =
     map_option (\<lambda>gs. sort_key node_id (concat (map snd gs))) (group_members srv)"

section \<open>What is generated from the members\<close>

definition group_member_config :: "log_group_member list \<Rightarrow> (nat \<rightharpoonup> string)" where
  "group_member_config ms =
     (\<lambda>gid. map_option (\<lambda>g. join '','' (map member_addr g)) (group_map_by group_id ms gid))"

definition host_members :: "log_group_member list \<Rightarrow> (string \<rightharpoonup> log_group_member list)" where
  "host_members ms = group_map_by member_host ms"

definition all_members_config :: "log_group_member list \<Rightarrow> string" where
  "all_members_config ms = join '','' (map member_addr ms)"

definition log_start_cmd :: "log_service \<Rightarrow> (string \<rightharpoonup> log_cmd_items list) option" where
  "log_start_cmd srv = map_option (\<lambda>ms. (\<lambda>h.
     map_option (map (\<lambda>m. \<lparr>group_members_config = all_members_config ms, log_member = m\<rparr>))
       (host_members ms h))) (group_member_as_vec srv)"

definition log_directories :: "log_service \<Rightarrow> (string \<rightharpoonup> string list) option" where
  "log_directories srv = map_option (\<lambda>ms. (\<lambda>h.
     map_option (map storage_path) (group_map_by member_host ms h))) (group_member_as_vec srv)"

definition cloud_flag :: "string \<Rightarrow> string option \<Rightarrow> string list" where
  "cloud_flag name v = (case v of None \<Rightarrow> [] | Some s \<Rightarrow> if s = [] then [] else [''-'' @ name @ ''='' @ s])"

definition rocks_cloud_flag :: "log_service \<Rightarrow> string" where
  "rocks_cloud_flag srv = join '' ''
     (cloud_flag ''aws_access_key_id'' (ls_aws_access_key_id srv) @
      cloud_flag ''aws_secret_key'' (ls_aws_secret_key srv) @
      cloud_flag ''bucket_name'' (ls_bucket_name srv) @
      cloud_flag ''bucket_prefix'' (ls_bucket_prefix srv) @
      cloud_flag ''region'' (ls_region srv) @
      cloud_flag ''endpoint_url'' (ls_endpoint srv) @
      cloud_flag ''object_path'' (ls_object_path srv) @
      cloud_flag ''target_file_size_base'' (ls_target_file_size_base srv) @
      cloud_flag ''sst_file_cache_size'' (ls_sst_file_cache_size srv))"

text \<open>\<open>Deployment::build_log_config\<close>: the two keys written to every node's configuration.\<close>

definition build_log_config :: "log_service \<Rightarrow> (string \<times> string) list option" where
  "build_log_config srv = map_option (\<lambda>ms.
     [(''txlog_group_replica_num'', show_nat (log_replica srv)),
      (''txlog_service_list'', join '','' (map member_addr ms))]) (group_member_as_vec srv)"

section \<open>Node ids are positions\<close>

lemma nth_image_lessThan: "(\<lambda>i. xs ! i) ` {..<length xs} = set xs"
  by (auto simp: in_set_conv_nth image_iff)

definition no_hole_dirs :: "log_service \<Rightarrow> bool" where
  "no_hole_dirs srv \<longleftrightarrow> (\<forall>n \<in> set (log_nodes srv). \<forall>d \<in> set (lsn_data_dir n). d \<noteq> ''_NONE_'')"

definition node_addr_of :: "log_service_node \<Rightarrow> string" where
  "node_addr_of n = addr (lsn_host n) (lsn_port n)"

lemma mk_cell_not_hole:
  "\<forall>d \<in> set (lsn_data_dir n). d \<noteq> ''_NONE_'' \<Longrightarrow> \<not> is_hole (mk_cell i n)"
  by (auto simp: is_hole_def mk_cell_def split: list.splits)

lemma mk_member_Some:
  "cell_idx c < length ns \<Longrightarrow> \<exists>m. mk_member srv ns gid l c = Some m \<and>
     member_addr m = node_addr_of (ns ! cell_idx c)"
  by (simp add: mk_member_def nth_opt_def member_addr_def node_addr_of_def)

lemma those_members:
  "\<forall>c \<in> set cs. cell_idx c < length ns \<Longrightarrow>
   \<exists>ms. those_opt (map (\<lambda>(l, c). mk_member srv ns gid l c) (enumerate k cs)) = Some ms \<and>
     map member_addr ms = map (\<lambda>c. node_addr_of (ns ! cell_idx c)) cs"
proof (induction cs arbitrary: k)
  case (Cons c cs)
  from Cons.prems obtain m where "mk_member srv ns gid k c = Some m"
    "member_addr m = node_addr_of (ns ! cell_idx c)"
    using mk_member_Some by (metis list.set_intros(1))
  moreover obtain ms where
    "those_opt (map (\<lambda>(l, c). mk_member srv ns gid l c) (enumerate (Suc k) cs)) = Some ms"
    "map member_addr ms = map (\<lambda>c. node_addr_of (ns ! cell_idx c)) cs"
    using Cons.IH [of "Suc k"] Cons.prems by auto
  ultimately show ?case by auto
qed simp

lemma group_rows_addrs:
  "\<forall>c \<in> set (concat tab). cell_idx c < length ns \<and> \<not> is_hole c \<Longrightarrow>
   \<exists>gs. group_rows srv ns replica gid tab = Some gs \<and>
     map member_addr (concat (map snd gs)) = map (\<lambda>c. node_addr_of (ns ! cell_idx c)) (concat tab)"
proof (induction tab arbitrary: gid)
  case (Cons cs tab)
  have mc: "merge_cells replica cs tab = cs"
    using Cons.prems by (simp add: merge_cells_def filter_empty_conv)
  show ?case
  proof (cases "cs = []")
    case True
    then show ?thesis using Cons mc by simp
  next
    case False
    obtain ms where ms:
      "those_opt (map (\<lambda>(l, c). mk_member srv ns gid l c) (enumerate 0 cs)) = Some ms"
      "map member_addr ms = map (\<lambda>c. node_addr_of (ns ! cell_idx c)) cs"
      using those_members [of cs ns srv gid 0] Cons.prems by auto
    obtain gs where "group_rows srv ns replica (Suc gid) tab = Some gs"
      "map member_addr (concat (map snd gs)) = map (\<lambda>c. node_addr_of (ns ! cell_idx c)) (concat tab)"
      using Cons.IH [of "Suc gid"] Cons.prems by auto
    with ms mc False show ?thesis by simp
  qed
qed simp

lemma node_id_index_nth:
  assumes "distinct (map member_addr ms)" "i < length ms"
  shows "node_id_index ms (member_addr (ms ! i)) = Some i"
proof -
  let ?kvs = "map (\<lambda>(i, m). (member_addr m, i)) (enumerate 0 ms)"
  have keys: "map fst ?kvs = map member_addr ms"
    by (rule nth_equalityI) (simp_all add: nth_enumerate_eq)
  then have "distinct (map fst (rev ?kvs))"
    using assms(1) by (metis distinct_rev rev_map)
  moreover have "(member_addr (ms ! i), i) \<in> set (rev ?kvs)"
    using assms(2) by (auto simp: in_set_enumerate_eq image_iff intro!: bexI [of _ "(i, ms ! i)"])
  ultimately show ?thesis unfolding node_id_index_def by (rule map_of_is_SomeI)
qed

lemma member_addr_fix [simp]: "member_addr (fix_node_id ix m) = member_addr m"
  by (simp add: fix_node_id_def member_addr_def split: option.split)

lemma fixed_ids:
  assumes "distinct (map member_addr ms)"
  shows "map node_id (map (fix_node_id (node_id_index ms)) ms) = [0..<length ms]"
  using node_id_index_nth [OF assms] by (intro nth_equalityI) (auto simp: fix_node_id_def)

lemma table_cells:
  assumes "table_ok ns replica (replicate (length ns) False) tab" and "\<forall>n \<in> set ns. \<forall>d \<in> set (lsn_data_dir n). d \<noteq> ''_NONE_''"
  shows "\<forall>c \<in> set (concat tab). cell_idx c < length ns \<and> \<not> is_hole c"
proof
  have idx: "set (map cell_idx (concat tab)) = {..<length ns}" "concat tab = map (\<lambda>i. mk_cell i (ns ! i)) (map cell_idx (concat tab))"
    using assms(1) by (auto simp: table_ok_def)
  fix c assume c: "c \<in> set (concat tab)"
  then have i: "cell_idx c < length ns" using idx(1) by (metis imageI lessThan_iff set_map)
  from c idx(2) obtain j where "j \<in> set (map cell_idx (concat tab))" "c = mk_cell j (ns ! j)"
    by (metis (no_types, lifting) imageE set_map)
  then have "c = mk_cell j (ns ! j)" "j < length ns" using idx(1) by (blast, metis lessThan_iff)
  then show "cell_idx c < length ns \<and> \<not> is_hole c"
    using i assms(2) mk_cell_not_hole nth_mem by metis
qed

lemma group_rows_length:
  "\<forall>c \<in> set (concat tab). cell_idx c < length ns \<and> \<not> is_hole c \<Longrightarrow> \<forall>g \<in> set tab. g \<noteq> [] \<Longrightarrow>
   group_rows srv ns replica gid tab = Some gs \<Longrightarrow> length gs = length tab"
proof (induction tab arbitrary: gid gs)
  case (Cons cs tab)
  have "merge_cells replica cs tab = cs" using Cons.prems(1) by (simp add: merge_cells_def filter_empty_conv)
  with Cons.prems obtain gs' where "gs = (gid, the (those_opt (map (\<lambda>(l, c). mk_member srv ns gid l c) (enumerate 0 cs)))) # gs'"
    "group_rows srv ns replica (Suc gid) tab = Some gs'"
    by (auto split: option.splits)
  with Cons.IH [of "Suc gid" gs'] Cons.prems show ?case by simp
qed simp

text \<open>There are at least as many groups as the nodes need.\<close>

lemma groups_cover:
  assumes "no_hole_dirs srv" and "group_members srv = Some gs"
  shows "length (log_nodes srv) \<le> length gs * max 1 (log_replica srv)"
proof -
  let ?ns = "sort_key lsn_host (log_nodes srv)"
  obtain tab where tab: "members_grouping srv ?ns = Some tab" "table_ok ?ns (log_replica srv) (replicate (length ?ns) False) tab"
    using members_grouping_total by blast
  have cells: "\<forall>c \<in> set (concat tab). cell_idx c < length ?ns \<and> \<not> is_hole c"
    using table_cells [OF tab(2)] assms(1) by (simp add: no_hole_dirs_def)
  obtain gs0 where gs0: "group_rows srv ?ns (log_replica srv) 0 tab = Some gs0" "length gs = length gs0"
    using assms(2) by (auto simp: group_members_def tab(1) Let_def split: option.splits)
  have rows: "\<forall>g \<in> set tab. g \<noteq> [] \<and> length g \<le> max 1 (log_replica srv)" using tab(2) by (simp add: table_ok_def)
  have "distinct (map cell_idx (concat tab))" "set (map cell_idx (concat tab)) = {..<length ?ns}"
    using tab(2) by (auto simp: table_ok_def)
  then have "length (concat tab) = card {..<length ?ns}" by (metis distinct_card length_map)
  moreover have "length (concat tab) \<le> length tab * max 1 (log_replica srv)"
    using rows by (induction tab) (auto simp: algebra_simps)
  moreover have "length gs = length tab" using group_rows_length [OF cells _ gs0(1)] rows gs0(2) by simp
  ultimately show ?thesis by simp
qed

lemma group_members_vec:
  assumes nh: "no_hole_dirs srv" and d: "distinct (map node_addr_of (log_nodes srv))"
  shows "\<exists>ms. group_member_as_vec srv = Some ms \<and> map node_id ms = [0..<length (log_nodes srv)] \<and>
    distinct (map member_addr ms) \<and>
    set (map member_addr ms) = set (map node_addr_of (log_nodes srv))"
proof -
  let ?ns = "sort_key lsn_host (log_nodes srv)"
  obtain tab where tab: "members_grouping srv ?ns = Some tab"
    "table_ok ?ns (log_replica srv) (replicate (length ?ns) False) tab"
    using members_grouping_total by blast
  have idx: "distinct (map cell_idx (concat tab))" "set (map cell_idx (concat tab)) = {..<length ?ns}"
    "concat tab = map (\<lambda>i. mk_cell i (?ns ! i)) (map cell_idx (concat tab))"
    using tab(2) by (auto simp: table_ok_def)
  have dirs: "\<forall>n \<in> set ?ns. \<forall>d \<in> set (lsn_data_dir n). d \<noteq> ''_NONE_''"
    using nh by (simp add: no_hole_dirs_def)
  have cells: "\<forall>c \<in> set (concat tab). cell_idx c < length ?ns \<and> \<not> is_hole c"
    by (rule table_cells [OF tab(2) dirs])
  obtain gs where gs: "group_rows srv ?ns (log_replica srv) 0 tab = Some gs"
    "map member_addr (concat (map snd gs)) = map (\<lambda>c. node_addr_of (?ns ! cell_idx c)) (concat tab)"
    using group_rows_addrs [OF cells] by blast
  define all where "all = concat (map snd gs)"
  define fx where "fx = fix_node_id (node_id_index all)"
  have gm: "group_members srv = Some (map (\<lambda>(gid, ms). (gid, map fx ms)) gs)"
    by (simp add: group_members_def tab(1) gs(1) Let_def fx_def all_def)
  have flat: "concat (map snd (map (\<lambda>(gid, ms). (gid, map fx ms)) gs)) = map fx all"
    by (simp add: all_def map_concat comp_def case_prod_unfold)
  have addrs: "map member_addr all = map (\<lambda>i. node_addr_of (?ns ! i)) (map cell_idx (concat tab))"
    using gs(2) by (simp add: all_def comp_def)
  have dn: "distinct (map node_addr_of ?ns)"
    using d by (simp add: distinct_map)
  have da: "distinct (map member_addr all)"
    unfolding addrs using idx(1,2) dn by (intro distinct_map_nths) simp_all
  have la: "length all = length (log_nodes srv)"
  proof -
    have "length all = length (map cell_idx (concat tab))" using arg_cong [OF addrs, of length] by simp
    also have "\<dots> = card {..<length ?ns}" using idx(1,2) distinct_card by metis
    finally show ?thesis by simp
  qed
  have ids: "map node_id (map fx all) = [0..<length all]" unfolding fx_def by (rule fixed_ids [OF da])
  have srt: "sort_key node_id (map fx all) = map fx all"
    by (rule sort_key_id_if_sorted) (simp only: ids sorted_upt)
  have v: "group_member_as_vec srv = Some (map fx all)"
    unfolding group_member_as_vec_def gm option.map(2) flat srt by (rule refl)
  have ma: "map member_addr (map fx all) = map member_addr all" by (simp add: fx_def comp_def)
  have "set (map member_addr all) = node_addr_of ` (\<lambda>i. ?ns ! i) ` {..<length ?ns}"
    unfolding addrs using idx(2) by (metis image_image set_map)
  also have "(\<lambda>i. ?ns ! i) ` {..<length ?ns} = set ?ns" by (rule nth_image_lessThan)
  finally have "set (map member_addr all) = set (map node_addr_of (log_nodes srv))" by simp
  with v ids la ma da show ?thesis by metis
qed

lemma set_merge_cells: "set (merge_cells replica cells rest) \<subseteq> set cells \<union> set (concat rest)"
  by (auto simp: merge_cells_def Let_def split: list.splits dest: in_set_takeD)

lemma group_rows_total:
  "\<forall>c \<in> set (concat tab). cell_idx c < length ns \<Longrightarrow> \<exists>gs. group_rows srv ns replica gid tab = Some gs"
proof (induction tab arbitrary: gid)
  case (Cons cs tab)
  have "\<forall>c \<in> set (merge_cells replica cs tab). cell_idx c < length ns"
    using Cons.prems set_merge_cells [of replica cs tab] by auto
  then obtain ms where "those_opt (map (\<lambda>(l, c). mk_member srv ns gid l c)
      (enumerate 0 (merge_cells replica cs tab))) = Some ms" using those_members by blast
  moreover have "\<exists>gs. group_rows srv ns replica g tab = Some gs" for g
    using Cons.IH Cons.prems by simp
  ultimately show ?case by (force simp: Let_def)
qed simp

lemma group_member_as_vec_total: "\<exists>ms. group_member_as_vec srv = Some ms"
proof -
  let ?ns = "sort_key lsn_host (log_nodes srv)"
  obtain tab where tab: "members_grouping srv ?ns = Some tab"
    "table_ok ?ns (log_replica srv) (replicate (length ?ns) False) tab"
    using members_grouping_total by blast
  then have "cell_idx ` set (concat tab) \<subseteq> {..<length ?ns}" by (auto simp: table_ok_def)
  then have "\<forall>c \<in> set (concat tab). cell_idx c < length ?ns" by blast
  from group_rows_total [OF this] obtain gs where "group_rows srv ?ns (log_replica srv) 0 tab = Some gs"
    by blast
  with tab(1) show ?thesis by (simp add: group_member_as_vec_def group_members_def Let_def)
qed

section \<open>Properties\<close>

text \<open>C1. The grouping loop always returns, and its table places every node of the log service
  exactly once: the node indices of its cells are distinct and are all indices of the node list.\<close>

theorem members_grouping_places_each_node_once:
  "\<exists>table. members_grouping srv ns = Some table \<and>
     distinct (map cell_idx (concat table)) \<and>
     set (map cell_idx (concat table)) = {..<length ns} \<and>
     concat table = map (\<lambda>i. mk_cell i (ns ! i)) (map cell_idx (concat table))"
proof -
  obtain tab where t: "members_grouping srv ns = Some tab"
    "table_ok ns (log_replica srv) (replicate (length ns) False) tab"
    using members_grouping_total by blast
  have "set (map cell_idx (concat tab)) = {..<length ns}"
    using t(2) by (auto simp: table_ok_def)
  with t show ?thesis by (auto simp: table_ok_def)
qed

text \<open>C2. No group of the table is empty or larger than the replica count (a replica count of zero
  still makes groups of one), and every group but the last has exactly that many members.\<close>

theorem members_grouping_group_sizes:
  assumes "members_grouping srv ns = Some table"
  shows "(\<forall>g \<in> set table. g \<noteq> [] \<and> length g \<le> max 1 (log_replica srv)) \<and>
    (\<forall>g \<in> set (butlast table). length g = max 1 (log_replica srv))"
proof -
  obtain tab where "members_grouping srv ns = Some tab"
    "table_ok ns (log_replica srv) (replicate (length ns) False) tab"
    using members_grouping_total by blast
  with assms show ?thesis by (auto simp: table_ok_def)
qed

definition sample_log_service :: log_service where
  "sample_log_service = \<lparr>log_srv_image = None,
     log_nodes = [\<lparr>lsn_host = ''h1'', lsn_data_dir = [''/d1''], lsn_port = 9000\<rparr>,
                  \<lparr>lsn_host = ''h0'', lsn_data_dir = [''/d0''], lsn_port = 9000\<rparr>,
                  \<lparr>lsn_host = ''h2'', lsn_data_dir = [], lsn_port = 9100\<rparr>],
     log_replica_num = 2, readiness = None, bthread_concurrency = None,
     ls_aws_access_key_id = None, ls_aws_secret_key = None, ls_bucket_name = None,
     ls_endpoint = None, ls_region = None, ls_bucket_prefix = None, ls_object_path = None,
     ls_target_file_size_base = None, ls_sst_file_cache_size = None\<rparr>"

theorem members_grouping_group_sizes_witness:
  "\<exists>table. members_grouping sample_log_service (log_nodes sample_log_service) = Some table \<and>
     list_all (\<lambda>g. g \<noteq> [] \<and> length g \<le> 2) table"
proof -
  obtain table where t: "members_grouping sample_log_service (log_nodes sample_log_service) = Some table"
    using members_grouping_total by blast
  have r: "log_replica sample_log_service = 2" by (simp add: log_replica_def sample_log_service_def)
  show ?thesis using members_grouping_group_sizes [OF t] t r by (auto simp: list_all_iff)
qed

definition two_hosts :: "log_service_node list" where
  "two_hosts = [\<lparr>lsn_host = ''a'', lsn_data_dir = [], lsn_port = 1\<rparr>,
     \<lparr>lsn_host = ''b'', lsn_data_dir = [], lsn_port = 1\<rparr>]"

definition first_host_used :: group_state where
  "first_host_used = \<lparr>gs_assigned = [True, False], gs_used = [''a''], gs_cells = []\<rparr>"

text \<open>A slot of a group is filled from a host the group does not use yet whenever such a host has
  a free node, so a group repeats a host only when every unused host is exhausted.\<close>

lemma other_host_node_None:
  "other_host_node ns hosts st = None \<Longrightarrow> h \<in> set hosts \<Longrightarrow> h \<notin> set (gs_used st) \<Longrightarrow>
   first_free (gs_assigned st) (host_nodes ns h) = None"
  by (induction ns hosts st rule: other_host_node.induct) (auto split: if_splits option.splits)

theorem fill_slot_prefers_new_host:
  assumes "i < length ns" "\<not> gs_assigned st ! i" "lsn_host (ns ! i) \<notin> set (gs_used st)"
  shows "\<exists>j < length ns. lsn_host (ns ! j) \<notin> set (gs_used st) \<and> \<not> gs_assigned st ! j \<and>
    fill_slot ns (sorted_hosts ns) st = take_node j (ns ! j) [lsn_host (ns ! j)] st"
proof (cases "other_host_node ns (sorted_hosts ns) st")
  case None
  have "lsn_host (ns ! i) \<in> set (sorted_hosts ns)" using assms(1) by (simp add: sorted_hosts_def)
  from first_free_host_None [OF other_host_node_None [OF None this assms(3)] assms(1) refl] assms(2)
  show ?thesis by simp
next
  case (Some x)
  then obtain h j n where x: "x = (h, j, n)" by (cases x)
  with other_host_node_Some [of ns "sorted_hosts ns" st h j n] Some show ?thesis
    by (auto simp: fill_slot_def)
qed

theorem fill_slot_prefers_new_host_witness:
  "\<exists>j < Suc (Suc 0). fill_slot two_hosts (sorted_hosts two_hosts) first_host_used =
     take_node j (two_hosts ! j) [lsn_host (two_hosts ! j)] first_host_used \<and>
     lsn_host (two_hosts ! j) \<noteq> ''a''"
proof -
  have "\<exists>j < length two_hosts. lsn_host (two_hosts ! j) \<notin> set (gs_used first_host_used) \<and>
    \<not> gs_assigned first_host_used ! j \<and>
    fill_slot two_hosts (sorted_hosts two_hosts) first_host_used =
      take_node j (two_hosts ! j) [lsn_host (two_hosts ! j)] first_host_used"
    by (rule fill_slot_prefers_new_host [of 1]) (simp_all add: two_hosts_def first_host_used_def)
  moreover have "length two_hosts = Suc (Suc 0)" by (simp add: two_hosts_def)
  moreover have "gs_used first_host_used = [''a'']" by (simp add: first_host_used_def)
  ultimately show ?thesis by auto
qed

text \<open>When no two log nodes share an address and no data directory is called \<open>_NONE_\<close>, the member
  list has one member per node, the k-th member has node id k, and it is the k-th entry of the
  \<open>txlog_service_list\<close> written to the configuration of every EloqKV node.\<close>

theorem node_ids_are_txlog_positions:
  assumes "no_hole_dirs srv" and "distinct (map node_addr_of (log_nodes srv))"
  shows "\<exists>ms. group_member_as_vec srv = Some ms \<and>
    map node_id ms = [0..<length (log_nodes srv)] \<and>
    set (map member_addr ms) = set (map node_addr_of (log_nodes srv)) \<and>
    build_log_config srv = Some [(''txlog_group_replica_num'', show_nat (log_replica srv)),
      (''txlog_service_list'', join '','' (map member_addr ms))]"
  using group_members_vec [OF assms] by (auto simp: build_log_config_def)

theorem node_ids_are_txlog_positions_witness:
  "\<exists>ms. group_member_as_vec sample_log_service = Some ms \<and> map node_id ms = [0, 1, 2]"
proof -
  have h: "no_hole_dirs sample_log_service" by (simp add: no_hole_dirs_def sample_log_service_def)
  have d: "distinct (map node_addr_of (log_nodes sample_log_service))"
    by (simp add: sample_log_service_def node_addr_of_def)
  have "length (log_nodes sample_log_service) = 3" by (simp add: sample_log_service_def)
  then have "[0..<length (log_nodes sample_log_service)] = [0, 1, 2]" by (simp add: upt_rec)
  with node_ids_are_txlog_positions [OF h d] show ?thesis by auto
qed

text \<open>C13. The member list passed to every log process (\<open>-conf\<close>) is the \<open>txlog_service_list\<close> of the
  EloqKV configuration, whatever the service, and each process is started on its own host.\<close>

theorem log_start_cmd_agrees_with_txlog_list:
  assumes "log_start_cmd srv = Some cmds" and "cmds h = Some items" and "item \<in> set items"
  shows "member_host (log_member item) = h \<and>
    build_log_config srv = Some [(''txlog_group_replica_num'', show_nat (log_replica srv)),
      (''txlog_service_list'', group_members_config item)]"
  using assms
  by (auto simp: log_start_cmd_def build_log_config_def host_members_def group_map_by_def
      all_members_config_def split: if_splits)

theorem log_start_cmd_agrees_with_txlog_list_witness:
  "\<exists>cmds h items item. log_start_cmd sample_log_service = Some cmds \<and> cmds h = Some items \<and>
     item \<in> set items \<and> member_host (log_member item) = h"
proof -
  have h: "no_hole_dirs sample_log_service" by (simp add: no_hole_dirs_def sample_log_service_def)
  have d: "distinct (map node_addr_of (log_nodes sample_log_service))"
    by (simp add: sample_log_service_def node_addr_of_def)
  obtain ms where ms: "group_member_as_vec sample_log_service = Some ms"
      "map node_id ms = [0..<length (log_nodes sample_log_service)]"
    using group_members_vec [OF h d] by blast
  have "ms \<noteq> []" using ms(2) by (auto simp: sample_log_service_def)
  then obtain m ms' where m: "ms = m # ms'" by (cases ms) auto
  obtain cmds where c: "log_start_cmd sample_log_service = Some cmds"
    by (simp add: log_start_cmd_def ms)
  then obtain items where i: "cmds (member_host m) = Some items"
    by (auto simp: log_start_cmd_def ms host_members_def group_map_by_def m)
  have "\<lparr>group_members_config = all_members_config ms, log_member = m\<rparr> \<in> set items"
    using c i by (auto simp: log_start_cmd_def ms(1) host_members_def group_map_by_def m)
  from log_start_cmd_agrees_with_txlog_list [OF c i this] c i this show ?thesis by blast
qed

end
