(* ===== verification/Hosts.thy ===== *)
theory Hosts
  imports Log_Groups
begin

text \<open>
  The host lists of a deployment (\<open>config/deployment.rs\<close>, \<open>config/config_base.rs\<close>): which hosts and
  which \<open>host:port\<close> nodes each package runs on, the topology map built from them, the hardware
  entry of a node and the bootstrap host.
\<close>

section \<open>Ports and hardware\<close>

definition port_contains :: "port \<Rightarrow> u16 \<Rightarrow> bool" where
  "port_contains pt p \<longleftrightarrow>
     (case port_eloq pt of Some ep \<Rightarrow> ep_start ep \<le> p \<and> p \<le> ep_end ep | None \<Rightarrow> False) \<or>
     (case cs_conn pt of Some m \<Rightarrow> m = p | None \<Rightarrow> False)"

definition get_hardware :: "deployment \<Rightarrow> string \<Rightarrow> string \<Rightarrow> hardware option" where
  "get_hardware d host p = Option.bind (dep_hardware d)
     (\<lambda>all_hw. case all_hw (host @ '':'' @ p) of Some hw \<Rightarrow> Some hw | None \<Rightarrow> all_hw host)"

definition global_eloq_store_data_path_list :: "deployment \<Rightarrow> string option" where
  "global_eloq_store_data_path_list d =
     Option.bind (dep_storage_service d) (\<lambda>st. Option.bind (st_eloqdss st)
       (\<lambda>dss. case dss_backend_of dss of EloqStore c \<Rightarrow> es_data_path_list c))"

definition uses_eloqstore_storage :: "deployment \<Rightarrow> bool" where
  "uses_eloqstore_storage d =
     (case Option.bind (dep_storage_service d) st_eloqdss of
        Some dss \<Rightarrow> (case dss_backend_of dss of EloqStore c \<Rightarrow> True)
      | None \<Rightarrow> False)"

section \<open>Hosts of the transaction service\<close>

text \<open>\<open>s.split(':').next()\<close>: the part before the first colon.\<close>

definition host_part :: "string \<Rightarrow> string" where
  "host_part s = hd (split_on is_colon s)"

definition parse_standby_voter_hosts :: "string list \<Rightarrow> string list" where
  "parse_standby_voter_hosts entries = concat (map (\<lambda>e. map host_part (split_on is_pipe_comma e)) entries)"

definition parse_tx_hosts :: "string list \<Rightarrow> string list" where
  "parse_tx_hosts entries = concat (map (\<lambda>e. map host_part (split_on is_comma e)) entries)"

definition merge_hosts :: "eloq_service \<Rightarrow> string list" where
  "merge_hosts srv =
     (let hosts = parse_tx_hosts (tx_host_ports srv);
          hosts = (case standby_host_ports srv of None \<Rightarrow> hosts | Some l \<Rightarrow> hosts @ parse_standby_voter_hosts l);
          hosts = (case voter_host_ports srv of None \<Rightarrow> hosts | Some l \<Rightarrow> hosts @ parse_standby_voter_hosts l)
      in sort (remdups hosts))"

definition bootstrap_host :: "deployment \<Rightarrow> string res" where
  "bootstrap_host d = (case merge_hosts (tx_service d) of
     [] \<Rightarrow> Inl (Err ''No hosts configured for bootstrap'') | h # _ \<Rightarrow> Inr h)"

section \<open>Host lists per package\<close>

definition get_host_list_internal :: "string list option \<Rightarrow> string list" where
  "get_host_list_internal entries = (case entries of None \<Rightarrow> []
     | Some hps \<Rightarrow> filter (\<lambda>h. h \<noteq> []) (map host_part (concat (map (split_on is_pipe_comma) hps))))"

definition get_host_port_list_internal :: "string list option \<Rightarrow> string list" where
  "get_host_port_list_internal entries = (case entries of None \<Rightarrow> []
     | Some hps \<Rightarrow> filter (\<lambda>hp. hp \<noteq> []) (concat (map (split_on is_pipe_comma) hps)))"

definition monitor_host :: "deployment \<Rightarrow> (monitor \<Rightarrow> 'c option) \<Rightarrow> ('c \<Rightarrow> string) \<Rightarrow> string list" where
  "monitor_host d component host_of =
     (case Option.bind (dep_monitor d) component of None \<Rightarrow> [] | Some c \<Rightarrow> [host_of c])"

fun get_host_list :: "deployment \<Rightarrow> deployment_package \<Rightarrow> string list" where
  "get_host_list d Storage = []"
| "get_host_list d EloqLog = (case dep_log_service d of Some ls \<Rightarrow> log_host_unique ls | None \<Rightarrow> [])"
| "get_host_list d EloqTx = get_host_list_internal (Some (tx_host_ports (tx_service d)))"
| "get_host_list d EloqStandby = get_host_list_internal (standby_host_ports (tx_service d))"
| "get_host_list d EloqVoter = get_host_list_internal (voter_host_ports (tx_service d))"
| "get_host_list d PrometheusPkg = monitor_host d mon_prometheus prom_host"
| "get_host_list d AlertmanagerPkg = monitor_host d mon_alertmanager am_host"
| "get_host_list d GrafanaPkg = monitor_host d mon_grafana graf_host"
| "get_host_list d PrometheusAlert = monitor_host d mon_alertmanager am_host"

fun get_host_port_list :: "deployment \<Rightarrow> deployment_package \<Rightarrow> string list" where
  "get_host_port_list d Storage = []"
| "get_host_port_list d EloqLog = []"
| "get_host_port_list d EloqTx = get_host_port_list_internal (Some (tx_host_ports (tx_service d)))"
| "get_host_port_list d EloqStandby = get_host_port_list_internal (standby_host_ports (tx_service d))"
| "get_host_port_list d EloqVoter = get_host_port_list_internal (voter_host_ports (tx_service d))"
| "get_host_port_list d PrometheusPkg =
     monitor_host d mon_prometheus (\<lambda>c. addr (prom_host c) (prom_port c))"
| "get_host_port_list d AlertmanagerPkg =
     monitor_host d mon_alertmanager (\<lambda>c. addr (am_host c) (am_port c))"
| "get_host_port_list d GrafanaPkg =
     monitor_host d mon_grafana (\<lambda>c. addr (graf_host c) (graf_port c))"
| "get_host_port_list d PrometheusAlert =
     monitor_host d mon_alertmanager (\<lambda>c. addr (am_host c) (am_webhook_adapter_port c))"

definition get_host_as_map :: "deploy_config \<Rightarrow> (deployment_package \<rightharpoonup> string list)" where
  "get_host_as_map cfg = map_of (map (\<lambda>pkg. (pkg, get_host_list (cfg_deployment cfg) pkg))
     [EloqTx, EloqStandby, EloqVoter, EloqLog, Storage, PrometheusPkg, AlertmanagerPkg, GrafanaPkg,
      PrometheusAlert])"

definition get_unique_host_list :: "deploy_config \<Rightarrow> string list" where
  "get_unique_host_list cfg = uniq (concat (map (get_host_list (cfg_deployment cfg))
     [EloqTx, EloqStandby, EloqVoter, EloqLog, Storage, AlertmanagerPkg, GrafanaPkg, PrometheusPkg,
      PrometheusAlert]))"

text \<open>The \<open>seen\<close> set of \<open>merge_and_deduplicate\<close>, over both vectors.\<close>

fun retain_unseen :: "string set \<Rightarrow> string list \<Rightarrow> string set \<times> string list" where
  "retain_unseen seen [] = (seen, [])"
| "retain_unseen seen (s # ss) =
     (if s \<in> seen then retain_unseen seen ss
      else (case retain_unseen (insert s seen) ss of (seen', r) \<Rightarrow> (seen', s # r)))"

definition merge_and_deduplicate :: "string list \<Rightarrow> string list \<Rightarrow> string list" where
  "merge_and_deduplicate v1 v2 =
     (case retain_unseen {} v1 of (seen, kept) \<Rightarrow>
        (case retain_unseen seen v2 of (_, added) \<Rightarrow> kept @ added))"

section \<open>The topology map\<close>

definition topo_push :: "'p \<Rightarrow> 'h \<Rightarrow> ('h \<rightharpoonup> 'p list) \<Rightarrow> ('h \<rightharpoonup> 'p list)" where
  "topo_push pkg host topo = (case topo host of
     Some l \<Rightarrow> topo(host \<mapsto> l @ [pkg]) | None \<Rightarrow> topo(host \<mapsto> [pkg]))"

definition populate_from :: "('p \<Rightarrow> 'h list) \<Rightarrow> 'p \<Rightarrow> ('h \<rightharpoonup> 'p list) \<Rightarrow> ('h \<rightharpoonup> 'p list)" where
  "populate_from hosts_of pkg topo = fold (topo_push pkg) (hosts_of pkg) topo"

definition populate_topo :: "deployment \<Rightarrow> (string \<rightharpoonup> deployment_package list) \<Rightarrow> deployment_package \<Rightarrow>
    (string \<rightharpoonup> deployment_package list)" where
  "populate_topo d topo pkg = populate_from (get_host_list d) pkg topo"

definition topology_order :: "deployment_package list" where
  "topology_order = [EloqTx, EloqStandby, EloqVoter, PrometheusPkg, AlertmanagerPkg, GrafanaPkg,
     PrometheusAlert, EloqLog]"

definition topology :: "deployment \<Rightarrow> (string \<rightharpoonup> deployment_package list)" where
  "topology d = fold (\<lambda>pkg topo. populate_topo d topo pkg) topology_order Map.empty"

section \<open>The interface of a host listing\<close>

text \<open>
  Whoever builds a topology from host lists visits each package once and leaves out only packages
  without hosts.
\<close>

locale host_listing =
  fixes hosts_of :: "'p \<Rightarrow> 'h list" and order :: "'p list"
  assumes order_distinct: "distinct order"
    and order_complete: "p \<notin> set order \<Longrightarrow> hosts_of p = []"
begin

definition listed :: "('h \<rightharpoonup> 'p list) \<Rightarrow> 'h \<Rightarrow> 'p list" where
  "listed topo h = (case topo h of None \<Rightarrow> [] | Some l \<Rightarrow> l)"

lemma listed_push: "listed (topo_push p h topo) h' = listed topo h' @ (if h = h' then [p] else [])"
  by (auto simp: listed_def topo_push_def split: option.splits)

lemma listed_populate:
  "listed (populate_from hosts_of p topo) h = listed topo h @ replicate (count_list (hosts_of p) h) p"
proof -
  have "listed (fold (topo_push p) hs topo) h = listed topo h @ replicate (count_list hs h) p" for hs
  proof (induction hs arbitrary: topo)
    case (Cons a hs)
    then show ?case by (simp add: listed_push replicate_append_same flip: replicate_Suc)
  qed simp
  then show ?thesis by (simp add: populate_from_def)
qed

lemma listed_fold:
  "listed (fold (populate_from hosts_of) ps topo) h =
   listed topo h @ concat (map (\<lambda>p. replicate (count_list (hosts_of p) h) p) ps)"
  by (induction ps arbitrary: topo) (simp_all add: listed_populate)

lemma push_not_Nil: "\<forall>h l. topo h = Some l \<longrightarrow> l \<noteq> [] \<Longrightarrow> topo_push p h' topo h = Some l \<Longrightarrow> l \<noteq> []"
  by (auto simp: topo_push_def split: option.splits if_splits)

lemma populate_not_Nil:
  "\<forall>h l. topo h = Some l \<longrightarrow> l \<noteq> [] \<Longrightarrow> \<forall>h l. populate_from hosts_of p topo h = Some l \<longrightarrow> l \<noteq> []"
proof -
  have "\<forall>h l. topo h = Some l \<longrightarrow> l \<noteq> [] \<Longrightarrow>
      \<forall>h l. fold (topo_push p) hs topo h = Some l \<longrightarrow> l \<noteq> []" for hs
  proof (induction hs arbitrary: topo)
    case (Cons a hs)
    have "\<forall>h l. topo_push p a topo h = Some l \<longrightarrow> l \<noteq> []"
      using push_not_Nil [OF Cons.prems] by blast
    then show ?case using Cons.IH by simp
  qed simp
  then show "\<forall>h l. topo h = Some l \<longrightarrow> l \<noteq> [] \<Longrightarrow> ?thesis" by (simp add: populate_from_def)
qed

lemma fold_not_Nil:
  "\<forall>h l. topo h = Some l \<longrightarrow> l \<noteq> [] \<Longrightarrow>
   \<forall>h l. fold (populate_from hosts_of) ps topo h = Some l \<longrightarrow> l \<noteq> []"
proof (induction ps arbitrary: topo)
  case (Cons p ps)
  from Cons.IH [OF populate_not_Nil [OF Cons.prems]] show ?case by simp
qed simp

lemma built_topology:
  "fold (populate_from hosts_of) order Map.empty h =
     (let l = concat (map (\<lambda>p. replicate (count_list (hosts_of p) h) p) order)
      in if l = [] then None else Some l)"
proof -
  let ?t = "fold (populate_from hosts_of) order Map.empty"
  have l: "listed ?t h = concat (map (\<lambda>p. replicate (count_list (hosts_of p) h) p) order)"
    by (simp add: listed_fold listed_def [of Map.empty])
  have "?t h = Some [] \<Longrightarrow> False" using fold_not_Nil [of Map.empty] by auto
  then have "listed ?t h = k \<Longrightarrow> ?t h = (if k = [] then None else Some k)" for k
    unfolding listed_def by (cases "?t h") auto
  from this [OF l] show ?thesis by (simp only: Let_def)
qed

lemma count_in_topology:
  "count_list (concat (map (\<lambda>p. replicate (count_list (hosts_of p) h) p) order)) q =
   count_list (hosts_of q) h"
proof -
  have rep: "count_list (replicate n p) q = (if p = q then n else 0)" for n and p :: 'p
    by (induction n) auto
  have "distinct ps \<Longrightarrow> count_list (concat (map (\<lambda>p. replicate (count_list (hosts_of p) h) p) ps)) q =
      (if q \<in> set ps then count_list (hosts_of q) h else 0)" for ps
    by (induction ps) (auto simp: rep)
  from this [OF order_distinct] order_complete [of q] show ?thesis by auto
qed

end

interpretation hosts: host_listing "get_host_list d" topology_order
proof (unfold_locales)
  show "distinct topology_order" by (simp add: topology_order_def)
  show "p \<notin> set topology_order \<Longrightarrow> get_host_list d p = []" for p
    by (cases p) (simp_all add: topology_order_def)
qed

section \<open>Lemmas on host lists\<close>

lemma retain_unseen_spec:
  "retain_unseen seen ss = (seen \<union> set ss, filter (\<lambda>s. s \<notin> seen) (uniq ss))"
proof (induction ss arbitrary: seen)
  case (Cons s ss)
  have u: "uniq (s # ss) = s # filter (\<lambda>x. x \<noteq> s) (uniq ss)"
  proof -
    have r: "remdups (xs @ [y]) = filter (\<lambda>x. x \<noteq> y) (remdups xs) @ [y]" for xs :: "'x list" and y
      by (induction xs) auto
    show ?thesis by (simp add: uniq_def r rev_filter)
  qed
  show ?case using Cons.IH by (auto simp: u intro!: filter_cong)
qed simp

lemma uniq_append: "uniq (xs @ ys) = uniq xs @ filter (\<lambda>y. y \<notin> set xs) (uniq ys)"
proof -
  have "remdups (bs @ as) = filter (\<lambda>y. y \<notin> set as) (remdups bs) @ remdups as" for as bs :: "'a list"
    by (induction bs) auto
  then show ?thesis by (simp add: uniq_def rev_filter)
qed

lemma host_part_addr: "\<forall>c \<in> set h. \<not> is_colon c \<Longrightarrow> host_part (addr h p) = h"
  by (simp add: host_part_def addr_def split_on_append_sep is_colon_def)

text \<open>No host carries the storage package, so a node never shares its memory with one.\<close>

lemma topology_eq: "topology d h =
  (let l = concat (map (\<lambda>p. replicate (count_list (get_host_list d p) h) p) topology_order)
   in if l = [] then None else Some l)"
  unfolding topology_def populate_topo_def by (rule hosts.built_topology)

lemma storage_not_in_topology: "topology d h = Some pkgs \<Longrightarrow> Storage \<notin> set pkgs"
  by (auto simp: topology_eq Let_def topology_order_def split: if_splits)

section \<open>Properties\<close>

text \<open>The topology map lists a package under a host exactly as often as the package's host list
  names the host, and it has no host without a package: the packages that \<open>topology\<close> visits are
  all that have hosts.\<close>

theorem topology_lists_every_package:
  "topology d h \<noteq> Some [] \<and>
   count_list (case topology d h of None \<Rightarrow> [] | Some pkgs \<Rightarrow> pkgs) pkg =
     count_list (get_host_list d pkg) h"
  using hosts.count_in_topology [of d h pkg]
  by (auto simp: topology_eq Let_def simp del: concat_eq_Nil_conv)

text \<open>\<open>merge_and_deduplicate\<close> keeps the first occurrence of every entry of the two lists, in order:
  its two loops over a shared \<open>seen\<close> set compute the duplicate-free concatenation.\<close>

theorem merge_and_deduplicate_is_uniq:
  "merge_and_deduplicate v1 v2 = uniq (v1 @ v2)"
  by (simp add: merge_and_deduplicate_def retain_unseen_spec uniq_append)

text \<open>The bootstrap host is the least of the hosts that the transaction service names, in the
  order of strings, and it is missing only when there is no host.\<close>

theorem bootstrap_host_is_least:
  "case bootstrap_host d of
     Inl e \<Rightarrow> e = Err ''No hosts configured for bootstrap'' \<and> merge_hosts (tx_service d) = []
   | Inr h \<Rightarrow> h \<in> set (merge_hosts (tx_service d)) \<and> h = Min (set (merge_hosts (tx_service d)))"
proof (cases "merge_hosts (tx_service d)")
  case Nil
  then show ?thesis by (simp add: bootstrap_host_def)
next
  case (Cons h hs)
  have "sorted (merge_hosts (tx_service d))" by (simp add: merge_hosts_def Let_def)
  with Cons have "sorted (h # hs)" by simp
  then have "Min (set (h # hs)) = h" by (simp add: Min_insert2)
  then have "Min (set (merge_hosts (tx_service d))) = h" unfolding Cons .
  moreover have "bootstrap_host d = Inr h" by (simp add: bootstrap_host_def Cons)
  ultimately show ?thesis by (simp add: Cons)
qed

end
