(* ===== verification/Paths.thy ===== *)
theory Paths
  imports Hosts
begin

text \<open>
  Paths, versions and start commands of a deployment (\<open>config/deployment.rs\<close>,
  \<open>config/config_base.rs\<close>): the installation directory, the files below it, \<open>parse_version\<close>, the
  exported environment and the shell command that starts a server.
\<close>

section \<open>Installation paths\<close>

definition trim_end_char :: "char \<Rightarrow> string \<Rightarrow> string" where
  "trim_end_char c s = rev (dropWhile (\<lambda>x. x = c) (rev s))"

definition install_dir :: "deployment \<Rightarrow> string" where
  "install_dir d =
     (let base = trim_end_char CHR ''/'' (dep_install_dir d)
      in if base = [] then cluster_name d
         else if last (split_on is_slash base) = cluster_name d then base
         else base @ ''/'' @ cluster_name d)"

fun product_name :: "product \<Rightarrow> string" where
  "product_name EloqKV = ''eloqkv''"

fun product_home :: "product \<Rightarrow> string" where
  "product_home EloqKV = ''EloqKV''"

definition tx_srv_home :: "deployment \<Rightarrow> string" where
  "tx_srv_home d = install_dir d @ ''/'' @ product_home (dep_product d)"

definition log_srv_home :: "deployment \<Rightarrow> string" where
  "log_srv_home d = install_dir d @ ''/LogServer''"

definition tx_srv_ini :: "deployment \<Rightarrow> string \<Rightarrow> string" where
  "tx_srv_ini d p = tx_srv_home d @ ''/EloqKv-node-'' @ p @ ''.ini''"

definition dss_srv_ini :: "deployment \<Rightarrow> string \<Rightarrow> string" where
  "dss_srv_ini d p = tx_srv_home d @ ''/EloqDss-'' @ p @ ''.ini''"

definition asan_logs :: "deployment \<Rightarrow> string" where
  "asan_logs d = tx_srv_home d @ ''/logs''"

definition node_srv_logs :: "deployment \<Rightarrow> string \<Rightarrow> string" where
  "node_srv_logs d p = tx_srv_home d @ ''/logs/node-'' @ p"

definition tx_srv_bin :: "deployment \<Rightarrow> string" where
  "tx_srv_bin d = tx_srv_home d @ ''/bin/eloqkv''"

definition tls_cert_install_dir :: "deployment \<Rightarrow> string" where
  "tls_cert_install_dir d = install_dir d @ ''/ssl''"

section \<open>Versions\<close>

fun parse_digits :: "string list \<Rightarrow> u32 list option" where
  "parse_digits [] = Some []"
| "parse_digits (e # es) = (case parse_u32 e of
     None \<Rightarrow> None | Some v \<Rightarrow> map_option (\<lambda>vs. v # vs) (parse_digits es))"

definition version_digits :: "string \<Rightarrow> (u32 \<times> u32 \<times> u32) option" where
  "version_digits s = (case parse_digits (split_on is_dot s) of
     Some [a, b, c] \<Rightarrow> Some (a, b, c) | _ \<Rightarrow> None)"

definition parse_version :: "string \<Rightarrow> version" where
  "parse_version v =
     (if v = ''nightly'' then Nightly
      else if v = ''debug'' then Debug
      else case version_digits v of Some (a, b, c) \<Rightarrow> Tag a b c | None \<Rightarrow> Devel v)"

definition version_str :: "deployment \<Rightarrow> string" where
  "version_str d = (case dep_version d of None \<Rightarrow> ''latest'' | Some v \<Rightarrow> v)"

definition version_of :: "deployment \<Rightarrow> version option" where
  "version_of d = map_option parse_version (dep_version d)"

definition tx_image :: "deployment \<Rightarrow> string" where
  "tx_image d = (case tx_srv_image (tx_service d) of None \<Rightarrow> ''latest'' | Some i \<Rightarrow> i)"

definition log_image :: "deployment \<Rightarrow> string option" where
  "log_image d = Option.bind (dep_log_service d) log_srv_image"

section \<open>The sanitizer options\<close>

text \<open>\<open>str::replacen(from, to, 1)\<close> for a non-empty pattern.\<close>

fun replace_first :: "string \<Rightarrow> string \<Rightarrow> string \<Rightarrow> string" where
  "replace_first p r [] = []"
| "replace_first p r (c # cs) =
     (if starts_with p (c # cs) then r @ drop (length p) (c # cs) else c # replace_first p r cs)"

definition asan_defaults :: string where
  "asan_defaults = ''abort_on_error=1:disable_coredump=0:halt_on_error=0:fast_unwind_on_malloc=0:leak_check_at_exit=0:detect_stack_use_after_return=1''"

definition build_asan_options :: "bool \<Rightarrow> bool \<Rightarrow> string" where
  "build_asan_options fast_unwind detect_return =
     (let o1 = (if fast_unwind then replace_first ''fast_unwind_on_malloc=0'' ''fast_unwind_on_malloc=1'' asan_defaults
                else asan_defaults)
      in if \<not> detect_return
         then replace_first ''detect_stack_use_after_return=1'' ''detect_stack_use_after_return=0'' o1
         else o1)"

definition export_asan :: "string \<Rightarrow> bool \<Rightarrow> bool \<Rightarrow> string" where
  "export_asan log fast_unwind detect_return =
     ''export ASAN_OPTIONS='' @ build_asan_options fast_unwind detect_return @ '':log_path='' @ log"

section \<open>Start commands\<close>

definition dq :: char where "dq = CHR 0x22"
definition bslash :: char where "bslash = CHR 0x5C"

definition env_export :: "string \<times> string \<Rightarrow> string" where
  "env_export kv = ''export '' @ fst kv @ ''='' @ [dq] @ replace_char dq [bslash, dq] (snd kv) @ [dq] @ ''; ''"

definition gen_env_exports :: "deployment \<Rightarrow> string" where
  "gen_env_exports d = (case environment_variables d of
     None \<Rightarrow> [] | Some vars \<Rightarrow> concat (map env_export vars))"

datatype server_type = TxServer | StandbyServer | VoterServer | NodeServer

definition start_command :: "deployment \<Rightarrow> string \<Rightarrow> string \<Rightarrow> string" where
  "start_command d p datetime =
     (let ini_file = tx_srv_ini d p; tx_dir = tx_srv_home d; tx_bin = tx_srv_bin d;
          logs_dir = node_srv_logs d p;
          glog = ''mkdir -p '' @ logs_dir @ '' ; export GLOG_log_dir='' @ logs_dir @ '' ; export GLOG_max_log_size=1024'';
          ld_lib = (if version_of d = Some Debug
                    then export_asan (logs_dir @ ''/asan'') (uses_eloqstore_storage d) (\<not> uses_eloqstore_storage d)
                    else ''export LD_PRELOAD='' @ tx_dir @ ''/lib/libmimalloc.so.2'')
                   @ ''; export LD_LIBRARY_PATH='' @ tx_dir @ ''/lib:$LD_LIBRARY_PATH''
      in ''cd '' @ tx_dir @ ''; mkdir -p logs/std-output; '' @ gen_env_exports d @ glog @ ''; '' @ ld_lib @ '' ; '' @
         tx_bin @ '' --config='' @ ini_file @ '' --graceful_quit_on_sigterm=true > logs/std-output/std-out-'' @ p @
         ''-'' @ datetime @ '' 2>&1 & cd logs/std-output ; ln -sf std-out-'' @ p @ ''-'' @ datetime @
         '' std-out-'' @ p @ '' '')"

definition srv_start_cmd :: "string \<Rightarrow> deployment \<Rightarrow> string \<Rightarrow> server_type \<Rightarrow> string res" where
  "srv_start_cmd datetime d p st =
     (if st = NodeServer then Inl (Panic ''internal error: entered unreachable code'')
      else Inr (start_command d p datetime))"

definition srv_start_cmd_with_host :: "string \<Rightarrow> deployment \<Rightarrow> string \<Rightarrow> server_type \<Rightarrow> string res" where
  "srv_start_cmd_with_host datetime d p st =
     (if st = NodeServer then Inr (start_command d p datetime)
      else Inl (Panic ''internal error: entered unreachable code''))"

section \<open>Reading a double-quoted shell word\<close>

text \<open>
  The part of the shell's rules for text after an opening double quote that involves no expansion:
  an unescaped double quote ends the word; a backslash before a double quote or a backslash stands
  for that character; before anything else it stands for itself. The result is the word and the
  rest of the command line.
\<close>

fun read_dquoted :: "string \<Rightarrow> (string \<times> string) option" where
  "read_dquoted [] = None"
| "read_dquoted (c # cs) =
     (if c = dq then Some ([], cs)
      else if c = bslash then
        (case cs of
           [] \<Rightarrow> None
         | e # es \<Rightarrow> if e = dq \<or> e = bslash then map_option (\<lambda>(w, r). (e # w, r)) (read_dquoted es)
                     else map_option (\<lambda>(w, r). (c # w, r)) (read_dquoted cs))
      else map_option (\<lambda>(w, r). (c # w, r)) (read_dquoted cs))"

lemma read_escaped:
  "bslash \<notin> set v \<Longrightarrow> read_dquoted (replace_char dq [bslash, dq] v @ dq # rest) = Some (v, rest)"
  by (induction v) (auto simp: replace_char_def dq_def bslash_def)

section \<open>Lemmas on paths\<close>

lemma last_split_on: "last (split_on P s) = rev (takeWhile (\<lambda>c. \<not> P c) (rev s))"
proof (induction s rule: rev_induct)
  case (snoc c s)
  show ?case
  proof (cases "P c")
    case True
    then show ?thesis using split_on_append [of P c s "[]"] by simp
  next
    case False
    have "split_on P (s @ [c]) = butlast (split_on P s) @ [last (split_on P s) @ [c]]"
      using False
    proof (induction s)
      case (Cons a s)
      then show ?case
        by (cases "split_on P s"; cases "tl (split_on P s)") (auto simp: neq_Nil_conv)
    qed simp
    then show ?thesis using snoc False by simp
  qed
qed simp

lemma trim_end_char_id: "s = [] \<or> last s \<noteq> c \<Longrightarrow> trim_end_char c s = s"
  by (auto simp: trim_end_char_def dropWhile_not_hd hd_rev)

lemma trim_end_char_last: "trim_end_char c s \<noteq> [] \<Longrightarrow> last (trim_end_char c s) \<noteq> c"
  using hd_dropWhile [of "\<lambda>x. x = c" "rev s"] by (simp add: trim_end_char_def last_rev)

lemma last_split_append:
  "\<forall>c \<in> set b. \<not> P c \<Longrightarrow> P d \<Longrightarrow> last (split_on P (a @ d # b)) = b"
  unfolding last_split_on rev_append rev.simps append_assoc append_Cons append_Nil
  by (subst takeWhile_append2) auto

lemma parse_digits_show: "parse_digits (map show_u32 ds) = Some ds"
  by (induction ds) simp_all

lemma show_u32_digits: "c \<in> set (show_u32 n) \<Longrightarrow> is_digit c"
  by (auto simp: show_u32_def dest: show_nat_digits)

lemma version_digits_show:
  "version_digits (join ''.'' [show_u32 a, show_u32 b, show_u32 c]) = Some (a, b, c)"
proof -
  have dig: "\<not> is_dot ch" if "is_digit ch" for ch using that by (auto simp: is_dot_def is_digit_def)
  have nd: "\<forall>ch \<in> set (show_u32 n). \<not> is_dot ch" for n using dig by (blast dest: show_u32_digits)
  have "split_on is_dot (join ''.'' [show_u32 a, show_u32 b, show_u32 c]) = map show_u32 [a, b, c]"
    unfolding list.map by (rule split_on_join) (use nd in \<open>auto simp: is_dot_def\<close>)
  then show ?thesis by (simp only: version_digits_def parse_digits_show option.case list.case)
qed

section \<open>Properties\<close>

text \<open>The installation directory of a deployment ends in the cluster name, and configuring that
  directory as \<open>install_dir\<close> again changes nothing.\<close>

theorem install_dir_idempotent:
  assumes "CHR ''/'' \<notin> set (cluster_name d)" and "cluster_name d \<noteq> []"
  shows "last (split_on is_slash (install_dir d)) = cluster_name d \<and>
    install_dir (d\<lparr>dep_install_dir := install_dir d\<rparr>) = install_dir d"
proof -
  have ns: "\<forall>c \<in> set (cluster_name d). \<not> is_slash c" using assms(1) by (auto simp: is_slash_def)
  have ls: "last (split_on is_slash (install_dir d)) = cluster_name d"
  proof -
    have "last (split_on is_slash (b @ ''/'' @ cluster_name d)) = cluster_name d" for b
      using last_split_append [of "cluster_name d" is_slash "CHR ''/''" b] ns by (simp add: is_slash_def [of "CHR ''/''"])
    moreover have "split_on is_slash (cluster_name d) = [cluster_name d]" by (rule split_on_no_sep [OF ns])
    ultimately show ?thesis by (simp add: install_dir_def Let_def)
  qed
  have "install_dir d \<noteq> [] \<and> last (install_dir d) \<noteq> CHR ''/''"
  proof -
    have "last (cluster_name d) \<noteq> CHR ''/''" using assms last_in_set [OF assms(2)] by metis
    then show ?thesis using assms(2) trim_end_char_last [of "CHR ''/''" "dep_install_dir d"]
      by (auto simp: install_dir_def Let_def)
  qed
  then have "trim_end_char CHR ''/'' (install_dir d) = install_dir d" "install_dir d \<noteq> []"
    by (simp_all add: trim_end_char_id)
  with ls show ?thesis by (simp add: install_dir_def [of "d\<lparr>dep_install_dir := install_dir d\<rparr>"])
qed

theorem install_dir_idempotent_witness:
  "install_dir ((bare_deployment ''kv'' ''/home/eloq/'' (bare_service [] None None))
     \<lparr>dep_install_dir := ''/home/eloq/kv''\<rparr>) = ''/home/eloq/kv''"
proof -
  let ?d = "bare_deployment ''kv'' ''/home/eloq/'' (bare_service [] None None)"
  have i: "install_dir ?d = ''/home/eloq/kv''" by code_simp
  from install_dir_idempotent [of ?d] show ?thesis by (simp add: i)
qed

text \<open>A version printed as three dotted numbers parses to that release tag, and a version that is
  neither \<open>nightly\<close> nor \<open>debug\<close> nor three 32-bit numbers is kept as a development build.\<close>

theorem parse_version_round_trip:
  "parse_version (join ''.'' [show_u32 a, show_u32 b, show_u32 c]) = Tag a b c \<and>
   (version_digits v = None \<longrightarrow> v \<notin> {''nightly'', ''debug''} \<longrightarrow> parse_version v = Devel v)"
proof -
  let ?s = "join ''.'' [show_u32 a, show_u32 b, show_u32 c]"
  have "CHR ''.'' \<in> set ?s" by simp
  then have "?s \<noteq> ''nightly''" "?s \<noteq> ''debug''" by (auto simp del: join.simps)
  then show ?thesis by (simp add: parse_version_def version_digits_show del: join.simps)
qed

theorem parse_version_round_trip_witness:
  "parse_version ''v1'' = Devel ''v1''"
  using parse_version_round_trip [of 1 2 3 "''v1''"]
  by (simp add: version_digits_def is_dot_def parse_u32_def parse_below_def is_digit_def)

text \<open>The exported environment reads back in the shell as the configured value when the value
  contains no backslash; a value ending in a backslash escapes the closing quote, so the word runs
  on into the rest of the command line.\<close>

theorem env_export_reads_back:
  assumes "bslash \<notin> set v"
  shows "(\<exists>body. env_export (k, v) = ''export '' @ k @ ''='' @ dq # body \<and>
      read_dquoted (body @ rest) = Some (v, ''; '' @ rest)) \<and>
    (\<exists>body. env_export (k, v @ [bslash]) = ''export '' @ k @ ''='' @ dq # body \<and>
      read_dquoted body = None)"
proof (rule conjI)
  have "env_export (k, v) = ''export '' @ k @ ''='' @ dq # (replace_char dq [bslash, dq] v @ dq # ''; '')"
    by (simp add: env_export_def)
  moreover have "read_dquoted ((replace_char dq [bslash, dq] v @ dq # ''; '') @ rest) = Some (v, ''; '' @ rest)"
    using read_escaped [OF assms, of "''; '' @ rest"] by simp
  ultimately show "\<exists>body. env_export (k, v) = ''export '' @ k @ ''='' @ dq # body \<and>
      read_dquoted (body @ rest) = Some (v, ''; '' @ rest)" by blast
  have "env_export (k, v @ [bslash]) =
      ''export '' @ k @ ''='' @ dq # (replace_char dq [bslash, dq] v @ [bslash, dq] @ ''; '')"
    by (simp add: env_export_def replace_char_def dq_def bslash_def)
  moreover have "read_dquoted (replace_char dq [bslash, dq] v @ [bslash, dq] @ ''; '') = None"
    using assms by (induction v) (auto simp: replace_char_def dq_def bslash_def)
  ultimately show "\<exists>body. env_export (k, v @ [bslash]) = ''export '' @ k @ ''='' @ dq # body \<and>
      read_dquoted body = None" by blast
qed

theorem env_export_reads_back_witness:
  "\<exists>body. env_export (''K'', ''a b'') = ''export '' @ ''K'' @ ''='' @ dq # body \<and>
     read_dquoted (body @ ''ls'') = Some (''a b'', ''; '' @ ''ls'')"
  using env_export_reads_back [of "''a b''" "''K''" "''ls''"] by (simp add: bslash_def)

end
