(* ===== verification/Topology_Check.thy ===== *)
theory Topology_Check
  imports Hosts
begin

text \<open>
  Validation of the node topology and the readers of the same address lists (\<open>config/config_base.rs\<close>,
  \<open>config/deployment.rs\<close>): \<open>validate_topology\<close>, the loop that generates one configuration file per
  node, the TLS certificates to create and the client connection.

  \<open>gen_eloqkv_node_config\<close> and \<open>ensure_tls_cert_for_node\<close> write files; the loops that call them take
  them as arguments.
\<close>

section \<open>Validation\<close>

definition validate_token :: "string \<Rightarrow> string \<Rightarrow> unit res" where
  "validate_token field tok =
     (let token = trim tok
      in if token = [] then Inr ()
         else case rsplit_once is_colon token of
           None \<Rightarrow> Inl (Err (field @ '' entry '' @ quoted token @ '' must use host:port format''))
         | Some (host, p) \<Rightarrow>
             if trim host = [] then Inl (Err (field @ '' entry '' @ quoted token @ '' has empty host''))
             else if parse_u16 p = None
             then Inl (Err (field @ '' entry '' @ quoted token @ '' has invalid port '' @ quoted p))
             else Inr ())"

definition validate_host_port_entry :: "string \<Rightarrow> string \<Rightarrow> bool \<Rightarrow> unit res" where
  "validate_host_port_entry field entry allow_group_separator =
     checkE (validate_token field)
       (split_on (if allow_group_separator then is_pipe_comma else is_comma) entry)"

definition validate_group_list :: "string \<Rightarrow> string list option \<Rightarrow> unit res" where
  "validate_group_list field l = (case l of
     None \<Rightarrow> Inr ()
   | Some entries \<Rightarrow>
       if entries = [] then Inl (Err (field @ '' must not be empty when provided''))
       else checkE (\<lambda>e. validate_host_port_entry field e True) entries)"

definition provider_count :: "storage_service \<Rightarrow> nat" where
  "provider_count st = of_bool (st_dynamodb st \<noteq> None) + of_bool (st_rocksdb st \<noteq> None) +
     of_bool (st_eloqdss st \<noteq> None)"

definition validate_storage :: "storage_service option \<Rightarrow> unit res" where
  "validate_storage s = (case s of
     None \<Rightarrow> Inr ()
   | Some st \<Rightarrow>
       if provider_count st = 0 then Inl (Err
         ''deployment.storage_service is provided but no storage provider is configured'')
       else if provider_count st > 1 then Inl (Err
         ''deployment.storage_service must configure only one provider among dynamodb, rocksdb, and eloqdss'')
       else Inr ())"

definition validate_log_node :: "nat \<times> log_service_node \<Rightarrow> unit res" where
  "validate_log_node = (\<lambda>(idx, node).
     if trim (lsn_host node) = [] then
       Inl (Err (''deployment.log_service.nodes['' @ show_nat idx @ ''].host must not be empty''))
     else if lsn_data_dir node = [] then
       Inl (Err (''deployment.log_service.nodes['' @ show_nat idx @ ''].data_dir must not be empty''))
     else Inr ())"

definition validate_log :: "log_service option \<Rightarrow> unit res" where
  "validate_log l = (case l of
     None \<Rightarrow> Inr ()
   | Some ls \<Rightarrow>
       if log_nodes ls = [] then Inl (Err ''deployment.log_service.nodes must not be empty'')
       else if log_replica_num ls = 0 then
         Inl (Err ''deployment.log_service.replica must be greater than 0'')
       else checkE validate_log_node (enumerate 0 (log_nodes ls)))"

definition validate_topology :: "deploy_config \<Rightarrow> unit res" where
  "validate_topology cfg =
     (let d = cfg_deployment cfg; tx = tx_service d
      in if tx_host_ports tx = [] then
           Inl (Err ''deployment.tx_service.tx_host_ports must not be empty'')
         else bindE (checkE (\<lambda>e. validate_host_port_entry ''deployment.tx_service.tx_host_ports'' e False)
                      (tx_host_ports tx)) (\<lambda>_.
              bindE (validate_group_list ''deployment.tx_service.standby_host_ports'' (standby_host_ports tx)) (\<lambda>_.
              bindE (validate_group_list ''deployment.tx_service.voter_host_ports'' (voter_host_ports tx)) (\<lambda>_.
              bindE (validate_storage (dep_storage_service d)) (\<lambda>_.
              bindE (validate_log (dep_log_service d)) (\<lambda>_.
              if enable_wal d = Some True \<and> dep_log_service d = None then
                Inl (Err ''deployment.enable_wal=true requires deployment.log_service to be configured'')
              else Inr ()))))))"

section \<open>One configuration per node\<close>

definition target_of :: "string \<Rightarrow> string \<Rightarrow> (string \<times> string) res" where
  "target_of field hostport = (case split_once is_colon hostport of
     None \<Rightarrow> Inl (Err (''invalid '' @ field @ '' entry: '' @ hostport))
   | Some (host, p) \<Rightarrow>
       if host = [] \<or> p = [] then Inl (Err (''invalid '' @ field @ '' entry: '' @ hostport))
       else Inr (host, p))"

definition gen_targets :: "(string option \<Rightarrow> string option \<Rightarrow> 'path res) \<Rightarrow> string \<Rightarrow> string list \<Rightarrow>
    'path list res" where
  "gen_targets gen field tokens =
     mapE (\<lambda>hp. bindE (target_of field hp) (\<lambda>(host, p). gen (Some host) (Some p))) tokens"

definition gen_group_targets :: "(string option \<Rightarrow> string option \<Rightarrow> 'path res) \<Rightarrow> string \<Rightarrow> string \<Rightarrow>
    string list option \<Rightarrow> 'path list res" where
  "gen_group_targets gen field empty_msg l = (case l of
     None \<Rightarrow> Inr []
   | Some entries \<Rightarrow>
       if entries = [] then Inl (Err empty_msg)
       else gen_targets gen field (concat (map (split_on is_pipe_comma) entries)))"

definition gen_all_eloq_configs :: "(string option \<Rightarrow> string option \<Rightarrow> 'path res) \<Rightarrow> deploy_config \<Rightarrow>
    'path list res" where
  "gen_all_eloq_configs gen cfg =
     (let tx = tx_service (cfg_deployment cfg)
      in bindE (gen None None) (\<lambda>p0.
         bindE (gen_targets gen ''deployment.tx_service.tx_host_ports''
                 (concat (map (split_on is_comma) (tx_host_ports tx)))) (\<lambda>ps1.
         bindE (gen_group_targets gen ''deployment.tx_service.standby_host_ports''
                 ''standby_host_ports is empty, but it was expected to contain values.''
                 (standby_host_ports tx)) (\<lambda>ps2.
         bindE (gen_group_targets gen ''deployment.tx_service.voter_host_ports''
                 ''voter_host_ports is empty, but it was expected to contain values.''
                 (voter_host_ports tx)) (\<lambda>ps3.
         Inr (p0 # ps1 @ ps2 @ ps3))))))"

section \<open>The client connection\<close>

definition redis_password :: "deploy_config \<Rightarrow> string option \<Rightarrow> string option" where
  "redis_password cfg cli = (case cli of Some p \<Rightarrow> Some p | None \<Rightarrow> requirepass (tx_service (cfg_deployment cfg)))"

definition client_conn :: "deploy_config \<Rightarrow> string res" where
  "client_conn cfg = (case tx_host_ports (tx_service (cfg_deployment cfg)) of
     [] \<Rightarrow> Inl (Panic ''called `Option::unwrap()` on a `None` value'')
   | host_port # _ \<Rightarrow>
       (let parts = split_on is_colon host_port
        in case nth_opt parts 1 of
             None \<Rightarrow> Inl (Panic ''index out of bounds'')
           | Some ps \<Rightarrow>
               (let p = (case parse_u16 ps of Some p \<Rightarrow> p | None \<Rightarrow> 6379)
                in case cfg_service_endpoint cfg (hd parts) p of (host, p') \<Rightarrow>
                     Inr (''redis-cli -h '' @ host @ '' -p '' @ show_u16 p'))))"

section \<open>TLS certificates\<close>

definition tls_enabled :: "deployment \<Rightarrow> bool" where
  "tls_enabled d = (case enable_tls d of None \<Rightarrow> False | Some b \<Rightarrow> b)"

definition sanitize_file_component :: "string \<Rightarrow> string" where
  "sanitize_file_component s =
     map (\<lambda>c. if is_ascii_alnum c \<or> c = CHR ''-'' \<or> c = CHR ''_'' then c else CHR ''_'') s"

definition tls_file_names :: "string \<Rightarrow> string \<Rightarrow> string \<times> string" where
  "tls_file_names host p =
     (let h = sanitize_file_component host
      in (''eloqkv-tls-'' @ h @ ''-'' @ p @ ''.crt'', ''eloqkv-tls-'' @ h @ ''-'' @ p @ ''.key''))"

text \<open>The pair a token of an address list stands for, if any.\<close>

definition tls_pair :: "string \<Rightarrow> (string \<times> string) option" where
  "tls_pair tok =
     (let token = trim tok
      in if token = [] then None
         else let parts = split_on is_colon token;
                  host = trim (hd parts);
                  p = trim (case nth_opt parts 1 of None \<Rightarrow> [] | Some s \<Rightarrow> s)
              in if host = [] \<or> p = [] then None else Some (host, p))"

text \<open>The state is the list of pairs already handled, oldest first; \<open>ensure\<close> creates one certificate.\<close>

definition add_host_port :: "(string \<Rightarrow> string \<Rightarrow> unit res) \<Rightarrow> (string \<times> string) list \<Rightarrow> string \<Rightarrow>
    (string \<times> string) list res" where
  "add_host_port ensure seen tok = (case tls_pair tok of
     None \<Rightarrow> Inr seen
   | Some pair \<Rightarrow>
       if pair \<in> set seen then Inr seen
       else bindE (ensure (fst pair) (snd pair)) (\<lambda>_. Inr (seen @ [pair])))"

definition opt_list :: "'a list option \<Rightarrow> 'a list" where
  "opt_list l = (case l of None \<Rightarrow> [] | Some xs \<Rightarrow> xs)"

definition tls_tokens :: "eloq_service \<Rightarrow> string list" where
  "tls_tokens tx = concat (map (split_on is_comma) (tx_host_ports tx)) @
     concat (map (split_on is_pipe_comma) (opt_list (standby_host_ports tx))) @
     concat (map (split_on is_pipe_comma) (opt_list (voter_host_ports tx)))"

definition ensure_tls_certs_for_all_kv_nodes :: "(string \<Rightarrow> string \<Rightarrow> unit res) \<Rightarrow> deployment \<Rightarrow>
    (string \<times> string) list res" where
  "ensure_tls_certs_for_all_kv_nodes ensure d =
     (if \<not> tls_enabled d \<or> dep_product d \<noteq> EloqKV then Inr []
      else foldE (add_host_port ensure) [] (tls_tokens (tx_service d)))"

section \<open>Address lists as they are written\<close>

text \<open>A host name that the separators of an address list do not occur in.\<close>

definition clean_host :: "string \<Rightarrow> bool" where
  "clean_host h \<longleftrightarrow> h \<noteq> [] \<and> (\<forall>c \<in> set h. \<not> is_ws c \<and> \<not> is_colon c \<and> \<not> is_pipe_comma c)"

definition node_addr :: "string \<times> u16 \<Rightarrow> string" where
  "node_addr n = addr (fst n) (snd n)"

text \<open>One entry: groups separated by bars, the nodes of a group by commas.\<close>

definition render_nodes :: "(string \<times> u16) list \<Rightarrow> string" where
  "render_nodes ns = join '','' (map node_addr ns)"

definition render_groups :: "(string \<times> u16) list list \<Rightarrow> string" where
  "render_groups gs = join ''|'' (map render_nodes gs)"

definition clean_nodes :: "(string \<times> u16) list \<Rightarrow> bool" where
  "clean_nodes ns \<longleftrightarrow> ns \<noteq> [] \<and> (\<forall>n \<in> set ns. clean_host (fst n))"

definition clean_groups :: "(string \<times> u16) list list \<Rightarrow> bool" where
  "clean_groups gs \<longleftrightarrow> gs \<noteq> [] \<and> (\<forall>g \<in> set gs. clean_nodes g)"

lemma node_addr_chars:
  assumes "clean_host (fst n)" "c \<in> set (node_addr n)"
  shows "\<not> is_ws c" "\<not> is_pipe_comma c" "\<not> is_comma c"
proof -
  have "c \<in> set (fst n) \<or> c = CHR '':'' \<or> c \<in> set (show_u16 (snd n))"
    using assms(2) by (auto simp: node_addr_def addr_def)
  moreover have "\<not> is_ws (CHR '':'')" "\<not> is_pipe_comma (CHR '':'')"
    by (simp_all add: is_ws_def is_pipe_comma_def)
  ultimately show "\<not> is_ws c" "\<not> is_pipe_comma c"
    using assms(1) unfolding clean_host_def by (blast dest: show_u16_no_sep)+
  then show "\<not> is_comma c" by (simp add: sep_defs)
qed

lemma split_nodes_comma: "clean_nodes ns \<Longrightarrow> split_on is_comma (render_nodes ns) = map node_addr ns"
  unfolding render_nodes_def clean_nodes_def
  by (rule split_on_join) (auto simp: is_comma_def dest: node_addr_chars(3) [unfolded is_comma_def])

lemma split_nodes_pipe_comma:
  "clean_nodes ns \<Longrightarrow> split_on is_pipe_comma (render_nodes ns) = map node_addr ns"
  unfolding render_nodes_def clean_nodes_def
  by (rule split_on_join) (auto simp: is_pipe_comma_def dest: node_addr_chars(2) [unfolded is_pipe_comma_def])

lemma split_groups:
  assumes "clean_groups gs"
  shows "split_on is_pipe_comma (render_groups gs) = map node_addr (concat gs)"
proof -
  have "split_on is_pipe_comma (render_groups gs) = concat (map (split_on is_pipe_comma) (map render_nodes gs))"
    unfolding render_groups_def using assms
    by (intro split_on_join_concat) (auto simp: clean_groups_def is_pipe_comma_def)
  also have "\<dots> = concat (map (map node_addr) gs)"
    using assms split_nodes_pipe_comma by (auto simp: clean_groups_def intro!: arg_cong [where f = concat])
  finally show ?thesis by (simp add: map_concat)
qed

lemma host_part_node: "clean_host (fst n) \<Longrightarrow> host_part (node_addr n) = fst n"
  by (simp add: node_addr_def host_part_addr clean_host_def)

lemma node_addr_not_Nil [simp]: "node_addr n \<noteq> []" by (simp add: node_addr_def addr_def)

lemma validate_node_addr: "clean_host (fst n) \<Longrightarrow> validate_token field (node_addr n) = Inr ()"
proof -
  assume c: "clean_host (fst n)"
  have t: "trim (node_addr n) = node_addr n" by (rule trim_id) (blast dest: node_addr_chars(1) [OF c])
  have th: "trim (fst n) = fst n" by (rule trim_id) (use c in \<open>auto simp: clean_host_def\<close>)
  show ?thesis using c
    by (simp add: validate_token_def t Let_def) (simp add: node_addr_def th clean_host_def)
qed

lemma target_of_node_addr: "clean_host (fst n) \<Longrightarrow> target_of field (node_addr n) = Inr (fst n, show_u16 (snd n))"
  by (simp add: target_of_def node_addr_def clean_host_def show_u16_def)

lemma mapE_targets:
  "\<forall>n \<in> set ns. clean_host (fst n) \<Longrightarrow>
   gen_targets gen field (map node_addr ns) = mapE (\<lambda>n. gen (Some (fst n)) (Some (show_u16 (snd n)))) ns"
  by (induction ns) (simp_all add: gen_targets_def target_of_node_addr)

section \<open>Lemmas on the checks\<close>

lemmas validate_eval = validate_topology_def validate_host_port_entry_def validate_token_def
  validate_group_list_def validate_storage_def validate_log_def Let_def

definition tls_step :: "string \<Rightarrow> (string \<times> string) list" where
  "tls_step tok = (case tls_pair tok of None \<Rightarrow> [] | Some p \<Rightarrow> [p])"

lemma in_tls_step: "p \<in> set (tls_step tok) \<longleftrightarrow> tls_pair tok = Some p"
  by (cases "tls_pair tok") (auto simp: tls_step_def)

lemma foldE_add_host_port:
  "foldE (add_host_port ensure) seen toks = Inr res \<Longrightarrow> distinct seen \<Longrightarrow>
   distinct res \<and> set res = set seen \<union> set (concat (map tls_step toks)) \<and>
   (\<forall>p \<in> set res - set seen. ensure (fst p) (snd p) = Inr ())"
proof (induction toks arbitrary: seen)
  case (Cons tok toks)
  then obtain s1 where s: "add_host_port ensure seen tok = Inr s1" "foldE (add_host_port ensure) s1 toks = Inr res"
    by (auto simp: res_simps)
  show ?case
  proof (cases "tls_pair tok")
    case None
    then have "s1 = seen" using s(1) by (simp add: add_host_port_def)
    moreover have "tls_step tok = []" using None by (simp add: tls_step_def)
    ultimately show ?thesis using Cons.IH [OF s(2)] Cons.prems(2) by auto
  next
    case (Some pair)
    show ?thesis
    proof (cases "pair \<in> set seen")
      case True
      then have "s1 = seen" using s(1) Some by (simp add: add_host_port_def)
      then show ?thesis using Cons.IH [OF s(2)] Cons.prems(2) Some True by (auto simp: tls_step_def)
    next
      case False
      then have e: "s1 = seen @ [pair]" "ensure (fst pair) (snd pair) = Inr ()"
        using s(1) Some by (auto simp: add_host_port_def res_simps)
      then have "distinct s1" using Cons.prems(2) False by simp
      from Cons.IH [OF s(2) this] show ?thesis using e Some by (auto simp: tls_step_def)
    qed
  qed
qed simp

lemma split_once_first_colon:
  "\<forall>c \<in> set h. \<not> is_colon c \<Longrightarrow> hd (split_on is_colon (addr h p @ s)) = h \<and>
     nth_opt (split_on is_colon (addr h p @ s)) 1 = Some (hd (split_on is_colon (show_u16 p @ s)))"
  by (simp add: addr_def split_on_append_sep is_colon_def nth_opt_def hd_conv_nth)

lemma hd_split_on: "hd (split_on P s) = takeWhile (\<lambda>c. \<not> P c) s"
proof (induction s)
  case (Cons c s)
  then show ?case by (cases "split_on P s") auto
qed simp

lemma parse_u16_no_comma: "CHR '','' \<in> set s \<Longrightarrow> parse_u16 s = None"
proof -
  assume c: "CHR '','' \<in> set s"
  have "parse_below (2 ^ 16) s = None"
  proof (rule ccontr)
    assume "parse_below (2 ^ 16) s \<noteq> None"
    then obtain n where "parse_below (2 ^ 16) s = Some n" by auto
    from parse_below_chars [OF this] c show False by (auto simp: is_digit_def)
  qed
  then show ?thesis by (simp add: parse_u16_def)
qed

section \<open>Properties\<close>

text \<open>C11. An address list written in the documented form (groups of \<open>host:port\<close> nodes, separated by
  bars and commas) passes validation, and the host list (\<open>get_host_list_internal\<close>), the node list
  (\<open>get_host_port_list_internal\<close>) and the targets of the configuration generator (\<open>gen_targets\<close>) take the
  same nodes from it, in order. This is about these three readers; \<open>client_conn\<close>, which looks at the first
  entry only, takes another port from an entry of several nodes (\<open>client_conn_port\<close>).\<close>

theorem rendered_groups_read_back:
  assumes "clean_groups gs"
  shows "validate_host_port_entry field (render_groups gs) True = Inr () \<and>
    get_host_port_list_internal (Some [render_groups gs]) = map node_addr (concat gs) \<and>
    get_host_list_internal (Some [render_groups gs]) = map fst (concat gs) \<and>
    gen_targets gen field (split_on is_pipe_comma (render_groups gs)) =
      mapE (\<lambda>n. gen (Some (fst n)) (Some (show_u16 (snd n)))) (concat gs)"
proof -
  have s: "split_on is_pipe_comma (render_groups gs) = map node_addr (concat gs)"
    by (rule split_groups [OF assms])
  have c: "\<forall>n \<in> set (concat gs). clean_host (fst n)"
    using assms by (auto simp: clean_groups_def clean_nodes_def)
  have h: "map host_part (map node_addr (concat gs)) = map fst (concat gs)"
    using c by (auto simp: host_part_node)
  have "filter (\<lambda>h. h \<noteq> []) (map fst (concat gs)) = map fst (concat gs)"
    using c by (auto simp: clean_host_def filter_id_conv)
  then have "get_host_list_internal (Some [render_groups gs]) = map fst (concat gs)"
    using h by (simp add: get_host_list_internal_def s del: map_map)
  moreover have "filter (\<lambda>hp. hp \<noteq> []) (map node_addr (concat gs)) = map node_addr (concat gs)"
    by (simp add: filter_id_conv)
  then have "get_host_port_list_internal (Some [render_groups gs]) = map node_addr (concat gs)"
    by (simp add: get_host_port_list_internal_def s)
  moreover have "validate_host_port_entry field (render_groups gs) True = Inr ()"
    using c by (simp add: validate_host_port_entry_def s checkE_Inr validate_node_addr)
  ultimately show ?thesis by (simp only: s mapE_targets [OF c])
qed

theorem rendered_groups_read_back_witness:
  "get_host_list_internal (Some [render_groups [[(''h1'', 6379), (''h2'', 6380)], [(''h3'', 6379)]]]) =
     [''h1'', ''h2'', ''h3'']"
proof -
  have "clean_groups [[(''h1'', 6379), (''h2'', 6380)], [(''h3'', 6379)]]"
    by (simp add: clean_groups_def clean_nodes_def clean_host_def is_ws_def sep_defs)
  from rendered_groups_read_back [OF this, of "[]" "\<lambda>_ _. Inr ()"] show ?thesis by simp
qed

text \<open>C12. What validation establishes: every token of the transaction node list is blank or, trimmed,
  a non-blank host and a 16-bit port; at most one storage provider is configured; the log service
  has nodes, a positive replica count, and a data directory on each node; a write-ahead log has a
  log service.\<close>

theorem validate_topology_establishes:
  assumes "validate_topology cfg = Inr ()"
  shows "(\<forall>e \<in> set (tx_host_ports (tx_service (cfg_deployment cfg))). \<forall>t \<in> set (split_on is_comma e).
      trim t = [] \<or> (\<exists>h ps p. rsplit_once is_colon (trim t) = Some (h, ps) \<and> trim h \<noteq> [] \<and> parse_u16 ps = Some p)) \<and>
    (\<forall>st. dep_storage_service (cfg_deployment cfg) = Some st \<longrightarrow> provider_count st = 1) \<and>
    (\<forall>ls. dep_log_service (cfg_deployment cfg) = Some ls \<longrightarrow>
       log_nodes ls \<noteq> [] \<and> log_replica_num ls \<noteq> 0 \<and> (\<forall>n \<in> set (log_nodes ls). lsn_data_dir n \<noteq> [])) \<and>
    (enable_wal (cfg_deployment cfg) = Some True \<longrightarrow> dep_log_service (cfg_deployment cfg) \<noteq> None)"
proof -
  let ?d = "cfg_deployment cfg"
  from assms have tx: "\<forall>e \<in> set (tx_host_ports (tx_service ?d)).
        validate_host_port_entry ''deployment.tx_service.tx_host_ports'' e False = Inr ()"
    and st: "validate_storage (dep_storage_service ?d) = Inr ()"
    and lg: "validate_log (dep_log_service ?d) = Inr ()"
    and wal: "\<not> (enable_wal ?d = Some True \<and> dep_log_service ?d = None)"
    by (auto simp: validate_topology_def Let_def res_simps split: if_splits)
  have tok: "trim t = [] \<or> (\<exists>h ps p. rsplit_once is_colon (trim t) = Some (h, ps) \<and> trim h \<noteq> [] \<and> parse_u16 ps = Some p)"
    if "validate_token f t = Inr ()" for f t
    using that by (auto simp: validate_token_def Let_def split: if_splits option.splits)
  have "\<forall>st. dep_storage_service ?d = Some st \<longrightarrow> provider_count st = 1"
    using st by (auto simp: validate_storage_def split: if_splits)
  moreover have "\<forall>ls. dep_log_service ?d = Some ls \<longrightarrow> log_nodes ls \<noteq> [] \<and> log_replica_num ls \<noteq> 0 \<and>
      (\<forall>n \<in> set (log_nodes ls). lsn_data_dir n \<noteq> [])"
  proof (intro allI impI)
    fix ls assume "dep_log_service ?d = Some ls"
    with lg have "log_nodes ls \<noteq> []" "log_replica_num ls \<noteq> 0"
      and a: "\<forall>x \<in> set (enumerate 0 (log_nodes ls)). validate_log_node x = Inr ()"
      by (auto simp: validate_log_def res_simps split: if_splits)
    moreover have "lsn_data_dir n \<noteq> []" if n: "n \<in> set (log_nodes ls)" for n
    proof -
      from n have "n \<in> snd ` set (enumerate 0 (log_nodes ls))" by (metis list.set_map map_snd_enumerate)
      then obtain i where "(i, n) \<in> set (enumerate 0 (log_nodes ls))" by auto
      with a have "validate_log_node (i, n) = Inr ()" by blast
      then show ?thesis by (auto simp: validate_log_node_def split: if_splits)
    qed
    ultimately show "log_nodes ls \<noteq> [] \<and> log_replica_num ls \<noteq> 0 \<and> (\<forall>n \<in> set (log_nodes ls). lsn_data_dir n \<noteq> [])"
      by blast
  qed
  moreover have "\<forall>e \<in> set (tx_host_ports (tx_service ?d)). \<forall>t \<in> set (split_on is_comma e).
      trim t = [] \<or> (\<exists>h ps p. rsplit_once is_colon (trim t) = Some (h, ps) \<and> trim h \<noteq> [] \<and> parse_u16 ps = Some p)"
  proof (intro ballI)
    fix e t assume "e \<in> set (tx_host_ports (tx_service ?d))" "t \<in> set (split_on is_comma e)"
    with tx have "validate_token ''deployment.tx_service.tx_host_ports'' t = Inr ()"
      by (auto simp: validate_host_port_entry_def checkE_Inr)
    then show "trim t = [] \<or> (\<exists>h ps p. rsplit_once is_colon (trim t) = Some (h, ps) \<and> trim h \<noteq> [] \<and> parse_u16 ps = Some p)"
      by (rule tok)
  qed
  moreover have "enable_wal ?d = Some True \<longrightarrow> dep_log_service ?d \<noteq> None" using wal by simp
  ultimately show ?thesis by (intro conjI)
qed

theorem validate_topology_establishes_witness:
  "validate_topology (bare_config (bare_deployment ''c'' ''/opt'' (bare_service [''h:1''] None None))) = Inr () \<and>
   (\<exists>h ps p. rsplit_once is_colon (trim ''h:1'') = Some (h, ps) \<and> trim h \<noteq> [] \<and> parse_u16 ps = Some p)"
proof -
  have v: "validate_topology (bare_config (bare_deployment ''c'' ''/opt'' (bare_service [''h:1''] None None))) = Inr ()"
    by (simp add: validate_eval eval_str)
  have "''h:1'' \<in> set (split_on is_comma ''h:1'')" "trim ''h:1'' \<noteq> []" by (simp_all add: eval_str)
  with validate_topology_establishes [OF v] v show ?thesis by auto
qed

text \<open>A trailing comma passes validation, but the configuration generator rejects the same entry,
  whatever its file writer does, and the bootstrap host is then the empty string.\<close>

theorem trailing_comma_validated_but_rejected:
  fixes gen :: "string option \<Rightarrow> string option \<Rightarrow> 'path res"
  shows "\<exists>cfg. validate_topology cfg = Inr () \<and> bootstrap_host (cfg_deployment cfg) = Inr [] \<and>
    (\<nexists>paths. gen_all_eloq_configs gen cfg = Inr paths)"
proof -
  let ?cfg = "bare_config (bare_deployment ''c'' ''/opt'' (bare_service [''h:1,''] None None))"
  have "validate_topology ?cfg = Inr ()" by (simp add: validate_eval eval_str)
  moreover have "bootstrap_host (cfg_deployment ?cfg) = Inr []" by code_simp
  moreover have "gen_all_eloq_configs gen ?cfg \<noteq> Inr paths" for paths
  proof -
    have s: "concat (map (split_on is_comma) [''h:1,'']) = [''h:1'', []]" by code_simp
    have t: "target_of f [] = Inl (Err (''invalid '' @ f @ '' entry: ''))" for f
      by (simp add: target_of_def split_once_def)
    have "gen_targets gen f [''h:1'', []] \<noteq> Inr ps" for f ps
      by (auto simp: gen_targets_def t res_simps)
    then show ?thesis unfolding gen_all_eloq_configs_def Let_def bare_config_simps bare_deployment_simps
        bare_service_simps s by (auto simp: res_simps)
  qed
  ultimately show ?thesis by blast
qed

text \<open>\<open>client_conn\<close> connects to the port of the first entry when that entry is one node. When the
  entry lists more nodes it takes the default port 6379 instead of the first node's port.\<close>

theorem client_conn_port:
  assumes "tx_host_ports (tx_service (cfg_deployment cfg)) = (addr h p @ rest) # entries"
    and "\<forall>c \<in> set h. \<not> is_colon c" and "rest = [] \<or> (\<exists>rest'. rest = CHR '','' # rest')"
  shows "client_conn cfg =
    (case cfg_service_endpoint cfg h (if rest = [] then p else 6379) of (eh, ep) \<Rightarrow>
      Inr (''redis-cli -h '' @ eh @ '' -p '' @ show_u16 ep))"
proof -
  have hd: "hd (split_on is_colon (show_u16 p @ rest)) =
      show_u16 p @ takeWhile (\<lambda>c. \<not> is_colon c) rest"
    by (simp add: hd_split_on takeWhile_append)
  have "parse_u16 (show_u16 p @ takeWhile (\<lambda>c. \<not> is_colon c) rest) = (if rest = [] then Some p else None)"
    using assms(3) by (auto intro!: parse_u16_no_comma simp: is_colon_def)
  then show ?thesis
    using split_once_first_colon [OF assms(2), of p rest]
    by (simp add: client_conn_def assms(1) Let_def hd)
qed

theorem client_conn_port_witness:
  "client_conn (bare_config (bare_deployment ''c'' ''/opt'' (bare_service [''h:7001,h:7002''] None None))) =
     Inr ''redis-cli -h h -p 6379''"
proof -
  have e: "''h:7001,h:7002'' = addr ''h'' 7001 @ '',h:7002''"
    by (simp add: addr_def show_u16_def show_nat.simps)
  have "tx_host_ports (tx_service (cfg_deployment (bare_config
      (bare_deployment ''c'' ''/opt'' (bare_service [''h:7001,h:7002''] None None))))) =
      (addr ''h'' 7001 @ '',h:7002'') # []" by (simp only: e) simp
  from client_conn_port [OF this] show ?thesis
    by (simp add: cfg_service_endpoint_def service_endpoint_def resolve_service_endpoint_def is_colon_def
        show_u16_def show_nat.simps)
qed

text \<open>A run over the address lists that succeeds has created one certificate per node: the pairs
  it handled are distinct, are the pairs of the tokens, and \<open>ensure_tls_cert_for_node\<close> succeeded on
  each of them.\<close>

theorem tls_certs_cover_all_nodes:
  assumes "ensure_tls_certs_for_all_kv_nodes ensure d = Inr pairs" and "tls_enabled d"
  shows "distinct pairs \<and>
    set pairs = {p. \<exists>tok \<in> set (tls_tokens (tx_service d)). tls_pair tok = Some p} \<and>
    (\<forall>p \<in> set pairs. ensure (fst p) (snd p) = Inr ())"
proof -
  have "dep_product d = EloqKV" by (cases "dep_product d")
  with assms have "foldE (add_host_port ensure) [] (tls_tokens (tx_service d)) = Inr pairs"
    by (simp add: ensure_tls_certs_for_all_kv_nodes_def)
  from foldE_add_host_port [OF this] have "distinct pairs"
    "set pairs = set (concat (map tls_step (tls_tokens (tx_service d))))"
    "\<forall>p \<in> set pairs. ensure (fst p) (snd p) = Inr ()" by auto
  moreover have "set (concat (map tls_step toks)) = {p. \<exists>tok \<in> set toks. tls_pair tok = Some p}" for toks
    by (induction toks) (auto simp: in_tls_step)
  ultimately show ?thesis by blast
qed

theorem tls_certs_cover_all_nodes_witness:
  "\<exists>pairs. ensure_tls_certs_for_all_kv_nodes (\<lambda>_ _. Inr ())
     ((bare_deployment ''c'' ''/opt'' (bare_service [''h:1, h:2'', ''h:1''] None None))\<lparr>enable_tls := Some True\<rparr>)
     = Inr pairs \<and> distinct pairs"
proof -
  let ?d = "(bare_deployment ''c'' ''/opt'' (bare_service [''h:1, h:2'', ''h:1''] None None))\<lparr>enable_tls := Some True\<rparr>"
  have e: "ensure_tls_certs_for_all_kv_nodes (\<lambda>_ _. Inr ()) ?d = Inr [(''h'', ''1''), (''h'', ''2'')]"
    by code_simp
  from tls_certs_cover_all_nodes [OF e] e show ?thesis by (simp add: tls_enabled_def)
qed

end
