(* ===== verification/Node_Conf.thy ===== *)
theory Node_Conf
  imports Eloq_Ini Storage Paths Topology_Check
begin

text \<open>
  The configuration file of an EloqKV node (\<open>config/deployment.rs\<close>): \<open>build_eloqkv_config\<close> fills the
  template from the deployment, \<open>gen_eloqkv_node_config\<close> adds what is specific to a node and writes
  the file. The template and the certificate of a node are results of I/O and are arguments here;
  the generator returns the path below the upload directory and the contents it writes.

  Each run of \<open>ini.set\<close> statements is a list of commands in the order of the code. Multiplications
  wrap as in a release build.
\<close>

section \<open>Storage keys\<close>

definition rocksdb_local_path :: "deployment \<Rightarrow> string \<Rightarrow> string option \<Rightarrow> string" where
  "rocksdb_local_path d p path = (case path of
     Some dir \<Rightarrow> dir @ ''/'' @ cluster_name d @ (if p = [] then ''/rocksdb'' else ''/rocksdb-'' @ p)
   | None \<Rightarrow> tx_srv_home d @ (if p = [] then ''/rocksdb'' else ''/rocksdb-'' @ p))"

definition rocks_s3_sets :: "rocks_s3 \<Rightarrow> ini_cmd list" where
  "rocks_s3_sets s =
     [(''store'', ''aws_access_key_id'', s3_aws_access_key_id s),
      (''store'', ''aws_secret_key'', s3_aws_secret_key s),
      (''store'', ''rocksdb_cloud_region'', s3_region s),
      (''store'', ''rocksdb_cloud_bucket_name'', s3_bucket_name s),
      (''store'', ''rocksdb_cloud_bucket_prefix'', s3_bucket_prefix s)] @
     opt_set ''store'' ''rocksdb_cloud_s3_endpoint_url'' (s3_endpoint s) @
     [(''store'', ''rocksdb_target_file_size_base'', s3_target_file_size_base s),
      (''store'', ''rocksdb_cloud_sst_file_cache_size'', s3_sst_file_cache_size s)] @
     opt_set ''store'' ''rocksdb_max_background_jobs'' (s3_max_background_jobs s) @
     opt_set ''store'' ''rocksdb_max_background_flush'' (s3_max_background_flush s) @
     opt_set ''store'' ''rocksdb_max_background_compaction'' (s3_max_background_compaction s) @
     opt_set ''store'' ''rocksdb_level0_stop_writes_trigger'' (s3_level0_stop_writes_trigger s) @
     opt_set ''store'' ''rocksdb_level0_slowdown_writes_trigger'' (s3_level0_slowdown_writes_trigger s) @
     opt_set ''store'' ''rocksdb_level0_file_num_compaction_trigger'' (s3_level0_file_num_compaction_trigger s) @
     opt_set ''store'' ''rocksdb_max_write_buffer_number'' (s3_max_write_buffer_number s) @
     opt_set ''store'' ''rocksdb_write_buffer_size'' (s3_write_buffer_size s) @
     opt_set ''store'' ''rocksdb_enable_stats'' (s3_enable_stats s) @
     opt_set ''store'' ''rocksdb_stats_dump_period_sec'' (s3_stats_dump_period_sec s) @
     opt_set ''store'' ''rocksdb_periodic_compaction_seconds'' (s3_periodic_compaction_seconds s) @
     opt_set ''store'' ''rocksdb_delete_obsolete_files_period_micros'' (s3_delete_obsolete_files_period_micros s) @
     opt_set ''store'' ''rocksdb_storage_path'' (s3_storage_path s) @
     opt_set ''store'' ''rocksdb_cloud_object_path'' (s3_object_path s)"

definition rocks_minio_sets :: "rocks_minio \<Rightarrow> ini_cmd list" where
  "rocks_minio_sets m =
     [(''store'', ''aws_access_key_id'', minio_aws_access_key_id m),
      (''store'', ''aws_secret_key'', minio_aws_secret_key m),
      (''store'', ''rocksdb_cloud_s3_endpoint_url'', minio_endpoint m),
      (''store'', ''rocksdb_cloud_bucket_name'', minio_bucket_name m),
      (''store'', ''rocksdb_cloud_bucket_prefix'', minio_bucket_prefix m)] @
     opt_set ''store'' ''rocksdb_enable_stats'' (minio_enable_stats m) @
     opt_set ''store'' ''rocksdb_stats_dump_period_sec'' (minio_stats_dump_period_sec m) @
     opt_set ''store'' ''rocksdb_periodic_compaction_seconds'' (minio_periodic_compaction_seconds m) @
     opt_set ''store'' ''rocksdb_delete_obsolete_files_period_micros'' (minio_delete_obsolete_files_period_micros m) @
     opt_set ''store'' ''rocksdb_cloud_object_path'' (minio_object_path m)"

definition rocks_gcs_sets :: "rocks_gcp \<Rightarrow> ini_cmd list" where
  "rocks_gcs_sets g =
     [(''store'', ''rocksdb_cloud_region'', gcs_region g),
      (''store'', ''rocksdb_cloud_bucket_name'', gcs_bucket_name g),
      (''store'', ''rocksdb_cloud_bucket_prefix'', gcs_bucket_prefix g),
      (''store'', ''rocksdb_target_file_size_base'', gcs_target_file_size_base g),
      (''store'', ''rocksdb_cloud_sst_file_cache_size'', gcs_sst_file_cache_size g)] @
     opt_set ''store'' ''rocksdb_enable_stats'' (gcs_enable_stats g) @
     opt_set ''store'' ''rocksdb_stats_dump_period_sec'' (gcs_stats_dump_period_sec g) @
     opt_set ''store'' ''rocksdb_periodic_compaction_seconds'' (gcs_periodic_compaction_seconds g) @
     opt_set ''store'' ''rocksdb_delete_obsolete_files_period_micros'' (gcs_delete_obsolete_files_period_micros g) @
     opt_set ''store'' ''rocksdb_cloud_object_path'' (gcs_object_path g)"

fun rocksdb_sets :: "deployment \<Rightarrow> string \<Rightarrow> rocks_db \<Rightarrow> ini_cmd list" where
  "rocksdb_sets d p (LOCAL l) = [(''store'', ''rocksdb_storage_path'', rocksdb_local_path d p (rl_path l))]"
| "rocksdb_sets d p (S3 s) = rocks_s3_sets s"
| "rocksdb_sets d p (EloqDssRocksdb e) = []"
| "rocksdb_sets d p (MINIO m) = rocks_minio_sets m"
| "rocksdb_sets d p (GCS g) = rocks_gcs_sets g"

section \<open>EloqStore inside the node (local mode)\<close>

text \<open>The first use of the cloud credentials, as the code has it.\<close>

definition local_aws_sets :: "eloq_store_config \<Rightarrow> ini_cmd list res" where
  "local_aws_sets c = (case es_cloud_config c of
     None \<Rightarrow> Inr []
   | Some cc \<Rightarrow> bindE (validate_credentials cc) (\<lambda>_. Inr
       (if needs_credentials (cloud_provider cc) then
          (case (cloud_access_key cc, cloud_secret_key cc) of
             (Some access_key, Some secret_key) \<Rightarrow>
               [(''store'', ''aws_secret_key'', access_key), (''store'', ''aws_access_key_id'', secret_key)]
           | _ \<Rightarrow> [])
        else [])))"

definition local_path_sets :: "deployment \<Rightarrow> string \<Rightarrow> eloq_store_config \<Rightarrow> ini_cmd list" where
  "local_path_sets d p c =
     opt_set ''store'' ''eloq_store_worker_num'' (map_option show_u32 (es_worker_num c)) @
     (case es_data_path_list c of
        Some l \<Rightarrow> [(''store'', ''eloq_store_data_path_list'', l)]
      | None \<Rightarrow> [(''store'', ''eloq_store_data_path_list'',
          compute_default_eloq_store_data_path (tx_srv_home d @ ''/data/port-'' @ p))]) @
     (case es_cloud_store_path c of
        Some path \<Rightarrow> if path \<noteq> [] then [(''store'', ''eloq_store_cloud_store_path'', path)] else []
      | None \<Rightarrow> [])"

definition local_page_sets :: "eloq_store_config \<Rightarrow> ini_cmd list" where
  "local_page_sets c =
     opt_set ''store'' ''eloq_store_open_files_limit'' (map_option show_u32 (es_open_files_limit c)) @
     opt_set ''store'' ''eloq_store_data_page_restart_interval'' (map_option show_u32 (es_data_page_restart_interval c)) @
     opt_set ''store'' ''eloq_store_index_page_restart_interval'' (map_option show_u32 (es_index_page_restart_interval c)) @
     opt_set ''store'' ''eloq_store_init_page_count'' (map_option show_u32 (es_init_page_count c)) @
     opt_set ''store'' ''eloq_store_skip_verify_checksum'' (map_option show_bool (es_skip_verify_checksum c)) @
     opt_set ''store'' ''eloq_store_buffer_pool_size'' (es_buffer_pool_size c) @
     opt_set ''store'' ''eloq_store_manifest_limit'' (map_option show_u32 (es_manifest_limit c)) @
     opt_set ''store'' ''eloq_store_io_queue_size'' (map_option show_u32 (es_io_queue_size c)) @
     opt_set ''store'' ''eloq_store_max_inflight_write'' (map_option show_u32 (es_max_inflight_write c)) @
     opt_set ''store'' ''eloq_store_max_write_batch_pages'' (map_option show_u32 (es_max_write_batch_pages c)) @
     opt_set ''store'' ''eloq_store_buf_ring_size'' (map_option show_u32 (es_buf_ring_size c)) @
     opt_set ''store'' ''eloq_store_coroutine_stack_size'' (map_option show_u32 (es_coroutine_stack_size c))"

definition local_limit_sets :: "eloq_store_config \<Rightarrow> ini_cmd list" where
  "local_limit_sets c =
     opt_set ''store'' ''eloq_store_num_retained_archives'' (map_option show_u32 (es_num_retained_archives c)) @
     opt_set ''store'' ''eloq_store_archive_interval_secs'' (map_option show_u32 (es_archive_interval_secs c)) @
     opt_set ''store'' ''eloq_store_max_archive_tasks'' (map_option show_u32 (es_max_archive_tasks c)) @
     opt_set ''store'' ''eloq_store_file_amplify_factor'' (map_option show_u32 (es_file_amplify_factor c)) @
     opt_set ''store'' ''eloq_store_standby_max_concurrency'' (map_option show_u32 (es_standby_max_concurrency c)) @
     opt_set ''store'' ''eloq_store_local_space_limit'' (es_local_space_limit c) @
     opt_set ''store'' ''eloq_store_reserve_space_ratio'' (es_reserve_space_ratio c) @
     opt_set ''store'' ''eloq_store_data_page_size'' (map_option show_u32 (es_data_page_size c)) @
     opt_set ''store'' ''eloq_store_pages_per_file_shift'' (map_option show_u32 (es_pages_per_file_shift c)) @
     opt_set ''store'' ''eloq_store_overflow_pointers'' (map_option show_u32 (es_overflow_pointers c)) @
     opt_set ''store'' ''eloq_store_enable_compression'' (map_option show_bool (es_enable_compression c)) @
     opt_set ''store'' ''eloq_store_max_upload_batch'' (map_option show_u32 (es_max_upload_batch c))"

definition local_cloud_sets :: "eloq_store_cloud_config \<Rightarrow> ini_cmd list" where
  "local_cloud_sets c =
     (''store'', ''eloq_store_cloud_provider'', cloud_provider c) #
     (if needs_credentials (cloud_provider c) then
        (case (cloud_access_key c, cloud_secret_key c) of
           (Some ak, Some sk) \<Rightarrow> [(''store'', ''eloq_store_cloud_access_key'', ak),
                                (''store'', ''eloq_store_cloud_secret_key'', sk)]
         | _ \<Rightarrow> [])
      else []) @
     [(''store'', ''eloq_store_cloud_endpoint'', cloud_endpoint c),
      (''store'', ''eloq_store_cloud_region'', cloud_region c)] @
     opt_set ''store'' ''eloq_store_cloud_verify_ssl'' (map_option show_bool (cloud_verify_ssl c)) @
     opt_set ''store'' ''eloq_store_max_cloud_concurrency'' (map_option show_u32 (max_cloud_concurrency c)) @
     opt_set ''store'' ''eloq_store_cloud_request_threads'' (map_option show_u32 (cloud_request_threads c)) @
     opt_set ''store'' ''eloq_store_prewarm_cloud_cache'' (map_option show_bool (prewarm_cloud_cache c)) @
     opt_set ''store'' ''eloq_store_prewarm_task_count'' (map_option show_u32 (prewarm_task_count c)) @
     opt_set ''store'' ''eloq_store_reuse_local_files'' (map_option show_bool (reuse_local_files c))"

definition local_store_sets :: "deployment \<Rightarrow> string \<Rightarrow> eloq_store_config \<Rightarrow> ini_cmd list res" where
  "local_store_sets d p c =
     bindE (local_aws_sets c) (\<lambda>aws.
     bindE (case es_cloud_config c of
              None \<Rightarrow> Inr []
            | Some cc \<Rightarrow> bindE (validate_credentials cc) (\<lambda>_. Inr (local_cloud_sets cc))) (\<lambda>cloud.
     Inr (aws @ local_path_sets d p c @ local_page_sets c @ local_limit_sets c @ cloud @
       opt_set ''store'' ''eloq_store_data_append_mode'' (map_option show_bool (es_data_append_mode c)))))"

definition eloqdss_sets :: "deployment \<Rightarrow> string \<Rightarrow> data_store_service \<Rightarrow> ini_cmd list res" where
  "eloqdss_sets d p dss =
     (if is_local_mode dss then (case dss_backend_of dss of EloqStore c \<Rightarrow> local_store_sets d p c)
      else Inr (case dss_peer_host_ports dss of
             Some (peer # _) \<Rightarrow> [(''store'', ''eloq_dss_peer_node'', peer)] | _ \<Rightarrow> []))"

definition storage_sets :: "deployment \<Rightarrow> string \<Rightarrow> ini_cmd list res" where
  "storage_sets d p = (case dep_storage_service d of
     Some st \<Rightarrow>
       (case provider st of
          None \<Rightarrow> Inl (Panic ''called `Option::unwrap()` on a `None` value'')
        | Some RocksdbProvider \<Rightarrow>
            (case st_rocksdb st of
               None \<Rightarrow> Inl (Panic ''called `Option::unwrap()` on a `None` value'')
             | Some r \<Rightarrow> Inr (rocksdb_sets d p r))
        | Some EloqDSSProvider \<Rightarrow>
            (case st_eloqdss st of Some dss \<Rightarrow> eloqdss_sets d p dss | None \<Rightarrow> Inr []))
   | None \<Rightarrow> Inr [(''store'', ''rocksdb_storage_path'', rocksdb_local_path d p None)])"

section \<open>Base, cluster and flag keys\<close>

definition base_sets :: "deployment \<Rightarrow> string \<Rightarrow> ini_cmd list" where
  "base_sets d p =
     [(''local'', ''eloq_data_path'', tx_srv_home d @ ''/data/port-'' @ p)] @
     opt_set ''local'' ''requirepass'' (requirepass (tx_service d)) @
     [(''local'', ''enable_cache_replacement'',
       case enable_cache_replacement (tx_service d) of Some v \<Rightarrow> v | None \<Rightarrow> ''on'')]"

definition tx_ip_port_list :: "deployment \<Rightarrow> string" where
  "tx_ip_port_list d = join '',''
     (concat (map (\<lambda>e. map trim (split_on is_comma e)) (tx_host_ports (tx_service d))))"

text \<open>The character loop that trims the tokens of a group list and keeps its separators.\<close>

fun trim_loop :: "string \<Rightarrow> string \<Rightarrow> string \<Rightarrow> string" where
  "trim_loop trimmed current [] = trimmed @ trim current"
| "trim_loop trimmed current (c # cs) =
     (if c = CHR '','' \<or> c = CHR ''|'' then trim_loop (trimmed @ trim current @ [c]) [] cs
      else trim_loop trimmed (current @ [c]) cs)"

definition group_ip_port_list :: "string list \<Rightarrow> string" where
  "group_ip_port_list entries = join '','' (map (trim_loop [] []) entries)"

definition standby_sets :: "deployment \<Rightarrow> ini_cmd list res" where
  "standby_sets d = (case standby_host_ports (tx_service d) of
     None \<Rightarrow> Inr []
   | Some es \<Rightarrow>
       if es = [] then Inl (Err ''standby_host_ports is empty, but it was expected to contain values.'')
       else Inr [(''cluster'', ''standby_ip_port_list'', group_ip_port_list es)])"

definition voter_sets :: "deployment \<Rightarrow> ini_cmd list res" where
  "voter_sets d = (case voter_host_ports (tx_service d) of
     None \<Rightarrow> Inr []
   | Some es \<Rightarrow>
       if es = [] then Inl (Err ''voter_host_ports is empty, but it was expected to contain values.'')
       else Inr [(''cluster'', ''voter_ip_port_list'', group_ip_port_list es)])"

definition cluster_sets :: "deployment \<Rightarrow> bool \<Rightarrow> ini_cmd list res" where
  "cluster_sets d set_ip_list =
     (let lag = opt_set ''cluster'' ''max_standby_lag'' (map_option show_u32 (max_standby_lag (tx_service d)))
      in if set_ip_list then
           bindE (standby_sets d) (\<lambda>sb. bindE (voter_sets d) (\<lambda>vo.
             Inr ((''cluster'', ''ip_port_list'', tx_ip_port_list d) # sb @ vo @ lag)))
         else Inr ((''cluster'', ''ip_port_list'', ''127.0.0.1:6379'') # lag))"

definition is_empty_key :: "('i, 'm) ini_ops_scheme \<Rightarrow> 'i \<Rightarrow> string \<Rightarrow> string \<Rightarrow> bool" where
  "is_empty_key ops i s k \<longleftrightarrow> ini_get ops i s k = Some override_mark"

definition set_if_empty :: "('i, 'm) ini_ops_scheme \<Rightarrow> ini_cmd \<Rightarrow> 'i \<Rightarrow> 'i" where
  "set_if_empty ops = (\<lambda>(s, k, v) i. if is_empty_key ops i s k then ini_set ops i s k (Some v) else i)"

definition flag_cmds :: "deployment \<Rightarrow> ini_cmd list" where
  "flag_cmds d =
     [(''metrics'', ''enable_metrics'', show_bool (Option.bind (dep_monitor d) mon_eloq_metrics \<noteq> None)),
      (''local'', ''enable_data_store'', show_bool (dep_storage_service d \<noteq> None)),
      (''local'', ''enable_wal'', show_bool (enable_wal d = Some True)),
      (''local'', ''enable_io_uring'', show_bool (enable_io_uring d = Some True)),
      (''local'', ''bind_all'', show_bool (bind_all d = Some True)),
      (''local'', ''checkpointer_interval'',
        show_u32 (case checkpoint_interval d of Some n \<Rightarrow> n | None \<Rightarrow> 60))] @
     opt_set ''local'' ''cluster_mode'' (map_option show_bool (cluster_mode d))"

definition set_flags :: "('i, 'm) ini_ops_scheme \<Rightarrow> deployment \<Rightarrow> 'i \<Rightarrow> 'i" where
  "set_flags ops d i = fold (set_if_empty ops) (flag_cmds d) i"

definition build_eloqkv_config :: "('i, 'm) ini_ops_scheme \<Rightarrow> 'i res \<Rightarrow> deployment \<Rightarrow> bool \<Rightarrow> string \<Rightarrow> 'i res" where
  "build_eloqkv_config ops template d set_ip_list p =
     bindE template (\<lambda>i.
     bindE (storage_sets d p) (\<lambda>store.
     bindE (cluster_sets d set_ip_list) (\<lambda>cluster.
     Inr (set_flags ops d (set_all ops (base_sets d p @ store @ cluster) i)))))"

section \<open>The transaction log in the cloud\<close>

definition txlog_eloq_store_sets :: "eloq_store_config \<Rightarrow> ini_cmd list" where
  "txlog_eloq_store_sets c =
     (case es_cloud_config c of
        None \<Rightarrow> []
      | Some cc \<Rightarrow>
          (let bucket = (case es_cloud_store_path c of Some b \<Rightarrow> b | None \<Rightarrow> ''txlog-eloqkv'')
           in if needs_credentials (cloud_provider cc) then
                [(''local'', ''txlog_rocksdb_cloud_s3_endpoint_url'', cloud_endpoint cc),
                 (''local'', ''txlog_rocksdb_cloud_bucket_name'', bucket),
                 (''local'', ''txlog_rocksdb_cloud_region'', cloud_region cc)]
              else if cloud_provider cc = ''gcs'' then
                [(''local'', ''txlog_rocksdb_cloud_bucket_name'', bucket),
                 (''local'', ''txlog_rocksdb_cloud_region'', cloud_region cc)]
              else []))"

fun txlog_rocks_sets :: "rocks_db \<Rightarrow> ini_cmd list" where
  "txlog_rocks_sets (S3 s) =
     opt_set ''local'' ''txlog_rocksdb_cloud_s3_endpoint_url'' (s3_endpoint s) @
     [(''local'', ''txlog_rocksdb_cloud_bucket_name'', s3_bucket_prefix s @ ''-'' @ s3_bucket_name s),
      (''local'', ''txlog_rocksdb_cloud_region'', s3_region s)]"
| "txlog_rocks_sets (MINIO m) =
     [(''local'', ''txlog_rocksdb_cloud_s3_endpoint_url'', minio_endpoint m),
      (''local'', ''txlog_rocksdb_cloud_bucket_name'', minio_bucket_prefix m @ ''-'' @ minio_bucket_name m)]"
| "txlog_rocks_sets (LOCAL _) = []"
| "txlog_rocks_sets (GCS _) = []"
| "txlog_rocks_sets (EloqDssRocksdb _) = []"

definition node_txlog_sets :: "deployment \<Rightarrow> ini_cmd list" where
  "node_txlog_sets d = (case dep_storage_service d of
     None \<Rightarrow> []
   | Some st \<Rightarrow>
       (case st_rocksdb st of
          Some r \<Rightarrow> txlog_rocks_sets r
        | None \<Rightarrow>
            (case st_eloqdss st of
               None \<Rightarrow> []
             | Some dss \<Rightarrow>
                 (case dss_backend_of dss of EloqStore c \<Rightarrow>
                    if is_cloud_mode c \<and> dep_log_service d = None then txlog_eloq_store_sets c else []))))"

definition local_txlog_sets :: "deployment \<Rightarrow> ini_cmd list" where
  "local_txlog_sets d = (case dep_storage_service d of
     None \<Rightarrow> []
   | Some st \<Rightarrow>
       (case st_rocksdb st of
          Some r \<Rightarrow> txlog_rocks_sets r
        | None \<Rightarrow>
            (case st_eloqdss st of
               None \<Rightarrow> []
             | Some dss \<Rightarrow>
                 (case dss_backend_of dss of EloqStore c \<Rightarrow>
                    if is_cloud_mode c then txlog_eloq_store_sets c else []))))"

definition log_sets :: "deployment \<Rightarrow> ini_cmd list res" where
  "log_sets d = (case dep_log_service d of
     None \<Rightarrow> Inr []
   | Some ls \<Rightarrow>
       (case build_log_config ls of
          None \<Rightarrow> Inl (Panic ''log member grouping does not return'')
        | Some kvs \<Rightarrow> Inr (map (\<lambda>(k, v). (''cluster'', k, v)) kvs)))"

section \<open>Keys of one node\<close>

text \<open>\<open>set_by_user!\<close>: a value the user wrote into the template, unless it is the placeholder.\<close>

definition set_by_user :: "('i, 'm) ini_ops_scheme \<Rightarrow> (string \<Rightarrow> 'n option) \<Rightarrow> 'i \<Rightarrow> string \<Rightarrow> string \<Rightarrow>
    'n option res" where
  "set_by_user ops parse i s k = (case ini_get ops i s k of
     None \<Rightarrow> Inr None
   | Some v \<Rightarrow>
       if v = override_mark then Inr None
       else (case parse v of None \<Rightarrow> Inl (Err ''invalid digit found in string'') | Some n \<Rightarrow> Inr (Some n)))"

definition set_maxclients :: "('i, 'm) ini_ops_scheme \<Rightarrow> deployment \<Rightarrow> 'i \<Rightarrow> 'i res" where
  "set_maxclients ops d i = (case maxclients d of
     None \<Rightarrow> Inr i
   | Some n \<Rightarrow> bindE (set_by_user ops parse_u32 i ''local'' ''maxclients'') (\<lambda>v.
       Inr (if v = None then ini_set ops i ''local'' ''maxclients'' (Some (show_u32 n)) else i)))"

definition tls_sets :: "(string \<Rightarrow> string \<Rightarrow> unit res) \<Rightarrow> deployment \<Rightarrow> string \<Rightarrow> string \<Rightarrow> ini_cmd list res" where
  "tls_sets ensure d host p =
     (if tls_enabled d then
        bindE (ensure host p) (\<lambda>_. Inr
          [(''local'', ''enable_tls'', ''true''),
           (''local'', ''tls_cert_file'', tls_cert_install_dir d @ ''/'' @ fst (tls_file_names host p)),
           (''local'', ''tls_key_file'', tls_cert_install_dir d @ ''/'' @ snd (tls_file_names host p))])
      else Inr [])"

definition default_core_number :: "u16 \<Rightarrow> u16" where
  "default_core_number cpu =
     (if cpu = 1 \<or> cpu = 2 then 1
      else if cpu = 3 \<or> cpu = 4 then 2
      else max 1 ((cpu * 4) div 5))"

definition div_ceil8 :: "u16 \<Rightarrow> u16" where
  "div_ceil8 n = (if n mod 8 = 0 then n div 8 else n div 8 + 1)"

definition set_core_number :: "('i, 'm) ini_ops_scheme \<Rightarrow> hardware \<Rightarrow> 'i \<Rightarrow> (u16 \<times> 'i) res" where
  "set_core_number ops hw i =
     bindE (set_by_user ops parse_u16 i ''local'' ''core_number'') (\<lambda>v. case v of
       Some n \<Rightarrow> Inr (n, i)
     | None \<Rightarrow>
         if hw_cpu hw = 0 then Inl (Err ''Hardware CPU count must be greater than 0'')
         else Inr (default_core_number (hw_cpu hw),
                ini_set ops i ''local'' ''core_number'' (Some (show_u16 (default_core_number (hw_cpu hw))))))"

definition set_dispatchers :: "('i, 'm) ini_ops_scheme \<Rightarrow> hardware \<Rightarrow> u16 \<Rightarrow> 'i \<Rightarrow> 'i res" where
  "set_dispatchers ops hw core_tx i =
     bindE (set_by_user ops parse_u16 i ''local'' ''event_dispatcher_num'') (\<lambda>v. Inr
       (if v = None then ini_set ops i ''local'' ''event_dispatcher_num'' (Some (show_u16
          (case hw_event_dispatcher_num hw of Some n \<Rightarrow> n | None \<Rightarrow> div_ceil8 core_tx)))
        else i))"

definition memory_limit :: "u32 \<Rightarrow> bool \<Rightarrow> u32" where
  "memory_limit mem union_cass = (let limit = mem * 4 div 5 in if union_cass then limit div 2 else limit)"

definition set_memory_limit :: "('i, 'm) ini_ops_scheme \<Rightarrow> deployment \<Rightarrow> string \<Rightarrow> hardware \<Rightarrow> 'i \<Rightarrow> 'i res" where
  "set_memory_limit ops d host hw i =
     (case topology d host of
        None \<Rightarrow> Inl (Panic ''called `Option::unwrap()` on a `None` value'')
      | Some pkgs \<Rightarrow>
          bindE (set_by_user ops parse_u32 i ''local'' ''node_memory_limit_mb'') (\<lambda>v. case v of
            Some _ \<Rightarrow> Inr i
          | None \<Rightarrow>
              (let limit = memory_limit (hw_memory hw) (Storage \<in> set pkgs)
               in if limit = 0 then Inl (Err ''Memory limit must be greater than 0'')
                  else Inr (ini_set ops i ''local'' ''node_memory_limit_mb'' (Some (show_u32 limit))))))"

definition hw_path_sets :: "deployment \<Rightarrow> hardware \<Rightarrow> ini_cmd list" where
  "hw_path_sets d hw =
     opt_set ''local'' ''eloq_data_path'' (hw_eloq_data_path hw) @
     (case hw_eloq_store_data_path_list hw of
        Some l \<Rightarrow> [(''store'', ''eloq_store_data_path_list'', l)]
      | None \<Rightarrow>
          (case hw_eloq_data_path hw of
             Some base \<Rightarrow>
               if global_eloq_store_data_path_list d = None
               then [(''store'', ''eloq_store_data_path_list'', compute_default_eloq_store_data_path base)]
               else []
           | None \<Rightarrow> []))"

definition set_hardware :: "('i, 'm) ini_ops_scheme \<Rightarrow> deployment \<Rightarrow> string \<Rightarrow> string \<Rightarrow> 'i \<Rightarrow> 'i res" where
  "set_hardware ops d host p i = (case get_hardware d host p of
     None \<Rightarrow> Inr i
   | Some hw \<Rightarrow>
       bindE (set_core_number ops hw i) (\<lambda>(core_tx, i).
       bindE (set_dispatchers ops hw core_tx i) (\<lambda>i.
       bindE (set_memory_limit ops d host hw i) (\<lambda>i.
       Inr (set_all ops (hw_path_sets d hw) i)))))"

definition fix_worker_num :: "('i, 'm) ini_ops_scheme \<Rightarrow> 'i \<Rightarrow> 'i" where
  "fix_worker_num ops i =
     (if ini_get ops i ''store'' ''eloq_store_worker_num'' \<noteq> None then
        (case Option.bind (ini_get ops i ''local'' ''core_number'') parse_u16 of
           Some n \<Rightarrow> ini_set ops i ''store'' ''eloq_store_worker_num'' (Some (show_u16 n))
         | None \<Rightarrow> i)
      else i)"

definition node_config :: "('i, 'm) ini_ops_scheme \<Rightarrow> 'i res \<Rightarrow> (string \<Rightarrow> string \<Rightarrow> unit res) \<Rightarrow>
    deployment \<Rightarrow> string \<Rightarrow> string \<Rightarrow> 'i res" where
  "node_config ops template ensure d host p =
     bindE (build_eloqkv_config ops template d True p) (\<lambda>i.
     bindE (log_sets d) (\<lambda>log.
     bindE (tls_sets ensure d host p) (\<lambda>tls.
     bindE (set_maxclients ops d (set_all ops
       (node_txlog_sets d @ log @ [(''local'', ''ip'', host), (''local'', ''port'', p)] @ tls) i)) (\<lambda>i.
     bindE (set_hardware ops d host p i) (\<lambda>i.
     Inr (fix_worker_num ops i))))))"

definition local_config :: "('i, 'm) ini_ops_scheme \<Rightarrow> 'i res \<Rightarrow> deployment \<Rightarrow> 'i res" where
  "local_config ops template d =
     bindE (build_eloqkv_config ops template d False []) (\<lambda>i.
     bindE (set_maxclients ops d (set_all ops
       [(''local'', ''ip'', ''127.0.0.1''), (''local'', ''port'', ''6379'')] i)) (\<lambda>i.
     Inr (set_all ops (local_txlog_sets d) i)))"

definition gen_eloqkv_node_config :: "('i, 'm) ini_ops_scheme \<Rightarrow> 'i res \<Rightarrow>
    (string \<Rightarrow> string \<Rightarrow> unit res) \<Rightarrow> deployment \<Rightarrow> string option \<Rightarrow> string option \<Rightarrow>
    (string \<times> 'i) res" where
  "gen_eloqkv_node_config ops template ensure d host p = (case (host, p) of
     (Some h, Some q) \<Rightarrow> map_sum id
       (Pair (cluster_name d @ ''/'' @ h @ ''/EloqKv-node-'' @ q @ ''.ini'')) (node_config ops template ensure d h q)
   | _ \<Rightarrow> map_sum id (Pair (cluster_name d @ ''/redis_local.ini'')) (local_config ops template d))"

section \<open>What each stage leaves alone\<close>

text \<open>The keys that the hardware stage computes.\<close>

definition sizing_key :: "string \<Rightarrow> string \<Rightarrow> bool" where
  "sizing_key s k \<longleftrightarrow> same_key ''local'' ''core_number'' s k \<or> same_key ''local'' ''event_dispatcher_num'' s k \<or>
     same_key ''local'' ''node_memory_limit_mb'' s k"

context ini_lib
begin

lemma get_set_if_empty_other:
  "\<not> same_key s' k' s k \<Longrightarrow> ini_get ops (set_if_empty ops (s', k', v) i) s k = ini_get ops i s k"
  by (simp add: set_if_empty_def get_set)

lemma get_flags_other:
  "last_set (flag_cmds d) s k = None \<Longrightarrow> ini_get ops (set_flags ops d i) s k = ini_get ops i s k"
proof -
  have "last_set cmds s k = None \<Longrightarrow> ini_get ops (fold (set_if_empty ops) cmds i) s k = ini_get ops i s k"
    for cmds i
    by (induction cmds s k arbitrary: i rule: last_set.induct)
      (auto simp: get_set_if_empty_other split: option.splits if_splits)
  then show "last_set (flag_cmds d) s k = None \<Longrightarrow> ?thesis" by (simp add: set_flags_def)
qed

lemma get_maxclients_other:
  "set_maxclients ops d i = Inr i' \<Longrightarrow> \<not> same_key ''local'' ''maxclients'' s k \<Longrightarrow>
   ini_get ops i' s k = ini_get ops i s k"
  by (auto simp: set_maxclients_def res_simps get_set split: option.splits)

lemma get_core_number_other:
  "set_core_number ops hw i = Inr (n, i') \<Longrightarrow> \<not> same_key ''local'' ''core_number'' s k \<Longrightarrow>
   ini_get ops i' s k = ini_get ops i s k"
  by (auto simp: set_core_number_def res_simps get_set split: option.splits if_splits)

lemma get_dispatchers_other:
  "set_dispatchers ops hw n i = Inr i' \<Longrightarrow> \<not> same_key ''local'' ''event_dispatcher_num'' s k \<Longrightarrow>
   ini_get ops i' s k = ini_get ops i s k"
  by (auto simp: set_dispatchers_def res_simps get_set split: option.splits)

lemma get_memory_limit_other:
  "set_memory_limit ops d host hw i = Inr i' \<Longrightarrow> \<not> same_key ''local'' ''node_memory_limit_mb'' s k \<Longrightarrow>
   ini_get ops i' s k = ini_get ops i s k"
  by (auto simp: set_memory_limit_def res_simps get_set Let_def split: option.splits if_splits)

lemma get_hardware_stage:
  assumes "set_hardware ops d host p i = Inr i'" and "\<not> sizing_key s k"
  shows "ini_get ops i' s k = (case Option.bind (get_hardware d host p) (\<lambda>hw. last_set (hw_path_sets d hw) s k) of
    Some v \<Rightarrow> Some v | None \<Rightarrow> ini_get ops i s k)"
proof (cases "get_hardware d host p")
  case None
  with assms show ?thesis by (simp add: set_hardware_def)
next
  case (Some hw)
  with assms(1) obtain n i1 i2 i3 where st: "set_core_number ops hw i = Inr (n, i1)"
      "set_dispatchers ops hw n i1 = Inr i2" "set_memory_limit ops d host hw i2 = Inr i3"
      and i': "i' = set_all ops (hw_path_sets d hw) i3"
    by (auto simp: set_hardware_def res_simps)
  have "ini_get ops i3 s k = ini_get ops i s k"
    using assms(2) get_core_number_other [OF st(1)] get_dispatchers_other [OF st(2)]
      get_memory_limit_other [OF st(3)] by (simp add: sizing_key_def)
  with Some i' show ?thesis by (simp add: get_set_all split: option.split)
qed

lemma get_fix_worker_other:
  "\<not> same_key ''store'' ''eloq_store_worker_num'' s k \<Longrightarrow>
   ini_get ops (fix_worker_num ops i) s k = ini_get ops i s k"
  by (auto simp: fix_worker_num_def get_set split: option.splits)

lemma get_build:
  assumes "build_eloqkv_config ops template d ips p = Inr i" and "last_set (flag_cmds d) s k = None"
  obtains i0 store cluster where "template = Inr i0" "storage_sets d p = Inr store"
    "cluster_sets d ips = Inr cluster"
    "ini_get ops i s k = ini_get ops (set_all ops (base_sets d p @ store @ cluster) i0) s k"
  using assms by (auto simp: build_eloqkv_config_def res_simps get_flags_other)

lemma get_node_config:
  assumes "node_config ops template ensure d host p = Inr i"
    and "\<not> sizing_key s k" "\<not> same_key ''local'' ''maxclients'' s k"
      "\<not> same_key ''store'' ''eloq_store_worker_num'' s k"
  obtains i1 log tls where "build_eloqkv_config ops template d True p = Inr i1" "log_sets d = Inr log"
    "tls_sets ensure d host p = Inr tls"
    "ini_get ops i s k = (case Option.bind (get_hardware d host p) (\<lambda>hw. last_set (hw_path_sets d hw) s k) of
       Some v \<Rightarrow> Some v
     | None \<Rightarrow> ini_get ops (set_all ops (node_txlog_sets d @ log @
         [(''local'', ''ip'', host), (''local'', ''port'', p)] @ tls) i1) s k)"
proof -
  from assms(1) obtain i1 log tls i2 i3 where st: "build_eloqkv_config ops template d True p = Inr i1"
      "log_sets d = Inr log" "tls_sets ensure d host p = Inr tls"
      "set_maxclients ops d (set_all ops (node_txlog_sets d @ log @
         [(''local'', ''ip'', host), (''local'', ''port'', p)] @ tls) i1) = Inr i2"
      "set_hardware ops d host p i2 = Inr i3" and i: "i = fix_worker_num ops i3"
    unfolding node_config_def bindE_Inr_iff sum.inject by blast
  from get_hardware_stage [OF st(5) assms(2)] get_maxclients_other [OF st(4) assms(3)]
    get_fix_worker_other [OF assms(4)] i
  have "ini_get ops i s k = (case Option.bind (get_hardware d host p) (\<lambda>hw. last_set (hw_path_sets d hw) s k) of
       Some v \<Rightarrow> Some v
     | None \<Rightarrow> ini_get ops (set_all ops (node_txlog_sets d @ log @
         [(''local'', ''ip'', host), (''local'', ''port'', p)] @ tls) i1) s k)"
    by (simp del: set_all_simps split: option.split)
  with st that show ?thesis by blast
qed

end

section \<open>Keys of the command lists\<close>

lemmas key_eval = same_key_def last_set_append

lemma last_set_hw_ip: "last_set (hw_path_sets d hw) ''local'' ''ip'' = None"
    "last_set (hw_path_sets d hw) ''local'' ''port'' = None"
    "last_set (hw_path_sets d hw) ''cluster'' ''txlog_service_list'' = None"
  by (auto simp: hw_path_sets_def key_eval split: option.splits)

lemma last_set_tls_ip: "tls_sets ensure d host p = Inr tls \<Longrightarrow> last_set tls ''local'' ''ip'' = None"
    "tls_sets ensure d host p = Inr tls \<Longrightarrow> last_set tls ''local'' ''port'' = None"
    "tls_sets ensure d host p = Inr tls \<Longrightarrow> last_set tls ''cluster'' k = None"
    "tls_sets ensure d host p = Inr tls \<Longrightarrow> last_set tls ''store'' k = None"
  by (auto simp: tls_sets_def res_simps key_eval split: if_splits)

lemma last_set_log:
  "log_sets d = Inr log \<Longrightarrow> dep_log_service d = Some ls \<Longrightarrow> last_set log ''cluster'' ''txlog_service_list'' =
     map_option (\<lambda>ms. join '','' (map member_addr ms)) (group_member_as_vec ls)"
  by (auto simp: log_sets_def build_log_config_def key_eval split: option.splits)

lemma last_set_other_section:
  "(\<And>s' k' v. (s', k', v) \<in> set cmds \<Longrightarrow> to_lower s' \<noteq> to_lower s) \<Longrightarrow> last_set cmds s k = None"
  by (rule last_set_None) (auto simp: same_key_def)

lemma last_set_log_store: "log_sets d = Inr log \<Longrightarrow> last_set log ''store'' k = None"
  by (auto simp: log_sets_def build_log_config_def key_eval split: option.splits)

lemma last_set_txlog_store: "last_set (node_txlog_sets d) ''store'' k = None"
proof -
  have "last_set (txlog_rocks_sets r) ''store'' k = None" for r
    by (cases r) (auto simp: key_eval)
  moreover have "last_set (txlog_eloq_store_sets c) ''store'' k = None" for c
    by (auto simp: txlog_eloq_store_sets_def key_eval Let_def split: option.splits)
  ultimately show ?thesis
    by (auto simp: node_txlog_sets_def split: option.splits dss_backend.splits)
qed

lemma last_set_flags_store: "last_set (flag_cmds d) ''store'' k = None"
  by (simp add: flag_cmds_def key_eval)

lemma last_set_base_store: "last_set (base_sets d p) ''store'' k = None"
  by (simp add: base_sets_def key_eval)

lemma last_set_cluster_store: "cluster_sets d ips = Inr cl \<Longrightarrow> last_set cl ''store'' k = None"
  by (auto simp: cluster_sets_def standby_sets_def voter_sets_def res_simps key_eval Let_def
      split: option.splits if_splits)

lemma last_set_local_path:
  "last_set (local_page_sets c) ''store'' ''eloq_store_data_path_list'' = None"
  "last_set (local_limit_sets c) ''store'' ''eloq_store_data_path_list'' = None"
  "last_set (local_cloud_sets cc) ''store'' ''eloq_store_data_path_list'' = None"
  "last_set (local_path_sets d p c) ''store'' ''eloq_store_data_path_list'' =
     Some (case es_data_path_list c of Some l \<Rightarrow> l
       | None \<Rightarrow> compute_default_eloq_store_data_path (tx_srv_home d @ ''/data/port-'' @ p))"
  by (simp_all add: local_page_sets_def local_limit_sets_def local_cloud_sets_def local_path_sets_def key_eval
      split: option.splits)

lemma last_set_local_aws:
  "last_set (local_page_sets c) ''store'' ''aws_secret_key'' = None"
  "last_set (local_limit_sets c) ''store'' ''aws_secret_key'' = None"
  "last_set (local_cloud_sets cc) ''store'' ''aws_secret_key'' = None"
  "last_set (local_path_sets d p c) ''store'' ''aws_secret_key'' = None"
  "last_set (local_page_sets c) ''store'' ''aws_access_key_id'' = None"
  "last_set (local_limit_sets c) ''store'' ''aws_access_key_id'' = None"
  "last_set (local_cloud_sets cc) ''store'' ''aws_access_key_id'' = None"
  "last_set (local_path_sets d p c) ''store'' ''aws_access_key_id'' = None"
  by (simp_all add: local_page_sets_def local_limit_sets_def local_cloud_sets_def local_path_sets_def key_eval
      split: option.splits)

section \<open>Lemmas on trimming and sizes\<close>

lemma trim_loop_acc_append: "trim_loop (a @ b) cur s = a @ trim_loop b cur s"
proof (induction s arbitrary: b cur)
  case (Cons c s)
  show ?case using Cons.IH [of "b @ trim cur @ [c]" "[]"] Cons.IH [of b "cur @ [c]"] by simp
qed simp

lemma trim_loop_acc: "trim_loop out cur s = out @ trim_loop [] cur s"
  using trim_loop_acc_append [of out "[]"] by simp

lemma split_trim_loop:
  "\<forall>c \<in> set cur. \<not> is_pipe_comma c \<Longrightarrow>
   split_on is_pipe_comma (trim_loop [] cur s) = map trim (split_on is_pipe_comma (cur @ s))"
proof (induction s arbitrary: cur)
  case Nil
  then have "\<forall>c \<in> set (trim cur). \<not> is_pipe_comma c" using set_trim by blast
  with Nil show ?case by (simp add: split_on_no_sep)
next
  case (Cons c s)
  show ?case
  proof (cases "is_pipe_comma c")
    case True
    have "\<forall>c \<in> set (trim cur). \<not> is_pipe_comma c" using Cons.prems set_trim by blast
    moreover have "trim_loop [] cur (c # s) = trim cur @ c # trim_loop [] [] s"
      using True trim_loop_acc [of "trim cur @ [c]" "[]" s] by (auto simp: is_pipe_comma_def)
    ultimately show ?thesis using Cons True by (simp add: split_on_append_sep)
  next
    case False
    then have "trim_loop [] cur (c # s) = trim_loop [] (cur @ [c]) s" by (auto simp: is_pipe_comma_def)
    then show ?thesis using Cons.IH [of "cur @ [c]"] Cons.prems False by simp
  qed
qed

section \<open>When the generator succeeds\<close>

definition in_section :: "string \<Rightarrow> ini_cmd list \<Rightarrow> bool" where
  "in_section s cmds \<longleftrightarrow> list_all (\<lambda>c. fst c = s) cmds"

lemma in_section_simps [simp]:
  "in_section s []" "in_section s ((s', k, v) # cmds) \<longleftrightarrow> s' = s \<and> in_section s cmds"
  "in_section s (cmds @ cmds') \<longleftrightarrow> in_section s cmds \<and> in_section s cmds'"
  "in_section s (opt_set s k' v')"
  by (auto simp: in_section_def opt_set_def split: option.splits)

lemma in_section_last_set: "in_section s cmds \<Longrightarrow> to_lower s \<noteq> to_lower s' \<Longrightarrow> last_set cmds s' k = None"
  by (rule last_set_other_section) (auto simp: in_section_def list_all_iff)

lemma local_sets_section: "in_section ''store'' (local_path_sets d p c)" "in_section ''store'' (local_page_sets c)"
    "in_section ''store'' (local_limit_sets c)" "in_section ''store'' (local_cloud_sets cc)"
  by (simp_all add: local_path_sets_def local_page_sets_def local_limit_sets_def local_cloud_sets_def
      split: option.splits)

lemma local_store_sets_section: "local_store_sets d p c = Inr cmds \<Longrightarrow> in_section ''store'' cmds"
  by (auto simp: local_store_sets_def local_aws_sets_def res_simps local_sets_section
      split: option.splits if_splits)

lemma rocksdb_sets_section: "in_section ''store'' (rocksdb_sets d p r)"
  by (cases r) (simp_all add: rocks_s3_sets_def rocks_minio_sets_def rocks_gcs_sets_def)

lemma storage_sets_section: "storage_sets d p = Inr cmds \<Longrightarrow> in_section ''store'' cmds"
  by (auto simp: storage_sets_def eloqdss_sets_def rocksdb_sets_section
      split: option.splits storage_provider.splits dss_backend.splits if_splits list.splits
      dest: local_store_sets_section)

lemma storage_sets_local: "storage_sets d p = Inr cmds \<Longrightarrow> last_set cmds ''local'' k = None"
  by (rule in_section_last_set [OF storage_sets_section]) simp_all

lemma cluster_sets_local: "cluster_sets d ips = Inr cl \<Longrightarrow> last_set cl ''local'' k = None"
  by (auto simp: cluster_sets_def standby_sets_def voter_sets_def res_simps key_eval Let_def
      split: option.splits if_splits)

lemma log_sets_local: "log_sets d = Inr log \<Longrightarrow> last_set log ''local'' k = None"
  by (auto simp: log_sets_def build_log_config_def key_eval split: option.splits)

text \<open>The keys of the \<open>[local]\<close> section that a user may fix in the template.\<close>

definition user_keys :: "string list" where
  "user_keys = [''maxclients'', ''core_number'', ''event_dispatcher_num'', ''node_memory_limit_mb'']"

lemma user_keys_untouched:
  assumes "k \<in> set user_keys"
  shows "last_set (base_sets d p) ''local'' k = None" "last_set (flag_cmds d) ''local'' k = None"
    "last_set (node_txlog_sets d) ''local'' k = None"
    "tls_sets ensure d host p = Inr tls \<Longrightarrow> last_set tls ''local'' k = None"
    "last_set [(''local'', ''ip'', host), (''local'', ''port'', p)] ''local'' k = None"
proof -
  have k: "k = ''maxclients'' \<or> k = ''core_number'' \<or> k = ''event_dispatcher_num'' \<or> k = ''node_memory_limit_mb''"
    using assms by (simp add: user_keys_def)
  show "last_set (base_sets d p) ''local'' k = None"
    using k by (elim disjE) (simp_all add: base_sets_def key_eval)
  show "last_set (flag_cmds d) ''local'' k = None"
    using k by (elim disjE) (simp_all add: flag_cmds_def key_eval)
  show "last_set [(''local'', ''ip'', host), (''local'', ''port'', p)] ''local'' k = None"
    using k by (elim disjE) (simp_all add: key_eval)
  show "last_set tls ''local'' k = None" if "tls_sets ensure d host p = Inr tls"
  proof -
    from that have "tls = [] \<or> (\<exists>c n. tls = [(''local'', ''enable_tls'', ''true''), (''local'', ''tls_cert_file'', c),
        (''local'', ''tls_key_file'', n)])"
      by (auto simp: tls_sets_def res_simps split: if_splits)
    then show ?thesis using k by (elim disjE exE) (simp_all add: key_eval)
  qed
  have "last_set (txlog_rocks_sets r) ''local'' k = None" for r
    using k by (cases r; elim disjE) (simp_all add: key_eval)
  moreover have "last_set (txlog_eloq_store_sets c) ''local'' k = None" for c
    using k by (elim disjE) (simp_all add: txlog_eloq_store_sets_def key_eval Let_def split: option.split)
  ultimately show "last_set (node_txlog_sets d) ''local'' k = None"
    by (auto simp: node_txlog_sets_def split: option.splits dss_backend.splits)
qed

definition unset_by_user :: "'i ini_ops \<Rightarrow> 'i \<Rightarrow> bool" where
  "unset_by_user ops i \<longleftrightarrow> (\<forall>k \<in> set user_keys.
     ini_get ops i ''local'' k = None \<or> ini_get ops i ''local'' k = Some override_mark)"

context ini_lib
begin

lemma maxclients_succeeds:
  "unset_by_user ops i \<Longrightarrow> \<exists>i'. set_maxclients ops d i = Inr i'"
  by (auto simp: unset_by_user_def user_keys_def set_maxclients_def set_by_user_def split: option.splits)

lemma hardware_succeeds:
  assumes "\<forall>k \<in> {''core_number'', ''event_dispatcher_num'', ''node_memory_limit_mb''}.
      ini_get ops i ''local'' k = None \<or> ini_get ops i ''local'' k = Some override_mark"
    and "\<And>hw. get_hardware d host p = Some hw \<Longrightarrow> hw_cpu hw \<noteq> 0 \<and>
      memory_limit (hw_memory hw) False \<noteq> 0 \<and> topology d host \<noteq> None"
  shows "\<exists>i'. set_hardware ops d host p i = Inr i'"
proof (cases "get_hardware d host p")
  case None
  then show ?thesis by (simp add: set_hardware_def)
next
  case (Some hw)
  have k: "\<not> same_key ''local'' ''core_number'' ''local'' ''event_dispatcher_num''"
    "\<not> same_key ''local'' ''core_number'' ''local'' ''node_memory_limit_mb''"
    "\<not> same_key ''local'' ''event_dispatcher_num'' ''local'' ''node_memory_limit_mb''"
    by (simp_all add: same_key_def)
  obtain n i1 where 1: "set_core_number ops hw i = Inr (n, i1)"
    using assms(1) assms(2) [OF Some] by (auto simp: set_core_number_def set_by_user_def split: option.splits)
  obtain i2 where 2: "set_dispatchers ops hw n i1 = Inr i2"
    using assms(1) get_core_number_other [OF 1 k(1)]
    by (auto simp: set_dispatchers_def set_by_user_def split: option.splits)
  obtain i3 where 3: "set_memory_limit ops d host hw i2 = Inr i3"
    using assms(1) assms(2) [OF Some] get_core_number_other [OF 1 k(2)] get_dispatchers_other [OF 2 k(3)]
      storage_not_in_topology [of d host]
    by (auto simp: set_memory_limit_def set_by_user_def Let_def split: option.splits)
  from Some 1 2 3 show ?thesis by (simp add: set_hardware_def)
qed

lemma node_config_succeeds:
  assumes "template = Inr i0" "unset_by_user ops i0" "storage_sets d p = Inr store"
    "cluster_sets d True = Inr cluster" "ensure host p = Inr ()"
    and hw: "\<And>hw. get_hardware d host p = Some hw \<Longrightarrow> hw_cpu hw \<noteq> 0 \<and>
      memory_limit (hw_memory hw) False \<noteq> 0 \<and> topology d host \<noteq> None"
  shows "\<exists>i. node_config ops template ensure d host p = Inr i"
proof -
  obtain log where log: "log_sets d = Inr log"
  proof (cases "dep_log_service d")
    case (Some ls)
    obtain ms where "group_member_as_vec ls = Some ms" using group_member_as_vec_total by blast
    with Some that show ?thesis by (simp add: log_sets_def build_log_config_def)
  qed (simp add: log_sets_def)
  obtain tls where tls: "tls_sets ensure d host p = Inr tls" using assms(5)
    by (cases "tls_enabled d") (simp_all add: tls_sets_def)
  let ?b = "set_flags ops d (set_all ops (base_sets d p @ store @ cluster) i0)"
  let ?c = "node_txlog_sets d @ log @ [(''local'', ''ip'', host), (''local'', ''port'', p)] @ tls"
  have get: "ini_get ops (set_all ops ?c ?b) ''local'' k = ini_get ops i0 ''local'' k" if "k \<in> set user_keys" for k
    using user_keys_untouched [OF that] tls storage_sets_local [OF assms(3)] cluster_sets_local [OF assms(4)]
      log_sets_local [OF log]
    by (simp add: get_set_all last_set_append get_flags_other del: set_all_simps)
  then have u: "unset_by_user ops (set_all ops ?c ?b)" using assms(2) by (simp add: unset_by_user_def)
  then obtain i2 where 2: "set_maxclients ops d (set_all ops ?c ?b) = Inr i2" using maxclients_succeeds by blast
  have "\<forall>k \<in> {''core_number'', ''event_dispatcher_num'', ''node_memory_limit_mb''}.
      ini_get ops i2 ''local'' k = None \<or> ini_get ops i2 ''local'' k = Some override_mark"
    using u get_maxclients_other [OF 2] by (auto simp: unset_by_user_def user_keys_def same_key_def)
  then obtain i3 where 3: "set_hardware ops d host p i2 = Inr i3" using hardware_succeeds hw by blast
  show ?thesis using assms(1,3,4) log tls 2 3
    by (simp add: node_config_def build_eloqkv_config_def del: set_all_simps)
qed

end

end
