(* ===== verification/Node_Props.thy ===== *)
theory Node_Props
  imports Node_Conf
begin

text \<open>
  Properties of the generated node configuration: identity of the node, precedence of the data
  paths, sizing from the hardware entry, credentials, address lists, and when generation succeeds.
\<close>

section \<open>Small deployments for examples\<close>

definition bare_store :: eloq_store_config where
  "bare_store = \<lparr>es_worker_num = None, es_data_path_list = None, es_open_files_limit = None,
     es_data_page_restart_interval = None, es_index_page_restart_interval = None,
     es_init_page_count = None, es_skip_verify_checksum = None, es_buffer_pool_size = None,
     es_manifest_limit = None, es_io_queue_size = None, es_max_inflight_write = None,
     es_max_write_batch_pages = None, es_buf_ring_size = None, es_coroutine_stack_size = None,
     es_num_retained_archives = None, es_archive_interval_secs = None, es_max_archive_tasks = None,
     es_file_amplify_factor = None, es_local_space_limit = None, es_reserve_space_ratio = None,
     es_data_page_size = None, es_pages_per_file_shift = None, es_overflow_pointers = None,
     es_enable_compression = None, es_max_upload_batch = None, es_standby_max_concurrency = None,
     es_cloud_store_path = None, es_data_append_mode = None, es_cloud_config = None\<rparr>"

definition minio_cloud :: eloq_store_cloud_config where
  "minio_cloud = \<lparr>cloud_provider = ''minio'', cloud_access_key = Some ''AK'', cloud_secret_key = Some ''SK'',
     cloud_endpoint = ''http://m'', cloud_region = ''r'', cloud_verify_ssl = None,
     max_cloud_concurrency = None, cloud_request_threads = None, prewarm_cloud_cache = None,
     prewarm_task_count = None, reuse_local_files = None\<rparr>"

definition dss_storage :: "string list option \<Rightarrow> dss_mode \<Rightarrow> eloq_store_config \<Rightarrow> storage_service" where
  "dss_storage peers mode c = \<lparr>st_dynamodb = None, st_rocksdb = None,
     st_eloqdss = Some \<lparr>dss_backend_of = EloqStore c, dss_peer_host_ports = peers, dss_mode_of = mode\<rparr>\<rparr>"

definition one_node :: deployment where
  "one_node = bare_deployment ''kv'' ''/opt'' (bare_service [''h:1''] None None)"

definition sized_hw :: hardware where
  "sized_hw = \<lparr>hw_cpu = 8, hw_memory = 1024, hw_event_dispatcher_num = None,
     hw_eloq_data_path = Some ''/disk'', hw_eloq_store_data_path_list = None\<rparr>"

definition sized_node :: deployment where
  "sized_node = one_node\<lparr>dep_storage_service := Some (dss_storage None Internal bare_store),
     dep_hardware := Some [''h:1'' \<mapsto> sized_hw]\<rparr>"

definition no_certs :: "string \<Rightarrow> string \<Rightarrow> unit res" where
  "no_certs h p = Inr ()"

lemma one_node_runs: "\<exists>i. node_config mini_ops (Inr []) no_certs one_node ''h'' ''1'' = Inr i"
proof (rule mini.node_config_succeeds)
  show "unset_by_user mini_ops []" by (simp add: unset_by_user_def mini_ops_def mini_sec_def)
  show "storage_sets one_node ''1'' = Inr [(''store'', ''rocksdb_storage_path'', rocksdb_local_path one_node ''1'' None)]"
    by (simp add: storage_sets_def one_node_def)
  show "cluster_sets one_node True = Inr [(''cluster'', ''ip_port_list'', tx_ip_port_list one_node)]"
    by (simp add: cluster_sets_def standby_sets_def voter_sets_def one_node_def opt_set_def)
qed (simp_all add: no_certs_def get_hardware_def one_node_def)

lemma sized_node_topology: "topology sized_node ''h'' \<noteq> None"
proof -
  have "tx_host_ports (tx_service sized_node) = [''h:1'']" by (simp add: sized_node_def one_node_def)
  then have "get_host_list sized_node EloqTx = [''h'']"
    by (simp add: get_host_list_internal_def host_part_def sep_defs)
  then show ?thesis by (simp add: topology_eq topology_order_def Let_def)
qed

lemma sized_node_runs: "\<exists>i. node_config mini_ops (Inr []) no_certs sized_node ''h'' ''1'' = Inr i"
proof -
  have st: "\<exists>cmds. storage_sets sized_node ''1'' = Inr cmds"
    by (simp add: storage_sets_def sized_node_def provider_def dss_storage_def eloqdss_sets_def
        is_local_mode_def is_remote_mode_def local_store_sets_def local_aws_sets_def bare_store_def)
  then obtain cmds where "storage_sets sized_node ''1'' = Inr cmds" by blast
  moreover have "cluster_sets sized_node True = Inr [(''cluster'', ''ip_port_list'', tx_ip_port_list sized_node)]"
    by (simp add: cluster_sets_def standby_sets_def voter_sets_def sized_node_def one_node_def opt_set_def)
  moreover have "hw = sized_hw" if "get_hardware sized_node ''h'' ''1'' = Some hw" for hw
    using that by (simp add: get_hardware_def sized_node_def)
  then have "hw_cpu hw \<noteq> 0 \<and> memory_limit (hw_memory hw) False \<noteq> 0 \<and> topology sized_node ''h'' \<noteq> None"
    if "get_hardware sized_node ''h'' ''1'' = Some hw" for hw
    using that sized_node_topology by (auto simp: sized_hw_def memory_limit_def)
  ultimately show ?thesis
    using mini.node_config_succeeds [of "Inr []" "[]" sized_node "''1''" cmds _ no_certs "''h''"]
    by (simp add: unset_by_user_def mini_ops_def mini_sec_def no_certs_def)
qed

section \<open>Reading one key of the result\<close>

text \<open>The keys that only the node's own commands can set: not computed, not TLS, not paths.\<close>

definition plain_key :: "string \<Rightarrow> string \<Rightarrow> bool" where
  "plain_key s k \<longleftrightarrow> \<not> sizing_key s k \<and> \<not> same_key ''local'' ''maxclients'' s k \<and>
     \<not> same_key ''store'' ''eloq_store_worker_num'' s k \<and> \<not> same_key ''local'' ''eloq_data_path'' s k \<and>
     \<not> same_key ''store'' ''eloq_store_data_path_list'' s k \<and> \<not> same_key ''local'' ''enable_tls'' s k \<and>
     \<not> same_key ''local'' ''tls_cert_file'' s k \<and> \<not> same_key ''local'' ''tls_key_file'' s k"

definition node_cmds :: "deployment \<Rightarrow> ini_cmd list \<Rightarrow> string \<Rightarrow> string \<Rightarrow> ini_cmd list" where
  "node_cmds d log host p = node_txlog_sets d @ log @ [(''local'', ''ip'', host), (''local'', ''port'', p)]"

context ini_lib
begin

lemma node_config_plain_key:
  assumes "node_config ops template ensure d host p = Inr i" and "plain_key s k"
  obtains i1 log where "build_eloqkv_config ops template d True p = Inr i1" "log_sets d = Inr log"
    "ini_get ops i s k = (case last_set (node_cmds d log host p) s k of
       Some v \<Rightarrow> Some v | None \<Rightarrow> ini_get ops i1 s k)"
proof -
  obtain i1 log tls where st: "build_eloqkv_config ops template d True p = Inr i1" "log_sets d = Inr log"
    "tls_sets ensure d host p = Inr tls"
    "ini_get ops i s k = (case Option.bind (get_hardware d host p) (\<lambda>hw. last_set (hw_path_sets d hw) s k) of
       Some v \<Rightarrow> Some v
     | None \<Rightarrow> ini_get ops (set_all ops (node_txlog_sets d @ log @
         [(''local'', ''ip'', host), (''local'', ''port'', p)] @ tls) i1) s k)"
    using assms(2) unfolding plain_key_def by (auto elim: get_node_config [OF assms(1)])
  have tls: "last_set tls s k = None"
    using st(3) assms(2) by (auto simp: tls_sets_def plain_key_def res_simps split: if_splits)
  have hw: "last_set (hw_path_sets d hw) s k = None" for hw
    using assms(2) by (auto simp: hw_path_sets_def plain_key_def last_set_append split: option.splits)
  have "ini_get ops i s k = (case last_set (node_cmds d log host p) s k of
       Some v \<Rightarrow> Some v | None \<Rightarrow> ini_get ops i1 s k)"
  proof -
    have e: "node_txlog_sets d @ log @ [(''local'', ''ip'', host), (''local'', ''port'', p)] @ tls =
        node_cmds d log host p @ tls" by (simp add: node_cmds_def)
    have "ini_get ops (set_all ops (node_cmds d log host p @ tls) i1) s k =
        (case last_set (node_cmds d log host p) s k of Some v \<Rightarrow> Some v | None \<Rightarrow> ini_get ops i1 s k)"
      by (simp only: get_set_all last_set_append tls option.case)
    then show ?thesis using st(4) [unfolded e] hw by (cases "get_hardware d host p") simp_all
  qed
  with st that show ?thesis by blast
qed

end

section \<open>Properties\<close>

text \<open>C3. A generated node configuration identifies its node: \<open>[local] ip\<close> and \<open>port\<close> are the
  host and port it was generated for, and \<open>[cluster] txlog_service_list\<close> is the member list of the
  log service, whatever the template, the storage and the hardware entry say.\<close>

theorem node_config_identity:
  assumes "ini_lib ops" and "node_config ops template ensure d host p = Inr i"
  shows "ini_get ops i ''local'' ''ip'' = Some host \<and> ini_get ops i ''local'' ''port'' = Some p \<and>
    (\<forall>ls. dep_log_service d = Some ls \<longrightarrow> ini_get ops i ''cluster'' ''txlog_service_list'' =
       map_option (\<lambda>ms. join '','' (map member_addr ms)) (group_member_as_vec ls))"
proof -
  have k: "plain_key ''local'' ''ip''" "plain_key ''local'' ''port''" "plain_key ''cluster'' ''txlog_service_list''"
    by (simp_all add: plain_key_def sizing_key_def same_key_def)
  note plain = ini_lib.node_config_plain_key [OF assms]
  have "ini_get ops i ''local'' ''ip'' = Some host"
    by (rule plain [OF k(1)]) (simp add: node_cmds_def last_set_append same_key_def)
  moreover have "ini_get ops i ''local'' ''port'' = Some p"
    by (rule plain [OF k(2)]) (simp add: node_cmds_def last_set_append same_key_def)
  moreover have "ini_get ops i ''cluster'' ''txlog_service_list'' =
      map_option (\<lambda>ms. join '','' (map member_addr ms)) (group_member_as_vec ls)"
    if ls: "dep_log_service d = Some ls" for ls
  proof (rule plain [OF k(3)])
    fix i1 log assume "log_sets d = Inr log" and g: "ini_get ops i ''cluster'' ''txlog_service_list'' =
      (case last_set (node_cmds d log host p) ''cluster'' ''txlog_service_list'' of
         Some v \<Rightarrow> Some v | None \<Rightarrow> ini_get ops i1 ''cluster'' ''txlog_service_list'')"
    then have "last_set log ''cluster'' ''txlog_service_list'' =
        map_option (\<lambda>ms. join '','' (map member_addr ms)) (group_member_as_vec ls)"
      using last_set_log ls by blast
    moreover obtain ms where "group_member_as_vec ls = Some ms" using group_member_as_vec_total by blast
    ultimately show ?thesis using g by (simp add: node_cmds_def last_set_append same_key_def)
  qed
  ultimately show ?thesis by blast
qed

theorem node_config_identity_witness:
  "\<exists>i. node_config mini_ops (Inr []) no_certs one_node ''h'' ''1'' = Inr i \<and>
     ini_get mini_ops i ''local'' ''port'' = Some ''1''"
proof -
  obtain i where i: "node_config mini_ops (Inr []) no_certs one_node ''h'' ''1'' = Inr i"
    using one_node_runs by blast
  from node_config_identity [OF mini.ini_lib_axioms i] i show ?thesis by simp
qed

text \<open>Where the EloqStore data of a node goes, when the store is embedded in the node: the node's
  own \<open>eloq_store_data_path_list\<close> wins; else, with no shared list, the node's redirected base path or
  the default path below the node's data directory; else the shared list.\<close>

definition store_path_of :: "deployment \<Rightarrow> hardware option \<Rightarrow> eloq_store_config \<Rightarrow> string \<Rightarrow> string" where
  "store_path_of d hw c p =
     (case Option.bind hw hw_eloq_store_data_path_list of
        Some own \<Rightarrow> own
      | None \<Rightarrow>
          (case es_data_path_list c of
             Some shared \<Rightarrow> shared
           | None \<Rightarrow> compute_default_eloq_store_data_path
               (case Option.bind hw hw_eloq_data_path of Some base \<Rightarrow> base
                | None \<Rightarrow> tx_srv_home d @ ''/data/port-'' @ p)))"

definition embedded_store :: "deployment \<Rightarrow> eloq_store_config \<Rightarrow> bool" where
  "embedded_store d c \<longleftrightarrow> (\<exists>st dss. dep_storage_service d = Some st \<and> st_rocksdb st = None \<and>
     st_eloqdss st = Some dss \<and> is_local_mode dss \<and> dss_backend_of dss = EloqStore c)"

lemma embedded_storage_sets:
  assumes "embedded_store d c" "storage_sets d p = Inr cmds"
  shows "local_store_sets d p c = Inr cmds"
  using assms by (auto simp: embedded_store_def storage_sets_def provider_def eloqdss_sets_def)

lemma local_store_path:
  assumes "local_store_sets d p c = Inr cmds"
  shows "last_set cmds ''store'' ''eloq_store_data_path_list'' =
    Some (case es_data_path_list c of Some l \<Rightarrow> l
      | None \<Rightarrow> compute_default_eloq_store_data_path (tx_srv_home d @ ''/data/port-'' @ p))"
proof -
  from assms obtain aws cloud where aws: "local_aws_sets c = Inr aws"
    and cloud: "cloud = [] \<or> (\<exists>cc. cloud = local_cloud_sets cc)"
    and cmds: "cmds = aws @ local_path_sets d p c @ local_page_sets c @ local_limit_sets c @ cloud @
       opt_set ''store'' ''eloq_store_data_append_mode'' (map_option show_bool (es_data_append_mode c))"
    by (auto simp: local_store_sets_def res_simps split: option.splits)
  have "last_set cloud ''store'' ''eloq_store_data_path_list'' = None"
    using cloud last_set_local_path(3) by auto
  then show ?thesis unfolding cmds last_set_append last_set_local_path last_set_opt_set option.case
    by (simp add: same_key_def)
qed

theorem store_path_precedence:
  assumes "ini_lib ops" and "node_config ops template ensure d host p = Inr i" and "embedded_store d c"
  shows "ini_get ops i ''store'' ''eloq_store_data_path_list'' =
    Some (store_path_of d (get_hardware d host p) c p)"
proof -
  let ?k = "''eloq_store_data_path_list''"
  have k: "\<not> sizing_key ''store'' ?k" "\<not> same_key ''local'' ''maxclients'' ''store'' ?k"
    "\<not> same_key ''store'' ''eloq_store_worker_num'' ''store'' ?k"
    by (simp_all add: sizing_key_def same_key_def)
  obtain i1 log tls where st: "build_eloqkv_config ops template d True p = Inr i1" "log_sets d = Inr log"
    "tls_sets ensure d host p = Inr tls"
    and g: "ini_get ops i ''store'' ?k = (case Option.bind (get_hardware d host p) (\<lambda>hw. last_set (hw_path_sets d hw) ''store'' ?k) of
       Some v \<Rightarrow> Some v
     | None \<Rightarrow> ini_get ops (set_all ops (node_txlog_sets d @ log @
         [(''local'', ''ip'', host), (''local'', ''port'', p)] @ tls) i1) ''store'' ?k)"
    using k by (rule ini_lib.get_node_config [OF assms(1,2)])
  obtain i0 store cluster where b: "storage_sets d p = Inr store" "cluster_sets d True = Inr cluster"
    "ini_get ops i1 ''store'' ?k = ini_get ops (set_all ops (base_sets d p @ store @ cluster) i0) ''store'' ?k"
    using last_set_flags_store by (rule ini_lib.get_build [OF assms(1) st(1)])
  have "ini_get ops i1 ''store'' ?k = Some (case es_data_path_list c of Some l \<Rightarrow> l
      | None \<Rightarrow> compute_default_eloq_store_data_path (tx_srv_home d @ ''/data/port-'' @ p))"
    unfolding b(3) ini_lib.get_set_all [OF assms(1)] last_set_append last_set_cluster_store [OF b(2)]
      local_store_path [OF embedded_storage_sets [OF assms(3) b(1)]] by simp
  moreover have "last_set [(''local'', ''ip'', host), (''local'', ''port'', p)] ''store'' ?k = None"
    by (simp add: same_key_def)
  ultimately have base: "ini_get ops (set_all ops (node_txlog_sets d @ log @
       [(''local'', ''ip'', host), (''local'', ''port'', p)] @ tls) i1) ''store'' ?k =
     Some (case es_data_path_list c of Some l \<Rightarrow> l
      | None \<Rightarrow> compute_default_eloq_store_data_path (tx_srv_home d @ ''/data/port-'' @ p))"
    unfolding ini_lib.get_set_all [OF assms(1)] last_set_append last_set_tls_ip(4) [OF st(3)]
      last_set_log_store [OF st(2)] last_set_txlog_store by simp
  have glob: "global_eloq_store_data_path_list d = es_data_path_list c"
    using assms(3) by (auto simp: embedded_store_def global_eloq_store_data_path_list_def)
  show ?thesis unfolding g base
    by (cases "get_hardware d host p") (auto simp: store_path_of_def hw_path_sets_def glob same_key_def last_set_append split: option.split)
qed

theorem store_path_precedence_witness:
  "\<exists>i. node_config mini_ops (Inr []) no_certs sized_node ''h'' ''1'' = Inr i \<and>
     ini_get mini_ops i ''store'' ''eloq_store_data_path_list'' = Some ''/disk/eloq_dss/eloqstore_data''"
proof -
  obtain i where i: "node_config mini_ops (Inr []) no_certs sized_node ''h'' ''1'' = Inr i"
    using sized_node_runs by blast
  have "embedded_store sized_node bare_store"
    by (simp add: embedded_store_def sized_node_def dss_storage_def is_local_mode_def is_remote_mode_def)
  moreover have "get_hardware sized_node ''h'' ''1'' = Some sized_hw"
    by (simp add: get_hardware_def sized_node_def)
  ultimately show ?thesis using store_path_precedence [OF mini.ini_lib_axioms i, of bare_store] i
    by (simp add: store_path_of_def sized_hw_def bare_store_def compute_default_eloq_store_data_path_def)
qed

text \<open>With an embedded EloqStore on an AWS or MinIO cloud, the generated file has the access key
  under \<open>aws_secret_key\<close> and the secret key under \<open>aws_access_key_id\<close>: the two are exchanged.\<close>

theorem embedded_cloud_credentials_swapped:
  assumes "ini_lib ops" and "build_eloqkv_config ops template d ips p = Inr i" and "embedded_store d c"
    and "es_cloud_config c = Some cc" "needs_credentials (cloud_provider cc)"
    and "cloud_access_key cc = Some access" "cloud_secret_key cc = Some secret"
  shows "ini_get ops i ''store'' ''aws_secret_key'' = Some access \<and>
    ini_get ops i ''store'' ''aws_access_key_id'' = Some secret"
proof -
  have aws: "local_aws_sets c = Inr [(''store'', ''aws_secret_key'', access), (''store'', ''aws_access_key_id'', secret)]"
    using assms(4-7) by (simp add: local_aws_sets_def validate_credentials_def)
  have "ini_get ops i ''store'' k = last_set [(''store'', ''aws_secret_key'', access), (''store'', ''aws_access_key_id'', secret)] ''store'' k"
    if k: "k = ''aws_secret_key'' \<or> k = ''aws_access_key_id''" for k
  proof -
    obtain i0 store cluster where b: "storage_sets d p = Inr store" "cluster_sets d ips = Inr cluster"
      "ini_get ops i ''store'' k = ini_get ops (set_all ops (base_sets d p @ store @ cluster) i0) ''store'' k"
      using last_set_flags_store by (rule ini_lib.get_build [OF assms(1,2)])
    have store: "store = [(''store'', ''aws_secret_key'', access), (''store'', ''aws_access_key_id'', secret)] @
        local_path_sets d p c @ local_page_sets c @ local_limit_sets c @ local_cloud_sets cc @
        opt_set ''store'' ''eloq_store_data_append_mode'' (map_option show_bool (es_data_append_mode c))"
      using embedded_storage_sets [OF assms(3) b(1)] aws assms(4)
      by (auto simp: local_store_sets_def res_simps)
    have "last_set store ''store'' k =
        last_set [(''store'', ''aws_secret_key'', access), (''store'', ''aws_access_key_id'', secret)] ''store'' k"
    proof -
      have "\<not> same_key ''store'' ''eloq_store_data_append_mode'' ''store'' k" using k by (auto simp: same_key_def)
      then show ?thesis using k unfolding store
        by (elim disjE) (simp_all only: last_set_append last_set_local_aws last_set_opt_set option.case if_False)
    qed
    moreover have "last_set [(''store'', ''aws_secret_key'', access), (''store'', ''aws_access_key_id'', secret)] ''store'' k \<noteq> None"
      using k by (auto simp: same_key_def)
    ultimately show ?thesis
      unfolding b(3) ini_lib.get_set_all [OF assms(1)] last_set_append last_set_cluster_store [OF b(2)]
      by auto
  qed
  from this [of "''aws_secret_key''"] this [of "''aws_access_key_id''"] show ?thesis
    by (simp add: same_key_def)
qed

theorem embedded_cloud_credentials_swapped_witness:
  "\<exists>i. build_eloqkv_config mini_ops (Inr []) (one_node\<lparr>dep_storage_service :=
       Some (dss_storage None Internal (bare_store\<lparr>es_cloud_config := Some minio_cloud\<rparr>))\<rparr>) False [] = Inr i \<and>
     ini_get mini_ops i ''store'' ''aws_secret_key'' = Some ''AK''"
proof -
  let ?c = "bare_store\<lparr>es_cloud_config := Some minio_cloud\<rparr>"
  let ?d = "one_node\<lparr>dep_storage_service := Some (dss_storage None Internal ?c)\<rparr>"
  have e: "embedded_store ?d ?c"
    by (simp add: embedded_store_def dss_storage_def is_local_mode_def is_remote_mode_def)
  have "\<exists>cmds. storage_sets ?d [] = Inr cmds"
    by (simp add: storage_sets_def provider_def dss_storage_def eloqdss_sets_def is_local_mode_def
        is_remote_mode_def local_store_sets_def local_aws_sets_def minio_cloud_def validate_credentials_def)
  then obtain i where i: "build_eloqkv_config mini_ops (Inr []) ?d False [] = Inr i"
    by (auto simp: build_eloqkv_config_def cluster_sets_def Let_def)
  from embedded_cloud_credentials_swapped [OF mini.ini_lib_axioms i e, of minio_cloud "''AK''" "''SK''"] i
  show ?thesis by (simp add: minio_cloud_def needs_credentials_def)
qed

text \<open>The default core count of a node with \<open>cpu\<close> processors is one or two for up to four of them and
  four fifths, rounded down, from five on; it lies between one and \<open>cpu\<close>. This holds up to 16383
  processors; at 16384 the product \<open>cpu * 4\<close> wraps and the node gets one core.\<close>

theorem default_core_number_bounds:
  assumes "0 < unat cpu" and "unat cpu \<le> 16383"
  shows "unat (default_core_number cpu) =
      (if unat cpu \<le> 2 then 1 else if unat cpu \<le> 4 then 2 else 4 * unat cpu div 5) \<and>
    1 \<le> unat (default_core_number cpu) \<and> unat (default_core_number cpu) \<le> unat cpu \<and>
    default_core_number 16384 = 1"
proof -
  have small: "cpu = 1 \<longleftrightarrow> unat cpu = 1" "cpu = 2 \<longleftrightarrow> unat cpu = 2" "cpu = 3 \<longleftrightarrow> unat cpu = 3" "cpu = 4 \<longleftrightarrow> unat cpu = 4"
    by (simp_all add: word_unat_eq_iff)
  have "unat (cpu * 4) = unat cpu * 4"
    using assms(2) by (subst unat_mult_lem [THEN iffD1]) simp_all
  then have p: "unat (cpu * 4 div 5) = 4 * unat cpu div 5" by (simp add: unat_div)
  have "unat (max 1 (cpu * 4 div 5)) = max 1 (4 * unat cpu div 5)"
    using p by (simp add: max_def word_le_nat_alt)
  moreover have "default_core_number 16384 = 1" by (simp add: default_core_number_def)
  ultimately show ?thesis using assms small by (auto simp: default_core_number_def)
qed

theorem default_core_number_bounds_witness:
  "unat (default_core_number 8) = 6"
  using default_core_number_bounds [of 8] by simp

text \<open>The character loop over a group list trims every token and keeps the separators: splitting
  its result gives the trimmed tokens of the entry, and its separators are those of the entry.\<close>

lemma trim_loop_separators:
  "\<forall>c \<in> set cur. \<not> is_pipe_comma c \<Longrightarrow> filter is_pipe_comma (trim_loop [] cur s) = filter is_pipe_comma s"
proof (induction s arbitrary: cur)
  case Nil
  then show ?case using set_trim [of cur] by (auto simp: filter_empty_conv)
next
  case (Cons c s)
  show ?case
  proof (cases "is_pipe_comma c")
    case True
    have "trim_loop [] cur (c # s) = trim cur @ c # trim_loop [] [] s"
      using True trim_loop_acc [of "trim cur @ [c]" "[]" s] by (auto simp: is_pipe_comma_def)
    moreover have "filter is_pipe_comma (trim cur) = []"
      using Cons.prems set_trim [of cur] by (auto simp: filter_empty_conv)
    ultimately show ?thesis using Cons.IH [of "[]"] True by simp
  next
    case False
    then have "trim_loop [] cur (c # s) = trim_loop [] (cur @ [c]) s" by (auto simp: is_pipe_comma_def)
    then show ?thesis using Cons.IH [of "cur @ [c]"] Cons.prems False by simp
  qed
qed

theorem group_list_loop_trims_tokens:
  "split_on is_pipe_comma (trim_loop [] [] s) = map trim (split_on is_pipe_comma s) \<and>
   filter is_pipe_comma (trim_loop [] [] s) = filter is_pipe_comma s"
  using split_trim_loop [of "[]" s] trim_loop_separators [of "[]" s] by simp

section \<open>When a configuration is generated\<close>

text \<open>
  What the generator needs of a deployment: a storage entry names a provider, an embedded EloqStore with a
  cloud has its credentials when the provider needs them; a standby or voter list is not empty; and a
  hardware entry has processors, memory for a limit of at least one, and a host in the topology.
\<close>

definition usable_storage :: "deployment \<Rightarrow> bool" where
  "usable_storage d \<longleftrightarrow> (case dep_storage_service d of None \<Rightarrow> True
     | Some st \<Rightarrow> (case (st_rocksdb st, st_eloqdss st) of
         (Some _, _) \<Rightarrow> True
       | (None, None) \<Rightarrow> False
       | (None, Some dss) \<Rightarrow> is_local_mode dss \<longrightarrow> (case dss_backend_of dss of EloqStore c \<Rightarrow> (case es_cloud_config c of
             None \<Rightarrow> True
           | Some cc \<Rightarrow> needs_credentials (cloud_provider cc) \<longrightarrow> cloud_access_key cc \<noteq> None \<and> cloud_secret_key cc \<noteq> None))))"

definition usable_lists :: "deployment \<Rightarrow> bool" where
  "usable_lists d \<longleftrightarrow> standby_host_ports (tx_service d) \<noteq> Some [] \<and> voter_host_ports (tx_service d) \<noteq> Some []"

definition usable_hardware :: "deployment \<Rightarrow> string \<Rightarrow> string \<Rightarrow> bool" where
  "usable_hardware d host p \<longleftrightarrow> (case get_hardware d host p of None \<Rightarrow> True
     | Some hw \<Rightarrow> hw_cpu hw \<noteq> 0 \<and> hw_memory hw * 4 div 5 \<noteq> 0 \<and> topology d host \<noteq> None)"

lemma storage_sets_returns: "(\<exists>cmds. storage_sets d p = Inr cmds) \<longleftrightarrow> usable_storage d"
  by (auto simp: storage_sets_def usable_storage_def provider_def eloqdss_sets_def local_store_sets_def local_aws_sets_def
      validate_credentials_def res_simps split: option.splits dss_backend.splits if_splits)

lemma cluster_sets_returns: "(\<exists>cmds. cluster_sets d True = Inr cmds) \<longleftrightarrow> usable_lists d"
  by (auto simp: cluster_sets_def standby_sets_def voter_sets_def usable_lists_def Let_def res_simps split: option.splits)

context ini_lib
begin

lemma hardware_needs:
  assumes "\<forall>k \<in> {''core_number'', ''event_dispatcher_num'', ''node_memory_limit_mb''}.
      ini_get ops i ''local'' k = None \<or> ini_get ops i ''local'' k = Some override_mark"
    and "set_hardware ops d host p i = Inr i'"
  shows "usable_hardware d host p"
proof (cases "get_hardware d host p")
  case (Some hw)
  have k: "\<not> same_key ''local'' ''core_number'' ''local'' ''node_memory_limit_mb''"
    "\<not> same_key ''local'' ''event_dispatcher_num'' ''local'' ''node_memory_limit_mb''"
    by (simp_all add: same_key_def)
  from assms(2) Some obtain n i1 i2 i3 where st: "set_core_number ops hw i = Inr (n, i1)" "set_dispatchers ops hw n i1 = Inr i2"
    "set_memory_limit ops d host hw i2 = Inr i3"
    by (auto simp: set_hardware_def res_simps)
  have "hw_cpu hw \<noteq> 0"
    using st(1) assms(1) by (auto simp: set_core_number_def set_by_user_def res_simps split: option.splits if_splits)
  moreover have "ini_get ops i2 ''local'' ''node_memory_limit_mb'' = ini_get ops i ''local'' ''node_memory_limit_mb''"
    using get_core_number_other [OF st(1) k(1)] get_dispatchers_other [OF st(2) k(2)] by simp
  then have "memory_limit (hw_memory hw) False \<noteq> 0 \<and> topology d host \<noteq> None"
    using st(3) assms(1) storage_not_in_topology [of d host]
    by (auto simp: set_memory_limit_def set_by_user_def res_simps Let_def split: option.splits if_splits)
  ultimately show ?thesis using Some by (simp add: usable_hardware_def memory_limit_def)
qed (simp add: usable_hardware_def)

text \<open>The sizing keys are still the user's when the hardware is looked at.\<close>

lemma unset_before_hardware:
  assumes "unset_by_user ops i0" and "build_eloqkv_config ops (Inr i0) d True p = Inr i1" and "log_sets d = Inr log"
    and "tls_sets ensure d host p = Inr tls"
    and "set_maxclients ops d (set_all ops (node_txlog_sets d @ log @ [(''local'', ''ip'', host), (''local'', ''port'', p)] @ tls) i1) = Inr i2"
    and "k \<in> {''core_number'', ''event_dispatcher_num'', ''node_memory_limit_mb''}"
  shows "ini_get ops i2 ''local'' k = None \<or> ini_get ops i2 ''local'' k = Some override_mark"
proof -
  have u: "k \<in> set user_keys" and m: "\<not> same_key ''local'' ''maxclients'' ''local'' k"
    using assms(6) by (auto simp: user_keys_def same_key_def)
  obtain store cluster where s: "storage_sets d p = Inr store" "cluster_sets d True = Inr cluster"
    "i1 = set_flags ops d (set_all ops (base_sets d p @ store @ cluster) i0)"
    using assms(2) by (auto simp: build_eloqkv_config_def res_simps simp del: set_all_simps)
  have "ini_get ops i2 ''local'' k = ini_get ops i0 ''local'' k"
    using get_maxclients_other [OF assms(5) m] user_keys_untouched [OF u] assms(4) storage_sets_local [OF s(1)]
      cluster_sets_local [OF s(2)] log_sets_local [OF assms(3)]
    by (simp add: s(3) get_set_all last_set_append get_flags_other del: set_all_simps)
  then show ?thesis using assms(1) u by (simp add: unset_by_user_def)
qed

lemma node_config_iff:
  assumes "unset_by_user ops i0"
  shows "(\<exists>i. node_config ops (Inr i0) ensure d host p = Inr i) \<longleftrightarrow>
    usable_storage d \<and> usable_lists d \<and> (tls_enabled d \<longrightarrow> ensure host p = Inr ()) \<and> usable_hardware d host p"
proof
  assume "\<exists>i. node_config ops (Inr i0) ensure d host p = Inr i"
  then obtain i i1 log tls i2 i3 where st: "build_eloqkv_config ops (Inr i0) d True p = Inr i1"
      "log_sets d = Inr log" "tls_sets ensure d host p = Inr tls"
      "set_maxclients ops d (set_all ops (node_txlog_sets d @ log @
         [(''local'', ''ip'', host), (''local'', ''port'', p)] @ tls) i1) = Inr i2"
      "set_hardware ops d host p i2 = Inr i3"
    unfolding node_config_def bindE_Inr_iff sum.inject by blast
  have "usable_hardware d host p"
    by (rule hardware_needs [OF _ st(5)], intro ballI, rule unset_before_hardware [OF assms st(1-4)])
  moreover obtain store cluster where "storage_sets d p = Inr store" "cluster_sets d True = Inr cluster"
    using st(1) by (auto simp: build_eloqkv_config_def res_simps simp del: set_all_simps)
  moreover have "tls_enabled d \<longrightarrow> ensure host p = Inr ()" using st(3) by (auto simp: tls_sets_def res_simps)
  ultimately show "usable_storage d \<and> usable_lists d \<and> (tls_enabled d \<longrightarrow> ensure host p = Inr ()) \<and> usable_hardware d host p"
    using storage_sets_returns cluster_sets_returns by blast
next
  assume u: "usable_storage d \<and> usable_lists d \<and> (tls_enabled d \<longrightarrow> ensure host p = Inr ()) \<and> usable_hardware d host p"
  then obtain store cluster where s: "storage_sets d p = Inr store" "cluster_sets d True = Inr cluster"
    using storage_sets_returns cluster_sets_returns by blast
  let ?ensure = "if tls_enabled d then ensure else (\<lambda>_ _. Inr ())"
  have "node_config ops (Inr i0) ensure d host p = node_config ops (Inr i0) ?ensure d host p"
    by (simp add: node_config_def tls_sets_def)
  moreover have "\<exists>i. node_config ops (Inr i0) ?ensure d host p = Inr i"
    by (rule node_config_succeeds [OF refl assms s]) (use u in \<open>auto simp: usable_hardware_def memory_limit_def\<close>)
  ultimately show "\<exists>i. node_config ops (Inr i0) ensure d host p = Inr i" by simp
qed

end

text \<open>C10. The generator returns a configuration for a node exactly when the deployment can be used, given a
  template that leaves the sizing keys to it: the storage entry names a provider, and an embedded
  EloqStore in a cloud has the credentials its provider needs; the standby and the voter list are not
  empty; the certificate of the node can be created when TLS is on; and a hardware entry of the node has
  processors, memory for a limit of at least one, and a host in the topology. Nothing else makes it
  fail.\<close>

theorem node_config_returns:
  assumes "ini_lib ops" and "unset_by_user ops i0"
  shows "(\<exists>i. node_config ops (Inr i0) ensure d host p = Inr i) \<longleftrightarrow>
    usable_storage d \<and> usable_lists d \<and> (tls_enabled d \<longrightarrow> ensure host p = Inr ()) \<and> usable_hardware d host p"
  by (rule ini_lib.node_config_iff [OF assms])

text \<open>A node with an embedded store and a hardware entry, and the same one with a hardware entry of one megabyte.\<close>

theorem node_config_returns_witness:
  "(\<exists>i. node_config mini_ops (Inr []) no_certs sized_node ''h'' ''1'' = Inr i) \<and>
   \<not> (\<exists>i. node_config mini_ops (Inr []) no_certs (sized_node\<lparr>dep_hardware := Some [''h:1'' \<mapsto> sized_hw\<lparr>hw_memory := 1\<rparr>]\<rparr>) ''h'' ''1'' = Inr i)"
proof -
  have u: "unset_by_user mini_ops []" by (simp add: unset_by_user_def mini_ops_def mini_sec_def)
  let ?poor = "sized_node\<lparr>dep_hardware := Some [''h:1'' \<mapsto> sized_hw\<lparr>hw_memory := 1\<rparr>]\<rparr>"
  have s: "usable_storage sized_node" "usable_lists sized_node" "\<not> tls_enabled sized_node"
    by (simp_all add: usable_storage_def usable_lists_def sized_node_def one_node_def dss_storage_def is_local_mode_def is_remote_mode_def
        bare_store_def tls_enabled_def)
  have h: "get_hardware sized_node ''h'' ''1'' = Some sized_hw" by (simp add: get_hardware_def sized_node_def)
  have h': "get_hardware ?poor ''h'' ''1'' = Some (sized_hw\<lparr>hw_memory := 1\<rparr>)" by (simp add: get_hardware_def)
  have c: "hw_cpu sized_hw \<noteq> 0" "hw_memory sized_hw * 4 div 5 \<noteq> 0" by (simp_all add: sized_hw_def)
  have "usable_hardware sized_node ''h'' ''1''"
    unfolding usable_hardware_def h option.case by (intro conjI c sized_node_topology)
  moreover have "\<not> usable_hardware ?poor ''h'' ''1''" unfolding usable_hardware_def h' by (simp add: sized_hw_def)
  ultimately show ?thesis unfolding node_config_returns [OF mini.ini_lib_axioms u] using s by simp
qed

end
