(* ===== verification/Task_Core.thy ===== *)
theory Task_Core
  imports Endpoints
begin

text \<open>
  Task contexts and their execution (\<open>cli/task/task_base.rs\<close>, \<open>cli/task/task_controller.rs\<close>): a
  context is an ordered map of tasks with barriers that cut it into stages; the controller runs the
  tasks of a stage in parallel and the stages one after the other.

  What a task does is I/O: the runner takes a function from task instances to results, with None for
  a task whose thread panicked. The parallel tasks of a stage do not see each other's results, and
  the controller collects them in the order of the stage.
\<close>

section \<open>Task identifiers, hosts and results\<close>

record task_id =
  tid_cmd :: string
  tid_task :: string
  tid_host :: string

datatype task_arg_value = StrValue string | NumberValue int | ListValue "string list"

fun show_task_arg :: "task_arg_value \<Rightarrow> string" where
  "show_task_arg (StrValue s) = s"
| "show_task_arg (NumberValue n) = (if n < 0 then ''-'' @ show_nat (nat (- n)) else show_nat (nat n))"
| "show_task_arg (ListValue l) = join '','' l"

datatype task_host = LocalHost | RemoteHost string nat string

definition remote_host :: "connection \<Rightarrow> string \<Rightarrow> task_host" where
  "remote_host conn host = (case ssh_endpoint conn host of
     (sh, sp) \<Rightarrow> RemoteHost (username conn) (unat sp) sh)"

fun ssh_conn_tuple :: "task_host \<Rightarrow> string \<times> nat \<times> string" where
  "ssh_conn_tuple LocalHost = (''_local'', 22, ''localhost'')"
| "ssh_conn_tuple (RemoteHost user p host) = (user, p, host)"

definition format_string :: "task_id \<Rightarrow> string" where
  "format_string tid = ''host='' @ tid_host tid @ '',cmd='' @ tid_cmd tid @ '',task='' @ tid_task tid"

text \<open>The three optional fields while the parts of a printed id are read.\<close>

definition parse_part :: "string option \<times> string option \<times> string option \<Rightarrow> string \<Rightarrow>
    (string option \<times> string option \<times> string option) option" where
  "parse_part acc part = (case acc of (host, cmd, task) \<Rightarrow>
     (case split_once is_eq part of
        None \<Rightarrow> None
      | Some (key, value) \<Rightarrow> Some
           (if key = ''host'' then (Some value, cmd, task)
            else if key = ''cmd'' then (host, Some value, task)
            else if key = ''task'' then (host, cmd, Some value)
            else (host, cmd, task))))"

primrec parse_parts :: "string list \<Rightarrow> string option \<times> string option \<times> string option \<Rightarrow>
    (string option \<times> string option \<times> string option) option" where
  "parse_parts [] acc = Some acc"
| "parse_parts (part # parts) acc = Option.bind (parse_part acc part) (parse_parts parts)"

definition parse_format_string :: "string \<Rightarrow> task_id option" where
  "parse_format_string s = (case parse_parts (split_on is_comma s) (None, None, None) of
     Some (Some host, Some cmd, Some task) \<Rightarrow> Some \<lparr>tid_cmd = cmd, tid_task = task, tid_host = host\<rparr>
   | _ \<Rightarrow> None)"

type_synonym execution_value = "string \<rightharpoonup> task_arg_value"

datatype task_result = Success "execution_value option" | TaskError string

fun is_success :: "task_result \<Rightarrow> bool" where
  "is_success (Success _) = True"
| "is_success (TaskError _) = False"

record task_result_pair =
  rp_task_id :: string
  rp_result :: task_result

text \<open>A task instance: its input, its executor with the executor's identifier, and its host.\<close>

record 'x task_instance =
  ti_input :: execution_value
  ti_task :: 'x
  ti_identifier :: task_id
  ti_host :: task_host

section \<open>Contexts and their merging\<close>

record 'x task_context =
  task_group :: string
  barrier :: "nat list option"
  executable :: "(task_id \<times> 'x task_instance) list"

definition dummy_context :: "'x task_context" where
  "dummy_context = \<lparr>task_group = ''dummy'', barrier = None, executable = []\<rparr>"

definition list_task_ids :: "'x task_context \<Rightarrow> task_id list" where
  "list_task_ids ctx = map fst (executable ctx)"

definition merge_one :: "nat list \<times> (task_id \<times> 'x task_instance) list \<Rightarrow> 'x task_context \<Rightarrow>
    nat list \<times> (task_id \<times> 'x task_instance) list" where
  "merge_one st ctx =
     (if executable ctx = [] then st
      else (fst st @ (case barrier ctx of Some b \<Rightarrow> b | None \<Rightarrow> [length (executable ctx)]),
            im_extend (snd st) (executable ctx)))"

definition merge_execution :: "nat list \<Rightarrow> (task_id \<times> 'x task_instance) list \<Rightarrow> 'x task_context list \<Rightarrow>
    nat list \<times> (task_id \<times> 'x task_instance) list" where
  "merge_execution b ex ctxs = foldl merge_one (b, ex) ctxs"

section \<open>Stages\<close>

text \<open>\<open>&tasks[begin..end]\<close> for consecutive ranges; a range past the end is a panic.\<close>

fun split_loop :: "'a list \<Rightarrow> nat \<Rightarrow> nat list \<Rightarrow> 'a list list res" where
  "split_loop tasks pos [] = Inr []"
| "split_loop tasks pos (n # ns) =
     (if length tasks < pos + n then Inl (Panic ''range end index out of range for slice'')
      else bindE (split_loop tasks (pos + n) ns) (\<lambda>rest. Inr (take n (drop pos tasks) # rest)))"

definition split_task :: "'x task_context \<Rightarrow> 'x task_instance list list res" where
  "split_task ctx =
     (let tasks = map snd (executable ctx)
      in case barrier ctx of Some b \<Rightarrow> split_loop tasks 0 b | None \<Rightarrow> Inr [tasks])"

section \<open>Running\<close>

definition run_task_split :: "('x task_instance \<Rightarrow> task_result option) \<Rightarrow> 'x task_instance list \<Rightarrow>
    task_result_pair list" where
  "run_task_split exec split = List.map_filter (\<lambda>t. map_option
     (\<lambda>r. \<lparr>rp_task_id = format_string (ti_identifier t), rp_result = r\<rparr>) (exec t)) split"

fun first_error :: "task_result_pair list \<Rightarrow> string option" where
  "first_error [] = None"
| "first_error (p # ps) = (case rp_result p of TaskError e \<Rightarrow> Some e | Success _ \<Rightarrow> first_error ps)"

text \<open>The loop over the stages: the instances that were started, and the result.\<close>

fun run_stages :: "('x task_instance \<Rightarrow> task_result option) \<Rightarrow> bool \<Rightarrow> 'x task_instance list list \<Rightarrow>
    'x task_instance list \<times> task_result_pair list res" where
  "run_stages exec err_brk [] = ([], Inr [])"
| "run_stages exec err_brk (stage # stages) =
     (let rs = run_task_split exec stage
      in case (if err_brk then first_error rs else None) of
           Some e \<Rightarrow> (stage, Inl (Err (''operation failed: '' @ e)))
         | None \<Rightarrow> (case run_stages exec err_brk stages of
             (started, r) \<Rightarrow> (stage @ started, bindE r (\<lambda>more. Inr (rs @ more)))))"

definition run_all_tasks :: "('x task_instance \<Rightarrow> task_result option) \<Rightarrow> bool \<Rightarrow> 'x task_context \<Rightarrow>
    'x task_instance list \<times> task_result_pair list res" where
  "run_all_tasks exec err_brk ctx = (case split_task ctx of
     Inl e \<Rightarrow> ([], Inl e) | Inr stages \<Rightarrow> run_stages exec err_brk stages)"

section \<open>The interface between a context and the runner\<close>

text \<open>
  The runner relies on one law of whatever cuts a context into stages: for a well-formed context the
  stages exist and together are its tasks, in order.
\<close>

locale staged =
  fixes stages_of :: "'c \<Rightarrow> 'x task_instance list list res" and tasks_of :: "'c \<Rightarrow> 'x task_instance list"
    and wf :: "'c \<Rightarrow> bool"
  assumes stages: "wf c \<Longrightarrow> \<exists>sts. stages_of c = Inr sts \<and> concat sts = tasks_of c"
begin

lemma run_prefix:
  assumes "wf c" "stages_of c = Inr sts"
  shows "\<exists>k \<le> length sts. fst (run_stages exec brk sts) = concat (take k sts) \<and>
    (\<forall>rs. snd (run_stages exec brk sts) = Inr rs \<longrightarrow> fst (run_stages exec brk sts) = tasks_of c)"
proof -
  have gen: "\<exists>k \<le> length sts. fst (run_stages exec brk sts) = concat (take k sts) \<and>
      (\<forall>rs. snd (run_stages exec brk sts) = Inr rs \<longrightarrow> k = length sts)" for sts
  proof (induction sts)
    case (Cons s sts)
    then obtain k where k: "k \<le> length sts" "fst (run_stages exec brk sts) = concat (take k sts)"
      "\<forall>rs. snd (run_stages exec brk sts) = Inr rs \<longrightarrow> k = length sts" by blast
    show ?case
    proof (cases "if brk then first_error (run_task_split exec s) else None")
      case None
      with k show ?thesis
        by (intro exI [of _ "Suc k"]) (auto simp: Let_def split_beta res_simps)
    next
      case (Some e)
      then show ?thesis by (intro exI [of _ 1]) (simp add: Let_def)
    qed
  qed simp
  from stages [OF assms(1)] assms(2) have "concat sts = tasks_of c" by auto
  with gen [of sts] show ?thesis by (metis take_all order_refl)
qed

lemma run_without_errors:
  assumes "wf c" "stages_of c = Inr sts"
    and "\<forall>t \<in> set (tasks_of c). \<forall>e. exec t \<noteq> Some (TaskError e)"
  shows "run_stages exec brk sts = (tasks_of c, Inr (run_task_split exec (tasks_of c)))"
proof -
  have first: "\<forall>t \<in> set ts. \<forall>e. exec t \<noteq> Some (TaskError e) \<Longrightarrow> first_error (run_task_split exec ts) = None" for ts
    by (induction ts) (auto simp: run_task_split_def map_filter_simps split: option.split task_result.split)
  have app: "run_task_split exec (a @ b) = run_task_split exec a @ run_task_split exec b" for a b
    by (simp add: run_task_split_def map_filter_def)
  have nil: "run_task_split exec [] = []" by (simp add: run_task_split_def map_filter_simps)
  have gen: "\<forall>t \<in> set (concat sts). \<forall>e. exec t \<noteq> Some (TaskError e) \<Longrightarrow>
      run_stages exec brk sts = (concat sts, Inr (run_task_split exec (concat sts)))" for sts
    by (induction sts) (auto simp: Let_def first app nil ball_Un)
  have c: "concat sts = tasks_of c" using stages [OF assms(1)] assms(2) by auto
  from gen [of sts] assms(3) show ?thesis unfolding c by simp
qed

end

definition wf_context :: "'x task_context \<Rightarrow> bool" where
  "wf_context ctx \<longleftrightarrow> distinct (map fst (executable ctx)) \<and>
     (case barrier ctx of None \<Rightarrow> True | Some b \<Rightarrow> sum_list b = length (executable ctx))"

lemma split_loop_Inr:
  "pos + sum_list ns \<le> length tasks \<Longrightarrow>
   \<exists>sts. split_loop tasks pos ns = Inr sts \<and> concat sts = take (sum_list ns) (drop pos tasks) \<and> map length sts = ns"
proof (induction ns arbitrary: pos)
  case (Cons n ns)
  then obtain sts where "split_loop tasks (pos + n) ns = Inr sts"
    "concat sts = take (sum_list ns) (drop (pos + n) tasks)" "map length sts = ns"
    by (metis add.assoc sum_list.Cons)
  moreover have "take (n + sum_list ns) (drop pos tasks) =
      take n (drop pos tasks) @ take (sum_list ns) (drop (pos + n) tasks)"
    by (simp add: take_add add.commute)
  ultimately show ?case using Cons.prems by simp
qed simp

lemma split_loop_panics:
  "length tasks < pos + sum_list ns \<Longrightarrow> \<exists>m. split_loop tasks pos ns = Inl (Panic m) \<or> pos > length tasks \<and> sum_list ns = 0"
proof (induction ns arbitrary: pos)
  case (Cons n ns)
  show ?case
  proof (cases "length tasks < pos + n")
    case False
    with Cons.IH [of "pos + n"] Cons.prems show ?thesis by (auto simp: add.assoc)
  qed simp
qed simp

interpretation ctx: staged split_task "\<lambda>ctx. map snd (executable ctx)" wf_context
proof (unfold_locales)
  fix c :: "'x task_context"
  assume wf: "wf_context c"
  show "\<exists>sts. split_task c = Inr sts \<and> concat sts = map snd (executable c)"
  proof (cases "barrier c")
    case None
    then show ?thesis by (simp add: split_task_def)
  next
    case (Some b)
    with wf have "sum_list b = length (map snd (executable c))" by (simp add: wf_context_def)
    with split_loop_Inr [of 0 b "map snd (executable c)"] Some show ?thesis
      by (auto simp: split_task_def)
  qed
qed

section \<open>What the user sees\<close>

definition all_ids :: "(task_id \<Rightarrow> bool) \<Rightarrow> 'x task_instance list \<Rightarrow> bool" where
  "all_ids P split \<longleftrightarrow> list_all (\<lambda>t. P (ti_identifier t)) split"

definition capitalize :: "string \<Rightarrow> string" where
  "capitalize w = (case w of [] \<Rightarrow> [] | c # cs \<Rightarrow> ascii_upper c # cs)"

definition humanize_task_name :: "string \<Rightarrow> string" where
  "humanize_task_name name =
     (let words = map capitalize (split_ws (map (\<lambda>c. if c = CHR ''-'' \<or> c = CHR ''_'' then CHR '' '' else c) name))
      in if words = [] then ''Running task'' else join '' '' words)"

definition stage_labels :: "(string \<times> string) list" where
  "stage_labels =
     [(''check'', ''Checking hosts and ports''),
      (''deploy'', ''Deploying packages and configuration''),
      (''install'', ''Bootstrapping Eloq''),
      (''cluster-control-start'', ''Starting Eloq services''),
      (''cluster-control-status'', ''Checking cluster status''),
      (''update-tx-conf'', ''Updating Eloq configuration''),
      (''download-and-extract'', ''Preparing upgrade package''),
      (''upload-to-standby'', ''Uploading binaries to standby nodes''),
      (''upload-to-master'', ''Uploading binaries to old master nodes''),
      (''stop-standby'', ''Stopping standby nodes''),
      (''rolling-restart-failover-stop-master'', ''Failing over to standby and stopping old master''),
      (''rolling-restart-round1'', ''Moving traffic away from the current master''),
      (''start-tx'', ''Starting the original master node''),
      (''wait-current-master'', ''Waiting for a serving master''),
      (''rolling-restart-round2'', ''Moving traffic back and restarting standby''),
      (''start-standby'', ''Starting standby nodes''),
      (''stop-voters'', ''Stopping voter nodes''),
      (''start-voters'', ''Starting voter nodes''),
      (''start-log-and-wait'', ''Starting log service''),
      (''log-service-startup'', ''Starting log service''),
      (''scale'', ''Scaling Eloq nodes''),
      (''scalelog'', ''Scaling log service''),
      (''backup'', ''Running backup operation''),
      (''dummy'', ''Finalizing'')]"

definition stage_label :: "string \<Rightarrow> string" where
  "stage_label grp = (case map_of stage_labels grp of
     Some l \<Rightarrow> l | None \<Rightarrow> humanize_task_name grp)"

definition stage_summary :: "nat \<Rightarrow> string" where
  "stage_summary n = (if n = 0 then ''no work'' else if n = 1 then ''1 operation''
     else show_nat n @ '' operations'')"

definition stage_label_from_tasks :: "string \<Rightarrow> 'x task_instance list \<Rightarrow> string" where
  "stage_label_from_tasks grp split =
     (if split = [] then stage_label grp
      else if all_ids (\<lambda>i. tid_cmd i = ''ssh-check'') split then ''Checking SSH connectivity''
      else if all_ids (\<lambda>i. tid_cmd i = ''run_deps'') split then ''Installing runtime dependencies''
      else if all_ids (\<lambda>i. tid_cmd i = ''check'') split then ''Checking port availability''
      else if all_ids (\<lambda>i. tid_cmd i = ''deploy'' \<and> tid_task i = ''mkdir'') split
        then ''Creating remote directories''
      else if all_ids (\<lambda>i. tid_cmd i = ''deploy'' \<and> ends_with ''_download'' (tid_task i)) split
        then ''Downloading release packages''
      else if all_ids (\<lambda>i. tid_cmd i = ''extract'') split then ''Extracting release packages''
      else if all_ids (\<lambda>i. (tid_cmd i = ''deploy'' \<or> tid_cmd i = ''update'') \<and>
          (contains_sub ''upload'' (tid_task i) \<or> starts_with ''deploy_eloq_all_'' (tid_task i))) split
        then ''Syncing binaries and config files''
      else if all_ids (\<lambda>i. tid_cmd i = ''config-update'') split then ''Uploading configuration files''
      else if all_ids (\<lambda>i. tid_cmd i = ''install'') split then ''Bootstrapping cluster metadata''
      else if all_ids (\<lambda>i. tid_cmd i = ''start'') split then ''Starting services''
      else if all_ids (\<lambda>i. tid_cmd i = ''stop'') split then ''Stopping services''
      else if all_ids (\<lambda>i. tid_cmd i = ''restart'') split then ''Restarting services''
      else if all_ids (\<lambda>i. tid_cmd i = ''topology'') split then ''Refreshing cluster topology''
      else if all_ids (\<lambda>i. tid_cmd i = ''monitor'') split then
        (if all_ids (\<lambda>i. contains_sub ''-stop-'' (tid_task i)) split then ''Stopping monitor components''
         else if all_ids (\<lambda>i. contains_sub ''-status-'' (tid_task i)) split then ''Checking monitor status''
         else if all_ids (\<lambda>i. contains_sub ''-start-'' (tid_task i)) split then ''Starting monitor components''
         else ''Managing monitor components'')
      else if all_ids (\<lambda>i. tid_cmd i = ''remove'' \<and> starts_with ''clean_log@'' (tid_task i)) split
        then ''Deleting log service data''
      else if all_ids (\<lambda>i. tid_cmd i = ''remove'' \<and> starts_with ''clean@'' (tid_task i)) split
        then ''Deleting cluster files''
      else if all_ids (\<lambda>i. tid_cmd i = ''backup'' \<and> (starts_with ''delete-'' (tid_task i) \<or>
          starts_with ''remove-local-'' (tid_task i) \<or> starts_with ''clean-backup'' (tid_task i))) split
        then ''Deleting backup data''
      else if all_ids (\<lambda>i. tid_cmd i = ''backup'') split then ''Running backup''
      else if all_ids (\<lambda>i. tid_cmd i = ''scale'') split then ''Scaling cluster nodes''
      else stage_label grp)"

definition user_friendly_task_label :: "string \<Rightarrow> string" where
  "user_friendly_task_label task = humanize_task_name
     (case strip_prefix ''txservice-'' task of
        Some t \<Rightarrow> t
      | None \<Rightarrow> (case strip_prefix ''standby-'' task of
          Some t \<Rightarrow> t
        | None \<Rightarrow> (case strip_prefix ''voter-'' task of Some t \<Rightarrow> t | None \<Rightarrow> task)))"

definition task_action_summary :: "string \<Rightarrow> string \<Rightarrow> string" where
  "task_action_summary cmd task =
     (let default = to_lower (user_friendly_task_label task)
      in if cmd = ''remove'' \<and> starts_with ''clean@'' task then ''remove cluster files''
         else if cmd = ''remove'' \<and> starts_with ''clean_log@'' task then ''remove log service files''
         else if cmd = ''monitor'' then
           (if contains_sub ''grafana-stop'' task then ''stop Grafana''
            else if contains_sub ''grafana-start'' task then ''start Grafana''
            else if contains_sub ''grafana-status'' task then ''check Grafana status''
            else if contains_sub ''prometheus-stop'' task then ''stop Prometheus''
            else if contains_sub ''prometheus-start'' task then ''start Prometheus''
            else if contains_sub ''prometheus-status'' task then ''check Prometheus status''
            else if contains_sub ''node_exporter-stop'' task then ''stop node_exporter''
            else if contains_sub ''node_exporter-start'' task then ''start node_exporter''
            else if contains_sub ''node_exporter-status'' task then ''check node_exporter status''
            else default)
         else default)"

definition user_friendly_task_summary :: "task_id \<Rightarrow> string" where
  "user_friendly_task_summary tid =
     (let action = task_action_summary (tid_cmd tid) (tid_task tid)
      in if tid_host tid = [] \<or> tid_host tid = ''local'' \<or> tid_host tid = ''127.0.0.1'' then action
         else action @ '' on '' @ tid_host tid)"

definition summarize_error :: "string \<Rightarrow> string" where
  "summarize_error err =
     (case Option.bind (strip_prefix ''Remote cmd ['' err) (split_once_str ''] execution failed. status_code='') of
        Some (cmd, suffix) \<Rightarrow> ''remote command exited with status '' @ suffix @ '': '' @ cmd
      | None \<Rightarrow> err)"

section \<open>Lemmas on merging\<close>

lemma merge_one_wf:
  assumes "distinct (map fst ex)" "sum_list b = length ex" "wf_context ctx"
    and "fst ` set ex \<inter> fst ` set (executable ctx) = {}"
  shows "\<exists>b'. merge_one (b, ex) ctx = (b', ex @ executable ctx) \<and> sum_list b' = length (ex @ executable ctx) \<and>
    distinct (map fst (ex @ executable ctx))"
proof (cases "executable ctx = []")
  case True
  then show ?thesis using assms by (simp add: merge_one_def)
next
  case False
  have "im_extend ex (executable ctx) = ex @ executable ctx"
    using assms(3,4) by (simp add: im_extend_disjoint wf_context_def)
  with False assms show ?thesis
    by (auto simp: merge_one_def wf_context_def split: option.splits)
qed

lemma merge_execution_wf:
  assumes "distinct (map fst ex)" "sum_list b = length ex" "\<forall>c \<in> set ctxs. wf_context c"
    and "distinct (map fst (ex @ concat (map executable ctxs)))"
  shows "\<exists>b'. merge_execution b ex ctxs = (b', ex @ concat (map executable ctxs)) \<and>
    sum_list b' = length (ex @ concat (map executable ctxs))"
  using assms
proof (induction ctxs arbitrary: b ex)
  case (Cons ctx ctxs)
  have disj: "fst ` set ex \<inter> fst ` set (executable ctx) = {}" using Cons.prems(4) by auto
  obtain b1 where b1: "merge_one (b, ex) ctx = (b1, ex @ executable ctx)"
    "sum_list b1 = length (ex @ executable ctx)" "distinct (map fst (ex @ executable ctx))"
    using merge_one_wf [OF Cons.prems(1,2) _ disj] Cons.prems(3) by auto
  from Cons.IH [OF b1(3,2)] Cons.prems(3,4)
  obtain b' where "merge_execution b1 (ex @ executable ctx) ctxs =
      (b', (ex @ executable ctx) @ concat (map executable ctxs))"
    "sum_list b' = length ((ex @ executable ctx) @ concat (map executable ctxs))" by auto
  with b1(1) show ?case by (simp add: merge_execution_def)
qed (simp add: merge_execution_def)

lemma parse_part_key:
  "parse_part (h, c, t) (''host='' @ v) = Some (Some v, c, t)"
  "parse_part (h, c, t) (''cmd='' @ v) = Some (h, Some v, t)"
  "parse_part (h, c, t) (''task='' @ v) = Some (h, c, Some v)"
  using split_once_append [of "''host''" is_eq "CHR ''=''" v] split_once_append [of "''cmd''" is_eq "CHR ''=''" v]
    split_once_append [of "''task''" is_eq "CHR ''=''" v]
  by (simp_all add: parse_part_def is_eq_def)

definition sample_id :: "string \<Rightarrow> task_id" where
  "sample_id n = \<lparr>tid_cmd = ''start'', tid_task = n, tid_host = ''h''\<rparr>"

definition sample_task :: "string \<Rightarrow> unit task_instance" where
  "sample_task n = \<lparr>ti_input = Map.empty, ti_task = (), ti_identifier = sample_id n, ti_host = LocalHost\<rparr>"

definition sample_context :: "string \<Rightarrow> unit task_context" where
  "sample_context n = \<lparr>task_group = ''g'', barrier = None, executable = [(sample_id n, sample_task n)]\<rparr>"

section \<open>Properties\<close>

text \<open>C14. Merging contexts whose tasks all have different ids gives a context that runs them all: it
  has the tasks of the parts in order, its barriers add up to their number, and a run in which no
  task fails starts each of them exactly once, in that order, and returns all their results.\<close>

theorem merged_contexts_run_all_tasks:
  assumes "\<forall>c \<in> set ctxs. wf_context c" and "distinct (map fst (concat (map executable ctxs)))"
    and "merge_execution [] [] ctxs = (b, ex)"
    and "\<forall>t \<in> set (map snd ex). \<forall>e. exec t \<noteq> Some (TaskError e)"
  shows "ex = concat (map executable ctxs) \<and> sum_list b = length ex \<and>
    run_all_tasks exec brk \<lparr>task_group = g, barrier = Some b, executable = ex\<rparr> =
      (map snd ex, Inr (run_task_split exec (map snd ex)))"
proof -
  from merge_execution_wf [of "[]" "[]" ctxs] assms(1-3)
  have m: "ex = concat (map executable ctxs)" "sum_list b = length ex" by auto
  let ?c = "\<lparr>task_group = g, barrier = Some b, executable = ex\<rparr>"
  have wf: "wf_context ?c" using m assms(2) by (simp add: wf_context_def)
  from ctx.stages [OF wf] obtain sts where sts: "split_task ?c = Inr sts" by blast
  from ctx.run_without_errors [OF wf sts, of exec brk] assms(4) m sts show ?thesis
    by (simp add: run_all_tasks_def)
qed

theorem merged_contexts_run_all_tasks_witness:
  "run_all_tasks (\<lambda>_. Some (Success None)) True \<lparr>task_group = ''g'', barrier = Some [1, 1],
     executable = [(sample_id ''a'', sample_task ''a''), (sample_id ''b'', sample_task ''b'')]\<rparr> =
   ([sample_task ''a'', sample_task ''b''],
    Inr (run_task_split (\<lambda>_. Some (Success None)) [sample_task ''a'', sample_task ''b'']))"
proof -
  have "merge_execution [] [] [sample_context ''a'', sample_context ''b''] =
      ([1, 1], [(sample_id ''a'', sample_task ''a''), (sample_id ''b'', sample_task ''b'')])"
    by (simp add: merge_execution_def merge_one_def sample_context_def sample_id_def im_insert_def)
  from merged_contexts_run_all_tasks [OF _ _ this, of "\<lambda>_. Some (Success None)" True "''g''"]
  show ?thesis by (simp add: wf_context_def sample_context_def sample_id_def)
qed

text \<open>On a well-formed context the controller respects the barriers: what it has started when it
  returns is a sequence of whole stages from the front, and a result without an error means that
  every task of the context was started.\<close>

theorem run_starts_whole_stages:
  assumes "wf_context ctx"
  shows "\<exists>sts k. split_task ctx = Inr sts \<and> concat sts = map snd (executable ctx) \<and> k \<le> length sts \<and>
    fst (run_all_tasks exec brk ctx) = concat (take k sts) \<and>
    (\<forall>rs. snd (run_all_tasks exec brk ctx) = Inr rs \<longrightarrow>
      fst (run_all_tasks exec brk ctx) = map snd (executable ctx))"
proof -
  from ctx.stages [OF assms] obtain sts where sts: "split_task ctx = Inr sts" "concat sts = map snd (executable ctx)"
    by blast
  from ctx.run_prefix [OF assms sts(1), of exec brk] sts show ?thesis by (auto simp: run_all_tasks_def)
qed

theorem run_starts_whole_stages_witness:
  "\<exists>sts k. split_task (sample_context ''a'') = Inr sts \<and> k \<le> length sts \<and>
    fst (run_all_tasks (\<lambda>_. Some (TaskError ''e'')) True (sample_context ''a'')) = concat (take k sts)"
proof -
  have "wf_context (sample_context ''a'')" by (simp add: wf_context_def sample_context_def)
  from run_starts_whole_stages [OF this, of "\<lambda>_. Some (TaskError ''e'')" True] show ?thesis by blast
qed

text \<open>Two merged contexts that share a task id do not run: the map keeps one of the two tasks, the
  barriers count both, and cutting the stages panics before any task is started.\<close>

theorem duplicate_task_id_panics:
  fixes c1 c2 :: "'x task_context"
  assumes "wf_context c1" "wf_context c2" and "i \<in> fst ` set (executable c1)" "i \<in> fst ` set (executable c2)"
    and "merge_execution [] [] [c1, c2] = (b, ex)"
  shows "\<exists>m. run_all_tasks exec brk \<lparr>task_group = g, barrier = Some b, executable = ex\<rparr> = ([], Inl (Panic m))"
proof -
  have ne: "executable c1 \<noteq> []" "executable c2 \<noteq> []" using assms(3,4) by auto
  let ?s = "\<lambda>c. case barrier c of Some b \<Rightarrow> b | None \<Rightarrow> [length (executable c)]"
  have "im_extend [] (executable c1) = executable c1"
    using assms(1) by (simp add: im_extend_disjoint wf_context_def)
  with ne assms(5) have b: "b = ?s c1 @ ?s c2" and ex: "ex = im_extend (executable c1) (executable c2)"
    by (auto simp: merge_execution_def merge_one_def)
  have "sum_list (?s c) = length (executable c)" if "wf_context c" for c :: "'x task_context"
    using that by (auto simp: wf_context_def split: option.splits)
  then have "sum_list b = length (executable c1) + length (executable c2)" using assms(1,2) b by simp
  then have "length (map snd ex) < sum_list b" using length_im_extend_collision [OF assms(3,4)] ex by simp
  with split_loop_panics [of "map snd ex" 0 b] obtain m where "split_loop (map snd ex) 0 b = Inl (Panic m)" by auto
  then show ?thesis by (simp add: run_all_tasks_def split_task_def)
qed

theorem duplicate_task_id_panics_witness:
  "\<exists>m. run_all_tasks (\<lambda>_. Some (Success None)) True \<lparr>task_group = ''g'', barrier = Some [1, 1],
     executable = [(sample_id ''a'', sample_task ''a'')]\<rparr> = ([], Inl (Panic m))"
proof -
  have m: "merge_execution [] [] [sample_context ''a'', sample_context ''a''] =
      ([1, 1], [(sample_id ''a'', sample_task ''a'')])"
    by (simp add: merge_execution_def merge_one_def sample_context_def im_insert_def)
  have "wf_context (sample_context ''a'')" "sample_id ''a'' \<in> fst ` set (executable (sample_context ''a''))"
    by (simp_all add: wf_context_def sample_context_def)
  from duplicate_task_id_panics [OF this(1,1,2,2) m] show ?thesis by blast
qed

text \<open>A task id reads back from its printed form when none of its fields contains a comma.\<close>

theorem task_id_round_trip:
  assumes "\<forall>c \<in> set (tid_host t) \<union> set (tid_cmd t) \<union> set (tid_task t). \<not> is_comma c"
  shows "parse_format_string (format_string t) = Some t"
proof -
  have k: "\<forall>c \<in> set (''host='' @ tid_host t). \<not> is_comma c" "\<forall>c \<in> set (''cmd='' @ tid_cmd t). \<not> is_comma c"
    "\<forall>c \<in> set (''task='' @ tid_task t). \<not> is_comma c"
    using assms by (simp_all add: is_comma_def ball_Un)
  have comma: "is_comma CHR '',''" by (simp add: is_comma_def)
  have f: "format_string t = (''host='' @ tid_host t) @ CHR '','' # (''cmd='' @ tid_cmd t) @ CHR '','' # (''task='' @ tid_task t)"
    by (simp add: format_string_def)
  have "split_on is_comma (format_string t) = [''host='' @ tid_host t, ''cmd='' @ tid_cmd t, ''task='' @ tid_task t]"
    unfolding f split_on_append_sep [OF k(1) comma] split_on_append_sep [OF k(2) comma] split_on_no_sep [OF k(3)] ..
  then show ?thesis by (simp add: parse_format_string_def parse_part_key del: append.simps)
qed

theorem task_id_round_trip_witness:
  "parse_format_string ''host=h,cmd=start,task=a'' = Some \<lparr>tid_cmd = ''start'', tid_task = ''a'', tid_host = ''h''\<rparr>"
  using task_id_round_trip [of "\<lparr>tid_cmd = ''start'', tid_task = ''a'', tid_host = ''h''\<rparr>"]
  by (simp add: format_string_def is_comma_def)

end
