(* ===== verification/Node_Groups.thy ===== *)
theory Node_Groups
  imports Endpoints
begin

text \<open>
  Node groups (\<open>cli/task/cluster_config_utils.rs\<close>, \<open>cli/task/task_utils.rs\<close>): the group table that
  the cluster reports over RPC and its rendering as address lists, the group table computed from
  address lists, and the ports and process ids that the control tasks look at.

  The groups of \<open>parse_ng_config\<close> have the keys 0, 1, ... in the order of the primary nodes, so the
  model keeps them as a list; node ids count the distinct nodes and are natural numbers here.
\<close>

section \<open>The reported configuration\<close>

record node_config_t =
  nc_node_id :: u32
  nc_host :: string
  nc_port :: u16
  nc_is_candidate :: bool

record cluster_group_config =
  node_groups :: "(u32 \<times> node_config_t list) list"
  group_version :: u64

record formatted_node_lists =
  masters_str :: string
  replicas_str :: string
  voters_str :: string

definition parse_err :: "string \<Rightarrow> 'a option \<Rightarrow> 'a res" where
  "parse_err what v = (case v of None \<Rightarrow> Inl (Err (''Failed to parse '' @ what)) | Some x \<Rightarrow> Inr x)"

text \<open>The four fields of a node. Ports are reported with an offset of 10000, subtracted in 16 bits.\<close>

definition mk_node_config :: "u32 \<Rightarrow> string \<Rightarrow> string \<Rightarrow> string \<Rightarrow> node_config_t res" where
  "mk_node_config nid host port_str cand_str =
     bindE (parse_err ''port'' (parse_u16 port_str)) (\<lambda>raw_port.
     bindE (parse_err ''is_candidate flag'' (parse_u8 cand_str)) (\<lambda>cand.
     Inr \<lparr>nc_node_id = nid, nc_host = host, nc_port = raw_port - 10000, nc_is_candidate = cand \<noteq> 0\<rparr>))"

fun parse_nodes :: "string list \<Rightarrow> node_config_t list res" where
  "parse_nodes [] = Inr []"
| "parse_nodes [i] = bindE (parse_err ''node ID'' (parse_u32 i)) (\<lambda>_. Inl (Err ''Missing host name''))"
| "parse_nodes [i, h] = bindE (parse_err ''node ID'' (parse_u32 i)) (\<lambda>_. Inl (Err ''Missing port''))"
| "parse_nodes [i, h, p] =
     bindE (parse_err ''node ID'' (parse_u32 i)) (\<lambda>_. Inl (Err ''Missing is_candidate flag''))"
| "parse_nodes (i # h # p # c # rest) =
     bindE (parse_err ''node ID'' (parse_u32 i)) (\<lambda>nid.
     bindE (mk_node_config nid h p c) (\<lambda>n.
     bindE (parse_nodes rest) (\<lambda>ns. Inr (n # ns))))"

definition parse_group_line :: "string \<Rightarrow> (u32 \<times> node_config_t list) res" where
  "parse_group_line line = (case split_ws (trim line) of
     [] \<Rightarrow> Inl (Err ''Missing node group ID'')
   | g # parts \<Rightarrow>
       bindE (parse_err ''node group ID'' (parse_u32 g)) (\<lambda>ng_id.
       bindE (parse_nodes parts) (\<lambda>nodes. Inr (ng_id, nodes))))"

text \<open>The lines of \<open>n\<close> groups, and what is left.\<close>

fun parse_groups :: "nat \<Rightarrow> string list \<Rightarrow> (u32 \<times> node_config_t list) list \<Rightarrow>
    ((u32 \<times> node_config_t list) list \<times> string list) res" where
  "parse_groups 0 ls acc = Inr (acc, ls)"
| "parse_groups (Suc n) [] acc = Inl (Err ''Unexpected end of config, missing node group data'')"
| "parse_groups (Suc n) (l # ls) acc =
     bindE (parse_group_line l) (\<lambda>(ng_id, nodes). parse_groups n ls (im_insert ng_id nodes acc))"

definition parse_cluster_config :: "string \<Rightarrow> cluster_group_config res" where
  "parse_cluster_config config_str = (case str_lines config_str of
     [] \<Rightarrow> Inl (Err ''Empty cluster configuration'')
   | first # ls \<Rightarrow>
       bindE (parse_err ''node group count'' (parse_usize (trim first))) (\<lambda>ng_count.
       bindE (parse_groups ng_count ls []) (\<lambda>(groups, rest). case rest of
         [] \<Rightarrow> Inl (Err ''Missing version information in cluster config'')
       | v # _ \<Rightarrow> bindE (parse_err ''version'' (parse_u64 (trim v))) (\<lambda>ver.
           Inr \<lparr>node_groups = groups, group_version = ver\<rparr>))))"

section \<open>Rendering as address lists\<close>

definition nc_addr :: "node_config_t \<Rightarrow> string" where
  "nc_addr n = addr (nc_host n) (nc_port n)"

text \<open>The loop over the nodes of a group that keeps the first candidate.\<close>

fun master_loop :: "string set \<Rightarrow> string list \<Rightarrow> bool \<Rightarrow> node_config_t list \<Rightarrow> string list" where
  "master_loop unique grp found [] = grp"
| "master_loop unique grp found (n # ns) =
     (if nc_is_candidate n \<and> \<not> found \<and> nc_addr n \<notin> unique
      then master_loop (insert (nc_addr n) unique) (grp @ [nc_addr n]) True ns
      else master_loop unique grp found ns)"

definition master_group :: "node_config_t list \<Rightarrow> string list" where
  "master_group nodes = master_loop {} [] False nodes"

definition replica_group :: "node_config_t list \<Rightarrow> string list" where
  "replica_group nodes = uniq (map nc_addr (drop 1 (filter nc_is_candidate nodes)))"

definition voter_group :: "node_config_t list \<Rightarrow> string list" where
  "voter_group nodes = uniq (map nc_addr (filter (\<lambda>n. \<not> nc_is_candidate n) nodes))"

definition render_parts :: "(node_config_t list \<Rightarrow> string list) \<Rightarrow> (u32 \<times> node_config_t list) list \<Rightarrow> string" where
  "render_parts pick groups = join '','' (map (join ''|'') (filter (\<lambda>g. g \<noteq> [])
     (map snd (sort_key fst (map (\<lambda>(ng_id, nodes). (ng_id, pick nodes)) groups)))))"

definition format_node_lists :: "cluster_group_config \<Rightarrow> formatted_node_lists" where
  "format_node_lists cfg = \<lparr>masters_str = render_parts master_group (node_groups cfg),
     replicas_str = render_parts replica_group (node_groups cfg),
     voters_str = render_parts voter_group (node_groups cfg)\<rparr>"

section \<open>Groups from address lists\<close>

record ng_node =
  ng_node_id :: nat
  ng_ip :: string
  ng_port :: u16
  ng_candidate :: bool

record ng_state =
  ng_groups :: "ng_node list list"
  ng_map :: "(string \<times> nat) list"

definition ng_add_port :: "u16 \<Rightarrow> u16 \<Rightarrow> u16" where
  "ng_add_port p delta = p + delta"

definition primary_token :: "string \<Rightarrow> u16 \<Rightarrow> ng_state \<Rightarrow> string \<Rightarrow> ng_state res" where
  "primary_token whole delta st token =
     (if trim token = [] then Inr st
      else case split_once is_colon token of
        None \<Rightarrow> Inl (Err (''Port missing in ip_port_list: '' @ whole))
      | Some (ip, port_str) \<Rightarrow>
          if map_of (ng_map st) token \<noteq> None
          then Inl (Err (''Node repeated in config ip_port_list: '' @ token))
          else case parse_u16 port_str of
            None \<Rightarrow> Inl (Err (''Invalid port in ip_port_list: '' @ port_str))
          | Some p \<Rightarrow> (let ng_id = length (ng_groups st) in Inr
              \<lparr>ng_groups = ng_groups st @ [[\<lparr>ng_node_id = ng_id, ng_ip = ip,
                  ng_port = ng_add_port p delta, ng_candidate = True\<rparr>]],
               ng_map = ng_map st @ [(token, ng_id)]\<rparr>))"

definition add_member :: "nat \<Rightarrow> ng_node \<Rightarrow> ng_node list list \<Rightarrow> ng_node list list" where
  "add_member gi n groups = groups[gi := groups ! gi @ [n]]"

definition standby_node :: "u16 \<Rightarrow> nat \<Rightarrow> ng_state \<Rightarrow> string \<Rightarrow> ng_state res" where
  "standby_node delta gi st token =
     (if trim token = [] then Inr st
      else case split_once is_colon token of
        None \<Rightarrow> Inl (Err (''Port missing in standby_ip_port_list: '' @ token))
      | Some (ip, port_str) \<Rightarrow>
          if map_of (ng_map st) token \<noteq> None
          then Inl (Err (''Node in standby_ip_port_list also appears in ip_port_list: '' @ token))
          else case parse_u16 port_str of
            None \<Rightarrow> Inl (Err (''Invalid port in standby_ip_port_list: '' @ port_str))
          | Some p \<Rightarrow> (let nid = length (ng_map st) in Inr
              \<lparr>ng_groups = add_member gi \<lparr>ng_node_id = nid, ng_ip = ip, ng_port = ng_add_port p delta,
                  ng_candidate = True\<rparr> (ng_groups st),
               ng_map = ng_map st @ [(token, nid)]\<rparr>))"

definition voter_node :: "u16 \<Rightarrow> nat \<Rightarrow> ng_state \<Rightarrow> string \<Rightarrow> ng_state res" where
  "voter_node delta gi st token =
     (if trim token = [] then Inr st
      else case split_once is_colon token of
        None \<Rightarrow> Inl (Err (''Port missing in voter_ip_port_list: '' @ token))
      | Some (ip, port_str) \<Rightarrow>
          (case parse_u16 port_str of
             None \<Rightarrow> Inl (Err (''Invalid port in voter_ip_port_list: '' @ port_str))
           | Some p \<Rightarrow>
               (case (case map_of (ng_map st) token of
                        Some i \<Rightarrow> (i, ng_map st)
                      | None \<Rightarrow> (length (ng_map st), ng_map st @ [(token, length (ng_map st))])) of
                  (nid, m) \<Rightarrow>
                    if list_ex (\<lambda>n. ng_node_id n = nid) (ng_groups st ! gi)
                    then Inl (Err (''Voter node appeared in the same group: '' @ token))
                    else Inr \<lparr>ng_groups = add_member gi \<lparr>ng_node_id = nid, ng_ip = ip,
                           ng_port = ng_add_port p delta, ng_candidate = False\<rparr> (ng_groups st),
                         ng_map = m\<rparr>)))"

text \<open>A group token of a standby or voter list; a blank one does not advance the group index.\<close>

definition group_token :: "(nat \<Rightarrow> ng_state \<Rightarrow> string \<Rightarrow> ng_state res) \<Rightarrow> nat \<times> ng_state \<Rightarrow> string \<Rightarrow>
    (nat \<times> ng_state) res" where
  "group_token add ist token = (case ist of (idx, st) \<Rightarrow>
     if idx \<ge> length (ng_groups st) \<or> trim token = [] then Inr (idx, st)
     else bindE (foldE (add idx) st (split_on is_pipe token)) (\<lambda>st'. Inr (Suc idx, st')))"

definition parse_group_list :: "(nat \<Rightarrow> ng_state \<Rightarrow> string \<Rightarrow> ng_state res) \<Rightarrow> string \<Rightarrow> ng_state \<Rightarrow> ng_state res" where
  "parse_group_list add list st =
     (if trim list = [] then Inr st
      else bindE (foldE (group_token add) (0, st) (split_on is_comma list)) (\<lambda>r. Inr (snd r)))"

definition parse_explicit :: "string \<Rightarrow> string \<Rightarrow> string \<Rightarrow> u16 \<Rightarrow> ng_state res" where
  "parse_explicit tx standby voter delta =
     bindE (foldE (primary_token tx delta) \<lparr>ng_groups = [], ng_map = []\<rparr> (split_on is_comma tx)) (\<lambda>st.
     bindE (parse_group_list (standby_node delta) standby st) (\<lambda>st.
     parse_group_list (voter_node delta) voter st))"

section \<open>Filling small groups\<close>

definition borrow :: "ng_node list list \<Rightarrow> nat \<Rightarrow> nat \<Rightarrow> ng_node list" where
  "borrow groups ng_id idx = (case groups ! ((ng_id + idx) mod length groups) of
     [] \<Rightarrow> [] | n # _ \<Rightarrow> [n\<lparr>ng_candidate := False\<rparr>])"

definition adjust_group :: "nat list \<Rightarrow> ng_node list list \<Rightarrow> nat \<Rightarrow> ng_node list list" where
  "adjust_group replica_nums groups ng_id =
     (let members = groups ! ng_id; replica_num = replica_nums ! ng_id
      in if length members \<ge> replica_num then groups
         else let left = min (replica_num - length members) (length groups - 1)
              in groups[ng_id := members @ concat (map (borrow groups ng_id) [1..<Suc left])])"

definition adjust_ng_configs :: "ng_node list list \<Rightarrow> ng_node list list" where
  "adjust_ng_configs groups =
     foldl (adjust_group (map (\<lambda>g. max (length g) 3) groups)) groups [0..<length groups]"

definition parse_ng_config :: "string \<Rightarrow> string \<Rightarrow> string \<Rightarrow> u16 option \<Rightarrow> ng_node list list res" where
  "parse_ng_config tx standby voter delta =
     bindE (parse_explicit tx standby voter (case delta of None \<Rightarrow> 0 | Some d \<Rightarrow> d)) (\<lambda>st.
     Inr (adjust_ng_configs (ng_groups st)))"

section \<open>Ports and process ids\<close>

definition ps_cmd_output_extract :: "string \<Rightarrow> int list" where
  "ps_cmd_output_extract out = uniq (List.map_filter
     (\<lambda>line. case split_ws line of [] \<Rightarrow> None | w # _ \<Rightarrow> parse_i32 w)
     (filter (\<lambda>l. l \<noteq> []) (map trim (str_lines out))))"

definition parse_process_pid_as_list :: "string \<Rightarrow> int list option" where
  "parse_process_pid_as_list info =
     (if info = [] then None
      else let pids = ps_cmd_output_extract (trim info) in if pids = [] then None else Some pids)"

definition parse_process_pid :: "string \<Rightarrow> int option" where
  "parse_process_pid info =
     (if info = [] then None
      else case ps_cmd_output_extract (trim info) of [] \<Rightarrow> None | p # _ \<Rightarrow> Some p)"

definition configured_eloq_metrics_port :: "u16 \<Rightarrow> deploy_config \<Rightarrow> u16 option" where
  "configured_eloq_metrics_port default_port cfg =
     map_option (\<lambda>m. case metrics_port m of Some p \<Rightarrow> p | None \<Rightarrow> default_port)
       (Option.bind (dep_monitor (cfg_deployment cfg)) mon_eloq_metrics)"

definition saturating_add_u16 :: "u16 \<Rightarrow> u16 \<Rightarrow> u16" where
  "saturating_add_u16 a b = (if unat a + unat b < 2 ^ 16 then a + b else 65535)"

fun dedup :: "'a list \<Rightarrow> 'a list" where
  "dedup (x # y # ys) = (if x = y then dedup (y # ys) else x # dedup (y # ys))"
| "dedup xs = xs"

definition critical_runtime_ports :: "u16 \<Rightarrow> deploy_config \<Rightarrow> u16 \<Rightarrow> u16 list" where
  "critical_runtime_ports default_port cfg base =
     dedup (sort ([base, saturating_add_u16 base 10000] @
       (case configured_eloq_metrics_port default_port cfg of None \<Rightarrow> [] | Some p \<Rightarrow> [p])))"

definition ports_match_state :: "u16 list \<Rightarrow> u16 list \<Rightarrow> bool \<Rightarrow> bool" where
  "ports_match_state used target should_exist \<longleftrightarrow> list_all (\<lambda>p. (p \<in> set used) = should_exist) target"

section \<open>Lemmas on the fill loop\<close>

definition borrowed :: "ng_node list list \<Rightarrow> nat \<Rightarrow> ng_node list" where
  "borrowed groups k = concat (map (borrow groups k)
     [1..<Suc (min (3 - length (groups ! k)) (length groups - 1))])"

definition filled :: "ng_node list list \<Rightarrow> nat \<Rightarrow> ng_node list" where
  "filled groups k = groups ! k @ borrowed groups k"

lemma borrow_hd:
  "\<forall>g \<in> set groups. g \<noteq> [] \<Longrightarrow> k < length groups \<Longrightarrow>
   borrow groups k idx = [(hd (groups ! ((k + idx) mod length groups)))\<lparr>ng_candidate := False\<rparr>]"
proof -
  assume a: "\<forall>g \<in> set groups. g \<noteq> []" "k < length groups"
  then have "0 < length groups" by linarith
  then have "(k + idx) mod length groups < length groups" by (rule mod_less_divisor)
  then have "groups ! ((k + idx) mod length groups) \<in> set groups" by (rule nth_mem)
  with a(1) have "groups ! ((k + idx) mod length groups) \<noteq> []" by blast
  then show ?thesis by (auto simp: borrow_def split: list.split)
qed

lemma length_borrowed:
  "\<forall>g \<in> set groups. g \<noteq> [] \<Longrightarrow> k < length groups \<Longrightarrow>
   length (borrowed groups k) = min (3 - length (groups ! k)) (length groups - 1) \<and>
   list_all (\<lambda>n. \<not> ng_candidate n) (borrowed groups k)"
proof -
  assume a: "\<forall>g \<in> set groups. g \<noteq> []" "k < length groups"
  let ?n = "min (3 - length (groups ! k)) (length groups - 1)"
  have "borrowed groups k = map (\<lambda>idx. (hd (groups ! ((k + idx) mod length groups)))\<lparr>ng_candidate := False\<rparr>) [1..<Suc ?n]"
    unfolding borrowed_def borrow_hd [OF a] by (rule concat_map_singleton)
  then show ?thesis by (simp only: length_map length_upt list_all_iff set_map) auto
qed

text \<open>After the first \<open>m\<close> rounds the first \<open>m\<close> groups are filled, and no first member has changed.\<close>

lemma adjust_rounds:
  assumes ne: "\<forall>g \<in> set groups. g \<noteq> []" and "m \<le> length groups"
  shows "foldl (adjust_group (map (\<lambda>g. max (length g) 3) groups)) groups [0..<m] =
    map (\<lambda>k. if k < m then filled groups k else groups ! k) [0..<length groups]"
  using assms(2)
proof (induction m)
  case 0
  show ?case by (simp add: map_nth)
next
  case (Suc m)
  let ?cur = "map (\<lambda>k. if k < m then filled groups k else groups ! k) [0..<length groups]"
  have m: "m < length groups" using Suc.prems by simp
  have hds: "borrow ?cur m = borrow groups m"
  proof
    fix idx
    let ?j = "(m + idx) mod length groups"
    have "0 < length groups" using m by linarith
    then have j: "?j < length groups" by simp
    then have "groups ! ?j \<noteq> []" using ne nth_mem by blast
    then show "borrow ?cur m idx = borrow groups m idx"
      using j by (auto simp: borrow_def filled_def split: list.split)
  qed
  have "adjust_group (map (\<lambda>g. max (length g) 3) groups) ?cur m = ?cur[m := filled groups m]"
  proof (cases "3 \<le> length (groups ! m)")
    case True
    then have "filled groups m = groups ! m" by (simp add: filled_def borrowed_def)
    moreover have "?cur ! m = groups ! m" using m by simp
    ultimately have "?cur[m := filled groups m] = ?cur" using list_update_id [of ?cur m] by simp
    with True m show ?thesis by (simp add: adjust_group_def)
  next
    case False
    then show ?thesis using m by (simp add: adjust_group_def Let_def hds filled_def borrowed_def max_def)
  qed
  also have "\<dots> = map (\<lambda>k. if k < Suc m then filled groups k else groups ! k) [0..<length groups]"
    using m by (intro nth_equalityI) (auto simp: nth_list_update less_Suc_eq)
  finally show ?case using Suc by simp
qed

lemma adjust_ng_configs_filled:
  "\<forall>g \<in> set groups. g \<noteq> [] \<Longrightarrow> adjust_ng_configs groups = map (filled groups) [0..<length groups]"
  using adjust_rounds [of groups "length groups"] by (simp add: adjust_ng_configs_def)

section \<open>The groups of the explicit members\<close>

definition ng_group_ok :: "ng_node list \<Rightarrow> bool" where
  "ng_group_ok g \<longleftrightarrow> g \<noteq> [] \<and> ng_candidate (hd g)"

definition ng_groups_ok :: "ng_state \<Rightarrow> bool" where
  "ng_groups_ok st \<longleftrightarrow> list_all ng_group_ok (ng_groups st)"

lemma primary_token_ok: "ng_groups_ok st \<Longrightarrow> primary_token w d st t = Inr st' \<Longrightarrow> ng_groups_ok st'"
  by (auto simp: primary_token_def ng_groups_ok_def ng_group_ok_def Let_def split: if_splits option.splits)

lemma length_add_member [simp]: "length (add_member gi n groups) = length groups"
  by (simp add: add_member_def)

lemma add_member_ok:
  "list_all ng_group_ok groups \<Longrightarrow> list_all ng_group_ok (add_member gi n groups)"
  by (cases "gi < length groups")
    (auto simp: add_member_def list_all_length nth_list_update ng_group_ok_def list_update_beyond)

lemma standby_node_ok:
  "ng_groups_ok st \<and> gi < length (ng_groups st) \<Longrightarrow> standby_node d gi st t = Inr st' \<Longrightarrow>
   ng_groups_ok st' \<and> gi < length (ng_groups st')"
  by (auto simp: standby_node_def ng_groups_ok_def Let_def add_member_ok split: if_splits option.splits)

lemma voter_node_ok:
  "ng_groups_ok st \<and> gi < length (ng_groups st) \<Longrightarrow> voter_node d gi st t = Inr st' \<Longrightarrow>
   ng_groups_ok st' \<and> gi < length (ng_groups st')"
  by (auto simp: voter_node_def ng_groups_ok_def Let_def add_member_ok split: if_splits option.splits prod.splits)

lemma group_list_ok:
  assumes "parse_group_list add list st = Inr st'" and "ng_groups_ok st"
    and step: "\<And>gi st t st'. ng_groups_ok st \<and> gi < length (ng_groups st) \<Longrightarrow> add gi st t = Inr st' \<Longrightarrow>
      ng_groups_ok st' \<and> gi < length (ng_groups st')"
  shows "ng_groups_ok st'"
proof (cases "trim list = []")
  case True
  with assms(1,2) show ?thesis by (simp add: parse_group_list_def)
next
  case False
  have tok: "ng_groups_ok (snd s')" if s: "ng_groups_ok (snd s)" "group_token add s t = Inr s'" for s t s'
  proof -
    obtain idx st where s0: "s = (idx, st)" by (cases s)
    show ?thesis
    proof (cases "idx \<ge> length (ng_groups st) \<or> trim t = []")
      case True
      with s s0 show ?thesis by (auto simp: group_token_def)
    next
      case False
      then obtain st1 where f: "foldE (add idx) st (split_on is_pipe t) = Inr st1" "s' = (Suc idx, st1)"
        using s(2) s0 by (auto simp: group_token_def res_simps)
      have "ng_groups_ok st1 \<and> idx < length (ng_groups st1)"
      proof (rule foldE_invariant [OF f(1), of "\<lambda>st. ng_groups_ok st \<and> idx < length (ng_groups st)"])
        show "ng_groups_ok st \<and> idx < length (ng_groups st)" using s(1) s0 False by simp
      qed (rule step)
      with f(2) show ?thesis by simp
    qed
  qed
  obtain s where "foldE (group_token add) (0, st) (split_on is_comma list) = Inr s" "st' = snd s"
    using assms(1) False by (auto simp: parse_group_list_def res_simps)
  with foldE_invariant [of "group_token add" "(0, st)" _ s "\<lambda>s. ng_groups_ok (snd s)"] assms(2) tok
  show ?thesis by auto
qed

lemma parse_explicit_ok: "parse_explicit tx sb vo d = Inr st \<Longrightarrow> ng_groups_ok st"
proof -
  assume "parse_explicit tx sb vo d = Inr st"
  then obtain s1 s2 where s: "foldE (primary_token tx d) \<lparr>ng_groups = [], ng_map = []\<rparr> (split_on is_comma tx) = Inr s1"
    "parse_group_list (standby_node d) sb s1 = Inr s2" "parse_group_list (voter_node d) vo s2 = Inr st"
    by (auto simp: parse_explicit_def res_simps)
  have "ng_groups_ok s1" by (rule foldE_invariant [OF s(1)]) (simp add: ng_groups_ok_def, rule primary_token_ok)
  then have "ng_groups_ok s2" by (rule group_list_ok [OF s(2)]) (rule standby_node_ok)
  then show ?thesis by (rule group_list_ok [OF s(3)]) (rule voter_node_ok)
qed

section \<open>Lemmas on the reported configuration\<close>

text \<open>The text of a configuration as the server prints it.\<close>

definition node_words :: "node_config_t \<Rightarrow> string list" where
  "node_words n = [show_u32 (nc_node_id n), nc_host n, show_u16 (nc_port n + 10000),
     if nc_is_candidate n then ''1'' else ''0'']"

definition group_line :: "u32 \<times> node_config_t list \<Rightarrow> string" where
  "group_line g = join '' '' (show_u32 (fst g) # concat (map node_words (snd g)))"

definition config_text :: "cluster_group_config \<Rightarrow> string" where
  "config_text cfg = join [CHR 0x0A]
     (show_nat (length (node_groups cfg)) # map group_line (node_groups cfg) @ [show_u64 (group_version cfg)])"

definition word_host :: "string \<Rightarrow> bool" where
  "word_host h \<longleftrightarrow> h \<noteq> [] \<and> (\<forall>c \<in> set h. \<not> is_ws c)"

definition word_hosts :: "cluster_group_config \<Rightarrow> bool" where
  "word_hosts cfg \<longleftrightarrow> list_all (\<lambda>g. list_all (\<lambda>n. word_host (nc_host n)) (snd g)) (node_groups cfg)"

lemma show_nat_not_ws: "c \<in> set (show_nat n) \<Longrightarrow> \<not> is_ws c"
  by (blast dest: show_nat_digits is_digit_not_ws)

lemma word_show: "word_host (show_nat n)" "word_host (show_u16 p)" "word_host (show_u32 w)" "word_host (show_u64 v)"
  by (auto simp: word_host_def show_u16_def show_u32_def show_u64_def dest: show_nat_not_ws)

lemma parse_nodes_words:
  "list_all (\<lambda>n. word_host (nc_host n)) ns \<Longrightarrow> parse_nodes (concat (map node_words ns)) = Inr ns"
proof (induction ns)
  case (Cons n ns)
  have "parse_u8 ''1'' = Some 1" "parse_u8 ''0'' = Some 0" by (simp_all add: eval_str)
  then have "mk_node_config (nc_node_id n) (nc_host n) (show_u16 (nc_port n + 10000))
      (if nc_is_candidate n then ''1'' else ''0'') = Inr n"
    by (simp add: mk_node_config_def parse_err_def)
  with Cons show ?case by (simp add: node_words_def parse_err_def)
qed simp

lemma group_line_words: "list_all (\<lambda>n. word_host (nc_host n)) (snd g) \<Longrightarrow>
  \<forall>w \<in> set (show_u32 (fst g) # concat (map node_words (snd g))). w \<noteq> [] \<and> (\<forall>c \<in> set w. \<not> is_ws c)"
proof -
  assume a: "list_all (\<lambda>n. word_host (nc_host n)) (snd g)"
  have "word_host ''0''" "word_host ''1''" by (simp_all add: word_host_def is_ws_def)
  then have "\<forall>w \<in> set (show_u32 (fst g) # concat (map node_words (snd g))). word_host w"
    using a word_show by (auto simp: node_words_def list_all_iff)
  then show ?thesis by (simp add: word_host_def)
qed

lemma set_join: "set (join sep ws) \<subseteq> set sep \<union> (\<Union>w \<in> set ws. set w)"
  by (induction sep ws rule: join.induct) auto

lemma hd_last_join:
  "ws \<noteq> [] \<Longrightarrow> \<forall>w \<in> set ws. w \<noteq> [] \<Longrightarrow> join sep ws \<noteq> [] \<and> hd (join sep ws) = hd (hd ws) \<and> last (join sep ws) = last (last ws)"
  by (induction sep ws rule: join.induct) auto

lemma parse_group_line_text:
  assumes "list_all (\<lambda>n. word_host (nc_host n)) (snd g)"
  shows "parse_group_line (group_line g) = Inr g"
proof -
  let ?ws = "show_u32 (fst g) # concat (map node_words (snd g))"
  note ok = group_line_words [OF assms]
  have hl: "join '' '' ?ws \<noteq> [] \<and> hd (join '' '' ?ws) = hd (hd ?ws) \<and> last (join '' '' ?ws) = last (last ?ws)"
    using ok by (intro hd_last_join) auto
  have "last ?ws \<in> set ?ws" by (rule last_in_set) simp
  then have "\<not> is_ws (last (last ?ws))" "\<not> is_ws (hd (hd ?ws))"
    using ok by (metis last_in_set, metis hd_in_set list.set_intros(1) list.sel(1))
  with hl have "trim (group_line g) = group_line g" unfolding group_line_def by (intro trim_outer) simp_all
  moreover have "split_ws (group_line g) = ?ws" unfolding group_line_def by (rule split_ws_join [OF ok])
  ultimately show ?thesis using parse_nodes_words [OF assms]
    by (simp add: parse_group_line_def parse_err_def)
qed

lemma parse_groups_text:
  "list_all (\<lambda>g. list_all (\<lambda>n. word_host (nc_host n)) (snd g)) gs \<Longrightarrow> distinct (map fst (acc @ gs)) \<Longrightarrow>
   parse_groups (length gs) (map group_line gs @ rest) acc = Inr (acc @ gs, rest)"
proof (induction gs arbitrary: acc)
  case (Cons g gs)
  have "im_insert (fst g) (snd g) acc = acc @ [g]"
    using Cons.prems(2) by (auto simp: im_insert_def update_new)
  with Cons show ?case by (simp add: parse_group_line_text split_beta)
qed simp

lemma group_line_not_Nil: "list_all (\<lambda>n. word_host (nc_host n)) (snd g) \<Longrightarrow> group_line g \<noteq> []"
  using hd_last_join [of "show_u32 (fst g) # concat (map node_words (snd g))" "'' ''"] group_line_words [of g]
  by (auto simp: group_line_def)

lemma no_newline_ws: "\<not> is_ws c \<Longrightarrow> c \<noteq> CHR 0x0A \<and> c \<noteq> CHR 0x0D"
  by (auto simp: is_ws_def)

lemma group_line_no_newline:
  assumes "list_all (\<lambda>n. word_host (nc_host n)) (snd g)" "c \<in> set (group_line g)"
  shows "c \<noteq> CHR 0x0A \<and> c \<noteq> CHR 0x0D"
proof -
  from assms(2) set_join have "c = CHR '' '' \<or> (\<exists>w \<in> set (show_u32 (fst g) # concat (map node_words (snd g))). c \<in> set w)"
    unfolding group_line_def by fastforce
  then show ?thesis
  proof
    assume "\<exists>w \<in> set (show_u32 (fst g) # concat (map node_words (snd g))). c \<in> set w"
    with group_line_words [OF assms(1)] have "\<not> is_ws c" by blast
    then show ?thesis by (rule no_newline_ws)
  qed simp
qed

lemma config_text_lines:
  assumes "word_hosts cfg"
  shows "str_lines (config_text cfg) =
    show_nat (length (node_groups cfg)) # map group_line (node_groups cfg) @ [show_u64 (group_version cfg)]"
  unfolding config_text_def
proof (rule str_lines_join)
  let ?ls = "show_nat (length (node_groups cfg)) # map group_line (node_groups cfg) @ [show_u64 (group_version cfg)]"
  show "?ls \<noteq> []" by simp
  show "last ?ls \<noteq> []" by (simp add: show_u64_def)
  show "\<forall>l \<in> set ?ls. \<forall>c \<in> set l. c \<noteq> CHR 0x0A \<and> c \<noteq> CHR 0x0D"
  proof (intro ballI)
    fix l c assume l: "l \<in> set ?ls" and c: "c \<in> set l"
    then consider "word_host l" | g where "g \<in> set (node_groups cfg)" "l = group_line g"
      using word_show by auto
    then show "c \<noteq> CHR 0x0A \<and> c \<noteq> CHR 0x0D"
    proof cases
      case 1
      with c have "\<not> is_ws c" by (simp add: word_host_def)
      then show ?thesis by (rule no_newline_ws)
    next
      case 2
      with assms have "list_all (\<lambda>n. word_host (nc_host n)) (snd g)" by (simp add: word_hosts_def list_all_iff)
      from group_line_no_newline [OF this] 2 c show ?thesis by blast
    qed
  qed
qed

section \<open>Properties\<close>

lemma trim_word: "word_host w \<Longrightarrow> trim w = w"
  by (rule trim_outer) (auto simp: word_host_def)

text \<open>C15. Reading a reported configuration. \<open>parse_cluster_config\<close> recovers the version and every
  group, with its id, order, hosts, ports and candidate flags, from the text in which the server prints
  them (count line, one line per group, version line, ports shifted by 10000), for any hosts without
  blanks and any number of groups with different ids.\<close>

theorem cluster_config_round_trip:
  assumes "word_hosts cfg" and "distinct (map fst (node_groups cfg))"
    and "length (node_groups cfg) < 2 ^ 64"
  shows "parse_cluster_config (config_text cfg) = Inr cfg"
proof -
  have "trim (show_nat (length (node_groups cfg))) = show_nat (length (node_groups cfg))"
    "trim (show_u64 (group_version cfg)) = show_u64 (group_version cfg)"
    by (rule trim_word, rule word_show)+
  moreover have "parse_groups (length (node_groups cfg)) (map group_line (node_groups cfg) @ [show_u64 (group_version cfg)]) []
      = Inr (node_groups cfg, [show_u64 (group_version cfg)])"
    using parse_groups_text [of "node_groups cfg" "[]"] assms(1,2) by (simp add: word_hosts_def)
  moreover have "parse_usize (show_nat (length (node_groups cfg))) = Some (length (node_groups cfg))"
    using assms(3) by (simp add: parse_usize_show)
  ultimately show ?thesis
    by (simp add: parse_cluster_config_def config_text_lines [OF assms(1)] parse_err_def)
qed

lemmas ng_eval = parse_ng_config_def parse_explicit_def primary_token_def parse_group_list_def group_token_def
  standby_node_def voter_node_def add_member_def adjust_ng_configs_def adjust_group_def borrow_def ng_add_port_def

definition sample_groups :: cluster_group_config where
  "sample_groups = \<lparr>node_groups = [(0, [\<lparr>nc_node_id = 0, nc_host = ''a'', nc_port = 6389, nc_is_candidate = True\<rparr>,
     \<lparr>nc_node_id = 1, nc_host = ''b'', nc_port = 6389, nc_is_candidate = False\<rparr>])], group_version = 7\<rparr>"

lemma cluster_config_round_trip_witness:
  "parse_cluster_config (config_text sample_groups) = Inr sample_groups"
  by (rule cluster_config_round_trip) (simp_all add: sample_groups_def word_hosts_def word_host_def is_ws_def)

text \<open>Port shift. The parser subtracts 10000 from every reported port, in 16 bits and without a
  check: a reported port below 10000 becomes a port at or above 55536 (for instance 6379 becomes 61915),
  so a server that reports an unshifted port is read as listening where it does not.\<close>

theorem reported_port_wraps:
  "\<exists>n. mk_node_config i h (show_u16 p) ''1'' = Inr n \<and> nc_node_id n = i \<and> nc_host n = h \<and> nc_is_candidate n \<and>
     unat (nc_port n) = (if unat p < 10000 then unat p + 55536 else unat p - 10000)"
proof -
  have "parse_u8 ''1'' = Some 1" by (simp add: eval_str)
  moreover have "unat (p - 10000) = (if unat p < 10000 then unat p + 55536 else unat p - 10000)"
    by (simp add: unat_sub_if')
  ultimately show ?thesis by (simp add: mk_node_config_def parse_err_def)
qed

text \<open>C16. Sizes of the groups. When the group lists are accepted, every group keeps the members that the
  lists name, in order, and gets only non-candidate nodes behind them; a group with fewer than three
  members ends with three, or with as many as there are other groups to borrow a node from.\<close>

theorem ng_groups_filled:
  assumes "parse_ng_config tx standby voter delta = Inr gs"
  shows "\<exists>st. parse_explicit tx standby voter (case delta of None \<Rightarrow> 0 | Some d \<Rightarrow> d) = Inr st \<and>
    list_all2 (\<lambda>g g'. g \<noteq> [] \<and> ng_candidate (hd g) \<and> (\<exists>b. g' = g @ b \<and> list_all (\<lambda>n. \<not> ng_candidate n) b) \<and>
      length g' = max (length g) (min 3 (length g + length (ng_groups st) - 1))) (ng_groups st) gs"
proof -
  obtain st where st: "parse_explicit tx standby voter (case delta of None \<Rightarrow> 0 | Some d \<Rightarrow> d) = Inr st"
    "gs = adjust_ng_configs (ng_groups st)"
    using assms by (auto simp: parse_ng_config_def res_simps)
  let ?g = "ng_groups st"
  have ok: "list_all ng_group_ok ?g" using parse_explicit_ok [OF st(1)] by (simp add: ng_groups_ok_def)
  then have ne: "\<forall>g \<in> set ?g. g \<noteq> []" by (auto simp: list_all_iff ng_group_ok_def)
  have "list_all2 (\<lambda>g g'. g \<noteq> [] \<and> ng_candidate (hd g) \<and> (\<exists>b. g' = g @ b \<and> list_all (\<lambda>n. \<not> ng_candidate n) b) \<and>
      length g' = max (length g) (min 3 (length g + length ?g - 1))) ?g gs"
    unfolding list_all2_conv_all_nth
  proof (intro conjI allI impI)
    show "length ?g = length gs" by (simp add: st(2) adjust_ng_configs_filled [OF ne])
    fix k assume k: "k < length ?g"
    then show "?g ! k \<noteq> []" "ng_candidate (hd (?g ! k))" using ok by (simp_all add: list_all_length ng_group_ok_def)
    have gs: "gs ! k = ?g ! k @ borrowed ?g k"
      using k by (simp add: st(2) adjust_ng_configs_filled [OF ne] filled_def)
    note lb = length_borrowed [OF ne k]
    show "\<exists>b. gs ! k = ?g ! k @ b \<and> list_all (\<lambda>n. \<not> ng_candidate n) b" using gs lb by blast
    have "length (borrowed ?g k) = min (3 - length (?g ! k)) (length ?g - 1)" using lb by blast
    then show "length (gs ! k) = max (length (?g ! k)) (min 3 (length (?g ! k) + length ?g - 1))"
      using gs k by simp
  qed
  with st(1) show ?thesis by blast
qed

lemma ng_groups_filled_witness:
  "\<exists>st. parse_explicit ''a:1,b:1'' [] [] 0 = Inr st \<and>
    list_all2 (\<lambda>g g'. g \<noteq> [] \<and> ng_candidate (hd g) \<and> (\<exists>b. g' = g @ b \<and> list_all (\<lambda>n. \<not> ng_candidate n) b) \<and>
      length g' = max (length g) (min 3 (length g + length (ng_groups st) - 1))) (ng_groups st)
    [[\<lparr>ng_node_id = 0, ng_ip = ''a'', ng_port = 1, ng_candidate = True\<rparr>,
      \<lparr>ng_node_id = 1, ng_ip = ''b'', ng_port = 1, ng_candidate = False\<rparr>],
     [\<lparr>ng_node_id = 1, ng_ip = ''b'', ng_port = 1, ng_candidate = True\<rparr>,
      \<lparr>ng_node_id = 0, ng_ip = ''a'', ng_port = 1, ng_candidate = False\<rparr>]]"
  using ng_groups_filled [of "''a:1,b:1''" "[]" "[]" None]
  by (simp add: ng_eval eval_str)

lemma trim_Nil_ws: "trim s = [] \<Longrightarrow> c \<in> set s \<Longrightarrow> is_ws c"
proof (rule ccontr)
  assume a: "trim s = []" "c \<in> set s" "\<not> is_ws c"
  from a(2,3) have "\<not> is_ws (hd (dropWhile is_ws s))" "dropWhile is_ws s \<noteq> []"
    using hd_dropWhile [of is_ws s] by auto
  moreover have "\<forall>c \<in> set (rev (dropWhile is_ws s)). is_ws c"
    using a(1) unfolding trim_def trim_start_def trim_end_def by (simp add: dropWhile_eq_Nil_conv)
  ultimately show False using hd_in_set by fastforce
qed

text \<open>Blank group tokens. The standby and voter lists have one comma-separated token per primary
  node, but a blank token is skipped without advancing the group index: a list with a leading comma is
  read exactly as the list without it, so an empty token cannot say that a group has no such node,
  and the nodes that follow join the group before the one they were written for.\<close>

theorem blank_group_token_shifts:
  "parse_group_list add (CHR '','' # list) st = parse_group_list add list st"
proof -
  have "trim (CHR '','' # list) \<noteq> []"
    using trim_Nil_ws [of "CHR '','' # list" "CHR '',''"] by (auto simp: is_ws_def)
  then have l: "parse_group_list add (CHR '','' # list) st =
      bindE (foldE (group_token add) (0, st) (split_on is_comma list)) (\<lambda>r. Inr (snd r))"
    by (simp add: parse_group_list_def group_token_def is_comma_def)
  show ?thesis
  proof (cases "trim list = []")
    case True
    have "\<not> is_ws (CHR '','')" by (simp add: is_ws_def)
    then have "\<forall>c \<in> set list. \<not> is_comma c"
      unfolding is_comma_def using trim_Nil_ws [OF True] by blast
    with True l show ?thesis
      by (simp add: split_on_no_sep parse_group_list_def group_token_def)
  next
    case False
    with l show ?thesis by (simp add: parse_group_list_def)
  qed
qed

text \<open>Members borrowed twice. Filling a small group takes the first node of each following group
  without looking whether the node is already a member: with two primary nodes, the second of them
  also listed as voter of the first group, the first group has node 1 twice. The explicit lists
  are checked for exactly this.\<close>

theorem borrowed_member_duplicates:
  "parse_ng_config ''a:1,b:1'' [] ''b:1'' None = Inr
    [[\<lparr>ng_node_id = 0, ng_ip = ''a'', ng_port = 1, ng_candidate = True\<rparr>,
      \<lparr>ng_node_id = 1, ng_ip = ''b'', ng_port = 1, ng_candidate = False\<rparr>,
      \<lparr>ng_node_id = 1, ng_ip = ''b'', ng_port = 1, ng_candidate = False\<rparr>],
     [\<lparr>ng_node_id = 1, ng_ip = ''b'', ng_port = 1, ng_candidate = True\<rparr>,
      \<lparr>ng_node_id = 0, ng_ip = ''a'', ng_port = 1, ng_candidate = False\<rparr>]] \<and>
   parse_ng_config ''a:1,b:1'' [] ''b:1|b:1'' None = Inl (Err ''Voter node appeared in the same group: b:1'')"
  by (simp add: ng_eval eval_str)

lemma dedup_sorted: "sorted (xs :: u16 list) \<Longrightarrow> sorted (dedup xs) \<and> distinct (dedup xs) \<and> set (dedup xs) = set xs"
proof (induction xs rule: dedup.induct)
  case (1 x y ys)
  then show ?case by (cases "x = y") (auto simp: order_class.order.antisym)
qed simp_all

text \<open>Ports to wait for. Starting and stopping a node waits for its service port, the port 10000
  above it (65535 when that does not fit in 16 bits), and the metrics port when it is configured, and
  for no other port; each is listed once, in increasing order.\<close>

theorem critical_runtime_ports_exact:
  "set (critical_runtime_ports dflt cfg base) = {base, saturating_add_u16 base 10000} \<union>
     set_option (configured_eloq_metrics_port dflt cfg) \<and>
   distinct (critical_runtime_ports dflt cfg base) \<and> sorted (critical_runtime_ports dflt cfg base) \<and>
   unat (saturating_add_u16 base 10000) = min 65535 (unat base + 10000)"
proof -
  let ?l = "[base, saturating_add_u16 base 10000] @
       (case configured_eloq_metrics_port dflt cfg of None \<Rightarrow> [] | Some p \<Rightarrow> [p])"
  have "unat (saturating_add_u16 base 10000) = min 65535 (unat base + 10000)"
    by (auto simp: saturating_add_u16_def unat_word_ariths)
  moreover have "set ?l = {base, saturating_add_u16 base 10000} \<union> set_option (configured_eloq_metrics_port dflt cfg)"
    by (auto split: option.splits)
  moreover have "sorted (dedup (sort ?l)) \<and> distinct (dedup (sort ?l)) \<and> set (dedup (sort ?l)) = set (sort ?l)"
    by (rule dedup_sorted) (rule sorted_sort)
  ultimately show ?thesis unfolding critical_runtime_ports_def by (metis set_sort)
qed

end
