(* ===== verification/Task_Stages.thy ===== *)
theory Task_Stages
  imports Task_Core
begin

text \<open>
  How the builders of \<open>cli/task/group/\<close> put a context together: a vector of barriers and an ordered
  map of tasks that grow together, one stage at a time. A builder is right when its accumulator stays
  balanced: the barriers add up to the number of tasks and no two tasks have the same id. The
  controller then runs exactly the stages that were pushed (\<open>balanced_wf\<close>, \<open>Task_Core\<close>).
\<close>

section \<open>Accumulators\<close>

type_synonym 'x stage_acc = "nat list \<times> (task_id \<times> 'x task_instance) list"

text \<open>\<open>barrier.push(tasks.len()); executable.extend(tasks)\<close>.\<close>

definition push_stage :: "(task_id \<times> 'x task_instance) list \<Rightarrow> 'x stage_acc \<Rightarrow> 'x stage_acc" where
  "push_stage tasks acc = (fst acc @ [length tasks], im_extend (snd acc) tasks)"

text \<open>\<open>if !tasks.is_empty() { ... }\<close> around it.\<close>

definition push_nonempty :: "(task_id \<times> 'x task_instance) list \<Rightarrow> 'x stage_acc \<Rightarrow> 'x stage_acc" where
  "push_nonempty tasks acc = (if tasks = [] then acc else push_stage tasks acc)"

text \<open>\<open>barrier.push(1); executable.insert(id, instance)\<close>.\<close>

definition push_task :: "task_id \<times> 'x task_instance \<Rightarrow> 'x stage_acc \<Rightarrow> 'x stage_acc" where
  "push_task t acc = (fst acc @ [1], im_insert (fst t) (snd t) (snd acc))"

definition local_task :: "task_id \<Rightarrow> 'x \<Rightarrow> task_id \<times> 'x task_instance" where
  "local_task tid x = (tid, \<lparr>ti_input = Map.empty, ti_task = x, ti_identifier = tid, ti_host = LocalHost\<rparr>)"

section \<open>Ids and balance\<close>

definition ids_of :: "(task_id \<times> 'x) list \<Rightarrow> task_id set" where
  "ids_of ts = fst ` set ts"

definition unique_ids :: "(task_id \<times> 'x) list \<Rightarrow> bool" where
  "unique_ids ts \<longleftrightarrow> distinct (map fst ts)"

definition balanced :: "'x stage_acc \<Rightarrow> bool" where
  "balanced acc \<longleftrightarrow> sum_list (fst acc) = length (snd acc) \<and> unique_ids (snd acc)"

text \<open>All tasks of a list run under one command name.\<close>

definition under :: "string set \<Rightarrow> (task_id \<times> 'x) list \<Rightarrow> bool" where
  "under cmds ts \<longleftrightarrow> tid_cmd ` ids_of ts \<subseteq> cmds"

lemma ids_of_simps [simp]:
  "ids_of [] = {}" "ids_of (t # ts) = insert (fst t) (ids_of ts)" "ids_of (ts @ us) = ids_of ts \<union> ids_of us"
  by (auto simp: ids_of_def)

lemma ids_of_im [simp]:
  "ids_of (im_insert i t ex) = insert i (ids_of ex)" "ids_of (im_extend ex ts) = ids_of ex \<union> ids_of ts"
  by (simp_all add: ids_of_def keys_im_insert keys_im_extend)

lemma unique_ids_simps [simp]:
  "unique_ids []" "unique_ids (t # ts) \<longleftrightarrow> fst t \<notin> ids_of ts \<and> unique_ids ts"
  by (auto simp: unique_ids_def ids_of_def)

lemma unique_ids_im [simp]:
  "unique_ids ex \<Longrightarrow> unique_ids (im_insert i t ex)" "unique_ids ex \<Longrightarrow> unique_ids (im_extend ex ts)"
  by (simp_all add: unique_ids_def)

lemma im_extend_Nil: "unique_ids ts \<Longrightarrow> im_extend [] ts = ts"
  using im_extend_disjoint [of ts "[]"] by (simp add: unique_ids_def)

lemma unique_ids_map:
  "unique_ids (map f xs) \<longleftrightarrow> distinct (map (fst \<circ> f) xs)"
  by (simp add: unique_ids_def)

lemma under_simps [simp]:
  "under cmds []" "under cmds (t # ts) \<longleftrightarrow> tid_cmd (fst t) \<in> cmds \<and> under cmds ts"
  "under cmds (im_insert i v ex) \<longleftrightarrow> tid_cmd i \<in> cmds \<and> under cmds ex"
  "under cmds (im_extend ex ts) \<longleftrightarrow> under cmds ex \<and> under cmds ts"
  by (auto simp: under_def)

lemma under_mono: "under cmds ts \<Longrightarrow> cmds \<subseteq> cmds' \<Longrightarrow> under cmds' ts"
  by (auto simp: under_def)

lemma under_disjoint: "under cmds ts \<Longrightarrow> under cmds' us \<Longrightarrow> cmds \<inter> cmds' = {} \<Longrightarrow> ids_of ts \<inter> ids_of us = {}"
  by (auto simp: under_def)

lemma balanced_Nil [simp]: "balanced ([], [])"
  by (simp add: balanced_def)

lemma snd_push [simp]:
  "snd (push_stage ts acc) = im_extend (snd acc) ts" "snd (push_task t acc) = im_insert (fst t) (snd t) (snd acc)"
  "snd (push_nonempty ts acc) = im_extend (snd acc) ts"
  by (simp_all add: push_stage_def push_task_def push_nonempty_def)

lemma balanced_push_stage:
  "balanced acc \<Longrightarrow> unique_ids ts \<Longrightarrow> ids_of (snd acc) \<inter> ids_of ts = {} \<Longrightarrow> balanced (push_stage ts acc)"
  by (auto simp: balanced_def push_stage_def im_extend_disjoint unique_ids_def ids_of_def)

lemma balanced_push_nonempty:
  "balanced acc \<Longrightarrow> unique_ids ts \<Longrightarrow> ids_of (snd acc) \<inter> ids_of ts = {} \<Longrightarrow> balanced (push_nonempty ts acc)"
  by (simp add: push_nonempty_def balanced_push_stage)

lemma balanced_push_task:
  "balanced acc \<Longrightarrow> fst t \<notin> ids_of (snd acc) \<Longrightarrow> balanced (push_task t acc)"
  by (simp add: balanced_def push_task_def length_im_insert ids_of_def unique_ids_def)

lemma balanced_push_under:
  "balanced acc \<Longrightarrow> unique_ids ts \<Longrightarrow> under cmds (snd acc) \<Longrightarrow> under cmds' ts \<Longrightarrow> cmds \<inter> cmds' = {} \<Longrightarrow>
   balanced (push_stage ts acc) \<and> balanced (push_nonempty ts acc)"
  by (intro conjI balanced_push_stage balanced_push_nonempty under_disjoint) assumption+

lemma balanced_wf:
  "balanced (b, ex) \<Longrightarrow> wf_context \<lparr>task_group = g, barrier = Some b, executable = ex\<rparr>"
  by (simp add: balanced_def wf_context_def unique_ids_def)

lemma unbalanced_panics:
  assumes "length ex < sum_list b"
  shows "\<exists>m. run_all_tasks exec brk \<lparr>task_group = g, barrier = Some b, executable = ex\<rparr> = ([], Inl (Panic m))"
proof -
  from split_loop_panics [of "map snd ex" 0 b] assms
  obtain m where "split_loop (map snd ex) 0 b = Inl (Panic m)" by auto
  then show ?thesis by (simp add: run_all_tasks_def split_task_def)
qed

end
