(* ===== verification/Update_Conf.thy ===== *)
theory Update_Conf
  imports Config_Fields Task_Stages Paths Topology_Check
begin

text \<open>
  The tasks of \<open>eloqctl update-conf\<close> (\<open>cli/task/group/update_config_group.rs\<close>), with the task
  builder for a command on a list of hosts (\<open>cli/task/exec_custom_cmd.rs\<close>). The upload tasks depend
  on the files below the upload directory and are an argument; their ids are those of
  \<open>TxConfUpload::build\<close>, whose command is \<open>config-update\<close>.
\<close>

section \<open>Tasks\<close>

text \<open>The executors of the group, with what they are built from; \<open>'u\<close> is an upload.\<close>

datatype 'u update_task =
    ExecCustomCommand string
  | RedisOp "string list" string "string option" bool
  | TopologyUpdate "u32 option" "string list"
  | UploadConf 'u

definition host_task :: "string \<Rightarrow> deploy_config \<Rightarrow> string option \<Rightarrow> string \<Rightarrow>
    task_id \<times> 'u update_task task_instance" where
  "host_task cmd cfg task_name host =
     (let tid = \<lparr>tid_cmd = ''exec_cmd_by_hosts'',
           tid_task = (case task_name of Some n \<Rightarrow> n | None \<Rightarrow> ''exec_cmd_in_'' @ host), tid_host = host\<rparr>
      in (tid, \<lparr>ti_input = Map.empty, ti_task = ExecCustomCommand cmd, ti_identifier = tid,
              ti_host = remote_host (cfg_connection cfg) host\<rparr>))"

definition build_task_by_host :: "string \<Rightarrow> deploy_config \<Rightarrow> string list \<Rightarrow> string option \<Rightarrow>
    (task_id \<times> 'u update_task task_instance) list" where
  "build_task_by_host cmd cfg hosts task_name = im_extend [] (map (host_task cmd cfg task_name) hosts)"

definition for_config_update :: "u32 \<Rightarrow> string list \<Rightarrow> (task_id \<times> 'u update_task task_instance) list" where
  "for_config_update nid updates =
     [local_task \<lparr>tid_cmd = ''topology-update'', tid_task = ''config-update'', tid_host = ''local''\<rparr>
       (TopologyUpdate (Some nid) updates)]"

definition for_all_nodes_config_update :: "string list \<Rightarrow> (task_id \<times> 'u update_task task_instance) list" where
  "for_all_nodes_config_update updates =
     [local_task \<lparr>tid_cmd = ''topology-update'', tid_task = ''config-update-all-nodes'', tid_host = ''local''\<rparr>
       (TopologyUpdate None updates)]"

section \<open>The group\<close>

definition mkdir_stage :: "deploy_config \<Rightarrow> 'u update_task stage_acc" where
  "mkdir_stage cfg =
     (let d = cfg_deployment cfg in
      if tls_enabled d then
        (let dirs = [install_dir d] @
               (if tls_cert_install_dir d \<in> set [install_dir d] then [] else [tls_cert_install_dir d])
         in push_stage (build_task_by_host (''mkdir -p '' @ join '' '' dirs) cfg (get_unique_host_list cfg)
              (Some ''mkdir_tls_dirs'')) ([], []))
      else ([], []))"

definition topology_query :: "deploy_config \<Rightarrow> string option \<Rightarrow> task_id \<times> 'u update_task task_instance" where
  "topology_query cfg pw =
     local_task \<lparr>tid_cmd = ''topology'', tid_task = ''get-current-topology'', tid_host = ''_local''\<rparr>
       (RedisOp (get_host_port_list (cfg_deployment cfg) EloqTx @ get_host_port_list (cfg_deployment cfg) EloqStandby)
         ''cluster topology'' (redis_password cfg pw) True)"

definition node_stages :: "deploy_config \<Rightarrow> string list \<Rightarrow> u32 \<Rightarrow> string option \<Rightarrow>
    (task_id \<times> 'u update_task task_instance) list \<Rightarrow> 'u update_task stage_acc \<Rightarrow> 'u update_task stage_acc" where
  "node_stages cfg updates nid pw uploads acc =
     (let acc = push_task (topology_query cfg pw) acc;
          acc = (if updates \<noteq> [] then (fst acc @ [1], im_extend (snd acc) (for_config_update nid updates)) else acc)
      in push_stage uploads acc)"

text \<open>Here the barrier of the update is the size of the whole map, not of the stage.\<close>

definition all_nodes_stages :: "string list \<Rightarrow> (task_id \<times> 'u update_task task_instance) list \<Rightarrow>
    'u update_task stage_acc \<Rightarrow> 'u update_task stage_acc" where
  "all_nodes_stages updates uploads acc =
     (let acc = (if updates \<noteq> [] then
            (let ex = im_extend (snd acc) (for_all_nodes_config_update updates)
             in (fst acc @ [length ex], ex)) else acc)
      in push_stage uploads acc)"

definition build_config_update :: "deploy_config \<Rightarrow> string list \<Rightarrow> u32 option \<Rightarrow> string option \<Rightarrow>
    (task_id \<times> 'u update_task task_instance) list \<Rightarrow> 'u update_task task_context res" where
  "build_config_update cfg updates nid pw uploads =
     bindE (validate_fields updates) (\<lambda>_.
     if updates = [] \<and> \<not> tls_enabled (cfg_deployment cfg) then Inr dummy_context
     else (case (case nid of
             Some n \<Rightarrow> node_stages cfg updates n pw uploads (mkdir_stage cfg)
           | None \<Rightarrow> all_nodes_stages updates uploads (mkdir_stage cfg)) of
         (b, ex) \<Rightarrow> Inr \<lparr>task_group = ''update-tx-conf'', barrier = (if b = [] then None else Some b),
                          executable = ex\<rparr>))"

section \<open>Lemmas\<close>

text \<open>The ids of the uploads, as \<open>TxConfUpload\<close> makes them.\<close>

definition upload_ids :: "(task_id \<times> 'x task_instance) list \<Rightarrow> bool" where
  "upload_ids uploads \<longleftrightarrow> unique_ids uploads \<and> under {''config-update''} uploads"

lemma build_task_by_host_ids:
  fixes ts :: "(task_id \<times> 'u update_task task_instance) list"
  assumes "distinct hosts" and ts: "ts = build_task_by_host cmd cfg hosts (Some n)"
  shows "unique_ids ts \<and> under {''exec_cmd_by_hosts''} ts \<and> length ts = length hosts"
proof -
  let ?t = "host_task cmd cfg (Some n) :: string \<Rightarrow> task_id \<times> 'u update_task task_instance"
  have f: "fst (?t h) = \<lparr>tid_cmd = ''exec_cmd_by_hosts'', tid_task = n, tid_host = h\<rparr>" for h
    by (simp add: host_task_def Let_def)
  have "inj_on (fst \<circ> ?t) (set hosts)" by (rule inj_onI) (simp add: f)
  with assms(1) have u: "unique_ids (map ?t hosts)" unfolding unique_ids_map distinct_map by blast
  then have "ts = map ?t hosts" unfolding ts build_task_by_host_def by (rule im_extend_Nil)
  moreover have "under {''exec_cmd_by_hosts''} (map ?t hosts)" by (induction hosts) (simp_all add: f)
  ultimately show ?thesis using u by simp
qed

lemma mkdir_stage_ok:
  fixes acc :: "'u update_task stage_acc"
  assumes "acc = mkdir_stage cfg"
  shows "balanced acc \<and> under {''exec_cmd_by_hosts''} (snd acc) \<and>
    fst acc = (if tls_enabled (cfg_deployment cfg) then [length (get_unique_host_list cfg)] else [])"
proof (cases "tls_enabled (cfg_deployment cfg)")
  case True
  let ?hs = "get_unique_host_list cfg"
  obtain ts cmd where ts: "ts = build_task_by_host cmd cfg ?hs (Some ''mkdir_tls_dirs'')"
    and s: "acc = push_stage ts ([], [])"
    using True unfolding assms mkdir_stage_def Let_def by (simp only: if_True)
  have "distinct ?hs" by (simp add: get_unique_host_list_def)
  note ids = build_task_by_host_ids [OF this ts]
  have "balanced acc" unfolding s using ids by (intro balanced_push_stage) simp_all
  with ids True show ?thesis by (simp add: s) (simp add: push_stage_def)
next
  case False
  then show ?thesis unfolding assms mkdir_stage_def Let_def by simp
qed

lemma upload_stage_wf:
  assumes "balanced acc" and "upload_ids uploads" and "under cmds (snd acc)" and "''config-update'' \<notin> cmds"
    and "push_stage uploads acc = (b, ex)"
  shows "wf_context \<lparr>task_group = g, barrier = (if b = [] then None else Some b), executable = ex\<rparr>"
proof -
  have "b \<noteq> []" using assms(5) by (auto simp: push_stage_def)
  moreover have "balanced (b, ex)"
    using balanced_push_under [OF assms(1) _ assms(3), of uploads "{''config-update''}"] assms(2,4,5)
    by (simp add: upload_ids_def)
  ultimately show ?thesis by (simp add: balanced_wf)
qed

lemma query_under: "tid_cmd (fst (topology_query cfg pw)) = ''topology''"
  and updates_ids: "unique_ids (for_config_update nid updates)" "under {''topology-update''} (for_config_update nid updates)"
    "unique_ids (for_all_nodes_config_update updates)" "under {''topology-update''} (for_all_nodes_config_update updates)"
    "length (for_config_update nid updates) = 1" "length (for_all_nodes_config_update updates) = 1"
  by (simp_all add: topology_query_def for_config_update_def for_all_nodes_config_update_def local_task_def)

lemma node_stages_wf:
  assumes bal: "balanced acc" and up: "upload_ids uploads" and u: "under {''exec_cmd_by_hosts''} (snd acc)"
    and n: "node_stages cfg updates nid pw uploads acc = (b, ex)"
  shows "wf_context \<lparr>task_group = g, barrier = (if b = [] then None else Some b), executable = ex\<rparr>"
proof -
  let ?a1 = "push_task (topology_query cfg pw) acc"
  let ?us = "for_config_update nid updates"
  let ?a2 = "if updates \<noteq> [] then push_stage ?us ?a1 else ?a1"
  have "fst (topology_query cfg pw) \<notin> ids_of (snd acc)" using u by (auto simp: under_def query_under)
  with bal have 1: "balanced ?a1" by (rule balanced_push_task)
  have u1: "under {''exec_cmd_by_hosts'', ''topology''} (snd ?a1)"
    using under_mono [OF u] by (simp add: query_under)
  have 2: "balanced ?a2" using balanced_push_under [OF 1 updates_ids(1) u1 updates_ids(2)] 1 by simp
  have u2: "under {''exec_cmd_by_hosts'', ''topology'', ''topology-update''} (snd ?a2)"
    using under_mono [OF u1] by (simp add: query_under under_mono [OF updates_ids(2)])
  have "push_stage ?us ?a1 = (fst ?a1 @ [1], im_extend (snd ?a1) ?us)"
    by (simp only: push_stage_def updates_ids)
  with n have "push_stage uploads ?a2 = (b, ex)" by (simp only: node_stages_def Let_def)
  from upload_stage_wf [OF 2 up u2 _ this] show ?thesis by simp
qed

section \<open>Properties\<close>

text \<open>Updating one node, or any update without TLS. The context that \<open>update-conf\<close> builds is well
  formed: its tasks have different ids and its barriers add up to their number, so by the controller
  the directories, the topology query, the update and the uploads run as separate stages, in order.\<close>

theorem update_conf_well_formed:
  fixes uploads :: "(task_id \<times> 'u update_task task_instance) list"
  assumes b: "build_config_update cfg updates nid pw uploads = Inr ctx" and up: "upload_ids uploads"
    and nid: "nid \<noteq> None \<or> \<not> tls_enabled (cfg_deployment cfg) \<or> updates = []"
  shows "wf_context ctx"
proof (cases "updates = [] \<and> \<not> tls_enabled (cfg_deployment cfg)")
  case True
  with b show ?thesis by (auto simp: build_config_update_def dummy_context_def wf_context_def res_simps)
next
  case False
  let ?acc = "mkdir_stage cfg :: 'u update_task stage_acc"
  have mk: "balanced ?acc \<and> under {''exec_cmd_by_hosts''} (snd ?acc)" using mkdir_stage_ok [OF refl] by blast
  obtain b' ex where ctx: "ctx = \<lparr>task_group = ''update-tx-conf'', barrier = (if b' = [] then None else Some b'), executable = ex\<rparr>"
    and r: "(case nid of Some n \<Rightarrow> node_stages cfg updates n pw uploads ?acc | None \<Rightarrow> all_nodes_stages updates uploads ?acc) = (b', ex)"
    using b False by (auto simp: build_config_update_def res_simps split: prod.splits)
  show ?thesis
  proof (cases nid)
    case (Some n)
    with r mk show ?thesis unfolding ctx by (intro node_stages_wf [OF _ up, where acc = ?acc and cfg = cfg]) auto
  next
    case None
    show ?thesis
    proof (cases "updates = []")
      case True
      then show ?thesis using r None mk unfolding ctx
        by (intro upload_stage_wf [OF _ up, of ?acc "{''exec_cmd_by_hosts''}"]) (auto simp: all_nodes_stages_def)
    next
      case upd: False
      with nid None have "?acc = ([], [])" by (simp add: mkdir_stage_def)
      then show ?thesis using r None upd unfolding ctx
        by (intro upload_stage_wf [OF _ up, of "push_stage (for_all_nodes_config_update updates) ([], [])" "{''topology-update''}"])
          (auto simp: all_nodes_stages_def updates_ids push_stage_def Let_def im_extend_Nil balanced_def)
    qed
  qed
qed

definition one_node_config :: "bool option \<Rightarrow> deploy_config" where
  "one_node_config tls = bare_config ((bare_deployment ''c'' ''/opt'' (bare_service [''a:1''] None None))\<lparr>enable_tls := tls\<rparr>)"

definition sample_upload :: "unit update_task task_instance" where
  "sample_upload = \<lparr>ti_input = Map.empty, ti_task = UploadConf (),
     ti_identifier = \<lparr>tid_cmd = ''config-update'', tid_task = ''upload-ini-a'', tid_host = ''a''\<rparr>, ti_host = LocalHost\<rparr>"

definition sample_uploads :: "(task_id \<times> unit update_task task_instance) list" where
  "sample_uploads = [(ti_identifier sample_upload, sample_upload)]"

lemma sample_upload_ids: "upload_ids sample_uploads"
  by (simp add: upload_ids_def sample_uploads_def sample_upload_def)

lemma sample_fields_ok: "validate_fields [''enable_wal:true''] = Inr ()"
  by code_simp

theorem update_conf_well_formed_witness:
  "case build_config_update (one_node_config None) [''enable_wal:true''] None None sample_uploads of
     Inl e \<Rightarrow> False | Inr ctx \<Rightarrow> wf_context ctx"
proof -
  have tls: "\<not> tls_enabled (cfg_deployment (one_node_config None))" by (simp add: tls_enabled_def one_node_config_def)
  obtain b ex where "all_nodes_stages [''enable_wal:true''] sample_uploads (mkdir_stage (one_node_config None)) = (b, ex)"
    by (cases "all_nodes_stages [''enable_wal:true''] sample_uploads (mkdir_stage (one_node_config None))")
  then have r: "build_config_update (one_node_config None) [''enable_wal:true''] None None sample_uploads =
      Inr \<lparr>task_group = ''update-tx-conf'', barrier = (if b = [] then None else Some b), executable = ex\<rparr>"
    by (simp add: build_config_update_def sample_fields_ok del: validate_fields.simps)
  from update_conf_well_formed [OF this sample_upload_ids] tls show ?thesis unfolding r by simp
qed

text \<open>Updating all nodes with TLS. With TLS enabled and at least one host, a valid update of all nodes
  never runs: the second barrier counts the directory tasks a second time, so cutting the stages
  panics before any task, the creation of the directories included, is started.\<close>

theorem update_conf_tls_panics:
  fixes uploads :: "(task_id \<times> 'u update_task task_instance) list"
  assumes tls: "tls_enabled (cfg_deployment cfg)" and hosts: "get_unique_host_list cfg \<noteq> []"
    and fields: "updates \<noteq> []" "validate_fields updates = Inr ()"
  shows "\<exists>ctx m. build_config_update cfg updates None pw uploads = Inr ctx \<and>
    run_all_tasks exec brk ctx = ([], Inl (Panic m))"
proof -
  let ?acc = "mkdir_stage cfg :: 'u update_task stage_acc"
  obtain mb mex where acc: "?acc = (mb, mex)" by (cases ?acc)
  have mk: "balanced (mb, mex) \<and> under {''exec_cmd_by_hosts''} mex \<and> mb = [length (get_unique_host_list cfg)]"
    using mkdir_stage_ok [OF acc [symmetric]] tls by auto
  let ?us = "for_all_nodes_config_update updates :: (task_id \<times> 'u update_task task_instance) list"
  have "ids_of mex \<inter> ids_of ?us = {}"
    using mk updates_ids(4) by (intro under_disjoint [of "{''exec_cmd_by_hosts''}" _ "{''topology-update''}"]) simp_all
  then have ex1: "im_extend mex ?us = mex @ ?us"
    using updates_ids(3) by (intro im_extend_disjoint) (simp_all add: unique_ids_def ids_of_def)
  obtain b ex where r: "all_nodes_stages updates uploads ?acc = (b, ex)"
    by (cases "all_nodes_stages updates uploads ?acc")
  have b: "b = mb @ [length (mex @ ?us), length uploads]" "ex = im_extend (mex @ ?us) uploads"
    using r fields(1) by (auto simp: all_nodes_stages_def acc Let_def push_stage_def ex1)
  have len: "0 < length mex" "sum_list mb = length mex" using mk hosts by (auto simp: balanced_def)
  have "length ex \<le> length (mex @ ?us) + length uploads" unfolding b(2) by (rule length_im_extend_le)
  moreover have "sum_list b = length mex + (length (mex @ ?us) + length uploads)" using len(2) b(1) by simp
  ultimately have "length ex < sum_list b" using len(1) by linarith
  from unbalanced_panics [OF this, of exec brk "''update-tx-conf''"] obtain m where
    "run_all_tasks exec brk \<lparr>task_group = ''update-tx-conf'', barrier = Some b, executable = ex\<rparr> = ([], Inl (Panic m))"
    by blast
  moreover have "build_config_update cfg updates None pw uploads =
      Inr \<lparr>task_group = ''update-tx-conf'', barrier = Some b, executable = ex\<rparr>"
    using fields r b(1) by (simp add: build_config_update_def)
  ultimately show ?thesis by blast
qed

theorem update_conf_tls_panics_witness:
  "\<exists>ctx m. build_config_update (one_node_config (Some True)) [''enable_wal:true''] None None sample_uploads = Inr ctx \<and>
     run_all_tasks (\<lambda>_. None) True ctx = ([], Inl (Panic m))"
proof (rule update_conf_tls_panics)
  let ?cfg = "one_node_config (Some True)"
  show "tls_enabled (cfg_deployment ?cfg)" by (simp add: tls_enabled_def one_node_config_def)
  have "''a'' \<in> set (get_host_list (cfg_deployment ?cfg) EloqTx)"
    by (simp add: one_node_config_def get_host_list_internal_def host_part_def eval_str)
  moreover have "set (get_host_list (cfg_deployment ?cfg) EloqTx) \<subseteq> set (get_unique_host_list ?cfg)"
    unfolding get_unique_host_list_def set_uniq by (simp del: get_host_list.simps)
  ultimately have "''a'' \<in> set (get_unique_host_list ?cfg)" by blast
  then show "get_unique_host_list ?cfg \<noteq> []" by (metis empty_iff list.set(1))
qed (simp_all add: sample_fields_ok del: validate_fields.simps)

end
