(* ===== verification/Saved_Topology.thy ===== *)
theory Saved_Topology
  imports Node_Groups Node_Conf
begin

text \<open>
  The saved topology after a scale operation (\<open>cli/task/db_update_task.rs\<close>) and the \<open>[cluster]\<close>
  section of the node files below the upload directory (\<open>cli/task/tx_conf_update_task.rs\<close>).

  The directory is a list of files with what loading them gives; the result lists what is deleted and
  what is written. Saving the configuration and the file operations themselves are I/O.
\<close>

section \<open>What the cluster reports\<close>

record node_info =
  ni_ip :: string
  ni_port :: u16
  ni_connected :: bool
  ni_node_id :: "string option"
  ni_master_id :: "string option"

record cluster_nodes =
  cn_masters :: "node_info list"
  cn_replicas :: "node_info list"
  cn_voters :: "node_info list"

record cluster_nodes_with_config =
  cnc_nodes :: cluster_nodes
  cnc_cluster_config :: "string option"

datatype scale_op = AddNodes | RemoveNodes

definition no_nodes :: cluster_nodes where
  "no_nodes = \<lparr>cn_masters = [], cn_replicas = [], cn_voters = []\<rparr>"

text \<open>\<open>Display\<close> of a node.\<close>

definition node_info_str :: "node_info \<Rightarrow> string" where
  "node_info_str n = addr (ni_ip n) (ni_port n)"

section \<open>The saved configuration\<close>

definition apply_formatted_lists :: "scale_op \<Rightarrow> formatted_node_lists \<Rightarrow> eloq_service \<Rightarrow> eloq_service" where
  "apply_formatted_lists op l srv =
     (let srv = (if masters_str l \<noteq> [] then srv\<lparr>tx_host_ports := [masters_str l]\<rparr> else srv);
          srv = (if replicas_str l \<noteq> [] then srv\<lparr>standby_host_ports := Some [replicas_str l]\<rparr>
                 else if op = RemoveNodes then srv\<lparr>standby_host_ports := Some []\<rparr> else srv)
      in if voters_str l \<noteq> [] then srv\<lparr>voter_host_ports := Some [voters_str l]\<rparr>
         else if op = RemoveNodes then srv\<lparr>voter_host_ports := Some []\<rparr> else srv)"

definition update_config_from_cluster_nodes :: "scale_op \<Rightarrow> cluster_nodes \<Rightarrow> eloq_service \<Rightarrow> eloq_service" where
  "update_config_from_cluster_nodes op nodes srv =
     (let masters = map node_info_str (cn_masters nodes); replicas = map node_info_str (cn_replicas nodes);
          srv = (if masters \<noteq> [] then srv\<lparr>tx_host_ports := [join '','' masters]\<rparr> else srv)
      in if replicas \<noteq> [] then srv\<lparr>standby_host_ports := Some [join '','' replicas]\<rparr>
         else case op of AddNodes \<Rightarrow> srv | RemoveNodes \<Rightarrow> srv\<lparr>standby_host_ports := Some []\<rparr>)"

text \<open>The service part of the configuration that is saved; the rest of it does not change.\<close>

definition update_saved_topology :: "scale_op \<Rightarrow> cluster_nodes_with_config \<Rightarrow> eloq_service \<Rightarrow> eloq_service" where
  "update_saved_topology op nodes srv = (case cnc_cluster_config nodes of
     None \<Rightarrow> update_config_from_cluster_nodes op (cnc_nodes nodes) srv
   | Some s \<Rightarrow> (case parse_cluster_config s of
       Inl _ \<Rightarrow> update_config_from_cluster_nodes op (cnc_nodes nodes) srv
     | Inr cfg \<Rightarrow> apply_formatted_lists op (format_node_lists cfg) srv))"

text \<open>
  Where the nodes come from: the file of an earlier run when it exists, can be read and is not blank,
  else the channel.
\<close>

definition nodes_source :: "string res option \<Rightarrow> cluster_nodes_with_config res \<Rightarrow> cluster_nodes_with_config res" where
  "nodes_source file received = (case file of
     Some (Inr content) \<Rightarrow>
       if trim content = [] then received
       else Inr \<lparr>cnc_nodes = no_nodes, cnc_cluster_config = Some content\<rparr>
   | _ \<Rightarrow> received)"

definition db_update_execute :: "scale_op \<Rightarrow> string res option \<Rightarrow> cluster_nodes_with_config res \<Rightarrow>
    deploy_config \<Rightarrow> deploy_config res" where
  "db_update_execute op file received cfg =
     bindE (nodes_source file received) (\<lambda>nodes.
     Inr (cfg\<lparr>cfg_deployment := (cfg_deployment cfg)
       \<lparr>tx_service := update_saved_topology op nodes (tx_service (cfg_deployment cfg))\<rparr>\<rparr>))"

section \<open>The node files\<close>

definition cluster_list_sets :: "formatted_node_lists \<Rightarrow> ini_cmd list" where
  "cluster_list_sets l =
     [(''cluster'', ''ip_port_list'', masters_str l)] @
     (if replicas_str l \<noteq> [] then [(''cluster'', ''standby_ip_port_list'', replicas_str l)] else []) @
     (if voters_str l \<noteq> [] then [(''cluster'', ''voter_ip_port_list'', voters_str l)] else [])"

definition reported_lists :: "cluster_nodes_with_config \<Rightarrow> formatted_node_lists res" where
  "reported_lists nodes = (case cnc_cluster_config nodes of
     None \<Rightarrow> Inl (Err ''No cluster configuration provided.'')
   | Some s \<Rightarrow> bindE (parse_cluster_config s) (\<lambda>cfg. Inr (format_node_lists cfg)))"

text \<open>A file below a host directory: its host, its name and what loading it gives.\<close>

record 'i node_file =
  nf_host :: string
  nf_name :: string
  nf_ini :: "'i res"

datatype 'i file_action = DeleteFile string string | WriteFile string 'i

definition should_remove :: "string list \<Rightarrow> string \<Rightarrow> string \<Rightarrow> bool" where
  "should_remove nodes_to_remove host file_name = list_ex (\<lambda>node.
     case split_once is_colon node of
       Some (node_host, node_port) \<Rightarrow> host = node_host \<and> contains_sub (CHR ''-'' # node_port) file_name
     | None \<Rightarrow> False) nodes_to_remove"

text \<open>\<open>Path::extension\<close> is \<open>ini\<close>.\<close>

definition ini_extension :: "string \<Rightarrow> bool" where
  "ini_extension name \<longleftrightarrow> ends_with ''.ini'' name \<and> name \<noteq> ''.ini''"

definition update_file :: "('i, 'm) ini_ops_scheme \<Rightarrow> formatted_node_lists \<Rightarrow> string list \<Rightarrow> 'i node_file \<Rightarrow>
    'i file_action list" where
  "update_file ops l to_remove f =
     (if \<not> ini_extension (nf_name f) then []
      else if should_remove to_remove (nf_host f) (nf_name f) then [DeleteFile (nf_host f) (nf_name f)]
      else case nf_ini f of
        Inl _ \<Rightarrow> []
      | Inr i \<Rightarrow> [WriteFile (nf_host f @ ''/'' @ nf_name f) (set_all ops (cluster_list_sets l) i)])"

text \<open>Generating the file of a node and setting the lists in it; \<open>gen\<close> returns its path and contents.\<close>

definition gen_node_file :: "('i, 'm) ini_ops_scheme \<Rightarrow> (string \<Rightarrow> string \<Rightarrow> (string \<times> 'i) res) \<Rightarrow>
    formatted_node_lists \<Rightarrow> string \<Rightarrow> string \<Rightarrow> 'i file_action res" where
  "gen_node_file ops gen l host p = bindE (gen host p) (\<lambda>(path, i).
     Inr (WriteFile path (set_all ops (cluster_list_sets l) i)))"

definition added_nodes :: "scale_op \<Rightarrow> string list \<Rightarrow> cluster_nodes_with_config \<Rightarrow> node_config_t list" where
  "added_nodes op scale_nodes nodes = (case op of
     RemoveNodes \<Rightarrow> []
   | AddNodes \<Rightarrow> (case cnc_cluster_config nodes of
       None \<Rightarrow> []
     | Some s \<Rightarrow> (case parse_cluster_config s of
         Inl _ \<Rightarrow> []
       | Inr cfg \<Rightarrow> filter (\<lambda>n. nc_addr n \<in> set scale_nodes) (concat (map snd (node_groups cfg))))))"

text \<open>Files that were generated before an error stay written, so the result is what was done and an error.\<close>

primrec gen_node_files :: "('i, 'm) ini_ops_scheme \<Rightarrow> (string \<Rightarrow> string \<Rightarrow> (string \<times> 'i) res) \<Rightarrow>
    formatted_node_lists \<Rightarrow> (string \<times> string) list \<Rightarrow> 'i file_action list \<times> unit res" where
  "gen_node_files ops gen l [] = ([], Inr ())"
| "gen_node_files ops gen l (n # ns) = (case gen_node_file ops gen l (fst n) (snd n) of
     Inl e \<Rightarrow> ([], Inl e)
   | Inr act \<Rightarrow> (case gen_node_files ops gen l ns of (acts, r) \<Rightarrow> (act # acts, r)))"

definition update_configs :: "('i, 'm) ini_ops_scheme \<Rightarrow> (string \<Rightarrow> string \<Rightarrow> (string \<times> 'i) res) \<Rightarrow> scale_op \<Rightarrow>
    string list \<Rightarrow> cluster_nodes_with_config \<Rightarrow> 'i node_file list \<Rightarrow> 'i file_action list \<times> unit res" where
  "update_configs ops gen op scale_nodes nodes files = (case reported_lists nodes of
     Inl e \<Rightarrow> ([], Inl e)
   | Inr l \<Rightarrow>
       (let done_files = concat (map (update_file ops l (if op = RemoveNodes then scale_nodes else [])) files)
        in case gen_node_files ops gen l (map (\<lambda>n. (nc_host n, show_u16 (nc_port n))) (added_nodes op scale_nodes nodes)) of
             (new, r) \<Rightarrow> (done_files @ new, r)))"

definition resume_node :: "string \<Rightarrow> (string \<times> string) option" where
  "resume_node node = (case split_on is_colon node of [host, p] \<Rightarrow> Some (host, p) | _ \<Rightarrow> None)"

definition update_configs_from_resume :: "('i, 'm) ini_ops_scheme \<Rightarrow>
    (string \<Rightarrow> string \<Rightarrow> (string \<times> 'i) res) \<Rightarrow> string list \<Rightarrow> cluster_nodes_with_config \<Rightarrow>
    'i file_action list \<times> unit res" where
  "update_configs_from_resume ops gen scale_nodes nodes = (case reported_lists nodes of
     Inl e \<Rightarrow> ([], Inl e)
   | Inr l \<Rightarrow> gen_node_files ops gen l (List.map_filter resume_node scale_nodes))"

text \<open>
  The task: with a received configuration it is written to the scale file first (the first component)
  and all files are updated; without one the scale file is read and the nodes' files are generated.
\<close>

definition tx_conf_update :: "('i, 'm) ini_ops_scheme \<Rightarrow> (string \<Rightarrow> string \<Rightarrow> (string \<times> 'i) res) \<Rightarrow> scale_op \<Rightarrow>
    string list \<Rightarrow> cluster_nodes_with_config option \<Rightarrow> string res \<Rightarrow> 'i node_file list \<Rightarrow>
    string option \<times> 'i file_action list \<times> unit res" where
  "tx_conf_update ops gen op scale_nodes received file files = (case received of
     Some nodes \<Rightarrow> (cnc_cluster_config nodes, update_configs ops gen op scale_nodes nodes files)
   | None \<Rightarrow> (None, case file of
       Inl e \<Rightarrow> ([], Inl e)
     | Inr content \<Rightarrow> update_configs_from_resume ops gen scale_nodes
         \<lparr>cnc_nodes = no_nodes, cnc_cluster_config = Some content\<rparr>))"

section \<open>Properties\<close>

text \<open>Removing the last standby. After nodes were removed and the cluster reports no replicas, the
  saved configuration has an empty standby list, and from it no node configuration can be generated
  any more, for any node, template and certificate: the generator rejects an empty list.\<close>

theorem remove_last_standby_blocks_generation:
  assumes "cnc_cluster_config nodes = Some s" "parse_cluster_config s = Inr reported"
    and "replicas_str (format_node_lists reported) = []"
    and "trim s \<noteq> []" "db_update_execute RemoveNodes (Some (Inr s)) received cfg = Inr cfg'"
  shows "\<exists>e. gen_eloqkv_node_config ops template ensure (cfg_deployment cfg') (Some host) (Some p) = Inl e"
proof -
  have "standby_host_ports (tx_service (cfg_deployment cfg')) = Some []"
    using assms(2-5) by (auto simp: db_update_execute_def nodes_source_def update_saved_topology_def
        apply_formatted_lists_def Let_def)
  then have "\<exists>e. cluster_sets (cfg_deployment cfg') True = Inl e"
    by (simp add: cluster_sets_def standby_sets_def Let_def)
  then have "\<exists>e. build_eloqkv_config ops template (cfg_deployment cfg') True p = Inl e"
    unfolding build_eloqkv_config_def by (cases template; cases "storage_sets (cfg_deployment cfg') p") auto
  then have "\<exists>e. node_config ops template ensure (cfg_deployment cfg') host p = Inl e"
    unfolding node_config_def by auto
  then show ?thesis by (auto simp: gen_eloqkv_node_config_def)
qed

definition no_groups_text :: string where
  "no_groups_text = ''0'' @ [CHR 0x0A] @ ''7''"

lemma parse_no_groups: "parse_cluster_config no_groups_text = Inr \<lparr>node_groups = [], group_version = 7\<rparr>"
  by (simp add: parse_cluster_config_def no_groups_text_def parse_err_def eval_str str_lines_def strip_cr_def Let_def)

lemma remove_last_standby_blocks_generation_witness:
  "\<exists>cfg' e. db_update_execute RemoveNodes (Some (Inr no_groups_text)) (Inl (Err []))
      (bare_config (bare_deployment ''kv'' ''/opt'' (bare_service [''a:1''] (Some [''a:2'']) None))) = Inr cfg' \<and>
     gen_eloqkv_node_config mini_ops (Inr []) (\<lambda>_ _. Inr ()) (cfg_deployment cfg') (Some ''a'') (Some ''1'') = Inl e"
proof -
  let ?nodes = "\<lparr>cnc_nodes = no_nodes, cnc_cluster_config = Some no_groups_text\<rparr>"
  let ?cfg = "bare_config (bare_deployment ''kv'' ''/opt'' (bare_service [''a:1''] (Some [''a:2'']) None))"
  have t: "trim no_groups_text \<noteq> []" by (simp add: no_groups_text_def eval_str)
  have r: "replicas_str (format_node_lists \<lparr>node_groups = [], group_version = 7\<rparr>) = []"
    by (simp add: format_node_lists_def render_parts_def)
  obtain cfg' where c: "db_update_execute RemoveNodes (Some (Inr no_groups_text)) (Inl (Err [])) ?cfg = Inr cfg'"
    using t by (auto simp: db_update_execute_def nodes_source_def)
  from remove_last_standby_blocks_generation [of ?nodes, OF _ parse_no_groups r t c] c show ?thesis by auto
qed

text \<open>What the update does to a node file. With a reported master list, a file that stays gets the
  reported masters, and the reported standbys and voters when there are any; when there are none, the
  file keeps the list it had. Removing the last standby therefore leaves it in every node file.\<close>

theorem update_file_lists:
  assumes "ini_lib ops" and "ini_extension (nf_name f)" and "\<not> should_remove rm (nf_host f) (nf_name f)"
    and "nf_ini f = Inr i"
  shows "\<exists>i'. update_file ops l rm f = [WriteFile (nf_host f @ ''/'' @ nf_name f) i'] \<and>
    ini_get ops i' ''cluster'' ''ip_port_list'' = Some (masters_str l) \<and>
    ini_get ops i' ''cluster'' ''standby_ip_port_list'' =
      (if replicas_str l = [] then ini_get ops i ''cluster'' ''standby_ip_port_list'' else Some (replicas_str l)) \<and>
    ini_get ops i' ''cluster'' ''voter_ip_port_list'' =
      (if voters_str l = [] then ini_get ops i ''cluster'' ''voter_ip_port_list'' else Some (voters_str l))"
proof -
  show ?thesis using assms(2-4)
    by (simp add: update_file_def cluster_list_sets_def ini_lib.get_set [OF assms(1)] same_key_def)
qed

lemma update_file_lists_witness:
  "\<exists>i'. update_file mini_ops \<lparr>masters_str = ''a:1'', replicas_str = [], voters_str = []\<rparr> []
      \<lparr>nf_host = ''a'', nf_name = ''n.ini'', nf_ini = Inr [(''cluster'', [(''standby_ip_port_list'', Some ''b:1'')])]\<rparr> =
      [WriteFile ''a/n.ini'' i'] \<and> ini_get mini_ops i' ''cluster'' ''standby_ip_port_list'' = Some ''b:1''"
proof -
  let ?i = "[(''cluster'', [(''standby_ip_port_list'', Some ''b:1'')])]"
  let ?f = "\<lparr>nf_host = ''a'', nf_name = ''n.ini'', nf_ini = Inr ?i\<rparr>"
  have "ini_extension (nf_name ?f)" "\<not> should_remove [] (nf_host ?f) (nf_name ?f)" "nf_ini ?f = Inr ?i"
    by (simp_all add: ini_extension_def ends_with_def starts_with_def should_remove_def)
  moreover have "ini_get mini_ops ?i ''cluster'' ''standby_ip_port_list'' = Some ''b:1''"
    by (simp add: mini_ops_def mini_sec_def)
  ultimately show ?thesis
    using update_file_lists [OF mini.ini_lib_axioms, of ?f "[]" ?i "\<lparr>masters_str = ''a:1'', replicas_str = [], voters_str = []\<rparr>"]
    by auto
qed

lemma starts_with_Cons: "starts_with (c # p) s \<longleftrightarrow> (\<exists>s'. s = c # s' \<and> starts_with p s')"
  by (cases s) (auto simp: starts_with_def)

lemma contains_sub_absent: "c \<notin> set s \<Longrightarrow> \<not> contains_sub (c # p) s"
  by (induction s) (auto simp: starts_with_Cons)

lemma starts_with_extend: "\<forall>c \<in> set p. is_digit c \<Longrightarrow> \<not> is_digit d \<Longrightarrow> starts_with p (q @ d # s) = starts_with p q"
proof (induction p arbitrary: q)
  case (Cons c p)
  then show ?case by (cases q) (auto simp: starts_with_Cons)
qed (simp add: starts_with_def)

text \<open>Which files a removal deletes. Among the generated node files, removing host:p deletes, in the
  directory of that host, the file of every node whose port starts with the digits of p: removing port
  637 also deletes the file of port 6379.\<close>

lemma contains_node_file:
  assumes "p \<noteq> []" "\<forall>c \<in> set p. is_digit c" "\<forall>c \<in> set q. is_digit c"
  shows "contains_sub (CHR ''-'' # p) (''EloqKv-node-'' @ q @ ''.ini'') \<longleftrightarrow> starts_with p q"
proof -
  have "\<not> is_digit (CHR ''n'')" by (simp add: is_digit_def)
  then obtain d p' where p: "p = d # p'" "d \<noteq> CHR ''n''" using assms(1,2) by (cases p) auto
  have "CHR ''-'' \<notin> set (q @ ''.ini'')" using assms(3) by (auto simp: is_digit_def)
  then have "\<not> contains_sub (CHR ''-'' # p) (q @ ''.ini'')" by (rule contains_sub_absent)
  moreover have "starts_with p (q @ ''.ini'') = starts_with p q"
    using starts_with_extend [OF assms(2), of "CHR ''.''"] by (simp add: is_digit_def)
  ultimately show ?thesis using p(2) by (simp add: starts_with_Cons p(1))
qed

theorem removal_deletes_by_port_prefix:
  assumes "\<not> list_ex is_colon host"
  shows "should_remove [addr host p] host' (''EloqKv-node-'' @ show_u16 q @ ''.ini'') \<longleftrightarrow>
    host' = host \<and> starts_with (show_u16 p) (show_u16 q)"
proof -
  have "split_once is_colon (addr host p) = Some (host, show_u16 p)"
    using assms split_once_append [of host is_colon "CHR '':''" "show_u16 p"]
    by (simp add: addr_def list_ex_iff is_colon_def [of "CHR '':''"])
  moreover have "contains_sub (CHR ''-'' # show_u16 p) (''EloqKv-node-'' @ show_u16 q @ ''.ini'') \<longleftrightarrow>
      starts_with (show_u16 p) (show_u16 q)"
    by (rule contains_node_file) (auto simp: show_u16_def dest: show_nat_digits)
  ultimately show ?thesis by (simp add: should_remove_def)
qed

lemma removal_deletes_by_port_prefix_witness:
  "should_remove [addr ''a'' 637] ''a'' (''EloqKv-node-'' @ show_u16 6379 @ ''.ini'')"
  using removal_deletes_by_port_prefix [of "''a''" 637 "''a''" 6379]
  by (simp add: is_colon_def show_u16_def show_nat.simps starts_with_def)

end
