(* ===== verification/Group_Lists.thy ===== *)
theory Group_Lists
  imports Node_Groups "HOL-Library.Multiset"
begin

text \<open>
  From the reported groups to the three address lists (\<open>format_node_lists\<close>) and back to groups
  (\<open>parse_ng_config\<close>): the lists are what a scale operation saves, and what every later command
  computes the groups from. The lemmas follow the three folds of the reader with one invariant on its
  state.
\<close>

section \<open>Addresses\<close>

definition clean_addr_host :: "string \<Rightarrow> bool" where
  "clean_addr_host h \<longleftrightarrow> list_all (\<lambda>c. \<not> is_comma c \<and> \<not> is_pipe c \<and> \<not> is_colon c) h"

type_synonym member = "string \<times> u16 \<times> bool"

definition member_token :: "member \<Rightarrow> string" where
  "member_token m = addr (fst m) (fst (snd m))"

definition ng_member :: "ng_node \<Rightarrow> member" where
  "ng_member n = (ng_ip n, ng_port n, ng_candidate n)"

lemma addr_split: "clean_addr_host h \<Longrightarrow> split_once is_colon (addr h p) = Some (h, show_u16 p)"
  using split_once_append [of h is_colon "CHR '':''" "show_u16 p"]
  by (simp add: addr_def clean_addr_host_def list_all_iff is_colon_def)

lemma addr_not_blank: "trim (addr h p) \<noteq> []"
proof
  assume "trim (addr h p) = []"
  moreover have "CHR '':'' \<in> set (addr h p)" by (simp add: addr_def)
  ultimately have "is_ws (CHR '':'')" by (rule trim_Nil_ws)
  then show False by (simp add: is_ws_def)
qed

lemma addr_no_sep: "clean_addr_host h \<Longrightarrow> c \<in> set (addr h p) \<Longrightarrow> \<not> is_comma c \<and> \<not> is_pipe c"
  by (auto simp: addr_def clean_addr_host_def list_all_iff is_comma_def is_pipe_def is_colon_def
      dest: show_u16_no_sep [unfolded is_comma_def is_pipe_def])

section \<open>The state of the reader\<close>

text \<open>
  The groups have the given members, and the map gives the nodes the ids 0, 1, ... in the order in which
  they were met, with every member under its address.
\<close>

definition reader_inv :: "ng_state \<Rightarrow> member list list \<Rightarrow> bool" where
  "reader_inv st gss \<longleftrightarrow> map (map ng_member) (ng_groups st) = gss \<and>
     distinct (map fst (ng_map st)) \<and> map snd (ng_map st) = [0..<length (ng_map st)] \<and>
     (\<forall>g \<in> set (ng_groups st). \<forall>n \<in> set g. map_of (ng_map st) (member_token (ng_member n)) = Some (ng_node_id n))"

lemma map_of_distinct_ids:
  "map snd m = [0..<length m] \<Longrightarrow> distinct (map fst m) \<Longrightarrow> map_of m a = Some i \<Longrightarrow> map_of m b = Some i \<Longrightarrow> a = b"
proof -
  assume m: "map snd m = [0..<length m]" "distinct (map fst m)" "map_of m a = Some i" "map_of m b = Some i"
  have "distinct (map snd m)" unfolding m(1) by simp
  moreover have "(a, i) \<in> set m" "(b, i) \<in> set m" using m(3,4) by (auto dest: map_of_SomeD)
  ultimately show ?thesis by (metis eq_key_imp_eq_value map_of_eq_Some_iff distinct_map inj_on_def fst_conv snd_conv)
qed

lemma reader_inv_id: "reader_inv st gss \<Longrightarrow> map_of (ng_map st) t = Some i \<Longrightarrow> i < length (ng_map st)"
proof -
  assume a: "reader_inv st gss" "map_of (ng_map st) t = Some i"
  then have "i \<in> set (map snd (ng_map st))" by (force dest: map_of_SomeD)
  with a(1) show ?thesis by (simp add: reader_inv_def)
qed


lemma map_of_snoc: "map_of (m @ [(t, i)]) x = (case map_of m x of Some j \<Rightarrow> Some j | None \<Rightarrow> if x = t then Some i else None)"
  by (auto simp: map_of_append map_add_def split: option.splits)

declare map_of_append [simp del]

lemma not_key: "t \<notin> fst ` set m \<longleftrightarrow> map_of m t = None"
  by (simp add: map_of_eq_None_iff)

text \<open>Registering an address keeps what is known of the other nodes.\<close>

lemma register_inv:
  assumes "reader_inv st gss" and "map_of (ng_map st) t = None"
  shows "reader_inv (st\<lparr>ng_map := ng_map st @ [(t, length (ng_map st))]\<rparr>) gss"
  using assms by (auto simp: reader_inv_def map_of_snoc map_of_eq_None_iff)

lemma add_member_inv:
  assumes inv: "reader_inv st gss" and gi: "gi < length gss" and known: "map_of (ng_map st) (addr h p) = Some nid"
  shows "reader_inv (st\<lparr>ng_groups := add_member gi
      \<lparr>ng_node_id = nid, ng_ip = h, ng_port = p, ng_candidate = c\<rparr> (ng_groups st)\<rparr>)
    (gss[gi := gss ! gi @ [(h, p, c)]])"
proof -
  let ?n = "\<lparr>ng_node_id = nid, ng_ip = h, ng_port = p, ng_candidate = c\<rparr>"
  have len: "gi < length (ng_groups st)" using inv gi by (auto simp: reader_inv_def)
  have "map (map ng_member) (add_member gi ?n (ng_groups st)) = gss[gi := gss ! gi @ [(h, p, c)]]"
    using inv len by (auto simp: reader_inv_def add_member_def map_update ng_member_def)
  moreover have "\<forall>g \<in> set (add_member gi ?n (ng_groups st)). \<forall>n \<in> set g.
      map_of (ng_map st) (member_token (ng_member n)) = Some (ng_node_id n)"
  proof (intro ballI)
    fix g n assume g: "g \<in> set (add_member gi ?n (ng_groups st))" "n \<in> set g"
    then have "g \<in> set (ng_groups st) \<or> g = ng_groups st ! gi @ [?n]"
      using set_update_subset_insert unfolding add_member_def by fastforce
    then have "n = ?n \<or> (\<exists>g' \<in> set (ng_groups st). n \<in> set g')" using g(2) len by force
    then show "map_of (ng_map st) (member_token (ng_member n)) = Some (ng_node_id n)"
      using inv known by (auto simp: reader_inv_def member_token_def ng_member_def)
  qed
  ultimately show ?thesis using inv by (simp add: reader_inv_def)
qed

section \<open>One token\<close>

lemma primary_step:
  assumes inv: "reader_inv st gss" and len: "length gss = length (ng_map st)"
    and h: "clean_addr_host h" and new: "map_of (ng_map st) (addr h p) = None"
  shows "\<exists>st'. primary_token w 0 st (addr h p) = Inr st' \<and> reader_inv st' (gss @ [[(h, p, True)]]) \<and>
    ng_map st' = ng_map st @ [(addr h p, length (ng_map st))]"
proof -
  have g: "length (ng_groups st) = length (ng_map st)" using inv len by (auto simp: reader_inv_def)
  let ?st' = "\<lparr>ng_groups = ng_groups st @ [[\<lparr>ng_node_id = length (ng_map st), ng_ip = h, ng_port = p, ng_candidate = True\<rparr>]],
    ng_map = ng_map st @ [(addr h p, length (ng_map st))]\<rparr>"
  have "primary_token w 0 st (addr h p) = Inr ?st'"
    using new g by (simp add: primary_token_def addr_not_blank addr_split [OF h] ng_add_port_def Let_def)
  moreover have "reader_inv ?st' (gss @ [[(h, p, True)]])"
    using register_inv [OF inv new] new
    by (auto simp: reader_inv_def member_token_def ng_member_def map_of_snoc)
  ultimately show ?thesis by auto
qed

lemma standby_step:
  assumes inv: "reader_inv st gss" and gi: "gi < length gss"
    and h: "clean_addr_host h" and new: "map_of (ng_map st) (addr h p) = None"
  shows "\<exists>st'. standby_node 0 gi st (addr h p) = Inr st' \<and> reader_inv st' (gss[gi := gss ! gi @ [(h, p, True)]]) \<and>
    ng_map st' = ng_map st @ [(addr h p, length (ng_map st))]"
proof -
  let ?st1 = "st\<lparr>ng_map := ng_map st @ [(addr h p, length (ng_map st))]\<rparr>"
  have "reader_inv ?st1 gss" by (rule register_inv [OF inv new])
  from add_member_inv [OF this gi, of h p "length (ng_map st)" True] new
  have *: "reader_inv (?st1\<lparr>ng_groups := add_member gi \<lparr>ng_node_id = length (ng_map st), ng_ip = h, ng_port = p,
      ng_candidate = True\<rparr> (ng_groups st)\<rparr>) (gss[gi := gss ! gi @ [(h, p, True)]])"
    by (simp add: map_of_snoc)
  have "reader_inv \<lparr>ng_groups = add_member gi \<lparr>ng_node_id = length (ng_map st), ng_ip = h, ng_port = p,
      ng_candidate = True\<rparr> (ng_groups st), ng_map = ng_map st @ [(addr h p, length (ng_map st))]\<rparr>
      (gss[gi := gss ! gi @ [(h, p, True)]])"
    using * by (cases st) simp
  with new show ?thesis by (simp add: standby_node_def addr_not_blank addr_split [OF h] ng_add_port_def Let_def)
qed

lemma voter_step:
  assumes inv: "reader_inv st gss" and gi: "gi < length gss" and h: "clean_addr_host h"
    and new: "addr h p \<notin> member_token ` set (gss ! gi)"
  shows "\<exists>st'. voter_node 0 gi st (addr h p) = Inr st' \<and> reader_inv st' (gss[gi := gss ! gi @ [(h, p, False)]])"
proof -
  have len: "gi < length (ng_groups st)" and g: "gss ! gi = map ng_member (ng_groups st ! gi)"
    using inv gi by (auto simp: reader_inv_def)
  obtain st1 nid where st1: "(case map_of (ng_map st) (addr h p) of Some i \<Rightarrow> (i, ng_map st)
        | None \<Rightarrow> (length (ng_map st), ng_map st @ [(addr h p, length (ng_map st))])) = (nid, ng_map st1)"
      "ng_groups st1 = ng_groups st" "reader_inv st1 gss" "map_of (ng_map st1) (addr h p) = Some nid"
  proof (cases "map_of (ng_map st) (addr h p)")
    case None
    from that [of "length (ng_map st)" "st\<lparr>ng_map := ng_map st @ [(addr h p, length (ng_map st))]\<rparr>"]
    show ?thesis using None register_inv [OF inv None] by (simp add: map_of_snoc)
  next
    case (Some i)
    from that [of i st] inv Some show ?thesis by simp
  qed
  have "\<not> list_ex (\<lambda>n. ng_node_id n = nid) (ng_groups st ! gi)"
  proof
    assume "list_ex (\<lambda>n. ng_node_id n = nid) (ng_groups st ! gi)"
    then obtain n where n: "n \<in> set (ng_groups st1 ! gi)" "ng_node_id n = nid" using st1(2) by (auto simp: list_ex_iff)
    moreover have "ng_groups st1 ! gi \<in> set (ng_groups st1)" using st1(2) len by simp
    ultimately have "map_of (ng_map st1) (member_token (ng_member n)) = Some nid"
      using st1(3) unfolding reader_inv_def by blast
    then have "member_token (ng_member n) = addr h p"
      using map_of_distinct_ids [of "ng_map st1"] st1(3,4) by (auto simp: reader_inv_def)
    with n(1) new g st1(2) show False by force
  qed
  then have "voter_node 0 gi st (addr h p) = Inr (st1\<lparr>ng_groups := add_member gi
      \<lparr>ng_node_id = nid, ng_ip = h, ng_port = p, ng_candidate = False\<rparr> (ng_groups st1)\<rparr>)"
    using st1(1,2) by (simp add: voter_node_def addr_not_blank addr_split [OF h] ng_add_port_def)
  with add_member_inv [OF st1(3) gi st1(4), of False] show ?thesis by blast
qed

section \<open>The members of a group\<close>

type_synonym host_port = "string \<times> u16"

definition tok :: "host_port \<Rightarrow> string" where
  "tok m = addr (fst m) (snd m)"

definition as_member :: "bool \<Rightarrow> host_port \<Rightarrow> member" where
  "as_member c m = (fst m, snd m, c)"

lemma member_token_as_member [simp]: "member_token (as_member c m) = tok m"
  by (simp add: member_token_def as_member_def tok_def)

abbreviation group_tok :: "host_port list \<Rightarrow> string" where
  "group_tok r \<equiv> join ''|'' (map tok r)"

lemma tok_clean:
  "list_all (\<lambda>m. clean_addr_host (fst m)) r \<Longrightarrow> t \<in> set (map tok r) \<Longrightarrow> c \<in> set t \<Longrightarrow> \<not> is_comma c \<and> \<not> is_pipe c"
  by (auto simp: list_all_iff tok_def dest: addr_no_sep)

lemma split_group_tok:
  "list_all (\<lambda>m. clean_addr_host (fst m)) r \<Longrightarrow> r \<noteq> [] \<Longrightarrow> split_on is_pipe (group_tok r) = map tok r"
  by (rule split_on_join) (auto simp: is_pipe_def dest!: tok_clean [unfolded is_pipe_def])

lemma colon_in_group_tok: "r \<noteq> [] \<Longrightarrow> CHR '':'' \<in> set (group_tok r)"
  by (cases r; cases "tl r") (auto simp: tok_def addr_def)

lemma group_tok_not_blank: "r \<noteq> [] \<Longrightarrow> trim (group_tok r) \<noteq> []"
  using trim_Nil_ws [of "group_tok r" "CHR '':''"] colon_in_group_tok [of r] by (auto simp: is_ws_def)

text \<open>
  What the reader of a standby or voter list relies on: a member that is fresh for its group is accepted
  and appended there, and the other members stay fresh. \<open>global\<close> tells whether a node may be listed in
  several groups.
\<close>

locale group_adder =
  fixes add :: "nat \<Rightarrow> ng_state \<Rightarrow> string \<Rightarrow> ng_state res"
    and cand :: bool
    and fresh :: "ng_state \<Rightarrow> member list \<Rightarrow> string \<Rightarrow> bool"
    and global :: bool
  assumes step: "reader_inv st gss \<Longrightarrow> gi < length gss \<Longrightarrow> clean_addr_host (fst m) \<Longrightarrow> fresh st (gss ! gi) (tok m) \<Longrightarrow>
     \<exists>st'. add gi st (tok m) = Inr st' \<and> reader_inv st' (gss[gi := gss ! gi @ [as_member cand m]]) \<and>
       (\<forall>g t. t \<noteq> tok m \<longrightarrow> fresh st g t \<longrightarrow> fresh st' (g @ [as_member cand m]) t) \<and>
       (\<forall>g t. t \<noteq> tok m \<or> \<not> global \<longrightarrow> fresh st g t \<longrightarrow> fresh st' g t)"
begin

lemma members:
  "reader_inv st gss \<Longrightarrow> gi < length gss \<Longrightarrow> list_all (\<lambda>m. clean_addr_host (fst m)) ms \<Longrightarrow> distinct (map tok ms) \<Longrightarrow>
   list_all (\<lambda>m. fresh st (gss ! gi) (tok m)) ms \<Longrightarrow>
   \<exists>st'. foldE (add gi) st (map tok ms) = Inr st' \<and> reader_inv st' (gss[gi := gss ! gi @ map (as_member cand) ms]) \<and>
     (\<forall>g t. t \<notin> set (map tok ms) \<or> \<not> global \<longrightarrow> fresh st g t \<longrightarrow> fresh st' g t)"
proof (induction ms arbitrary: st gss)
  case (Cons m ms)
  from step [OF Cons.prems(1,2), of m] Cons.prems(3,5) obtain st1 where
    st1: "add gi st (tok m) = Inr st1" "reader_inv st1 (gss[gi := gss ! gi @ [as_member cand m]])"
      "\<forall>g t. t \<noteq> tok m \<longrightarrow> fresh st g t \<longrightarrow> fresh st1 (g @ [as_member cand m]) t"
      "\<forall>g t. t \<noteq> tok m \<or> \<not> global \<longrightarrow> fresh st g t \<longrightarrow> fresh st1 g t" by auto
  let ?gss = "gss[gi := gss ! gi @ [as_member cand m]]"
  have "tok m \<notin> tok ` set ms" using Cons.prems(4) by simp
  then have "\<forall>m' \<in> set ms. tok m' \<noteq> tok m" by (metis imageI)
  then have "list_all (\<lambda>m. fresh st1 (?gss ! gi) (tok m)) ms"
    using Cons.prems(2,5) st1(3) by (simp add: list_all_iff)
  with Cons.IH [OF st1(2)] Cons.prems(2,3,4) obtain st' where
    st': "foldE (add gi) st1 (map tok ms) = Inr st'" "reader_inv st' (?gss[gi := ?gss ! gi @ map (as_member cand) ms])"
      "\<forall>g t. t \<notin> set (map tok ms) \<or> \<not> global \<longrightarrow> fresh st1 g t \<longrightarrow> fresh st' g t" by auto
  have "foldE (add gi) st (map tok (m # ms)) = Inr st'" using st1(1) st'(1) by simp
  moreover have "reader_inv st' (gss[gi := gss ! gi @ map (as_member cand) (m # ms)])"
    using st'(2) Cons.prems(2) by simp
  moreover have "\<forall>g t. t \<notin> set (map tok (m # ms)) \<or> \<not> global \<longrightarrow> fresh st g t \<longrightarrow> fresh st' g t"
    using st1(4) st'(3) by auto
  ultimately show ?case by blast
qed simp

lemma groups:
  "reader_inv st (pre @ post) \<Longrightarrow> list_all2 (\<lambda>g r. list_all (\<lambda>m. fresh st g (tok m)) r) post rs \<Longrightarrow>
   list_all (\<lambda>r. r \<noteq> [] \<and> list_all (\<lambda>m. clean_addr_host (fst m)) r \<and> distinct (map tok r)) rs \<Longrightarrow>
   (global \<longrightarrow> distinct (map tok (concat rs))) \<Longrightarrow>
   \<exists>st'. foldE (group_token add) (length pre, st) (map group_tok rs) = Inr (length pre + length rs, st') \<and>
     reader_inv st' (pre @ map2 (\<lambda>g r. g @ map (as_member cand) r) post rs)"
proof (induction rs arbitrary: st pre post)
  case (Cons r rs)
  from Cons.prems(2) obtain g post' where post: "post = g # post'" "list_all (\<lambda>m. fresh st g (tok m)) r"
    "list_all2 (\<lambda>g r. list_all (\<lambda>m. fresh st g (tok m)) r) post' rs" by (cases post) auto
  have r: "r \<noteq> []" "list_all (\<lambda>m. clean_addr_host (fst m)) r" "distinct (map tok r)" using Cons.prems(3) by auto
  from members [OF Cons.prems(1), of "length pre" r] r post(1,2) obtain st1 where
    st1: "foldE (add (length pre)) st (map tok r) = Inr st1"
      "reader_inv st1 ((pre @ [g @ map (as_member cand) r]) @ post')"
      "\<forall>g t. t \<notin> set (map tok r) \<or> \<not> global \<longrightarrow> fresh st g t \<longrightarrow> fresh st1 g t" by auto
  have "list_all2 (\<lambda>g r. list_all (\<lambda>m. fresh st1 g (tok m)) r) post' rs"
    using post(3)
  proof (rule list.rel_mono_strong)
    fix g' r' assume a: "g' \<in> set post'" "r' \<in> set rs" "list_all (\<lambda>m. fresh st g' (tok m)) r'"
    have "global \<longrightarrow> set (map tok r) \<inter> set (map tok r') = {}" using Cons.prems(4) a(2) by fastforce
    then show "list_all (\<lambda>m. fresh st1 g' (tok m)) r'" using a(3) st1(3) by (fastforce simp: list_all_iff)
  qed
  with Cons.IH [OF st1(2)] Cons.prems(3,4) obtain st' where
    st': "foldE (group_token add) (Suc (length pre), st1) (map group_tok rs) = Inr (Suc (length pre) + length rs, st')"
      "reader_inv st' ((pre @ [g @ map (as_member cand) r]) @ map2 (\<lambda>g r. g @ map (as_member cand) r) post' rs)" by auto
  have "length (ng_groups st) = length (pre @ post)" using Cons.prems(1) by (auto simp: reader_inv_def dest: arg_cong [where f = length])
  then have "group_token add (length pre, st) (group_tok r) = Inr (Suc (length pre), st1)"
    using post(1) r st1(1) by (simp add: group_token_def group_tok_not_blank split_group_tok)
  with st' post(1) show ?case by auto
qed auto

lemma group_list:
  assumes inv: "reader_inv st gss" and fr: "list_all2 (\<lambda>g r. list_all (\<lambda>m. fresh st g (tok m)) r) gss rs"
    and ok: "list_all (\<lambda>r. list_all (\<lambda>m. clean_addr_host (fst m)) r \<and> distinct (map tok r)) rs"
    and dist: "global \<longrightarrow> distinct (map tok (concat rs))"
    and all: "list_all (\<lambda>r. r \<noteq> []) rs \<or> list_all (\<lambda>r. r = []) rs"
  shows "\<exists>st'. parse_group_list add (join '','' (map group_tok (filter (\<lambda>r. r \<noteq> []) rs))) st = Inr st' \<and>
    reader_inv st' (map2 (\<lambda>g r. g @ map (as_member cand) r) gss rs)"
proof (cases "rs = [] \<or> list_all (\<lambda>r. r = []) rs")
  case True
  then have "filter (\<lambda>r. r \<noteq> []) rs = []" by (auto simp: list_all_iff filter_empty_conv)
  moreover have "map2 (\<lambda>g r. g @ map (as_member cand) r) gss rs = gss"
    using fr True by (intro nth_equalityI) (auto simp: list_all2_lengthD list_all_length dest: list_all2_lengthD)
  ultimately show ?thesis using inv by (simp add: parse_group_list_def trim_def trim_start_def trim_end_def)
next
  case False
  with all have ne: "rs \<noteq> []" "list_all (\<lambda>r. r \<noteq> []) rs" by auto
  from ne(2) have same: "filter (\<lambda>r. r \<noteq> []) rs = rs" by (simp add: list_all_iff)
  have clean: "\<forall>t \<in> set (map group_tok rs). \<forall>c \<in> set t. \<not> is_comma c"
  proof (intro ballI)
    fix t c assume t: "t \<in> set (map group_tok rs)" and c: "c \<in> set t"
    from t obtain r where r: "r \<in> set rs" "t = group_tok r" by auto
    have "c \<in> set ''|'' \<or> (\<exists>w \<in> set (map tok r). c \<in> set w)" using c r(2) set_join by blast
    moreover have "list_all (\<lambda>m. clean_addr_host (fst m)) r" using ok r(1) by (simp add: list_all_iff)
    ultimately show "\<not> is_comma c" using tok_clean [of r _ c] by (auto simp: is_comma_def simp del: set_map)
  qed
  have "split_on is_comma (join '','' (map group_tok rs)) = map group_tok rs"
    by (rule split_on_join) (use ne(1) clean in \<open>auto simp: is_comma_def\<close>)
  moreover have "trim (join '','' (map group_tok rs)) \<noteq> []"
  proof
    assume "trim (join '','' (map group_tok rs)) = []"
    moreover have "CHR '':'' \<in> set (join '','' (map group_tok rs))"
      using ne colon_in_group_tok [of "hd rs"] by (cases rs; cases "tl rs") auto
    ultimately have "is_ws (CHR '':'')" by (rule trim_Nil_ws)
    then show False by (simp add: is_ws_def)
  qed
  moreover from groups [of st "[]" gss rs] inv fr ok ne(2) dist obtain st' where
    "foldE (group_token add) (0, st) (map group_tok rs) = Inr (length rs, st')"
    "reader_inv st' (map2 (\<lambda>g r. g @ map (as_member cand) r) gss rs)" by (auto simp: list_all_iff)
  ultimately show ?thesis using same by (simp add: parse_group_list_def)
qed

end

interpretation standby: group_adder "standby_node 0" True "\<lambda>st g t. map_of (ng_map st) t = None" True
  using standby_step by unfold_locales (force simp: tok_def as_member_def map_of_snoc)

interpretation voter: group_adder "voter_node 0" False "\<lambda>st g t. t \<notin> member_token ` set g" False
  using voter_step by unfold_locales (fastforce simp: tok_def as_member_def member_token_def)

lemma primaries:
  "reader_inv st gss \<Longrightarrow> length gss = length (ng_map st) \<Longrightarrow> list_all (\<lambda>m. clean_addr_host (fst m)) ms \<Longrightarrow>
   distinct (map tok ms) \<Longrightarrow> list_all (\<lambda>m. map_of (ng_map st) (tok m) = None) ms \<Longrightarrow>
   \<exists>st'. foldE (primary_token w 0) st (map tok ms) = Inr st' \<and>
     reader_inv st' (gss @ map (\<lambda>m. [as_member True m]) ms) \<and> map fst (ng_map st') = map fst (ng_map st) @ map tok ms"
proof (induction ms arbitrary: st gss)
  case (Cons m ms)
  from primary_step [OF Cons.prems(1,2), of "fst m" "snd m" w] Cons.prems(3,5) obtain st1 where
    st1: "primary_token w 0 st (tok m) = Inr st1" "reader_inv st1 (gss @ [[as_member True m]])"
      "ng_map st1 = ng_map st @ [(tok m, length (ng_map st))]" by (auto simp: tok_def as_member_def)
  have "tok m \<notin> tok ` set ms" using Cons.prems(4) by simp
  then have "\<forall>m' \<in> set ms. tok m' \<noteq> tok m" by (metis imageI)
  then have "list_all (\<lambda>m. map_of (ng_map st1) (tok m) = None) ms"
    using Cons.prems(5) st1(3) by (simp add: list_all_iff map_of_snoc)
  with Cons.IH [OF st1(2)] Cons.prems(2,3,4) st1(3) obtain st' where
    "foldE (primary_token w 0) st1 (map tok ms) = Inr st'"
    "reader_inv st' ((gss @ [[as_member True m]]) @ map (\<lambda>m. [as_member True m]) ms)"
    "map fst (ng_map st') = map fst (ng_map st1) @ map tok ms" by auto
  with st1 show ?case by auto
qed simp

section \<open>Rendering\<close>

definition nc_hp :: "node_config_t \<Rightarrow> host_port" where
  "nc_hp n = (nc_host n, nc_port n)"

definition reported_member :: "node_config_t \<Rightarrow> member" where
  "reported_member n = (nc_host n, nc_port n, nc_is_candidate n)"

definition candidates :: "node_config_t list \<Rightarrow> node_config_t list" where
  "candidates ns = filter nc_is_candidate ns"

definition non_candidates :: "node_config_t list \<Rightarrow> node_config_t list" where
  "non_candidates ns = filter (\<lambda>n. \<not> nc_is_candidate n) ns"

definition sorted_groups :: "cluster_group_config \<Rightarrow> node_config_t list list" where
  "sorted_groups cfg = map snd (sort_key fst (node_groups cfg))"

lemma nc_addr_tok: "nc_addr n = tok (nc_hp n)"
  by (simp add: nc_addr_def tok_def nc_hp_def)

lemma master_loop_found: "master_loop u grp True ns = grp"
  by (induction ns) auto

lemma master_group_eq: "candidates ns \<noteq> [] \<Longrightarrow> master_group ns = [tok (nc_hp (hd (candidates ns)))]"
proof -
  have "candidates ns \<noteq> [] \<Longrightarrow> master_loop {} [] False ns = [tok (nc_hp (hd (candidates ns)))]"
    by (induction ns) (auto simp: candidates_def master_loop_found nc_addr_tok)
  then show "candidates ns \<noteq> [] \<Longrightarrow> ?thesis" by (simp add: master_group_def)
qed

lemma insort_key_map: "\<forall>x. fst (g x) = fst x \<Longrightarrow> insort_key fst (g x) (map g xs) = map g (insort_key fst x xs)"
  by (induction xs) (simp_all del: split_paired_All)

lemma sort_key_map: "\<forall>x. fst (g x) = fst x \<Longrightarrow> sort_key fst (map g xs) = map g (sort_key fst xs)"
  by (induction xs) (simp_all add: insort_key_map del: split_paired_All)

lemma render_parts_groups:
  "render_parts pick (node_groups cfg) = join '','' (map (join ''|'') (filter (\<lambda>g. g \<noteq> []) (map pick (sorted_groups cfg))))"
  using sort_key_map [of "\<lambda>(i, ns). (i, pick ns)" "node_groups cfg"]
  by (simp add: render_parts_def sorted_groups_def split_beta o_def)

lemma render_tokens:
  assumes "\<forall>ns \<in> set gs. pick ns = map tok (hps ns)"
  shows "map (join ''|'') (filter (\<lambda>g. g \<noteq> []) (map pick gs)) = map group_tok (filter (\<lambda>r. r \<noteq> []) (map hps gs))"
  using assms by (induction gs) auto

section \<open>Reading back\<close>

text \<open>
  The configurations for which the lists say everything: every group has a candidate, hosts can stand in
  a list, the nodes of a group have different addresses, no node is a candidate of two groups, and a
  second candidate (a non-candidate) is a matter of all groups or of none.
\<close>

definition listable :: "cluster_group_config \<Rightarrow> bool" where
  "listable cfg \<longleftrightarrow> (let gs = sorted_groups cfg in
     list_all (\<lambda>ns. candidates ns \<noteq> [] \<and> distinct (map nc_addr ns) \<and> list_all (\<lambda>n. clean_addr_host (nc_host n)) ns) gs \<and>
     distinct (map nc_addr (concat (map candidates gs))) \<and>
     (list_all (\<lambda>ns. tl (candidates ns) \<noteq> []) gs \<or> list_all (\<lambda>ns. tl (candidates ns) = []) gs) \<and>
     (list_all (\<lambda>ns. non_candidates ns \<noteq> []) gs \<or> list_all (\<lambda>ns. non_candidates ns = []) gs))"

lemma distinct_tok: "distinct (map nc_addr ns) \<Longrightarrow> distinct (map tok (map nc_hp ns))"
  by (simp add: o_def nc_addr_tok [abs_def])

lemma distinct_parts:
  "distinct (map f ns) \<Longrightarrow> distinct (map f (tl (candidates ns))) \<and> distinct (map f (non_candidates ns))"
  unfolding candidates_def non_candidates_def map_tl by (simp add: distinct_map_filter distinct_tl)

text \<open>The members of a group as the three lists give them, and as reported.\<close>

lemma listed_members:
  assumes "candidates ns \<noteq> []"
  shows "[as_member True (nc_hp (hd (candidates ns)))] @ map (as_member True) (map nc_hp (tl (candidates ns))) @
      map (as_member False) (map nc_hp (non_candidates ns)) = map reported_member (candidates ns @ non_candidates ns)"
proof -
  have "\<forall>n \<in> set (candidates ns). as_member True (nc_hp n) = reported_member n"
    "\<forall>n \<in> set (non_candidates ns). as_member False (nc_hp n) = reported_member n"
    by (auto simp: as_member_def nc_hp_def reported_member_def candidates_def non_candidates_def)
  with assms show ?thesis by (cases "candidates ns") auto
qed

lemma empty_reader_inv: "reader_inv \<lparr>ng_groups = [], ng_map = []\<rparr> []"
  by (simp add: reader_inv_def)

lemma list_strs:
  assumes "listable cfg"
  defines "gs \<equiv> sorted_groups cfg"
  shows "masters_str (format_node_lists cfg) = join '','' (map tok (map (\<lambda>ns. nc_hp (hd (candidates ns))) gs))"
    and "replicas_str (format_node_lists cfg) =
      join '','' (map group_tok (filter (\<lambda>r. r \<noteq> []) (map (\<lambda>ns. map nc_hp (tl (candidates ns))) gs)))"
    and "voters_str (format_node_lists cfg) =
      join '','' (map group_tok (filter (\<lambda>r. r \<noteq> []) (map (\<lambda>ns. map nc_hp (non_candidates ns)) gs)))"
proof -
  have ok: "candidates ns \<noteq> []" "distinct (map nc_addr ns)" if "ns \<in> set gs" for ns
    using assms that by (auto simp: listable_def Let_def list_all_iff)
  have parts: "distinct (map nc_addr (tl (candidates ns)))" "distinct (map nc_addr (non_candidates ns))" if "ns \<in> set gs" for ns
    using distinct_parts ok(2) [OF that] by auto
  have "\<forall>ns \<in> set gs. master_group ns = map tok [nc_hp (hd (candidates ns))]"
    using ok by (simp add: master_group_eq)
  from render_tokens [OF this] have "masters_str (format_node_lists cfg) =
      join '','' (map group_tok (map (\<lambda>ns. [nc_hp (hd (candidates ns))]) gs))"
    by (simp add: format_node_lists_def render_parts_groups gs_def filter_map o_def)
  then show "masters_str (format_node_lists cfg) = join '','' (map tok (map (\<lambda>ns. nc_hp (hd (candidates ns))) gs))"
    by (simp add: o_def)
  have "\<forall>ns \<in> set gs. replica_group ns = map tok (map nc_hp (tl (candidates ns)))"
    using parts by (simp add: replica_group_def candidates_def drop_Suc nc_addr_tok [abs_def] o_def)
  from render_tokens [OF this] show "replicas_str (format_node_lists cfg) =
      join '','' (map group_tok (filter (\<lambda>r. r \<noteq> []) (map (\<lambda>ns. map nc_hp (tl (candidates ns))) gs)))"
    by (simp add: format_node_lists_def render_parts_groups gs_def)
  have "\<forall>ns \<in> set gs. voter_group ns = map tok (map nc_hp (non_candidates ns))"
    using parts by (simp add: voter_group_def non_candidates_def nc_addr_tok [abs_def] o_def)
  from render_tokens [OF this] show "voters_str (format_node_lists cfg) =
      join '','' (map group_tok (filter (\<lambda>r. r \<noteq> []) (map (\<lambda>ns. map nc_hp (non_candidates ns)) gs)))"
    by (simp add: format_node_lists_def render_parts_groups gs_def)
qed

lemma part_tokens:
  assumes "distinct (map nc_addr ns)" "list_all (\<lambda>n. clean_addr_host (nc_host n)) ns"
  shows "list_all (\<lambda>m. clean_addr_host (fst m)) (map nc_hp (tl (candidates ns))) \<and> distinct (map tok (map nc_hp (tl (candidates ns))))"
    and "list_all (\<lambda>m. clean_addr_host (fst m)) (map nc_hp (non_candidates ns)) \<and> distinct (map tok (map nc_hp (non_candidates ns)))"
proof -
  have "set (tl (candidates ns)) \<subseteq> set ns"
    using set_drop_subset [of 1 "candidates ns"] by (auto simp: drop_Suc candidates_def)
  then have "list_all (\<lambda>n. clean_addr_host (nc_host n)) (tl (candidates ns))" "list_all (\<lambda>n. clean_addr_host (nc_host n)) (non_candidates ns)"
    using assms(2) by (auto simp: list_all_iff non_candidates_def)
  moreover have "distinct (map tok (map nc_hp (tl (candidates ns))))" "distinct (map tok (map nc_hp (non_candidates ns)))"
    using distinct_parts [OF assms(1)] by (auto intro: distinct_tok simp del: map_map)
  ultimately show "list_all (\<lambda>m. clean_addr_host (fst m)) (map nc_hp (tl (candidates ns))) \<and> distinct (map tok (map nc_hp (tl (candidates ns))))"
    "list_all (\<lambda>m. clean_addr_host (fst m)) (map nc_hp (non_candidates ns)) \<and> distinct (map tok (map nc_hp (non_candidates ns)))"
    by (auto simp: list_all_iff nc_hp_def)
qed

lemma mset_heads_tails: "list_all (\<lambda>xs. xs \<noteq> []) xss \<Longrightarrow> mset (concat xss) = mset (map hd xss @ concat (map tl xss))"
proof (induction xss)
  case (Cons xs xss)
  then show ?case by (cases xs) auto
qed simp

lemma distinct_heads_tails:
  assumes "list_all (\<lambda>xs. xs \<noteq> []) xss" "distinct (map f (concat xss))"
  shows "distinct (map f (map hd xss @ concat (map tl xss)))"
proof -
  from mset_heads_tails [OF assms(1)] have "mset (map f (concat xss)) = mset (map f (map hd xss @ concat (map tl xss)))"
    by (simp only: mset_map)
  then show ?thesis using assms(2) mset_eq_imp_distinct_iff by blast
qed

lemma primary_list:
  assumes "list_all (\<lambda>m. clean_addr_host (fst m)) ms" "distinct (map tok ms)"
  shows "\<exists>st. foldE (primary_token w 0) \<lparr>ng_groups = [], ng_map = []\<rparr> (split_on is_comma (join '','' (map tok ms))) = Inr st \<and>
    reader_inv st (map (\<lambda>m. [as_member True m]) ms) \<and> map fst (ng_map st) = map tok ms"
proof (cases "ms = []")
  case True
  then show ?thesis using empty_reader_inv by (simp add: primary_token_def trim_def trim_start_def trim_end_def)
next
  case False
  have "split_on is_comma (join '','' (map tok ms)) = map tok ms"
    by (rule split_on_join) (use False tok_clean [OF assms(1)] in \<open>auto simp: is_comma_def\<close>)
  with primaries [OF empty_reader_inv _ assms, of w] show ?thesis by (simp add: list_all_iff)
qed

lemma leaders_not_voters:
  assumes "candidates ns \<noteq> []" "distinct (map nc_addr ns)"
  shows "list_all (\<lambda>m. tok m \<notin> member_token ` set ([as_member True (nc_hp (hd (candidates ns)))] @
    map (as_member True) (map nc_hp (tl (candidates ns))))) (map nc_hp (non_candidates ns))"
proof -
  have "map (as_member True) (map nc_hp (candidates ns)) =
      [as_member True (nc_hp (hd (candidates ns)))] @ map (as_member True) (map nc_hp (tl (candidates ns)))"
    using assms(1) by (cases "candidates ns") auto
  then have "member_token ` set ([as_member True (nc_hp (hd (candidates ns)))] @
      map (as_member True) (map nc_hp (tl (candidates ns)))) = nc_addr ` set (candidates ns)"
    by (metis (no_types, lifting) image_image list.set_map member_token_as_member nc_addr_tok image_cong)
  moreover have "nc_addr n \<notin> nc_addr ` set (candidates ns)" if "n \<in> set (non_candidates ns)" for n
    using assms(2) that by (auto simp: candidates_def non_candidates_def distinct_map dest: inj_onD)
  ultimately show ?thesis by (simp add: list_all_iff nc_addr_tok)
qed

section \<open>The explicit members\<close>

lemma saved_lists_explicit:
  assumes "listable cfg"
  shows "\<exists>st. parse_explicit (masters_str (format_node_lists cfg)) (replicas_str (format_node_lists cfg))
      (voters_str (format_node_lists cfg)) 0 = Inr st \<and>
    map (map ng_member) (ng_groups st) =
      map (\<lambda>ns. map reported_member (candidates ns @ non_candidates ns)) (sorted_groups cfg)"
proof -
  let ?gs = "sorted_groups cfg"
  let ?ms = "map (\<lambda>ns. nc_hp (hd (candidates ns))) ?gs"
  let ?rs = "map (\<lambda>ns. map nc_hp (tl (candidates ns))) ?gs"
  let ?vs = "map (\<lambda>ns. map nc_hp (non_candidates ns)) ?gs"
  have ok: "candidates ns \<noteq> []" "distinct (map nc_addr ns)" "list_all (\<lambda>n. clean_addr_host (nc_host n)) ns"
    if "ns \<in> set ?gs" for ns using assms that by (auto simp: listable_def Let_def list_all_iff)
  have "distinct (map nc_addr (map hd (map candidates ?gs) @ concat (map tl (map candidates ?gs))))"
    using assms ok(1) by (intro distinct_heads_tails) (auto simp: listable_def Let_def list_all_iff)
  then have dist: "distinct (map tok ?ms @ map tok (concat ?rs))"
    by (simp add: nc_addr_tok [abs_def] map_concat o_def)
  have inner: "\<forall>n \<in> set (candidates ns) \<union> set (non_candidates ns). clean_addr_host (nc_host n)" if "ns \<in> set ?gs" for ns
    using ok(3) [OF that] by (auto simp: list_all_iff candidates_def non_candidates_def)
  have clean: "list_all (\<lambda>m. clean_addr_host (fst m)) ?ms"
    using inner ok(1) by (fastforce simp: list_all_iff nc_hp_def)
  have each: "list_all (\<lambda>r. list_all (\<lambda>m. clean_addr_host (fst m)) r \<and> distinct (map tok r)) ?rs"
    "list_all (\<lambda>r. list_all (\<lambda>m. clean_addr_host (fst m)) r \<and> distinct (map tok r)) ?vs"
    using part_tokens ok(2,3) by (simp_all add: list.pred_map list_all_iff [of _ "?gs"] del: map_map)
  let ?g1 = "map (\<lambda>m. [as_member True m]) ?ms"
  obtain st1 where st1: "foldE (primary_token (join '','' (map tok ?ms)) 0) \<lparr>ng_groups = [], ng_map = []\<rparr>
      (split_on is_comma (join '','' (map tok ?ms))) = Inr st1" "reader_inv st1 ?g1" "map fst (ng_map st1) = map tok ?ms"
    using primary_list [OF clean, of "join '','' (map tok ?ms)"] dist by auto
  have "set (map tok (concat ?rs)) \<inter> fst ` set (ng_map st1) = {}"
    using dist st1(3) by (simp only: distinct_append set_map [symmetric]) blast
  then have fresh1: "list_all2 (\<lambda>g r. list_all (\<lambda>m. map_of (ng_map st1) (tok m) = None) r) ?g1 ?rs"
    by (auto simp: list.rel_map list.rel_refl_strong list_all_iff map_of_eq_None_iff intro!: list.rel_refl_strong)
  let ?g2 = "map2 (\<lambda>g r. g @ map (as_member True) r) ?g1 ?rs"
  have all: "list_all (\<lambda>r. r \<noteq> []) ?rs \<or> list_all (\<lambda>r. r = []) ?rs" "list_all (\<lambda>r. r \<noteq> []) ?vs \<or> list_all (\<lambda>r. r = []) ?vs"
    using assms by (auto simp: listable_def Let_def list_all_iff)
  obtain st2 where st2: "parse_group_list (standby_node 0) (join '','' (map group_tok (filter (\<lambda>r. r \<noteq> []) ?rs))) st1 = Inr st2"
    "reader_inv st2 ?g2"
    using standby.group_list [OF st1(2) fresh1 each(1) _ all(1)] dist by auto
  let ?c = "\<lambda>ns. [as_member True (nc_hp (hd (candidates ns)))] @ map (as_member True) (map nc_hp (tl (candidates ns)))"
  have g2: "?g2 = map ?c ?gs" by (simp add: map2_map_map)
  have "list_all2 (\<lambda>g r. list_all (\<lambda>m. tok m \<notin> member_token ` set g) r) (map ?c ?gs) ?vs"
    using leaders_not_voters ok(1,2) by (simp add: list.rel_map list.rel_refl_strong list_all2_same)
  then have fresh2: "list_all2 (\<lambda>g r. list_all (\<lambda>m. tok m \<notin> member_token ` set g) r) ?g2 ?vs" by (simp only: g2)
  obtain st3 where st3: "parse_group_list (voter_node 0) (join '','' (map group_tok (filter (\<lambda>r. r \<noteq> []) ?vs))) st2 = Inr st3"
    "reader_inv st3 (map2 (\<lambda>g r. g @ map (as_member False) r) ?g2 ?vs)"
    using voter.group_list [OF st2(2) fresh2 each(2) _ all(2)] by auto
  have "map2 (\<lambda>g r. g @ map (as_member False) r) ?g2 ?vs = map (\<lambda>ns. map reported_member (candidates ns @ non_candidates ns)) ?gs"
    unfolding g2 map2_map_map using listed_members ok(1) by simp
  with st1(1) st2(1) st3 show ?thesis
    by (simp add: parse_explicit_def list_strs [OF assms] reader_inv_def)
qed

section \<open>Filling the groups\<close>

text \<open>
  What \<open>parse_ng_config\<close> makes of the explicit members: a group of one or two members is followed by the
  leaders of the next groups, as non-candidates, up to three members or once around.
\<close>

definition borrowed :: "ng_node list list \<Rightarrow> nat \<Rightarrow> nat \<Rightarrow> ng_node" where
  "borrowed gs i k = (hd (gs ! ((i + k) mod length gs)))\<lparr>ng_candidate := False\<rparr>"

definition filled :: "ng_node list list \<Rightarrow> nat \<Rightarrow> ng_node list" where
  "filled gs i = gs ! i @ map (borrowed gs i) [1..<Suc (min (3 - length (gs ! i)) (length gs - 1))]"

lemma borrow_leader:
  assumes "length hs = length gs" and "\<And>j. j < length gs \<Longrightarrow> hs ! j \<noteq> [] \<and> hd (hs ! j) = hd (gs ! j)" and "gs \<noteq> []"
  shows "borrow hs i k = [borrowed gs i k]"
proof -
  have "(i + k) mod length gs < length gs" using assms(3) by simp
  from assms(2) [OF this] show ?thesis
    by (cases "hs ! ((i + k) mod length gs)") (simp_all add: borrow_def borrowed_def assms(1))
qed

lemma adjust_one:
  assumes "length hs = length gs" and "\<And>j. j < length gs \<Longrightarrow> hs ! j \<noteq> [] \<and> hd (hs ! j) = hd (gs ! j)"
    and "i < length gs" and "hs ! i = gs ! i"
  shows "adjust_group (map (\<lambda>g. max (length g) 3) gs) hs i = hs[i := filled gs i]"
proof -
  have ne: "gs \<noteq> []" using assms(3) by auto
  have "concat (map (borrow hs i) ks) = map (borrowed gs i) ks" for ks
    by (induction ks) (simp_all add: borrow_leader [OF assms(1,2) ne])
  then show ?thesis
    using assms(1,3,4) list_update_id [of hs i] by (auto simp: adjust_group_def filled_def Let_def max_def not_le)
qed

lemma adjust_all:
  assumes "list_all (\<lambda>g. g \<noteq> []) gs" and "n \<le> length gs"
  shows "foldl (adjust_group (map (\<lambda>g. max (length g) 3) gs)) gs [0..<n] =
    map (\<lambda>i. if i < n then filled gs i else gs ! i) [0..<length gs]"
  using assms(2)
proof (induction n)
  case 0
  then show ?case by (simp add: map_nth)
next
  case (Suc n)
  let ?hs = "map (\<lambda>i. if i < n then filled gs i else gs ! i) [0..<length gs]"
  have "?hs ! j \<noteq> [] \<and> hd (?hs ! j) = hd (gs ! j)" if "j < length gs" for j
    using assms(1) that by (auto simp: filled_def list_all_length)
  then have "adjust_group (map (\<lambda>g. max (length g) 3) gs) ?hs n = ?hs[n := filled gs n]"
    using Suc.prems by (intro adjust_one) simp_all
  moreover have "?hs[n := filled gs n] = map (\<lambda>i. if i < Suc n then filled gs i else gs ! i) [0..<length gs]"
    by (intro nth_equalityI) (auto simp: nth_list_update less_Suc_eq)
  ultimately show ?case using Suc by simp
qed

lemma adjust_filled:
  "list_all (\<lambda>g. g \<noteq> []) gs \<Longrightarrow> adjust_ng_configs gs = map (filled gs) [0..<length gs]"
  by (simp add: adjust_ng_configs_def adjust_all)

text \<open>The same on members.\<close>

definition fill_members :: "member list list \<Rightarrow> nat \<Rightarrow> member list" where
  "fill_members mss i = mss ! i @ map (\<lambda>k. case hd (mss ! ((i + k) mod length mss)) of (h, p, c) \<Rightarrow> (h, p, False))
     [1..<Suc (min (3 - length (mss ! i)) (length mss - 1))]"

lemma filled_members:
  assumes "list_all (\<lambda>g. g \<noteq> []) gs" and "i < length gs"
  shows "map ng_member (filled gs i) = fill_members (map (map ng_member) gs) i"
proof -
  have "ng_member (borrowed gs i k) = (case hd (map ng_member (gs ! ((i + k) mod length gs))) of (h, p, c) \<Rightarrow> (h, p, False))" for k
  proof -
    have "(i + k) mod length gs < length gs" using assms(2) by (intro mod_less_divisor) linarith
    then have "gs ! ((i + k) mod length gs) \<noteq> []" using assms(1) by (simp add: list_all_length)
    then show ?thesis by (simp add: borrowed_def ng_member_def list.map_sel(1))
  qed
  moreover have "(i + k) mod length gs < length gs" for k using assms(2) by (intro mod_less_divisor) linarith
  ultimately show ?thesis using assms(2) by (simp add: filled_def fill_members_def)
qed

section \<open>Properties\<close>

text \<open>C17. Saved groups are read back. When every reported group has a candidate, no node is a candidate twice
  and further members of a kind are a matter of all groups or of none, \<open>parse_ng_config\<close> computes from
  the three address lists that a scale operation saves the reported groups in the order of their ids:
  each with its candidates, the first one leading, and then its non-candidates. A group of three or more
  members has no other members; a smaller one is followed by the leaders of the groups after it, as
  non-candidates, until there are three members or all other groups have given one.\<close>

theorem saved_lists_read_back:
  assumes "listable cfg"
  defines "reported \<equiv> map (\<lambda>ns. map reported_member (candidates ns @ non_candidates ns)) (sorted_groups cfg)"
  shows "\<exists>gs. parse_ng_config (masters_str (format_node_lists cfg)) (replicas_str (format_node_lists cfg))
      (voters_str (format_node_lists cfg)) None = Inr gs \<and>
    map (map ng_member) gs = map (fill_members reported) [0..<length reported] \<and>
    (\<forall>i < length reported. 3 \<le> length (reported ! i) \<longrightarrow> map ng_member (gs ! i) = reported ! i)"
proof -
  obtain st where st: "parse_explicit (masters_str (format_node_lists cfg)) (replicas_str (format_node_lists cfg))
      (voters_str (format_node_lists cfg)) 0 = Inr st" "map (map ng_member) (ng_groups st) = reported"
    using saved_lists_explicit [OF assms(1)] unfolding reported_def by blast
  have "list_all (\<lambda>ns. candidates ns \<noteq> []) (sorted_groups cfg)"
    using assms(1) by (auto simp: listable_def Let_def list_all_iff)
  then have "list_all (\<lambda>ms. ms \<noteq> []) reported" by (auto simp: reported_def list_all_iff)
  then have "list_all (\<lambda>ms. ms \<noteq> []) (map (map ng_member) (ng_groups st))" by (simp only: st(2))
  then have ne: "list_all (\<lambda>g. g \<noteq> []) (ng_groups st)" by (simp add: list_all_iff)
  have len: "length (ng_groups st) = length reported" using arg_cong [OF st(2), of length] by (simp only: length_map)
  let ?gs = "map (filled (ng_groups st)) [0..<length (ng_groups st)]"
  have "parse_ng_config (masters_str (format_node_lists cfg)) (replicas_str (format_node_lists cfg))
      (voters_str (format_node_lists cfg)) None = Inr ?gs"
    using st(1) by (simp add: parse_ng_config_def adjust_filled [OF ne])
  moreover have m: "map ng_member (filled (ng_groups st) i) = fill_members reported i" if "i < length reported" for i
    using filled_members [OF ne, of i] that st(2) len by simp
  moreover have "fill_members reported i = reported ! i" if "3 \<le> length (reported ! i)" for i
    using that by (simp add: fill_members_def)
  ultimately show ?thesis by (intro exI [of _ ?gs]) (simp add: len)
qed

definition sample_reported :: cluster_group_config where
  "sample_reported = \<lparr>node_groups = [(1, [\<lparr>nc_node_id = 1, nc_host = ''b'', nc_port = 6389, nc_is_candidate = True\<rparr>,
      \<lparr>nc_node_id = 0, nc_host = ''a'', nc_port = 6389, nc_is_candidate = False\<rparr>]),
    (0, [\<lparr>nc_node_id = 0, nc_host = ''a'', nc_port = 6389, nc_is_candidate = True\<rparr>,
      \<lparr>nc_node_id = 1, nc_host = ''b'', nc_port = 6389, nc_is_candidate = False\<rparr>])], group_version = 7\<rparr>"

lemma sample_listable: "listable sample_reported"
  by (simp add: listable_def sample_reported_def sorted_groups_def candidates_def non_candidates_def nc_addr_def
      addr_def clean_addr_host_def is_comma_def is_pipe_def is_colon_def)

text \<open>Two groups of two nodes each that are members of both: the other node is borrowed although it is there.\<close>

lemma saved_lists_read_back_witness:
  "\<exists>gs. parse_ng_config (masters_str (format_node_lists sample_reported)) (replicas_str (format_node_lists sample_reported))
      (voters_str (format_node_lists sample_reported)) None = Inr gs \<and>
    map (map ng_member) gs =
      [[(''a'', 6389, True), (''b'', 6389, False), (''b'', 6389, False)], [(''b'', 6389, True), (''a'', 6389, False), (''a'', 6389, False)]]"
proof -
  have "sorted_groups sample_reported = [[\<lparr>nc_node_id = 0, nc_host = ''a'', nc_port = 6389, nc_is_candidate = True\<rparr>,
      \<lparr>nc_node_id = 1, nc_host = ''b'', nc_port = 6389, nc_is_candidate = False\<rparr>],
     [\<lparr>nc_node_id = 1, nc_host = ''b'', nc_port = 6389, nc_is_candidate = True\<rparr>,
      \<lparr>nc_node_id = 0, nc_host = ''a'', nc_port = 6389, nc_is_candidate = False\<rparr>]]"
    by (simp add: sample_reported_def sorted_groups_def)
  then have "map (\<lambda>ns. map reported_member (candidates ns @ non_candidates ns)) (sorted_groups sample_reported) =
      [[(''a'', 6389, True), (''b'', 6389, False)], [(''b'', 6389, True), (''a'', 6389, False)]]"
    by (simp add: candidates_def non_candidates_def reported_member_def)
  then have r: "map (fill_members (map (\<lambda>ns. map reported_member (candidates ns @ non_candidates ns)) (sorted_groups sample_reported)))
      [0..<length (map (\<lambda>ns. map reported_member (candidates ns @ non_candidates ns)) (sorted_groups sample_reported))] =
      [[(''a'', 6389, True), (''b'', 6389, False), (''b'', 6389, False)], [(''b'', 6389, True), (''a'', 6389, False), (''a'', 6389, False)]]"
    by (simp add: fill_members_def upt_rec)
  from saved_lists_read_back [OF sample_listable] show ?thesis unfolding r by (elim exE conjE) (intro exI conjI)
qed

text \<open>Misplaced replicas. The lists leave out a group that has no replica instead of leaving its place
  empty, so the replicas of the groups behind it are read into the wrong group: with the reported groups
  [a] and [b, c], the node c is saved as the replica of b and read back as the replica of a.\<close>

theorem replica_changes_group:
  "let n = (\<lambda>i h. \<lparr>nc_node_id = i, nc_host = h, nc_port = 6389, nc_is_candidate = True\<rparr>);
       l = format_node_lists \<lparr>node_groups = [(0, [n 0 ''a'']), (1, [n 1 ''b'', n 2 ''c''])], group_version = 1\<rparr>
   in (case parse_explicit (masters_str l) (replicas_str l) (voters_str l) 0 of
        Inr st \<Rightarrow> map (map ng_ip) (ng_groups st) | Inl _ \<Rightarrow> []) = [[''a'', ''c''], [''b'']]"
  by (simp add: format_node_lists_def render_parts_def master_group_def replica_group_def voter_group_def nc_addr_def
      addr_def ng_eval eval_str show_u16_def show_nat.simps uniq_def)

end
