(* ===== verification/Ini_Lines.thy ===== *)
theory Ini_Lines
  imports Config_Fields Node_Groups
begin

text \<open>
  The configuration of a node as it is kept in the topology table (\<open>ConfigJson\<close>,
  \<open>state/topology_tx_operation.rs\<close>), the field updates on it, and the line editor that brings a node
  file in step with it (\<open>cli/task/topology_update_task.rs\<close>). \<open>additional_settings\<close> is a hash map: here
  an association list in the order in which the map iterates, about which nothing is assumed.
\<close>

section \<open>The configuration\<close>

record config_json =
  cj_data_path :: string
  cj_data_store :: bool
  cj_wal :: bool
  cj_io_uring :: bool
  cj_checkpoint :: "u32 option"
  cj_cache :: "bool option"
  cj_additional :: "(string \<times> string) list"

definition empty_json :: config_json where
  "empty_json = \<lparr>cj_data_path = [], cj_data_store = False, cj_wal = False, cj_io_uring = False,
     cj_checkpoint = None, cj_cache = None, cj_additional = []\<rparr>"

lemma empty_json_fields [simp]:
  "cj_data_path empty_json = []" "cj_data_store empty_json = False" "cj_wal empty_json = False"
  "cj_io_uring empty_json = False" "cj_checkpoint empty_json = None" "cj_cache empty_json = None"
  "cj_additional empty_json = []"
  by (simp_all add: empty_json_def)

definition parse_bool :: "string \<Rightarrow> bool option" where
  "parse_bool s = (if s = ''true'' then Some True else if s = ''false'' then Some False else None)"

section \<open>Field updates\<close>

text \<open>A value that does not parse leaves the field as it is; the error is only logged.\<close>

definition update_field :: "string \<Rightarrow> string \<Rightarrow> config_json \<Rightarrow> config_json" where
  "update_field field v cfg =
     (if field = ''eloq_data_path'' then cfg\<lparr>cj_data_path := v\<rparr>
      else if field = ''enable_data_store'' then
        (case parse_bool v of Some b \<Rightarrow> cfg\<lparr>cj_data_store := b\<rparr> | None \<Rightarrow> cfg)
      else if field = ''enable_wal'' then
        (case parse_bool v of Some b \<Rightarrow> cfg\<lparr>cj_wal := b\<rparr> | None \<Rightarrow> cfg)
      else if field = ''enable_io_uring'' then
        (case parse_bool v of Some b \<Rightarrow> cfg\<lparr>cj_io_uring := b\<rparr> | None \<Rightarrow> cfg)
      else if field = ''checkpoint_interval'' \<or> field = ''checkpointer_interval'' then
        (case parse_u32 v of Some n \<Rightarrow> cfg\<lparr>cj_checkpoint := Some n\<rparr> | None \<Rightarrow> cfg)
      else if field = ''enable_cache_replacement'' then
        (case parse_bool v of Some b \<Rightarrow> cfg\<lparr>cj_cache := Some b\<rparr> | None \<Rightarrow> cfg)
      else if field_exists field then cfg\<lparr>cj_additional := im_insert field v (cj_additional cfg)\<rparr>
      else cfg)"

definition update_config_json :: "config_json \<Rightarrow> string list \<Rightarrow> config_json" where
  "update_config_json cfg field_updates = fold (\<lambda>u cfg. case split_once is_colon u of
     Some (field, v) \<Rightarrow> update_field field v cfg | None \<Rightarrow> cfg) field_updates cfg"

section \<open>Reading a node file\<close>

definition truthy :: "string \<Rightarrow> bool" where
  "truthy v \<longleftrightarrow> to_lower v = ''true'' \<or> v = ''1'' \<or> to_lower v = ''yes''"

definition read_field :: "string \<Rightarrow> string \<Rightarrow> config_json \<Rightarrow> config_json" where
  "read_field key v cfg =
     (if key = ''eloq_data_path'' then cfg\<lparr>cj_data_path := v\<rparr>
      else if key = ''enable_data_store'' then cfg\<lparr>cj_data_store := truthy v\<rparr>
      else if key = ''enable_wal'' then cfg\<lparr>cj_wal := truthy v\<rparr>
      else if key = ''enable_io_uring'' then cfg\<lparr>cj_io_uring := truthy v\<rparr>
      else if key = ''checkpoint_interval'' \<or> key = ''checkpointer_interval'' then
        (case parse_u32 v of Some n \<Rightarrow> cfg\<lparr>cj_checkpoint := Some n\<rparr> | None \<Rightarrow> cfg)
      else if key = ''enable_cache_replacement'' then cfg\<lparr>cj_cache := Some (truthy v)\<rparr>
      else cfg\<lparr>cj_additional := im_insert key v (cj_additional cfg)\<rparr>)"

definition comment_line :: "string \<Rightarrow> bool" where
  "comment_line l \<longleftrightarrow> l = [] \<or> starts_with ''#'' l \<or> starts_with '';'' l"

definition line_kv :: "string \<Rightarrow> (string \<times> string) option" where
  "line_kv line = (let l = trim line in
     if comment_line l then None else map_option (map_prod trim trim) (split_once is_eq l))"

definition parse_ini_to_config_json :: "string \<Rightarrow> config_json" where
  "parse_ini_to_config_json ini_content = fold (\<lambda>line cfg. case line_kv line of
     Some (key, v) \<Rightarrow> read_field key v cfg | None \<Rightarrow> cfg) (str_lines ini_content) empty_json"

section \<open>Editing a node file\<close>

definition setting :: "string \<Rightarrow> string \<Rightarrow> string" where
  "setting k v = k @ ''='' @ v"

text \<open>The new text of a line, and the field that it updates.\<close>

definition edit_line :: "config_json \<Rightarrow> string \<Rightarrow> string \<times> string option" where
  "edit_line cfg line = (let l = trim line in
     if comment_line l \<or> starts_with ''['' l then (l, None)
     else case split_once is_eq l of
       None \<Rightarrow> (l, None)
     | Some (k, _) \<Rightarrow> (let key = trim k in
         if key = ''eloq_data_path'' then (setting key (cj_data_path cfg), Some key)
         else if key = ''enable_data_store'' then (setting key (show_bool (cj_data_store cfg)), Some key)
         else if key = ''enable_wal'' then (setting key (show_bool (cj_wal cfg)), Some key)
         else if key = ''enable_io_uring'' then (setting key (show_bool (cj_io_uring cfg)), Some key)
         else if key = ''checkpoint_interval'' \<or> key = ''checkpointer_interval'' then
           (case cj_checkpoint cfg of
              Some n \<Rightarrow> (setting ''checkpointer_interval'' (show_u32 n), Some ''checkpointer_interval'')
            | None \<Rightarrow> (l, None))
         else if key = ''enable_cache_replacement'' then
           (case cj_cache cfg of Some b \<Rightarrow> (setting key (show_bool b), Some key) | None \<Rightarrow> (l, None))
         else case map_of (cj_additional cfg) key of
           Some v \<Rightarrow> (setting key v, Some key)
         | None \<Rightarrow> (l, None)))"

definition insert_at :: "nat \<Rightarrow> 'a \<Rightarrow> 'a list \<Rightarrow> 'a list" where
  "insert_at i x xs = take i xs @ x # drop i xs"

definition basic_items :: "config_json \<Rightarrow> (string \<times> string) list" where
  "basic_items cfg =
     [(''eloq_data_path'', cj_data_path cfg), (''enable_data_store'', show_bool (cj_data_store cfg)),
      (''enable_wal'', show_bool (cj_wal cfg)), (''enable_io_uring'', show_bool (cj_io_uring cfg))] @
     (case cj_checkpoint cfg of Some n \<Rightarrow> [(''checkpointer_interval'', show_u32 n)] | None \<Rightarrow> []) @
     (case cj_cache cfg of Some b \<Rightarrow> [(''enable_cache_replacement'', show_bool b)] | None \<Rightarrow> [])"

text \<open>Basic fields that no line had go behind the first \<open>[local]\<close> header, or to the top.\<close>

definition add_basic :: "config_json \<Rightarrow> string list \<Rightarrow> string list \<Rightarrow> string list" where
  "add_basic cfg marked ls =
     (let insert_position = (case position (\<lambda>l. l = ''[local]'') ls of Some p \<Rightarrow> p + 1 | None \<Rightarrow> 0)
      in fold (\<lambda>kv. insert_at insert_position (setting (fst kv) (snd kv)))
           (filter (\<lambda>kv. fst kv \<notin> set marked) (basic_items cfg)) ls)"

definition add_setting :: "string \<times> string \<Rightarrow> string list \<Rightarrow> string list" where
  "add_setting kv ls =
     (let header = ''['' @ field_ini_section (fst kv) @ '']'' in
      case position (\<lambda>l. l = header) ls of
        Some p \<Rightarrow> insert_at (p + 1) (setting (fst kv) (snd kv)) ls
      | None \<Rightarrow> (let ls = ls @ [header] in insert_at (length ls) (setting (fst kv) (snd kv)) ls))"

definition edited_lines :: "config_json \<Rightarrow> string list \<Rightarrow> string list" where
  "edited_lines cfg ls =
     (let edits = map (edit_line cfg) ls;
          marked = List.map_filter snd edits
      in fold add_setting (filter (\<lambda>kv. fst kv \<notin> set marked) (cj_additional cfg))
           (add_basic cfg marked (map fst edits)))"

definition update_existing_ini_file :: "string \<Rightarrow> config_json \<Rightarrow> string" where
  "update_existing_ini_file content cfg = join [CHR 0x0A] (edited_lines cfg (str_lines content))"

definition config_json_to_ini :: "config_json \<Rightarrow> string" where
  "config_json_to_ini cfg = concat (map (\<lambda>l. l @ [CHR 0x0A])
     (''[local]'' # map (\<lambda>kv. setting (fst kv) (snd kv)) (basic_items cfg @ cj_additional cfg)))"

section \<open>Settings as lines\<close>

definition file_kvs :: "string list \<Rightarrow> (string \<times> string) list" where
  "file_kvs ls = List.map_filter line_kv ls"

definition no_newline :: "string \<Rightarrow> bool" where
  "no_newline s \<longleftrightarrow> list_all (\<lambda>c. \<not> is_nl c) s"

definition plain_value :: "string \<Rightarrow> bool" where
  "plain_value v \<longleftrightarrow> trim v = v \<and> no_newline v"

definition ini_key :: "string \<Rightarrow> bool" where
  "ini_key k \<longleftrightarrow> k \<noteq> [] \<and> trim k = k \<and> hd k \<notin> {CHR ''#'', CHR '';'', CHR ''[''} \<and>
     list_all (\<lambda>c. \<not> is_eq c) k \<and> no_newline k"

definition basic_key :: "string \<Rightarrow> bool" where
  "basic_key k \<longleftrightarrow> k \<in> {''eloq_data_path'', ''enable_data_store'', ''enable_wal'', ''enable_io_uring'',
     ''checkpoint_interval'', ''checkpointer_interval'', ''enable_cache_replacement''}"

text \<open>What the database holds for a node: texts that can stand in a file.\<close>

definition clean_json :: "config_json \<Rightarrow> bool" where
  "clean_json cfg \<longleftrightarrow> plain_value (cj_data_path cfg) \<and> distinct (map fst (cj_additional cfg)) \<and>
     list_all (\<lambda>(k, v). ini_key k \<and> \<not> basic_key k \<and> plain_value v) (cj_additional cfg)"

lemma file_kvs_simps [simp]:
  "file_kvs [] = []" "file_kvs (ls @ ls') = file_kvs ls @ file_kvs ls'"
  "file_kvs (l # ls) = (case line_kv l of None \<Rightarrow> file_kvs ls | Some kv \<Rightarrow> kv # file_kvs ls)"
  by (auto simp: file_kvs_def List.map_filter_def split: option.splits)

lemma line_kv_trim [simp]: "line_kv (trim l) = line_kv l"
  by (simp add: line_kv_def)

lemma line_kv_comment: "comment_line (trim l) \<Longrightarrow> line_kv l = None"
  by (simp add: line_kv_def)

lemma starts_with_single [simp]: "starts_with [c] s \<longleftrightarrow> s \<noteq> [] \<and> hd s = c"
  by (cases s) (auto simp: starts_with_def)

lemma trim_setting:
  assumes "ini_key k" "plain_value v"
  shows "trim (setting k v) = setting k v"
proof (rule trim_outer)
  show "setting k v \<noteq> []" by (simp add: setting_def)
  have "k \<noteq> []" "trim k = k" using assms(1) by (auto simp: ini_key_def)
  then show "\<not> is_ws (hd (setting k v))" using trim_no_outer_ws [of k] by (simp add: setting_def)
  show "\<not> is_ws (last (setting k v))"
    using trim_no_outer_ws [of v] assms(2) by (cases "v = []") (auto simp: setting_def plain_value_def is_ws_def)
qed

lemma line_kv_setting: "ini_key k \<Longrightarrow> plain_value v \<Longrightarrow> line_kv (setting k v) = Some (k, v)"
proof -
  assume k: "ini_key k" and v: "plain_value v"
  then have "split_once is_eq (setting k v) = Some (k, v)"
    using split_once_append [of k is_eq "CHR ''=''" v] by (simp add: setting_def ini_key_def list_all_iff is_eq_def [of "CHR ''=''"])
  moreover have "\<not> comment_line (setting k v)"
    using k by (cases k) (auto simp: comment_line_def setting_def ini_key_def)
  ultimately show ?thesis
    using k v by (simp add: line_kv_def trim_setting) (simp add: ini_key_def plain_value_def)
qed

lemma header_no_kv: "line_kv ''[local]'' = None" "line_kv (''['' @ field_ini_section k @ '']'') = None"
  by (simp_all add: line_kv_def Let_def field_ini_section_def eval_str)

lemma no_newline_setting: "ini_key k \<Longrightarrow> plain_value v \<Longrightarrow> no_newline (setting k v)"
  by (simp add: no_newline_def setting_def ini_key_def plain_value_def is_nl_def)

lemma trim_snoc_ws: "is_ws c \<Longrightarrow> trim (l @ [c]) = trim l"
proof (cases "\<forall>x \<in> set l. is_ws x")
  case True
  moreover assume "is_ws c"
  ultimately show ?thesis by (auto simp: trim_def trim_start_def trim_end_def dest: set_dropWhileD)
next
  case False
  moreover assume "is_ws c"
  ultimately show ?thesis by (auto simp: trim_def trim_start_def trim_end_def dropWhile_append1)
qed

lemma trim_strip_cr [simp]: "trim (strip_cr l) = trim l"
proof (cases "l \<noteq> [] \<and> last l = CHR 0x0D")
  case True
  then have "l = butlast l @ [CHR 0x0D]" by (metis append_butlast_last_id)
  moreover have "trim (butlast l @ [CHR 0x0D]) = trim (butlast l)" by (rule trim_snoc_ws) (simp add: is_ws_def)
  ultimately show ?thesis using True by (simp add: strip_cr_def)
qed (auto simp: strip_cr_def)

text \<open>What is written is read line by line; an empty last line and trailing carriage returns change nothing.\<close>

lemma file_kvs_lines:
  assumes "list_all no_newline ls"
  shows "file_kvs (str_lines (join [CHR 0x0A] ls)) = file_kvs ls"
proof (cases "ls = []")
  case True
  then show ?thesis by (simp add: str_lines_def)
next
  case False
  have s: "split_on is_nl (join [CHR 0x0A] ls) = ls"
    by (rule split_on_join) (use False assms in \<open>auto simp: list_all_iff no_newline_def is_nl_def\<close>)
  have kv: "line_kv (strip_cr l) = line_kv l" for l by (simp add: line_kv_def)
  have "file_kvs (map strip_cr xs) = file_kvs xs" for xs by (induction xs) (simp_all add: kv split: option.split)
  moreover have "file_kvs ls = file_kvs (butlast ls) @ file_kvs [last ls]"
    using False by (metis append_butlast_last_id file_kvs_simps(2))
  moreover have "line_kv [] = None" by (simp add: line_kv_def comment_line_def)
  ultimately show ?thesis by (simp add: str_lines_def s Let_def)
qed

section \<open>The values of a file\<close>

text \<open>The two names of the checkpoint interval are one field.\<close>

definition ckey :: "string \<Rightarrow> string" where
  "ckey k = (if k = ''checkpoint_interval'' then ''checkpointer_interval'' else k)"

definition vals :: "(string \<times> string) list \<Rightarrow> string \<Rightarrow> string list" where
  "vals kvs c = map snd (filter (\<lambda>kv. ckey (fst kv) = c) kvs)"

definition items :: "config_json \<Rightarrow> (string \<times> string) list" where
  "items cfg = basic_items cfg @ cj_additional cfg"

lemma vals_simps [simp]:
  "vals [] c = []" "vals (kvs @ kvs') c = vals kvs c @ vals kvs' c"
  "vals (kv # kvs) c = (if ckey (fst kv) = c then snd kv # vals kvs c else vals kvs c)"
  by (auto simp: vals_def)

definition basic_names :: "string list" where
  "basic_names = [''eloq_data_path'', ''enable_data_store'', ''enable_wal'', ''enable_io_uring'',
     ''checkpointer_interval'', ''enable_cache_replacement'']"

lemma basic_names_clean: "list_all (\<lambda>k. basic_key k \<and> ckey k = k \<and> ini_key k) basic_names"
  by code_simp

lemma basic_items_names: "fst ` set (basic_items cfg) \<subseteq> set basic_names"
  by (cases "cj_checkpoint cfg"; cases "cj_cache cfg") (simp_all add: basic_items_def basic_names_def)

lemma basic_keys: "(k, v) \<in> set (basic_items cfg) \<Longrightarrow> basic_key k \<and> ckey k = k \<and> ini_key k"
proof -
  assume "(k, v) \<in> set (basic_items cfg)"
  then have "k \<in> fst ` set (basic_items cfg)" by (rule image_eqI [rotated]) simp
  then have "k \<in> set basic_names" using basic_items_names by blast
  then show ?thesis using basic_names_clean by (simp add: list_all_iff)
qed

lemma basic_lookup: "map_of (basic_items cfg) c =
   (if c = ''eloq_data_path'' then Some (cj_data_path cfg)
    else if c = ''enable_data_store'' then Some (show_bool (cj_data_store cfg))
    else if c = ''enable_wal'' then Some (show_bool (cj_wal cfg))
    else if c = ''enable_io_uring'' then Some (show_bool (cj_io_uring cfg))
    else if c = ''checkpointer_interval'' then map_option show_u32 (cj_checkpoint cfg)
    else if c = ''enable_cache_replacement'' then map_option show_bool (cj_cache cfg) else None)"
  by (simp add: basic_items_def split: option.split)

lemma plain_shows: "plain_value (show_bool b)" "plain_value (show_u32 n)"
proof -
  show "plain_value (show_bool b)" by (cases b) (simp_all add: plain_value_def show_bool_def no_newline_def eval_str)
  have "\<forall>c \<in> set (show_u32 n). \<not> is_ws c" by (auto simp: show_u32_def dest: show_nat_not_ws)
  moreover from this have "list_all (\<lambda>c. \<not> is_nl c) (show_u32 n)" by (auto simp: list_all_iff is_nl_def is_ws_def)
  ultimately show "plain_value (show_u32 n)" by (simp add: plain_value_def trim_id no_newline_def)
qed

lemma items_clean:
  assumes "clean_json cfg" "(k, v) \<in> set (items cfg)"
  shows "ini_key k \<and> plain_value v \<and> ckey k = k"
proof (cases "(k, v) \<in> set (basic_items cfg)")
  case True
  moreover have "plain_value v"
    using True assms(1) plain_shows by (auto simp: basic_items_def clean_json_def split: option.splits)
  ultimately show ?thesis using basic_keys by blast
next
  case False
  with assms show ?thesis by (auto simp: items_def clean_json_def list_all_iff ckey_def basic_key_def)
qed

lemma items_distinct: "clean_json cfg \<Longrightarrow> distinct (map fst (items cfg))"
proof -
  assume c: "clean_json cfg"
  have "distinct (map fst (basic_items cfg))" by (simp add: basic_items_def split: option.split)
  moreover have "basic_key k" if "k \<in> fst ` set (basic_items cfg)" for k using that basic_keys by force
  moreover have "\<not> basic_key k" if "k \<in> fst ` set (cj_additional cfg)" for k
    using that c by (auto simp: clean_json_def list_all_iff)
  ultimately show ?thesis using c by (auto simp: items_def clean_json_def simp del: set_map simp: set_map [symmetric])
qed

lemma additional_basic: "clean_json cfg \<Longrightarrow> basic_key k \<Longrightarrow> map_of (cj_additional cfg) k = None"
  by (auto simp: clean_json_def list_all_iff map_of_eq_None_iff)

lemma basic_not_additional: "clean_json cfg \<Longrightarrow> map_of (basic_items cfg) k = Some v \<Longrightarrow> map_of (cj_additional cfg) k = None"
  using additional_basic basic_keys by (blast dest: map_of_SomeD)

lemma items_lookup: "map_of (items cfg) c =
  (case map_of (basic_items cfg) c of Some v \<Rightarrow> Some v | None \<Rightarrow> map_of (cj_additional cfg) c)"
  by (simp add: items_def map_add_def)

text \<open>A line gets the value of its field, when the configuration has one.\<close>

lemma edit_line_eq:
  assumes "clean_json cfg"
  shows "edit_line cfg line =
    (case (if comment_line (trim line) \<or> starts_with ''['' (trim line) then None else split_once is_eq (trim line)) of
       None \<Rightarrow> (trim line, None)
     | Some (k, _) \<Rightarrow> (case map_of (items cfg) (ckey (trim k)) of
         None \<Rightarrow> (trim line, None)
       | Some w \<Rightarrow> (setting (ckey (trim k)) w, Some (ckey (trim k)))))"
proof (cases "comment_line (trim line) \<or> starts_with ''['' (trim line)")
  case False
  show ?thesis
  proof (cases "split_once is_eq (trim line)")
    case (Some kv)
    obtain k v where kv: "kv = (k, v)" by (cases kv)
    note b = additional_basic [OF assms, unfolded basic_key_def]
    show ?thesis
    proof (cases "basic_key (trim k)")
      case True
      with False Some kv show ?thesis
        by (auto simp: edit_line_def Let_def items_lookup basic_lookup ckey_def b basic_key_def split: option.split)
    next
      case nb: False
      then have "ckey (trim k) = trim k" "map_of (basic_items cfg) (trim k) = None"
        by (auto simp: basic_key_def ckey_def basic_lookup)
      with False Some kv nb show ?thesis
        by (simp add: edit_line_def Let_def items_lookup basic_key_def split: option.split)
    qed
  qed (use False in \<open>simp add: edit_line_def Let_def\<close>)
qed (simp add: edit_line_def Let_def)

lemma trim_hd: "k \<noteq> [] \<Longrightarrow> \<not> is_ws (hd k) \<Longrightarrow> trim k \<noteq> [] \<and> hd (trim k) = hd k"
  by (cases k) (auto simp: trim_def trim_start_def trim_end_def dropWhile_append3 dropWhile_append)

lemma edit_line_kv:
  assumes "clean_json cfg"
  shows "line_kv (fst (edit_line cfg line)) = map_option (\<lambda>(k, v).
    case map_of (items cfg) (ckey k) of Some w \<Rightarrow> (ckey k, w) | None \<Rightarrow> (k, v)) (line_kv line)"
    and "snd (edit_line cfg line) = Option.bind (line_kv line) (\<lambda>(k, v).
      if map_of (items cfg) (ckey k) = None then None else Some (ckey k))"
    and "no_newline line \<Longrightarrow> no_newline (fst (edit_line cfg line))"
proof -
  let ?l = "trim line"
  have known: "ini_key c \<and> plain_value w" if "map_of (items cfg) c = Some w" for c w
    using items_clean [OF assms] that by (blast dest: map_of_SomeD)
  have bracket: "map_of (items cfg) (ckey (trim k)) = None"
    if s: "starts_with ''['' ?l" "split_once is_eq ?l = Some (k, v)" for k v
  proof -
    from split_once_Some [OF s(2)] obtain d where d: "is_eq d" "?l = k @ d # v" by blast
    have "\<not> is_eq (CHR ''['')" by (simp add: is_eq_def)
    with s(1) d have "k \<noteq> []" "hd k = CHR ''[''" by (cases k; auto)+
    then have "hd (trim k) = CHR ''[''" "trim k \<noteq> []" using trim_hd [of k] by (auto simp: is_ws_def)
    then have "hd (ckey (trim k)) = CHR ''[''" by (auto simp: ckey_def)
    then show ?thesis using known [of "ckey (trim k)"]
      by (cases "map_of (items cfg) (ckey (trim k))") (auto simp: ini_key_def)
  qed
  show "line_kv (fst (edit_line cfg line)) = map_option (\<lambda>(k, v).
      case map_of (items cfg) (ckey k) of Some w \<Rightarrow> (ckey k, w) | None \<Rightarrow> (k, v)) (line_kv line)"
    using bracket known by (auto simp: edit_line_eq [OF assms] line_kv_setting line_kv_def [of line] Let_def simp del: starts_with_single split: option.split)
  show "snd (edit_line cfg line) = Option.bind (line_kv line) (\<lambda>(k, v).
      if map_of (items cfg) (ckey k) = None then None else Some (ckey k))"
    using bracket by (auto simp: edit_line_eq [OF assms] line_kv_def [of line] Let_def simp del: starts_with_single split: option.split)
  show "no_newline line \<Longrightarrow> no_newline (fst (edit_line cfg line))"
    using known set_trim [of line] by (auto simp: edit_line_eq [OF assms] no_newline_setting split: option.split)
      (auto simp: no_newline_def list_all_iff)
qed

text \<open>The lines before the additions: every value of a known field is the new one.\<close>

lemma edited_vals:
  assumes "clean_json cfg"
  shows "vals (file_kvs (map (\<lambda>l. fst (edit_line cfg l)) ls)) c =
    (case map_of (items cfg) c of Some w \<Rightarrow> map (\<lambda>_. w) (vals (file_kvs ls) c) | None \<Rightarrow> vals (file_kvs ls) c)"
proof (induction ls)
  case (Cons l ls)
  have idem: "ckey (ckey k) = ckey k" for k by (simp add: ckey_def)
  show ?case
  proof (cases "line_kv l")
    case (Some kv)
    obtain k v where kv: "kv = (k, v)" by (cases kv)
    show ?thesis using Cons Some idem [of k] by (auto simp: kv edit_line_kv(1) [OF assms] split: option.split)
  qed (use Cons in \<open>simp add: edit_line_kv(1) [OF assms] split: option.split\<close>)
qed (simp split: option.split)

lemma marked_iff:
  assumes "clean_json cfg"
  shows "c \<in> set (List.map_filter snd (map (edit_line cfg) ls)) \<longleftrightarrow>
    map_of (items cfg) c \<noteq> None \<and> vals (file_kvs ls) c \<noteq> []"
proof (induction ls)
  case (Cons l ls)
  show ?case
  proof (cases "line_kv l")
    case (Some kv)
    obtain k v where kv: "kv = (k, v)" by (cases kv)
    show ?thesis using Cons Some
      by (auto simp: kv edit_line_kv(2) [OF assms] List.map_filter_simps split: option.splits if_splits)
  qed (use Cons in \<open>simp add: edit_line_kv(2) [OF assms] List.map_filter_simps\<close>)
qed (simp add: List.map_filter_simps)

text \<open>Adding lines, wherever they go.\<close>

definition adds_line :: "((string \<times> string) \<Rightarrow> string list \<Rightarrow> string list) \<Rightarrow> bool" where
  "adds_line f \<longleftrightarrow> (\<forall>k v ls. ini_key k \<longrightarrow> plain_value v \<longrightarrow>
     (\<exists>a b. file_kvs ls = a @ b \<and> file_kvs (f (k, v) ls) = a @ (k, v) # b) \<and>
     (list_all no_newline ls \<longrightarrow> list_all no_newline (f (k, v) ls)))"

lemma insert_at_adds: "ini_key k \<Longrightarrow> plain_value v \<Longrightarrow>
   (\<exists>a b. file_kvs ls = a @ b \<and> file_kvs (insert_at i (setting k v) ls) = a @ (k, v) # b) \<and>
   (list_all no_newline ls \<longrightarrow> list_all no_newline (insert_at i (setting k v) ls))"
proof -
  assume a: "ini_key k" "plain_value v"
  have "file_kvs ls = file_kvs (take i ls) @ file_kvs (drop i ls)"
    by (metis append_take_drop_id file_kvs_simps(2))
  moreover have "list_all no_newline ls \<Longrightarrow> list_all no_newline (insert_at i (setting k v) ls)"
    using no_newline_setting [OF a] by (auto simp: insert_at_def list_all_iff dest: in_set_takeD in_set_dropD)
  ultimately show ?thesis by (auto simp: insert_at_def line_kv_setting [OF a])
qed

lemma basic_adds: "adds_line (\<lambda>kv. insert_at i (setting (fst kv) (snd kv)))"
  by (simp add: adds_line_def insert_at_adds)

lemma setting_adds: "adds_line add_setting"
proof -
  have "no_newline (''['' @ field_ini_section k @ '']'')" for k
    by (simp add: field_ini_section_def no_newline_def is_nl_def)
  moreover have "file_kvs (ls @ [''['' @ field_ini_section k @ '']'']) = file_kvs ls" for k ls
    by (simp only: file_kvs_simps header_no_kv) simp
  ultimately have "list_all no_newline (ls @ [''['' @ field_ini_section k @ '']'']) = list_all no_newline ls"
    "file_kvs (ls @ [''['' @ field_ini_section k @ '']'']) = file_kvs ls" for k ls by simp_all
  then show ?thesis using insert_at_adds unfolding adds_line_def add_setting_def Let_def fst_conv snd_conv
    by (metis (no_types, lifting) option.case_eq_if)
qed

lemma add_all:
  assumes f: "adds_line f"
  shows "distinct (map fst its) \<Longrightarrow> list_all (\<lambda>(k, v). ini_key k \<and> plain_value v \<and> ckey k = k) its \<Longrightarrow>
    list_all (\<lambda>kv. vals (file_kvs ls) (fst kv) = []) its \<Longrightarrow>
    vals (file_kvs (fold f its ls)) c = (case map_of its c of Some w \<Rightarrow> [w] | None \<Rightarrow> vals (file_kvs ls) c) \<and>
    (list_all no_newline ls \<longrightarrow> list_all no_newline (fold f its ls))"
proof (induction its arbitrary: ls)
  case (Cons kv its)
  obtain k v where kv: "kv = (k, v)" by (cases kv)
  have k: "ini_key k" "plain_value v" "ckey k = k" "k \<notin> fst ` set its" using Cons.prems by (auto simp: kv)
  from f k(1,2) obtain a b where ab: "file_kvs ls = a @ b" "file_kvs (f (k, v) ls) = a @ (k, v) # b"
    and nn: "list_all no_newline ls \<longrightarrow> list_all no_newline (f (k, v) ls)" unfolding adds_line_def by blast
  have v: "vals (file_kvs (f (k, v) ls)) c = (if c = k then [v] else vals (file_kvs ls) c)" for c
    using Cons.prems(3) k(3) by (auto simp: ab kv)
  have "list_all (\<lambda>kv. vals (file_kvs (f (k, v) ls)) (fst kv) = []) its"
    using Cons.prems(3) k(4) by (auto simp: list_all_iff v)
  with Cons.IH [of "f (k, v) ls"] Cons.prems(1,2)
  have "vals (file_kvs (fold f its (f (k, v) ls))) c = (case map_of its c of Some w \<Rightarrow> [w] | None \<Rightarrow> vals (file_kvs (f (k, v) ls)) c)"
    "list_all no_newline (f (k, v) ls) \<longrightarrow> list_all no_newline (fold f its (f (k, v) ls))" by auto
  moreover have "map_of its k = None" using k(4) by (simp add: map_of_eq_None_iff)
  ultimately show ?case using nn by (simp add: kv v split: option.split)
qed simp

lemma map_of_unmarked: "map_of (filter (\<lambda>kv. fst kv \<notin> M) xs) c = (if c \<in> M then None else map_of xs c)"
  by (induction xs) auto

lemma edited_lines_vals:
  assumes c: "clean_json cfg"
  shows "vals (file_kvs (edited_lines cfg ls)) k = (case map_of (items cfg) k of
      None \<Rightarrow> vals (file_kvs ls) k
    | Some w \<Rightarrow> (if vals (file_kvs ls) k = [] then [w] else map (\<lambda>_. w) (vals (file_kvs ls) k)))"
    and "list_all no_newline ls \<Longrightarrow> list_all no_newline (edited_lines cfg ls)"
proof -
  let ?M = "set (List.map_filter snd (map (edit_line cfg) ls))"
  let ?e = "map fst (map (edit_line cfg) ls)"
  let ?b = "filter (\<lambda>kv. fst kv \<notin> ?M) (basic_items cfg)"
  let ?a = "filter (\<lambda>kv. fst kv \<notin> ?M) (cj_additional cfg)"
  let ?ls1 = "add_basic cfg (List.map_filter snd (map (edit_line cfg) ls)) ?e"
  have e: "vals (file_kvs ?e) k = (case map_of (items cfg) k of
      Some w \<Rightarrow> map (\<lambda>_. w) (vals (file_kvs ls) k) | None \<Rightarrow> vals (file_kvs ls) k)" for k
    using edited_vals [OF c, of ls k] by (simp add: o_def)
  have known: "map_of (items cfg) (fst kv) \<noteq> None" if "kv \<in> set (items cfg)" for kv
    using that by (auto simp: map_of_eq_None_iff)
  have d: "distinct (map fst (items cfg))" by (rule items_distinct [OF c])
  then have db: "distinct (map fst ?b)" and da: "distinct (map fst ?a)"
    by (auto simp: items_def intro: distinct_map_filter)
  have ok: "list_all (\<lambda>(k, v). ini_key k \<and> plain_value v \<and> ckey k = k) ?b"
    "list_all (\<lambda>(k, v). ini_key k \<and> plain_value v \<and> ckey k = k) ?a"
    using items_clean [OF c] by (auto simp: list_all_iff items_def)
  have empty: "vals (file_kvs ?e) (fst kv) = []" if "kv \<in> set (items cfg)" "fst kv \<notin> ?M" for kv
    unfolding e using that known [of kv] marked_iff [OF c, of "fst kv" ls] by (auto split: option.split)
  have eb: "list_all (\<lambda>kv. vals (file_kvs ?e) (fst kv) = []) ?b" using empty by (auto simp: list_all_iff items_def)
  note b = add_all [OF basic_adds db ok(1) eb]
  have ls1: "?ls1 = fold (\<lambda>kv. insert_at (case position (\<lambda>l. l = ''[local]'') ?e of Some p \<Rightarrow> p + 1 | None \<Rightarrow> 0)
      (setting (fst kv) (snd kv))) ?b ?e" by (simp add: add_basic_def Let_def)
  have v1: "vals (file_kvs ?ls1) k = (case map_of ?b k of Some w \<Rightarrow> [w] | None \<Rightarrow> vals (file_kvs ?e) k)" for k
    unfolding ls1 using b by blast
  have none: "map_of ?b (fst kv) = None" if "kv \<in> set ?a" for kv
    using that d by (force simp: map_of_eq_None_iff items_def)
  have "vals (file_kvs ?ls1) (fst kv) = []" if "kv \<in> set ?a" for kv
    unfolding v1 none [OF that] using empty [of kv] that by (simp add: items_def)
  then have "list_all (\<lambda>kv. vals (file_kvs ?ls1) (fst kv) = []) ?a" by (simp only: list_all_iff) blast
  note a = add_all [OF setting_adds da ok(2) this]
  have el: "edited_lines cfg ls = fold add_setting ?a ?ls1" by (simp add: edited_lines_def Let_def)
  show "vals (file_kvs (edited_lines cfg ls)) k = (case map_of (items cfg) k of
      None \<Rightarrow> vals (file_kvs ls) k
    | Some w \<Rightarrow> (if vals (file_kvs ls) k = [] then [w] else map (\<lambda>_. w) (vals (file_kvs ls) k)))"
  proof (cases "k \<in> ?M")
    case True
    then show ?thesis unfolding el a [THEN conjunct1] v1 map_of_unmarked e
      using marked_iff [OF c, of k ls] by (auto split: option.split)
  next
    case False
    then show ?thesis unfolding el a [THEN conjunct1] v1 map_of_unmarked e
      using marked_iff [OF c, of k ls] basic_not_additional [OF c, of k] by (auto simp: items_lookup split: option.split)
  qed
  show "list_all no_newline ls \<Longrightarrow> list_all no_newline (edited_lines cfg ls)"
    using a b edit_line_kv(3) [OF c] unfolding el ls1 by (simp add: list_all_iff)
qed

section \<open>What is read\<close>

definition read_kvs :: "(string \<times> string) list \<Rightarrow> config_json \<Rightarrow> config_json" where
  "read_kvs kvs cfg = fold (\<lambda>(k, v). read_field k v) kvs cfg"

lemma parse_ini_kvs: "parse_ini_to_config_json s = read_kvs (file_kvs (str_lines s)) empty_json"
proof -
  have "fold (\<lambda>line cfg. case line_kv line of Some (key, v) \<Rightarrow> read_field key v cfg | None \<Rightarrow> cfg) ls cfg =
      read_kvs (file_kvs ls) cfg" for ls cfg
    by (induction ls arbitrary: cfg) (auto simp: read_kvs_def split: option.split)
  then show ?thesis by (simp add: parse_ini_to_config_json_def)
qed

lemma read_kvs_simps [simp]:
  "read_kvs [] cfg = cfg" "read_kvs (kv # kvs) cfg = read_kvs kvs (read_field (fst kv) (snd kv) cfg)"
  by (simp_all add: read_kvs_def split_beta)

lemma read_field_fields:
  "cj_data_path (read_field k v cfg) = (if ckey k = ''eloq_data_path'' then v else cj_data_path cfg)"
  "cj_data_store (read_field k v cfg) = (if ckey k = ''enable_data_store'' then truthy v else cj_data_store cfg)"
  "cj_wal (read_field k v cfg) = (if ckey k = ''enable_wal'' then truthy v else cj_wal cfg)"
  "cj_io_uring (read_field k v cfg) = (if ckey k = ''enable_io_uring'' then truthy v else cj_io_uring cfg)"
  "cj_checkpoint (read_field k v cfg) = (if ckey k = ''checkpointer_interval''
     then case parse_u32 v of Some m \<Rightarrow> Some m | None \<Rightarrow> cj_checkpoint cfg else cj_checkpoint cfg)"
  "cj_cache (read_field k v cfg) = (if ckey k = ''enable_cache_replacement'' then Some (truthy v) else cj_cache cfg)"
  "cj_additional (read_field k v cfg) = (if basic_key k then cj_additional cfg else im_insert k v (cj_additional cfg))"
  by (simp_all add: read_field_def ckey_def basic_key_def split: option.split)

text \<open>Each field is decided by the values of its key, in their order.\<close>

lemma read_kvs_fields:
  "cj_data_path (read_kvs kvs cfg) = fold (\<lambda>v _. v) (vals kvs ''eloq_data_path'') (cj_data_path cfg) \<and>
   cj_data_store (read_kvs kvs cfg) = fold (\<lambda>v _. truthy v) (vals kvs ''enable_data_store'') (cj_data_store cfg) \<and>
   cj_wal (read_kvs kvs cfg) = fold (\<lambda>v _. truthy v) (vals kvs ''enable_wal'') (cj_wal cfg) \<and>
   cj_io_uring (read_kvs kvs cfg) = fold (\<lambda>v _. truthy v) (vals kvs ''enable_io_uring'') (cj_io_uring cfg) \<and>
   cj_checkpoint (read_kvs kvs cfg) = fold (\<lambda>v n. case parse_u32 v of Some m \<Rightarrow> Some m | None \<Rightarrow> n)
     (vals kvs ''checkpointer_interval'') (cj_checkpoint cfg) \<and>
   cj_cache (read_kvs kvs cfg) = fold (\<lambda>v _. Some (truthy v)) (vals kvs ''enable_cache_replacement'') (cj_cache cfg)"
  by (induction kvs arbitrary: cfg) (simp_all add: read_field_fields)

lemma ckey_basic: "\<not> basic_key k \<Longrightarrow> ckey k' = k \<longleftrightarrow> k' = k"
  by (auto simp: ckey_def basic_key_def)

lemma read_kvs_additional:
  "map_of (cj_additional (read_kvs kvs cfg)) k =
   (if basic_key k then map_of (cj_additional cfg) k else fold (\<lambda>v _. Some v) (vals kvs k) (map_of (cj_additional cfg) k))"
proof (induction kvs arbitrary: cfg)
  case (Cons kv kvs)
  show ?case
    by (cases "basic_key k"; cases "basic_key (fst kv)")
      (auto simp: Cons read_field_fields im_insert_def update_conv' ckey_basic)
qed simp

lemma read_kvs_list:
  "cj_additional (read_kvs kvs cfg) = im_extend (cj_additional cfg) (filter (\<lambda>kv. \<not> basic_key (fst kv)) kvs)"
  by (induction kvs arbitrary: cfg) (auto simp: read_field_fields)

lemma vals_distinct:
  "distinct (map fst its) \<Longrightarrow> (\<And>k v. (k, v) \<in> set its \<Longrightarrow> ckey k = k) \<Longrightarrow>
   vals its k = (case map_of its k of None \<Rightarrow> [] | Some w \<Rightarrow> [w])"
proof (induction its)
  case (Cons kv its)
  obtain k' v' where kv: "kv = (k', v')" by (cases kv)
  have "map_of its k' = None" using Cons.prems(1) by (simp add: kv map_of_eq_None_iff)
  moreover have "vals its k = (case map_of its k of None \<Rightarrow> [] | Some w \<Rightarrow> [w])"
    using Cons.prems by (intro Cons.IH) auto
  ultimately show ?case using Cons.prems(2) [of k' v'] by (cases "k' = k") (auto simp: kv)
qed simp

lemma fold_replaced: "(\<And>x. f w x = y) \<Longrightarrow> fold f (if vs = [] then [w] else map (\<lambda>_. w) vs) x = y"
proof -
  assume f: "\<And>x. f w x = y"
  have "vs \<noteq> [] \<Longrightarrow> fold f (map (\<lambda>_. w) vs) x = y" by (induction vs rule: rev_induct) (simp_all add: f)
  then show ?thesis by (simp add: f)
qed

lemma str_lines_no_newline: "list_all no_newline (str_lines s)"
proof -
  have p: "no_newline l" if "l \<in> set (split_on is_nl s)" for l
    using split_on_parts [OF that] by (auto simp: no_newline_def list_all_iff)
  then have "no_newline (strip_cr l)" if "l \<in> set (split_on is_nl s)" for l
    using p [OF that] by (auto simp: strip_cr_def no_newline_def list_all_iff dest: in_set_butlastD)
  then show ?thesis using p by (auto simp: str_lines_def Let_def list_all_iff dest: in_set_butlastD)
qed

lemma truthy_show: "truthy (show_bool b) = b"
  by (cases b; simp only:) code_simp+

section \<open>Properties\<close>

text \<open>C18. The edited node file reads back. After the editor has brought a file in step with a node's
  configuration, reading the file gives that configuration: every field and every additional setting of
  it, whatever the file had and wherever the settings stood; the other settings of the file, and an
  optional field that the configuration leaves open, keep the value they had.\<close>

theorem edited_file_reads_back:
  assumes "clean_json cfg"
  shows "let old = parse_ini_to_config_json content;
      new = parse_ini_to_config_json (update_existing_ini_file content cfg)
    in cj_data_path new = cj_data_path cfg \<and> cj_data_store new = cj_data_store cfg \<and>
       cj_wal new = cj_wal cfg \<and> cj_io_uring new = cj_io_uring cfg \<and>
       cj_checkpoint new = (case cj_checkpoint cfg of Some n \<Rightarrow> Some n | None \<Rightarrow> cj_checkpoint old) \<and>
       cj_cache new = (case cj_cache cfg of Some b \<Rightarrow> Some b | None \<Rightarrow> cj_cache old) \<and>
       map_of (cj_additional new) = map_of (cj_additional old) ++ map_of (cj_additional cfg)"
proof -
  let ?ls = "str_lines content"
  have new: "parse_ini_to_config_json (update_existing_ini_file content cfg) =
      read_kvs (file_kvs (edited_lines cfg ?ls)) empty_json"
    unfolding parse_ini_kvs update_existing_ini_file_def
    using edited_lines_vals(2) [OF assms] str_lines_no_newline by (simp add: file_kvs_lines)
  note v = edited_lines_vals(1) [OF assms, of ?ls]
  have add: "map_of (cj_additional (read_kvs (file_kvs (edited_lines cfg ?ls)) empty_json)) k =
      (map_of (cj_additional (read_kvs (file_kvs ?ls) empty_json)) ++ map_of (cj_additional cfg)) k" for k
  proof (cases "basic_key k")
    case True
    then show ?thesis using additional_basic [OF assms True] by (simp add: read_kvs_additional empty_json_def map_add_def)
  next
    case False
    then have "map_of (basic_items cfg) k = None" using basic_keys by (metis map_of_SomeD not_Some_eq)
    then show ?thesis using False
      by (simp add: read_kvs_additional empty_json_def map_add_def v items_lookup fold_replaced split: option.split)
  qed
  have "basic_key ''checkpointer_interval''" "basic_key ''enable_cache_replacement''" by (simp_all add: basic_key_def)
  note unset = this [THEN additional_basic [OF assms]]
  show ?thesis unfolding Let_def new unfolding parse_ini_kvs
  proof (intro conjI)
    show "map_of (cj_additional (read_kvs (file_kvs (edited_lines cfg ?ls)) empty_json)) =
        map_of (cj_additional (read_kvs (file_kvs ?ls) empty_json)) ++ map_of (cj_additional cfg)"
      by (rule ext) (rule add)
  qed (simp_all add: read_kvs_fields v items_lookup basic_lookup fold_replaced truthy_show unset split: option.split)
qed

definition sample_json :: config_json where
  "sample_json = \<lparr>cj_data_path = ''/d'', cj_data_store = True, cj_wal = False, cj_io_uring = False,
     cj_checkpoint = Some 5, cj_cache = None, cj_additional = [(''maxclients'', ''10'')]\<rparr>"

lemma sample_json_clean: "clean_json sample_json"
  by code_simp

lemma edited_file_reads_back_witness:
  "cj_checkpoint (parse_ini_to_config_json (update_existing_ini_file (''checkpoint_interval=3'') sample_json)) = Some 5 \<and>
   map_of (cj_additional (parse_ini_to_config_json (update_existing_ini_file (''checkpoint_interval=3'') sample_json)))
     ''maxclients'' = Some ''10''"
  using edited_file_reads_back [OF sample_json_clean, of "''checkpoint_interval=3''"] by (simp add: Let_def sample_json_def)

text \<open>A new node file reads back. The file that is written for a node without one gives, when it is
  read, the configuration it was written from, with its additional settings in the same order.\<close>

theorem new_file_reads_back:
  assumes "clean_json cfg"
  shows "parse_ini_to_config_json (config_json_to_ini cfg) = cfg"
proof -
  let ?ls = "''[local]'' # map (\<lambda>kv. setting (fst kv) (snd kv)) (items cfg)"
  have "concat (map (\<lambda>l. l @ [CHR 0x0A]) ls) = join [CHR 0x0A] (ls @ [[]])" for ls :: "string list"
    by (induction ls rule: induct_list012) auto
  then have c: "config_json_to_ini cfg = join [CHR 0x0A] (?ls @ [[]])"
    by (simp only: config_json_to_ini_def items_def)
  have set_ok: "ini_key (fst kv) \<and> plain_value (snd kv)" if "kv \<in> set (items cfg)" for kv
    using items_clean [OF assms, of "fst kv" "snd kv"] that by simp
  have "no_newline ''[local]''" by code_simp
  moreover have "\<forall>kv \<in> set (items cfg). no_newline (setting (fst kv) (snd kv))"
    using set_ok no_newline_setting by blast
  moreover have "no_newline []" by (simp add: no_newline_def)
  ultimately have "list_all no_newline (?ls @ [[]])" by (simp add: list_all_iff)
  note file_kvs_lines [OF this, folded c]
  moreover have "file_kvs [[]] = []" by (simp add: line_kv_comment comment_line_def)
  ultimately have "file_kvs (str_lines (config_json_to_ini cfg)) = file_kvs ?ls"
    by (simp only: file_kvs_simps(2) append_Nil2)
  moreover have "list_all (\<lambda>kv. ini_key (fst kv) \<and> plain_value (snd kv)) its \<Longrightarrow>
      file_kvs (map (\<lambda>kv. setting (fst kv) (snd kv)) its) = its" for its
    by (induction its) (auto simp: line_kv_setting)
  ultimately have kvs: "file_kvs (str_lines (config_json_to_ini cfg)) = items cfg"
    using set_ok by (simp add: header_no_kv list_all_iff)
  have v: "vals (items cfg) k = (case map_of (items cfg) k of None \<Rightarrow> [] | Some w \<Rightarrow> [w])" for k
    using items_clean [OF assms] items_distinct [OF assms] by (intro vals_distinct) auto
  have "filter (\<lambda>kv. \<not> basic_key (fst kv)) (basic_items cfg) = []"
    using basic_keys [of _ _ cfg] by (auto simp: filter_empty_conv)
  moreover have "filter (\<lambda>kv. \<not> basic_key (fst kv)) (cj_additional cfg) = cj_additional cfg"
    using assms by (auto simp: clean_json_def list_all_iff filter_id_conv)
  ultimately have "filter (\<lambda>kv. \<not> basic_key (fst kv)) (items cfg) = cj_additional cfg"
    by (simp only: items_def filter_append append_Nil)
  then have add: "cj_additional (read_kvs (items cfg) empty_json) = cj_additional cfg"
    using assms im_extend_disjoint [of "cj_additional cfg" "[]"] by (simp add: read_kvs_list clean_json_def)
  have "basic_key ''checkpointer_interval''" "basic_key ''enable_cache_replacement''" by (simp_all add: basic_key_def)
  note unset = this [THEN additional_basic [OF assms]]
  show ?thesis unfolding parse_ini_kvs kvs
    by (intro config_json.equality)
      (simp_all add: read_kvs_fields v items_lookup basic_lookup truthy_show add unset split: option.split)
qed

lemma new_file_reads_back_witness:
  "parse_ini_to_config_json (config_json_to_ini sample_json) = sample_json"
  by (rule new_file_reads_back [OF sample_json_clean])

end
