(* ===== verification/State_Tables.thy ===== *)
theory State_Tables
  imports Ini_Lines Hosts
begin

text \<open>
  The state database (\<open>src/state/\<close>): six tables with a primary key each, and the topology file that
  is kept for every cluster. A table is a list of rows; \<open>put\<close> is the insert with its conflict clause,
  \<open>load\<close> and \<open>del\<close> filter. What sqlx and SQLite do beyond that (connections, encoding, failing
  statements) is outside, and so are failing operations on the topology files; times are natural
  numbers. A path is its text, which needs cluster names that are names of directories (\<open>dir_name\<close>).
\<close>

section \<open>Rows with a key\<close>

definition upsert :: "('r \<Rightarrow> 'k) \<Rightarrow> ('r \<Rightarrow> 'r \<Rightarrow> 'r) \<Rightarrow> 'r \<Rightarrow> 'r list \<Rightarrow> 'r list" where
  "upsert key merge r rows =
     (if list_ex (\<lambda>x. key x = key r) rows then map (\<lambda>x. if key x = key r then merge x r else x) rows
      else rows @ [r])"

definition row_at :: "('r \<Rightarrow> 'k) \<Rightarrow> 'k \<Rightarrow> 'r list \<Rightarrow> 'r option" where
  "row_at key k rows = find (\<lambda>r. key r = k) rows"

text \<open>A table: the conflict clause does not change the key.\<close>

locale keyed_table =
  fixes key :: "'r \<Rightarrow> 'k" and merge :: "'r \<Rightarrow> 'r \<Rightarrow> 'r"
  assumes merge_key: "key x = key r \<Longrightarrow> key (merge x r) = key r"
begin

lemma keys_upsert: "map key (upsert key merge r rows) =
    (if key r \<in> key ` set rows then map key rows else map key rows @ [key r])"
  using merge_key by (auto simp: upsert_def list_ex_iff intro: rev_image_eqI)

lemma distinct_upsert: "distinct (map key rows) \<Longrightarrow> distinct (map key (upsert key merge r rows))"
  by (simp add: keys_upsert)

lemma row_at_replace:
  "row_at key k (map (\<lambda>x. if key x = key r then merge x r else x) rows) =
   (if k = key r then map_option (\<lambda>x. merge x r) (row_at key k rows) else row_at key k rows)"
  by (induction rows) (auto simp: row_at_def merge_key)

lemma row_at_append: "row_at key k (rows @ [r]) = (case row_at key k rows of
    None \<Rightarrow> if key r = k then Some r else None | Some x \<Rightarrow> Some x)"
  by (induction rows) (auto simp: row_at_def)

lemma row_at_ex: "list_ex (\<lambda>x. key x = k) rows \<longleftrightarrow> row_at key k rows \<noteq> None"
  by (auto simp: row_at_def find_None_iff list_ex_iff)

lemma row_at_upsert:
  "row_at key k (upsert key merge r rows) =
   (if k = key r then Some (case row_at key k rows of None \<Rightarrow> r | Some x \<Rightarrow> merge x r) else row_at key k rows)"
  by (auto simp: upsert_def row_at_replace row_at_append row_at_ex split: option.split)

lemma distinct_del: "distinct (map key rows) \<Longrightarrow> distinct (map key (filter P rows))"
  by (rule distinct_map_filter)

end

lemma row_at_Some: "row_at key k rows = Some r \<Longrightarrow> r \<in> set rows \<and> key r = k"
  by (auto simp: row_at_def find_Some_iff)

lemma row_at_unique: "distinct (map key rows) \<Longrightarrow> r \<in> set rows \<Longrightarrow> row_at key (key r) rows = Some r"
  by (induction rows) (auto simp: row_at_def image_iff)

lemma first_of_cluster:
  "(case filter (\<lambda>r. key r = k) rows of [] \<Rightarrow> None | r # _ \<Rightarrow> Some r) = row_at key k rows"
  by (induction rows) (auto simp: row_at_def)

section \<open>The tables\<close>

type_synonym timestamp = nat

record deployment_row =
  dpr_cluster :: string
  dpr_config :: string
  dpr_hosts :: string
  dpr_created :: timestamp
  dpr_updated :: timestamp

definition deployment_merge :: "deployment_row \<Rightarrow> deployment_row \<Rightarrow> deployment_row" where
  "deployment_merge x r = x\<lparr>dpr_config := dpr_config r, dpr_hosts := dpr_hosts r\<rparr>"

record index_row =
  ixr_cluster :: string
  ixr_path :: string
  ixr_hosts :: string
  ixr_created :: timestamp
  ixr_updated :: timestamp

definition index_merge :: "index_row \<Rightarrow> index_row \<Rightarrow> index_row" where
  "index_merge x r = x\<lparr>ixr_path := ixr_path r, ixr_hosts := ixr_hosts r, ixr_updated := ixr_updated r\<rparr>"

record status_row =
  tsr_cluster :: string
  tsr_task :: string
  tsr_command :: string
  tsr_host :: string
  tsr_status :: u16
  tsr_created :: timestamp
  tsr_updated :: timestamp

definition status_key :: "status_row \<Rightarrow> string \<times> string \<times> string \<times> string" where
  "status_key r = (tsr_cluster r, tsr_task r, tsr_command r, tsr_host r)"

definition status_merge :: "status_row \<Rightarrow> status_row \<Rightarrow> status_row" where
  "status_merge x r = x\<lparr>tsr_status := tsr_status r, tsr_updated := tsr_updated r\<rparr>"

record snapshot_row =
  snr_cluster :: string
  snr_ts :: timestamp
  snr_status :: int
  snr_path :: string
  snr_host :: string
  snr_user :: string

definition snapshot_key :: "snapshot_row \<Rightarrow> string \<times> timestamp" where
  "snapshot_key r = (snr_cluster r, snr_ts r)"

definition snapshot_merge :: "snapshot_row \<Rightarrow> snapshot_row \<Rightarrow> snapshot_row" where
  "snapshot_merge x r = x\<lparr>snr_status := snr_status r, snr_path := snr_path r, snr_host := snr_host r, snr_user := snr_user r\<rparr>"

record tx_row =
  txr_cluster :: string
  txr_group_count :: u32
  txr_group_id :: u32
  txr_node_id :: u32
  txr_role :: int
  txr_host :: string
  txr_port :: u16
  txr_config :: config_json
  txr_created :: timestamp
  txr_updated :: timestamp

definition tx_key :: "tx_row \<Rightarrow> string \<times> u32 \<times> string \<times> u16" where
  "tx_key r = (txr_cluster r, txr_group_id r, txr_host r, txr_port r)"

definition tx_merge :: "tx_row \<Rightarrow> tx_row \<Rightarrow> tx_row" where
  "tx_merge x r = x\<lparr>txr_group_count := txr_group_count r, txr_node_id := txr_node_id r, txr_role := txr_role r,
     txr_config := txr_config r, txr_updated := txr_updated r\<rparr>"

record log_row =
  lgr_cluster :: string
  lgr_group_count :: u32
  lgr_group_id :: u32
  lgr_node_id :: u32
  lgr_host :: string
  lgr_port :: u16
  lgr_data_dirs :: "string option"
  lgr_created :: timestamp
  lgr_updated :: timestamp

definition log_key :: "log_row \<Rightarrow> string \<times> string \<times> u16" where
  "log_key r = (lgr_cluster r, lgr_host r, lgr_port r)"

definition log_merge :: "log_row \<Rightarrow> log_row \<Rightarrow> log_row" where
  "log_merge x r = x\<lparr>lgr_group_count := lgr_group_count r, lgr_group_id := lgr_group_id r, lgr_node_id := lgr_node_id r,
     lgr_data_dirs := lgr_data_dirs r, lgr_updated := lgr_updated r\<rparr>"

text \<open>A missing directory list is stored as the empty text.\<close>

definition log_values :: "log_row \<Rightarrow> log_row" where
  "log_values r = r\<lparr>lgr_data_dirs := Some (case lgr_data_dirs r of None \<Rightarrow> [] | Some ds \<Rightarrow> ds)\<rparr>"

interpretation deployments: keyed_table dpr_cluster deployment_merge
  by unfold_locales (simp add: deployment_merge_def)

interpretation cluster_index: keyed_table ixr_cluster index_merge
  by unfold_locales (simp add: index_merge_def)

interpretation task_status: keyed_table status_key status_merge
  by unfold_locales (simp add: status_key_def status_merge_def)

interpretation snapshots: keyed_table snapshot_key snapshot_merge
  by unfold_locales (simp add: snapshot_key_def snapshot_merge_def)

interpretation tx_topology: keyed_table tx_key tx_merge
  by unfold_locales (simp add: tx_key_def tx_merge_def)

interpretation log_topology: keyed_table log_key log_merge
  by unfold_locales (simp add: log_key_def log_merge_def)

section \<open>The state manager\<close>

record mgr_state =
  st_deployments :: "deployment_row list"
  st_index :: "index_row list"
  st_status :: "status_row list"
  st_snapshots :: "snapshot_row list"
  st_tx :: "tx_row list"
  st_log :: "log_row list"
  st_files :: "string \<rightharpoonup> string"

definition empty_state :: mgr_state where
  "empty_state = \<lparr>st_deployments = [], st_index = [], st_status = [], st_snapshots = [], st_tx = [], st_log = [],
     st_files = Map.empty\<rparr>"

definition cluster_dir :: "string \<Rightarrow> string \<Rightarrow> string" where
  "cluster_dir home cluster = home @ ''/clusters/'' @ cluster"

definition cluster_topology_path :: "string \<Rightarrow> string \<Rightarrow> string" where
  "cluster_topology_path home cluster = cluster_dir home cluster @ ''/topology.yaml''"

text \<open>
  Writing and parsing YAML is serde's: \<open>to_yaml\<close>, \<open>load_file\<close> (\<open>DeployConfig::load\<close> on the contents of the
  file) and \<open>load_string\<close> (\<open>DeployConfig::load_from_string\<close>) are arguments.
\<close>

definition read_topology :: "(string \<Rightarrow> deploy_config res) \<Rightarrow> mgr_state \<Rightarrow> string \<Rightarrow> deploy_config res" where
  "read_topology load_file st path = (case st_files st path of
     None \<Rightarrow> Inl (Err (''cannot read '' @ path)) | Some text \<Rightarrow> load_file text)"

definition save_deployment_config :: "string \<Rightarrow> (deploy_config \<Rightarrow> string res) \<Rightarrow> timestamp \<Rightarrow> deploy_config \<Rightarrow> bool \<Rightarrow>
    mgr_state \<Rightarrow> mgr_state res" where
  "save_deployment_config home to_yaml now cfg upsrt st =
     (let cluster = cluster_name (cfg_deployment cfg);
          old = filter (\<lambda>r. ixr_cluster r = cluster) (st_index st);
          path = cluster_topology_path home cluster
      in if old \<noteq> [] \<and> \<not> upsrt then Inl (Err (''cluster '' @ cluster @ '' already exists''))
         else bindE (to_yaml cfg) (\<lambda>text.
           Inr (st\<lparr>st_files := (st_files st)(path \<mapsto> text),
             st_index := upsert ixr_cluster index_merge
               \<lparr>ixr_cluster = cluster, ixr_path = path, ixr_hosts = join '';'' (get_unique_host_list cfg),
                ixr_created = (case old of [] \<Rightarrow> now | r # _ \<Rightarrow> ixr_created r), ixr_updated = now\<rparr> (st_index st)\<rparr>)))"

definition load_deployment_from_state :: "(string \<Rightarrow> deploy_config res) \<Rightarrow> string \<Rightarrow> mgr_state \<Rightarrow>
    deploy_config option res" where
  "load_deployment_from_state load_file cluster st =
     (case filter (\<lambda>r. ixr_cluster r = cluster) (st_index st) of
        [] \<Rightarrow> Inr None
      | r # _ \<Rightarrow> bindE (read_topology load_file st (ixr_path r)) (\<lambda>cfg. Inr (Some cfg)))"

definition list_deployments :: "(string \<Rightarrow> deploy_config res) \<Rightarrow> mgr_state \<Rightarrow> deploy_config list res" where
  "list_deployments load_file st = mapE (\<lambda>r. read_topology load_file st (ixr_path r)) (st_index st)"

definition load_task_status :: "string \<Rightarrow> u16 option \<Rightarrow> string list option \<Rightarrow> mgr_state \<Rightarrow> status_row list" where
  "load_task_status cluster status commands st = filter (\<lambda>r. tsr_cluster r = cluster \<and>
     (case status of None \<Rightarrow> True | Some s \<Rightarrow> tsr_status r = s) \<and>
     (case commands of None \<Rightarrow> True | Some cs \<Rightarrow> tsr_command r \<in> set cs)) (st_status st)"

definition save_task_status :: "status_row \<Rightarrow> mgr_state \<Rightarrow> mgr_state" where
  "save_task_status r st = st\<lparr>st_status := upsert status_key status_merge r (st_status st)\<rparr>"

definition list_snapshots :: "string \<Rightarrow> mgr_state \<Rightarrow> snapshot_row list" where
  "list_snapshots cluster st = filter (\<lambda>r. snr_cluster r = cluster) (st_snapshots st)"

definition get_from_snapshot_path :: "string \<Rightarrow> mgr_state \<Rightarrow> snapshot_row list" where
  "get_from_snapshot_path path st = filter (\<lambda>r. snr_path r = path) (st_snapshots st)"

definition get_snapshot_by_ts :: "string \<Rightarrow> timestamp \<Rightarrow> mgr_state \<Rightarrow> snapshot_row option" where
  "get_snapshot_by_ts cluster ts st =
     (case filter (\<lambda>r. snr_cluster r = cluster \<and> snr_ts r = ts) (st_snapshots st) of [] \<Rightarrow> None | r # _ \<Rightarrow> Some r)"

definition put_snapshot :: "snapshot_row \<Rightarrow> mgr_state \<Rightarrow> mgr_state" where
  "put_snapshot r st = st\<lparr>st_snapshots := upsert snapshot_key snapshot_merge r (st_snapshots st)\<rparr>"

definition remove_snapshots :: "string \<Rightarrow> timestamp option \<Rightarrow> mgr_state \<Rightarrow> mgr_state" where
  "remove_snapshots cluster cutoff st = st\<lparr>st_snapshots := filter (\<lambda>r. \<not> (snr_cluster r = cluster \<and>
     (case cutoff of None \<Rightarrow> True | Some c \<Rightarrow> snr_ts r < c))) (st_snapshots st)\<rparr>"

text \<open>\<open>fs::remove_dir_all\<close> on the directory of the cluster.\<close>

definition remove_dir_all :: "string \<Rightarrow> (string \<rightharpoonup> string) \<Rightarrow> (string \<rightharpoonup> string)" where
  "remove_dir_all dir files = (\<lambda>p. if starts_with (dir @ ''/'') p then None else files p)"

definition delete_cluster :: "string \<Rightarrow> string \<Rightarrow> mgr_state \<Rightarrow> mgr_state" where
  "delete_cluster home cluster st = st\<lparr>
     st_status := filter (\<lambda>r. tsr_cluster r \<noteq> cluster) (st_status st),
     st_index := filter (\<lambda>r. ixr_cluster r \<noteq> cluster) (st_index st),
     st_files := remove_dir_all (cluster_dir home cluster) (st_files st),
     st_tx := filter (\<lambda>r. txr_cluster r \<noteq> cluster) (st_tx st),
     st_log := filter (\<lambda>r. lgr_cluster r \<noteq> cluster) (st_log st)\<rparr>"

text \<open>The state after the loop, also when it stopped at an error, and the number of migrated rows.\<close>

fun migrate_rows :: "string \<Rightarrow> (deploy_config \<Rightarrow> string res) \<Rightarrow> (string \<Rightarrow> deploy_config res) \<Rightarrow> timestamp \<Rightarrow>
    deployment_row list \<Rightarrow> nat \<Rightarrow> mgr_state \<Rightarrow> mgr_state \<times> nat res" where
  "migrate_rows home to_yaml load_string now [] migrated st = (st, Inr migrated)"
| "migrate_rows home to_yaml load_string now (r # rs) migrated st =
     (case bindE (load_string (dpr_config r)) (\<lambda>cfg. save_deployment_config home to_yaml now cfg True st) of
        Inl e \<Rightarrow> (st, Inl e)
      | Inr st' \<Rightarrow> migrate_rows home to_yaml load_string now rs (Suc migrated) st')"

definition migrate_legacy_deployments :: "string \<Rightarrow> (deploy_config \<Rightarrow> string res) \<Rightarrow> (string \<Rightarrow> deploy_config res) \<Rightarrow>
    timestamp \<Rightarrow> mgr_state \<Rightarrow> mgr_state \<times> nat res" where
  "migrate_legacy_deployments home to_yaml load_string now st =
     migrate_rows home to_yaml load_string now (st_deployments st) 0 st"

definition load_topology_tx :: "string \<Rightarrow> mgr_state \<Rightarrow> tx_row list" where
  "load_topology_tx cluster st = filter (\<lambda>r. txr_cluster r = cluster) (st_tx st)"

definition load_topology_log :: "string \<Rightarrow> mgr_state \<Rightarrow> log_row list" where
  "load_topology_log cluster st = filter (\<lambda>r. lgr_cluster r = cluster) (st_log st)"

definition put_tx :: "tx_row \<Rightarrow> mgr_state \<Rightarrow> mgr_state" where
  "put_tx r st = st\<lparr>st_tx := upsert tx_key tx_merge r (st_tx st)\<rparr>"

definition put_log :: "log_row \<Rightarrow> mgr_state \<Rightarrow> mgr_state" where
  "put_log r st = st\<lparr>st_log := upsert log_key log_merge (log_values r) (st_log st)\<rparr>"

section \<open>Reachable states\<close>

text \<open>
  One step is one operation on the database, on behalf of a command or a task. Cluster names are
  names of directories of their own below \<open>clusters\<close>; nothing in the source checks that.
\<close>

definition dir_name :: "string \<Rightarrow> bool" where
  "dir_name c \<longleftrightarrow> list_all (\<lambda>x. \<not> is_slash x) c \<and> c \<noteq> [] \<and> c \<noteq> ''.'' \<and> c \<noteq> ''..''"

inductive mgr_step :: "string \<Rightarrow> (deploy_config \<Rightarrow> string res) \<Rightarrow> (string \<Rightarrow> deploy_config res) \<Rightarrow>
    mgr_state \<Rightarrow> mgr_state \<Rightarrow> bool" for home to_yaml load_string where
  save: "dir_name (cluster_name (cfg_deployment cfg)) \<Longrightarrow>
    save_deployment_config home to_yaml now cfg u st = Inr st' \<Longrightarrow> mgr_step home to_yaml load_string st st'"
| status: "mgr_step home to_yaml load_string st (save_task_status s st)"
| snapshot: "mgr_step home to_yaml load_string st (put_snapshot n st)"
| forget: "mgr_step home to_yaml load_string st (remove_snapshots c cutoff st)"
| delete: "dir_name c \<Longrightarrow> mgr_step home to_yaml load_string st (delete_cluster home c st)"
| migrate: "list_all (\<lambda>r. case load_string (dpr_config r) of Inr cfg \<Rightarrow> dir_name (cluster_name (cfg_deployment cfg)) | Inl _ \<Rightarrow> True)
    (st_deployments st) \<Longrightarrow> migrate_legacy_deployments home to_yaml load_string now st = (st', r) \<Longrightarrow>
    mgr_step home to_yaml load_string st st'"
| tx: "mgr_step home to_yaml load_string st (put_tx t st)"
| txdel: "mgr_step home to_yaml load_string st (st\<lparr>st_tx := filter P (st_tx st)\<rparr>)"
| log: "mgr_step home to_yaml load_string st (put_log l st)"
| logdel: "mgr_step home to_yaml load_string st (st\<lparr>st_log := filter Q (st_log st)\<rparr>)"

inductive mgr_reach :: "string \<Rightarrow> (deploy_config \<Rightarrow> string res) \<Rightarrow> (string \<Rightarrow> deploy_config res) \<Rightarrow> mgr_state \<Rightarrow> bool"
  for home to_yaml load_string where
  init: "distinct (map dpr_cluster ds) \<Longrightarrow> mgr_reach home to_yaml load_string (empty_state\<lparr>st_deployments := ds\<rparr>)"
| step: "mgr_reach home to_yaml load_string st \<Longrightarrow> mgr_step home to_yaml load_string st st' \<Longrightarrow>
    mgr_reach home to_yaml load_string st'"

inductive_cases mgr_stepE: "mgr_step home to_yaml load_string st st'"

definition keys_ok :: "mgr_state \<Rightarrow> bool" where
  "keys_ok st \<longleftrightarrow> distinct (map dpr_cluster (st_deployments st)) \<and> distinct (map ixr_cluster (st_index st)) \<and>
     distinct (map status_key (st_status st)) \<and> distinct (map snapshot_key (st_snapshots st)) \<and>
     distinct (map tx_key (st_tx st)) \<and> distinct (map log_key (st_log st))"

text \<open>Every cluster of the index has its topology file, at its own place.\<close>

definition files_ok :: "string \<Rightarrow> mgr_state \<Rightarrow> bool" where
  "files_ok home st \<longleftrightarrow> list_all (\<lambda>r. dir_name (ixr_cluster r) \<and> ixr_path r = cluster_topology_path home (ixr_cluster r) \<and>
     st_files st (ixr_path r) \<noteq> None) (st_index st)"

definition state_ok :: "string \<Rightarrow> mgr_state \<Rightarrow> bool" where
  "state_ok home st \<longleftrightarrow> keys_ok st \<and> files_ok home st"

lemma path_inj: "cluster_topology_path home c = cluster_topology_path home c' \<longleftrightarrow> c = c'"
  by (simp add: cluster_topology_path_def cluster_dir_def)

lemma set_upsert: "set (upsert key merge r rows) \<subseteq>
    insert r (set rows) \<union> (\<lambda>x. merge x r) ` {x \<in> set rows. key x = key r}"
  by (auto simp: upsert_def)

lemma save_result:
  assumes "save_deployment_config home to_yaml now cfg u st = Inr st'"
  shows "\<exists>y r. to_yaml cfg = Inr y \<and> ixr_cluster r = cluster_name (cfg_deployment cfg) \<and>
    ixr_path r = cluster_topology_path home (cluster_name (cfg_deployment cfg)) \<and>
    st' = st\<lparr>st_files := (st_files st)(cluster_topology_path home (cluster_name (cfg_deployment cfg)) \<mapsto> y),
      st_index := upsert ixr_cluster index_merge r (st_index st)\<rparr>"
proof -
  let ?c = "cluster_name (cfg_deployment cfg)"
  let ?r = "\<lparr>ixr_cluster = ?c, ixr_path = cluster_topology_path home ?c, ixr_hosts = join '';'' (get_unique_host_list cfg),
    ixr_created = (case filter (\<lambda>r. ixr_cluster r = ?c) (st_index st) of [] \<Rightarrow> now | r # _ \<Rightarrow> ixr_created r),
    ixr_updated = now\<rparr>"
  obtain y where "to_yaml cfg = Inr y" "st' = st\<lparr>st_files := (st_files st)(cluster_topology_path home ?c \<mapsto> y),
      st_index := upsert ixr_cluster index_merge ?r (st_index st)\<rparr>"
    using assms by (auto simp: save_deployment_config_def Let_def res_simps split: if_splits)
  then show ?thesis by (intro exI [of _ y] exI [of _ ?r]) simp
qed

lemma save_ok:
  assumes "state_ok home st" "dir_name (cluster_name (cfg_deployment cfg))"
    and "save_deployment_config home to_yaml now cfg u st = Inr st'"
  shows "state_ok home st'"
proof -
  let ?c = "cluster_name (cfg_deployment cfg)"
  from save_result [OF assms(3)] obtain y r where s: "to_yaml cfg = Inr y" "ixr_cluster r = ?c"
    "ixr_path r = cluster_topology_path home ?c"
    "st' = st\<lparr>st_files := (st_files st)(cluster_topology_path home ?c \<mapsto> y), st_index := upsert ixr_cluster index_merge r (st_index st)\<rparr>"
    by blast
  have "keys_ok st'" using assms(1) by (simp add: s(4) state_ok_def keys_ok_def cluster_index.distinct_upsert)
  moreover have "files_ok home st'"
    using assms(1,2) s(2,3) set_upsert [of ixr_cluster index_merge r "st_index st"]
    by (auto simp: s(4) state_ok_def files_ok_def list_all_iff index_merge_def dest!: subsetD)
  ultimately show ?thesis by (simp add: state_ok_def)
qed

lemma starts_with_exists: "starts_with p s \<Longrightarrow> \<exists>r. s = p @ r"
  unfolding starts_with_def by (metis append_take_drop_id)

lemma slash_parts: "a @ CHR ''/'' # x = b @ CHR ''/'' # y \<Longrightarrow> CHR ''/'' \<notin> set a \<Longrightarrow> CHR ''/'' \<notin> set b \<Longrightarrow> a = b"
proof (induction a arbitrary: b)
  case Nil
  then show ?case by (cases b) auto
next
  case (Cons c a)
  then show ?case by (cases b) auto
qed

lemma delete_ok:
  assumes "state_ok home st" "dir_name c"
  shows "state_ok home (delete_cluster home c st)"
proof -
  have other: "\<not> starts_with (cluster_dir home c @ ''/'') (cluster_topology_path home c')" if "dir_name c'" "c' \<noteq> c" for c'
  proof
    assume "starts_with (cluster_dir home c @ ''/'') (cluster_topology_path home c')"
    then obtain s where "cluster_topology_path home c' = (cluster_dir home c @ ''/'') @ s" using starts_with_exists by blast
    then have "c' @ CHR ''/'' # ''topology.yaml'' = c @ CHR ''/'' # s"
      by (simp add: cluster_topology_path_def cluster_dir_def)
    then have "c' = c" by (rule slash_parts) (use that(1) assms(2) in \<open>auto simp: dir_name_def list_all_iff is_slash_def\<close>)
    with that(2) show False by simp
  qed
  have "keys_ok (delete_cluster home c st)"
    using assms(1) by (simp add: delete_cluster_def state_ok_def keys_ok_def distinct_map_filter)
  moreover have "files_ok home (delete_cluster home c st)"
    using assms(1) other by (auto simp: delete_cluster_def state_ok_def files_ok_def list_all_iff remove_dir_all_def)
  ultimately show ?thesis by (simp add: state_ok_def)
qed

lemma migrate_ok:
  "state_ok home st \<Longrightarrow> list_all (\<lambda>r. case load_string (dpr_config r) of
     Inr cfg \<Rightarrow> dir_name (cluster_name (cfg_deployment cfg)) | Inl _ \<Rightarrow> True) rs \<Longrightarrow>
   migrate_rows home to_yaml load_string now rs n st = (st', r) \<Longrightarrow> state_ok home st'"
proof (induction rs arbitrary: n st)
  case (Cons x rs)
  show ?case
  proof (cases "bindE (load_string (dpr_config x)) (\<lambda>cfg. save_deployment_config home to_yaml now cfg True st)")
    case (Inl e)
    with Cons.prems show ?thesis by simp
  next
    case (Inr st1)
    then obtain cfg where c: "load_string (dpr_config x) = Inr cfg" "save_deployment_config home to_yaml now cfg True st = Inr st1"
      by (auto simp: res_simps)
    with Cons.prems(1,2) have "state_ok home st1" by (auto intro: save_ok)
    from Cons.IH [OF this] Cons.prems(2,3) Inr show ?thesis by simp
  qed
qed simp

lemma step_ok:
  assumes "mgr_step home to_yaml load_string st st'" "state_ok home st"
  shows "state_ok home st'"
  using assms
proof (cases rule: mgr_step.cases)
  case (save cfg now u)
  then show ?thesis using assms(2) by (blast intro: save_ok)
next
  case (delete c)
  then show ?thesis using assms(2) by (simp add: delete_ok)
next
  case (migrate now r)
  then show ?thesis using assms(2) by (auto simp: migrate_legacy_deployments_def intro: migrate_ok)
qed (simp_all add: state_ok_def keys_ok_def files_ok_def save_task_status_def put_snapshot_def remove_snapshots_def
    put_tx_def put_log_def task_status.distinct_upsert snapshots.distinct_upsert tx_topology.distinct_upsert
    log_topology.distinct_upsert distinct_map_filter)

section \<open>Loading what was saved\<close>

lemma load_row_at: "load_deployment_from_state load_file c st = (case row_at ixr_cluster c (st_index st) of
    None \<Rightarrow> Inr None | Some r \<Rightarrow> bindE (read_topology load_file st (ixr_path r)) (\<lambda>cfg. Inr (Some cfg)))"
  unfolding load_deployment_from_state_def first_of_cluster [symmetric] by (simp split: list.split)

lemma save_loads:
  assumes "save_deployment_config home to_yaml now cfg u st = Inr st'"
    and "to_yaml cfg = Inr y" "load_file y = Inr cfg"
  shows "load_deployment_from_state load_file (cluster_name (cfg_deployment cfg)) st' = Inr (Some cfg)"
proof -
  let ?c = "cluster_name (cfg_deployment cfg)"
  from save_result [OF assms(1)] assms(2) obtain r where r: "ixr_cluster r = ?c" "ixr_path r = cluster_topology_path home ?c"
    "st' = st\<lparr>st_files := (st_files st)(cluster_topology_path home ?c \<mapsto> y), st_index := upsert ixr_cluster index_merge r (st_index st)\<rparr>"
    by auto
  have "\<exists>x. row_at ixr_cluster ?c (st_index st') = Some x \<and> ixr_path x = cluster_topology_path home ?c"
    using r by (cases "row_at ixr_cluster ?c (st_index st)") (simp_all add: cluster_index.row_at_upsert index_merge_def)
  then show ?thesis using r(3) assms(3) by (auto simp: load_row_at read_topology_def)
qed

lemma save_others:
  assumes "state_ok home st" "save_deployment_config home to_yaml now cfg u st = Inr st'"
    and "c \<noteq> cluster_name (cfg_deployment cfg)"
  shows "load_deployment_from_state load_file c st' = load_deployment_from_state load_file c st"
proof -
  have "ixr_path r = cluster_topology_path home c" if "row_at ixr_cluster c (st_index st) = Some r" for r
    using row_at_Some [OF that] assms(1) by (auto simp: state_ok_def files_ok_def list_all_iff)
  then show ?thesis using save_result [OF assms(2)] assms(3)
    by (auto simp: load_row_at cluster_index.row_at_upsert read_topology_def path_inj split: option.split)
qed

lemma save_keeps_legacy: "save_deployment_config home to_yaml now cfg u st = Inr st' \<Longrightarrow> st_deployments st' = st_deployments st"
  using save_result by fastforce

text \<open>A legacy text names the cluster of its row.\<close>

definition own_names :: "(string \<Rightarrow> deploy_config res) \<Rightarrow> deployment_row list \<Rightarrow> bool" where
  "own_names load_string rs \<longleftrightarrow> list_all (\<lambda>r. dir_name (dpr_cluster r) \<and> (case load_string (dpr_config r) of
     Inr cfg \<Rightarrow> cluster_name (cfg_deployment cfg) = dpr_cluster r | Inl _ \<Rightarrow> True)) rs"

lemma migrate_loads:
  "state_ok home st \<Longrightarrow> own_names load_string rs \<Longrightarrow> distinct (map dpr_cluster rs) \<Longrightarrow>
   migrate_rows home to_yaml load_string now rs n st = (st', Inr m) \<Longrightarrow>
   (c \<notin> dpr_cluster ` set rs \<longrightarrow> load_deployment_from_state load_file c st' = load_deployment_from_state load_file c st) \<and>
   (\<forall>r \<in> set rs. dpr_cluster r = c \<longrightarrow> load_string (dpr_config r) = Inr cfg \<longrightarrow> to_yaml cfg = Inr y \<longrightarrow> load_file y = Inr cfg \<longrightarrow>
     load_deployment_from_state load_file c st' = Inr (Some cfg))"
proof (induction rs arbitrary: n st)
  case (Cons x rs)
  from Cons.prems(4) obtain cx st1 where x: "load_string (dpr_config x) = Inr cx"
    "save_deployment_config home to_yaml now cx True st = Inr st1" "migrate_rows home to_yaml load_string now rs (Suc n) st1 = (st', Inr m)"
    by (auto simp: bindE_def split: sum.splits)
  have name: "cluster_name (cfg_deployment cx) = dpr_cluster x" "dir_name (dpr_cluster x)"
    using Cons.prems(2) x(1) by (auto simp: own_names_def)
  have ok: "state_ok home st1" using save_ok [OF Cons.prems(1) _ x(2)] name by simp
  note IH = Cons.IH [OF ok _ _ x(3)]
  have own: "own_names load_string rs" "distinct (map dpr_cluster rs)" "dpr_cluster x \<notin> dpr_cluster ` set rs"
    using Cons.prems(2,3) by (auto simp: own_names_def)
  show ?case
  proof (cases "dpr_cluster x = c")
    case True
    then have "load_deployment_from_state load_file c st' = load_deployment_from_state load_file c st1"
      using IH [OF own(1,2)] own(3) by blast
    moreover have "load_deployment_from_state load_file c st1 = Inr (Some cfg)"
      if "r \<in> set (x # rs)" "dpr_cluster r = c" "load_string (dpr_config r) = Inr cfg" "to_yaml cfg = Inr y" "load_file y = Inr cfg" for r
    proof -
      have "r = x" using that(1,2) own(3) True by auto
      then have "cx = cfg" using that(3) x(1) by simp
      then show ?thesis using save_loads [OF x(2), of y load_file] that(4,5) name(1) True by simp
    qed
    ultimately show ?thesis using True by simp
  next
    case False
    have "load_deployment_from_state load_file c st1 = load_deployment_from_state load_file c st"
      using save_others [OF Cons.prems(1) x(2)] name(1) False by simp
    with IH [OF own(1,2)] False show ?thesis by auto
  qed
qed simp

section \<open>Properties\<close>

text \<open>C19. The invariant of the state database. In every state that the operations reach from an empty
  database (or one with legacy deployments), each table has at most one row per primary key, and every
  cluster of the index has its topology file, under the path of its own name.\<close>

theorem reachable_state_ok:
  assumes "mgr_reach home to_yaml load_string st"
  shows "state_ok home st"
  using assms
proof induction
  case (init ds)
  then show ?case by (simp add: state_ok_def keys_ok_def files_ok_def empty_state_def)
next
  case (step st st')
  show ?case by (rule step_ok [OF step(2,3)])
qed

definition kv_config :: deploy_config where
  "kv_config = bare_config (bare_deployment ''kv'' ''/opt'' (bare_service [''a:1''] None None))"

definition kv_saved :: mgr_state where
  "kv_saved = (case save_deployment_config ''/h'' (\<lambda>_. Inr ''y'') 1 kv_config False empty_state of Inr st \<Rightarrow> st | Inl _ \<Rightarrow> empty_state)"

lemma kv_save: "save_deployment_config ''/h'' (\<lambda>_. Inr ''y'') 1 kv_config False empty_state = Inr kv_saved"
  by (simp add: kv_saved_def save_deployment_config_def Let_def empty_state_def)

lemma kv_name: "cluster_name (cfg_deployment kv_config) = ''kv''"
  by (simp add: kv_config_def bare_config_def bare_deployment_def)

lemma reachable_state_ok_witness:
  "state_ok ''/h'' kv_saved"
proof (rule reachable_state_ok)
  have "mgr_reach ''/h'' (\<lambda>_. Inr ''y'') (\<lambda>_. Inr kv_config) (empty_state\<lparr>st_deployments := []\<rparr>)" by (rule init) simp
  moreover have "empty_state\<lparr>st_deployments := []\<rparr> = empty_state" by (simp add: empty_state_def)
  moreover have "mgr_step ''/h'' (\<lambda>_. Inr ''y'') (\<lambda>_. Inr kv_config) empty_state kv_saved"
    by (rule save [OF _ kv_save]) (simp add: kv_name dir_name_def is_slash_def)
  ultimately show "mgr_reach ''/h'' (\<lambda>_. Inr ''y'') (\<lambda>_. Inr kv_config) kv_saved" by (metis step)
qed

text \<open>C20. A saved configuration is the one that is loaded. After a configuration was saved, loading its
  cluster gives it back, provided that its YAML text reads back, and every other cluster loads as
  before; without the upsert flag an existing cluster is an error and nothing changes.\<close>

theorem saved_config_loads:
  assumes "state_ok home st" and "to_yaml cfg = Inr y" and "load_file y = Inr cfg"
  shows "case save_deployment_config home to_yaml now cfg upsrt st of
      Inl e \<Rightarrow> \<not> upsrt \<and> row_at ixr_cluster (cluster_name (cfg_deployment cfg)) (st_index st) \<noteq> None
    | Inr st' \<Rightarrow> load_deployment_from_state load_file (cluster_name (cfg_deployment cfg)) st' = Inr (Some cfg) \<and>
        (\<forall>c. c = cluster_name (cfg_deployment cfg) \<or>
          load_deployment_from_state load_file c st' = load_deployment_from_state load_file c st)"
proof (cases "save_deployment_config home to_yaml now cfg upsrt st")
  case (Inl e)
  then show ?thesis using assms(2) cluster_index.row_at_ex [of "cluster_name (cfg_deployment cfg)" "st_index st"]
    by (auto simp: save_deployment_config_def Let_def list_ex_iff filter_empty_conv split: if_splits)
next
  case (Inr st')
  then show ?thesis using save_loads [of home to_yaml now cfg upsrt st st' y load_file] assms(2,3) save_others [OF assms(1) Inr] by auto
qed

lemma saved_config_loads_witness:
  "case save_deployment_config ''/h'' (\<lambda>_. Inr ''y'') 2 kv_config True kv_saved of Inl e \<Rightarrow> False
   | Inr st' \<Rightarrow> load_deployment_from_state (\<lambda>_. Inr kv_config) ''kv'' st' = Inr (Some kv_config)"
proof -
  have "state_ok ''/h'' kv_saved"
    by (rule save_ok [OF _ _ kv_save]) (simp_all add: state_ok_def keys_ok_def files_ok_def empty_state_def kv_name dir_name_def is_slash_def)
  from saved_config_loads [OF this, of "\<lambda>_. Inr ''y''" kv_config "''y''" "\<lambda>_. Inr kv_config" True 2]
  show ?thesis by (auto simp: kv_name split: sum.splits)
qed

text \<open>Legacy deployments win. The migration that \<open>upgrade\<close> runs saves every row of the old deployment
  table over what is there, and neither removing a cluster nor saving a newer configuration touches that
  table: after a removal, or an update or scale operation, the next \<open>upgrade\<close> brings the old
  configuration back.\<close>

theorem legacy_deployment_returns:
  assumes "state_ok home st" and "r \<in> set (st_deployments st)" and "own_names load_string (st_deployments st)"
    and "load_string (dpr_config r) = Inr cfg" and "to_yaml cfg = Inr y" and "load_file y = Inr cfg"
    and "st1 = delete_cluster home (dpr_cluster r) st \<or>
      (cluster_name (cfg_deployment cfg') = dpr_cluster r \<and> save_deployment_config home to_yaml now' cfg' True st = Inr st1)"
    and "migrate_legacy_deployments home to_yaml load_string now st1 = (st2, Inr n)"
  shows "load_deployment_from_state load_file (dpr_cluster r) st2 = Inr (Some cfg)"
proof -
  have d: "dir_name (dpr_cluster r)" using assms(2,3) by (auto simp: own_names_def list_all_iff)
  have "state_ok home st1 \<and> st_deployments st1 = st_deployments st"
    using assms(7)
  proof
    assume "st1 = delete_cluster home (dpr_cluster r) st"
    then show ?thesis using delete_ok [OF assms(1) d] by (simp add: delete_cluster_def)
  next
    assume "cluster_name (cfg_deployment cfg') = dpr_cluster r \<and> save_deployment_config home to_yaml now' cfg' True st = Inr st1"
    then show ?thesis using save_ok [OF assms(1), of cfg' to_yaml now' True st1] save_keeps_legacy [of home to_yaml now' cfg' True st st1] d by auto
  qed
  moreover have "distinct (map dpr_cluster (st_deployments st))" using assms(1) by (simp add: state_ok_def keys_ok_def)
  ultimately show ?thesis
    using migrate_loads [of home st1 load_string "st_deployments st1" to_yaml now 0 st2 n "dpr_cluster r" load_file cfg y]
      assms(2-6,8) by (simp add: migrate_legacy_deployments_def)
qed

definition legacy_row :: deployment_row where
  "legacy_row = \<lparr>dpr_cluster = ''kv'', dpr_config = ''old'', dpr_hosts = [], dpr_created = 0, dpr_updated = 0\<rparr>"

lemma legacy_deployment_returns_witness:
  "\<exists>st2. migrate_legacy_deployments ''/h'' (\<lambda>_. Inr ''y'') (\<lambda>_. Inr kv_config) 2
       (delete_cluster ''/h'' ''kv'' (empty_state\<lparr>st_deployments := [legacy_row]\<rparr>)) = (st2, Inr 1) \<and>
     load_deployment_from_state (\<lambda>_. Inr kv_config) ''kv'' st2 = Inr (Some kv_config)"
proof -
  let ?st = "empty_state\<lparr>st_deployments := [legacy_row]\<rparr>"
  let ?st1 = "delete_cluster ''/h'' ''kv'' ?st"
  have name: "dpr_cluster legacy_row = ''kv''" by (simp add: legacy_row_def)
  obtain s where s: "save_deployment_config ''/h'' (\<lambda>_. Inr ''y'') 2 kv_config True ?st1 = Inr s"
    by (simp add: save_deployment_config_def Let_def)
  have m: "migrate_legacy_deployments ''/h'' (\<lambda>_. Inr ''y'') (\<lambda>_. Inr kv_config) 2 ?st1 = (s, Inr 1)"
    using s by (simp add: migrate_legacy_deployments_def delete_cluster_def)
  have "state_ok ''/h'' ?st" by (simp add: state_ok_def keys_ok_def files_ok_def empty_state_def)
  moreover have "own_names (\<lambda>_. Inr kv_config) (st_deployments ?st)"
    by (simp add: own_names_def name kv_name dir_name_def is_slash_def)
  ultimately show ?thesis
    using legacy_deployment_returns [of "''/h''" ?st legacy_row "\<lambda>_. Inr kv_config" kv_config "\<lambda>_. Inr ''y''" "''y''"
        "\<lambda>_. Inr kv_config" ?st1] m name by auto
qed

end
