(* ===== verification/Topology_Update.thy ===== *)
theory Topology_Update
  imports State_Tables Saved_Topology Log_Groups
begin

text \<open>
  The topology task (\<open>cli/task/topology_update_task.rs\<close>): it fills the two topology tables from the
  reported or the configured groups, removes nodes from them, marks the masters, and applies field
  updates to the rows and node files of one node or of all nodes; and the tables that
  \<open>cli/task/topology_display_task.rs\<close> shows. The upload directory of the cluster is a map from the hosts
  to their files in directory order. Statements of the database succeed here.
\<close>

section \<open>Node files of the upload directory\<close>

text \<open>A file is its name and its contents, \<open>None\<close> when it cannot be read.\<close>

type_synonym upload_dir = "string \<rightharpoonup> (string \<times> string option) list"

definition node_file_matches :: "u16 \<Rightarrow> string \<times> string option \<Rightarrow> bool" where
  "node_file_matches p f \<longleftrightarrow> ini_extension (fst f) \<and> contains_sub (''node-'' @ show_u16 p) (fst f)"

definition default_json :: "string \<Rightarrow> u16 \<Rightarrow> config_json" where
  "default_json cluster p = empty_json\<lparr>cj_data_path := ''/home/eloq/'' @ cluster @ ''/EloqKV/data/port-'' @ show_u16 p,
     cj_data_store := True\<rparr>"

definition load_config_from_ini_file :: "string \<Rightarrow> upload_dir \<Rightarrow> mgr_state \<Rightarrow> string \<Rightarrow> u16 \<Rightarrow> config_json" where
  "load_config_from_ini_file cluster ups st host p =
     (case filter (\<lambda>r. txr_cluster r = cluster \<and> txr_host r = host \<and> txr_port r = p) (st_tx st) of
        r # _ \<Rightarrow> txr_config r
      | [] \<Rightarrow> (case find (\<lambda>f. node_file_matches p f \<and> snd f \<noteq> None) (case ups host of None \<Rightarrow> [] | Some fs \<Rightarrow> fs) of
          Some (_, Some content) \<Rightarrow> parse_ini_to_config_json content
        | _ \<Rightarrow> default_json cluster p))"

fun update_first :: "('a \<Rightarrow> bool) \<Rightarrow> ('a \<Rightarrow> 'a) \<Rightarrow> 'a list \<Rightarrow> 'a list" where
  "update_first P f [] = []"
| "update_first P f (x # xs) = (if P x then f x # xs else x # update_first P f xs)"

definition node_file_name :: "u16 \<Rightarrow> string" where
  "node_file_name p = ''EloqKv-node-'' @ show_u16 p @ ''.ini''"

text \<open>The new directory, or nothing when the file to update cannot be read.\<close>

definition write_config_to_ini_file :: "string \<Rightarrow> u16 \<Rightarrow> config_json \<Rightarrow> upload_dir \<Rightarrow> upload_dir option" where
  "write_config_to_ini_file host p cfg ups =
     (let new = (node_file_name p, Some (config_json_to_ini cfg)) in
      case ups host of
        None \<Rightarrow> Some (ups(host \<mapsto> [new]))
      | Some fs \<Rightarrow> (case find (node_file_matches p) fs of
          Some (_, None) \<Rightarrow> None
        | Some (name, Some content) \<Rightarrow> Some (ups(host \<mapsto> update_first (node_file_matches p)
            (\<lambda>_. (name, Some (update_existing_ini_file content cfg))) fs))
        | None \<Rightarrow> Some (ups(host \<mapsto> im_insert (fst new) (snd new) fs))))"

section \<open>The rows of a topology\<close>

definition tx_entity :: "string \<Rightarrow> u32 \<Rightarrow> timestamp \<Rightarrow> u32 \<Rightarrow> u32 \<Rightarrow> bool \<Rightarrow> string \<Rightarrow> u16 \<Rightarrow> config_json \<Rightarrow> tx_row" where
  "tx_entity cluster count now ng nid candidate host p cfg = \<lparr>txr_cluster = cluster, txr_group_count = count,
     txr_group_id = ng, txr_node_id = nid, txr_role = (if candidate then 1 else 2), txr_host = host, txr_port = p,
     txr_config = cfg, txr_created = now, txr_updated = now\<rparr>"

text \<open>From the file that a scale operation left; \<open>None\<close> when there is none.\<close>

definition get_topology_from_cluster_config_file :: "string \<Rightarrow> timestamp \<Rightarrow> upload_dir \<Rightarrow> mgr_state \<Rightarrow> string res option \<Rightarrow>
    tx_row list option res" where
  "get_topology_from_cluster_config_file cluster now ups st file = (case file of
     None \<Rightarrow> Inr None
   | Some read \<Rightarrow> bindE read (\<lambda>content. bindE (parse_cluster_config content) (\<lambda>cfg.
       Inr (Some (concat (map (\<lambda>(ng, nodes). map (\<lambda>n.
         tx_entity cluster (of_nat (length (node_groups cfg))) now ng (nc_node_id n) (nc_is_candidate n) (nc_host n) (nc_port n)
           (load_config_from_ini_file cluster ups st (nc_host n) (nc_port n))) nodes) (node_groups cfg)))))))"

text \<open>From the configuration, with the port offset added and taken away again.\<close>

definition extract_tx_topology_from_ini_file :: "eloq_service \<Rightarrow> string \<Rightarrow> timestamp \<Rightarrow> upload_dir \<Rightarrow> mgr_state \<Rightarrow>
    tx_row list res" where
  "extract_tx_topology_from_ini_file srv cluster now ups st =
     (case parse_ng_config (join '','' (tx_host_ports srv))
         (case standby_host_ports srv of None \<Rightarrow> [] | Some l \<Rightarrow> join '','' l)
         (case voter_host_ports srv of None \<Rightarrow> [] | Some l \<Rightarrow> join '','' l) (Some 10000) of
        Inl _ \<Rightarrow> Inl (Panic ''Failed to parse node group configuration'')
      | Inr groups \<Rightarrow> Inr (concat (map (\<lambda>(ng, nodes). map (\<lambda>n.
          tx_entity cluster (of_nat (length groups)) now (of_nat ng) (of_nat (ng_node_id n)) (ng_candidate n) (ng_ip n)
            (ng_port n - 10000) (load_config_from_ini_file cluster ups st (ng_ip n) (ng_port n - 10000))) nodes)
          (enumerate 0 groups))))"

definition log_entity :: "string \<Rightarrow> timestamp \<Rightarrow> log_service \<Rightarrow> log_group_member list \<Rightarrow> log_service_node \<Rightarrow> log_row option" where
  "log_entity cluster now srv members n =
     map_option (\<lambda>m. \<lparr>lgr_cluster = cluster, lgr_group_count = of_nat (length (log_nodes srv)),
         lgr_group_id = of_nat (group_id m), lgr_node_id = of_nat (node_id m), lgr_host = lsn_host n, lgr_port = lsn_port n,
         lgr_data_dirs = Some (join '','' (lsn_data_dir n)), lgr_created = now, lgr_updated = now\<rparr>)
       (map_of (rev (map (\<lambda>m. (member_addr m, m)) members)) (addr (lsn_host n) (lsn_port n)))"

definition extract_log_topology :: "log_service option \<Rightarrow> string \<Rightarrow> timestamp \<Rightarrow> log_row list option" where
  "extract_log_topology srv cluster now = (case srv of
     None \<Rightarrow> Some []
   | Some s \<Rightarrow> map_option (\<lambda>members. List.map_filter (log_entity cluster now s members) (log_nodes s))
       (group_member_as_vec s))"

section \<open>Changing the tables\<close>

definition put_txs :: "tx_row list \<Rightarrow> mgr_state \<Rightarrow> mgr_state" where
  "put_txs rs st = fold put_tx rs st"

definition put_logs :: "log_row list \<Rightarrow> mgr_state \<Rightarrow> mgr_state" where
  "put_logs rs st = fold put_log rs st"

text \<open>Entries without port, or with one that is not a number, are skipped.\<close>

definition remove_node :: "string \<Rightarrow> string \<Rightarrow> mgr_state \<Rightarrow> mgr_state" where
  "remove_node cluster node st = (case split_once is_colon node of
     None \<Rightarrow> st
   | Some (host, port_str) \<Rightarrow> (case parse_i32 port_str of
       None \<Rightarrow> st
     | Some p \<Rightarrow> st\<lparr>
         st_tx := filter (\<lambda>r. \<not> (txr_cluster r = cluster \<and> txr_host r = host \<and> int (unat (txr_port r)) = p)) (st_tx st),
         st_log := filter (\<lambda>r. \<not> (lgr_cluster r = cluster \<and> lgr_host r = host \<and> int (unat (lgr_port r)) = p)) (st_log st)\<rparr>))"

definition rows_count :: "mgr_state \<Rightarrow> nat" where
  "rows_count st = length (st_tx st) + length (st_log st)"

definition remove_nodes :: "string \<Rightarrow> string list option \<Rightarrow> mgr_state \<Rightarrow> mgr_state" where
  "remove_nodes cluster nodes st = (case nodes of None \<Rightarrow> st | Some ns \<Rightarrow> fold (remove_node cluster) ns st)"

text \<open>The query for the replica that became master: it does not ask for the cluster.\<close>

definition is_replica_at :: "node_info \<Rightarrow> tx_row \<Rightarrow> bool" where
  "is_replica_at m r \<longleftrightarrow> txr_host r = ni_ip m \<and> txr_port r = ni_port m \<and> txr_role r = 1"

definition promote_master :: "timestamp \<Rightarrow> node_info \<Rightarrow> mgr_state \<Rightarrow> mgr_state" where
  "promote_master now m st =
     put_txs (map (\<lambda>r. r\<lparr>txr_role := 0, txr_updated := now\<rparr>) (filter (is_replica_at m) (st_tx st))) st"

record update_outcome =
  uo_status :: int
  uo_success :: nat
  uo_deleted :: nat
  uo_failures :: nat

definition failed_update :: update_outcome where
  "failed_update = \<lparr>uo_status = 1, uo_success = 0, uo_deleted = 0, uo_failures = 0\<rparr>"

text \<open>The rows of a field update, one after the other: the state, the directory, successes and failures.\<close>

fun update_rows :: "timestamp \<Rightarrow> string list \<Rightarrow> tx_row list \<Rightarrow> mgr_state \<times> upload_dir \<times> nat \<times> nat \<Rightarrow>
    mgr_state \<times> upload_dir \<times> nat \<times> nat" where
  "update_rows now updates [] acc = acc"
| "update_rows now updates (r # rs) (st, ups, ok, bad) =
     (let cfg = update_config_json (txr_config r) updates;
          st = put_tx (r\<lparr>txr_config := cfg, txr_updated := now\<rparr>) st
      in case write_config_to_ini_file (txr_host r) (txr_port r) cfg ups of
           None \<Rightarrow> update_rows now updates rs (st, ups, ok, Suc bad)
         | Some ups' \<Rightarrow> update_rows now updates rs (st, ups', Suc ok, bad))"

definition update_fields :: "string \<Rightarrow> timestamp \<Rightarrow> string list \<Rightarrow> u32 option \<Rightarrow> upload_dir \<Rightarrow> mgr_state \<Rightarrow>
    mgr_state \<times> upload_dir \<times> update_outcome" where
  "update_fields cluster now updates tx_node_id ups st =
     (let rows = filter (\<lambda>r. txr_cluster r = cluster \<and> (case tx_node_id of None \<Rightarrow> True | Some n \<Rightarrow> txr_node_id r = n)) (st_tx st)
      in if rows = [] then (st, ups, failed_update)
         else case update_rows now updates rows (st, ups, 0, 0) of
           (st', ups', ok, bad) \<Rightarrow> (st', ups', \<lparr>uo_status = (if bad > 0 then 1 else 0), uo_success = ok,
             uo_deleted = 0, uo_failures = bad\<rparr>))"

text \<open>
  The task without field updates. \<open>received\<close> is what the channel delivers within the 30 seconds, \<open>None\<close>
  when it is closed or the time is up. An \<open>Inl\<close> is an error or a panic of the task; what was deleted
  before it stays deleted.
\<close>

definition topology_entries :: "deployment \<Rightarrow> string \<Rightarrow> timestamp \<Rightarrow> upload_dir \<Rightarrow> mgr_state \<Rightarrow> string res option \<Rightarrow>
    tx_row list res" where
  "topology_entries d cluster now ups st file =
     bindE (get_topology_from_cluster_config_file (cluster_name d) now ups st file) (\<lambda>entries. case entries of
       Some es \<Rightarrow> Inr es
     | None \<Rightarrow> extract_tx_topology_from_ini_file (tx_service d) (cluster_name d) now ups st)"

definition refresh_topology :: "deployment \<Rightarrow> string \<Rightarrow> timestamp \<Rightarrow> string list option \<Rightarrow> upload_dir \<Rightarrow> string res option \<Rightarrow>
    cluster_nodes option \<Rightarrow> mgr_state \<Rightarrow> mgr_state \<times> update_outcome res" where
  "refresh_topology d cluster now nodes_to_remove ups file received st =
     (let st1 = remove_nodes cluster nodes_to_remove st;
          deleted = rows_count st - rows_count st1
      in case topology_entries d cluster now ups st1 file of
           Inl e \<Rightarrow> (st1, Inl e)
         | Inr entries \<Rightarrow>
             (let st2 = put_txs entries st1 in
              case extract_log_topology (dep_log_service d) (cluster_name d) now of
                None \<Rightarrow> (st2, Inl (Panic ''log service grouping''))
              | Some logs \<Rightarrow>
                  (let st3 = put_logs logs st2 in
                   case received of
                     None \<Rightarrow> (st3, Inr failed_update)
                   | Some nodes \<Rightarrow>
                       (let st4 = fold (promote_master now) (cn_masters nodes) st3
                        in (st4, Inr \<lparr>uo_status = 0, uo_success = length entries + length logs +
                             length (filter (\<lambda>r. list_ex (\<lambda>m. is_replica_at m r) (cn_masters nodes)) (st_tx st3)),
                             uo_deleted = deleted, uo_failures = 0\<rparr>)))))"

section \<open>Showing the tables\<close>

definition role_name :: "int \<Rightarrow> string" where
  "role_name r = (if r = 0 then ''Master'' else if r = 1 then ''Replica'' else if r = 2 then ''Voter'' else ''Unknown'')"

text \<open>The rows of the display: by group, in a group by role.\<close>

definition tx_table :: "tx_row list \<Rightarrow> string list list" where
  "tx_table rows = map (\<lambda>r. [show_u32 (txr_group_id r), show_u32 (txr_node_id r), txr_host r, show_u16 (txr_port r), role_name (txr_role r)])
     (concat (map (\<lambda>g. sort_key txr_role (filter (\<lambda>r. txr_group_id r = g) rows)) (sorted_list_of_set (txr_group_id ` set rows))))"

fun leader_marks :: "u32 option \<Rightarrow> log_row list \<Rightarrow> (log_row \<times> string) list" where
  "leader_marks current [] = []"
| "leader_marks current (r # rs) =
     (if current \<noteq> Some (lgr_group_id r) then (r, ''Leader'') # leader_marks (Some (lgr_group_id r)) rs
      else (r, ''Replica'') # leader_marks current rs)"

definition log_table :: "log_row list \<Rightarrow> string list list" where
  "log_table rows = map (\<lambda>(r, role). [show_u32 (lgr_group_id r), show_u32 (lgr_node_id r), lgr_host r, show_u16 (lgr_port r),
       role, (case lgr_data_dirs r of None \<Rightarrow> [] | Some ds \<Rightarrow> ds)])
     (leader_marks None (sort_key lgr_group_id (sort_key lgr_node_id rows)))"

section \<open>Lemmas on the tables\<close>

lemma put_tx_keys: "distinct (map tx_key (st_tx st)) \<Longrightarrow> distinct (map tx_key (st_tx (put_tx r st)))"
  by (simp add: put_tx_def tx_topology.distinct_upsert)

lemma put_txs_simps [simp]: "put_txs [] st = st" "put_txs (r # rs) st = put_txs rs (put_tx r st)"
  by (simp_all add: put_txs_def)

lemma put_txs_keys: "distinct (map tx_key (st_tx st)) \<Longrightarrow> distinct (map tx_key (st_tx (put_txs rs st)))"
  by (induction rs arbitrary: st) (simp_all add: put_tx_keys)

lemma row_at_put_tx: "row_at tx_key k (st_tx (put_tx r st)) =
    (if k = tx_key r then Some (case row_at tx_key k (st_tx st) of None \<Rightarrow> r | Some x \<Rightarrow> tx_merge x r)
     else row_at tx_key k (st_tx st))"
  by (simp add: put_tx_def tx_topology.row_at_upsert)

lemma row_at_put_txs_other: "k \<notin> tx_key ` set rs \<Longrightarrow> row_at tx_key k (st_tx (put_txs rs st)) = row_at tx_key k (st_tx st)"
  by (induction rs arbitrary: st) (simp_all add: row_at_put_tx)

lemma row_at_Cons: "row_at key k (r # rs) = (if key r = k then Some r else row_at key k rs)"
  by (simp add: row_at_def)

lemma row_at_None_iff: "row_at key k rs = None \<longleftrightarrow> k \<notin> key ` set rs"
  by (auto simp: row_at_def find_None_iff)

lemma row_at_put_txs:
  "distinct (map tx_key rs) \<Longrightarrow> row_at tx_key k (st_tx (put_txs rs st)) = (case row_at tx_key k rs of
     None \<Rightarrow> row_at tx_key k (st_tx st)
   | Some r \<Rightarrow> Some (case row_at tx_key k (st_tx st) of None \<Rightarrow> r | Some x \<Rightarrow> tx_merge x r))"
proof (induction rs arbitrary: st)
  case (Cons r rs)
  show ?case
  proof (cases "tx_key r = k")
    case True
    then have "k \<notin> tx_key ` set rs" using Cons.prems by auto
    with True show ?thesis by (simp add: row_at_put_txs_other row_at_put_tx row_at_Cons)
  next
    case False
    with Cons show ?thesis by (simp add: row_at_put_tx row_at_Cons split: option.split)
  qed
qed (simp add: row_at_def)

definition promoted :: "timestamp \<Rightarrow> tx_row \<Rightarrow> tx_row" where
  "promoted now r = r\<lparr>txr_role := 0, txr_updated := now\<rparr>"

lemma promoted_simps [simp]: "tx_key (promoted now r) = tx_key r" "tx_merge r (promoted now r) = promoted now r"
  "\<not> is_replica_at m (promoted now r)" "txr_role (promoted now r) = 0"
  by (simp_all add: promoted_def tx_key_def tx_merge_def is_replica_at_def)

lemma row_at_promoted_rows:
  "distinct (map tx_key rows) \<Longrightarrow> row_at tx_key k (map (promoted now) (filter P rows)) =
   (case row_at tx_key k rows of Some r \<Rightarrow> if P r then Some (promoted now r) else None | None \<Rightarrow> None)"
proof (induction rows)
  case (Cons r rows)
  show ?case
  proof (cases "tx_key r = k")
    case True
    then have "row_at tx_key k (map (promoted now) (filter P rows)) = None" using Cons.prems by (auto simp: row_at_None_iff)
    with True show ?thesis by (simp add: row_at_Cons)
  qed (use Cons in \<open>simp add: row_at_Cons\<close>)
qed (simp add: row_at_def)

lemma row_at_promote:
  assumes "distinct (map tx_key (st_tx st))"
  shows "row_at tx_key k (st_tx (promote_master now m st)) =
    map_option (\<lambda>r. if is_replica_at m r then promoted now r else r) (row_at tx_key k (st_tx st))"
    and "distinct (map tx_key (st_tx (promote_master now m st)))"
proof -
  let ?rs = "map (promoted now) (filter (is_replica_at m) (st_tx st))"
  have p: "promote_master now m st = put_txs ?rs st"
    by (simp add: promote_master_def promoted_def [abs_def])
  have "distinct (map tx_key ?rs)" using assms by (simp add: o_def distinct_map_filter)
  from row_at_put_txs [OF this, of k st] show "row_at tx_key k (st_tx (promote_master now m st)) =
      map_option (\<lambda>r. if is_replica_at m r then promoted now r else r) (row_at tx_key k (st_tx st))"
    unfolding p row_at_promoted_rows [OF assms] by (simp split: option.split)
  show "distinct (map tx_key (st_tx (promote_master now m st)))" unfolding p by (rule put_txs_keys [OF assms])
qed

lemma row_at_promote_all:
  "distinct (map tx_key (st_tx st)) \<Longrightarrow> row_at tx_key k (st_tx (fold (promote_master now) ms st)) =
    map_option (\<lambda>r. if list_ex (\<lambda>m. is_replica_at m r) ms then promoted now r else r) (row_at tx_key k (st_tx st))"
proof (induction ms arbitrary: st)
  case Nil
  then show ?case by (cases "row_at tx_key k (st_tx st)") simp_all
next
  case (Cons m ms)
  have "\<not> list_ex (\<lambda>m. is_replica_at m (promoted now r)) ms" for r by (induction ms) simp_all
  with Cons row_at_promote [OF Cons.prems] show ?case by (cases "row_at tx_key k (st_tx st)") simp_all
qed

lemma put_logs_tx [simp]: "st_tx (put_logs rs st) = st_tx st"
  unfolding put_logs_def by (induction rs arbitrary: st) (simp_all add: put_log_def)

lemma remove_nodes_keys: "distinct (map tx_key (st_tx st)) \<Longrightarrow> distinct (map tx_key (st_tx (remove_nodes c ns st)))"
proof -
  have "distinct (map tx_key (st_tx st)) \<Longrightarrow> distinct (map tx_key (st_tx (fold (remove_node c) l st)))" for l
  proof (induction l arbitrary: st)
    case (Cons n l)
    have "distinct (map tx_key (st_tx (remove_node c n st)))"
      using Cons.prems by (auto simp: remove_node_def distinct_map_filter split: option.split)
    from Cons.IH [OF this] show ?case by simp
  qed simp
  then show "distinct (map tx_key (st_tx st)) \<Longrightarrow> ?thesis" by (auto simp: remove_nodes_def split: option.split)
qed

lemma remove_nodes_other:
  assumes "r \<in> set (st_tx st)" "txr_cluster r \<noteq> c"
  shows "r \<in> set (st_tx (remove_nodes c ns st))"
proof -
  have "r \<in> set (st_tx st) \<Longrightarrow> r \<in> set (st_tx (fold (remove_node c) l st))" for l
  proof (induction l arbitrary: st)
    case (Cons n l)
    have "r \<in> set (st_tx (remove_node c n st))"
      using Cons.prems assms(2) by (auto simp: remove_node_def split: option.split)
    from Cons.IH [OF this] show ?case by simp
  qed simp
  with assms(1) show ?thesis by (auto simp: remove_nodes_def split: option.split)
qed

lemma tx_entity_cluster [simp]: "txr_cluster (tx_entity c count now ng nid cand h p cfg) = c"
  by (simp add: tx_entity_def)

lemma file_entries_cluster:
  "get_topology_from_cluster_config_file c now ups st file = Inr (Some es) \<Longrightarrow> x \<in> set es \<Longrightarrow> txr_cluster x = c"
  by (cases "file") (auto simp: get_topology_from_cluster_config_file_def res_simps)

lemma ini_entries_cluster:
  "extract_tx_topology_from_ini_file srv c now ups st = Inr es \<Longrightarrow> x \<in> set es \<Longrightarrow> txr_cluster x = c"
  unfolding extract_tx_topology_from_ini_file_def by (clarsimp split: sum.splits)

lemma entries_cluster:
  assumes "topology_entries d c now ups st file = Inr entries" "x \<in> set entries"
  shows "txr_cluster x = cluster_name d"
proof -
  from assms(1) obtain o' where o: "get_topology_from_cluster_config_file (cluster_name d) now ups st file = Inr o'"
    "(case o' of Some es \<Rightarrow> Inr es | None \<Rightarrow> extract_tx_topology_from_ini_file (tx_service d) (cluster_name d) now ups st) = Inr entries"
    by (auto simp: topology_entries_def res_simps)
  then show ?thesis using assms(2) by (cases o') (auto dest: file_entries_cluster ini_entries_cluster)
qed

lemma contains_sub_start: "starts_with p s \<Longrightarrow> contains_sub p s"
  by (cases s) (auto simp: starts_with_def)

lemma contains_sub_middle: "contains_sub p (a @ p @ b)"
  by (induction a) (simp_all add: contains_sub_start starts_with_append)

lemma refresh_result:
  assumes "refresh_topology d cluster now ns ups file (Some nodes) st = (st', Inr out)"
  shows "\<exists>entries logs. topology_entries d cluster now ups (remove_nodes cluster ns st) file = Inr entries \<and>
    st' = fold (promote_master now) (cn_masters nodes) (put_logs logs (put_txs entries (remove_nodes cluster ns st)))"
  using assms by (auto simp: refresh_topology_def Let_def split: sum.splits option.splits)

section \<open>Properties\<close>

text \<open>What a refresh leaves in the topology table. When a refresh succeeds and the new entries have
  different keys, the table has for every key exactly this: the new entry when there is one, keeping the
  creation time of the row it replaces; else the row that was there after the removals; in both cases with
  the role of a master when a reported master has its address and its role was replica. In particular a
  row that is neither reported nor removed stays.\<close>

theorem refreshed_rows:
  assumes "refresh_topology d cluster now ns ups file (Some nodes) st = (st', Inr out)"
    and "distinct (map tx_key (st_tx st))"
    and "topology_entries d cluster now ups (remove_nodes cluster ns st) file = Inr entries"
    and "distinct (map tx_key entries)"
  shows "row_at tx_key k (st_tx st') =
    map_option (\<lambda>r. if list_ex (\<lambda>m. is_replica_at m r) (cn_masters nodes) then r\<lparr>txr_role := 0, txr_updated := now\<rparr> else r)
      (case row_at tx_key k entries of
         Some e \<Rightarrow> Some (case row_at tx_key k (st_tx (remove_nodes cluster ns st)) of None \<Rightarrow> e | Some x \<Rightarrow> tx_merge x e)
       | None \<Rightarrow> row_at tx_key k (st_tx (remove_nodes cluster ns st)))"
proof -
  obtain logs where st': "st' = fold (promote_master now) (cn_masters nodes) (put_logs logs (put_txs entries (remove_nodes cluster ns st)))"
    using refresh_result [OF assms(1)] assms(3) by auto
  have "distinct (map tx_key (st_tx (put_logs logs (put_txs entries (remove_nodes cluster ns st)))))"
    using assms(2) by (simp add: put_txs_keys remove_nodes_keys)
  from row_at_promote_all [OF this, of k now "cn_masters nodes"] show ?thesis
    by (simp only: st' put_logs_tx row_at_put_txs [OF assms(4)] promoted_def)
qed

definition one_master :: cluster_nodes where
  "one_master = no_nodes\<lparr>cn_masters := [\<lparr>ni_ip = ''a'', ni_port = 1, ni_connected = True, ni_node_id = None, ni_master_id = None\<rparr>]\<rparr>"

definition one_host :: deployment where
  "one_host = bare_deployment ''kv'' ''/opt'' (bare_service [''a:1''] None None)"

definition one_entry :: tx_row where
  "one_entry = tx_entity ''kv'' 1 5 0 0 True ''a'' 1 (default_json ''kv'' 1)"

lemma one_host_entries:
  "st_tx st = [] \<Longrightarrow> topology_entries one_host ''kv'' 5 Map.empty st None = Inr [one_entry]"
  by (simp add: topology_entries_def get_topology_from_cluster_config_file_def extract_tx_topology_from_ini_file_def
      one_host_def ng_eval eval_str load_config_from_ini_file_def one_entry_def bare_deployment_def bare_service_def)

lemma one_host_refresh:
  assumes "st_tx st = []" "st_log st = []"
  shows "\<exists>st' out. refresh_topology one_host ''kv'' 5 None Map.empty None (Some one_master) st = (st', Inr out)"
  using one_host_entries [OF assms(1)]
  by (simp add: refresh_topology_def remove_nodes_def extract_log_topology_def one_host_def Let_def)

lemma refreshed_rows_witness:
  "\<exists>st' out. refresh_topology one_host ''kv'' 5 None Map.empty None (Some one_master) empty_state = (st', Inr out) \<and>
     row_at tx_key (tx_key one_entry) (st_tx st') = Some (one_entry\<lparr>txr_role := 0\<rparr>)"
proof -
  have e: "st_tx empty_state = []" "st_log empty_state = []" by (simp_all add: empty_state_def)
  from one_host_refresh [OF e] obtain st' out
    where r: "refresh_topology one_host ''kv'' 5 None Map.empty None (Some one_master) empty_state = (st', Inr out)" by blast
  have n: "remove_nodes ''kv'' None empty_state = empty_state" by (simp add: remove_nodes_def)
  from refreshed_rows [OF r, unfolded n, OF _ one_host_entries, of "tx_key one_entry"] e
  have "row_at tx_key (tx_key one_entry) (st_tx st') = Some (one_entry\<lparr>txr_role := 0, txr_updated := 5\<rparr>)"
    by (simp add: row_at_Cons row_at_def one_master_def is_replica_at_def one_entry_def tx_entity_def)
  with r show ?thesis by (simp add: one_entry_def tx_entity_def)
qed

text \<open>Promotion crosses clusters. The query that finds the replica a master was promoted from does not
  ask for the cluster: a successful refresh of one cluster turns every replica row of any other cluster
  that has a reported master's address into a master row.\<close>

theorem promotion_crosses_clusters:
  assumes "refresh_topology d (cluster_name d) now ns ups file (Some nodes) st = (st', Inr out)"
    and "distinct (map tx_key (st_tx st))" and "r \<in> set (st_tx st)" and "txr_cluster r \<noteq> cluster_name d"
    and "m \<in> set (cn_masters nodes)" and "is_replica_at m r"
  shows "r\<lparr>txr_role := 0, txr_updated := now\<rparr> \<in> set (st_tx st')"
proof -
  obtain entries logs where e: "topology_entries d (cluster_name d) now ups (remove_nodes (cluster_name d) ns st) file = Inr entries"
    and st': "st' = fold (promote_master now) (cn_masters nodes) (put_logs logs (put_txs entries (remove_nodes (cluster_name d) ns st)))"
    using refresh_result [OF assms(1)] by blast
  have "txr_cluster x = cluster_name d" if "x \<in> set entries" for x using entries_cluster [OF e that] .
  then have new: "tx_key r \<notin> tx_key ` set entries" using assms(4) by (auto simp: tx_key_def)
  have "r \<in> set (st_tx (remove_nodes (cluster_name d) ns st))"
    using assms(3,4) by (rule remove_nodes_other)
  then have "row_at tx_key (tx_key r) (st_tx (remove_nodes (cluster_name d) ns st)) = Some r"
    by (rule row_at_unique [OF remove_nodes_keys [OF assms(2)]])
  moreover have "distinct (map tx_key (st_tx (put_logs logs (put_txs entries (remove_nodes (cluster_name d) ns st)))))"
    using assms(2) by (simp add: put_txs_keys remove_nodes_keys)
  moreover have "list_ex (\<lambda>m. is_replica_at m r) (cn_masters nodes)" using assms(5,6) by (auto simp: list_ex_iff)
  ultimately have "row_at tx_key (tx_key r) (st_tx st') = Some (promoted now r)"
    by (simp add: st' row_at_promote_all row_at_put_txs_other [OF new])
  then show ?thesis using row_at_Some by (force simp: promoted_def)
qed

lemma promotion_crosses_clusters_witness:
  "\<exists>st' out. refresh_topology one_host (cluster_name one_host) 5 None Map.empty (Some (Inr no_groups_text)) (Some one_master)
       (empty_state\<lparr>st_tx := [one_entry\<lparr>txr_cluster := ''other''\<rparr>]\<rparr>) = (st', Inr out) \<and>
     one_entry\<lparr>txr_cluster := ''other'', txr_role := 0\<rparr> \<in> set (st_tx st')"
proof -
  let ?r = "one_entry\<lparr>txr_cluster := ''other''\<rparr>"
  let ?st = "empty_state\<lparr>st_tx := [?r]\<rparr>"
  obtain st' out where r: "refresh_topology one_host (cluster_name one_host) 5 None Map.empty (Some (Inr no_groups_text))
      (Some one_master) ?st = (st', Inr out)"
    by (simp add: refresh_topology_def Let_def remove_nodes_def topology_entries_def get_topology_from_cluster_config_file_def
        parse_no_groups extract_log_topology_def one_host_def)
  have k: "distinct (map tx_key (st_tx ?st))" "?r \<in> set (st_tx ?st)" "txr_cluster ?r \<noteq> cluster_name one_host"
    by (simp_all add: one_host_def bare_deployment_def)
  have m: "hd (cn_masters one_master) \<in> set (cn_masters one_master)" "is_replica_at (hd (cn_masters one_master)) ?r"
    by (simp_all add: one_master_def is_replica_at_def one_entry_def tx_entity_def)
  from promotion_crosses_clusters [OF r k m] r show ?thesis by (auto simp: one_entry_def tx_entity_def)
qed

text \<open>The wrong node file. The file of a node is looked up as the first one whose name contains
  node-<port>: when only the file of a node is there whose port starts with the digits of another one,
  writing the configuration of the other node edits that file, and no file is made for the node itself.\<close>

theorem wrong_node_file_edited:
  assumes "starts_with (show_u16 p) (show_u16 q)"
  shows "write_config_to_ini_file host p cfg (ups(host \<mapsto> [(node_file_name q, Some content)])) =
    Some (ups(host \<mapsto> [(node_file_name q, Some (update_existing_ini_file content cfg))]))"
proof -
  from assms obtain r where q: "show_u16 q = show_u16 p @ r" using starts_with_exists by blast
  have "contains_sub (''node-'' @ show_u16 p) (''EloqKv-'' @ (''node-'' @ show_u16 p) @ r @ ''.ini'')"
    by (rule contains_sub_middle)
  then have "node_file_matches p (node_file_name q, Some content)"
    by (simp add: node_file_matches_def node_file_name_def q ini_extension_def ends_with_def starts_with_def)
  then show ?thesis by (simp add: write_config_to_ini_file_def Let_def)
qed

lemma wrong_node_file_edited_witness:
  "write_config_to_ini_file ''a'' 637 sample_json [''a'' \<mapsto> [(node_file_name 6379, Some [])]] =
    Some [''a'' \<mapsto> [(node_file_name 6379, Some (update_existing_ini_file [] sample_json))]]"
  by (rule wrong_node_file_edited) (simp add: show_u16_def show_nat.simps starts_with_def)

end
