(* ===== verification/Cmd_Line.thy ===== *)
theory Cmd_Line
  imports Task_Core
begin

text \<open>
  The command line (\<open>cli/mod.rs\<close>): the subcommands with their arguments as the rest of the tool
  receives them, their names, the parser of node arguments, and the errors of tasks
  (\<open>cli/task/task_base.rs\<close>). Points in time and durations are numbers of milliseconds.
\<close>

section \<open>Commands\<close>

datatype update_monitor_component = UpdGrafana | UpdPrometheus | UpdAlertmanager | UpdPrometheusalert | UpdNodeExporter

datatype monitor_component = McGrafana | McPrometheus | McAlertmanager | McWebhookAdapter | McNodeExporter

datatype monitor_command =
    MonitorStart "string option" "monitor_component list"
  | MonitorStop "string option" "monitor_component list"
  | MonitorRestart "string option" "monitor_component list"
  | MonitorStatus "string option" "monitor_component list"
  | MonitorUpdate "string option" update_monitor_component "string option" "string list"

datatype backup_command =
    BackupStart (bs_path: "string option") (bs_password: "string option") (bs_dest_host: "string option")
      (bs_dest_user: "string option")
  | BackupList
  | BackupRemove (br_until: "int option") (br_before: "int option") (br_force: bool)
  | BackupDumpAOF string string "string option"
  | BackupDumpRDB string string "string option"
  | BackupRestore int

datatype completion_shell = Bash | Zsh | Fish

record stop_args =
  st_cluster :: string
  st_tx :: "bool option"
  st_log :: bool
  st_store :: bool
  st_monitor :: bool
  st_force :: bool
  st_all :: bool
  st_password :: "string option"
  st_nodes :: "string list"

record scale_args =
  sc_cluster :: string
  sc_add_nodes :: "string list"
  sc_remove_nodes :: "string list"
  sc_ng_id :: "u32 option"
  sc_is_candidate :: "bool list option"
  sc_password :: "string option"
  sc_version :: "string option"

record update_args =
  up_cluster :: "string option"
  up_version :: "string option"
  up_download_only :: bool
  up_password :: "string option"
  up_force :: bool
  up_skip_log_restart :: bool

record update_conf_args =
  uc_cluster :: string
  uc_restart :: bool
  uc_password :: "string option"
  uc_fields :: "string list"
  uc_tx_node_id :: "u32 option"

datatype sub_command =
    CmdDemo product storage_provider string bool bool bool bool
  | CmdCheck string
  | CmdLaunch string bool
  | CmdStart string "string list"
  | CmdStop stop_args
  | CmdRestart string
  | CmdStatus string "string option" "string option" "u16 option" bool
  | CmdUpdate update_args
  | CmdUpdateConf update_conf_args
  | CmdApply string
  | CmdPlan string
  | CmdRemove string bool
  | CmdExport string "string option"
  | CmdConnect string
  | CmdList
  | CmdVersions "product option" "storage_provider option"
  | CmdUpgrade
  | CmdMonitor "string option" monitor_command
  | CmdLogService string string
  | CmdExec string string
  | CmdRunDeps string
  | CmdDeploy string
  | CmdInstall string
  | CmdScale scale_args
  | CmdScaleLog string "string list" "string list" "u32 option"
  | CmdBackup string backup_command
  | CmdFailover string string u16 string u16 "string option"
  | CmdCompletion completion_shell "string option"
  | CmdCompleteClusters

text \<open>\<open>AsRefStr\<close>: the names of the subcommands.\<close>

fun command_name :: "sub_command \<Rightarrow> string" where
  "command_name (CmdDemo _ _ _ _ _ _ _) = ''demo''"
| "command_name (CmdCheck _) = ''check''"
| "command_name (CmdLaunch _ _) = ''launch''"
| "command_name (CmdStart _ _) = ''start''"
| "command_name (CmdStop _) = ''stop''"
| "command_name (CmdRestart _) = ''restart''"
| "command_name (CmdStatus _ _ _ _ _) = ''status''"
| "command_name (CmdUpdate _) = ''update''"
| "command_name (CmdUpdateConf _) = ''update-conf''"
| "command_name (CmdApply _) = ''apply''"
| "command_name (CmdPlan _) = ''plan''"
| "command_name (CmdRemove _ _) = ''remove''"
| "command_name (CmdExport _ _) = ''export''"
| "command_name (CmdConnect _) = ''connect''"
| "command_name CmdList = ''list''"
| "command_name (CmdVersions _ _) = ''versions''"
| "command_name CmdUpgrade = ''upgrade''"
| "command_name (CmdMonitor _ _) = ''monitor''"
| "command_name (CmdLogService _ _) = ''log-srv''"
| "command_name (CmdExec _ _) = ''exec_cmd''"
| "command_name (CmdRunDeps _) = ''run-deps''"
| "command_name (CmdDeploy _) = ''deploy''"
| "command_name (CmdInstall _) = ''install''"
| "command_name (CmdScale _) = ''scale''"
| "command_name (CmdScaleLog _ _ _ _) = ''scalelog''"
| "command_name (CmdBackup _ _) = ''backup''"
| "command_name (CmdFailover _ _ _ _ _ _) = ''failover''"
| "command_name (CmdCompletion _ _) = ''completion''"
| "command_name CmdCompleteClusters = ''__complete-clusters''"

fun backup_command_name :: "backup_command \<Rightarrow> string" where
  "backup_command_name (BackupStart _ _ _ _) = ''start''"
| "backup_command_name BackupList = ''list''"
| "backup_command_name (BackupRemove _ _ _) = ''remove''"
| "backup_command_name (BackupDumpAOF _ _ _) = ''dump-aof''"
| "backup_command_name (BackupDumpRDB _ _ _) = ''dump-rdb''"
| "backup_command_name (BackupRestore _) = ''restore''"

section \<open>Node arguments\<close>

definition parse_host_port_arg :: "string \<Rightarrow> string + string" where
  "parse_host_port_arg s = (case split_once is_colon s of
     None \<Rightarrow> Inl (''invalid node '' @ [CHR 0x27] @ s @ [CHR 0x27] @ '': expected '' @ [CHR 0x27] @ ''host:port'' @ [CHR 0x27])
   | Some (host, p) \<Rightarrow>
       if host = [] then Inl (''invalid node '' @ [CHR 0x27] @ s @ [CHR 0x27] @ '': host must not be empty'')
       else if p = [] then Inl (''invalid node '' @ [CHR 0x27] @ s @ [CHR 0x27] @ '': port must not be empty'')
       else (case parse_u16 p of
          None \<Rightarrow> Inl (''invalid node '' @ [CHR 0x27] @ s @ [CHR 0x27] @ '': port must be a valid number'')
        | Some _ \<Rightarrow> Inr s))"

section \<open>Keys and errors of task results\<close>

definition cmd_key :: string where "cmd_key = ''_cmd_''"
definition cmd_status_key :: string where "cmd_status_key = ''_cmd_status_''"
definition cmd_output_key :: string where "cmd_output_key = ''_cmd_output_''"

datatype cmd_err =
    ExecUserCmdErr string string
  | DownloadErr string string
  | UploadErr string string
  | SSHConnErr string string
  | SSHRemoteCmdErr string string
  | EloqInstallErr string string
  | EloqCtlErr string string
  | ClusterAlreadyExists string
  | UnpackErr string string
  | CopyTaskErr string
  | MonitorCtlCmdErr string string
  | RedisOpErr string string
  | ScaleOpErr string string
  | ValidationErr string string

fun cmd_err_text :: "cmd_err \<Rightarrow> string" where
  "cmd_err_text (ExecUserCmdErr a b) = ''Remote cmd ['' @ a @ ''] execution failed. status_code='' @ b"
| "cmd_err_text (DownloadErr a b) = ''Download file failed, download URL '' @ a @ '' , error causes '' @ b"
| "cmd_err_text (UploadErr a b) = ''Upload file failed, local file '' @ a @ '', error causes '' @ b"
| "cmd_err_text (SSHConnErr a b) = ''Error establishing ssh connection, user@host='' @ a @ '', error causes '' @ b"
| "cmd_err_text (SSHRemoteCmdErr a b) = ''SSHConn execute remote cmd '' @ a @ '' failed, error causes '' @ b"
| "cmd_err_text (EloqInstallErr a b) = ''EloqDB installation database error. command '' @ a @ '' , error causes '' @ b"
| "cmd_err_text (EloqCtlErr a b) = ''Failed to execute the EloqDB control command. command '' @ a @ '' , error causes '' @ b"
| "cmd_err_text (ClusterAlreadyExists a) =
     ''The cluster name  must be unique and the current cluster ['' @ a @ ''] already exists.''"
| "cmd_err_text (UnpackErr a b) = ''Unpacking file errors. command '' @ a @ '', error causes '' @ b"
| "cmd_err_text (CopyTaskErr a) = ''Error executing LocalCopyTask; please check if the source path exists path '' @ a"
| "cmd_err_text (MonitorCtlCmdErr a b) = ''Error executing EloqDB monitor component task '' @ a @ '', error causes '' @ b"
| "cmd_err_text (RedisOpErr a b) = ''Error interacting with redis. possible reason: '' @ a @ '', status_code='' @ b"
| "cmd_err_text (ScaleOpErr a b) = ''Error executing scale operation. possible reason: '' @ a @ '', status_code='' @ b"
| "cmd_err_text (ValidationErr a b) = ''Error executing scale validation operation. possible reason: '' @ a @ '', status_code='' @ b"

text \<open>\<open>task_return_value!\<close>: the value, an error when the status is not 0, a panic without a status.\<close>

definition task_return :: "execution_value \<Rightarrow> (string \<Rightarrow> cmd_err) \<Rightarrow> execution_value option res" where
  "task_return v e = (case v cmd_status_key of
     Some (NumberValue n) \<Rightarrow> if n \<noteq> 0 then Inl (Err (cmd_err_text (e (show_task_arg (NumberValue n))))) else Inr (Some v)
   | _ \<Rightarrow> Inl (Panic ''task_return_value! macro failed: CMD_STATUS key missing from task result.''))"

definition task_output :: "string \<Rightarrow> int \<Rightarrow> string \<Rightarrow> execution_value" where
  "task_output cmd status out = [cmd_key \<mapsto> StrValue cmd, cmd_status_key \<mapsto> NumberValue status, cmd_output_key \<mapsto> StrValue out]"

text \<open>The controller's view of what an executor returned; a panic ends the task's thread.\<close>

fun task_result_of :: "execution_value option res \<Rightarrow> task_result option" where
  "task_result_of (Inr v) = Some (Success v)"
| "task_result_of (Inl (Err e)) = Some (TaskError e)"
| "task_result_of (Inl (Panic _)) = None"

lemma task_output_status [simp]: "task_output cmd status out cmd_status_key = Some (NumberValue status)"
  by (simp add: task_output_def cmd_status_key_def cmd_output_key_def)

end
