(* ===== verification/Cluster_View.thy ===== *)
theory Cluster_View
  imports Saved_Topology Cmd_Line
begin

text \<open>
  What the cluster reports about itself and what the tool does with it: the parsers of
  \<open>CLUSTER NODES\<close> and \<open>INFO SERVER\<close>, the query of a topology with its retries
  (\<open>cli/task/redis_op_task.rs\<close>), the choice of a failover target (\<open>cli/task/failover_op_task.rs\<close>)
  and the waiting for a node (\<open>cli/task/wait_replica_ready_task.rs\<close>).

  Connections are I/O: what a node answers at an attempt is an argument. The order in which a hash set
  gives its elements back is not specified; it is an argument too (\<open>order\<close>).
\<close>

section \<open>The parser of \<open>CLUSTER NODES\<close>\<close>

text \<open>The values of the redis client that the parsers tell apart; the text of any other value.\<close>

datatype redis_value = BulkString string | SimpleString string | OtherValue string

definition is_at_or_colon :: "char \<Rightarrow> bool" where
  "is_at_or_colon c \<longleftrightarrow> c = CHR '':'' \<or> c = CHR ''@''"

definition split_ip_port :: "string \<Rightarrow> string list" where
  "split_ip_port s = (if CHR ''@'' \<in> set s then split_on is_at_or_colon s else split_on is_colon s)"

definition has_flag :: "string \<Rightarrow> string \<Rightarrow> bool" where
  "has_flag flag flags \<longleftrightarrow> list_ex (\<lambda>f. eq_ignore_case f flag) (split_on is_comma flags)"

definition add_node_line :: "cluster_nodes \<Rightarrow> string \<Rightarrow> cluster_nodes" where
  "add_node_line cn line =
     (if trim line = [] then cn
      else let parts = split_ws line in
      if length parts < 8 then cn
      else let ip_port = split_ip_port (parts ! 1) in
      if length ip_port < 2 then cn
      else case parse_u16 (ip_port ! 1) of
        None \<Rightarrow> cn
      | Some p \<Rightarrow>
        let flags = parts ! 2;
            node = \<lparr>ni_ip = ip_port ! 0, ni_port = p, ni_connected = eq_ignore_case (parts ! 7) ''connected'',
              ni_node_id = Some (parts ! 0),
              ni_master_id = (if parts ! 3 \<noteq> ''-'' then Some (parts ! 3) else None)\<rparr>
        in if has_flag ''master'' flags then cn\<lparr>cn_masters := cn_masters cn @ [node]\<rparr>
           else if has_flag ''slave'' flags then cn\<lparr>cn_replicas := cn_replicas cn @ [node]\<rparr>
           else if has_flag ''voter'' flags then cn\<lparr>cn_voters := cn_voters cn @ [node]\<rparr>
           else cn)"

text \<open>The text of the answer; a lone quote makes the slice \<open>[1..0]\<close> panic.\<close>

definition nodes_text :: "redis_value \<Rightarrow> string res" where
  "nodes_text v = (case v of
     BulkString raw \<Rightarrow>
       if starts_with [CHR 0x22] raw \<and> ends_with [CHR 0x22] raw
       then (if length raw < 2 then Inl (Panic ''slice index starts at 1 but ends at 0'')
             else Inr (butlast (tl raw)))
       else Inr raw
   | SimpleString s \<Rightarrow> Inr s
   | OtherValue t \<Rightarrow> Inl (Err (''Unexpected format for CLUSTER NODES: '' @ t)))"

definition parse_cluster_nodes :: "redis_value \<Rightarrow> cluster_nodes list res" where
  "parse_cluster_nodes v = bindE (nodes_text v) (\<lambda>s.
     let cn = foldl add_node_line no_nodes (str_lines s)
     in Inr (if cn_masters cn \<noteq> [] \<or> cn_replicas cn \<noteq> [] \<or> cn_voters cn \<noteq> [] then [cn] else []))"

text \<open>\<open>INFO SERVER\<close> of a single node: the first \<open>tcp_port\<close> line counts, readable or not.\<close>

fun info_port :: "string list \<Rightarrow> u16 option" where
  "info_port [] = None"
| "info_port (l # ls) = (case strip_prefix ''tcp_port:'' l of
     Some rest \<Rightarrow> parse_u16 (trim rest) | None \<Rightarrow> info_port ls)"

definition only_master :: "string \<Rightarrow> u16 \<Rightarrow> cluster_nodes" where
  "only_master ip p = no_nodes\<lparr>cn_masters := [\<lparr>ni_ip = ip, ni_port = p, ni_connected = True, ni_node_id = None,
     ni_master_id = None\<rparr>]\<rparr>"

definition single_node :: "string \<Rightarrow> string \<Rightarrow> cluster_nodes res" where
  "single_node info default_host =
     (let host_parts = split_on is_colon default_host;
          fallback = Option.bind (nth_opt host_parts 1) parse_u16
      in case (info_port (str_lines info), fallback) of
           (None, None) \<Rightarrow> Inl (Err ''Could not determine tcp_port from INFO SERVER or host'')
         | (Some p, _) \<Rightarrow> Inr (only_master (hd host_parts) p)
         | (None, Some p) \<Rightarrow> Inr (only_master (hd host_parts) p))"

definition parse_cluster_nodes_single :: "redis_value \<Rightarrow> string \<Rightarrow> cluster_nodes res" where
  "parse_cluster_nodes_single v default_host =
     (case v of
        OtherValue t \<Rightarrow> Inl (Err (''Unexpected format for INFO SERVER: '' @ t))
      | BulkString s \<Rightarrow> single_node s default_host | SimpleString s \<Rightarrow> single_node s default_host)"

section \<open>Querying the topology\<close>

text \<open>What a node answers to one attempt.\<close>

datatype redis_answer = NoConnection string | QueryError string | Answer redis_value

record redis_op =
  ro_cmd :: string
  ro_host_ports :: "string list"
  ro_redis_cmd :: string
  ro_password :: "string option"
  ro_skip_checkpoint :: bool
  ro_endpoints :: "(string \<rightharpoonup> service_endpoint_t) option"
  ro_retries :: nat

definition topology_retries :: nat where "topology_retries = 60"

definition redis_op_new :: "string \<Rightarrow> string list \<Rightarrow> string \<Rightarrow> string option \<Rightarrow> bool \<Rightarrow> redis_op" where
  "redis_op_new cmd hps rc pw skip = \<lparr>ro_cmd = cmd, ro_host_ports = hps, ro_redis_cmd = rc, ro_password = pw,
     ro_skip_checkpoint = skip, ro_endpoints = None, ro_retries = topology_retries\<rparr>"

definition with_topology_retries :: "nat \<Rightarrow> redis_op \<Rightarrow> redis_op" where
  "with_topology_retries n op = op\<lparr>ro_retries := max n 1\<rparr>"

definition expand_node :: "string \<Rightarrow> string list" where
  "expand_node hp = (if CHR '','' \<in> set hp then filter (\<lambda>s. s \<noteq> []) (map trim (split_on is_comma hp)) else [hp])"

definition expanded_nodes :: "redis_op \<Rightarrow> string list" where
  "expanded_nodes op = concat (map expand_node (ro_host_ports op))"

definition redis_url :: "redis_op \<Rightarrow> string \<Rightarrow> string" where
  "redis_url op hp = (case ro_password op of
     Some pw \<Rightarrow> ''redis://:'' @ pw @ ''@'' @ hp | None \<Rightarrow> ''redis://'' @ hp)"

definition op_urls :: "redis_op \<Rightarrow> string list" where
  "op_urls op = map (\<lambda>hp. redis_url op (redis_service_host_port (ro_endpoints op) hp)) (expanded_nodes op)"

text \<open>The loop over the nodes of one attempt, with the last error and the result of the last query.\<close>

type_synonym query_state = "string option \<times> (string + redis_value)"

fun query_nodes :: "(string \<Rightarrow> redis_answer) \<Rightarrow> string list \<Rightarrow> query_state \<Rightarrow> query_state" where
  "query_nodes ask [] st = st"
| "query_nodes ask (u # us) (le, q) = (case ask u of
     NoConnection e \<Rightarrow> query_nodes ask us (Some e, q)
   | QueryError e \<Rightarrow> query_nodes ask us (Some e, Inl e)
   | Answer v \<Rightarrow> (le, Inr v))"

fun query_attempts :: "(nat \<Rightarrow> string \<Rightarrow> redis_answer) \<Rightarrow> string list \<Rightarrow> nat \<Rightarrow> nat \<Rightarrow> query_state \<Rightarrow> query_state" where
  "query_attempts ask us attempt 0 st = st"
| "query_attempts ask us attempt (Suc left) st = (case query_nodes (ask attempt) us st of
     (le, Inr v) \<Rightarrow> (le, Inr v)
   | (le, Inl e) \<Rightarrow> query_attempts ask us (Suc attempt) left (le, Inl e))"

text \<open>A single node: one connection, a first query and up to 60 more.\<close>

fun query_single :: "(nat \<Rightarrow> string + redis_value) \<Rightarrow> nat \<Rightarrow> nat \<Rightarrow> string option \<Rightarrow> query_state" where
  "query_single info attempt left le = (case info attempt of
     Inr v \<Rightarrow> (le, Inr v)
   | Inl e \<Rightarrow> (case left of 0 \<Rightarrow> (le, Inl e) | Suc n \<Rightarrow> query_single info (Suc attempt) n (Some e)))"

text \<open>A set of nodes, where a node is its address; the order is the caller's.\<close>

definition same_node :: "node_info \<Rightarrow> node_info \<Rightarrow> bool" where
  "same_node a b \<longleftrightarrow> ni_ip a = ni_ip b \<and> ni_port a = ni_port b"

fun node_set :: "node_info list \<Rightarrow> node_info list \<Rightarrow> node_info list" where
  "node_set acc [] = acc"
| "node_set acc (n # ns) = node_set (if list_ex (same_node n) acc then acc else acc @ [n]) ns"

text \<open>The checkpoints: one trigger for each master, then a poll of each; the polls retry while running.\<close>

datatype ckpt_answer = CkptRpcError string | CkptFinished | CkptRunning | CkptFailed | CkptUnknown

fun ckpt_poll :: "string \<Rightarrow> (nat \<Rightarrow> ckpt_answer) \<Rightarrow> nat \<Rightarrow> nat \<Rightarrow> unit res" where
  "ckpt_poll url status attempt left = (case status attempt of
     CkptRpcError e \<Rightarrow> Inl (Err e)
   | CkptFinished \<Rightarrow> Inr ()
   | CkptRunning \<Rightarrow> (case left of
        0 \<Rightarrow> Inl (Err (''Checkpoint is still running after max retries for '' @ url))
      | Suc n \<Rightarrow> ckpt_poll url status (Suc attempt) n)
   | CkptFailed \<Rightarrow> Inl (Err (''Checkpoint failed for '' @ url))
   | CkptUnknown \<Rightarrow> Inl (Err (''Unexpected checkpoint status for '' @ url)))"

definition ckpt_url :: "redis_op \<Rightarrow> node_info \<Rightarrow> string" where
  "ckpt_url op m = redis_grpc_url (ro_endpoints op) (ni_ip m) (ni_port m + 10000 + 1)"

definition run_checkpoints :: "(string \<Rightarrow> unit res) \<Rightarrow> (string \<Rightarrow> nat \<Rightarrow> ckpt_answer) \<Rightarrow> redis_op \<Rightarrow>
    node_info list \<Rightarrow> unit res" where
  "run_checkpoints trigger status op masters =
     bindE (checkE (\<lambda>m. trigger (ckpt_url op m)) masters) (\<lambda>_.
     checkE (\<lambda>m. ckpt_poll (ckpt_url op m) (status (ckpt_url op m)) 0 500) masters)"

text \<open>
  The answers of the outside world to a \<open>RedisOpTask\<close>: the connection to a single node and its
  answers, the nodes' answers, the checkpoint calls, the order of the sets.
\<close>

record redis_world =
  rw_connect :: "string \<Rightarrow> unit res"
  rw_info :: "nat \<Rightarrow> string + redis_value"
  rw_ask :: "nat \<Rightarrow> string \<Rightarrow> redis_answer"
  rw_trigger :: "string \<Rightarrow> unit res"
  rw_status :: "string \<Rightarrow> nat \<Rightarrow> ckpt_answer"
  rw_order :: "node_info list \<Rightarrow> node_info list"

text \<open>The error text of a task result; a panic has none of its own here.\<close>

fun err_text :: "err \<Rightarrow> string" where
  "err_text (Err m) = m"
| "err_text (Panic m) = m"

text \<open>The connection and the query, \<open>Inl\<close> when the task ends at once with status 1.\<close>

definition run_query :: "redis_world \<Rightarrow> redis_op \<Rightarrow> string + query_state" where
  "run_query w op =
     (let single = (length (expanded_nodes op) = 1)
      in if to_lower (ro_cmd op) \<noteq> ''topology'' then Inl ''Unsupported command''
         else if single then
           (case rw_connect w (hd (op_urls op)) of
              Inl e \<Rightarrow> Inl (err_text e)
            | Inr _ \<Rightarrow> Inr (query_single (rw_info w) 0 topology_retries None))
         else Inr (query_attempts (rw_ask w) (op_urls op) 1 (ro_retries op)
                (None, Inl ''cluster topology query did not run'')))"

definition parse_answer :: "redis_op \<Rightarrow> redis_value \<Rightarrow> cluster_nodes list res" where
  "parse_answer op v =
     (if length (expanded_nodes op) = 1
      then bindE (parse_cluster_nodes_single v (hd (expanded_nodes op))) (\<lambda>cn. Inr [cn])
      else parse_cluster_nodes v)"

definition unique_nodes :: "redis_world \<Rightarrow> (cluster_nodes \<Rightarrow> node_info list) \<Rightarrow> cluster_nodes list \<Rightarrow> node_info list" where
  "unique_nodes w part cns = rw_order w (node_set [] (concat (map part cns)))"

text \<open>
  \<open>RedisOpTask::execute\<close>: \<open>Inl\<close> is the message of a result with status 1, \<open>Inr\<close> the nodes of a result
  with status 0 (they travel as JSON text and are read back unchanged).
\<close>

definition redis_op_execute :: "redis_world \<Rightarrow> redis_op \<Rightarrow> (string + cluster_nodes) res" where
  "redis_op_execute w op = (case run_query w op of
     Inl m \<Rightarrow> Inr (Inl m)
   | Inr (le, Inl e) \<Rightarrow> Inr (Inl e)
   | Inr (le, Inr v) \<Rightarrow>
       bindE (parse_answer op v) (\<lambda>cns.
       let masters = unique_nodes w cn_masters cns
       in if masters = [] then
            Inr (Inl (case le of Some m \<Rightarrow> m | None \<Rightarrow> ''cluster topology query did not return any master''))
          else case (if ro_skip_checkpoint op then Inr () else run_checkpoints (rw_trigger w) (rw_status w) op masters) of
            Inl e \<Rightarrow> Inr (Inl (err_text e))
          | Inr _ \<Rightarrow> Inr (Inr \<lparr>cn_masters = masters, cn_replicas = unique_nodes w cn_replicas cns,
                                cn_voters = unique_nodes w cn_voters cns\<rparr>)))"

text \<open>
  What the task hands to the controller: a failure is a result with status 1, not an error.
\<close>

definition redis_op_task :: "(cluster_nodes \<Rightarrow> string) \<Rightarrow> redis_world \<Rightarrow> redis_op \<Rightarrow> execution_value option res" where
  "redis_op_task to_json w op = bindE (redis_op_execute w op) (\<lambda>r. Inr (Some (case r of
     Inl m \<Rightarrow> task_output (ro_redis_cmd op) 1 m
   | Inr cn \<Rightarrow> task_output (ro_redis_cmd op) 0 (to_json cn))))"

text \<open>\<open>fetch_cluster_nodes\<close>: the nodes, or the message as an error.\<close>

definition fetch_nodes :: "redis_world \<Rightarrow> redis_op \<Rightarrow> cluster_nodes res" where
  "fetch_nodes w op = bindE (redis_op_execute w op) (\<lambda>r. case r of Inl m \<Rightarrow> Inl (Err m) | Inr cn \<Rightarrow> Inr cn)"

section \<open>Failover\<close>

record failover_op =
  fo_old_host :: string
  fo_old_port :: u16
  fo_new_host :: string
  fo_new_port :: u16
  fo_password :: "string option"
  fo_endpoints :: "(string \<rightharpoonup> service_endpoint_t) option"
  fo_explicit :: bool

definition is_at :: "string \<Rightarrow> u16 \<Rightarrow> node_info \<Rightarrow> bool" where
  "is_at host p n \<longleftrightarrow> ni_ip n = host \<and> ni_port n = p"

definition node_pair :: "node_info \<Rightarrow> string \<times> u16" where
  "node_pair n = (ni_ip n, ni_port n)"

definition first_connected :: "node_info list \<Rightarrow> (string \<times> u16) option" where
  "first_connected ns = map_option node_pair (List.find ni_connected ns)"

definition find_best_replica :: "failover_op \<Rightarrow> cluster_nodes \<Rightarrow> (string \<times> u16) option" where
  "find_best_replica op cn =
     (if fo_new_host op \<noteq> [] \<and> 0 < fo_new_port op then
        (case List.find (is_at (fo_new_host op) (fo_new_port op)) (cn_replicas cn) of
           None \<Rightarrow> if fo_explicit op then None else first_connected (cn_replicas cn)
         | Some r \<Rightarrow>
             (case (List.find (is_at (fo_old_host op) (fo_old_port op)) (cn_masters cn), ni_master_id r) of
                (Some old, Some mid) \<Rightarrow>
                  if ni_node_id old \<noteq> Some mid then None
                  else if ni_connected r then Some (fo_new_host op, fo_new_port op) else None
              | _ \<Rightarrow> if ni_connected r then Some (fo_new_host op, fo_new_port op) else None))
      else if fo_explicit op then None
      else first_connected (cn_replicas cn))"

datatype failover_answer = FailoverBadUrl string | FailoverNoConnection string | FailoverError string | FailoverResponse string

definition failover_url :: "failover_op \<Rightarrow> string" where
  "failover_url op =
     (case resolve_service_endpoint (fo_endpoints op) (fo_old_host op) (fo_old_port op) of (eh, ep) \<Rightarrow>
        (case fo_password op of
           Some pw \<Rightarrow> ''redis://:'' @ pw @ ''@'' @ eh @ '':'' @ show_u16 ep
         | None \<Rightarrow> ''redis://'' @ eh @ '':'' @ show_u16 ep))"

definition redis_failure :: "string \<Rightarrow> err" where
  "redis_failure reason = Err (cmd_err_text (RedisOpErr reason ''1''))"

text \<open>
  \<open>FailoverOpTask::execute\<close>: the command that is sent (the node it goes to and the new leader), and
  the outcome; an error is what \<open>task_return_value!\<close> makes of a status other than 0.
\<close>

definition failover_execute :: "(string \<Rightarrow> string \<Rightarrow> failover_answer) \<Rightarrow> failover_op \<Rightarrow> cluster_nodes \<Rightarrow>
    (string \<times> string) option \<times> string res" where
  "failover_execute send op cn =
     (let old = addr (fo_old_host op) (fo_old_port op)
      in if \<not> list_ex (is_at (fo_old_host op) (fo_old_port op)) (cn_masters cn)
         then (None, Inr (''Node '' @ old @ '' is not a master, no failover needed''))
         else case find_best_replica op cn of
           None \<Rightarrow> (None, Inl (redis_failure ''No suitable replica found''))
         | Some (h, p) \<Rightarrow>
             let new = addr h p
             in case send (failover_url op) new of
                  FailoverBadUrl e \<Rightarrow> (None, Inl (Err e))
                | FailoverNoConnection e \<Rightarrow> (None, Inl (redis_failure ''Connection to old leader failed''))
                | FailoverError e \<Rightarrow> (Some (failover_url op, new), Inl (redis_failure ''Failover execution failed''))
                | FailoverResponse r \<Rightarrow> (Some (failover_url op, new),
                    if r = ''OK'' then Inr (''Successfully initiated failover from '' @ old @ '' to '' @ new @ ''. Response: '' @ r)
                    else Inl (redis_failure ''Failover execution failed with unexpected response'')))"

section \<open>Waiting for nodes\<close>

definition replica_ready_retries :: nat where "replica_ready_retries = 120"

definition describe_node :: "node_info \<Rightarrow> string" where
  "describe_node n = addr (ni_ip n) (ni_port n) @ '' ('' @
     (if ni_connected n then ''connected'' else ''disconnected'') @ '')''"

definition describe_nodes :: "node_info list \<Rightarrow> string" where
  "describe_nodes ns = (if ns = [] then ''<none>'' else join '', '' (map describe_node ns))"

definition connected_at :: "string \<Rightarrow> u16 \<Rightarrow> node_info \<Rightarrow> bool" where
  "connected_at host p n \<longleftrightarrow> is_at host p n \<and> ni_connected n"

text \<open>The attempts of a wait, numbered from 1: \<open>check\<close> gives the output, or what was seen last.\<close>

fun wait_loop :: "(cluster_nodes \<Rightarrow> string + string) \<Rightarrow> (nat \<Rightarrow> cluster_nodes res) \<Rightarrow> nat \<Rightarrow> nat \<Rightarrow> string \<Rightarrow> string + string" where
  "wait_loop check fetch attempt 0 seen = Inl seen"
| "wait_loop check fetch attempt (Suc left) seen = (case fetch attempt of
     Inl e \<Rightarrow> wait_loop check fetch (Suc attempt) left (err_text e)
   | Inr cn \<Rightarrow> (case check cn of
       Inr out \<Rightarrow> Inr out
     | Inl seen' \<Rightarrow> wait_loop check fetch (Suc attempt) left seen'))"

definition replica_check :: "string \<Rightarrow> u16 \<Rightarrow> string \<Rightarrow> u16 \<Rightarrow> cluster_nodes \<Rightarrow> string + string" where
  "replica_check sh sp th tp cn =
     (let masters = describe_nodes (cn_masters cn); replicas = describe_nodes (cn_replicas cn)
      in if list_ex (connected_at sh sp) (cn_masters cn) \<and> list_ex (connected_at th tp) (cn_replicas cn)
         then Inr (''Master '' @ addr sh sp @ '' and replica '' @ addr th tp @
           '' are connected and ready for failover. Masters: '' @ masters @ ''. Replicas: '' @ replicas)
         else Inl (''masters currently visible: '' @ masters @ ''; replicas currently visible: '' @ replicas))"

definition wait_replica_ready :: "string \<Rightarrow> u16 \<Rightarrow> string \<Rightarrow> u16 \<Rightarrow> (nat \<Rightarrow> cluster_nodes res) \<Rightarrow> string + string" where
  "wait_replica_ready sh sp th tp fetch =
     (case wait_loop (replica_check sh sp th tp) fetch 1 replica_ready_retries
         ''required nodes not yet observed as connected in cluster topology'' of
        Inr out \<Rightarrow> Inr out
      | Inl seen \<Rightarrow> Inl (''Master '' @ addr sh sp @ '' and replica '' @ addr th tp @
          '' did not both become connected in time: '' @ seen))"

definition find_connected_target :: "string \<Rightarrow> u16 \<Rightarrow> cluster_nodes \<Rightarrow> string option" where
  "find_connected_target host p cn =
     (if list_ex (connected_at host p) (cn_masters cn) then Some ''master''
      else if list_ex (connected_at host p) (cn_replicas cn) then Some ''replica''
      else if list_ex (connected_at host p) (cn_voters cn) then Some ''voter''
      else None)"

definition node_check :: "string \<Rightarrow> u16 \<Rightarrow> string option \<Rightarrow> cluster_nodes \<Rightarrow> string + string" where
  "node_check host p required cn =
     (let target = addr host p;
          seen = ''masters: '' @ describe_nodes (cn_masters cn) @ ''; replicas: '' @ describe_nodes (cn_replicas cn) @
            ''; voters: '' @ describe_nodes (cn_voters cn)
      in if list_ex ni_connected (cn_masters cn) then
           (case find_connected_target host p cn of
              None \<Rightarrow> Inl seen
            | Some role \<Rightarrow> (case required of
                Some r \<Rightarrow> if r \<noteq> role then Inl (''target node '' @ target @ '' is connected as '' @ role @ '', waiting for '' @ r)
                    else Inr (''Node '' @ target @ '' is connected as '' @ role @ ''; cluster has a connected master'')
              | None \<Rightarrow> Inr (''Node '' @ target @ '' is connected as '' @ role @ ''; cluster has a connected master'')))
         else Inl seen)"

definition wait_node_ready :: "string \<Rightarrow> u16 \<Rightarrow> string option \<Rightarrow> (nat \<Rightarrow> cluster_nodes res) \<Rightarrow> string + string" where
  "wait_node_ready host p required fetch =
     (case wait_loop (node_check host p required) fetch 1 replica_ready_retries
         ''target node not yet observed as connected in cluster topology'' of
        Inr out \<Rightarrow> Inr out
      | Inl seen \<Rightarrow> Inl (''Node '' @ addr host p @ '' did not become connected in cluster topology in time: '' @ seen))"

text \<open>The values of the two waits; running out of attempts is a result with status 1.\<close>

definition wait_value :: "string \<Rightarrow> string + string \<Rightarrow> execution_value option res" where
  "wait_value cmd r = Inr (Some (case r of Inl m \<Rightarrow> task_output cmd 1 m | Inr m \<Rightarrow> task_output cmd 0 m))"

definition wait_replica_task :: "string \<Rightarrow> u16 \<Rightarrow> string \<Rightarrow> u16 \<Rightarrow> (nat \<Rightarrow> cluster_nodes res) \<Rightarrow> execution_value option res" where
  "wait_replica_task sh sp th tp fetch = wait_value ''wait replica ready'' (wait_replica_ready sh sp th tp fetch)"

definition wait_node_task :: "string \<Rightarrow> u16 \<Rightarrow> string option \<Rightarrow> (nat \<Rightarrow> cluster_nodes res) \<Rightarrow> execution_value option res" where
  "wait_node_task host p required fetch = wait_value ''wait node ready'' (wait_node_ready host p required fetch)"

section \<open>Reading a rendered answer\<close>

text \<open>The line of a node as the documentation of \<open>CLUSTER NODES\<close> has it, and the answer with a line for each node.\<close>

definition node_line :: "string \<Rightarrow> node_info \<Rightarrow> string" where
  "node_line flag n = join '' '' [the (ni_node_id n), ni_ip n @ '':'' @ show_u16 (ni_port n) @ ''@'' @ show_u16 (ni_port n), flag,
     (case ni_master_id n of Some m \<Rightarrow> m | None \<Rightarrow> ''-''), ''0'', ''0'', ''1'',
     (if ni_connected n then ''connected'' else ''disconnected'')]"

definition node_lines :: "cluster_nodes \<Rightarrow> string list" where
  "node_lines cn = map (node_line ''master'') (cn_masters cn) @ map (node_line ''slave'') (cn_replicas cn) @
     map (node_line ''voter'') (cn_voters cn)"

definition word :: "string \<Rightarrow> bool" where
  "word s \<longleftrightarrow> s \<noteq> [] \<and> (\<forall>c \<in> set s. \<not> is_ws c)"

definition plain_node :: "node_info \<Rightarrow> bool" where
  "plain_node n \<longleftrightarrow> (\<exists>i. ni_node_id n = Some i \<and> word i) \<and> (\<forall>m. ni_master_id n = Some m \<longrightarrow> word m \<and> m \<noteq> ''-'') \<and>
     (\<forall>c \<in> set (ni_ip n). \<not> is_ws c \<and> \<not> is_at_or_colon c)"

definition plain_nodes :: "cluster_nodes \<Rightarrow> bool" where
  "plain_nodes cn \<longleftrightarrow> list_all plain_node (cn_masters cn @ cn_replicas cn @ cn_voters cn)"

lemma show_u16_no_at: "c \<in> set (show_u16 p) \<Longrightarrow> \<not> is_at_or_colon c"
  by (auto simp: show_u16_def is_at_or_colon_def is_digit_def Let_def dest!: show_nat_digits)

lemma node_line_words:
  assumes "plain_node n" and f: "flag \<in> {''master'', ''slave'', ''voter''}"
  shows "\<exists>w \<in> {''connected'', ''disconnected''}. \<exists>i m. ni_node_id n = Some i \<and>
    (case ni_master_id n of Some m \<Rightarrow> m | None \<Rightarrow> ''-'') = m \<and> (ni_connected n \<longleftrightarrow> w = ''connected'') \<and>
    split_ws (node_line flag n) = [i, ni_ip n @ '':'' @ show_u16 (ni_port n) @ ''@'' @ show_u16 (ni_port n), flag, m, ''0'', ''0'', ''1'', w]"
proof -
  let ?m = "case ni_master_id n of Some m \<Rightarrow> m | None \<Rightarrow> ''-''"
  let ?w = "if ni_connected n then ''connected'' else ''disconnected''"
  obtain i where i: "ni_node_id n = Some i" "word i" using assms(1) by (auto simp: plain_node_def)
  have m: "word ?m" using assms(1) by (auto simp: plain_node_def word_def is_ws_def split: option.split)
  have w: "word ?w" "word flag" using f by (auto simp: word_def is_ws_def)
  have a: "word (ni_ip n @ '':'' @ show_u16 (ni_port n) @ ''@'' @ show_u16 (ni_port n))"
    using assms(1) by (auto simp: plain_node_def word_def is_ws_def [of "CHR '':''"] is_ws_def [of "CHR ''@''"])
  have "split_ws (node_line flag n) = [i, ni_ip n @ '':'' @ show_u16 (ni_port n) @ ''@'' @ show_u16 (ni_port n), flag, ?m, ''0'', ''0'', ''1'', ?w]"
    unfolding node_line_def i(1) option.sel
    by (rule split_ws_join) (use i(2) m w a in \<open>simp add: word_def is_ws_def\<close>)
  then show ?thesis using i(1) by (cases "ni_connected n") auto
qed

definition push_node :: "string \<Rightarrow> cluster_nodes \<Rightarrow> node_info \<Rightarrow> cluster_nodes" where
  "push_node flag cn n = (if flag = ''master'' then cn\<lparr>cn_masters := cn_masters cn @ [n]\<rparr>
     else if flag = ''slave'' then cn\<lparr>cn_replicas := cn_replicas cn @ [n]\<rparr> else cn\<lparr>cn_voters := cn_voters cn @ [n]\<rparr>)"

lemma role_flags:
  "flag \<in> {''master'', ''slave'', ''voter''} \<Longrightarrow> has_flag ''master'' flag = (flag = ''master'') \<and>
   has_flag ''slave'' flag = (flag = ''slave'') \<and> has_flag ''voter'' flag = (flag = ''voter'')"
  by (elim insertE emptyE) (hypsubst, code_simp)+

lemma link_state: "w \<in> {''connected'', ''disconnected''} \<Longrightarrow> eq_ignore_case w ''connected'' = (w = ''connected'')"
  by (elim insertE emptyE) (hypsubst, code_simp)+

lemma add_rendered_line:
  assumes "plain_node n" and f: "flag \<in> {''master'', ''slave'', ''voter''}"
  shows "add_node_line cn (node_line flag n) = push_node flag cn n"
proof -
  obtain w i m where w: "w \<in> {''connected'', ''disconnected''}" "ni_node_id n = Some i"
    "(case ni_master_id n of Some m \<Rightarrow> m | None \<Rightarrow> ''-'') = m" "ni_connected n \<longleftrightarrow> w = ''connected''"
    and s: "split_ws (node_line flag n) = [i, ni_ip n @ '':'' @ show_u16 (ni_port n) @ ''@'' @ show_u16 (ni_port n), flag, m, ''0'', ''0'', ''1'', w]"
    using node_line_words [OF assms] by blast
  have t: "trim (node_line flag n) \<noteq> []"
  proof
    assume "trim (node_line flag n) = []"
    then have "\<forall>c \<in> set (node_line flag n). is_ws c"
      unfolding trim_def trim_start_def trim_end_def by (metis (full_types) dropWhile_eq_Nil_conv hd_dropWhile list.set_sel(1) rev_is_Nil_conv set_rev)
    moreover have "set i \<subseteq> set (node_line flag n)" using w(2) by (auto simp: node_line_def)
    moreover have "word i" using assms(1) w(2) by (auto simp: plain_node_def)
    ultimately show False unfolding word_def by (metis last_in_set subsetD)
  qed
  have ip: "split_ip_port (ni_ip n @ '':'' @ show_u16 (ni_port n) @ ''@'' @ show_u16 (ni_port n)) =
      [ni_ip n, show_u16 (ni_port n), show_u16 (ni_port n)]"
    using assms(1) unfolding plain_node_def
    by (simp add: split_ip_port_def split_on_append_sep split_on_no_sep show_u16_no_at is_at_or_colon_def [of "CHR '':''"]
        is_at_or_colon_def [of "CHR ''@''"])
  note fl = role_flags [OF f, THEN conjunct1] role_flags [OF f, THEN conjunct2, THEN conjunct1]
    role_flags [OF f, THEN conjunct2, THEN conjunct2]
  have c: "eq_ignore_case w ''connected'' = ni_connected n" using link_state [OF w(1)] w(4) by simp
  have mid: "(if m \<noteq> ''-'' then Some m else None) = ni_master_id n"
    using w(3) assms(1) by (auto simp: plain_node_def split: option.splits)
  have n: "\<lparr>ni_ip = ni_ip n, ni_port = ni_port n, ni_connected = ni_connected n, ni_node_id = Some i, ni_master_id = ni_master_id n\<rparr> = n"
    using w(2) by (cases n) simp
  let ?ip = "ni_ip n @ '':'' @ show_u16 (ni_port n) @ ''@'' @ show_u16 (ni_port n)"
  let ?parts = "[i, ?ip, flag, m, ''0'', ''0'', ''1'', w]"
  have parts: "length ?parts = 8" "?parts ! 0 = i" "?parts ! 1 = ?ip" "?parts ! 2 = flag" "?parts ! 3 = m" "?parts ! 7 = w"
    by simp_all
  have port: "parse_u16 ([ni_ip n, show_u16 (ni_port n), show_u16 (ni_port n)] ! 1) = Some (ni_port n)"
    "[ni_ip n, show_u16 (ni_port n), show_u16 (ni_port n)] ! 0 = ni_ip n"
    "\<not> length [ni_ip n, show_u16 (ni_port n), show_u16 (ni_port n)] < 2" by simp_all
  have "add_node_line cn (node_line flag n) = (if flag = ''master'' then cn\<lparr>cn_masters := cn_masters cn @ [n]\<rparr>
     else if flag = ''slave'' then cn\<lparr>cn_replicas := cn_replicas cn @ [n]\<rparr>
     else if flag = ''voter'' then cn\<lparr>cn_voters := cn_voters cn @ [n]\<rparr> else cn)"
    by (simp only: add_node_line_def s Let_def t parts less_irrefl if_False ip port option.case fl c mid n)
  then show ?thesis using f by (elim insertE emptyE) (simp_all only: push_node_def, simp_all)
qed

lemma foldl_push_node:
  "foldl (push_node flag) cn ns = (if flag = ''master'' then cn\<lparr>cn_masters := cn_masters cn @ ns\<rparr>
     else if flag = ''slave'' then cn\<lparr>cn_replicas := cn_replicas cn @ ns\<rparr> else cn\<lparr>cn_voters := cn_voters cn @ ns\<rparr>)"
  by (induction ns arbitrary: cn) (simp_all add: push_node_def)

lemma foldl_rendered:
  "list_all plain_node ns \<Longrightarrow> flag \<in> {''master'', ''slave'', ''voter''} \<Longrightarrow>
   foldl add_node_line cn (map (node_line flag) ns) = foldl (push_node flag) cn ns"
  by (induction ns arbitrary: cn) (simp_all add: add_rendered_line del: insert_iff)

lemma node_line_chars:
  assumes "plain_node n" "flag \<in> {''master'', ''slave'', ''voter''}"
  shows "node_line flag n \<noteq> [] \<and> last (node_line flag n) = CHR ''d''"
    and "\<forall>c \<in> set (node_line flag n). c \<noteq> CHR 0x0A \<and> c \<noteq> CHR 0x0D"
proof -
  show "node_line flag n \<noteq> [] \<and> last (node_line flag n) = CHR ''d''"
    by (simp add: node_line_def)
  let ?P = "\<lambda>c. c \<noteq> CHR 0x0A \<and> c \<noteq> CHR 0x0D"
  have ws: "?P c" if "\<not> is_ws c" for c using that by (auto simp: is_ws_def)
  obtain i where i: "ni_node_id n = Some i" "word i" using assms(1) by (auto simp: plain_node_def)
  have m: "word (case ni_master_id n of Some m \<Rightarrow> m | None \<Rightarrow> ''-'')"
    using assms(1) by (auto simp: plain_node_def word_def is_ws_def split: option.split)
  have ip: "\<forall>c \<in> set (ni_ip n @ '':'' @ show_u16 (ni_port n) @ ''@'' @ show_u16 (ni_port n)). ?P c"
    using assms(1) ws by (simp add: plain_node_def ball_Un)
  have words: "word s \<Longrightarrow> \<forall>c \<in> set s. ?P c" for s using ws unfolding word_def by blast
  have "\<forall>c \<in> set flag. ?P c" using assms(2) by auto
  then show "\<forall>c \<in> set (node_line flag n). ?P c"
    using words [OF i(2)] words [OF m] ip unfolding node_line_def i(1) option.sel
    by (simp add: ball_Un)
qed

section \<open>Properties\<close>

lemma node_lines_read:
  assumes "plain_nodes cn"
  shows "foldl add_node_line no_nodes (node_lines cn) = cn"
proof -
  have p: "list_all plain_node (cn_masters cn)" "list_all plain_node (cn_replicas cn)" "list_all plain_node (cn_voters cn)"
    using assms by (simp_all add: plain_nodes_def)
  show ?thesis
    by (cases cn) (use p in \<open>simp add: node_lines_def foldl_rendered foldl_push_node no_nodes_def\<close>)
qed

lemma node_lines_text:
  assumes "plain_nodes cn" "cn \<noteq> no_nodes"
  shows "str_lines (join [CHR 0x0A] (node_lines cn)) = node_lines cn"
    and "last (join [CHR 0x0A] (node_lines cn)) = CHR ''d''"
proof -
  have line: "\<exists>n flag. l = node_line flag n \<and> plain_node n \<and> flag \<in> {''master'', ''slave'', ''voter''}"
    if "l \<in> set (node_lines cn)" for l
  proof -
    from that assms(1) consider n where "l = node_line ''master'' n" "plain_node n"
      | n where "l = node_line ''slave'' n" "plain_node n" | n where "l = node_line ''voter'' n" "plain_node n"
      by (auto simp: node_lines_def plain_nodes_def list_all_iff)
    then show ?thesis by cases blast+
  qed
  have ne: "node_lines cn \<noteq> []" using assms(2) by (cases cn) (auto simp: node_lines_def no_nodes_def)
  then have l: "last (node_lines cn) \<noteq> [] \<and> last (last (node_lines cn)) = CHR ''d''"
    using line [OF last_in_set] node_line_chars(1) by metis
  then have "last (node_lines cn) \<noteq> []" ..
  moreover have "\<forall>l \<in> set (node_lines cn). \<forall>c \<in> set l. c \<noteq> CHR 0x0A \<and> c \<noteq> CHR 0x0D"
    using line node_line_chars(2) by metis
  ultimately show "str_lines (join [CHR 0x0A] (node_lines cn)) = node_lines cn" by (rule str_lines_join [OF ne])
  have "\<forall>w \<in> set (node_lines cn). w \<noteq> []" using line node_line_chars(1) by metis
  from hd_last_join [OF ne this] l show "last (join [CHR 0x0A] (node_lines cn)) = CHR ''d''" by metis
qed

text \<open>C21. An answer to \<open>CLUSTER NODES\<close> with one line for each node reads back as exactly these
  nodes, in order, with their links, ids and masters: masters, replicas and voters are told apart by
  their flags alone. The names must be words, and the addresses free of colons and at signs.\<close>

theorem rendered_nodes_read_back:
  assumes "plain_nodes cn" and "cn \<noteq> no_nodes"
  shows "parse_cluster_nodes (BulkString (join [CHR 0x0A] (node_lines cn))) = Inr [cn]"
proof -
  let ?s = "join [CHR 0x0A] (node_lines cn)"
  have l: "last ?s = CHR ''d''" by (rule node_lines_text(2) [OF assms])
  have "\<not> ends_with [CHR 0x22] ?s"
  proof
    assume "ends_with [CHR 0x22] ?s"
    then have "take 1 (rev ?s) = [CHR 0x22]" by (simp add: ends_with_def starts_with_def)
    then have "?s \<noteq> [] \<and> last ?s = CHR 0x22" by (cases "rev ?s") (auto simp: rev_eq_Cons_iff)
    with l show False by simp
  qed
  then have "nodes_text (BulkString ?s) = Inr ?s" by (simp add: nodes_text_def)
  moreover have "cn_masters cn \<noteq> [] \<or> cn_replicas cn \<noteq> [] \<or> cn_voters cn \<noteq> []"
    using assms(2) by (cases cn) (auto simp: no_nodes_def)
  ultimately show ?thesis
    by (simp add: parse_cluster_nodes_def node_lines_text(1) [OF assms] node_lines_read [OF assms(1)])
qed

definition sample_master :: node_info where
  "sample_master = \<lparr>ni_ip = ''10.0.0.1'', ni_port = 6379, ni_connected = True, ni_node_id = Some ''n1'', ni_master_id = None\<rparr>"

definition sample_replica :: node_info where
  "sample_replica = \<lparr>ni_ip = ''10.0.0.2'', ni_port = 6379, ni_connected = False, ni_node_id = Some ''n2'', ni_master_id = Some ''n1''\<rparr>"

definition sample_nodes :: cluster_nodes where
  "sample_nodes = \<lparr>cn_masters = [sample_master], cn_replicas = [sample_replica], cn_voters = []\<rparr>"

theorem rendered_nodes_read_back_witness:
  "parse_cluster_nodes (BulkString (join [CHR 0x0A] (node_lines sample_nodes))) = Inr [sample_nodes]"
proof (rule rendered_nodes_read_back)
  show "plain_nodes sample_nodes"
    by (simp add: plain_nodes_def sample_nodes_def sample_master_def sample_replica_def plain_node_def word_def is_ws_def
        is_at_or_colon_def)
  show "sample_nodes \<noteq> no_nodes" by (simp add: sample_nodes_def no_nodes_def)
qed

text \<open>The query of several nodes is a search over the attempts and, in each attempt, the nodes.\<close>

fun first_answer :: "redis_answer list \<Rightarrow> redis_value option" where
  "first_answer [] = None"
| "first_answer (a # as) = (case a of Answer v \<Rightarrow> Some v | _ \<Rightarrow> first_answer as)"

lemma first_answer_append: "first_answer (a @ b) = (case first_answer a of Some v \<Rightarrow> Some v | None \<Rightarrow> first_answer b)"
  by (induction a) (simp_all split: redis_answer.split)

lemma query_nodes_first:
  "snd (query_nodes ask us (le, Inl e)) = (case first_answer (map ask us) of
     Some v \<Rightarrow> Inr v | None \<Rightarrow> snd (query_nodes ask us (le, Inl e))) \<and>
   (first_answer (map ask us) = None \<longrightarrow> (\<exists>e'. snd (query_nodes ask us (le, Inl e)) = Inl e'))"
  by (induction us arbitrary: le e) (auto split: redis_answer.split option.split)

lemma query_attempts_first:
  "case first_answer (concat (map (\<lambda>a. map (ask a) us) [k..<k + n])) of
     Some v \<Rightarrow> snd (query_attempts ask us k n (le, Inl e)) = Inr v
   | None \<Rightarrow> \<exists>e'. snd (query_attempts ask us k n (le, Inl e)) = Inl e'"
proof (induction n arbitrary: k le e)
  case (Suc n)
  have up: "[k..<k + Suc n] = k # [Suc k..<Suc k + n]" by (simp add: upt_conv_Cons)
  obtain le' q where q: "query_nodes (ask k) us (le, Inl e) = (le', q)" by force
  show ?case
  proof (cases "first_answer (map (ask k) us)")
    case None
    with query_nodes_first [of "ask k" us le e] q obtain e' where "q = Inl e'" by auto
    with q None Suc.IH [of "Suc k" le' e'] show ?thesis unfolding up
      by (auto simp: first_answer_append simp del: upt_Suc split: option.splits)
  next
    case (Some v)
    with query_nodes_first [of "ask k" us le e] q have "q = Inr v" by simp
    with q Some show ?thesis unfolding up by (simp add: first_answer_append del: upt_Suc)
  qed
qed simp

text \<open>
  The result of the query loops, whatever the last error: the first answer in the order of the
  attempts and, within an attempt, of the nodes, and a failure only if no node answered at all.
\<close>

lemma topology_query_is_search:
  "case first_answer (concat (map (\<lambda>a. map (ask a) us) [1..<Suc n])) of
     Some v \<Rightarrow> snd (query_attempts ask us 1 n (None, Inl e)) = Inr v
   | None \<Rightarrow> \<exists>e'. snd (query_attempts ask us 1 n (None, Inl e)) = Inl e'"
  using query_attempts_first [of ask us 1 n None e] by (simp del: upt_Suc)

text \<open>The loop of a wait succeeds iff one of its attempts does.\<close>

lemma wait_loop_Inr:
  "(\<exists>out. wait_loop check fetch a n seen = Inr out) \<longleftrightarrow>
   (\<exists>k cn out. a \<le> k \<and> k < a + n \<and> fetch k = Inr cn \<and> check cn = Inr out)"
proof (induction n arbitrary: a seen)
  case (Suc n)
  have split: "(\<exists>k cn out. a \<le> k \<and> k < a + Suc n \<and> fetch k = Inr cn \<and> check cn = Inr out) \<longleftrightarrow>
      (\<exists>cn out. fetch a = Inr cn \<and> check cn = Inr out) \<or>
      (\<exists>k cn out. Suc a \<le> k \<and> k < Suc a + n \<and> fetch k = Inr cn \<and> check cn = Inr out)"
    by (auto simp: le_eq_less_or_eq) (metis Suc_le_eq le_eq_less_or_eq nat_neq_iff)+
  show ?case unfolding split using Suc.IH [of "Suc a"] by (auto split: sum.split)
qed simp

lemma node_check_Inr:
  "(\<exists>out. node_check host p required cn = Inr out) \<longleftrightarrow>
   list_ex ni_connected (cn_masters cn) \<and>
   (\<exists>role. find_connected_target host p cn = Some role \<and> (required = None \<or> required = Some role))"
  unfolding node_check_def Let_def by (auto split: option.split)

text \<open>Waiting for a node ends after at most 120 attempts, and reports success iff one of the
  topologies it saw has a connected master and shows the node connected, in the role that was asked
  for if any. To the controller a wait that ran out of attempts is a success all the same: it is a
  result with status 1, never an error.\<close>

theorem wait_node_outcome:
  "(\<exists>status out. task_result_of (wait_node_task host p required fetch) =
       Some (Success (Some (task_output ''wait node ready'' status out))) \<and>
     (status = 0 \<longleftrightarrow> (\<exists>k cn role. 1 \<le> k \<and> k \<le> 120 \<and> fetch k = Inr cn \<and> list_ex ni_connected (cn_masters cn) \<and>
        find_connected_target host p cn = Some role \<and> (required = None \<or> required = Some role))))"
    (is "\<exists>status out. _ \<and> (_ \<longleftrightarrow> ?seen)")
proof -
  let ?w = "wait_loop (node_check host p required) fetch 1 replica_ready_retries
    ''target node not yet observed as connected in cluster topology''"
  have "(\<exists>out. ?w = Inr out) \<longleftrightarrow> (\<exists>k cn. 1 \<le> k \<and> k \<le> 120 \<and> fetch k = Inr cn \<and> (\<exists>out. node_check host p required cn = Inr out))"
    unfolding wait_loop_Inr by (auto simp: replica_ready_retries_def less_Suc_eq_le)
  then have w: "(\<exists>out. ?w = Inr out) \<longleftrightarrow> ?seen" unfolding node_check_Inr by blast
  show ?thesis
  proof (cases ?w)
    case (Inl m)
    then have "wait_node_task host p required fetch = Inr (Some (task_output ''wait node ready'' 1
        (''Node '' @ addr host p @ '' did not become connected in cluster topology in time: '' @ m)))"
      by (simp add: wait_node_task_def wait_value_def wait_node_ready_def)
    moreover have "\<not> ?seen" using w Inl by simp
    ultimately show ?thesis by (intro exI conjI) (simp only: task_result_of.simps, simp)
  next
    case (Inr out)
    then have "wait_node_task host p required fetch = Inr (Some (task_output ''wait node ready'' 0 out))"
      by (simp add: wait_node_task_def wait_value_def wait_node_ready_def)
    moreover have "?seen" using w Inr by blast
    ultimately show ?thesis by (intro exI conjI) (simp only: task_result_of.simps, simp)
  qed
qed

lemma find_Some_set: "List.find P xs = Some x \<Longrightarrow> x \<in> set xs \<and> P x"
  by (auto simp: find_Some_iff)

text \<open>A failover with a required target sends its command, if it sends one, only to the endpoint
  of the old leader, only when the topology shows that node as a master, and only towards the selected
  node, which the topology shows as a connected replica (of that very master, when both ids are known).\<close>

theorem explicit_failover_target:
  assumes "fo_explicit op" and "fst (failover_execute send op cn) = Some (url, new)"
  shows "url = failover_url op \<and> new = addr (fo_new_host op) (fo_new_port op) \<and>
    (\<exists>old \<in> set (cn_masters cn). is_at (fo_old_host op) (fo_old_port op) old \<and>
      (\<exists>r \<in> set (cn_replicas cn). connected_at (fo_new_host op) (fo_new_port op) r \<and>
        (ni_master_id r = None \<or> ni_node_id old = ni_master_id r)))"
proof -
  obtain h p where b: "find_best_replica op cn = Some (h, p)" and n: "new = addr h p" "url = failover_url op"
    and m: "list_ex (is_at (fo_old_host op) (fo_old_port op)) (cn_masters cn)"
    using assms(2) by (auto simp: failover_execute_def Let_def split: if_splits option.splits failover_answer.splits)
  obtain old where old: "List.find (is_at (fo_old_host op) (fo_old_port op)) (cn_masters cn) = Some old"
    using m by (cases "List.find (is_at (fo_old_host op) (fo_old_port op)) (cn_masters cn)") (auto simp: find_None_iff list_ex_iff)
  from b assms(1) old obtain r where r: "List.find (is_at (fo_new_host op) (fo_new_port op)) (cn_replicas cn) = Some r"
    "ni_connected r" "ni_master_id r = None \<or> ni_node_id old = ni_master_id r"
    and hp: "h = fo_new_host op" "p = fo_new_port op"
    by (auto simp: find_best_replica_def split: if_splits option.splits)
  show ?thesis using find_Some_set [OF old] find_Some_set [OF r(1)] r(2,3) n hp
    by (auto simp: connected_at_def)
qed

definition sample_failover :: "string \<Rightarrow> u16 \<Rightarrow> failover_op" where
  "sample_failover new p = \<lparr>fo_old_host = ''a'', fo_old_port = 1, fo_new_host = new, fo_new_port = p, fo_password = None,
     fo_endpoints = None, fo_explicit = (new \<noteq> [])\<rparr>"

definition two_groups :: cluster_nodes where
  "two_groups = no_nodes\<lparr>
     cn_masters := [\<lparr>ni_ip = ''a'', ni_port = 1, ni_connected = True, ni_node_id = Some ''A'', ni_master_id = None\<rparr>,
        \<lparr>ni_ip = ''b'', ni_port = 2, ni_connected = True, ni_node_id = Some ''B'', ni_master_id = None\<rparr>],
     cn_replicas := [\<lparr>ni_ip = ''d'', ni_port = 4, ni_connected = True, ni_node_id = Some ''D'', ni_master_id = Some ''B''\<rparr>,
        \<lparr>ni_ip = ''c'', ni_port = 3, ni_connected = True, ni_node_id = Some ''C'', ni_master_id = Some ''A''\<rparr>]\<rparr>"

theorem explicit_failover_target_witness:
  "fst (failover_execute (\<lambda>_ _. FailoverResponse ''OK'') (sample_failover ''c'' 3) two_groups) =
     Some (failover_url (sample_failover ''c'' 3), addr ''c'' 3) \<and>
   (\<exists>old \<in> set (cn_masters two_groups). is_at ''a'' 1 old \<and>
      (\<exists>r \<in> set (cn_replicas two_groups). connected_at ''c'' 3 r \<and> (ni_master_id r = None \<or> ni_node_id old = ni_master_id r)))"
proof -
  have s: "fst (failover_execute (\<lambda>_ _. FailoverResponse ''OK'') (sample_failover ''c'' 3) two_groups) =
     Some (failover_url (sample_failover ''c'' 3), addr ''c'' 3)"
    by (simp add: failover_execute_def sample_failover_def two_groups_def no_nodes_def is_at_def find_best_replica_def Let_def)
  have e: "fo_explicit (sample_failover ''c'' 3)" by (simp add: sample_failover_def)
  from explicit_failover_target [OF e s] s show ?thesis by (simp add: sample_failover_def)
qed

text \<open>Without a required target (stopping nodes, or the config restart) the failover does not look
  at whose replica it promotes: it takes the first connected replica of the whole cluster, so every
  master that is to hand over names the same node.\<close>

theorem implicit_failover_first_replica:
  assumes "\<not> fo_explicit op" and "fo_new_host op = [] \<or> fo_new_port op = 0"
    and "list_ex (is_at (fo_old_host op) (fo_old_port op)) (cn_masters cn)"
    and "List.find ni_connected (cn_replicas cn) = Some r" and "\<And>u n. \<exists>a. send u n = FailoverResponse a"
  shows "fst (failover_execute send op cn) = Some (failover_url op, addr (ni_ip r) (ni_port r))"
proof -
  have "find_best_replica op cn = Some (ni_ip r, ni_port r)"
    using assms(1,2,4) by (auto simp: find_best_replica_def first_connected_def node_pair_def)
  moreover obtain a where "send (failover_url op) (addr (ni_ip r) (ni_port r)) = FailoverResponse a"
    using assms(5) by blast
  ultimately show ?thesis using assms(3) by (simp add: failover_execute_def Let_def)
qed

theorem implicit_failover_first_replica_witness:
  "fst (failover_execute (\<lambda>_ _. FailoverResponse ''OK'') (sample_failover [] 0) two_groups) =
     Some (failover_url (sample_failover [] 0), addr ''d'' 4) \<and>
   list_ex (\<lambda>m. is_at ''a'' 1 m \<and> ni_node_id m = Some ''A'') (cn_masters two_groups) \<and>
   list_ex (\<lambda>r. is_at ''d'' 4 r \<and> ni_master_id r = Some ''B'') (cn_replicas two_groups)"
proof -
  let ?r = "\<lparr>ni_ip = ''d'', ni_port = 4, ni_connected = True, ni_node_id = Some ''D'', ni_master_id = Some ''B''\<rparr>"
  have "fst (failover_execute (\<lambda>_ _. FailoverResponse ''OK'') (sample_failover [] 0) two_groups) =
     Some (failover_url (sample_failover [] 0), addr (ni_ip ?r) (ni_port ?r))"
    by (rule implicit_failover_first_replica)
      (simp_all add: sample_failover_def two_groups_def no_nodes_def is_at_def)
  then show ?thesis by (simp add: two_groups_def no_nodes_def is_at_def)
qed

end
