(* ===== verification/Tx_Ctl.thy ===== *)
theory Tx_Ctl
  imports Cluster_View Task_Stages Paths Topology_Check Node_Groups
begin

text \<open>
  Starting, stopping and inspecting EloqKV processes (\<open>cli/task/eloq_tx_ctl_task.rs\<close>, with the helpers
  of \<open>cli/task/task_utils.rs\<close> it waits with): the tasks with their ids and shell commands, the probe of
  a Redis endpoint, and what a task does on its host.

  The remote shell, the ports in use, and the answers of Redis are arguments. The probe may run
  forever; None is a call that does not return.
\<close>

section \<open>Control commands\<close>

datatype tx_ctl_cmd = TxStart string | TxStop string | TxForceStop string | TxStatus string

fun tx_cmd_value :: "tx_ctl_cmd \<Rightarrow> string" where
  "tx_cmd_value (TxStart c) = c" | "tx_cmd_value (TxStop c) = c"
| "tx_cmd_value (TxForceStop c) = c" | "tx_cmd_value (TxStatus c) = c"

fun tx_cmd_ref :: "tx_ctl_cmd \<Rightarrow> string" where
  "tx_cmd_ref (TxStart _) = ''start''" | "tx_cmd_ref (TxStop _) = ''stop''"
| "tx_cmd_ref (TxForceStop _) = ''force_stop''" | "tx_cmd_ref (TxStatus _) = ''status''"

fun server_type_str :: "server_type \<Rightarrow> string" where
  "server_type_str TxServer = ''txservice''" | "server_type_str StandbyServer = ''standby''"
| "server_type_str VoterServer = ''voter''" | "server_type_str NodeServer = ''node''"

text \<open>\<open>eloq_cmd_with_port!\<close>: the processes of a node, and what is done with them.\<close>

definition pid_cmd :: "string \<Rightarrow> string \<Rightarrow> string \<Rightarrow> string" where
  "pid_cmd bin user p = ''ps -e -o pid,cmd --no-headers -u '' @ user @ '' | grep '' @ bin @ '' | grep '' @ p @
     ''.ini | grep -v grep''"

definition awk_pid :: string where
  "awk_pid = '' | awk '' @ [CHR 0x27] @ ''{print $1}'' @ [CHR 0x27]"

definition force_stop_cmd :: "string \<Rightarrow> string \<Rightarrow> string \<Rightarrow> tx_ctl_cmd" where
  "force_stop_cmd bin user p = TxForceStop (pid_cmd bin user p @ awk_pid @ '' | xargs -r kill -9'')"

definition stop_cmd :: "string \<Rightarrow> string \<Rightarrow> string \<Rightarrow> tx_ctl_cmd" where
  "stop_cmd bin user p = TxStop (pid_cmd bin user p @ awk_pid @ '' | xargs -r kill'')"

definition status_cmd :: "string \<Rightarrow> string \<Rightarrow> string \<Rightarrow> tx_ctl_cmd" where
  "status_cmd bin user p = TxStatus (pid_cmd bin user p)"

section \<open>The tasks\<close>

record tx_ctl_task =
  tc_config :: deploy_config
  tc_id :: task_id
  tc_cmd :: tx_ctl_cmd
  tc_receives :: bool

definition wait_secs_key :: string where "wait_secs_key = ''wait_ready_seconds''"

text \<open>What the builder reads of the command: the name, the wait, the force flag, the nodes.\<close>

record task_generation =
  tg_cmd :: string
  tg_wait :: int
  tg_force :: bool
  tg_receives :: bool
  tg_datetime :: string

definition tx_cmd_and_input :: "task_generation \<Rightarrow> deploy_config \<Rightarrow> server_type \<Rightarrow> string \<Rightarrow>
    (tx_ctl_cmd \<times> execution_value) res" where
  "tx_cmd_and_input g cfg st p =
     (let d = cfg_deployment cfg; bin = tx_srv_bin d; user = username (cfg_connection cfg)
      in if tg_cmd g = ''start'' then
           bindE (if st = NodeServer then srv_start_cmd_with_host (tg_datetime g) d p st
                  else srv_start_cmd (tg_datetime g) d p st) (\<lambda>c. Inr (TxStart c, Map.empty))
         else if tg_cmd g = ''status'' then
           Inr (status_cmd bin user p, [wait_secs_key \<mapsto> NumberValue (tg_wait g)])
         else if tg_cmd g = ''stop'' \<or> tg_cmd g = ''remove'' then
           Inr (if tg_force g then force_stop_cmd bin user p else stop_cmd bin user p, Map.empty)
         else Inl (Panic ''internal error: entered unreachable code''))"

definition tx_task_id :: "string \<Rightarrow> server_type \<Rightarrow> string \<Rightarrow> string \<Rightarrow> task_id" where
  "tx_task_id cmd st host p =
     \<lparr>tid_cmd = cmd, tid_task = server_type_str st @ ''-'' @ cmd @ ''-'' @ p, tid_host = host\<rparr>"

definition generate_task :: "task_generation \<Rightarrow> deploy_config \<Rightarrow> server_type \<Rightarrow> string \<Rightarrow>
    (task_id \<times> tx_ctl_task task_instance) res" where
  "generate_task g cfg st host_port = (case split_once is_colon host_port of
     None \<Rightarrow> Inl (Panic (''Error: Invalid host_port format '' @ host_port))
   | Some (host, p) \<Rightarrow>
       (let tid = tx_task_id (tg_cmd g) st host p
        in bindE (tx_cmd_and_input g cfg st p) (\<lambda>(c, input).
           Inr (tid, \<lparr>ti_input = input,
             ti_task = \<lparr>tc_config = cfg, tc_id = tid, tc_cmd = c, tc_receives = tg_receives g\<rparr>,
             ti_identifier = tid, ti_host = remote_host (cfg_connection cfg) host\<rparr>))))"

definition generate_tasks_for_host_ports :: "task_generation \<Rightarrow> deploy_config \<Rightarrow> string list \<Rightarrow> server_type \<Rightarrow>
    (task_id \<times> tx_ctl_task task_instance) list res" where
  "generate_tasks_for_host_ports g cfg host_ports st =
     bindE (mapE (generate_task g cfg st) host_ports) (\<lambda>ts. Inr (im_extend [] ts))"

text \<open>The wait of \<open>status\<close> is a \<open>u16\<close> read as \<open>i32\<close>, or -1.\<close>

definition generation_of :: "string \<Rightarrow> sub_command \<Rightarrow> bool \<Rightarrow> task_generation" where
  "generation_of datetime cmd receives = \<lparr>tg_cmd = command_name cmd,
     tg_wait = (case cmd of CmdStatus _ _ _ (Some w) _ \<Rightarrow> int (unat w) | _ \<Rightarrow> -1),
     tg_force = (case cmd of CmdStop a \<Rightarrow> st_force a | CmdRemove _ _ \<Rightarrow> True | _ \<Rightarrow> False),
     tg_receives = receives, tg_datetime = datetime\<rparr>"

definition server_host_ports :: "deploy_config \<Rightarrow> server_type \<Rightarrow> string list \<Rightarrow> string list" where
  "server_host_ports cfg st nodes = (case st of
     TxServer \<Rightarrow> get_host_port_list (cfg_deployment cfg) EloqTx
   | StandbyServer \<Rightarrow> get_host_port_list (cfg_deployment cfg) EloqStandby
   | VoterServer \<Rightarrow> get_host_port_list (cfg_deployment cfg) EloqVoter
   | NodeServer \<Rightarrow> nodes)"

definition tx_from_config :: "string \<Rightarrow> sub_command \<Rightarrow> deploy_config \<Rightarrow> server_type \<Rightarrow>
    (task_id \<times> tx_ctl_task task_instance) list res" where
  "tx_from_config datetime cmd cfg st = (case cmd of
     CmdStop a \<Rightarrow>
       if st = NodeServer then Inl (Panic ''stop --nodes should not use this function'')
       else generate_tasks_for_host_ports (generation_of datetime cmd False) cfg (server_host_ports cfg st []) st
   | CmdStart _ nodes \<Rightarrow>
       generate_tasks_for_host_ports (generation_of datetime cmd False) cfg (server_host_ports cfg st nodes) st
   | _ \<Rightarrow> generate_tasks_for_host_ports (generation_of datetime cmd False) cfg (server_host_ports cfg st []) st)"

definition tx_from_config_with_channel :: "string \<Rightarrow> sub_command \<Rightarrow> deploy_config \<Rightarrow> server_type \<Rightarrow> bool \<Rightarrow>
    (task_id \<times> tx_ctl_task task_instance) list res" where
  "tx_from_config_with_channel datetime cmd cfg st receives =
     (let nodes = (case cmd of CmdStop a \<Rightarrow> if st = NodeServer then st_nodes a else [] | _ \<Rightarrow> [])
      in generate_tasks_for_host_ports (generation_of datetime cmd receives) cfg (server_host_ports cfg st nodes) st)"

definition extract_server_type_and_port :: "string \<Rightarrow> (string \<times> string) res" where
  "extract_server_type_and_port s = (case split_once_str ''-start-'' s of
     Some r \<Rightarrow> Inr r
   | None \<Rightarrow> (case split_once_str ''-stop-'' s of
     Some r \<Rightarrow> Inr r
   | None \<Rightarrow> (case split_once_str ''-status-'' s of
     Some r \<Rightarrow> Inr r
   | None \<Rightarrow> (case split_once_str ''-remove-'' s of
     Some r \<Rightarrow> Inr r
   | None \<Rightarrow> Inl (Panic ''format error!!!'')))))"

section \<open>The probe\<close>

text \<open>One attempt: the connection fails, or \<open>PING\<close> is answered or fails.\<close>

datatype ping_answer = NotReachable string | Pong | OtherReply string | PingError string

partial_function (option) probe_loop :: "(nat \<Rightarrow> ping_answer) \<Rightarrow> nat \<Rightarrow> int \<Rightarrow> (int \<times> string) option" where
  "probe_loop ans n wait = (case ans n of
     Pong \<Rightarrow> Some (0, ''OK'')
   | NotReachable e \<Rightarrow> if 0 < wait then probe_loop ans (Suc n) (wait - 1) else Some (-1, e)
   | OtherReply r \<Rightarrow> probe_loop ans (Suc n) (if 0 < wait then wait - 1 else wait)
   | PingError e \<Rightarrow> probe_loop ans (Suc n) (if 0 < wait then wait - 1 else wait))"

record redis_probe =
  pr_host :: string
  pr_port :: u16
  pr_password :: "string option"
  pr_tls :: bool

definition probe_url :: "redis_probe \<Rightarrow> string" where
  "probe_url p = (if pr_tls p then ''rediss'' else ''redis'') @ ''://'' @
     (case pr_password p of Some pw \<Rightarrow> '':'' @ pw @ ''@'' | None \<Rightarrow> []) @ addr (pr_host p) (pr_port p) @ ''/''"

definition probe :: "(string \<Rightarrow> unit res) \<Rightarrow> (nat \<Rightarrow> ping_answer) \<Rightarrow> redis_probe \<Rightarrow> int \<Rightarrow> execution_value res option" where
  "probe open_client ans p wait =
     (let url = probe_url p
      in case open_client (if pr_tls p then url @ ''#insecure'' else url) of
           Inl e \<Rightarrow> Some (Inl e)
         | Inr _ \<Rightarrow> map_option (\<lambda>(status, out). Inr (task_output (if status = 0 then url else ''Dial Redis='' @ url) status out))
             (probe_loop ans 0 wait))"

text \<open>One pass of \<open>probe_cluster\<close> over the nodes, then the wait.\<close>

fun probe_pass :: "(string \<Rightarrow> redis_answer) \<Rightarrow> string list \<Rightarrow> string option \<Rightarrow> (string option + string) res" where
  "probe_pass ask [] le = Inr (Inl le)"
| "probe_pass ask (u # us) le = (case ask u of
     NoConnection e \<Rightarrow> probe_pass ask us (Some e)
   | QueryError e \<Rightarrow> probe_pass ask us (Some e)
   | Answer v \<Rightarrow> bindE (parse_cluster_nodes v) (\<lambda>nodes.
       if list_ex (\<lambda>cn. cn_masters cn \<noteq> []) nodes then Inr (Inr ''cluster has a serving master'')
       else probe_pass ask us (Some ''cluster topology did not report a master'')))"

fun probe_cluster_loop :: "(nat \<Rightarrow> string \<Rightarrow> redis_answer) \<Rightarrow> string list \<Rightarrow> nat \<Rightarrow> nat \<Rightarrow> (int \<times> string) res" where
  "probe_cluster_loop ask us n wait =
     bindE (probe_pass (ask n) us None) (\<lambda>r. case r of
       Inr out \<Rightarrow> Inr (0, out)
     | Inl le \<Rightarrow> (case wait of
         0 \<Rightarrow> Inr (-1, case le of Some e \<Rightarrow> e | None \<Rightarrow> ''cluster is not ready'')
       | Suc w \<Rightarrow> probe_cluster_loop ask us (Suc n) w))"

definition probe_cluster :: "(nat \<Rightarrow> string \<Rightarrow> redis_answer) \<Rightarrow> string list \<Rightarrow> string option \<Rightarrow> int \<Rightarrow> execution_value res" where
  "probe_cluster ask startup password wait =
     (let urls = map (\<lambda>hp. ''redis://'' @ (case password of Some pw \<Rightarrow> '':'' @ pw @ ''@'' | None \<Rightarrow> []) @ hp @ ''/'') startup
      in bindE (probe_cluster_loop ask urls 0 (nat wait)) (\<lambda>(status, out).
           Inr (task_output (''Redis cluster startup nodes='' @ join '','' startup) status out)))"

section \<open>Waiting on a host\<close>

text \<open>
  The remote side of a task: \<open>hw_run c n\<close> is the status and output of the \<open>n\<close>-th run of command
  \<open>c\<close>, \<open>hw_ports n\<close> the text of \<open>/proc/net/tcp\<close> at the \<open>n\<close>-th look, \<open>hw_ping\<close> the probed endpoint.
\<close>

record host_world =
  hw_topology :: "cluster_nodes option"
  hw_session :: "(string \<times> string) res"
  hw_run :: "string \<Rightarrow> nat \<Rightarrow> (int \<times> string) res"
  hw_ports :: "nat \<Rightarrow> (int \<times> string) res"
  hw_open :: "string \<Rightarrow> unit res"
  hw_ping :: "nat \<Rightarrow> ping_answer"
  hw_close :: "unit res"

text \<open>\<open>SSHSession::used_tcp_ports\<close>: the local ports of the sockets in state \<open>0A\<close> (listening).\<close>

definition hex_digit :: "char \<Rightarrow> nat option" where
  "hex_digit c = (let n = of_char c in
     if 48 \<le> n \<and> n \<le> 57 then Some (n - 48) else if 65 \<le> n \<and> n \<le> 70 then Some (n - 55)
     else if 97 \<le> n \<and> n \<le> 102 then Some (n - 87) else None)"

fun hex_value :: "nat \<Rightarrow> string \<Rightarrow> nat option" where
  "hex_value acc [] = Some acc"
| "hex_value acc (c # cs) = Option.bind (hex_digit c) (\<lambda>d. hex_value (16 * acc + d) cs)"

definition parse_hex_u16 :: "string \<Rightarrow> u16 option" where
  "parse_hex_u16 s = (let ds = (case s of CHR ''+'' # cs \<Rightarrow> cs | _ \<Rightarrow> s)
     in if ds = [] then None else Option.bind (hex_value 0 ds) (\<lambda>n. if n < 2 ^ 16 then Some (of_nat n) else None))"

definition listening_port :: "string \<Rightarrow> u16 option" where
  "listening_port line = (let fields = split_ws line in
     if 4 \<le> length fields \<and> fields ! 3 = ''0A'' then parse_hex_u16 (last (split_on is_colon (fields ! 1))) else None)"

definition used_tcp_ports :: "string \<Rightarrow> int \<times> string \<Rightarrow> u16 list res" where
  "used_tcp_ports host r = (if fst r \<noteq> 0
     then Inl (Err (''can'' @ [CHR 0x27] @ ''t read used port at '' @ host @ '', return '' @ show_task_arg (NumberValue (fst r))))
     else Inr (uniq (List.map_filter listening_port (str_lines (snd r)))))"

fun ports_loop :: "(nat \<Rightarrow> u16 list res) \<Rightarrow> u16 list \<Rightarrow> bool \<Rightarrow> nat \<Rightarrow> nat \<Rightarrow> bool res" where
  "ports_loop used target should_exist n 0 = Inr False"
| "ports_loop used target should_exist n (Suc left) =
     bindE (used n) (\<lambda>u. if ports_match_state u target should_exist then Inr True
                         else ports_loop used target should_exist (Suc n) left)"

definition wait_tcp_ports_state :: "(nat \<Rightarrow> u16 list res) \<Rightarrow> u16 list \<Rightarrow> bool \<Rightarrow> nat \<Rightarrow> bool res" where
  "wait_tcp_ports_state used target should_exist secs =
     (if target = [] then Inr True else ports_loop used target should_exist 0 secs)"

text \<open>\<open>check_pid\<close>: up to three attempts; status 1 of \<open>grep\<close> means that there is no process.\<close>

definition process_pid_key :: string where "process_pid_key = ''_process_pid_''"
definition process_pid_list_key :: string where "process_pid_list_key = ''_process_pid_list_''"
definition pid_not_found :: string where "pid_not_found = ''NONE''"

fun check_attempts :: "(nat \<Rightarrow> (int \<times> string) res) \<Rightarrow> nat \<Rightarrow> nat \<Rightarrow> (int \<times> string) res" where
  "check_attempts run n 0 = Inl (Err ''check_pid command failed'')"
| "check_attempts run n (Suc left) = (case run n of
     Inr r \<Rightarrow> Inr r
   | Inl e \<Rightarrow> if left = 0 then Inl (Err (err_text e)) else check_attempts run (Suc n) left)"

definition no_pid :: "execution_value \<Rightarrow> execution_value" where
  "no_pid v = v(process_pid_key \<mapsto> StrValue pid_not_found, process_pid_list_key \<mapsto> ListValue [])"

definition check_pid :: "string \<Rightarrow> (nat \<Rightarrow> (int \<times> string) res) \<Rightarrow> execution_value res" where
  "check_pid cmd run = bindE (check_attempts run 0 3) (\<lambda>(status, out).
     if status = 1 then Inr (no_pid (task_output cmd 0 out))
     else if status \<noteq> 0 then Inl (Err (''Cmd '' @ cmd @ '' execution fails''))
     else (case parse_process_pid (trim out) of
        Some pid \<Rightarrow> Inr ((task_output cmd 0 out)(process_pid_key \<mapsto> StrValue (show_task_arg (NumberValue pid))))
      | None \<Rightarrow> Inr (no_pid (task_output cmd 0 out))))"

text \<open>\<open>wait_process_complete\<close>: a look each second for 300 seconds.\<close>

fun process_loop :: "(nat \<Rightarrow> (int \<times> string) res) \<Rightarrow> (string \<Rightarrow> bool) \<Rightarrow> nat \<Rightarrow> nat \<Rightarrow> bool res" where
  "process_loop run ready n 0 = Inr False"
| "process_loop run ready n (Suc left) =
     bindE (run n) (\<lambda>r. if ready (snd r) then Inr True else process_loop run ready (Suc n) left)"

text \<open>
  \<open>ctl_action_wait_complete\<close>; its looks are numbered after the three of \<open>check_pid\<close>. The outcome of the wait is only written into
  the output.
\<close>

definition ctl_action_wait_complete :: "(string \<Rightarrow> nat \<Rightarrow> (int \<times> string) res) \<Rightarrow> string \<Rightarrow> string \<Rightarrow> (string \<Rightarrow> bool) \<Rightarrow>
    execution_value res" where
  "ctl_action_wait_complete run cmd check ready =
     bindE (run cmd 0) (\<lambda>(status, out).
     bindE (process_loop (run check) ready 3 300) (\<lambda>r.
     Inr (task_output cmd status (''output='' @ out @ '',check control func return='' @ show_bool r))))"

section \<open>What a task does\<close>

text \<open>The ports of one role on the task's host.\<close>

definition ports_on_host :: "string \<Rightarrow> node_info list \<Rightarrow> string list" where
  "ports_on_host host ns = List.map_filter (\<lambda>hp. let parts = split_on is_colon hp
     in if length parts = 2 \<and> parts ! 0 = host then Some (parts ! 1) else None) (map node_info_str ns)"

text \<open>The ports to stop; without a topology channel at least the task's own.\<close>

definition stop_targets :: "cluster_nodes option \<Rightarrow> bool \<Rightarrow> string \<Rightarrow> string \<Rightarrow> string \<Rightarrow> string list res" where
  "stop_targets topo receives stype host p =
     (let cn = (case topo of Some cn \<Rightarrow> cn | None \<Rightarrow> no_nodes)
      in bindE (if stype = ''txservice'' then Inr (ports_on_host host (cn_masters cn))
                else if stype = ''standby'' then Inr (ports_on_host host (cn_replicas cn))
                else if stype = ''voter'' then Inr []
                else if stype = ''node'' then Inr [p]
                else Inl (Panic (''Unknown server type: '' @ stype))) (\<lambda>ts.
         Inr (if ts = [] \<and> \<not> receives then [p] else ts)))"

text \<open>\<open>Regex::replace\<close> of the first \<open>grep\<close> with a number after it.\<close>

fun replace_grep_number :: "string \<Rightarrow> string \<Rightarrow> string" where
  "replace_grep_number r [] = []"
| "replace_grep_number r (c # cs) =
     (if starts_with ''grep '' (c # cs) \<and> (case drop 5 (c # cs) of d # _ \<Rightarrow> is_digit d | [] \<Rightarrow> False)
      then r @ dropWhile is_digit (drop 5 (c # cs))
      else c # replace_grep_number r cs)"

definition grep_ports :: "string list \<Rightarrow> string \<Rightarrow> string" where
  "grep_ports ports cmd = replace_grep_number
     (''grep -E '' @ [CHR 0x27] @ join ''|'' ports @ [CHR 0x27]) cmd"

definition probe_endpoint :: "deploy_config \<Rightarrow> string \<Rightarrow> u16 \<Rightarrow> redis_probe" where
  "probe_endpoint cfg host p = (case cfg_service_endpoint cfg host p of
     (eh, ep) \<Rightarrow> \<lparr>pr_host = eh, pr_port = ep, pr_password = redis_password cfg None,
       pr_tls = tls_enabled (cfg_deployment cfg)\<rparr>)"

definition tx_used :: "host_world \<Rightarrow> string \<Rightarrow> nat \<Rightarrow> u16 list res" where
  "tx_used w host n = bindE (hw_ports w n) (used_tcp_ports host)"

definition runtime_ports :: "deploy_config \<Rightarrow> u16 \<Rightarrow> u16 list" where
  "runtime_ports cfg base = critical_runtime_ports 18081 cfg base"

definition show_ports :: "u16 list \<Rightarrow> string" where
  "show_ports ps = ''['' @ join '', '' (map show_u16 ps) @ '']''"

text \<open>\<open>stop\<close> and \<open>force_stop\<close>; the second component of the result says that the task ends at once.\<close>

definition stop_ports :: "host_world \<Rightarrow> tx_ctl_task \<Rightarrow> string \<Rightarrow> string \<Rightarrow> string list \<Rightarrow> execution_value res" where
  "stop_ports w t ssh_host check ports =
     (let rp = uniq (concat (map (runtime_ports (tc_config t)) (List.map_filter parse_u16 ports)))
      in bindE (ctl_action_wait_complete (hw_run w) (grep_ports ports (tx_cmd_value (tc_cmd t))) (grep_ports ports check)
                 (\<lambda>out. parse_process_pid out = None)) (\<lambda>v.
         bindE (wait_tcp_ports_state (tx_used w ssh_host) rp False 120) (\<lambda>released.
         if \<not> released then Inl (Err (''timed out waiting for runtime ports to be released on '' @ tid_host (tc_id t) @
            '': '' @ show_ports rp))
         else Inr (case v cmd_output_key of
             Some out \<Rightarrow> v(cmd_output_key \<mapsto> StrValue (show_task_arg out @ '', runtime ports released='' @ show_ports rp))
           | None \<Rightarrow> v))))"

definition run_stop :: "host_world \<Rightarrow> tx_ctl_task \<Rightarrow> string \<Rightarrow> string \<Rightarrow> string \<Rightarrow> string \<Rightarrow> (execution_value res \<times> bool)" where
  "run_stop w t ssh_host check stype p =
     (case stop_targets (if tc_receives t then hw_topology w else None) (tc_receives t) stype (tid_host (tc_id t)) p of
        Inl e \<Rightarrow> (Inl e, True)
      | Inr [] \<Rightarrow> (Inr (task_output (tx_cmd_value (tc_cmd t)) 0 (''No matching '' @ stype @ '' ports found for host '' @
            tid_host (tc_id t) @ '' in current topology; skipped.'')), True)
      | Inr ports \<Rightarrow> (stop_ports w t ssh_host check ports, False))"

text \<open>\<open>start\<close>: only when no process was found; then the ports and the probe of the endpoint.\<close>

definition run_start :: "host_world \<Rightarrow> tx_ctl_task \<Rightarrow> string \<Rightarrow> string \<Rightarrow> string \<Rightarrow> execution_value res \<Rightarrow> execution_value res option" where
  "run_start w t ssh_host check p found =
     (let start = tx_cmd_value (tc_cmd t);
          started = (case found of
            Inr v \<Rightarrow> if v process_pid_key = Some (StrValue pid_not_found)
               then ctl_action_wait_complete (hw_run w) start check (\<lambda>out. parse_process_pid out \<noteq> None)
               else Inr v
          | Inl e \<Rightarrow> Inl (Err (cmd_err_text (EloqCtlErr start (err_text e)))))
      in case started of Inl e \<Rightarrow> Some (Inl e) | Inr v \<Rightarrow>
        (case parse_u16 p of
           None \<Rightarrow> Some (Inl (Err (''invalid service port '' @ p)))
         | Some base \<Rightarrow>
           (let rp = runtime_ports (tc_config t) base
            in case wait_tcp_ports_state (tx_used w ssh_host) rp True 120 of
                 Inl e \<Rightarrow> Some (Inl e)
               | Inr False \<Rightarrow> Some (Inl (Err (''timed out waiting for runtime ports to listen on '' @ tid_host (tc_id t) @
                    '': '' @ show_ports rp)))
               | Inr True \<Rightarrow>
                  map_option (\<lambda>r. case r of Inl e \<Rightarrow> Inl (Err (''service started but Redis is not ready on '' @
                      addr (tid_host (tc_id t)) (pr_port (probe_endpoint (tc_config t) (tid_host (tc_id t)) base)) @
                      '' after waiting: '' @ err_text e))
                    | Inr _ \<Rightarrow> Inr (case v cmd_output_key of
                      Some out \<Rightarrow> v(cmd_key \<mapsto> StrValue start, cmd_output_key \<mapsto> StrValue (''start process check='' @
                        show_task_arg out @ '', runtime ports listening='' @ show_ports rp @ '', redis probe succeeded''))
                    | None \<Rightarrow> v))
                    (probe (hw_open w) (hw_ping w) (probe_endpoint (tc_config t) (tid_host (tc_id t)) base) 120))))"

text \<open>\<open>status\<close>: a probe when a wait was asked for, else what \<open>check_pid\<close> found.\<close>

definition run_status :: "host_world \<Rightarrow> tx_ctl_task \<Rightarrow> execution_value \<Rightarrow> string \<Rightarrow> string \<Rightarrow> string \<Rightarrow>
    execution_value res \<Rightarrow> execution_value res option" where
  "run_status w t input ssh_host stype p found = (case input wait_secs_key of
     Some (NumberValue wait) \<Rightarrow>
       if 0 \<le> wait \<and> (stype = ''txservice'' \<or> stype = ''standby'') then
         (case parse_u16 p of
            None \<Rightarrow> Some (Inl (Panic ''called `Result::unwrap()` on an `Err` value''))
          | Some port \<Rightarrow>
            (let host = tid_host (tc_id t); ep = probe_endpoint (tc_config t) host port;
                 pr = (if pr_host ep = host then ep\<lparr>pr_host := ssh_host\<rparr> else ep)
             in map_option (\<lambda>r. bindE r (\<lambda>v. Inr
                  (if v cmd_status_key = Some (NumberValue 0) then v
                   else task_output (''Dial Redis='' @ (if pr_tls pr then ''rediss'' else ''redis'') @ ''://'' @ addr host (pr_port pr))
                     0 (''eloqkv service is down: '' @ (case v cmd_output_key of Some out \<Rightarrow> show_task_arg out | None \<Rightarrow> ''probe failed'')))))
                  (probe (hw_open w) (hw_ping w) pr wait)))
       else Some found
   | _ \<Rightarrow> Some (Inl (Panic ''called `Option::unwrap()` on a `None` value'')))"

text \<open>What \<open>status\<close> makes of the outcome: never an error, always status 0.\<close>

definition status_value :: "string \<Rightarrow> execution_value res \<Rightarrow> execution_value" where
  "status_value check r =
     (let v = (case r of Inr v \<Rightarrow> v
           | Inl e \<Rightarrow> task_output check 0 (''eloqkv service status unknown: '' @ err_text e));
          v = v(cmd_status_key \<mapsto> NumberValue 0)
      in case v process_pid_key of
           Some pid \<Rightarrow> v(cmd_output_key \<mapsto> StrValue (if pid = StrValue pid_not_found then [CHR 0x0A] @ ''eloqkv service is down.''
             else [CHR 0x0A] @ ''eloqkv service is running, pid: '' @ show_task_arg pid @ ''.''))
         | None \<Rightarrow> v)"

definition ctl_return :: "tx_ctl_task \<Rightarrow> execution_value \<Rightarrow> execution_value option res" where
  "ctl_return t v = task_return v (EloqCtlErr (case v cmd_key of Some c \<Rightarrow> show_task_arg c | None \<Rightarrow> tx_cmd_value (tc_cmd t)))"

text \<open>
  \<open>EloqTxCtlTask::execute\<close>. A panic inside \<open>status\<close> passes through; \<open>None\<close> is a call that does not
  return.
\<close>

definition tx_execute :: "host_world \<Rightarrow> tx_ctl_task \<Rightarrow> execution_value \<Rightarrow> execution_value option res option" where
  "tx_execute w t input =
     (let ref = tx_cmd_ref (tc_cmd t) in
      if tc_receives t \<and> hw_topology w = None \<and> ref \<notin> {''stop'', ''force_stop''}
      then Some (Inl (redis_failure ''timeout, fail to receive cluster nodes response''))
      else case extract_server_type_and_port (tid_task (tc_id t)) of Inl e \<Rightarrow> Some (Inl e) | Inr (stype, p) \<Rightarrow>
      if ssh_auth_key (cfg_connection (tc_config t)) = None
      then Some (Inl (Panic ''called `Option::unwrap()` on a `None` value''))
      else case hw_session w of Inl e \<Rightarrow> Some (Inl e) | Inr (ssh_host, user) \<Rightarrow>
      (let check = tx_cmd_value (status_cmd (tx_srv_bin (cfg_deployment (tc_config t))) user p);
           found = check_pid check (hw_run w check);
           finish = (\<lambda>r. bindE (hw_close w) (\<lambda>_. bindE r (ctl_return t)))
       in case tc_cmd t of
            TxStatus _ \<Rightarrow> map_option (\<lambda>r. case r of
                Inl (Panic m) \<Rightarrow> Inl (Panic m)
              | _ \<Rightarrow> finish (Inr (status_value check r))) (run_status w t input ssh_host stype p found)
          | TxStart _ \<Rightarrow> map_option finish (run_start w t ssh_host check p found)
          | _ \<Rightarrow> (case run_stop w t ssh_host check stype p of
              (Inr v, True) \<Rightarrow> Some (Inr (Some v))
            | (Inl e, True) \<Rightarrow> Some (Inl e)
            | (r, False) \<Rightarrow> Some (finish r))))"

section \<open>The probe returns or not\<close>

lemma probe_loop_steps:
  "ans (n + k) = Pong \<or> (\<exists>e. ans (n + k) = NotReachable e \<and> wait \<le> int k) \<Longrightarrow> \<exists>r. probe_loop ans n wait = Some r"
proof (induction k arbitrary: n wait)
  case 0
  then show ?case by (subst probe_loop.simps) auto
next
  case (Suc k)
  have rest: "\<exists>r. probe_loop ans (Suc n) (if 0 < wait then wait - 1 else wait) = Some r"
    using Suc.prems by (intro Suc.IH) auto
  show ?case
  proof (cases "ans n")
    case (NotReachable e)
    with rest show ?thesis by (subst probe_loop.simps) (auto split: if_splits)
  qed (subst probe_loop.simps, use rest in auto)+
qed

lemma probe_loop_result:
  "probe_loop ans n wait = Some r \<Longrightarrow>
   \<exists>k. (ans (n + k) = Pong \<and> r = (0, ''OK'')) \<or> (\<exists>e. ans (n + k) = NotReachable e \<and> wait \<le> int k \<and> r = (-1, e))"
proof (induction rule: probe_loop.raw_induct [rotated, consumes 1, case_names step])
  case (step rec ans n wait r)
  have shift: "\<exists>k. (ans (n + k) = Pong \<and> r = (0, ''OK'')) \<or> (\<exists>e. ans (n + k) = NotReachable e \<and> wait \<le> int k \<and> r = (-1, e))"
    if "rec ans (Suc n) wait' = Some r" "wait \<le> wait' + 1" for wait'
  proof -
    from step(1) [OF that(1)] obtain k where
      "(ans (Suc n + k) = Pong \<and> r = (0, ''OK'')) \<or> (\<exists>e. ans (Suc n + k) = NotReachable e \<and> wait' \<le> int k \<and> r = (-1, e))"
      by blast
    with that(2) show ?thesis by (intro exI [of _ "Suc k"]) auto
  qed
  from step(2) show ?case
  proof (cases "ans n")
    case (NotReachable e)
    show ?thesis
    proof (cases "0 < wait")
      case True
      with step(2) NotReachable show ?thesis by (intro shift [of "wait - 1"]) auto
    next
      case False
      with step(2) NotReachable show ?thesis by (intro exI [of _ 0]) auto
    qed
  next
    case Pong
    with step(2) show ?thesis by (intro exI [of _ 0]) auto
  next
    case (OtherReply s)
    with step(2) show ?thesis by (intro shift [of "if 0 < wait then wait - 1 else wait"]) auto
  next
    case (PingError s)
    with step(2) show ?thesis by (intro shift [of "if 0 < wait then wait - 1 else wait"]) auto
  qed
qed

text \<open>C34. The wait of the probe bounds only unreachable endpoints. The probe returns iff some attempt is
  answered with PONG, or finds the endpoint unreachable when the wait is used up; an endpoint that
  accepts connections and never answers PONG keeps it in its loop for ever, without a pause.\<close>

theorem probe_returns_iff:
  "(\<exists>r. probe (\<lambda>_. Inr ()) ans p wait = Some r) \<longleftrightarrow>
   (\<exists>k. ans k = Pong \<or> (\<exists>e. ans k = NotReachable e \<and> wait \<le> int k))"
proof -
  have "(\<exists>r. probe (\<lambda>_. Inr ()) ans p wait = Some r) \<longleftrightarrow> (\<exists>r. probe_loop ans 0 wait = Some r)"
    by (auto simp: probe_def Let_def)
  also have "\<dots> \<longleftrightarrow> (\<exists>k. ans k = Pong \<or> (\<exists>e. ans k = NotReachable e \<and> wait \<le> int k))"
    using probe_loop_steps [of ans 0] probe_loop_result [of ans 0 wait] by fastforce
  finally show ?thesis .
qed

section \<open>The ids of the tasks\<close>

lemma mapE_length: "mapE f xs = Inr ys \<Longrightarrow> length ys = length xs"
  by (induction xs arbitrary: ys) (auto simp: res_simps)

lemma mapE_mem: "mapE f xs = Inr ys \<Longrightarrow> y \<in> set ys \<Longrightarrow> \<exists>x \<in> set xs. f x = Inr y"
  by (induction xs arbitrary: ys) (auto simp: res_simps)

lemma generate_task_id:
  "generate_task g cfg st hp = Inr t \<Longrightarrow>
   \<exists>host p. split_once is_colon hp = Some (host, p) \<and> fst t = tx_task_id (tg_cmd g) st host p \<and>
     tc_id (ti_task (snd t)) = fst t \<and> ti_identifier (snd t) = fst t \<and> tc_receives (ti_task (snd t)) = tg_receives g"
  by (auto simp: generate_task_def Let_def res_simps split: option.splits prod.splits)

lemma split_once_host_port: "split_once is_colon hp = Some (host, p) \<Longrightarrow> hp = host @ '':'' @ p"
  by (auto simp: is_colon_def dest!: split_once_Some)

lemma generated_ids:
  assumes "mapE (generate_task g cfg st) hps = Inr ts" and "distinct hps"
  shows "unique_ids ts \<and> under {tg_cmd g} ts"
  using assms
proof (induction hps arbitrary: ts)
  case (Cons hp hps)
  then obtain t ts' where t: "generate_task g cfg st hp = Inr t" and ts: "ts = t # ts'"
    "mapE (generate_task g cfg st) hps = Inr ts'" by (auto simp: res_simps)
  have ids: "\<exists>hp' \<in> set hps. \<exists>t'. generate_task g cfg st hp' = Inr t' \<and> fst t' = i" if "i \<in> ids_of ts'" for i
    using that mapE_mem [OF ts(2)] unfolding ids_of_def by blast
  obtain host p where hp: "split_once is_colon hp = Some (host, p)" "fst t = tx_task_id (tg_cmd g) st host p"
    using generate_task_id [OF t] by blast
  have "fst t \<notin> ids_of ts'"
  proof
    assume "fst t \<in> ids_of ts'"
    then obtain hp' t' where hp': "hp' \<in> set hps" "generate_task g cfg st hp' = Inr t'" "fst t' = fst t" using ids by blast
    then obtain host' p' where "split_once is_colon hp' = Some (host', p')" "fst t = tx_task_id (tg_cmd g) st host' p'"
      using generate_task_id by metis
    with hp have "hp' = hp" by (auto simp: tx_task_id_def dest!: split_once_host_port)
    with hp'(1) Cons.prems(2) show False by simp
  qed
  with Cons.IH [OF ts(2)] Cons.prems(2) hp(2) show ?case by (simp add: ts(1) tx_task_id_def)
qed simp

lemma tx_tasks_ids:
  assumes "generate_tasks_for_host_ports g cfg hps st = Inr ts" and "distinct hps"
  shows "unique_ids ts \<and> under {tg_cmd g} ts \<and> length ts = length hps"
proof -
  obtain us where us: "mapE (generate_task g cfg st) hps = Inr us" "ts = im_extend [] us"
    using assms(1) by (auto simp: generate_tasks_for_host_ports_def res_simps)
  from generated_ids [OF us(1) assms(2)] us(2) have "ts = us" by (simp add: im_extend_Nil)
  with generated_ids [OF us(1) assms(2)] mapE_length [OF us(1)] show ?thesis by simp
qed

section \<open>Stopping and starting\<close>

text \<open>When the topology did not arrive within five seconds, a graceful stop of the masters or the
  standbys of a host runs no command there and still succeeds: the list of ports to stop is empty, so
  the task is skipped (the log line announces a fallback to direct process control).\<close>

theorem stop_without_topology_skips:
  assumes "tc_receives t" and "hw_topology w = None" and "tc_cmd t = TxStop c \<or> tc_cmd t = TxForceStop c"
    and "extract_server_type_and_port (tid_task (tc_id t)) = Inr (stype, p)" and "stype \<in> {''txservice'', ''standby''}"
    and "ssh_auth_key (cfg_connection (tc_config t)) \<noteq> None" and "hw_session w = Inr (ssh_host, user)"
  shows "tx_execute w t input = Some (Inr (Some (task_output c 0
    (''No matching '' @ stype @ '' ports found for host '' @ tid_host (tc_id t) @ '' in current topology; skipped.''))))"
proof -
  have "stop_targets None True stype (tid_host (tc_id t)) p = Inr []"
    using assms(5) by (auto simp: stop_targets_def ports_on_host_def no_nodes_def map_filter_simps)
  then have "run_stop w t ssh_host check stype p = (Inr (task_output (tx_cmd_value (tc_cmd t)) 0
      (''No matching '' @ stype @ '' ports found for host '' @ tid_host (tc_id t) @ '' in current topology; skipped.'')), True)" for check
    using assms(1,2) by (simp add: run_stop_def)
  then show ?thesis using assms(1-4,6,7) by (auto simp: tx_execute_def Let_def)
qed

definition sample_config :: deploy_config where
  "sample_config = bare_config (bare_deployment ''c'' ''/opt'' (bare_service [''a:6379''] None None))"

definition keyed_config :: deploy_config where
  "keyed_config = sample_config\<lparr>cfg_connection := (cfg_connection sample_config)\<lparr>conn_auth := \<lparr>auth_password = None, auth_keypair = Some ''k''\<rparr>\<rparr>\<rparr>"

definition sample_tx_task :: "tx_ctl_cmd \<Rightarrow> string \<Rightarrow> bool \<Rightarrow> tx_ctl_task" where
  "sample_tx_task c name receives = \<lparr>tc_config = keyed_config, tc_id = \<lparr>tid_cmd = tx_cmd_ref c, tid_task = name, tid_host = ''a''\<rparr>,
     tc_cmd = c, tc_receives = receives\<rparr>"

definition silent_host :: "(nat \<Rightarrow> (int \<times> string) res) \<Rightarrow> host_world" where
  "silent_host ports = \<lparr>hw_topology = None, hw_session = Inr (''a'', ''eloq''), hw_run = (\<lambda>_ _. Inr (0, ''77 eloqkv'')), hw_ports = ports,
     hw_open = (\<lambda>_. Inr ()), hw_ping = (\<lambda>_. NotReachable ''refused''), hw_close = Inr ()\<rparr>"

lemma keyed_config_key: "ssh_auth_key (cfg_connection keyed_config) = Some ''k''"
  by (simp add: keyed_config_def sample_config_def ssh_auth_key_def bare_config_def)

theorem stop_without_topology_skips_witness:
  "tx_execute (silent_host (\<lambda>_. Inr (0, []))) (sample_tx_task (TxStop ''kill'') ''txservice-stop-6379'' True) Map.empty =
     Some (Inr (Some (task_output ''kill'' 0 ''No matching txservice ports found for host a in current topology; skipped.'')))"
proof -
  let ?t = "sample_tx_task (TxStop ''kill'') ''txservice-stop-6379'' True"
  have e: "extract_server_type_and_port (tid_task (tc_id ?t)) = Inr (''txservice'', ''6379'')"
    by (simp add: sample_tx_task_def extract_server_type_and_port_def starts_with_def)
  have k: "ssh_auth_key (cfg_connection (tc_config ?t)) \<noteq> None" by (simp add: sample_tx_task_def keyed_config_key)
  have "tx_execute (silent_host (\<lambda>_. Inr (0, []))) ?t Map.empty = Some (Inr (Some (task_output ''kill'' 0
    (''No matching '' @ ''txservice'' @ '' ports found for host '' @ tid_host (tc_id ?t) @ '' in current topology; skipped.''))))"
    by (rule stop_without_topology_skips [OF _ _ _ e _ k]) (simp_all add: sample_tx_task_def silent_host_def)
  then show ?thesis by (simp add: sample_tx_task_def)
qed

lemma run_start_found:
  assumes "tc_cmd t = TxStart c" and "v process_pid_key \<noteq> Some (StrValue pid_not_found)" and "parse_u16 p = Some base"
    and "wait_tcp_ports_state (tx_used w ssh_host) (runtime_ports (tc_config t) base) True 120 = Inr True"
    and "probe (hw_open w) (hw_ping w) (probe_endpoint (tc_config t) (tid_host (tc_id t)) base) 120 = Some (Inr pv)"
    and "v cmd_output_key = Some out"
  shows "run_start w t ssh_host check p (Inr v) = Some (Inr (v(cmd_key \<mapsto> StrValue c, cmd_output_key \<mapsto> StrValue
    (''start process check='' @ show_task_arg out @ '', runtime ports listening='' @
      show_ports (runtime_ports (tc_config t) base) @ '', redis probe succeeded''))))"
  using assms by (simp add: run_start_def Let_def)

text \<open>Starting a node does not check that Redis answers. Once the process and its ports are there,
  the task reports \<open>redis probe succeeded\<close> even when every attempt of the probe failed to connect: the
  status of the probe is dropped.\<close>

theorem start_ignores_failed_probe:
  assumes "tc_cmd t = TxStart c" and "tc_receives t = False"
    and "extract_server_type_and_port (tid_task (tc_id t)) = Inr (stype, p)" and "parse_u16 p = Some base"
    and "ssh_auth_key (cfg_connection (tc_config t)) \<noteq> None" and "hw_session w = Inr (ssh_host, user)"
    and found: "hw_run w (pid_cmd (tx_srv_bin (cfg_deployment (tc_config t))) user p) 0 = Inr (0, out)" "parse_process_pid (trim out) = Some pid"
      "show_task_arg (NumberValue pid) \<noteq> pid_not_found"
    and ports: "wait_tcp_ports_state (tx_used w ssh_host) (runtime_ports (tc_config t) base) True 120 = Inr True"
    and refused: "\<And>n. \<exists>e. hw_ping w n = NotReachable e" "\<And>u. hw_open w u = Inr ()" and "hw_close w = Inr ()"
  shows "\<exists>v. tx_execute w t input = Some (Inr (Some v)) \<and> v cmd_status_key = Some (NumberValue 0) \<and>
    v cmd_output_key = Some (StrValue (''start process check='' @ out @ '', runtime ports listening='' @
      show_ports (runtime_ports (tc_config t) base) @ '', redis probe succeeded''))"
proof -
  let ?check = "pid_cmd (tx_srv_bin (cfg_deployment (tc_config t))) user p"
  let ?v = "(task_output ?check 0 out)(process_pid_key \<mapsto> StrValue (show_task_arg (NumberValue pid)))"
  let ?out = "''start process check='' @ out @ '', runtime ports listening='' @
      show_ports (runtime_ports (tc_config t) base) @ '', redis probe succeeded''"
  let ?r = "?v(cmd_key \<mapsto> StrValue c, cmd_output_key \<mapsto> StrValue ?out)"
  have keys: "cmd_key \<noteq> cmd_output_key" "cmd_status_key \<noteq> cmd_output_key" "cmd_status_key \<noteq> cmd_key"
    "process_pid_key \<notin> {cmd_key, cmd_status_key, cmd_output_key}"
    by (simp_all add: cmd_key_def cmd_output_key_def cmd_status_key_def process_pid_key_def)
  have pid: "check_pid ?check (hw_run w ?check) = Inr ?v"
    using found(1,2) by (simp add: check_pid_def numeral_3_eq_3)
  have probe: "\<exists>v. probe (hw_open w) (hw_ping w) pr 120 = Some (Inr v)" for pr
  proof -
    obtain r where "probe_loop (hw_ping w) 0 120 = Some r"
      using probe_loop_steps [of "hw_ping w" 0 120 120] refused(1) [of 120] by auto
    then show ?thesis by (cases r) (simp add: probe_def Let_def refused(2))
  qed
  obtain pv where pv: "probe (hw_open w) (hw_ping w) (probe_endpoint (tc_config t) (tid_host (tc_id t)) base) 120 = Some (Inr pv)"
    using probe by blast
  have out: "?v cmd_output_key = Some (StrValue out)" using keys(4) by (auto simp: task_output_def)
  have npid: "?v process_pid_key \<noteq> Some (StrValue pid_not_found)" using found(3) by simp
  have "run_start w t ssh_host ?check p (Inr ?v) = Some (Inr ?r)"
    using run_start_found [OF assms(1) npid assms(4) ports pv out] by (simp only: show_task_arg.simps)
  moreover have "ctl_return t ?r = Inr (Some ?r)"
    using keys by (auto simp: ctl_return_def task_return_def)
  ultimately have "tx_execute w t input = Some (Inr (Some ?r))"
    using assms(1-3,5,6,12) pid by (simp add: tx_execute_def Let_def status_cmd_def \<open>hw_close w = Inr ()\<close>)
  moreover have "?r cmd_status_key = Some (NumberValue 0)" "?r cmd_output_key = Some (StrValue ?out)"
    using keys by auto
  ultimately show ?thesis by blast
qed

definition listening_text :: string where
  "listening_text = join [CHR 0x0A] [''sl local rem st'', ''0: 00000000:18EB 00000000:0000 0A'', ''1: 00000000:3FFB 00000000:0000 0A'',
     ''2: 00000000:0016 00000000:0000 01'']"

lemma listening_text_ports: "used_tcp_ports host (0, listening_text) = Inr [6379, 16379]"
proof -
  have "str_lines listening_text = [''sl local rem st'', ''0: 00000000:18EB 00000000:0000 0A'', ''1: 00000000:3FFB 00000000:0000 0A'',
     ''2: 00000000:0016 00000000:0000 01'']"
    unfolding listening_text_def by (rule str_lines_join) simp_all
  moreover have "listening_port ''sl local rem st'' = None" "listening_port ''0: 00000000:18EB 00000000:0000 0A'' = Some 6379"
    "listening_port ''1: 00000000:3FFB 00000000:0000 0A'' = Some 16379" "listening_port ''2: 00000000:0016 00000000:0000 01'' = None"
    by (simp_all add: listening_port_def split_ws_def is_ws_def is_colon_def parse_hex_u16_def hex_digit_def)
  ultimately show ?thesis by (simp add: used_tcp_ports_def map_filter_simps uniq_def)
qed

theorem start_ignores_failed_probe_witness:
  "\<exists>v. tx_execute (silent_host (\<lambda>_. Inr (0, listening_text))) (sample_tx_task (TxStart ''run'') ''node-start-6379'' False) Map.empty =
      Some (Inr (Some v)) \<and> v cmd_status_key = Some (NumberValue 0) \<and>
    v cmd_output_key = Some (StrValue (''start process check='' @ ''77 eloqkv'' @ '', runtime ports listening='' @
      show_ports (runtime_ports keyed_config 6379) @ '', redis probe succeeded''))"
proof -
  let ?t = "sample_tx_task (TxStart ''run'') ''node-start-6379'' False"
  let ?w = "silent_host (\<lambda>_. Inr (0, listening_text))"
  have e: "extract_server_type_and_port (tid_task (tc_id ?t)) = Inr (''node'', ''6379'')"
    by (simp add: sample_tx_task_def extract_server_type_and_port_def starts_with_def)
  have k: "ssh_auth_key (cfg_connection (tc_config ?t)) \<noteq> None" by (simp add: sample_tx_task_def keyed_config_key)
  have p: "parse_u16 ''6379'' = Some 6379" by (simp add: eval_str)
  have pid: "parse_process_pid (trim ''77 eloqkv'') = Some 77"
    by (simp add: parse_process_pid_def ps_cmd_output_extract_def str_lines_def split_ws_def parse_i32_def strip_cr_def
        map_filter_simps eval_str uniq_def)
  have rp: "runtime_ports keyed_config 6379 = [6379, 16379]"
    by (simp add: runtime_ports_def critical_runtime_ports_def saturating_add_u16_def keyed_config_def sample_config_def
        configured_eloq_metrics_port_def bare_config_def bare_deployment_def)
  have used: "tx_used ?w ''a'' n = Inr [6379, 16379]" for n
    by (simp add: tx_used_def silent_host_def listening_text_ports)
  have ports: "wait_tcp_ports_state (tx_used ?w ''a'') (runtime_ports (tc_config ?t) 6379) True 120 = Inr True"
  proof -
    have "ports_loop (tx_used ?w ''a'') [6379, 16379] True 0 (Suc 119) = Inr True"
      by (simp only: ports_loop.simps used bindE_simps) (simp add: ports_match_state_def)
    then show ?thesis by (simp add: wait_tcp_ports_state_def rp sample_tx_task_def)
  qed
  have "\<exists>v. tx_execute ?w ?t Map.empty = Some (Inr (Some v)) \<and> v cmd_status_key = Some (NumberValue 0) \<and>
    v cmd_output_key = Some (StrValue (''start process check='' @ ''77 eloqkv'' @ '', runtime ports listening='' @
      show_ports (runtime_ports (tc_config ?t) 6379) @ '', redis probe succeeded''))"
    by (rule start_ignores_failed_probe [OF _ _ e p k _ _ pid _ ports, where user = "''eloq''"])
      (simp_all add: sample_tx_task_def silent_host_def pid_not_found_def show_nat.simps [of 77] show_nat.simps [of 7])
  then show ?thesis by (simp add: sample_tx_task_def)
qed

text \<open>
  The processes a stop command selects are found by substrings: the node of a longer port whose
  digits end in the port is selected too, since both configuration files end in the same text.
\<close>

definition process_line :: "deployment \<Rightarrow> string \<Rightarrow> string" where
  "process_line d p = tx_srv_bin d @ '' --config='' @ tx_srv_ini d p @ '' --graceful_quit_on_sigterm=true''"

lemma contains_sub_append: "contains_sub p (a @ p @ b)"
proof (induction a)
  case Nil
  then show ?case by (cases "p @ b") (auto simp: starts_with_def dest: arg_cong [where f = "take (length p)"])
qed simp

text \<open>A command that stops the node of port \<open>p\<close> also selects the process of every node on the host whose
  port ends in the digits of \<open>p\<close> (6379 and 16379): its command line contains the binary and
  \<open>p.ini\<close>, which is all that the two \<open>grep\<close> look for.\<close>

theorem stop_selects_longer_ports:
  "contains_sub (tx_srv_bin d) (process_line d (q @ p)) \<and> contains_sub (p @ ''.ini'') (process_line d (q @ p))"
proof -
  have "process_line d (q @ p) = [] @ tx_srv_bin d @ ('' --config='' @ tx_srv_ini d (q @ p) @ '' --graceful_quit_on_sigterm=true'')"
    by (simp add: process_line_def)
  moreover have "process_line d (q @ p) = (tx_srv_bin d @ '' --config='' @ tx_srv_home d @ ''/EloqKv-node-'' @ q) @
      (p @ ''.ini'') @ '' --graceful_quit_on_sigterm=true''"
    by (simp add: process_line_def tx_srv_ini_def)
  ultimately show ?thesis by (metis contains_sub_append)
qed

end
