(* ===== verification/Rolling_Steps.thy ===== *)
theory Rolling_Steps
  imports Tx_Ctl Update_Conf Storage
begin

text \<open>
  The steps of a rolling upgrade (\<open>cli/task/rolling_upgrade/steps.rs\<close>): what they read of the cluster,
  the batches of nodes they remember, and the context of tasks each of them builds.

  The builders of other modules that a step only calls (downloads, extraction, uploads, log service
  control, data cleanup) are arguments, bundled in a record; so is the topology a step fetches.
\<close>

section \<open>Tasks and their builders\<close>

text \<open>The executors a step creates; \<open>'u\<close> stands for those of the other builders.\<close>

record node_wait =
  nw_startup :: "string list"
  nw_host :: string
  nw_port :: u16
  nw_password :: "string option"
  nw_endpoints :: "(string \<rightharpoonup> service_endpoint_t) option"

datatype 'u roll_task =
    RtTx tx_ctl_task
  | RtHost "unit update_task"
  | RtRedis redis_op
  | RtFailover failover_op
  | RtWaitReplica string u16 node_wait
  | RtWaitNode node_wait "string option"
  | RtTool 'u

type_synonym 'u roll_tasks = "(task_id \<times> 'u roll_task task_instance) list"

definition map_instance :: "('a \<Rightarrow> 'b) \<Rightarrow> 'a task_instance \<Rightarrow> 'b task_instance" where
  "map_instance f t = \<lparr>ti_input = ti_input t, ti_task = f (ti_task t), ti_identifier = ti_identifier t, ti_host = ti_host t\<rparr>"

definition lift_tasks :: "('a \<Rightarrow> 'b) \<Rightarrow> (task_id \<times> 'a task_instance) list \<Rightarrow> (task_id \<times> 'b task_instance) list" where
  "lift_tasks f ts = map (\<lambda>(i, t). (i, map_instance f t)) ts"

type_synonym 'u tool_tasks = "(task_id \<times> 'u task_instance) list"

record 'u step_tools =
  tl_downloads :: "string list \<Rightarrow> 'u tool_tasks"
  tl_extract :: "'u tool_tasks res"
  tl_uploads :: "(string \<times> 'u) list"
  tl_build_uploads :: "string \<Rightarrow> string \<Rightarrow> (string \<times> 'u) list \<Rightarrow> 'u tool_tasks"
  tl_log_ctl :: "sub_command \<Rightarrow> 'u tool_tasks"
  tl_log_probe :: "'u tool_tasks"
  tl_clean :: "string list option \<Rightarrow> 'u tool_tasks"
  tl_datetime :: string

section \<open>Helpers\<close>

definition single_barrier_ctx :: "string \<Rightarrow> (task_id \<times> 'x task_instance) list \<Rightarrow> 'x task_context" where
  "single_barrier_ctx grp ex = \<lparr>task_group = grp,
     barrier = (if 0 < length ex then Some [length ex] else None), executable = ex\<rparr>"

definition hosts_from_host_ports :: "string list \<Rightarrow> string list" where
  "hosts_from_host_ports hps = uniq (List.map_filter (\<lambda>hp. map_option fst (split_once is_colon hp)) hps)"

definition connected_managed_node_infos :: "node_info list \<Rightarrow> string set \<Rightarrow> node_info list" where
  "connected_managed_node_infos ns managed =
     filter (\<lambda>n. addr (ni_ip n) (ni_port n) \<in> managed) (filter ni_connected ns)"

definition connected_managed_nodes :: "node_info list \<Rightarrow> string set \<Rightarrow> string list" where
  "connected_managed_nodes ns managed =
     filter (\<lambda>a. a \<in> managed) (map (\<lambda>n. addr (ni_ip n) (ni_port n)) (filter ni_connected ns))"

definition parse_host_port :: "string \<Rightarrow> string \<Rightarrow> (string \<times> u16) res" where
  "parse_host_port s field = (case split_once is_colon s of
     None \<Rightarrow> Inl (Err (''invalid '' @ field @ '' host:port: '' @ s))
   | Some (host, p) \<Rightarrow>
       if trim host = [] then Inl (Err (''invalid '' @ field @ '' host:port with empty host: '' @ s))
       else (case parse_u16 p of
          None \<Rightarrow> Inl (Err (''invalid '' @ field @ '' port in host:port: '' @ s))
        | Some port \<Rightarrow> Inr (host, port)))"

definition ordered_without :: "string list \<Rightarrow> string set \<Rightarrow> string list" where
  "ordered_without nodes excluded = uniq (filter (\<lambda>n. n \<notin> excluded) nodes)"

text \<open>The loop over the masters: the pairs so far, and for each master its target.\<close>

definition failover_target :: "node_info list \<Rightarrow> node_info list \<Rightarrow> node_info \<Rightarrow> node_info res" where
  "failover_target masters replicas m =
     (let a = addr (ni_ip m) (ni_port m) in
      case ni_node_id m of
        Some mid \<Rightarrow> (case List.find (\<lambda>r. ni_master_id r = Some mid) replicas of
            Some r \<Rightarrow> Inr r
          | None \<Rightarrow> Inl (Err (''no connected replica available for master '' @ a @ '' ('' @ mid @ '')'')))
      | None \<Rightarrow>
          if length masters = 1 then
            (case replicas of r # _ \<Rightarrow> Inr r
             | [] \<Rightarrow> Inl (Err (''no connected replica available for master '' @ a)))
          else Inl (Err (''CLUSTER NODES output did not include node id for master '' @ a @
            ''; cannot safely map replicas to masters in a multi-master cluster'')))"

definition add_failover_pair :: "node_info list \<Rightarrow> node_info list \<Rightarrow> (string \<times> string) list \<Rightarrow> node_info \<Rightarrow>
    (string \<times> string) list res" where
  "add_failover_pair masters replicas pairs m =
     bindE (failover_target masters replicas m) (\<lambda>r.
     let target = addr (ni_ip r) (ni_port r)
     in if target \<in> snd ` set pairs
        then Inl (Err (''replica '' @ target @ '' was selected for more than one current master; cannot safely fail over''))
        else Inr (pairs @ [(addr (ni_ip m) (ni_port m), target)]))"

definition select_connected_failover_targets :: "cluster_nodes \<Rightarrow> string set \<Rightarrow> (string \<times> string) list res" where
  "select_connected_failover_targets topo managed =
     (let masters = connected_managed_node_infos (cn_masters topo) managed;
          replicas = connected_managed_node_infos (cn_replicas topo) managed
      in if masters = [] then Inl (Err ''rolling update could not find connected current master'')
         else if replicas = [] then Inl (Err ''rolling update requires at least one connected standby/replica before failover'')
         else foldE (add_failover_pair masters replicas) [] masters)"

section \<open>The upgrade context\<close>

record update_state =
  us_first :: "string list"
  us_second :: "string list"
  us_leaders :: "string list"
  us_restart :: "string list"

record upgrade_ctx =
  ug_config :: deploy_config
  ug_password :: "string option"
  ug_force :: bool
  ug_skip_log :: bool
  ug_state :: update_state

definition upgrade_ctx_new :: "sub_command \<Rightarrow> deploy_config \<Rightarrow> upgrade_ctx" where
  "upgrade_ctx_new cmd cfg =
     (case (case cmd of
         CmdUpdate a \<Rightarrow> (redis_password cfg (up_password a), up_force a, up_skip_log_restart a)
       | CmdUpdateConf a \<Rightarrow> (redis_password cfg (uc_password a), False, False)
       | _ \<Rightarrow> (None, False, False)) of
      (pw, force, skip) \<Rightarrow> \<lparr>ug_config = cfg, ug_password = pw, ug_force = force, ug_skip_log = skip,
        ug_state = \<lparr>us_first = [], us_second = [], us_leaders = [], us_restart = []\<rparr>\<rparr>)"

definition ug_deployment :: "upgrade_ctx \<Rightarrow> deployment" where
  "ug_deployment u = cfg_deployment (ug_config u)"

definition has_standby :: "upgrade_ctx \<Rightarrow> bool" where
  "has_standby u \<longleftrightarrow> standby_host_ports (tx_service (ug_deployment u)) \<noteq> None"

definition has_voter :: "upgrade_ctx \<Rightarrow> bool" where
  "has_voter u \<longleftrightarrow> voter_host_ports (tx_service (ug_deployment u)) \<noteq> None"

definition has_log :: "upgrade_ctx \<Rightarrow> bool" where
  "has_log u \<longleftrightarrow> dep_log_service (ug_deployment u) \<noteq> None"

definition managed_nodes :: "upgrade_ctx \<Rightarrow> string list" where
  "managed_nodes u = get_host_port_list (ug_deployment u) EloqTx @ get_host_port_list (ug_deployment u) EloqStandby"

definition stop_command :: "upgrade_ctx \<Rightarrow> string list \<Rightarrow> sub_command" where
  "stop_command u nodes = CmdStop \<lparr>st_cluster = cluster_name (ug_deployment u), st_tx = Some True, st_log = True,
     st_store = False, st_monitor = False, st_force = True, st_all = False, st_password = ug_password u, st_nodes = nodes\<rparr>"

definition start_command_nodes :: "upgrade_ctx \<Rightarrow> string list \<Rightarrow> sub_command" where
  "start_command_nodes u nodes = CmdStart (cluster_name (ug_deployment u)) nodes"

section \<open>Contexts for nodes\<close>

definition build_stop_node_tasks :: "string \<Rightarrow> upgrade_ctx \<Rightarrow> string \<Rightarrow> string list \<Rightarrow> 'u roll_task task_context res" where
  "build_stop_node_tasks dt u grp nodes =
     (if nodes = [] then Inr dummy_context
      else bindE (tx_from_config_with_channel dt (stop_command u nodes) (ug_config u) NodeServer False) (\<lambda>ts.
        Inr (single_barrier_ctx grp (lift_tasks RtTx ts))))"

definition build_start_node_tasks :: "string \<Rightarrow> upgrade_ctx \<Rightarrow> string \<Rightarrow> string list \<Rightarrow> 'u roll_task task_context res" where
  "build_start_node_tasks dt u grp nodes =
     (if nodes = [] then Inr dummy_context
      else bindE (tx_from_config dt (start_command_nodes u nodes) (ug_config u) NodeServer) (\<lambda>ts.
        Inr (single_barrier_ctx grp (lift_tasks RtTx ts))))"

text \<open>\<open>append_step_context\<close> is the body of \<open>merge_execution\<close> for one context (\<open>merge_one\<close>, \<open>Task_Core\<close>).\<close>

definition wait_id :: "string \<Rightarrow> string \<times> u16 \<Rightarrow> task_id" where
  "wait_id prefix hp = \<lparr>tid_cmd = ''topology'', tid_task = prefix @ ''-'' @ show_u16 (snd hp), tid_host = fst hp\<rparr>"

definition node_wait_of :: "upgrade_ctx \<Rightarrow> string \<times> u16 \<Rightarrow> node_wait" where
  "node_wait_of u hp = \<lparr>nw_startup = managed_nodes u, nw_host = fst hp, nw_port = snd hp,
     nw_password = ug_password u, nw_endpoints = service_endpoints (cfg_connection (ug_config u))\<rparr>"

definition wait_node_instance :: "upgrade_ctx \<Rightarrow> string \<Rightarrow> bool \<Rightarrow> string \<times> u16 \<Rightarrow> task_id \<times> 'u roll_task task_instance" where
  "wait_node_instance u prefix master hp =
     local_task (wait_id prefix hp) (RtWaitNode (node_wait_of u hp) (if master then Some ''master'' else None))"

definition build_wait_node_ready_tasks :: "upgrade_ctx \<Rightarrow> string \<Rightarrow> string \<Rightarrow> string list \<Rightarrow> bool \<Rightarrow>
    'u roll_task task_context res" where
  "build_wait_node_ready_tasks u grp prefix nodes master =
     (if nodes = [] then Inr dummy_context
      else bindE (mapE (\<lambda>n. parse_host_port n ''target node'') nodes) (\<lambda>hps.
        Inr (single_barrier_ctx grp (im_extend [] (map (wait_node_instance u prefix master) hps)))))"

definition split_host_port :: "string \<Rightarrow> string \<Rightarrow> (string \<times> u16) res" where
  "split_host_port s what = (case split_once is_colon s of
     None \<Rightarrow> Inl (Err (''invalid host:port in '' @ what @ '': '' @ s))
   | Some (host, p) \<Rightarrow> (case parse_u16 p of
       None \<Rightarrow> Inl (Err (''invalid port in '' @ what @ '': '' @ s))
     | Some port \<Rightarrow> Inr (host, port)))"

definition build_wait_replica_ready_tasks :: "upgrade_ctx \<Rightarrow> string \<Rightarrow> string \<Rightarrow> string \<Rightarrow> string list \<Rightarrow>
    'u roll_task task_context res" where
  "build_wait_replica_ready_tasks u grp prefix source targets =
     (if targets = [] then Inr dummy_context
      else bindE (split_host_port source ''current master'') (\<lambda>(sh, sp).
        bindE (mapE (\<lambda>t. split_host_port t ''target replica list'') targets) (\<lambda>hps.
        Inr (single_barrier_ctx grp (im_extend [] (map (\<lambda>hp.
          local_task (wait_id prefix hp) (RtWaitReplica sh sp (node_wait_of u hp))) hps))))))"

text \<open>One node after the other: stop it, start it, wait for it.\<close>

definition restart_node :: "string \<Rightarrow> upgrade_ctx \<Rightarrow> string \<Rightarrow> 'u roll_task stage_acc \<Rightarrow> string \<Rightarrow> 'u roll_task stage_acc res" where
  "restart_node dt u prefix acc node =
     bindE (parse_host_port node ''restart node'') (\<lambda>(_, p).
     bindE (build_stop_node_tasks dt u (prefix @ ''-stop-'' @ show_u16 p) [node]) (\<lambda>stop.
     bindE (build_start_node_tasks dt u (prefix @ ''-start-'' @ show_u16 p) [node]) (\<lambda>start.
     bindE (build_wait_node_ready_tasks u (prefix @ ''-wait-'' @ show_u16 p) (prefix @ ''-wait'') [node] False) (\<lambda>wait.
     Inr (merge_one (merge_one (merge_one acc stop) start) wait)))))"

definition build_restart_nodes_sequence_ctx :: "string \<Rightarrow> upgrade_ctx \<Rightarrow> string \<Rightarrow> string \<Rightarrow> string list \<Rightarrow>
    'u roll_task task_context res" where
  "build_restart_nodes_sequence_ctx dt u grp prefix nodes =
     (if nodes = [] then Inr dummy_context
      else bindE (foldE (restart_node dt u prefix) ([], []) nodes) (\<lambda>(b, ex).
        Inr \<lparr>task_group = grp, barrier = Some b, executable = ex\<rparr>))"

section \<open>Contexts for failovers\<close>

definition topology_task :: "upgrade_ctx \<Rightarrow> string \<Rightarrow> string list \<Rightarrow> task_id \<times> 'u roll_task task_instance" where
  "topology_task u name nodes = local_task \<lparr>tid_cmd = ''topology'', tid_task = name, tid_host = ''_local''\<rparr>
     (RtRedis ((redis_op_new ''topology'' nodes ''cluster topology'' (ug_password u) True)
       \<lparr>ro_endpoints := service_endpoints (cfg_connection (ug_config u))\<rparr>))"

definition failover_pair_task :: "upgrade_ctx \<Rightarrow> string \<Rightarrow> (string \<times> u16) \<times> (string \<times> u16) \<Rightarrow> task_id \<times> 'u roll_task task_instance" where
  "failover_pair_task u label pr = (case pr of ((oh, op), (nh, np)) \<Rightarrow>
     local_task \<lparr>tid_cmd = ''failover'', tid_task = ''failover-'' @ label @ ''-'' @ show_u16 op @ ''-to-'' @ show_u16 np, tid_host = oh\<rparr>
       (RtFailover \<lparr>fo_old_host = oh, fo_old_port = op, fo_new_host = nh, fo_new_port = np, fo_password = ug_password u,
          fo_endpoints = service_endpoints (cfg_connection (ug_config u)), fo_explicit = True\<rparr>))"

definition parse_pair :: "string \<times> string \<Rightarrow> ((string \<times> u16) \<times> (string \<times> u16)) res" where
  "parse_pair pr = bindE (parse_host_port (fst pr) ''old leader'') (\<lambda>old.
     bindE (parse_host_port (snd pr) ''new leader'') (\<lambda>new. Inr (old, new)))"

text \<open>The second barrier is the number of pairs, not of tasks.\<close>

definition build_failover_pairs_ctx :: "upgrade_ctx \<Rightarrow> string \<Rightarrow> (string \<times> string) list \<Rightarrow> 'u roll_task task_context res" where
  "build_failover_pairs_ctx u label pairs =
     bindE (mapE parse_pair pairs) (\<lambda>hps.
     let ex = im_extend [topology_task u (''check-topology-'' @ label) (managed_nodes u)] (map (failover_pair_task u label) hps)
     in bindE (build_wait_node_ready_tasks u ''wait-failover-target-masters'' ''wait-failover-target-master'' (map snd pairs) True) (\<lambda>wait.
        case merge_one ([1, length pairs], ex) wait of (b, ex) \<Rightarrow>
          Inr \<lparr>task_group = ''rolling-restart-'' @ label, barrier = Some b, executable = ex\<rparr>))"

definition failover_check_task :: "upgrade_ctx \<Rightarrow> string \<Rightarrow> string \<Rightarrow> (task_id \<times> 'u roll_task task_instance) res" where
  "failover_check_task u label node = (case split_once is_colon node of
     None \<Rightarrow> Inl (Err (''invalid host:port in failover list: '' @ node))
   | Some (host, ps) \<Rightarrow> (case parse_u16 ps of
       None \<Rightarrow> Inl (Err (''invalid port in failover list: '' @ node))
     | Some p \<Rightarrow> Inr (local_task \<lparr>tid_cmd = ''failover'', tid_task = ''failover-check-'' @ label @ ''-'' @ ps, tid_host = host\<rparr>
         (RtFailover \<lparr>fo_old_host = host, fo_old_port = p, fo_new_host = [], fo_new_port = 0, fo_password = ug_password u,
            fo_endpoints = service_endpoints (cfg_connection (ug_config u)), fo_explicit = False\<rparr>))))"

definition build_round :: "string \<Rightarrow> upgrade_ctx \<Rightarrow> string \<Rightarrow> string list \<Rightarrow> string list \<Rightarrow> string list \<Rightarrow>
    'u roll_task task_context res" where
  "build_round dt u label to_failover to_stop all_nodes =
     bindE (mapE (failover_check_task u label) to_failover) (\<lambda>fs.
     bindE (tx_from_config_with_channel dt (stop_command u to_stop) (ug_config u) NodeServer True) (\<lambda>stops.
     Inr \<lparr>task_group = ''rolling-restart-'' @ label, barrier = Some [1, length to_failover, length stops],
          executable = im_extend (im_extend [topology_task u (''check-topology-'' @ label) all_nodes] fs) (lift_tasks RtTx stops)\<rparr>))"

end
