(* ===== verification/Rolling_Upgrade.thy ===== *)
theory Rolling_Upgrade
  imports Rolling_Steps
begin

text \<open>
  The engine of \<open>eloqctl update\<close> and \<open>eloqctl update-conf --restart\<close>: the steps with the contexts
  they build and the batches they hand on (\<open>rolling_upgrade/steps.rs\<close>), the two lists of steps, and the
  runner that executes them one after the other and stops at the first failure
  (\<open>rolling_upgrade/mod.rs\<close>). Messages leave out the printed topology at their end.
\<close>

section \<open>The steps\<close>

datatype step =
    StopStandbyOnly | FailoverAndStopOldMaster | SelectStandbyForFailover | FailoverToStandby
  | DownloadAndExtract | UploadToStandby | UploadToMaster | UploadToAllNodes | StopTxNodes
  | RestartNonLeaderNodes | RestartSelectedStandby | RestartTemporaryLeaders | StopLog
  | CleanEloqStoreData | StartLogAndWait | StartTx | WaitCurrentMaster | WaitTxReplicaReady
  | WaitStandbyReplicaReady | FailoverBackAndStopStandby | StartStandby | StopVoters | StartVoters
  | VerifyVersion

text \<open>What a step gives: the context to run and the state it leaves to later steps.\<close>

type_synonym 'u built = "('u roll_task task_context \<times> upgrade_ctx) res"

definition keep :: "upgrade_ctx \<Rightarrow> 'u roll_task task_context res \<Rightarrow> 'u built" where
  "keep u r = bindE r (\<lambda>ctx. Inr (ctx, u))"

definition managed_set :: "upgrade_ctx \<Rightarrow> string set" where
  "managed_set u = set (managed_nodes u)"

definition set_state :: "(update_state \<Rightarrow> update_state) \<Rightarrow> upgrade_ctx \<Rightarrow> upgrade_ctx" where
  "set_state f u = u\<lparr>ug_state := f (ug_state u)\<rparr>"

definition stop_standby_only :: "string \<Rightarrow> upgrade_ctx \<Rightarrow> cluster_nodes res \<Rightarrow> 'u built" where
  "stop_standby_only dt u fetched =
     (if \<not> has_standby u then Inr (dummy_context, u)
      else bindE fetched (\<lambda>topo.
        let first = connected_managed_nodes (cn_replicas topo) (managed_set u)
        in if first = [] then Inl (Err ''rolling update requires a connected replica/standby node'')
           else let u = set_state (us_first_update (\<lambda>_. first)) u
             in keep u (build_stop_node_tasks dt u ''stop-standby'' first)))"

definition stop_all_tx :: "string \<Rightarrow> upgrade_ctx \<Rightarrow> string \<Rightarrow> 'u roll_task task_context res" where
  "stop_all_tx dt u grp = bindE (tx_from_config dt (stop_command u []) (ug_config u) TxServer) (\<lambda>ts.
     Inr (single_barrier_ctx grp (lift_tasks RtTx ts)))"

definition failover_and_stop_old_master :: "string \<Rightarrow> upgrade_ctx \<Rightarrow> cluster_nodes res \<Rightarrow> 'u built" where
  "failover_and_stop_old_master dt u fetched =
     (if \<not> has_standby u then keep u (stop_all_tx dt u ''stop-old-master'')
      else bindE fetched (\<lambda>topo.
        let masters = connected_managed_nodes (cn_masters topo) (managed_set u);
            replicas = connected_managed_nodes (cn_replicas topo) (managed_set u)
        in if masters = [] then Inl (Err ''rolling update could not find a connected current master before failover'')
           else if replicas = [] then Inl (Err ''rolling update could not find a connected current replica to fail over to'')
           else let u = set_state (us_second_update (\<lambda>_. masters)) u
             in keep u (build_round dt u ''failover-stop-master'' masters masters (managed_nodes u))))"

text \<open>The choice of the standbys that are restarted first, as both users make it.\<close>

definition remember_targets :: "upgrade_ctx \<Rightarrow> (string \<times> string) list \<Rightarrow> upgrade_ctx" where
  "remember_targets u pairs =
     (let leaders = map snd pairs; restart = ordered_without (managed_nodes u) (set leaders)
      in set_state (\<lambda>s. s\<lparr>us_leaders := leaders, us_restart := restart, us_second := restart\<rparr>) u)"

definition select_standby_for_failover :: "upgrade_ctx \<Rightarrow> cluster_nodes res \<Rightarrow> 'u built" where
  "select_standby_for_failover u fetched =
     (if \<not> has_standby u then Inr (dummy_context, u)
      else bindE fetched (\<lambda>topo. bindE (select_connected_failover_targets topo (managed_set u)) (\<lambda>pairs.
        Inr (dummy_context, remember_targets u pairs))))"

text \<open>The pair of an already selected target; None when it leads already.\<close>

definition selected_pair :: "cluster_nodes \<Rightarrow> node_info list \<Rightarrow> string \<Rightarrow> (string \<times> string) option res" where
  "selected_pair topo masters target =
     bindE (parse_host_port target ''selected failover target'') (\<lambda>(h, p).
     if list_ex (is_at h p) masters then Inr None
     else (case List.find (connected_at h p) (cn_replicas topo) of
        None \<Rightarrow> Inl (Err (''selected standby '' @ target @ '' is not a connected replica before failover''))
      | Some r \<Rightarrow>
          bindE (case ni_master_id r of
              Some mid \<Rightarrow> (case List.find (\<lambda>m. ni_node_id m = Some mid) masters of
                  Some m \<Rightarrow> Inr m
                | None \<Rightarrow> Inl (Err (''selected standby '' @ target @ '' follows master id '' @ mid @
                    '', but that master is not connected'')))
            | None \<Rightarrow> (case masters of
                [m] \<Rightarrow> Inr m
              | _ \<Rightarrow> Inl (Err (''CLUSTER NODES output did not include master id for selected standby '' @ target))))
            (\<lambda>m. Inr (Some (addr (ni_ip m) (ni_port m), target)))))"

definition failover_pairs :: "upgrade_ctx \<Rightarrow> cluster_nodes \<Rightarrow> ((string \<times> string) list \<times> upgrade_ctx) res" where
  "failover_pairs u topo =
     (if us_leaders (ug_state u) = [] then
        bindE (select_connected_failover_targets topo (managed_set u)) (\<lambda>pairs. Inr (pairs, remember_targets u pairs))
      else let masters = connected_managed_node_infos (cn_masters topo) (managed_set u)
        in if masters = [] then Inl (Err ''rolling update could not find connected current master before failover'')
           else bindE (mapE (selected_pair topo masters) (us_leaders (ug_state u))) (\<lambda>ps.
             Inr (List.map_filter id ps, u)))"

definition failover_to_standby :: "upgrade_ctx \<Rightarrow> cluster_nodes res \<Rightarrow> 'u built" where
  "failover_to_standby u fetched =
     (if \<not> has_standby u then Inr (dummy_context, u)
      else bindE fetched (\<lambda>topo. bindE (failover_pairs u topo) (\<lambda>(pairs, u).
        keep u (if pairs = []
          then build_wait_node_ready_tasks u ''wait-failover-target-masters'' ''wait-failover-target-master''
                 (us_leaders (ug_state u)) True
          else build_failover_pairs_ctx u ''failover-to-standby'' pairs))))"

definition download_and_extract :: "'u step_tools \<Rightarrow> upgrade_ctx \<Rightarrow> 'u roll_task task_context res" where
  "download_and_extract tools u =
     (let d = ug_deployment u;
          downloads = tl_downloads tools (tx_image d # (case log_image d of Some i \<Rightarrow> [i] | None \<Rightarrow> []))
      in bindE (tl_extract tools) (\<lambda>extract.
        let b = filter (\<lambda>n. 0 < n) [length downloads, length extract]
        in Inr \<lparr>task_group = ''download-and-extract'', barrier = (if b = [] then None else Some b),
             executable = im_extend (im_extend [] (lift_tasks RtTool downloads)) (lift_tasks RtTool extract)\<rparr>))"

text \<open>Uploads to the hosts of a batch and some more.\<close>

definition upload_to_hosts :: "'u step_tools \<Rightarrow> string \<Rightarrow> string \<Rightarrow> string set \<Rightarrow> 'u roll_task task_context" where
  "upload_to_hosts tools name grp hosts =
     (let chosen = filter (\<lambda>up. fst up \<in> hosts) (tl_uploads tools)
      in if chosen = [] then dummy_context else single_barrier_ctx grp (lift_tasks RtTool (tl_build_uploads tools ''update'' name chosen)))"

definition log_hosts :: "upgrade_ctx \<Rightarrow> string set" where
  "log_hosts u = (case dep_log_service (ug_deployment u) of Some ls \<Rightarrow> set (log_host_unique ls) | None \<Rightarrow> {})"

definition voter_hosts :: "upgrade_ctx \<Rightarrow> string set" where
  "voter_hosts u = set (map (\<lambda>hp. hd (split_on is_colon hp)) (get_host_port_list (ug_deployment u) EloqVoter))"

definition stop_tx_nodes :: "string \<Rightarrow> upgrade_ctx \<Rightarrow> 'u roll_task task_context res" where
  "stop_tx_nodes dt u =
     (if \<not> has_standby u then stop_all_tx dt u ''stop-tx-nodes''
      else let tx = get_host_port_list (ug_deployment u) EloqTx
        in build_round dt u ''round1'' tx tx (managed_nodes u))"

definition clean_eloq_store_data :: "'u step_tools \<Rightarrow> upgrade_ctx \<Rightarrow> 'u roll_task task_context" where
  "clean_eloq_store_data tools u =
     (case Option.bind (dep_storage_service (ug_deployment u)) st_eloqdss of
        None \<Rightarrow> dummy_context
      | Some dss \<Rightarrow> (case dss_backend_of dss of EloqStore c \<Rightarrow>
          if is_cloud_mode c \<and> \<not> (case Option.bind (es_cloud_config c) reuse_local_files of Some r \<Rightarrow> r | None \<Rightarrow> False) then
            (let hosts = hosts_from_host_ports (us_first (ug_state u));
                 tasks = tl_clean tools (if hosts = [] then None else Some hosts)
             in if tasks = [] then dummy_context
                else \<lparr>task_group = ''clean-eloq-store-data'', barrier = Some [length tasks], executable = lift_tasks RtTool tasks\<rparr>)
          else dummy_context))"

definition start_log_and_wait :: "'u step_tools \<Rightarrow> upgrade_ctx \<Rightarrow> 'u roll_task task_context" where
  "start_log_and_wait tools u =
     (if \<not> has_log u then dummy_context
      else case push_nonempty (lift_tasks RtTool (tl_log_probe tools))
        (push_nonempty (lift_tasks RtTool (tl_log_ctl tools (start_command_nodes u []))) ([], [])) of
        (b, ex) \<Rightarrow> \<lparr>task_group = ''start-log-and-wait'', barrier = (if b = [] then None else Some b), executable = ex\<rparr>)"

definition start_tx :: "string \<Rightarrow> upgrade_ctx \<Rightarrow> 'u roll_task task_context res" where
  "start_tx dt u =
     bindE (if has_standby u then
          bindE (build_start_node_tasks dt u ''start-tx'' (us_second (ug_state u))) (\<lambda>c. Inr (executable c))
        else bindE (tx_from_config dt (start_command_nodes u []) (ug_config u) TxServer) (\<lambda>ts. Inr (lift_tasks RtTx ts)))
       (\<lambda>ts. Inr (single_barrier_ctx ''start-tx'' ts))"

text \<open>Both waits for replicas, over their batch.\<close>

definition wait_batch_ready :: "upgrade_ctx \<Rightarrow> string \<Rightarrow> string list \<Rightarrow> cluster_nodes res \<Rightarrow> 'u roll_task task_context res" where
  "wait_batch_ready u name targets fetched =
     (if \<not> has_standby u then Inr dummy_context
      else bindE fetched (\<lambda>topo. case connected_managed_nodes (cn_masters topo) (managed_set u) of
          [] \<Rightarrow> Inl (Err ''rolling update could not find current master'')
        | source # _ \<Rightarrow> build_wait_replica_ready_tasks u name name source targets))"

definition failover_back :: "string \<Rightarrow> upgrade_ctx \<Rightarrow> 'u roll_task task_context res" where
  "failover_back dt u =
     (if \<not> has_standby u then Inr dummy_context
      else let sb = get_host_port_list (ug_deployment u) EloqStandby; tx = get_host_port_list (ug_deployment u) EloqTx
        in build_round dt u ''round2'' sb sb (sb @ tx))"

definition voter_command :: "upgrade_ctx \<Rightarrow> sub_command" where
  "voter_command u = CmdStop \<lparr>st_cluster = cluster_name (ug_deployment u), st_tx = None, st_log = False,
     st_store = False, st_monitor = False, st_force = True, st_all = False, st_password = ug_password u, st_nodes = []\<rparr>"

definition voter_tasks :: "string \<Rightarrow> upgrade_ctx \<Rightarrow> string \<Rightarrow> sub_command \<Rightarrow> 'u roll_task task_context res" where
  "voter_tasks dt u grp cmd =
     (if \<not> has_voter u then Inr dummy_context
      else bindE (tx_from_config dt cmd (ug_config u) VoterServer) (\<lambda>ts. Inr (single_barrier_ctx grp (lift_tasks RtTx ts))))"

definition verify_version :: "upgrade_ctx \<Rightarrow> 'u roll_task task_context" where
  "verify_version u =
     (let d = ug_deployment u; tx_dir = tx_srv_home d
      in single_barrier_ctx ''verify-version'' (lift_tasks RtHost (build_task_by_host
           (''cd '' @ tx_dir @ ''; export LD_LIBRARY_PATH='' @ tx_dir @ ''/lib:$LD_LIBRARY_PATH; '' @ tx_srv_bin d @ '' --version'')
           (ug_config u) (merge_hosts (tx_service d)) (Some ''check_eloqkv_version''))))"

definition upload_to_standby :: "'u step_tools \<Rightarrow> upgrade_ctx \<Rightarrow> 'u roll_task task_context" where
  "upload_to_standby tools u = upload_to_hosts tools ''upload_to_standby'' ''upload-to-standby''
     (set (hosts_from_host_ports (us_first (ug_state u))) \<union> log_hosts u)"

definition upload_to_master :: "'u step_tools \<Rightarrow> upgrade_ctx \<Rightarrow> 'u roll_task task_context" where
  "upload_to_master tools u = upload_to_hosts tools ''upload_to_master'' ''upload-to-master''
     (set (hosts_from_host_ports (us_second (ug_state u))) \<union> voter_hosts u)"

definition upload_to_all_nodes :: "'u step_tools \<Rightarrow> 'u roll_task task_context" where
  "upload_to_all_nodes tools = single_barrier_ctx ''upload-to-all-nodes''
     (lift_tasks RtTool (tl_build_uploads tools ''update'' ''upload_to_all_nodes'' (tl_uploads tools)))"

definition restart_non_leader_nodes :: "string \<Rightarrow> upgrade_ctx \<Rightarrow> 'u roll_task task_context res" where
  "restart_non_leader_nodes dt u =
     build_restart_nodes_sequence_ctx dt u ''restart-non-leader-nodes'' ''restart-non-leader-node'' (us_restart (ug_state u))"

definition restart_selected_standby :: "string \<Rightarrow> upgrade_ctx \<Rightarrow> 'u roll_task task_context res" where
  "restart_selected_standby dt u =
     build_restart_nodes_sequence_ctx dt u ''restart-selected-standby'' ''restart-selected-standby'' (us_leaders (ug_state u))"

definition restart_temporary_leaders :: "string \<Rightarrow> upgrade_ctx \<Rightarrow> 'u roll_task task_context res" where
  "restart_temporary_leaders dt u =
     build_restart_nodes_sequence_ctx dt u ''restart-temporary-leaders'' ''restart-temporary-leader'' (us_leaders (ug_state u))"

definition stop_log :: "'u step_tools \<Rightarrow> upgrade_ctx \<Rightarrow> 'u roll_task task_context" where
  "stop_log tools u = (if has_log u
     then single_barrier_ctx ''stop-log'' (lift_tasks RtTool (tl_log_ctl tools (stop_command u []))) else dummy_context)"

definition wait_current_master :: "upgrade_ctx \<Rightarrow> 'u roll_task task_context" where
  "wait_current_master u = single_barrier_ctx ''wait-current-master'' [topology_task u ''wait-current-master'' (managed_nodes u)]"

definition wait_tx_replica_ready :: "upgrade_ctx \<Rightarrow> cluster_nodes res \<Rightarrow> 'u roll_task task_context res" where
  "wait_tx_replica_ready u fetched = wait_batch_ready u ''wait-tx-replica-ready'' (us_second (ug_state u)) fetched"

definition wait_standby_replica_ready :: "upgrade_ctx \<Rightarrow> cluster_nodes res \<Rightarrow> 'u roll_task task_context res" where
  "wait_standby_replica_ready u fetched = wait_batch_ready u ''wait-standby-replica-ready'' (us_first (ug_state u)) fetched"

definition start_standby :: "string \<Rightarrow> upgrade_ctx \<Rightarrow> 'u roll_task task_context res" where
  "start_standby dt u = (if has_standby u then build_start_node_tasks dt u ''start-standby'' (us_first (ug_state u))
     else Inr dummy_context)"

definition stop_voters :: "string \<Rightarrow> upgrade_ctx \<Rightarrow> 'u roll_task task_context res" where
  "stop_voters dt u = voter_tasks dt u ''stop-voters'' (voter_command u)"

definition start_voters :: "string \<Rightarrow> upgrade_ctx \<Rightarrow> 'u roll_task task_context res" where
  "start_voters dt u = voter_tasks dt u ''start-voters'' (start_command_nodes u [])"

text \<open>\<open>Step::build\<close>: \<open>fetch\<close> is the topology query of the step, by its task name.\<close>

definition build_step :: "'u step_tools \<Rightarrow> (string \<Rightarrow> cluster_nodes res) \<Rightarrow> upgrade_ctx \<Rightarrow> step \<Rightarrow> 'u built" where
  "build_step tools fetch u s = (let dt = tl_datetime tools in case s of
     StopStandbyOnly \<Rightarrow> stop_standby_only dt u (fetch ''rolling-update-initial-topology'')
   | FailoverAndStopOldMaster \<Rightarrow> failover_and_stop_old_master dt u (fetch ''rolling-update-pre-failover-topology'')
   | SelectStandbyForFailover \<Rightarrow> select_standby_for_failover u (fetch ''rolling-update-select-failover-target'')
   | FailoverToStandby \<Rightarrow> failover_to_standby u (fetch ''rolling-update-pre-failover-topology'')
   | DownloadAndExtract \<Rightarrow> keep u (download_and_extract tools u)
   | UploadToStandby \<Rightarrow> keep u (Inr (upload_to_standby tools u))
   | UploadToMaster \<Rightarrow> keep u (Inr (upload_to_master tools u))
   | UploadToAllNodes \<Rightarrow> keep u (Inr (upload_to_all_nodes tools))
   | StopTxNodes \<Rightarrow> keep u (stop_tx_nodes dt u)
   | RestartNonLeaderNodes \<Rightarrow> keep u (restart_non_leader_nodes dt u)
   | RestartSelectedStandby \<Rightarrow> keep u (restart_selected_standby dt u)
   | RestartTemporaryLeaders \<Rightarrow> keep u (restart_temporary_leaders dt u)
   | StopLog \<Rightarrow> keep u (Inr (stop_log tools u))
   | CleanEloqStoreData \<Rightarrow> keep u (Inr (clean_eloq_store_data tools u))
   | StartLogAndWait \<Rightarrow> keep u (Inr (start_log_and_wait tools u))
   | StartTx \<Rightarrow> keep u (start_tx dt u)
   | WaitCurrentMaster \<Rightarrow> keep u (Inr (wait_current_master u))
   | WaitTxReplicaReady \<Rightarrow> keep u (wait_tx_replica_ready u (fetch ''rolling-update-wait-second-batch-topology''))
   | WaitStandbyReplicaReady \<Rightarrow> keep u (wait_standby_replica_ready u (fetch ''rolling-update-wait-first-batch-topology''))
   | FailoverBackAndStopStandby \<Rightarrow> keep u (failover_back dt u)
   | StartStandby \<Rightarrow> keep u (start_standby dt u)
   | StopVoters \<Rightarrow> keep u (stop_voters dt u)
   | StartVoters \<Rightarrow> keep u (start_voters dt u)
   | VerifyVersion \<Rightarrow> keep u (Inr (verify_version u)))"

lemmas small_steps = upload_to_all_nodes_def restart_non_leader_nodes_def restart_selected_standby_def stop_log_def keep_def

section \<open>The lists of steps\<close>

definition build_upgrade_steps :: "upgrade_ctx \<Rightarrow> step list" where
  "build_upgrade_steps u =
     (if \<not> has_standby u then
        [DownloadAndExtract, UploadToAllNodes, StopTxNodes] @
        (if \<not> ug_skip_log u then [StopLog, StartLogAndWait] else []) @ [StartTx, VerifyVersion]
      else [DownloadAndExtract, UploadToAllNodes, SelectStandbyForFailover, RestartSelectedStandby, FailoverToStandby] @
        (if ug_skip_log u then [] else [StopLog]) @ (if \<not> ug_skip_log u then [StartLogAndWait] else []) @
        [RestartNonLeaderNodes, VerifyVersion])"

definition build_config_restart_steps :: "step list" where
  "build_config_restart_steps = [StopStandbyOnly, FailoverAndStopOldMaster, StartTx, WaitTxReplicaReady]"

section \<open>The runner\<close>

fun step_name :: "step \<Rightarrow> string" where
  "step_name StopStandbyOnly = ''StopStandbyOnly''"
| "step_name FailoverAndStopOldMaster = ''FailoverAndStopOldMaster''"
| "step_name SelectStandbyForFailover = ''SelectStandbyForFailover''"
| "step_name FailoverToStandby = ''FailoverToStandby''"
| "step_name DownloadAndExtract = ''DownloadAndExtract''"
| "step_name UploadToStandby = ''UploadToStandby''"
| "step_name UploadToMaster = ''UploadToMaster''"
| "step_name UploadToAllNodes = ''UploadToAllNodes''"
| "step_name StopTxNodes = ''StopTxNodes''"
| "step_name RestartNonLeaderNodes = ''RestartNonLeaderNodes''"
| "step_name RestartSelectedStandby = ''RestartSelectedStandby''"
| "step_name RestartTemporaryLeaders = ''RestartTemporaryLeaders''"
| "step_name StopLog = ''StopLog''"
| "step_name CleanEloqStoreData = ''CleanEloqStoreData''"
| "step_name StartLogAndWait = ''StartLogAndWait''"
| "step_name StartTx = ''StartTx''"
| "step_name WaitCurrentMaster = ''WaitCurrentMaster''"
| "step_name WaitTxReplicaReady = ''WaitTxReplicaReady''"
| "step_name WaitStandbyReplicaReady = ''WaitStandbyReplicaReady''"
| "step_name FailoverBackAndStopStandby = ''FailoverBackAndStopStandby''"
| "step_name StartStandby = ''StartStandby''"
| "step_name StopVoters = ''StopVoters''"
| "step_name StartVoters = ''StartVoters''"
| "step_name VerifyVersion = ''VerifyVersion''"

text \<open>\<open>run_step_context\<close>, with the tasks that were started.\<close>

fun first_failure :: "task_result_pair list \<Rightarrow> (string \<times> string) option" where
  "first_failure [] = None"
| "first_failure (p # ps) = (case rp_result p of TaskError e \<Rightarrow> Some (rp_task_id p, e) | Success _ \<Rightarrow> first_failure ps)"

definition run_step_context :: "('x task_instance \<Rightarrow> task_result option) \<Rightarrow> 'x task_context \<Rightarrow>
    'x task_instance list \<times> unit res" where
  "run_step_context exec ctx =
     (if executable ctx = [] then ([], Inr ())
      else case run_all_tasks exec True ctx of (started, r) \<Rightarrow>
        (started, bindE r (\<lambda>rs. case first_failure rs of
           Some (tid, m) \<Rightarrow> Inl (Err (''task '' @ [CHR 0x27] @ tid @ [CHR 0x27] @ '' failed: '' @ m)) | None \<Rightarrow> Inr ())))"

lemma first_failure_None: "first_error rs = None \<Longrightarrow> first_failure rs = None"
  by (induction rs) (auto split: task_result.splits)

definition step_error :: "string \<Rightarrow> string \<Rightarrow> err \<Rightarrow> err" where
  "step_error name what e = (case e of
     Err m \<Rightarrow> Err (''step '' @ [CHR 0x27] @ name @ [CHR 0x27] @ '' '' @ what @ '': '' @ m) | Panic m \<Rightarrow> Panic m)"

text \<open>
  The world of an upgrade: what each step's topology query returns and what each task does, by the
  number of the step.
\<close>

record 'u roll_world =
  rw_fetch :: "nat \<Rightarrow> string \<Rightarrow> cluster_nodes res"
  rw_exec :: "nat \<Rightarrow> 'u roll_task task_instance \<Rightarrow> task_result option"

fun run_steps :: "'u step_tools \<Rightarrow> 'u roll_world \<Rightarrow> nat \<Rightarrow> upgrade_ctx \<Rightarrow> step list \<Rightarrow>
    'u roll_task task_instance list \<times> upgrade_ctx res" where
  "run_steps tools w i u [] = ([], Inr u)"
| "run_steps tools w i u (s # ss) = (case build_step tools (rw_fetch w i) u s of
     Inl e \<Rightarrow> ([], Inl (step_error (step_name s) ''build failed'' e))
   | Inr (ctx, u') \<Rightarrow> (case run_step_context (rw_exec w i) ctx of
       (started, Inl e) \<Rightarrow> (started, Inl (step_error (step_name s) ''failed'' e))
     | (started, Inr _) \<Rightarrow> (case run_steps tools w (Suc i) u' ss of (more_started, r) \<Rightarrow> (started @ more_started, r))))"

definition friendly_step_names :: "(string \<times> string) list" where
  "friendly_step_names =
     [(''DownloadAndExtract'', ''Prepare upgrade package''),
      (''UploadToAllNodes'', ''Upload binaries to all nodes''),
      (''SelectStandbyForFailover'', ''Select standby for failover''),
      (''RestartSelectedStandby'', ''Restart selected standby node''),
      (''FailoverToStandby'', ''Fail over to upgraded standby''),
      (''RestartNonLeaderNodes'', ''Restart non-leader nodes one by one''),
      (''RestartTemporaryLeaders'', ''Restart temporary leader nodes''),
      (''UploadToStandby'', ''Upload binaries to standby nodes''),
      (''UploadToMaster'', ''Upload binaries to old master nodes''),
      (''StopStandbyOnly'', ''Stop standby nodes''),
      (''FailoverAndStopOldMaster'', ''Failover to standby and stop old master''),
      (''StartTx'', ''Start the old master node''),
      (''WaitTxReplicaReady'', ''Wait for the old master to rejoin as replica''),
      (''StartStandby'', ''Start standby nodes''),
      (''WaitStandbyReplicaReady'', ''Wait for standby nodes to rejoin as replicas''),
      (''StopLog'', ''Stop log service''),
      (''CleanEloqStoreData'', ''Clean EloqStore data''),
      (''StartLogAndWait'', ''Start log service''),
      (''VerifyVersion'', ''Verify upgraded version'')]"

definition friendly_step_name :: "string \<Rightarrow> string" where
  "friendly_step_name n = (case map_of friendly_step_names n of Some f \<Rightarrow> f | None \<Rightarrow> n)"

text \<open>The groups of \<open>update\<close> (\<open>update_cluster_group.rs\<close>) and of the restart of \<open>update-conf\<close>.\<close>

definition update_cluster :: "'u step_tools \<Rightarrow> 'u roll_world \<Rightarrow> sub_command \<Rightarrow> deploy_config \<Rightarrow>
    'u roll_task task_instance list \<times> unit res" where
  "update_cluster tools w cmd cfg =
     (case cmd of
        CmdUpdate a \<Rightarrow> (if up_version a = None then ([], Inr ())
          else let u = upgrade_ctx_new cmd cfg
            in case run_steps tools w 0 u (build_upgrade_steps u) of (started, r) \<Rightarrow> (started, bindE r (\<lambda>_. Inr ())))
      | _ \<Rightarrow> ([], Inr ()))"

definition config_restart :: "'u step_tools \<Rightarrow> 'u roll_world \<Rightarrow> sub_command \<Rightarrow> deploy_config \<Rightarrow>
    'u roll_task task_instance list \<times> unit res" where
  "config_restart tools w cmd cfg =
     (case run_steps tools w 0 (upgrade_ctx_new cmd cfg) build_config_restart_steps of (started, r) \<Rightarrow> (started, bindE r (\<lambda>_. Inr ())))"

end
