(* ===== verification/Rolling_Props.thy ===== *)
theory Rolling_Props
  imports Rolling_Upgrade "HOL-Library.Multiset"
begin

text \<open>
  What a rolling upgrade does to the nodes of a cluster: the choice of failover targets, the partition
  of the nodes into those restarted before and after the failover, and which nodes are stopped and
  started by the two commands as a whole.
\<close>

section \<open>The failover targets\<close>

definition follows :: "node_info list \<Rightarrow> node_info \<Rightarrow> string \<times> string \<Rightarrow> bool" where
  "follows replicas m pr \<longleftrightarrow> fst pr = addr (ni_ip m) (ni_port m) \<and>
     (\<exists>r \<in> set replicas. snd pr = addr (ni_ip r) (ni_port r) \<and> (ni_node_id m = None \<or> ni_master_id r = ni_node_id m))"

lemma failover_target_member:
  "failover_target masters replicas m = Inr r \<Longrightarrow> r \<in> set replicas \<and> (ni_node_id m = None \<or> ni_master_id r = ni_node_id m)"
  by (auto simp: failover_target_def Let_def split: option.splits if_splits list.splits dest: find_Some_set)

lemma failover_pairs_loop:
  "foldE (add_failover_pair masters replicas) ps ms = Inr pairs \<Longrightarrow> distinct (map snd ps) \<Longrightarrow>
   \<exists>new. pairs = ps @ new \<and> list_all2 (follows replicas) ms new \<and> distinct (map snd pairs)"
proof (induction ms arbitrary: ps)
  case (Cons m ms)
  from Cons.prems(1) obtain ps1 where one: "add_failover_pair masters replicas ps m = Inr ps1"
    and loop: "foldE (add_failover_pair masters replicas) ps1 ms = Inr pairs"
    by (auto simp only: foldE.simps bindE_Inr_iff)
  from one obtain r where r: "failover_target masters replicas m = Inr r"
    and fresh: "addr (ni_ip r) (ni_port r) \<notin> snd ` set ps"
    and ps1: "ps1 = ps @ [(addr (ni_ip m) (ni_port m), addr (ni_ip r) (ni_port r))]"
    by (auto simp: add_failover_pair_def Let_def bindE_Inr_iff split: if_splits)
  note rest = loop [unfolded ps1]
  from Cons.IH [OF rest] Cons.prems(2) fresh obtain new where
    "pairs = ps @ (addr (ni_ip m) (ni_port m), addr (ni_ip r) (ni_port r)) # new"
    "list_all2 (follows replicas) ms new" "distinct (map snd pairs)" by auto
  moreover have "follows replicas m (addr (ni_ip m) (ni_port m), addr (ni_ip r) (ni_port r))"
    using failover_target_member [OF r] by (auto simp: follows_def)
  ultimately show ?case by (intro exI [of _ "(addr (ni_ip m) (ni_port m), addr (ni_ip r) (ni_port r)) # new"]) simp
qed simp

lemma selected_targets:
  assumes "select_connected_failover_targets topo managed = Inr pairs"
  shows "list_all2 (follows (connected_managed_node_infos (cn_replicas topo) managed))
      (connected_managed_node_infos (cn_masters topo) managed) pairs \<and>
    distinct (map snd pairs) \<and> pairs \<noteq> []"
proof -
  let ?m = "connected_managed_node_infos (cn_masters topo) managed"
  have l: "foldE (add_failover_pair ?m (connected_managed_node_infos (cn_replicas topo) managed)) [] ?m = Inr pairs" "?m \<noteq> []"
    using assms by (auto simp: select_connected_failover_targets_def Let_def split: if_splits)
  from failover_pairs_loop [OF l(1)] l(2) show ?thesis by auto
qed

text \<open>C23. The failover targets of a rolling upgrade: one pair for each connected managed master, in order;
  the targets are different from each other, and each is a connected managed replica, of that very
  master when the master's id is known.\<close>

theorem selected_targets_sound:
  assumes "select_connected_failover_targets topo managed = Inr pairs"
  shows "map fst pairs = connected_managed_nodes (cn_masters topo) managed \<and> distinct (map snd pairs) \<and>
    list_all2 (\<lambda>m pr. \<exists>r \<in> set (cn_replicas topo). ni_connected r \<and> snd pr = addr (ni_ip r) (ni_port r) \<and> snd pr \<in> managed \<and>
        (ni_node_id m = None \<or> ni_master_id r = ni_node_id m))
      (connected_managed_node_infos (cn_masters topo) managed) pairs"
proof -
  let ?m = "connected_managed_node_infos (cn_masters topo) managed"
  note s = selected_targets [OF assms]
  have "map fst pairs = map (\<lambda>n. addr (ni_ip n) (ni_port n)) ?m"
    using s by (intro nth_equalityI) (auto simp: list_all2_conv_all_nth follows_def)
  then have "map fst pairs = connected_managed_nodes (cn_masters topo) managed"
    by (simp add: connected_managed_nodes_def connected_managed_node_infos_def filter_map o_def)
  moreover have "list_all2 (\<lambda>m pr. \<exists>r \<in> set (cn_replicas topo). ni_connected r \<and> snd pr = addr (ni_ip r) (ni_port r) \<and>
      snd pr \<in> managed \<and> (ni_node_id m = None \<or> ni_master_id r = ni_node_id m)) ?m pairs"
    by (rule list_all2_mono [OF conjunct1 [OF s]]) (auto simp: follows_def connected_managed_node_infos_def)
  ultimately show ?thesis using s by blast
qed

theorem selected_targets_sound_witness:
  "select_connected_failover_targets two_groups {addr ''a'' 1, addr ''b'' 2, addr ''c'' 3, addr ''d'' 4} =
     Inr [(addr ''a'' 1, addr ''c'' 3), (addr ''b'' 2, addr ''d'' 4)] \<and>
   distinct (map snd [(addr ''a'' 1, addr ''c'' 3), (addr ''b'' 2, addr ''d'' 4)])"
proof -
  have s: "select_connected_failover_targets two_groups {addr ''a'' 1, addr ''b'' 2, addr ''c'' 3, addr ''d'' 4} =
     Inr [(addr ''a'' 1, addr ''c'' 3), (addr ''b'' 2, addr ''d'' 4)]"
    by (simp add: select_connected_failover_targets_def two_groups_def no_nodes_def connected_managed_node_infos_def
        add_failover_pair_def failover_target_def)
  from selected_targets_sound [OF s] s show ?thesis by blast
qed

section \<open>The partition of the nodes\<close>

lemma targets_managed:
  assumes "select_connected_failover_targets topo managed = Inr pairs"
  shows "snd ` set pairs \<subseteq> managed"
proof -
  have "list_all2 (\<lambda>m pr. snd pr \<in> managed) (connected_managed_node_infos (cn_masters topo) managed) pairs"
    by (rule list_all2_mono [OF conjunct1 [OF selected_targets [OF assms]]])
      (auto simp: follows_def connected_managed_node_infos_def)
  then show ?thesis by (metis (no_types, lifting) image_subsetI list_all2_conv_all_nth in_set_conv_nth)
qed

lemma remembered_partition:
  assumes "select_connected_failover_targets topo (managed_set u) = Inr pairs" and "distinct (managed_nodes u)"
  shows "mset (map snd pairs @ ordered_without (managed_nodes u) (set (map snd pairs))) = mset (managed_nodes u)"
proof -
  have d: "distinct (map snd pairs)" using selected_targets [OF assms(1)] by blast
  have "distinct (map snd pairs @ ordered_without (managed_nodes u) (set (map snd pairs)))"
    using d by (auto simp: ordered_without_def)
  moreover have "set (map snd pairs @ ordered_without (managed_nodes u) (set (map snd pairs))) = set (managed_nodes u)"
    using targets_managed [OF assms(1)] by (auto simp: ordered_without_def managed_set_def)
  ultimately show ?thesis using assms(2) set_eq_iff_mset_eq_distinct by blast
qed

section \<open>The restart of a list of nodes\<close>

text \<open>The processes a run acts on: the ids of the process control tasks it started.\<close>

definition tx_ids :: "'u roll_task task_instance list \<Rightarrow> task_id list" where
  "tx_ids ts = List.map_filter (\<lambda>t. case ti_task t of RtTx x \<Rightarrow> Some (tc_id x) | _ \<Rightarrow> None) ts"

definition proc_id :: "string \<Rightarrow> string \<times> u16 \<Rightarrow> task_id" where
  "proc_id cmd hp = tx_task_id cmd NodeServer (fst hp) (show_u16 (snd hp))"

definition restart_ids :: "(string \<times> u16) list \<Rightarrow> task_id list" where
  "restart_ids hps = concat (map (\<lambda>hp. [proc_id ''stop'' hp, proc_id ''start'' hp]) hps)"

definition good_host :: "string \<times> u16 \<Rightarrow> bool" where
  "good_host hp \<longleftrightarrow> \<not> list_ex is_colon (fst hp) \<and> trim (fst hp) \<noteq> []"

lemma tx_ids_simps [simp]: "tx_ids [] = []" "tx_ids (a @ b) = tx_ids a @ tx_ids b"
  by (simp_all add: tx_ids_def map_filter_def)

lemma restart_ids_simps [simp]: "restart_ids [] = []" "restart_ids (hp # hps) = proc_id ''stop'' hp # proc_id ''start'' hp # restart_ids hps"
  "restart_ids (a @ b) = restart_ids a @ restart_ids b"
  by (simp_all add: restart_ids_def)

lemma good_host_split: "good_host hp \<Longrightarrow> split_once is_colon (addr (fst hp) (snd hp)) = Some (fst hp, show_u16 (snd hp))"
  by (intro split_once_addr) (auto simp: good_host_def list_ex_iff)

lemma good_host_parse: "good_host hp \<Longrightarrow> parse_host_port (addr (fst hp) (snd hp)) field = Inr hp"
  using good_host_split [of hp] by (simp add: parse_host_port_def good_host_def)

lemma single_tx_task:
  assumes "generate_tasks_for_host_ports g cfg [addr (fst hp) (snd hp)] NodeServer = Inr ts" "good_host hp"
  shows "\<exists>t x. ts = [(proc_id (tg_cmd g) hp, t)] \<and> ti_task t = x \<and> tc_id x = proc_id (tg_cmd g) hp"
  using assms(1) good_host_split [OF assms(2)]
  by (auto simp: generate_tasks_for_host_ports_def generate_task_def Let_def res_simps im_insert_def proc_id_def)

lemma stop_single:
  assumes "build_stop_node_tasks dt u grp [addr (fst hp) (snd hp)] = Inr ctx" "good_host hp"
  shows "\<exists>t. ctx = \<lparr>task_group = grp, barrier = Some [1], executable = [(proc_id ''stop'' hp, t)]\<rparr> \<and> tx_ids [t] = [proc_id ''stop'' hp]"
proof -
  obtain ts where ts: "generate_tasks_for_host_ports (generation_of dt (stop_command u [addr (fst hp) (snd hp)]) False) (ug_config u)
      [addr (fst hp) (snd hp)] NodeServer = Inr ts"
    and c: "ctx = single_barrier_ctx grp (lift_tasks RtTx ts)"
    using assms(1) by (auto simp: build_stop_node_tasks_def tx_from_config_with_channel_def server_host_ports_def
        stop_command_def res_simps)
  have n: "tg_cmd (generation_of dt (stop_command u [addr (fst hp) (snd hp)]) False) = ''stop''"
    by (simp add: generation_of_def stop_command_def)
  from single_tx_task [OF ts assms(2)] c show ?thesis
    unfolding n by (auto simp: single_barrier_ctx_def lift_tasks_def map_instance_def tx_ids_def map_filter_simps)
qed

lemma start_single:
  assumes "build_start_node_tasks dt u grp [addr (fst hp) (snd hp)] = Inr ctx" "good_host hp"
  shows "\<exists>t. ctx = \<lparr>task_group = grp, barrier = Some [1], executable = [(proc_id ''start'' hp, t)]\<rparr> \<and> tx_ids [t] = [proc_id ''start'' hp]"
proof -
  obtain ts where ts: "generate_tasks_for_host_ports (generation_of dt (start_command_nodes u [addr (fst hp) (snd hp)]) False) (ug_config u)
      [addr (fst hp) (snd hp)] NodeServer = Inr ts"
    and c: "ctx = single_barrier_ctx grp (lift_tasks RtTx ts)"
    using assms(1) by (auto simp: build_start_node_tasks_def tx_from_config_def server_host_ports_def
        start_command_nodes_def res_simps)
  have n: "tg_cmd (generation_of dt (start_command_nodes u [addr (fst hp) (snd hp)]) False) = ''start''"
    by (simp add: generation_of_def start_command_nodes_def)
  from single_tx_task [OF ts assms(2)] c show ?thesis
    unfolding n by (auto simp: single_barrier_ctx_def lift_tasks_def map_instance_def tx_ids_def map_filter_simps)
qed

lemma wait_single:
  assumes "build_wait_node_ready_tasks u grp prefix [addr (fst hp) (snd hp)] master = Inr ctx" "good_host hp"
  shows "\<exists>t. ctx = \<lparr>task_group = grp, barrier = Some [1], executable = [(wait_id prefix hp, t)]\<rparr> \<and> tx_ids [t] = []"
  using assms good_host_parse [OF assms(2)]
  by (auto simp: build_wait_node_ready_tasks_def single_barrier_ctx_def res_simps wait_node_instance_def local_task_def
      im_insert_def tx_ids_def map_filter_simps)

definition node_steps :: "string \<Rightarrow> string \<times> u16 \<Rightarrow> task_id list" where
  "node_steps prefix hp = [proc_id ''stop'' hp, proc_id ''start'' hp, wait_id (prefix @ ''-wait'') hp]"

lemma show_u16_same: "show_u16 p = show_u16 q \<Longrightarrow> p = q"
  by (metis option.inject parse_u16_show)

lemma node_steps_apart:
  "good_host a \<Longrightarrow> good_host b \<Longrightarrow> a \<noteq> b \<Longrightarrow> set (node_steps prefix a) \<inter> set (node_steps prefix b) = {}"
  by (auto simp: node_steps_def proc_id_def tx_task_id_def wait_id_def prod_eq_iff dest: show_u16_same)

lemma node_steps_distinct: "distinct (node_steps prefix a)"
  by (simp add: node_steps_def proc_id_def tx_task_id_def wait_id_def)

lemma restart_one:
  assumes "restart_node dt u prefix (b, ex) (addr (fst hp) (snd hp)) = Inr (b', ex')" "good_host hp"
    and fresh: "set (node_steps prefix hp) \<inter> fst ` set ex = {}"
  shows "\<exists>new. b' = b @ [1, 1, 1] \<and> ex' = ex @ new \<and> map fst new = node_steps prefix hp \<and>
    tx_ids (map snd new) = [proc_id ''stop'' hp, proc_id ''start'' hp]"
proof -
  obtain s t w where c: "build_stop_node_tasks dt u (prefix @ ''-stop-'' @ show_u16 (snd hp)) [addr (fst hp) (snd hp)] = Inr s"
      "build_start_node_tasks dt u (prefix @ ''-start-'' @ show_u16 (snd hp)) [addr (fst hp) (snd hp)] = Inr t"
      "build_wait_node_ready_tasks u (prefix @ ''-wait-'' @ show_u16 (snd hp)) (prefix @ ''-wait'') [addr (fst hp) (snd hp)] False = Inr w"
    and r: "(b', ex') = merge_one (merge_one (merge_one (b, ex) s) t) w"
    using assms(1) good_host_parse [OF assms(2), of "''restart node''"]
    by (auto simp: restart_node_def bindE_Inr_iff split_beta)
  from stop_single [OF c(1) assms(2)] start_single [OF c(2) assms(2)] wait_single [OF c(3) assms(2)] obtain a1 a2 a3 where
    s: "executable s = [(proc_id ''stop'' hp, a1)]" "barrier s = Some [1]" "tx_ids [a1] = [proc_id ''stop'' hp]" and
    t: "executable t = [(proc_id ''start'' hp, a2)]" "barrier t = Some [1]" "tx_ids [a2] = [proc_id ''start'' hp]" and
    w: "executable w = [(wait_id (prefix @ ''-wait'') hp, a3)]" "barrier w = Some [1]" "tx_ids [a3] = []" by force
  let ?new = "[(proc_id ''stop'' hp, a1), (proc_id ''start'' hp, a2), (wait_id (prefix @ ''-wait'') hp, a3)]"
  have k: "map fst ?new = node_steps prefix hp" by (simp add: node_steps_def)
  have e: "im_extend ex ?new = ex @ ?new"
    by (rule im_extend_disjoint) (use fresh node_steps_distinct [of prefix hp] in \<open>simp_all only: set_map [symmetric] k Int_commute\<close>)
  have "(b', ex') = (b @ [1, 1, 1], ex @ [(proc_id ''stop'' hp, a1), (proc_id ''start'' hp, a2), (wait_id (prefix @ ''-wait'') hp, a3)])"
    using e by (simp add: r merge_one_def s t w)
  moreover have "tx_ids [a1, a2, a3] = [proc_id ''stop'' hp, proc_id ''start'' hp]"
    using tx_ids_simps(2) [of "[a1]" "[a2, a3]"] tx_ids_simps(2) [of "[a2]" "[a3]"] s t w by simp
  ultimately show ?thesis by (simp add: node_steps_def)
qed

lemma restart_all:
  assumes "foldE (restart_node dt u prefix) (b, ex) (map (\<lambda>hp. addr (fst hp) (snd hp)) hps) = Inr (b', ex')"
    and "\<forall>hp \<in> set hps. good_host hp" and "distinct hps"
    and "\<forall>hp \<in> set hps. set (node_steps prefix hp) \<inter> fst ` set ex = {}"
    and "sum_list b = length ex" and "distinct (map fst ex)"
  shows "sum_list b' = length ex' \<and> distinct (map fst ex') \<and> tx_ids (map snd ex') = tx_ids (map snd ex) @ restart_ids hps"
  using assms
proof (induction hps arbitrary: b ex)
  case (Cons hp hps)
  from Cons.prems(1) obtain b1 ex1 where one: "restart_node dt u prefix (b, ex) (addr (fst hp) (snd hp)) = Inr (b1, ex1)"
    and loop: "foldE (restart_node dt u prefix) (b1, ex1) (map (\<lambda>hp. addr (fst hp) (snd hp)) hps) = Inr (b', ex')"
    by (auto simp: bindE_Inr_iff)
  have good: "good_host hp" "set (node_steps prefix hp) \<inter> fst ` set ex = {}" using Cons.prems by auto
  from restart_one [OF one this] obtain new where new: "b1 = b @ [1, 1, 1]" "ex1 = ex @ new" "map fst new = node_steps prefix hp"
    "tx_ids (map snd new) = [proc_id ''stop'' hp, proc_id ''start'' hp]" by blast
  have keys: "fst ` set ex1 = fst ` set ex \<union> set (node_steps prefix hp)"
    unfolding new(2) new(3) [symmetric] by (simp add: image_Un)
  have len: "length new = 3" using arg_cong [OF new(3), of length] by (simp add: node_steps_def)
  have apart: "\<forall>k \<in> set hps. set (node_steps prefix k) \<inter> fst ` set ex1 = {}"
  proof
    fix k assume k: "k \<in> set hps"
    then have "good_host k" "k \<noteq> hp" using Cons.prems(2,3) by auto
    from node_steps_apart [OF this(1) good(1) this(2)] k Cons.prems(4)
    show "set (node_steps prefix k) \<inter> fst ` set ex1 = {}" by (simp add: keys Int_Un_distrib)
  qed
  have d: "distinct (map fst ex1)"
    using Cons.prems(6) good(2) node_steps_distinct [of prefix hp] by (auto simp: new(2,3) Int_commute)
  have s: "sum_list b1 = length ex1" using Cons.prems(5) len by (simp add: new(1,2))
  have g: "\<forall>k \<in> set hps. good_host k" "distinct hps" using Cons.prems(2,3) by auto
  from Cons.IH [OF loop g apart s d] show ?case by (simp add: new(2,4))
qed simp

lemma restart_sequence:
  assumes "build_restart_nodes_sequence_ctx dt u grp prefix (map (\<lambda>hp. addr (fst hp) (snd hp)) hps) = Inr ctx"
    and "\<forall>hp \<in> set hps. good_host hp" and "distinct hps"
  shows "wf_context ctx \<and> tx_ids (map snd (executable ctx)) = restart_ids hps"
proof (cases "hps = []")
  case True
  then show ?thesis using assms(1) by (auto simp: build_restart_nodes_sequence_ctx_def dummy_context_def wf_context_def)
next
  case False
  then obtain b ex where "foldE (restart_node dt u prefix) ([], []) (map (\<lambda>hp. addr (fst hp) (snd hp)) hps) = Inr (b, ex)"
    and c: "ctx = \<lparr>task_group = grp, barrier = Some b, executable = ex\<rparr>"
    using assms(1) by (auto simp: build_restart_nodes_sequence_ctx_def bindE_Inr_iff)
  from restart_all [OF this(1) assms(2,3)] c show ?thesis by (simp add: wf_context_def)
qed

section \<open>Running the steps\<close>

lemma split_loop_within: "split_loop tasks pos ns = Inr sts \<Longrightarrow> set (concat sts) \<subseteq> set tasks"
proof (induction ns arbitrary: pos sts)
  case (Cons n ns)
  then obtain rest where rest: "split_loop tasks (pos + n) ns = Inr rest" "sts = take n (drop pos tasks) # rest"
    by (auto simp: bindE_Inr_iff split: if_splits)
  have "set (take n (drop pos tasks)) \<subseteq> set tasks" by (meson order_trans set_drop_subset set_take_subset)
  with Cons.IH [OF rest(1)] show ?case by (simp add: rest(2))
qed simp

lemma started_within: "set (fst (run_step_context exec ctx)) \<subseteq> snd ` set (executable ctx)"
proof -
  have stages: "set (fst (run_stages exec brk sts)) \<subseteq> set (concat sts)" for brk sts
    by (induction sts) (auto simp: Let_def split: option.splits prod.splits if_splits)
  have "set (fst (run_all_tasks exec True ctx)) \<subseteq> snd ` set (executable ctx)"
  proof (cases "split_task ctx")
    case (Inr sts)
    then have "set (concat sts) \<subseteq> snd ` set (executable ctx)"
      using split_loop_within [of "map snd (executable ctx)" 0] by (auto simp: split_task_def Let_def split: option.splits)
    with stages [of True sts] Inr show ?thesis by (simp add: run_all_tasks_def)
  qed (simp add: run_all_tasks_def)
  then show ?thesis by (simp add: run_step_context_def split_beta)
qed

lemma started_all:
  assumes "wf_context ctx" "run_step_context exec ctx = (started, Inr r)"
  shows "started = map snd (executable ctx)"
proof (cases "executable ctx = []")
  case False
  with assms(2) obtain rs where r: "run_all_tasks exec True ctx = (started, Inr rs)"
    by (auto simp: run_step_context_def bindE_Inr_iff split: prod.splits)
  then obtain sts where sts: "split_task ctx = Inr sts" by (cases "split_task ctx") (auto simp: run_all_tasks_def)
  with ctx.run_prefix [OF assms(1) sts, of exec True] r show ?thesis by (auto simp add: run_all_tasks_def)
qed (use assms in \<open>simp add: run_step_context_def\<close>)

text \<open>Contexts without a process control task.\<close>

definition no_tx :: "'u roll_tasks \<Rightarrow> bool" where
  "no_tx ex \<longleftrightarrow> list_all (\<lambda>(i, t). case ti_task t of RtTx _ \<Rightarrow> False | _ \<Rightarrow> True) ex"

lemma no_tx_simps [simp]: "no_tx []" "no_tx (kt # ex) \<longleftrightarrow> (case ti_task (snd kt) of RtTx _ \<Rightarrow> False | _ \<Rightarrow> True) \<and> no_tx ex"
  "no_tx (ex @ ex') \<longleftrightarrow> no_tx ex \<and> no_tx ex'" "no_tx (executable dummy_context)"
  by (auto simp: no_tx_def dummy_context_def split: prod.split)

lemma im_extend_all: "list_all P m \<Longrightarrow> list_all P kvs \<Longrightarrow> list_all P (im_extend m kvs)"
proof (induction kvs arbitrary: m)
  case (Cons kv kvs)
  have "list_all P (im_insert (fst kv) (snd kv) m)" using Cons.prems
    by (induction m) (auto simp: im_insert_def)
  with Cons show ?case by (cases kv) simp
qed simp

lemma no_tx_extend [simp]: "no_tx m \<Longrightarrow> no_tx kvs \<Longrightarrow> no_tx (im_extend m kvs)"
  unfolding no_tx_def by (rule im_extend_all)

lemma no_tx_lift [simp]: "no_tx (lift_tasks RtTool ts)" "no_tx (lift_tasks RtHost hs)"
  by (simp_all add: no_tx_def lift_tasks_def map_instance_def list_all_iff split_beta)

lemma no_tx_single [simp]: "executable (single_barrier_ctx grp ex) = ex" by (simp add: single_barrier_ctx_def)

lemma no_tx_local [simp]: "no_tx (map (wait_node_instance u prefix m) hps)" "no_tx (map (failover_pair_task u label) prs)"
  "no_tx [topology_task u name nodes]"
  by (auto simp: no_tx_def list_all_iff wait_node_instance_def failover_pair_task_def topology_task_def local_task_def)

lemma no_tx_waits: "build_wait_node_ready_tasks u grp prefix nodes m = Inr ctx \<Longrightarrow> no_tx (executable ctx)"
  by (auto simp: build_wait_node_ready_tasks_def bindE_Inr_iff split: if_splits)

lemma no_tx_failover:
  assumes "build_failover_pairs_ctx u label pairs = Inr ctx"
  shows "no_tx (executable ctx)"
proof -
  from assms obtain hps wait where w: "build_wait_node_ready_tasks u ''wait-failover-target-masters'' ''wait-failover-target-master''
      (map snd pairs) True = Inr wait"
    and e: "executable ctx = snd (merge_one ([1, length pairs],
      im_extend [topology_task u (''check-topology-'' @ label) (managed_nodes u)] (map (failover_pair_task u label) hps)) wait)"
    by (auto simp: build_failover_pairs_ctx_def bindE_Inr_iff split_beta Let_def simp del: im_extend_simps)
  from no_tx_waits [OF w] show ?thesis unfolding e by (simp add: merge_one_def del: im_extend_simps no_tx_simps(2))
qed

lemma no_tx_started:
  assumes "no_tx (executable ctx)" "run_step_context exec ctx = (started, r)"
  shows "tx_ids started = []"
proof -
  have "set started \<subseteq> snd ` set (executable ctx)" using started_within [of exec ctx] assms(2) by simp
  with assms(1) show ?thesis
    by (fastforce simp: tx_ids_def map_filter_def no_tx_def list_all_iff filter_empty_conv split: roll_task.splits)
qed

definition quiet_step :: "upgrade_ctx \<Rightarrow> step \<Rightarrow> bool" where
  "quiet_step u s \<longleftrightarrow> s \<in> {DownloadAndExtract, UploadToAllNodes, StopLog, StartLogAndWait, VerifyVersion} \<or>
     s = FailoverToStandby \<and> us_leaders (ug_state u) \<noteq> []"

lemma quiet_step_builds:
  assumes "quiet_step u s" "build_step tools fetch u s = Inr (ctx, u')"
  shows "no_tx (executable ctx) \<and> u' = u"
proof -
  from assms(1) consider "s = DownloadAndExtract" | "s = UploadToAllNodes" | "s = StopLog" | "s = StartLogAndWait"
    | "s = VerifyVersion" | "s = FailoverToStandby" "us_leaders (ug_state u) \<noteq> []" by (auto simp: quiet_step_def)
  then show ?thesis
  proof cases
    case 1
    then show ?thesis using assms(2)
      by (auto simp: build_step_def Let_def small_steps bindE_Inr_iff download_and_extract_def no_tx_extend)
  next
    case 4
    then show ?thesis using assms(2)
      by (auto simp: build_step_def small_steps bindE_Inr_iff start_log_and_wait_def push_nonempty_def push_stage_def no_tx_extend
          split: if_splits)
  next
    case 6
    then show ?thesis using assms(2)
      by (auto simp: build_step_def small_steps bindE_Inr_iff failover_to_standby_def failover_pairs_def Let_def
          no_tx_waits no_tx_failover split: if_splits)
  qed (use assms(2) in \<open>auto simp: build_step_def small_steps bindE_Inr_iff verify_version_def Let_def\<close>)
qed

lemma run_step_Inr:
  assumes "run_steps tools w i u (s # ss) = (started, Inr u2)"
  obtains ctx u1 one rest where "build_step tools (rw_fetch w i) u s = Inr (ctx, u1)"
    "run_step_context (rw_exec w i) ctx = (one, Inr ())" "run_steps tools w (Suc i) u1 ss = (rest, Inr u2)" "started = one @ rest"
  using assms by (auto split: sum.splits prod.splits)

lemma quiet_run:
  assumes "run_steps tools w i u (qs @ ss) = (started, Inr u2)" "list_all (quiet_step u) qs"
  shows "\<exists>rest. run_steps tools w (i + length qs) u ss = (rest, Inr u2) \<and> tx_ids started = tx_ids rest"
  using assms
proof (induction qs arbitrary: i started)
  case (Cons q qs)
  from Cons.prems(1) have "run_steps tools w i u (q # qs @ ss) = (started, Inr u2)" by simp
  then obtain ctx u1 one rest where q: "build_step tools (rw_fetch w i) u q = Inr (ctx, u1)"
    "run_step_context (rw_exec w i) ctx = (one, Inr ())" "run_steps tools w (Suc i) u1 (qs @ ss) = (rest, Inr u2)" "started = one @ rest"
    by (rule run_step_Inr)
  from quiet_step_builds [OF _ q(1)] Cons.prems(2) have n: "no_tx (executable ctx)" "u1 = u" by auto
  from Cons.IH [OF q(3) [unfolded n(2)]] Cons.prems(2) no_tx_started [OF n(1) q(2)] show ?case by (auto simp: q(4))
qed simp

section \<open>The upgrade as a whole\<close>

definition clean_node :: "string \<Rightarrow> bool" where
  "clean_node n \<longleftrightarrow> (\<exists>hp. good_host hp \<and> n = addr (fst hp) (snd hp))"

lemma clean_nodeI: "good_host hp \<Longrightarrow> clean_node (addr (fst hp) (snd hp))"
  by (auto simp: clean_node_def)

lemma clean_nodes_pairs:
  assumes "\<forall>n \<in> set nodes. clean_node n" "distinct nodes"
  obtains hps where "nodes = map (\<lambda>hp. addr (fst hp) (snd hp)) hps" "\<forall>hp \<in> set hps. good_host hp" "distinct hps"
proof -
  from assms(1) have "\<exists>hps. nodes = map (\<lambda>hp. addr (fst hp) (snd hp)) hps \<and> (\<forall>hp \<in> set hps. good_host hp)"
  proof (induction nodes)
    case (Cons n nodes)
    then obtain hps where "nodes = map (\<lambda>hp. addr (fst hp) (snd hp)) hps" "\<forall>hp \<in> set hps. good_host hp" by auto
    moreover obtain hp where "good_host hp" "n = addr (fst hp) (snd hp)" using Cons.prems by (auto simp: clean_node_def)
    ultimately show ?case by (intro exI [of _ "hp # hps"]) simp
  qed simp
  with that assms(2) show thesis by (auto simp: distinct_map)
qed

lemma restart_step_ids:
  assumes "build_restart_nodes_sequence_ctx dt u grp prefix nodes = Inr ctx" "run_step_context exec ctx = (started, Inr r)"
    and "nodes = map (\<lambda>hp. addr (fst hp) (snd hp)) hps" "\<forall>hp \<in> set hps. good_host hp" "distinct hps"
  shows "tx_ids started = restart_ids hps"
  using restart_sequence [OF assms(1) [unfolded assms(3)] assms(4,5)] started_all [OF _ assms(2)] by simp

text \<open>The two sequences of restarts in a successful run; the other steps act on no process.\<close>

lemma upgrade_restart_contexts:
  assumes "run_steps tools w 0 u (build_upgrade_steps u) = (started, Inr u2)" and "has_standby u"
  obtains topo pairs v c2 a2 c3 j a3 where "rw_fetch w 2 ''rolling-update-select-failover-target'' = Inr topo"
    "select_connected_failover_targets topo (managed_set u) = Inr pairs"
    "build_restart_nodes_sequence_ctx (tl_datetime tools) v ''restart-selected-standby'' ''restart-selected-standby''
      (map snd pairs) = Inr c2" "run_step_context (rw_exec w 3) c2 = (a2, Inr ())"
    "build_restart_nodes_sequence_ctx (tl_datetime tools) v ''restart-non-leader-nodes'' ''restart-non-leader-node''
      (ordered_without (managed_nodes u) (set (map snd pairs))) = Inr c3" "run_step_context (rw_exec w j) c3 = (a3, Inr ())"
    "tx_ids started = tx_ids a2 @ tx_ids a3"
proof -
  define logs where "logs = (if ug_skip_log u then [] else [StopLog]) @ (if \<not> ug_skip_log u then [StartLogAndWait] else [])"
  from assms have run: "run_steps tools w 0 u ([DownloadAndExtract, UploadToAllNodes] @
      SelectStandbyForFailover # RestartSelectedStandby # ([FailoverToStandby] @ logs) @ RestartNonLeaderNodes # [VerifyVersion] @ []) =
      (started, Inr u2)"
    by (simp add: build_upgrade_steps_def logs_def del: run_steps.simps)
  from quiet_run [OF run] obtain s1 where s1: "run_steps tools w 2 u (SelectStandbyForFailover # RestartSelectedStandby #
      ([FailoverToStandby] @ logs) @ RestartNonLeaderNodes # [VerifyVersion] @ []) = (s1, Inr u2)" "tx_ids started = tx_ids s1"
    by (auto simp: quiet_step_def numeral_2_eq_2 simp del: run_steps.simps)
  from s1(1) obtain c1 v a1 s2 where sel: "build_step tools (rw_fetch w 2) u SelectStandbyForFailover = Inr (c1, v)"
    "run_step_context (rw_exec w 2) c1 = (a1, Inr ())" and s2: "run_steps tools w 3 v (RestartSelectedStandby #
      ([FailoverToStandby] @ logs) @ RestartNonLeaderNodes # [VerifyVersion] @ []) = (s2, Inr u2)" "s1 = a1 @ s2"
    by (rule run_step_Inr) (simp only: numeral_3_eq_3 numeral_2_eq_2)
  from sel(1) assms(2) obtain topo pairs where t: "rw_fetch w 2 ''rolling-update-select-failover-target'' = Inr topo"
    "select_connected_failover_targets topo (managed_set u) = Inr pairs" and c1: "c1 = dummy_context" and v: "v = remember_targets u pairs"
    by (auto simp: build_step_def select_standby_for_failover_def bindE_Inr_iff)
  have a1: "a1 = []" using sel(2) by (simp add: c1 run_step_context_def dummy_context_def)
  have leaders: "us_leaders (ug_state v) = map snd pairs"
    and rest: "us_restart (ug_state v) = ordered_without (managed_nodes u) (set (map snd pairs))"
    by (simp_all add: v remember_targets_def set_state_def)
  from s2(1) obtain c2 v2 a2 s3 where b2: "build_step tools (rw_fetch w 3) v RestartSelectedStandby = Inr (c2, v2)"
    "run_step_context (rw_exec w 3) c2 = (a2, Inr ())"
    and s3: "run_steps tools w (Suc 3) v2 (([FailoverToStandby] @ logs) @ RestartNonLeaderNodes # [VerifyVersion] @ []) = (s3, Inr u2)" "s2 = a2 @ s3"
    by (rule run_step_Inr)
  have r2: "build_restart_nodes_sequence_ctx (tl_datetime tools) v ''restart-selected-standby'' ''restart-selected-standby''
      (map snd pairs) = Inr c2" and v2: "v2 = v"
    using b2(1) by (auto simp: build_step_def small_steps bindE_Inr_iff leaders)
  have "map snd pairs \<noteq> []" using selected_targets [OF t(2)] by simp
  then have "list_all (quiet_step v) ([FailoverToStandby] @ logs)" by (auto simp: quiet_step_def logs_def leaders)
  from quiet_run [OF s3(1) [unfolded v2] this] obtain j s4 where
    s4: "run_steps tools w j v (RestartNonLeaderNodes # [VerifyVersion] @ []) = (s4, Inr u2)" "tx_ids s3 = tx_ids s4" by blast
  from s4(1) obtain c3 v3 a3 s5 where b3: "build_step tools (rw_fetch w j) v RestartNonLeaderNodes = Inr (c3, v3)"
    "run_step_context (rw_exec w j) c3 = (a3, Inr ())"
    and s5: "run_steps tools w (Suc j) v3 ([VerifyVersion] @ []) = (s5, Inr u2)" "s4 = a3 @ s5"
    by (rule run_step_Inr)
  have r3: "build_restart_nodes_sequence_ctx (tl_datetime tools) v ''restart-non-leader-nodes'' ''restart-non-leader-node''
      (ordered_without (managed_nodes u) (set (map snd pairs))) = Inr c3"
    using b3(1) by (auto simp: build_step_def small_steps bindE_Inr_iff rest)
  have s5n: "tx_ids s5 = []" using quiet_run [OF s5(1)] by (auto simp: quiet_step_def simp del: append_Cons)
  have "tx_ids started = tx_ids a2 @ tx_ids a3" using s5n by (simp add: s1(2) s2(2) s3(2) s4(2) s5(2) a1)
  with that [OF t r2 b2(2) r3 b3(2)] show thesis .
qed

text \<open>C22. A rolling upgrade of a cluster with standbys that succeeds has stopped and started every managed
  node exactly once, one node after the other, and no other process: first the standbys selected as
  failover targets, then, after the failover, all the others.\<close>

theorem upgrade_restarts_each_node_once:
  assumes "update_cluster tools w (CmdUpdate a) cfg = (started, Inr ())" and "up_version a \<noteq> None"
    and "u = upgrade_ctx_new (CmdUpdate a) cfg" and "has_standby u"
    and "distinct (managed_nodes u)" and "\<forall>n \<in> set (managed_nodes u). clean_node n"
  shows "\<exists>topo pairs first others. rw_fetch w 2 ''rolling-update-select-failover-target'' = Inr topo \<and>
    select_connected_failover_targets topo (managed_set u) = Inr pairs \<and>
    map (\<lambda>hp. addr (fst hp) (snd hp)) first = map snd pairs \<and>
    mset (map (\<lambda>hp. addr (fst hp) (snd hp)) (first @ others)) = mset (managed_nodes u) \<and>
    tx_ids started = restart_ids (first @ others)"
proof -
  from assms(1-3) obtain u2 where run: "run_steps tools w 0 u (build_upgrade_steps u) = (started, Inr u2)"
    by (auto simp: update_cluster_def Let_def bindE_Inr_iff simp del: run_steps.simps split: prod.splits)
  obtain topo pairs v c2 a2 c3 j a3 where
    t: "rw_fetch w 2 ''rolling-update-select-failover-target'' = Inr topo" "select_connected_failover_targets topo (managed_set u) = Inr pairs"
    and r2: "build_restart_nodes_sequence_ctx (tl_datetime tools) v ''restart-selected-standby'' ''restart-selected-standby''
      (map snd pairs) = Inr c2" "run_step_context (rw_exec w 3) c2 = (a2, Inr ())"
    and r3: "build_restart_nodes_sequence_ctx (tl_datetime tools) v ''restart-non-leader-nodes'' ''restart-non-leader-node''
      (ordered_without (managed_nodes u) (set (map snd pairs))) = Inr c3" "run_step_context (rw_exec w j) c3 = (a3, Inr ())"
    and ids: "tx_ids started = tx_ids a2 @ tx_ids a3"
    using upgrade_restart_contexts [OF run assms(4)] by (metis (no_types, lifting))
  note part = remembered_partition [OF t(2) assms(5)]
  have "distinct (map snd pairs @ ordered_without (managed_nodes u) (set (map snd pairs)))"
    using part assms(5) by (metis mset_eq_imp_distinct_iff)
  moreover have "\<forall>n \<in> set (map snd pairs @ ordered_without (managed_nodes u) (set (map snd pairs))). clean_node n"
    using mset_eq_setD [OF part] assms(6) by simp
  ultimately have l: "\<forall>n \<in> set (map snd pairs). clean_node n" "distinct (map snd pairs)"
    and r: "\<forall>n \<in> set (ordered_without (managed_nodes u) (set (map snd pairs))). clean_node n"
      "distinct (ordered_without (managed_nodes u) (set (map snd pairs)))" by simp_all
  from l obtain first where f: "map snd pairs = map (\<lambda>hp. addr (fst hp) (snd hp)) first"
    "\<forall>hp \<in> set first. good_host hp" "distinct first" by (rule clean_nodes_pairs)
  from r obtain others where o: "ordered_without (managed_nodes u) (set (map snd pairs)) = map (\<lambda>hp. addr (fst hp) (snd hp)) others"
    "\<forall>hp \<in> set others. good_host hp" "distinct others" by (rule clean_nodes_pairs)
  have "tx_ids started = restart_ids (first @ others)"
    unfolding ids restart_step_ids [OF r2 f] restart_step_ids [OF r3 o] by simp
  moreover have "mset (map (\<lambda>hp. addr (fst hp) (snd hp)) (first @ others)) = mset (managed_nodes u)"
    using part f(1) o(1) by (simp only: map_append)
  ultimately show ?thesis using t f(1) [symmetric] by blast
qed

text \<open>Restart sequences can always be built, and a run without task errors goes through.\<close>

lemma single_task_builds:
  assumes "good_host hp" "tg_cmd g = ''stop'' \<or> tg_cmd g = ''start''"
  shows "\<exists>ts. generate_tasks_for_host_ports g cfg [addr (fst hp) (snd hp)] NodeServer = Inr ts"
  using assms(2) good_host_split [OF assms(1)]
  by (auto simp: generate_tasks_for_host_ports_def generate_task_def tx_cmd_and_input_def srv_start_cmd_with_host_def Let_def res_simps)

lemma stop_builds:
  assumes "good_host hp"
  shows "\<exists>c. build_stop_node_tasks dt u g [addr (fst hp) (snd hp)] = Inr c"
  using single_task_builds [OF assms, of "generation_of dt (stop_command u [addr (fst hp) (snd hp)]) False" "ug_config u"]
  by (auto simp: build_stop_node_tasks_def tx_from_config_with_channel_def server_host_ports_def stop_command_def generation_of_def res_simps)

lemma restart_node_builds:
  fixes acc :: "'u roll_task stage_acc"
  assumes "good_host hp"
  shows "\<exists>acc'. restart_node dt u prefix acc (addr (fst hp) (snd hp)) = Inr acc'"
proof -
  have "\<exists>c :: 'u roll_task task_context. build_stop_node_tasks dt u g [addr (fst hp) (snd hp)] = Inr c" for g
    by (rule stop_builds [OF assms])
  then obtain s where s: "build_stop_node_tasks dt u (prefix @ ''-stop-'' @ show_u16 (snd hp)) [addr (fst hp) (snd hp)] =
      Inr (s :: 'u roll_task task_context)" by blast
  have "\<exists>c :: 'u roll_task task_context. build_start_node_tasks dt u g [addr (fst hp) (snd hp)] = Inr c" for g
    using single_task_builds [OF assms, of "generation_of dt (start_command_nodes u [addr (fst hp) (snd hp)]) False" "ug_config u"]
    by (auto simp: build_start_node_tasks_def tx_from_config_def server_host_ports_def start_command_nodes_def generation_of_def res_simps)
  then obtain t where t: "build_start_node_tasks dt u (prefix @ ''-start-'' @ show_u16 (snd hp)) [addr (fst hp) (snd hp)] =
      Inr (t :: 'u roll_task task_context)" by blast
  have "\<exists>c :: 'u roll_task task_context. build_wait_node_ready_tasks u g prefix' [addr (fst hp) (snd hp)] m = Inr c" for g prefix' m
    using good_host_parse [OF assms] by (auto simp: build_wait_node_ready_tasks_def res_simps)
  then obtain w where "build_wait_node_ready_tasks u (prefix @ ''-wait-'' @ show_u16 (snd hp)) (prefix @ ''-wait'')
      [addr (fst hp) (snd hp)] False = Inr (w :: 'u roll_task task_context)" by blast
  with s t show ?thesis by (simp add: restart_node_def good_host_parse [OF assms] split_beta)
qed

lemma restart_sequence_builds:
  assumes "\<forall>hp \<in> set hps. good_host hp"
  shows "\<exists>ctx. build_restart_nodes_sequence_ctx dt u grp prefix (map (\<lambda>hp. addr (fst hp) (snd hp)) hps) = Inr ctx"
proof -
  have "\<forall>hp \<in> set hps. good_host hp \<Longrightarrow> \<exists>r. foldE (restart_node dt u prefix) acc (map (\<lambda>hp. addr (fst hp) (snd hp)) hps) = Inr r" for acc
  proof (induction hps arbitrary: acc)
    case (Cons hp hps)
    then show ?case using restart_node_builds [of hp dt u prefix acc] by force
  qed simp
  with assms show ?thesis by (fastforce simp: build_restart_nodes_sequence_ctx_def bindE_Inr_iff)
qed

lemma calm_run:
  assumes "\<forall>t. \<exists>v. exec t = Some (Success v)" "wf_context ctx"
  shows "snd (run_step_context exec ctx) = Inr ()"
proof -
  obtain sts where sts: "split_task ctx = Inr sts" using ctx.stages [OF assms(2)] by blast
  have "first_error (run_task_split exec ts) = None" for ts
  proof (induction ts)
    case (Cons a ts)
    obtain v where "exec a = Some (Success v)" using assms(1) by blast
    with Cons show ?case by (simp add: run_task_split_def map_filter_simps)
  qed (simp add: run_task_split_def map_filter_simps)
  moreover have "run_stages exec True sts = (map snd (executable ctx), Inr (run_task_split exec (map snd (executable ctx))))"
    by (rule ctx.run_without_errors [OF assms(2) sts]) (metis assms(1) option.inject task_result.distinct(1))
  ultimately show ?thesis by (simp add: run_step_context_def run_all_tasks_def sts first_failure_None)
qed

definition empty_tools :: "unit step_tools" where
  "empty_tools = \<lparr>tl_downloads = (\<lambda>_. []), tl_extract = Inr [], tl_uploads = [], tl_build_uploads = (\<lambda>_ _ _. []),
     tl_log_ctl = (\<lambda>_. []), tl_log_probe = [], tl_clean = (\<lambda>_. []), tl_datetime = ''t''\<rparr>"

definition pair_topology :: cluster_nodes where
  "pair_topology = no_nodes\<lparr>
     cn_masters := [\<lparr>ni_ip = ''a'', ni_port = 1, ni_connected = True, ni_node_id = Some ''A'', ni_master_id = None\<rparr>],
     cn_replicas := [\<lparr>ni_ip = ''b'', ni_port = 2, ni_connected = True, ni_node_id = Some ''B'', ni_master_id = Some ''A''\<rparr>]\<rparr>"

definition pair_config :: deploy_config where
  "pair_config = bare_config (bare_deployment ''c'' ''/opt'' (bare_service [''a:1''] (Some [''b:2'']) None))"

definition smooth_world :: "unit roll_world" where
  "smooth_world = \<lparr>rw_fetch = (\<lambda>_ _. Inr pair_topology), rw_exec = (\<lambda>_ _. Some (Success None))\<rparr>"

definition sample_update :: update_args where
  "sample_update = \<lparr>up_cluster = None, up_version = Some ''1.2.0'', up_download_only = False, up_password = None,
     up_force = False, up_skip_log_restart = True\<rparr>"

abbreviation pair_upgrade :: upgrade_ctx where
  "pair_upgrade \<equiv> upgrade_ctx_new (CmdUpdate sample_update) pair_config"

abbreviation chosen_upgrade :: upgrade_ctx where
  "chosen_upgrade \<equiv> remember_targets pair_upgrade [(addr ''a'' 1, addr ''b'' 2)]"

lemma pair_upgrade_facts:
  "managed_nodes pair_upgrade = [addr ''a'' 1, addr ''b'' 2]" "has_standby pair_upgrade"
  "select_connected_failover_targets pair_topology (managed_set pair_upgrade) = Inr [(addr ''a'' 1, addr ''b'' 2)]"
proof -
  show m: "managed_nodes pair_upgrade = [addr ''a'' 1, addr ''b'' 2]" by code_simp
  show "has_standby pair_upgrade" by code_simp
  show "select_connected_failover_targets pair_topology (managed_set pair_upgrade) = Inr [(addr ''a'' 1, addr ''b'' 2)]"
    by (simp add: managed_set_def m select_connected_failover_targets_def pair_topology_def no_nodes_def connected_managed_node_infos_def
        add_failover_pair_def failover_target_def)
qed

lemma step_goes:
  "build_step tools (rw_fetch w i) u s = Inr (c, u') \<Longrightarrow> snd (run_step_context (rw_exec w i) c) = Inr () \<Longrightarrow>
   snd (run_steps tools w i u (s # ss)) = snd (run_steps tools w (Suc i) u' ss)"
  by (auto split: prod.splits sum.splits)

lemma smooth_exec: "\<forall>t. \<exists>v. rw_exec smooth_world i t = Some (Success v)" by (simp add: smooth_world_def)

lemmas smooth_step = step_goes [OF _ calm_run [OF smooth_exec]]

lemma chosen_facts:
  "us_leaders (ug_state chosen_upgrade) = [addr ''b'' 2]" "us_restart (ug_state chosen_upgrade) = [addr ''a'' 1]"
  "has_standby chosen_upgrade" "managed_nodes chosen_upgrade = [addr ''a'' 1, addr ''b'' 2]"
proof -
  have k: "ug_config (remember_targets u ps) = ug_config u" for u ps by (simp add: remember_targets_def set_state_def Let_def)
  show "us_leaders (ug_state chosen_upgrade) = [addr ''b'' 2]" by (simp add: remember_targets_def set_state_def Let_def)
  show "us_restart (ug_state chosen_upgrade) = [addr ''a'' 1]"
    by (simp add: remember_targets_def set_state_def Let_def pair_upgrade_facts(1) ordered_without_def)
  show "has_standby chosen_upgrade" using pair_upgrade_facts(2) by (simp add: has_standby_def ug_deployment_def k)
  show "managed_nodes chosen_upgrade = [addr ''a'' 1, addr ''b'' 2]"
    using pair_upgrade_facts(1) by (simp add: managed_nodes_def ug_deployment_def k)
qed

lemma pair_hosts: "good_host (''a'', 1)" "good_host (''b'', 2)" by code_simp+

lemmas pair_parse = good_host_parse [OF pair_hosts(1), simplified] good_host_parse [OF pair_hosts(2), simplified]

lemma chosen_failover:
  "\<exists>c. build_step empty_tools (\<lambda>_. Inr pair_topology) chosen_upgrade FailoverToStandby = Inr (c, chosen_upgrade) \<and> wf_context c"
proof -
  have p: "failover_pairs chosen_upgrade pair_topology = Inr ([(addr ''a'' 1, addr ''b'' 2)], chosen_upgrade)"
    by (simp add: failover_pairs_def chosen_facts managed_set_def pair_topology_def no_nodes_def connected_managed_node_infos_def
        selected_pair_def pair_parse is_at_def connected_at_def map_filter_simps Let_def)
  have "\<exists>c. build_failover_pairs_ctx chosen_upgrade ''failover-to-standby'' [(addr ''a'' 1, addr ''b'' 2)] = Inr (c :: unit roll_task task_context) \<and> wf_context c"
    by (simp add: build_failover_pairs_ctx_def parse_pair_def pair_parse Let_def build_wait_node_ready_tasks_def wait_node_instance_def local_task_def
        topology_task_def failover_pair_task_def im_insert_def wait_id_def single_barrier_ctx_def merge_one_def wf_context_def)
  then show ?thesis
    by (auto simp: build_step_def failover_to_standby_def small_steps chosen_facts p)
qed

lemma single_restart:
  fixes u :: upgrade_ctx
  assumes "good_host hp"
  shows "\<exists>c :: 'u roll_task task_context. build_restart_nodes_sequence_ctx dt u grp prefix [addr (fst hp) (snd hp)] = Inr c \<and> wf_context c"
proof -
  obtain c :: "'u roll_task task_context" where c: "build_restart_nodes_sequence_ctx dt u grp prefix (map (\<lambda>hp. addr (fst hp) (snd hp)) [hp]) = Inr c"
    using restart_sequence_builds [of "[hp]"] assms by fastforce
  from restart_sequence [OF this] assms c show ?thesis by auto
qed

lemma chosen_restarts:
  "\<exists>c. build_step tools fetch chosen_upgrade RestartSelectedStandby = Inr (c, chosen_upgrade) \<and> wf_context c" (is ?A)
  "\<exists>c. build_step tools fetch chosen_upgrade RestartNonLeaderNodes = Inr (c, chosen_upgrade) \<and> wf_context c" (is ?B)
proof -
  show ?A using single_restart [OF pair_hosts(2), of "tl_datetime tools" chosen_upgrade "''restart-selected-standby''" "''restart-selected-standby''"]
    by (auto simp: build_step_def small_steps chosen_facts bindE_Inr_iff Let_def)
  show ?B using single_restart [OF pair_hosts(1), of "tl_datetime tools" chosen_upgrade "''restart-non-leader-nodes''" "''restart-non-leader-node''"]
    by (auto simp: build_step_def small_steps chosen_facts bindE_Inr_iff Let_def)
qed

lemma empty_steps:
  "build_step empty_tools fetch u DownloadAndExtract = Inr (\<lparr>task_group = ''download-and-extract'', barrier = None, executable = []\<rparr>, u)"
  "build_step empty_tools fetch u UploadToAllNodes = Inr (\<lparr>task_group = ''upload-to-all-nodes'', barrier = None, executable = []\<rparr>, u)"
  by (simp_all add: build_step_def small_steps download_and_extract_def empty_tools_def lift_tasks_def Let_def single_barrier_ctx_def)

lemma chosen_verify: "\<exists>c. build_step tools fetch chosen_upgrade VerifyVersion = Inr (c, chosen_upgrade) \<and> wf_context c"
proof -
  have "wf_context (single_barrier_ctx grp (lift_tasks RtHost ts))" if "unique_ids ts" for grp and ts :: "(task_id \<times> unit update_task task_instance) list"
    using that by (simp add: wf_context_def single_barrier_ctx_def lift_tasks_def unique_ids_def split_beta comp_def)
  moreover have "unique_ids (build_task_by_host cmd cfg hosts name)" for cmd cfg hosts name
    by (simp add: build_task_by_host_def unique_ids_def del: im_extend_simps)
  ultimately have "wf_context (verify_version chosen_upgrade)" unfolding verify_version_def Let_def by blast
  then show ?thesis by (simp add: build_step_def small_steps)
qed

lemma smooth_update: "snd (update_cluster empty_tools smooth_world (CmdUpdate sample_update) pair_config) = Inr ()"
proof -
  have f: "rw_fetch smooth_world i = (\<lambda>_. Inr pair_topology)" for i by (simp add: smooth_world_def)
  have s: "build_step empty_tools (rw_fetch smooth_world i) pair_upgrade SelectStandbyForFailover = Inr (dummy_context, chosen_upgrade)" for i
    by (simp add: build_step_def select_standby_for_failover_def pair_upgrade_facts f)
  have w: "wf_context \<lparr>task_group = g, barrier = None, executable = []\<rparr>" for g by (simp add: wf_context_def)
  have wd: "wf_context dummy_context" by (simp add: wf_context_def dummy_context_def)
  obtain c1 c2 c3 c4 where c: "build_step empty_tools (rw_fetch smooth_world (Suc (Suc (Suc 0)))) chosen_upgrade RestartSelectedStandby = Inr (c1, chosen_upgrade)" "wf_context c1"
    "build_step empty_tools (rw_fetch smooth_world (Suc (Suc (Suc (Suc 0))))) chosen_upgrade FailoverToStandby = Inr (c2, chosen_upgrade)" "wf_context c2"
    "build_step empty_tools (rw_fetch smooth_world (Suc (Suc (Suc (Suc (Suc 0)))))) chosen_upgrade RestartNonLeaderNodes = Inr (c3, chosen_upgrade)" "wf_context c3"
    "build_step empty_tools (rw_fetch smooth_world (Suc (Suc (Suc (Suc (Suc (Suc 0))))))) chosen_upgrade VerifyVersion = Inr (c4, chosen_upgrade)" "wf_context c4"
    using chosen_restarts chosen_failover chosen_verify f by metis
  have run: "snd (run_steps empty_tools smooth_world 0 pair_upgrade [DownloadAndExtract, UploadToAllNodes, SelectStandbyForFailover,
      RestartSelectedStandby, FailoverToStandby, RestartNonLeaderNodes, VerifyVersion]) = Inr chosen_upgrade"
    by (simp add: smooth_step [OF empty_steps(1) w] smooth_step [OF empty_steps(2) w] smooth_step [OF s wd]
        smooth_step [OF c(1,2)] smooth_step [OF c(3,4)] smooth_step [OF c(5,6)] smooth_step [OF c(7,8)] del: run_steps.simps(2))
  have "ug_skip_log pair_upgrade" by (simp add: upgrade_ctx_new_def sample_update_def)
  then have "build_upgrade_steps pair_upgrade = [DownloadAndExtract, UploadToAllNodes, SelectStandbyForFailover,
      RestartSelectedStandby, FailoverToStandby, RestartNonLeaderNodes, VerifyVersion]"
    by (simp add: build_upgrade_steps_def pair_upgrade_facts)
  with run show ?thesis
    by (simp add: update_cluster_def sample_update_def Let_def split_beta del: run_steps.simps)
qed

theorem upgrade_restarts_each_node_once_witness:
  "\<exists>first others. map (\<lambda>hp. addr (fst hp) (snd hp)) first = [addr ''b'' 2] \<and>
     mset (map (\<lambda>hp. addr (fst hp) (snd hp)) (first @ others)) = {#addr ''a'' 1, addr ''b'' 2#} \<and>
     tx_ids (fst (update_cluster empty_tools smooth_world (CmdUpdate sample_update) pair_config)) = restart_ids (first @ others)"
proof -
  let ?r = "update_cluster empty_tools smooth_world (CmdUpdate sample_update) pair_config"
  have r: "?r = (fst ?r, Inr ())" using smooth_update by (metis prod.collapse)
  have v: "up_version sample_update \<noteq> None" by (simp add: sample_update_def)
  have d: "distinct (managed_nodes pair_upgrade)" by (simp add: pair_upgrade_facts)
  have c: "\<forall>n \<in> set (managed_nodes pair_upgrade). clean_node n"
    using clean_nodeI [OF pair_hosts(1)] clean_nodeI [OF pair_hosts(2)] by (simp add: pair_upgrade_facts)
  from upgrade_restarts_each_node_once [OF r v refl pair_upgrade_facts(2) d c] pair_upgrade_facts show ?thesis
    by (auto simp: smooth_world_def)
qed

section \<open>The restart after a configuration update\<close>

text \<open>Stopping several nodes: one stop task for each of them.\<close>

lemma generated_stops:
  assumes "\<forall>hp \<in> set hps. good_host hp" and "tg_cmd g = ''stop''"
  shows "\<exists>ts. mapE (generate_task g cfg NodeServer) (map (\<lambda>hp. addr (fst hp) (snd hp)) hps) = Inr ts \<and>
    map (\<lambda>t. tc_id (ti_task (snd t))) ts = map (proc_id ''stop'') hps"
  using assms(1)
proof (induction hps)
  case (Cons hp hps)
  then obtain ts where "mapE (generate_task g cfg NodeServer) (map (\<lambda>hp. addr (fst hp) (snd hp)) hps) = Inr ts"
    "map (\<lambda>t. tc_id (ti_task (snd t))) ts = map (proc_id ''stop'') hps" by auto
  moreover have "\<exists>t. generate_task g cfg NodeServer (addr (fst hp) (snd hp)) = Inr t \<and> tc_id (ti_task (snd t)) = proc_id ''stop'' hp"
    using good_host_split [of hp] Cons.prems assms(2)
    by (auto simp: generate_task_def tx_cmd_and_input_def Let_def proc_id_def)
  ultimately show ?case by auto
qed simp

lemma stop_several:
  assumes "\<forall>hp \<in> set hps. good_host hp" and "distinct hps" and "hps \<noteq> []"
  shows "\<exists>ctx. build_stop_node_tasks dt u grp (map (\<lambda>hp. addr (fst hp) (snd hp)) hps) = Inr ctx \<and> wf_context ctx \<and>
    tx_ids (map snd (executable ctx)) = map (proc_id ''stop'') hps"
proof -
  let ?hps = "map (\<lambda>hp. addr (fst hp) (snd hp)) hps"
  let ?g = "generation_of dt (stop_command u ?hps) False"
  have g: "tg_cmd ?g = ''stop''" by (simp add: generation_of_def stop_command_def)
  obtain ts where ts: "mapE (generate_task ?g (ug_config u) NodeServer) ?hps = Inr ts"
    "map (\<lambda>t. tc_id (ti_task (snd t))) ts = map (proc_id ''stop'') hps"
    using generated_stops [OF assms(1) g] by blast
  have same: "hp = hp'" if "hp \<in> set hps" "hp' \<in> set hps" "addr (fst hp) (snd hp) = addr (fst hp') (snd hp')" for hp hp'
    using good_host_split [of hp] good_host_split [of hp'] assms(1) that show_u16_same by (metis Pair_inject option.inject prod.expand)
  have "distinct ?hps" using assms(2) same by (auto simp: distinct_map inj_on_def)
  from generated_ids [OF ts(1) this] have d: "unique_ids ts" by blast
  have ex: "im_extend [] ts = ts" using d by (simp add: im_extend_Nil)
  have ne: "ts \<noteq> []" using mapE_length [OF ts(1)] assms(3) by auto
  let ?ctx = "single_barrier_ctx grp (lift_tasks RtTx ts)"
  have "build_stop_node_tasks dt u grp ?hps = Inr ?ctx"
    using assms(3) ts(1) ex
    by (simp add: build_stop_node_tasks_def tx_from_config_with_channel_def server_host_ports_def stop_command_def
        generate_tasks_for_host_ports_def)
  moreover have "wf_context ?ctx"
    using d ne by (auto simp: wf_context_def single_barrier_ctx_def lift_tasks_def unique_ids_def comp_def split_beta)
  moreover have "tx_ids (map snd (executable ?ctx)) = map (\<lambda>t. tc_id (ti_task (snd t))) ts"
    by (simp add: single_barrier_ctx_def lift_tasks_def) (induction ts, auto simp: tx_ids_def map_filter_simps map_instance_def)
  ultimately show ?thesis using ts(2) by (intro exI [of _ ?ctx]) simp
qed

lemma failover_without_replicas:
  assumes "fetch ''rolling-update-pre-failover-topology'' = Inr topo" and "connected_managed_nodes (cn_replicas topo) (managed_set u) = []"
    and "has_standby u" and "ug_config v = ug_config u"
  shows "\<exists>e. build_step tools fetch v FailoverAndStopOldMaster = Inl e"
proof -
  have "managed_set v = managed_set u" "has_standby v" using assms(3,4)
    by (simp_all add: managed_set_def managed_nodes_def has_standby_def ug_deployment_def)
  then show ?thesis using assms(1,2) by (auto simp: build_step_def Let_def failover_and_stop_old_master_def)
qed

text \<open>C24. A restart after a configuration update starts by stopping every connected standby, and then looks for
  a connected replica to fail over to. When no other replica connects meanwhile and a node for which a
  stop was started is no longer connected, it finds none and fails: the standbys have been stopped, and
  no process has been started again.\<close>

theorem config_restart_leaves_standbys_down:
  fixes tools :: "'u step_tools"
  assumes "config_restart tools w (CmdUpdateConf a) cfg = (started, r)" and "u = upgrade_ctx_new (CmdUpdateConf a) cfg"
    and "has_standby u" and "rw_fetch w 0 ''rolling-update-initial-topology'' = Inr before"
    and "rw_fetch w 1 ''rolling-update-pre-failover-topology'' = Inr later"
    and "connected_managed_nodes (cn_replicas before) (managed_set u) = map (\<lambda>hp. addr (fst hp) (snd hp)) standbys"
    and "standbys \<noteq> []" and "distinct standbys" and "\<forall>hp \<in> set standbys. good_host hp"
    and "\<forall>t. \<exists>v. rw_exec w 0 t = Some (Success v)"
    and "\<forall>n \<in> set (connected_managed_nodes (cn_replicas later) (managed_set u)).
      \<exists>hp \<in> set standbys. n = addr (fst hp) (snd hp) \<and> proc_id ''stop'' hp \<notin> set (tx_ids started)"
  shows "tx_ids started = map (proc_id ''stop'') standbys \<and> (\<exists>e. r = Inl e)"
proof -
  let ?next = "run_steps tools w 1"
  let ?v = "set_state (us_first_update (\<lambda>_. map (\<lambda>hp. addr (fst hp) (snd hp)) standbys)) u"
  obtain ctx :: "'u roll_task task_context" where ctx: "build_stop_node_tasks (tl_datetime tools) ?v ''stop-standby'' (map (\<lambda>hp. addr (fst hp) (snd hp)) standbys) = Inr ctx"
    "wf_context ctx" "tx_ids (map snd (executable ctx)) = map (proc_id ''stop'') standbys"
    using stop_several [OF assms(9,8,7)] by blast
  have one: "build_step tools (rw_fetch w 0) u StopStandbyOnly = Inr (ctx, ?v)"
    using assms(3,4,6,7) ctx(1) by (simp add: build_step_def stop_standby_only_def small_steps Let_def)
  obtain st where "run_step_context (rw_exec w 0) ctx = (st, Inr ())"
    using calm_run [OF assms(10) ctx(2)] by (metis prod.collapse)
  then have go: "run_step_context (rw_exec w 0) ctx = (map snd (executable ctx), Inr ())" using started_all [OF ctx(2)] by metis
  obtain rest r' where rest: "?next ?v [FailoverAndStopOldMaster, StartTx, WaitTxReplicaReady] = (rest, r')"
    by (cases "?next ?v [FailoverAndStopOldMaster, StartTx, WaitTxReplicaReady]")
  have run: "run_steps tools w 0 u build_config_restart_steps = (map snd (executable ctx) @ rest, r')"
    using rest by (simp add: build_config_restart_steps_def one go del: run_steps.simps(2) add: run_steps.simps(2) [of tools w 0])
  then have s: "started = map snd (executable ctx) @ rest" "r = bindE r' (\<lambda>_. Inr ())" using assms(1,2) by (auto simp: config_restart_def)
  have "connected_managed_nodes (cn_replicas later) (managed_set u) = []"
    using assms(11) by (auto simp: s(1) ctx(3) intro!: equals0I simp flip: set_empty)
  then obtain e where "build_step tools (rw_fetch w 1) ?v FailoverAndStopOldMaster = Inl e"
    using failover_without_replicas [of "rw_fetch w 1", OF assms(5) _ assms(3), of ?v tools] by (auto simp: set_state_def)
  with rest have "rest = []" "\<exists>e. r' = Inl e" by auto
  then show ?thesis using ctx(3) s by auto
qed

definition sample_restart :: update_conf_args where
  "sample_restart = \<lparr>uc_cluster = ''c'', uc_restart = True, uc_password = None, uc_fields = [''a=1''], uc_tx_node_id = None\<rparr>"

definition down_world :: "unit roll_world" where
  "down_world = \<lparr>rw_fetch = (\<lambda>i _. if i = 0 then Inr pair_topology
       else Inr (pair_topology\<lparr>cn_replicas := map (ni_connected_update (\<lambda>_. False)) (cn_replicas pair_topology)\<rparr>)),
     rw_exec = (\<lambda>_ _. Some (Success None))\<rparr>"

abbreviation pair_restart :: upgrade_ctx where
  "pair_restart \<equiv> upgrade_ctx_new (CmdUpdateConf sample_restart) pair_config"

lemma pair_restart_facts: "managed_nodes pair_restart = [addr ''a'' 1, addr ''b'' 2]" "has_standby pair_restart"
  by code_simp+

theorem config_restart_leaves_standbys_down_witness:
  "tx_ids (fst (config_restart empty_tools down_world (CmdUpdateConf sample_restart) pair_config)) = [proc_id ''stop'' (''b'', 2)] \<and>
   (\<exists>e. snd (config_restart empty_tools down_world (CmdUpdateConf sample_restart) pair_config) = Inl e)"
proof -
  let ?r = "config_restart empty_tools down_world (CmdUpdateConf sample_restart) pair_config"
  let ?t = "pair_topology\<lparr>cn_replicas := map (ni_connected_update (\<lambda>_. False)) (cn_replicas pair_topology)\<rparr>"
  have f: "rw_fetch down_world 0 n = Inr pair_topology" "rw_fetch down_world 1 n = Inr ?t" for n by (simp_all add: down_world_def)
  have none: "connected_managed_nodes (cn_replicas ?t) (managed_set pair_restart) = []"
    by (simp add: connected_managed_nodes_def pair_topology_def)
  have some: "connected_managed_nodes (cn_replicas pair_topology) (managed_set pair_restart) = map (\<lambda>hp. addr (fst hp) (snd hp)) [(''b'', 2)]"
    by (simp add: connected_managed_nodes_def pair_topology_def no_nodes_def managed_set_def pair_restart_facts)
  have r: "?r = (fst ?r, snd ?r)" by simp
  have "tx_ids (fst ?r) = map (proc_id ''stop'') [(''b'', 2)] \<and> (\<exists>e. snd ?r = Inl e)"
    by (rule config_restart_leaves_standbys_down [OF r refl pair_restart_facts(2) f some])
      (simp_all only: none list.simps pair_hosts, simp_all add: down_world_def pair_hosts)
  then show ?thesis by simp
qed

end
