(* ===== verification/Observed_State.thy ===== *)
theory Observed_State
  imports Tx_Ctl
begin

text \<open>
  What the results of status tasks say about a cluster (\<open>cli/reconcile.rs\<close>) and the table that is shown
  of it (\<open>cli/cmd_base.rs\<close>). Strings are sequences of bytes here: a slice that cuts a multi-byte
  character panics.
\<close>

section \<open>Observed services\<close>

datatype observed_status = Up | Down | Unknown | ObsError | ObsOk

fun show_observed :: "observed_status \<Rightarrow> string" where
  "show_observed Up = ''UP''" | "show_observed Down = ''DOWN''" | "show_observed Unknown = ''UNKNOWN''"
| "show_observed ObsError = ''ERROR''" | "show_observed ObsOk = ''OK''"

record observed_service =
  os_host :: string
  os_service :: string
  os_port :: string
  os_status :: observed_status
  os_detail :: string

record observed_cluster =
  oc_cluster :: string
  oc_services :: "observed_service list"

text \<open>The three parts of a printed task id; the last one of a name counts.\<close>

definition id_part :: "string \<times> string \<times> string \<Rightarrow> string \<Rightarrow> string \<times> string \<times> string" where
  "id_part acc part = (case acc of (host, cmd, task) \<Rightarrow> (case split_once is_eq part of
     None \<Rightarrow> acc
   | Some (k, v) \<Rightarrow>
       if trim k = ''host'' then (trim v, cmd, task)
       else if trim k = ''cmd'' then (host, trim v, task)
       else if trim k = ''task'' then (host, cmd, trim v)
       else acc))"

definition parse_task_id_parts :: "string \<Rightarrow> string \<times> string \<times> string" where
  "parse_task_id_parts tid = foldl id_part ([], [], []) (split_on is_comma tid)"

definition monitor_prefixes :: "(string \<times> string) list" where
  "monitor_prefixes =
     [(''prometheus-status-'', ''prometheus''), (''alertmanager-status-'', ''alertmanager''), (''grafana-status-'', ''grafana''),
      (''alertmanager-webhook-adapter-status-'', ''alertmanager_webhook_adapter''), (''node_exporter-status-'', ''node_exporter'')]"

definition parse_monitor_status_task :: "string \<Rightarrow> (string \<times> string) option" where
  "parse_monitor_status_task task =
     (case List.map_filter (\<lambda>(prefix, service). map_option (\<lambda>p. (service, p)) (strip_prefix prefix task)) monitor_prefixes of
        [] \<Rightarrow> None | r # _ \<Rightarrow> Some r)"

definition service_and_port_from_task :: "string \<Rightarrow> string \<Rightarrow> (string \<times> string) option" where
  "service_and_port_from_task cmd task =
     (if starts_with ''tx-status-'' task then Some (''tx'', trim_start_matches ''tx-status-'' task)
      else if starts_with ''txservice-status-'' task then Some (''tx'', trim_start_matches ''txservice-status-'' task)
      else if starts_with ''standby-status-'' task then Some (''standby'', trim_start_matches ''standby-status-'' task)
      else if starts_with ''voter-status-'' task then Some (''voter'', trim_start_matches ''voter-status-'' task)
      else if starts_with ''eloq_log_'' cmd \<and> task = ''status'' then Some (''log'', ''-'')
      else if starts_with ''dss_'' cmd \<and> task = ''status'' then Some (''dss'', ''-'')
      else parse_monitor_status_task task)"

definition one_line :: "string \<Rightarrow> string" where
  "one_line s = replace_char (CHR 0x0A) '' '' s"

text \<open>\<open>into_inner_value\<close> of a value of another kind is \<open>unreachable!\<close>.\<close>

definition status_code :: "execution_value \<Rightarrow> int res" where
  "status_code ev = (case ev cmd_status_key of
     None \<Rightarrow> Inr 0 | Some (NumberValue n) \<Rightarrow> Inr n
   | Some _ \<Rightarrow> Inl (Panic ''internal error: entered unreachable code''))"

definition output_text :: "execution_value \<Rightarrow> string res" where
  "output_text ev = (case ev cmd_output_key of
     None \<Rightarrow> Inr [] | Some (StrValue s) \<Rightarrow> Inr s
   | Some _ \<Rightarrow> Inl (Panic ''internal error: entered unreachable code''))"

definition classify :: "int \<Rightarrow> string \<Rightarrow> observed_status" where
  "classify code detail = (let low = to_lower detail in
     if code \<noteq> 0 then ObsError
     else if contains_sub ''running'' low then Up
     else if contains_sub ''down'' low then Down
     else if contains_sub ''unknown'' low then Unknown
     else ObsOk)"

definition observed_service_from_task_result :: "task_result_pair \<Rightarrow> observed_service option res" where
  "observed_service_from_task_result pr =
     (case parse_task_id_parts (rp_task_id pr) of (host, cmd, task) \<Rightarrow>
      if host = [] then Inr None
      else case service_and_port_from_task cmd task of
        None \<Rightarrow> Inr None
      | Some (service, p) \<Rightarrow> (case rp_result pr of
          TaskError e \<Rightarrow> Inr (Some \<lparr>os_host = host, os_service = service, os_port = p, os_status = ObsError, os_detail = one_line e\<rparr>)
        | Success (Some ev) \<Rightarrow>
            bindE (status_code ev) (\<lambda>code.
            bindE (output_text ev) (\<lambda>out.
            let detail = trim (one_line out)
            in Inr (Some \<lparr>os_host = host, os_service = service, os_port = p, os_status = classify code detail, os_detail = detail\<rparr>)))
        | Success None \<Rightarrow> Inr None))"

definition from_task_results :: "string \<Rightarrow> task_result_pair list \<Rightarrow> observed_cluster res" where
  "from_task_results cluster rs = bindE (mapE observed_service_from_task_result rs) (\<lambda>os.
     Inr \<lparr>oc_cluster = cluster, oc_services = List.map_filter id os\<rparr>)"

definition critical_services :: "observed_cluster \<Rightarrow> observed_service list" where
  "critical_services oc = filter (\<lambda>s. os_service s \<in> {''tx'', ''standby'', ''voter'', ''log'', ''dss''}) (oc_services oc)"

definition has_errors :: "observed_cluster \<Rightarrow> bool" where
  "has_errors oc \<longleftrightarrow> list_ex (\<lambda>s. os_status s = ObsError) (critical_services oc)"

definition has_running_service :: "observed_cluster \<Rightarrow> string \<Rightarrow> bool" where
  "has_running_service oc name \<longleftrightarrow> list_ex (\<lambda>s. os_service s = name \<and> os_status s = Up) (oc_services oc)"

definition unavailable_services :: "observed_cluster \<Rightarrow> observed_service list" where
  "unavailable_services oc = filter (\<lambda>s. os_status s \<in> {Down, Unknown, ObsError}) (critical_services oc)"

definition observed_lines :: "observed_cluster \<Rightarrow> string list" where
  "observed_lines oc =
     (if oc_services oc = []
      then [''No live observed service rows found for cluster '' @ [CHR 0x27] @ oc_cluster oc @ [CHR 0x27] @ ''.'']
      else (''Observed live state for cluster '' @ [CHR 0x27] @ oc_cluster oc @ [CHR 0x27] @ '':'') #
        map (\<lambda>s. ''  - '' @ os_service s @ '' '' @ os_host s @ '':'' @ os_port s @ '' '' @ show_observed (os_status s) @ '' '' @ os_detail s)
          (oc_services oc))"

section \<open>The status table\<close>

record summary_row =
  sr_host :: string
  sr_service :: string
  sr_port :: string
  sr_status :: string
  sr_detail :: string

text \<open>\<open>str::is_char_boundary\<close>: not a continuation byte of UTF-8.\<close>

definition is_char_boundary :: "string \<Rightarrow> nat \<Rightarrow> bool" where
  "is_char_boundary s i \<longleftrightarrow> (if i < length s then (of_char (s ! i) :: nat) div 64 \<noteq> 2 else i = length s)"

definition status_row_from_observed :: "observed_service \<Rightarrow> summary_row res" where
  "status_row_from_observed s =
     bindE (if 120 < length (os_detail s) then
          (if is_char_boundary (os_detail s) 120 then Inr (take 120 (os_detail s) @ ''...'')
           else Inl (Panic ''byte index 120 is not a char boundary''))
        else Inr (os_detail s))
       (\<lambda>detail. Inr \<lparr>sr_host = os_host s, sr_service = os_service s, sr_port = os_port s,
          sr_status = show_observed (os_status s), sr_detail = detail\<rparr>)"

definition summarize_status_rows :: "task_result_pair list \<Rightarrow> summary_row list res" where
  "summarize_status_rows rs = bindE (from_task_results ''status'' rs) (\<lambda>oc. mapE status_row_from_observed (oc_services oc))"

definition summarize_monitor_status_rows :: "task_result_pair list \<Rightarrow> summary_row list res" where
  "summarize_monitor_status_rows rs = bindE (from_task_results ''monitor'' rs) (\<lambda>oc.
     mapE status_row_from_observed (filter (\<lambda>s. os_service s \<in>
       {''prometheus'', ''alertmanager'', ''grafana'', ''alertmanager_webhook_adapter'', ''node_exporter''}) (oc_services oc)))"

definition shell_single_quote :: "string \<Rightarrow> string" where
  "shell_single_quote v = [CHR 0x27] @ replace_char (CHR 0x27) [CHR 0x27, CHR 0x22, CHR 0x27, CHR 0x22, CHR 0x27] v @ [CHR 0x27]"

definition redis_cli_connect_command :: "deploy_config \<Rightarrow> string option \<Rightarrow> string option" where
  "redis_cli_connect_command cfg cli = (case tx_host_ports (tx_service (cfg_deployment cfg)) of
     [] \<Rightarrow> None
   | hp # _ \<Rightarrow> (let parts = split_on is_colon hp in
       Option.bind (nth_opt parts 1) (\<lambda>ps. Option.bind (parse_u16 ps) (\<lambda>p.
         case cfg_service_endpoint cfg (parts ! 0) p of (host, p) \<Rightarrow>
           Some (''redis-cli -h '' @ host @ '' -p '' @ show_u16 p @
             (case redis_password cfg cli of None \<Rightarrow> [] | Some pw \<Rightarrow> '' -a '' @ shell_single_quote pw))))))"

section \<open>A status task and what is observed of it\<close>

lemma id_part_key:
  "id_part (h, c, t) (''host='' @ v) = (trim v, c, t)"
  "id_part (h, c, t) (''cmd='' @ v) = (h, trim v, t)"
  "id_part (h, c, t) (''task='' @ v) = (h, c, trim v)"
proof -
  have k: "trim ''host'' = ''host''" "trim ''cmd'' = ''cmd''" "trim ''task'' = ''task''" by code_simp+
  show "id_part (h, c, t) (''host='' @ v) = (trim v, c, t)" "id_part (h, c, t) (''cmd='' @ v) = (h, trim v, t)"
    "id_part (h, c, t) (''task='' @ v) = (h, c, trim v)"
    using split_once_append [of "''host''" is_eq "CHR ''=''" v] split_once_append [of "''cmd''" is_eq "CHR ''=''" v]
      split_once_append [of "''task''" is_eq "CHR ''=''" v] by (simp_all add: id_part_def is_eq_def k)
qed

lemma printed_id_parts:
  assumes "\<forall>c \<in> set (tid_host t) \<union> set (tid_cmd t) \<union> set (tid_task t). \<not> is_comma c"
  shows "parse_task_id_parts (format_string t) = (trim (tid_host t), trim (tid_cmd t), trim (tid_task t))"
proof -
  have k: "\<forall>c \<in> set (''host='' @ tid_host t). \<not> is_comma c" "\<forall>c \<in> set (''cmd='' @ tid_cmd t). \<not> is_comma c"
    "\<forall>c \<in> set (''task='' @ tid_task t). \<not> is_comma c"
    using assms by (simp_all add: is_comma_def ball_Un)
  have comma: "is_comma CHR '',''" by (simp add: is_comma_def)
  have f: "format_string t = (''host='' @ tid_host t) @ CHR '','' # (''cmd='' @ tid_cmd t) @ CHR '','' # (''task='' @ tid_task t)"
    by (simp add: format_string_def)
  show ?thesis
    unfolding f split_on_append_sep [OF k(1) comma] split_on_append_sep [OF k(2) comma] split_on_no_sep [OF k(3)] parse_task_id_parts_def
      foldl_Cons foldl_Nil id_part_key ..
qed

lemma contains_append: "contains_sub q s \<Longrightarrow> contains_sub q (p @ s)"
  by (induction p) (auto simp: starts_with_def)

lemma contains_prefix: "contains_sub q (q @ s)"
  using starts_with_append [of q s] by (cases "q @ s") auto

text \<open>The roles that can be asked for their status, with the name they are observed under.\<close>

fun role_name :: "server_type \<Rightarrow> string" where
  "role_name TxServer = ''tx''" | "role_name StandbyServer = ''standby''" | "role_name VoterServer = ''voter''"
| "role_name NodeServer = ''node''"

lemma trim_start_once:
  "p \<noteq> [] \<Longrightarrow> s = [] \<or> hd s \<noteq> hd p \<Longrightarrow> trim_start_matches p (p @ s) = s"
  by (subst trim_start_matches.simps, simp add: starts_with_append)
    (subst trim_start_matches.simps, cases s; cases p; simp add: starts_with_def)

lemma status_task_service:
  assumes "st \<noteq> NodeServer"
  shows "service_and_port_from_task ''status'' (server_type_str st @ ''-status-'' @ show_u16 q) = Some (role_name st, show_u16 q)"
proof -
  have d: "show_u16 q = [] \<or> hd (show_u16 q) \<noteq> c" if "\<not> is_digit c" for c
    using that show_nat_digits [of "hd (show_u16 q)" "unat q"] by (cases "show_u16 q") (auto simp: show_u16_def)
  have h: "trim_start_matches (server_type_str st @ ''-status-'') ((server_type_str st @ ''-status-'') @ show_u16 q) = show_u16 q"
    by (rule trim_start_once) (cases st; simp add: d is_digit_def)+
  show ?thesis using assms h
    by (cases st) (simp_all add: service_and_port_from_task_def starts_with_def)
qed

lemma status_words:
  "trim (one_line ([CHR 0x0A] @ ''eloqkv service is down.'')) = ''eloqkv service is down.''"
  "classify 0 ''eloqkv service is down.'' = Down"
  by code_simp+

lemma running_detail:
  "trim (one_line ([CHR 0x0A] @ ''eloqkv service is running, pid: '' @ s @ ''.'')) = ''eloqkv service is running, pid: '' @ one_line s @ ''.''"
  (is "trim ?a = ?b")
proof -
  have o: "?a = CHR '' '' # ?b" by (simp add: one_line_def replace_char_def)
  have "trim ?b = ?b" by (rule trim_outer) (simp_all add: is_ws_def)
  then show ?thesis unfolding o by (simp add: trim_def trim_start_def is_ws_def)
qed

lemma running_class: "classify 0 (''eloqkv service is running, pid: '' @ s) = Up"
proof -
  have "to_lower (''eloqkv service is running, pid: '' @ s) = ''eloqkv service is '' @ ''running'' @ '', pid: '' @ to_lower s"
    by (simp add: to_lower_def ascii_lower_def)
  then show ?thesis by (simp only: classify_def Let_def contains_append contains_prefix simp_thms if_True if_False)
qed

text \<open>The state of a node that is reported: a status task that found the process of a node makes its
  service UP, one that found none makes it DOWN, under the role, host and port of the task.\<close>

theorem status_reflects_process:
  assumes "st \<noteq> NodeServer" and "host \<noteq> []" and "trim host = host" and "\<forall>c \<in> set host. \<not> is_comma c"
    and "v process_pid_key = Some pid"
  shows "\<exists>detail. observed_service_from_task_result
      \<lparr>rp_task_id = format_string (tx_task_id ''status'' st host (show_u16 q)), rp_result = Success (Some (status_value check (Inr v)))\<rparr> =
    Inr (Some \<lparr>os_host = host, os_service = role_name st, os_port = show_u16 q,
      os_status = (if pid = StrValue pid_not_found then Down else Up), os_detail = detail\<rparr>)"
proof -
  let ?t = "tx_task_id ''status'' st host (show_u16 q)" and ?ev = "status_value check (Inr v)"
  have nc: "\<forall>c \<in> set (server_type_str st @ ''-status-'' @ show_u16 q). \<not> is_comma c"
    by (cases st) (auto simp: is_comma_def dest: show_u16_no_sep(1) [unfolded is_comma_def])
  have "trim (server_type_str st @ ''-status-'' @ show_u16 q) = server_type_str st @ ''-status-'' @ show_u16 q"
    by (rule trim_id) (cases st; auto simp: is_ws_def dest: show_u16_no_sep(5) [unfolded is_ws_def])
  moreover have "trim ''status'' = ''status''" by code_simp
  moreover have "\<forall>c \<in> set ''status''. \<not> is_comma c" by code_simp
  ultimately have p: "parse_task_id_parts (format_string ?t) = (host, ''status'', server_type_str st @ ''-status-'' @ show_u16 q)"
    using nc assms(3,4) by (subst printed_id_parts) (auto simp: tx_task_id_def)
  have k: "cmd_status_key \<noteq> cmd_output_key" "process_pid_key \<noteq> cmd_status_key"
    by (simp_all add: cmd_status_key_def cmd_output_key_def process_pid_key_def)
  have s: "status_code ?ev = Inr 0" using k assms(5) by (simp add: status_code_def status_value_def Let_def)
  have out: "output_text ?ev = Inr (if pid = StrValue pid_not_found then [CHR 0x0A] @ ''eloqkv service is down.''
      else [CHR 0x0A] @ ''eloqkv service is running, pid: '' @ show_task_arg pid @ ''.'')"
    using k assms(5) by (simp add: output_text_def status_value_def Let_def)
  let ?d = "trim (one_line (if pid = StrValue pid_not_found then [CHR 0x0A] @ ''eloqkv service is down.''
      else [CHR 0x0A] @ ''eloqkv service is running, pid: '' @ show_task_arg pid @ ''.''))"
  have "classify 0 ?d = (if pid = StrValue pid_not_found then Down else Up)"
    by (cases "pid = StrValue pid_not_found") (simp_all only: simp_thms if_True if_False status_words running_detail running_class)
  then have "observed_service_from_task_result \<lparr>rp_task_id = format_string ?t, rp_result = Success (Some ?ev)\<rparr> =
    Inr (Some \<lparr>os_host = host, os_service = role_name st, os_port = show_u16 q,
      os_status = (if pid = StrValue pid_not_found then Down else Up), os_detail = ?d\<rparr>)"
    using assms(2) unfolding observed_service_from_task_result_def
    by (simp only: task_result_pair.simps p prod.case if_False status_task_service [OF assms(1)] option.case task_result.case s out bindE_simps Let_def)
  then show ?thesis by blast
qed

theorem status_reflects_process_witness:
  "\<exists>detail. observed_service_from_task_result
      \<lparr>rp_task_id = format_string (tx_task_id ''status'' TxServer ''h1'' (show_u16 6379)),
       rp_result = Success (Some (status_value ''ps'' (Inr [process_pid_key \<mapsto> StrValue ''77''])))\<rparr> =
    Inr (Some \<lparr>os_host = ''h1'', os_service = ''tx'', os_port = show_u16 6379, os_status = Up, os_detail = detail\<rparr>)"
proof -
  have h: "trim ''h1'' = ''h1''" "\<forall>c \<in> set ''h1''. \<not> is_comma c" by code_simp+
  from status_reflects_process [OF _ _ h, of TxServer "[process_pid_key \<mapsto> StrValue ''77'']" "StrValue ''77''" 6379 "''ps''"]
  show ?thesis by (simp add: pid_not_found_def)
qed

section \<open>The quoted password\<close>

text \<open>
  A shell reading one word: outside quotes, in single quotes where every character stands for itself,
  and in double quotes. None is an open quote or a character that the shell would interpret.
\<close>

datatype quoting = Bare | Single | Double

fun read_shell :: "quoting \<Rightarrow> string \<Rightarrow> string option" where
  "read_shell q [] = (if q = Bare then Some [] else None)"
| "read_shell Bare (c # cs) =
     (if c = CHR 0x27 then read_shell Single cs else if c = CHR 0x22 then read_shell Double cs
      else if is_ascii_alnum c then map_option (\<lambda>w. c # w) (read_shell Bare cs) else None)"
| "read_shell Single (c # cs) = (if c = CHR 0x27 then read_shell Bare cs else map_option (\<lambda>w. c # w) (read_shell Single cs))"
| "read_shell Double (c # cs) =
     (if c = CHR 0x22 then read_shell Bare cs
      else if c \<in> {CHR 0x5C, CHR ''$'', CHR 0x60} then None else map_option (\<lambda>w. c # w) (read_shell Double cs))"

text \<open>The password in the printed redis-cli command: a shell reads the quoted word as exactly the
  password, whatever characters it has.\<close>

theorem quoted_password_reads_back: "read_shell Bare (shell_single_quote v) = Some v"
proof -
  have "read_shell Single (replace_char (CHR 0x27) [CHR 0x27, CHR 0x22, CHR 0x27, CHR 0x22, CHR 0x27] v @ [CHR 0x27]) = Some v"
    by (induction v) (auto simp: replace_char_def)
  then show ?thesis by (simp add: shell_single_quote_def)
qed

end
