(* ===== verification/Reconcile_Plan.thy ===== *)
theory Reconcile_Plan
  imports Observed_State "HOL-Library.Char_ord" "HOL-Library.List_Lexorder"
begin

text \<open>
  The plan of \<open>eloqctl apply\<close> (\<open>cli/reconcile.rs\<close>, \<open>cli/cmd_base.rs\<close>): the difference of the saved and the
  wanted configuration as a list of paths, what of it is taken over, and the actions that follow.

  The conversion of a configuration to a YAML value is derived code of serde and is an argument.
\<close>

section \<open>Differences of YAML values\<close>

datatype yaml = YNull | YBool bool | YNumber string | YString string | YSeq "yaml list"
  | YMap "(yaml \<times> yaml) list" | YTagged string yaml

text \<open>
  Equality of values: mappings are equal when they have the same entries, in any order. Keys are
  compared as they are.
\<close>

lemma element_size [termination_simp]: "x \<in> set xs \<Longrightarrow> size x < Suc (size_list size xs)"
  by (induction xs) auto

lemma entry_size [termination_simp]: "(k, v) \<in> set m \<Longrightarrow> size (v :: yaml) < Suc (size_list (size_prod size size) m)"
  by (induction m) auto

lemma lookup_size [termination_simp]: "map_of m k = Some v \<Longrightarrow> size (v :: yaml) < Suc (size_list (size_prod size size) m)"
  by (drule map_of_SomeD) (rule entry_size)

lemmas yaml_sizes = element_size entry_size lookup_size

function yaml_eq :: "yaml \<Rightarrow> yaml \<Rightarrow> bool" where
  "yaml_eq (YSeq xs) b = (case b of
     YSeq ys \<Rightarrow> length xs = length ys \<and> list_all (\<lambda>(x, y). yaml_eq x y) (zip xs ys) | _ \<Rightarrow> False)"
| "yaml_eq (YMap m) b = (case b of
     YMap n \<Rightarrow> length m = length n \<and>
       list_all (\<lambda>(k, v). case map_of n k of None \<Rightarrow> False | Some w \<Rightarrow> yaml_eq v w) m
   | _ \<Rightarrow> False)"
| "yaml_eq (YTagged t x) b = (case b of YTagged u y \<Rightarrow> t = u \<and> yaml_eq x y | _ \<Rightarrow> False)"
| "yaml_eq YNull b = (b = YNull)"
| "yaml_eq (YBool x) b = (b = YBool x)"
| "yaml_eq (YNumber x) b = (b = YNumber x)"
| "yaml_eq (YString x) b = (b = YString x)"
  by pat_completeness auto
termination
  by (relation "measure (size \<circ> fst)")
    (auto simp: yaml_sizes dest: set_zip_leftD intro: le_imp_less_Suc)

definition yaml_opt_eq :: "yaml option \<Rightarrow> yaml option \<Rightarrow> bool" where
  "yaml_opt_eq a b = (case (a, b) of (None, None) \<Rightarrow> True | (Some x, Some y) \<Rightarrow> yaml_eq x y | _ \<Rightarrow> False)"

text \<open>The keys of a \<open>BTreeSet\<close>: the string keys of both mappings, sorted.\<close>

definition string_keys :: "(yaml \<times> yaml) list \<Rightarrow> string list" where
  "string_keys m = List.map_filter (\<lambda>(k, v). case k of YString s \<Rightarrow> Some s | _ \<Rightarrow> None) m"

definition all_keys :: "(yaml \<times> yaml) list \<Rightarrow> (yaml \<times> yaml) list \<Rightarrow> string list" where
  "all_keys m n = sort (remdups (string_keys m @ string_keys n))"

definition next_path :: "string \<Rightarrow> string \<Rightarrow> string" where
  "next_path path key = (if path = [] then key else path @ ''.'' @ key)"

definition opt_size :: "yaml option \<Rightarrow> nat" where
  "opt_size a = (case a of None \<Rightarrow> 0 | Some x \<Rightarrow> size x)"

lemma opt_size_lookup: "opt_size (map_of m k) < opt_size (Some (YMap m))"
  using lookup_size [of m k] by (auto simp: opt_size_def split: option.split)

function (sequential) push_yaml_diff :: "string \<Rightarrow> yaml option \<Rightarrow> yaml option \<Rightarrow> string list" where
  "push_yaml_diff path (Some (YMap m)) (Some (YMap n)) =
     concat (map (\<lambda>key. push_yaml_diff (next_path path key) (map_of m (YString key)) (map_of n (YString key))) (all_keys m n))"
| "push_yaml_diff path a b = (if yaml_opt_eq a b then [] else [path])"
  by pat_completeness auto
termination
  by (relation "measure (\<lambda>(path, a, b). opt_size a + opt_size b)") (simp_all only: in_measure prod.case wf_measure add_strict_mono opt_size_lookup)

section \<open>The plan\<close>

datatype reconcile_action = SaveClusterIndex | RegenerateEloqKvNodeConfig | RestartTxWithUpdatedConfig | RestartMonitor
  | VerifyClusterStatus

fun action_description :: "reconcile_action \<Rightarrow> string" where
  "action_description SaveClusterIndex = ''update local cluster index metadata''"
| "action_description RegenerateEloqKvNodeConfig = ''regenerate EloqKV node config files''"
| "action_description RestartTxWithUpdatedConfig = ''restart tx nodes with updated config''"
| "action_description RestartMonitor = ''restart monitor services''"
| "action_description VerifyClusterStatus = ''verify live cluster status''"

record reconcile_plan =
  pl_cluster :: string
  pl_merged :: deploy_config
  pl_observed :: "observed_cluster option"
  pl_changes :: "string list"
  pl_unsupported :: "string list"
  pl_tx_updates :: "string list"
  pl_actions :: "reconcile_action list"

definition new_plan :: "string \<Rightarrow> deploy_config \<Rightarrow> reconcile_plan" where
  "new_plan cluster merged = \<lparr>pl_cluster = cluster, pl_merged = merged, pl_observed = None, pl_changes = [],
     pl_unsupported = [], pl_tx_updates = [], pl_actions = []\<rparr>"

definition plan_is_empty :: "reconcile_plan \<Rightarrow> bool" where
  "plan_is_empty p \<longleftrightarrow> pl_changes p = [] \<and> pl_tx_updates p = [] \<and> pl_actions p = []"

definition add_action :: "reconcile_action \<Rightarrow> reconcile_plan \<Rightarrow> reconcile_plan" where
  "add_action a p = (if a \<in> set (pl_actions p) then p else p\<lparr>pl_actions := pl_actions p @ [a]\<rparr>)"

definition add_action_if :: "bool \<Rightarrow> reconcile_action \<Rightarrow> reconcile_plan \<Rightarrow> reconcile_plan" where
  "add_action_if c a p = (if c then add_action a p else p)"

definition plan_section :: "string \<Rightarrow> string list \<Rightarrow> string list" where
  "plan_section title xs = (if xs = [] then [] else title # map (\<lambda>x. ''  - '' @ x) xs)"

definition plan_lines :: "reconcile_plan \<Rightarrow> string list" where
  "plan_lines p = (case pl_observed p of Some oc \<Rightarrow> observed_lines oc | None \<Rightarrow> []) @
     (if plan_is_empty p then [''No supported configuration changes detected.'']
      else (''Plan for cluster '' @ [CHR 0x27] @ pl_cluster p @ [CHR 0x27] @ '':'') #
        plan_section ''Supported changes:'' (pl_changes p) @ plan_section ''Tx config updates:'' (pl_tx_updates p) @
        plan_section ''Actions:'' (map action_description (pl_actions p)) @
        plan_section ''Unsupported changes ignored by current reconcile engine:'' (pl_unsupported p))"

text \<open>\<open>Debug\<close> of strings, lists and options. A byte above 127 is printed as it is.\<close>

definition debug_char :: "char \<Rightarrow> string" where
  "debug_char c = (let n = (of_char c :: nat) in
     if c = CHR 0x22 then [CHR 0x5C, CHR 0x22] else if c = CHR 0x5C then [CHR 0x5C, CHR 0x5C]
     else if n = 9 then [CHR 0x5C, CHR ''t''] else if n = 13 then [CHR 0x5C, CHR ''r'']
     else if n = 10 then [CHR 0x5C, CHR ''n''] else if n = 0 then [CHR 0x5C, CHR ''0'']
     else if n < 32 \<or> n = 127 then
       [CHR 0x5C] @ ''u{'' @ (if n < 16 then [] else [if n = 127 then CHR ''7'' else CHR ''1'']) @ [''0123456789abcdef'' ! (n mod 16)] @ ''}''
     else [c])"

definition debug_str :: "string \<Rightarrow> string" where
  "debug_str s = [CHR 0x22] @ concat (map debug_char s) @ [CHR 0x22]"

definition debug_list :: "string list \<Rightarrow> string" where
  "debug_list xs = ''['' @ join '', '' (map debug_str xs) @ '']''"

definition debug_opt :: "('a \<Rightarrow> string) \<Rightarrow> 'a option \<Rightarrow> string" where
  "debug_opt f v = (case v of None \<Rightarrow> ''None'' | Some x \<Rightarrow> ''Some('' @ f x @ '')'')"

definition change_text :: "string \<Rightarrow> ('a \<Rightarrow> string) \<Rightarrow> 'a option \<Rightarrow> 'a option \<Rightarrow> string" where
  "change_text label f old new = label @ '': '' @ debug_opt f old @ '' -> '' @ debug_opt f new"

text \<open>The variables of \<open>build_reconcile_plan\<close> while it goes through the fields.\<close>

record plan_acc =
  pa_merged :: deployment
  pa_diff :: deployment
  pa_changes :: "string list"
  pa_updates :: "string list"
  pa_store :: bool
  pa_monitor :: bool

definition plan_tls :: "deployment \<Rightarrow> deployment \<Rightarrow> plan_acc \<Rightarrow> plan_acc" where
  "plan_tls cur des acc =
     (let acc = (if enable_tls des \<noteq> None \<and> enable_tls des \<noteq> enable_tls cur
        then acc\<lparr>pa_merged := (pa_merged acc)\<lparr>enable_tls := enable_tls des\<rparr>, pa_store := True,
          pa_changes := pa_changes acc @ [change_text ''deployment.enable_tls'' show_bool (enable_tls cur) (enable_tls des)]\<rparr>
        else acc)
      in acc\<lparr>pa_diff := (pa_diff acc)\<lparr>enable_tls := enable_tls cur\<rparr>\<rparr>)"

text \<open>\<open>checkpointer_interval\<close> and \<open>cluster_mode\<close>: updated through the configuration fields.\<close>

definition plan_field :: "string \<Rightarrow> ('a \<Rightarrow> string) \<Rightarrow> ('a option \<Rightarrow> deployment \<Rightarrow> deployment) \<Rightarrow> 'a option \<Rightarrow> 'a option \<Rightarrow>
    plan_acc \<Rightarrow> plan_acc" where
  "plan_field name f put cur des acc = (case des of
     Some v \<Rightarrow> if cur \<noteq> Some v
       then acc\<lparr>pa_merged := put (Some v) (pa_merged acc), pa_updates := pa_updates acc @ [name @ '':'' @ f v],
         pa_changes := pa_changes acc @ [change_text (''deployment.'' @ name) f cur (Some v)]\<rparr>
       else acc
   | None \<Rightarrow> acc\<lparr>pa_diff := put cur (pa_diff acc)\<rparr>)"

definition update_prom :: "(prometheus \<Rightarrow> prometheus) \<Rightarrow> deployment \<Rightarrow> deployment" where
  "update_prom f d = d\<lparr>dep_monitor := map_option (mon_prometheus_update (map_option f)) (dep_monitor d)\<rparr>"

definition plan_prom :: "string \<Rightarrow> ('a \<Rightarrow> string) \<Rightarrow> ('a option \<Rightarrow> prometheus \<Rightarrow> prometheus) \<Rightarrow> 'a option \<Rightarrow> 'a option \<Rightarrow>
    plan_acc \<Rightarrow> plan_acc" where
  "plan_prom name f put cur des acc = (case des of
     Some v \<Rightarrow> if cur \<noteq> Some v
       then acc\<lparr>pa_merged := update_prom (put (Some v)) (pa_merged acc), pa_monitor := True,
         pa_changes := pa_changes acc @ [change_text (''deployment.monitor.prometheus.'' @ name) f cur (Some v)]\<rparr>
       else acc
   | None \<Rightarrow> acc\<lparr>pa_diff := update_prom (put cur) (pa_diff acc)\<rparr>)"

definition prom_of :: "deployment \<Rightarrow> prometheus option" where
  "prom_of d = Option.bind (dep_monitor d) mon_prometheus"

definition plan_monitor :: "deployment \<Rightarrow> deployment \<Rightarrow> plan_acc \<Rightarrow> plan_acc" where
  "plan_monitor cur des acc = (case (prom_of cur, prom_of des) of
     (Some c, Some d) \<Rightarrow>
       plan_prom ''remote_write_urls'' debug_list (\<lambda>v. remote_write_urls_update (\<lambda>_. v)) (remote_write_urls c) (remote_write_urls d)
         (plan_prom ''retention_size'' debug_str (\<lambda>v. retention_size_update (\<lambda>_. v)) (retention_size c) (retention_size d)
           (plan_prom ''retention_time'' debug_str (\<lambda>v. retention_time_update (\<lambda>_. v)) (retention_time c) (retention_time d) acc))
   | (c, _) \<Rightarrow> acc\<lparr>pa_diff := update_prom (\<lambda>p. p\<lparr>retention_time := Option.bind c retention_time,
       retention_size := Option.bind c retention_size, remote_write_urls := Option.bind c remote_write_urls\<rparr>) (pa_diff acc)\<rparr>)"

definition normalize_config_for_apply_diff :: "deployment \<Rightarrow> deployment" where
  "normalize_config_for_apply_diff d =
     d\<lparr>dep_version := (if dep_version d = None \<or> dep_version d = Some ''latest'' then Some ''__ignored__'' else dep_version d),
       tx_service := (tx_service d)\<lparr>tx_srv_image := None\<rparr>,
       dep_log_service := map_option (log_srv_image_update (\<lambda>_. None)) (dep_log_service d)\<rparr>"

definition with_deployment :: "deploy_config \<Rightarrow> deployment \<Rightarrow> deploy_config" where
  "with_deployment cfg d = cfg\<lparr>cfg_deployment := d\<rparr>"

definition config_diffs :: "(deploy_config \<Rightarrow> yaml res) \<Rightarrow> deploy_config \<Rightarrow> deploy_config \<Rightarrow> string list res" where
  "config_diffs to_value cur des = bindE (to_value cur) (\<lambda>c. bindE (to_value des) (\<lambda>d.
     Inr (filter (\<lambda>p. p \<noteq> []) (push_yaml_diff [] (Some c) (Some d)))))"

definition store_prefix :: string where "store_prefix = ''deployment.storage_service''"

definition supported_paths :: "string list" where
  "supported_paths = [''deployment.checkpointer_interval'', ''deployment.cluster_mode'',
     ''deployment.monitor.prometheus.retention_time'', ''deployment.monitor.prometheus.retention_size'',
     ''deployment.monitor.prometheus.remote_write_urls'']"

definition plan_fields :: "deployment \<Rightarrow> deployment \<Rightarrow> plan_acc" where
  "plan_fields cur des =
     plan_monitor cur des
       (plan_field ''cluster_mode'' show_bool (\<lambda>v. cluster_mode_update (\<lambda>_. v)) (cluster_mode cur) (cluster_mode des)
         (plan_field ''checkpointer_interval'' show_u32 (\<lambda>v. checkpoint_interval_update (\<lambda>_. v)) (checkpoint_interval cur)
             (checkpoint_interval des)
           (plan_tls cur des \<lparr>pa_merged = cur, pa_diff = des, pa_changes = [], pa_updates = [], pa_store = False, pa_monitor = False\<rparr>)))"

definition plan_of_diffs :: "deploy_config \<Rightarrow> observed_cluster option \<Rightarrow> plan_acc \<Rightarrow> string list \<Rightarrow> reconcile_plan" where
  "plan_of_diffs current observed acc diffs =
     (let store_diffs = filter (starts_with store_prefix) diffs;
          other_diffs = filter (\<lambda>p. \<not> starts_with store_prefix p) diffs;
          store = (pa_store acc \<or> store_diffs \<noteq> []);
          changes = pa_changes acc @ store_diffs;
          p = (new_plan (cluster_name (cfg_deployment current)) (with_deployment current (pa_merged acc)))\<lparr>pl_observed := observed,
            pl_changes := changes, pl_unsupported := uniq (filter (\<lambda>p. p \<notin> set supported_paths) other_diffs),
            pl_tx_updates := pa_updates acc\<rparr>;
          p = add_action_if (changes \<noteq> []) SaveClusterIndex p;
          p = add_action_if store RegenerateEloqKvNodeConfig p;
          p = add_action_if store RestartTxWithUpdatedConfig p;
          p = add_action_if (pa_updates acc \<noteq> []) RestartTxWithUpdatedConfig p;
          p = add_action_if (pa_monitor acc) RestartMonitor p
      in add_action_if (pl_actions p \<noteq> []) VerifyClusterStatus p)"

definition build_reconcile_plan :: "(deploy_config \<Rightarrow> yaml res) \<Rightarrow> deploy_config \<Rightarrow> deploy_config \<Rightarrow> observed_cluster option \<Rightarrow>
    reconcile_plan res" where
  "build_reconcile_plan to_value current desired observed =
     (let cur = cfg_deployment current; des = cfg_deployment desired in
      if cluster_name cur \<noteq> cluster_name des
      then Inl (Err (''cluster_name mismatch: state has '' @ [CHR 0x27] @ cluster_name cur @ [CHR 0x27] @ '' but YAML has '' @
        [CHR 0x27] @ cluster_name des @ [CHR 0x27]))
      else let acc = plan_fields cur des in
      bindE (config_diffs to_value (with_deployment current (normalize_config_for_apply_diff cur))
          (with_deployment desired (normalize_config_for_apply_diff (pa_diff acc)))) (\<lambda>diffs.
      Inr (plan_of_diffs current observed acc diffs)))"

end
