(* ===== verification/Reconcile_Props.thy ===== *)
theory Reconcile_Props
  imports Reconcile_Plan
begin

text \<open>
  What the plan of \<open>apply\<close> promises: the list of differences is empty exactly for equal values, a plan
  that was carried out leaves nothing of its kind to do, and what is said of the storage service.
\<close>

section \<open>The list of differences\<close>

text \<open>Values as they come from serde structs: the keys of a mapping are strings, each once.\<close>

fun string_keyed :: "yaml \<Rightarrow> bool" where
  "string_keyed (YMap m) \<longleftrightarrow> distinct (map fst m) \<and> list_all (\<lambda>(k, v). (\<exists>s. k = YString s) \<and> string_keyed v) m"
| "string_keyed _ \<longleftrightarrow> True"

definition string_keyed_opt :: "yaml option \<Rightarrow> bool" where
  "string_keyed_opt a \<longleftrightarrow> (case a of None \<Rightarrow> True | Some x \<Rightarrow> string_keyed x)"

lemma keyed_lookup: "string_keyed (YMap m) \<Longrightarrow> string_keyed_opt (map_of m k)"
  by (auto simp: string_keyed_opt_def list_all_iff split: option.split dest!: map_of_SomeD)

lemma set_string_keys: "set (string_keys m) = {s. YString s \<in> fst ` set m}"
  by (induction m) (auto simp: string_keys_def map_filter_simps split: yaml.splits option.splits)

lemma set_all_keys: "set (all_keys m n) = {s. YString s \<in> fst ` set m \<union> fst ` set n}"
  by (auto simp: all_keys_def set_string_keys)

lemma same_entries:
  assumes "string_keyed (YMap m)" "string_keyed (YMap n)"
  shows "(\<forall>s \<in> set (all_keys m n). yaml_opt_eq (map_of m (YString s)) (map_of n (YString s))) \<longleftrightarrow> yaml_eq (YMap m) (YMap n)"
proof
  have d: "distinct (map fst m)" "distinct (map fst n)" using assms by simp_all
  have str: "k \<in> fst ` set x \<Longrightarrow> \<exists>s. k = YString s" if "x = m \<or> x = n" for k x
    using assms that by (auto simp: list_all_iff)
  {
    assume all: "\<forall>s \<in> set (all_keys m n). yaml_opt_eq (map_of m (YString s)) (map_of n (YString s))"
    have look: "yaml_opt_eq (map_of m k) (map_of n k)" if k: "k \<in> fst ` set m \<union> fst ` set n" for k
    proof -
      obtain s where s: "k = YString s" using str k by (metis UnE)
      with k have "s \<in> set (all_keys m n)" by (simp add: set_all_keys)
      with all s show ?thesis by blast
    qed
    have "fst ` set m = fst ` set n"
    proof (rule set_eqI)
      fix k
      show "k \<in> fst ` set m \<longleftrightarrow> k \<in> fst ` set n"
      proof (cases "k \<in> fst ` set m \<union> fst ` set n")
        case True
        from look [OF this] have "map_of m k = None \<longleftrightarrow> map_of n k = None"
          by (auto simp: yaml_opt_eq_def split: option.splits)
        then show ?thesis by (simp add: map_of_eq_None_iff)
      qed simp
    qed
    then have "length m = length n" using d by (metis distinct_card length_map set_map)
    moreover have "case map_of n k of None \<Rightarrow> False | Some w \<Rightarrow> yaml_eq v w" if "(k, v) \<in> set m" for k v
    proof -
      have "map_of m k = Some v" using that d(1) by simp
      with look [of k] that show ?thesis by (force simp: yaml_opt_eq_def split: option.splits)
    qed
    ultimately show "yaml_eq (YMap m) (YMap n)" by (auto simp: list_all_iff)
  }
  assume eq: "yaml_eq (YMap m) (YMap n)"
  then have len: "length m = length n" and ent: "\<And>k v. (k, v) \<in> set m \<Longrightarrow> \<exists>w. map_of n k = Some w \<and> yaml_eq v w"
    by (auto simp: list_all_iff split: option.splits)
  have sub: "fst ` set m \<subseteq> fst ` set n" 
  proof
    fix k assume "k \<in> fst ` set m"
    then obtain v where "(k, v) \<in> set m" by auto
    with ent have "map_of n k \<noteq> None" by fastforce
    then show "k \<in> fst ` set n" by (simp add: map_of_eq_None_iff)
  qed
  have "card (fst ` set m) = card (fst ` set n)" using d len by (metis distinct_card length_map set_map)
  with sub have keys: "fst ` set m = fst ` set n" by (simp add: card_subset_eq)
  show "\<forall>s \<in> set (all_keys m n). yaml_opt_eq (map_of m (YString s)) (map_of n (YString s))"
  proof
    fix s assume "s \<in> set (all_keys m n)"
    then have "YString s \<in> fst ` set m" by (simp add: set_all_keys keys)
    then obtain v where "(YString s, v) \<in> set m" by auto
    with d(1) ent show "yaml_opt_eq (map_of m (YString s)) (map_of n (YString s))"
      by (fastforce simp: yaml_opt_eq_def)
  qed
qed

lemma diff_iff: "string_keyed_opt a \<Longrightarrow> string_keyed_opt b \<Longrightarrow> push_yaml_diff path a b = [] \<longleftrightarrow> yaml_opt_eq a b"
proof (induction path a b rule: push_yaml_diff.induct)
  case (1 path m n)
  then have k: "string_keyed (YMap m)" "string_keyed (YMap n)" by (simp_all add: string_keyed_opt_def)
  have "push_yaml_diff path (Some (YMap m)) (Some (YMap n)) = [] \<longleftrightarrow>
      (\<forall>s \<in> set (all_keys m n). yaml_opt_eq (map_of m (YString s)) (map_of n (YString s)))"
    using 1(1) keyed_lookup [OF k(1)] keyed_lookup [OF k(2)] by simp
  also have "\<dots> \<longleftrightarrow> yaml_opt_eq (Some (YMap m)) (Some (YMap n))"
    using same_entries [OF k] by (simp only: yaml_opt_eq_def prod.case option.case)
  finally show ?case .
qed simp_all

text \<open>C35. The difference of two configurations is empty exactly when they are equal as YAML values, where
  the order of the entries of a mapping does not matter.\<close>

theorem diff_empty_iff_equal:
  assumes "string_keyed a" and "string_keyed b"
  shows "push_yaml_diff [] (Some a) (Some b) = [] \<longleftrightarrow> yaml_eq a b"
  using diff_iff [of "Some a" "Some b" "[]"] assms by (simp add: string_keyed_opt_def yaml_opt_eq_def)

theorem diff_empty_iff_equal_witness:
  "push_yaml_diff [] (Some (YMap [(YString ''a'', YNull), (YString ''b'', YSeq [YMap [(YString ''c'', YNull)]])]))
      (Some (YMap [(YString ''b'', YSeq [YMap [(YString ''c'', YNull)]]), (YString ''a'', YNull)])) = [] \<and>
   push_yaml_diff [] (Some (YMap [(YString ''a'', YNull)])) (Some (YMap [])) \<noteq> []"
  using diff_empty_iff_equal [of "YMap [(YString ''a'', YNull), (YString ''b'', YSeq [YMap [(YString ''c'', YNull)]])]"
      "YMap [(YString ''b'', YSeq [YMap [(YString ''c'', YNull)]]), (YString ''a'', YNull)]"]
    diff_empty_iff_equal [of "YMap [(YString ''a'', YNull)]" "YMap []"] by simp

section \<open>The fields a plan takes over\<close>

text \<open>What is left of a wanted value when it is laid over the current one.\<close>

definition over :: "'a option \<Rightarrow> 'a option \<Rightarrow> 'a option" where
  "over des cur = (case des of None \<Rightarrow> cur | Some v \<Rightarrow> Some v)"

lemma over_simps [simp]: "over None cur = cur" "over (Some v) cur = Some v" by (simp_all add: over_def)

lemma plan_tls_merged: "pa_merged (plan_tls cur des acc) = (if enable_tls des \<noteq> None \<and> enable_tls des \<noteq> enable_tls cur
    then (pa_merged acc)\<lparr>enable_tls := enable_tls des\<rparr> else pa_merged acc)"
  by (simp add: plan_tls_def Let_def)

lemma plan_field_merged: "pa_merged (plan_field name f put cur des acc) =
    (if des \<noteq> None \<and> cur \<noteq> des then put des (pa_merged acc) else pa_merged acc)"
  by (auto simp: plan_field_def split: option.split)

lemma plan_prom_merged: "pa_merged (plan_prom name f put cur des acc) =
    (if des \<noteq> None \<and> cur \<noteq> des then update_prom (put des) (pa_merged acc) else pa_merged acc)"
  by (auto simp: plan_prom_def split: option.split)

lemmas merged_steps = plan_tls_merged plan_field_merged plan_prom_merged

lemma update_prom_keeps [simp]:
  "enable_tls (update_prom f d) = enable_tls d" "checkpoint_interval (update_prom f d) = checkpoint_interval d"
  "cluster_mode (update_prom f d) = cluster_mode d" "dep_storage_service (update_prom f d) = dep_storage_service d"
  "cluster_name (update_prom f d) = cluster_name d" "prom_of (update_prom f d) = map_option f (prom_of d)"
  by (auto simp: update_prom_def prom_of_def split: option.split) (cases "dep_monitor d"; simp)

lemma prom_step_keeps [simp]:
  "enable_tls (pa_merged (plan_prom n f put x y acc)) = enable_tls (pa_merged acc)"
  "checkpoint_interval (pa_merged (plan_prom n f put x y acc)) = checkpoint_interval (pa_merged acc)"
  "cluster_mode (pa_merged (plan_prom n f put x y acc)) = cluster_mode (pa_merged acc)"
  "dep_storage_service (pa_merged (plan_prom n f put x y acc)) = dep_storage_service (pa_merged acc)"
  "cluster_name (pa_merged (plan_prom n f put x y acc)) = cluster_name (pa_merged acc)"
  "prom_of (pa_merged (plan_prom n f put x y acc)) =
     map_option (if y \<noteq> None \<and> x \<noteq> y then put y else id) (prom_of (pa_merged acc))"
  by (simp_all add: plan_prom_merged option.map_id)

lemma monitor_keeps [simp]:
  "enable_tls (pa_merged (plan_monitor cur des acc)) = enable_tls (pa_merged acc)"
  "checkpoint_interval (pa_merged (plan_monitor cur des acc)) = checkpoint_interval (pa_merged acc)"
  "cluster_mode (pa_merged (plan_monitor cur des acc)) = cluster_mode (pa_merged acc)"
  "dep_storage_service (pa_merged (plan_monitor cur des acc)) = dep_storage_service (pa_merged acc)"
  "cluster_name (pa_merged (plan_monitor cur des acc)) = cluster_name (pa_merged acc)"
  by (simp_all add: plan_monitor_def split: option.split)

text \<open>The accumulator before the monitor fields.\<close>

definition head_fields :: "deployment \<Rightarrow> deployment \<Rightarrow> plan_acc" where
  "head_fields cur des =
     plan_field ''cluster_mode'' show_bool (\<lambda>v. cluster_mode_update (\<lambda>_. v)) (cluster_mode cur) (cluster_mode des)
       (plan_field ''checkpointer_interval'' show_u32 (\<lambda>v. checkpoint_interval_update (\<lambda>_. v)) (checkpoint_interval cur)
           (checkpoint_interval des)
         (plan_tls cur des \<lparr>pa_merged = cur, pa_diff = des, pa_changes = [], pa_updates = [], pa_store = False, pa_monitor = False\<rparr>))"

lemma plan_fields_head: "plan_fields cur des = plan_monitor cur des (head_fields cur des)"
  by (simp only: plan_fields_def head_fields_def)

lemma head_merged:
  "enable_tls (pa_merged (head_fields cur des)) = over (enable_tls des) (enable_tls cur)"
  "checkpoint_interval (pa_merged (head_fields cur des)) = over (checkpoint_interval des) (checkpoint_interval cur)"
  "cluster_mode (pa_merged (head_fields cur des)) = over (cluster_mode des) (cluster_mode cur)"
  "dep_storage_service (pa_merged (head_fields cur des)) = dep_storage_service cur"
  "cluster_name (pa_merged (head_fields cur des)) = cluster_name cur" "prom_of (pa_merged (head_fields cur des)) = prom_of cur"
  by (auto simp: head_fields_def plan_field_merged plan_tls_merged over_def prom_of_def split: option.splits)

lemma merged_fields:
  "enable_tls (pa_merged (plan_fields cur des)) = over (enable_tls des) (enable_tls cur)"
  "checkpoint_interval (pa_merged (plan_fields cur des)) = over (checkpoint_interval des) (checkpoint_interval cur)"
  "cluster_mode (pa_merged (plan_fields cur des)) = over (cluster_mode des) (cluster_mode cur)"
  "dep_storage_service (pa_merged (plan_fields cur des)) = dep_storage_service cur"
  "cluster_name (pa_merged (plan_fields cur des)) = cluster_name cur"
  by (simp_all add: plan_fields_head head_merged)

lemma merged_prom:
  "prom_of cur = Some c \<Longrightarrow> prom_of des = Some d \<Longrightarrow> \<exists>p. prom_of (pa_merged (plan_fields cur des)) = Some p \<and>
     retention_time p = over (retention_time d) (retention_time c) \<and> retention_size p = over (retention_size d) (retention_size c) \<and>
     remote_write_urls p = over (remote_write_urls d) (remote_write_urls c)"
  "prom_of cur = None \<Longrightarrow> prom_of (pa_merged (plan_fields cur des)) = None"
  by (auto simp: plan_fields_head plan_monitor_def head_merged over_def split: option.split)

text \<open>Steps that leave no trace in the changes.\<close>

definition traces :: "plan_acc \<Rightarrow> string list \<times> string list \<times> bool \<times> bool" where
  "traces acc = (pa_changes acc, pa_updates acc, pa_store acc, pa_monitor acc)"

lemma quiet_steps:
  "enable_tls cur = over (enable_tls des) x \<Longrightarrow> traces (plan_tls cur des acc) = traces acc"
  "a = over b y \<Longrightarrow> traces (plan_field n f put a b acc) = traces acc"
  "p = over q z \<Longrightarrow> traces (plan_prom n' f' put' p q acc) = traces acc"
  by (auto simp: plan_tls_def plan_field_def plan_prom_def traces_def over_def Let_def split: option.splits)

lemma settled: "traces (plan_fields (pa_merged (plan_fields cur des)) des) = ([], [], False, False)"
proof -
  let ?m = "pa_merged (plan_fields cur des)"
  have h: "traces (head_fields ?m des) = ([], [], False, False)"
    unfolding head_fields_def quiet_steps(2) [OF merged_fields(3)] quiet_steps(2) [OF merged_fields(2)] quiet_steps(1) [OF merged_fields(1)]
    by (simp add: traces_def)
  show ?thesis
  proof (cases "prom_of cur")
    case None
    then have "prom_of ?m = None" by (rule merged_prom(2))
    then show ?thesis using h by (simp add: plan_fields_head plan_monitor_def traces_def)
  next
    case (Some c)
    show ?thesis
    proof (cases "prom_of des")
      case None
      then show ?thesis using h unfolding plan_fields_head [of ?m] by (simp add: plan_monitor_def traces_def split: option.split)
    next
      case (Some d)
      from merged_prom(1) [OF \<open>prom_of cur = Some c\<close> this] obtain p where p: "prom_of ?m = Some p"
        "retention_time p = over (retention_time d) (retention_time c)" "retention_size p = over (retention_size d) (retention_size c)"
        "remote_write_urls p = over (remote_write_urls d) (remote_write_urls c)" by blast
      show ?thesis
        unfolding plan_fields_head [of ?m] plan_monitor_def p(1) Some prod.case option.case
          quiet_steps(3) [OF p(2)] quiet_steps(3) [OF p(3)] quiet_steps(3) [OF p(4)] by (rule h)
    qed
  qed
qed

section \<open>The plan as a whole\<close>

lemma add_action_simps [simp]:
  "set (pl_actions (add_action_if c a p)) = (if c then insert a (set (pl_actions p)) else set (pl_actions p))"
  "pl_merged (add_action_if c a p) = pl_merged p" "pl_changes (add_action_if c a p) = pl_changes p"
  "pl_tx_updates (add_action_if c a p) = pl_tx_updates p" "pl_unsupported (add_action_if c a p) = pl_unsupported p"
  by (auto simp: add_action_if_def add_action_def)

lemma plan_of_diffs_parts:
  "pl_merged (plan_of_diffs current observed acc diffs) = with_deployment current (pa_merged acc)"
  "pl_changes (plan_of_diffs current observed acc diffs) = pa_changes acc @ filter (starts_with store_prefix) diffs"
  "pl_tx_updates (plan_of_diffs current observed acc diffs) = pa_updates acc"
  "set (pl_actions (plan_of_diffs current observed acc diffs)) =
     (if pa_changes acc @ filter (starts_with store_prefix) diffs \<noteq> [] then {SaveClusterIndex} else {}) \<union>
     (if pa_store acc \<or> filter (starts_with store_prefix) diffs \<noteq> [] then {RegenerateEloqKvNodeConfig, RestartTxWithUpdatedConfig} else {}) \<union>
     (if pa_updates acc \<noteq> [] then {RestartTxWithUpdatedConfig} else {}) \<union> (if pa_monitor acc then {RestartMonitor} else {}) \<union>
     (if pa_changes acc @ filter (starts_with store_prefix) diffs \<noteq> [] \<or> pa_store acc \<or> filter (starts_with store_prefix) diffs \<noteq> [] \<or>
        pa_updates acc \<noteq> [] \<or> pa_monitor acc then {VerifyClusterStatus} else {})"
proof -
  have ne: "xs \<noteq> [] \<longleftrightarrow> set xs \<noteq> {}" for xs :: "reconcile_action list" by simp
  show "set (pl_actions (plan_of_diffs current observed acc diffs)) =
     (if pa_changes acc @ filter (starts_with store_prefix) diffs \<noteq> [] then {SaveClusterIndex} else {}) \<union>
     (if pa_store acc \<or> filter (starts_with store_prefix) diffs \<noteq> [] then {RegenerateEloqKvNodeConfig, RestartTxWithUpdatedConfig} else {}) \<union>
     (if pa_updates acc \<noteq> [] then {RestartTxWithUpdatedConfig} else {}) \<union> (if pa_monitor acc then {RestartMonitor} else {}) \<union>
     (if pa_changes acc @ filter (starts_with store_prefix) diffs \<noteq> [] \<or> pa_store acc \<or> filter (starts_with store_prefix) diffs \<noteq> [] \<or>
        pa_updates acc \<noteq> [] \<or> pa_monitor acc then {VerifyClusterStatus} else {})"
    unfolding plan_of_diffs_def Let_def ne add_action_simps
    by (cases "filter (starts_with store_prefix) diffs = []"; cases "pa_changes acc = []"; cases "pa_updates acc = []")
      (auto simp: new_plan_def)
qed (simp_all add: plan_of_diffs_def Let_def new_plan_def)

lemma plan_parts:
  assumes "build_reconcile_plan to_value current desired obs = Inr p"
  obtains diffs where "p = plan_of_diffs current obs (plan_fields (cfg_deployment current) (cfg_deployment desired)) diffs"
  using assms by (auto simp: build_reconcile_plan_def Let_def bindE_Inr_iff split: if_splits)

lemma plan_merged:
  "build_reconcile_plan to_value current desired obs = Inr p \<Longrightarrow>
   cfg_deployment (pl_merged p) = pa_merged (plan_fields (cfg_deployment current) (cfg_deployment desired))"
  by (elim plan_parts) (simp add: plan_of_diffs_parts with_deployment_def)

text \<open>The fields that are taken over are not in the storage service.\<close>

lemma other_labels:
  "\<not> starts_with store_prefix (change_text ''deployment.enable_tls'' f a b)"
  "\<not> starts_with store_prefix (change_text (''deployment.'' @ ''cluster_mode'') f' a' b')"
  "\<not> starts_with store_prefix (change_text (''deployment.'' @ ''checkpointer_interval'') f' a' b')"
  "\<not> starts_with store_prefix (change_text (''deployment.monitor.prometheus.'' @ n) f' a' b')"
  by (simp_all add: change_text_def starts_with_def store_prefix_def)

definition no_store :: "plan_acc \<Rightarrow> bool" where
  "no_store acc \<longleftrightarrow> list_all (\<lambda>c. \<not> starts_with store_prefix c) (pa_changes acc)"

lemma no_store_steps:
  "no_store acc \<Longrightarrow> no_store (plan_tls cur des acc)"
  "no_store acc \<Longrightarrow> n = ''cluster_mode'' \<or> n = ''checkpointer_interval'' \<Longrightarrow> no_store (plan_field n f put a b acc)"
  "no_store acc \<Longrightarrow> no_store (plan_prom m g put' c d acc)"
  by (auto simp: no_store_def plan_tls_def plan_field_def plan_prom_def Let_def other_labels simp del: append_Cons split: option.split)

lemma own_changes: "list_all (\<lambda>c. \<not> starts_with store_prefix c) (pa_changes (plan_fields cur des))"
proof -
  have "no_store (head_fields cur des)"
    unfolding head_fields_def by (intro no_store_steps) (simp_all add: no_store_def)
  then have "no_store (plan_fields cur des)"
    unfolding plan_fields_head plan_monitor_def
    by (cases "prom_of cur"; cases "prom_of des") (simp_all add: no_store_steps, simp_all add: no_store_def)
  then show ?thesis by (simp only: no_store_def)
qed

lemma plan_settles:
  assumes "build_reconcile_plan to_value current desired obs = Inr p"
    and "build_reconcile_plan to_value (pl_merged p) desired obs' = Inr q"
  shows "pl_tx_updates q = [] \<and> RestartMonitor \<notin> set (pl_actions q) \<and> list_all (starts_with store_prefix) (pl_changes q)"
proof -
  note s = settled [of "cfg_deployment current" "cfg_deployment desired", folded plan_merged [OF assms(1)], unfolded traces_def prod.inject]
  from assms(2) show ?thesis
    by (rule plan_parts) (use s in \<open>simp add: plan_of_diffs_parts list_all_iff\<close>)
qed

text \<open>C36. Carrying out a plan settles it: planning again for the merged configuration and the same wanted one
  finds no field to update and no monitor to restart, and no supported change other than in the
  storage service.\<close>

theorem applied_plan_settles:
  assumes "build_reconcile_plan to_value current desired obs = Inr p"
    and "build_reconcile_plan to_value (pl_merged p) desired obs' = Inr q"
  shows "pl_tx_updates q = [] \<and> RestartMonitor \<notin> set (pl_actions q) \<and> list_all (starts_with store_prefix) (pl_changes q)"
  using plan_settles [OF assms] .

text \<open>A change of the storage service is reported as supported, is a reason to regenerate the node files and
  to restart the nodes, and is not taken over: the configuration that the plan saves keeps the old one.\<close>

theorem storage_change_not_taken_over:
  assumes "build_reconcile_plan to_value current desired obs = Inr p"
  shows "dep_storage_service (cfg_deployment (pl_merged p)) = dep_storage_service (cfg_deployment current) \<and>
    (list_ex (starts_with store_prefix) (pl_changes p) \<longrightarrow>
      {SaveClusterIndex, RegenerateEloqKvNodeConfig, RestartTxWithUpdatedConfig} \<subseteq> set (pl_actions p))"
proof -
  from assms show ?thesis
    by (rule plan_parts) (use own_changes [of "cfg_deployment current" "cfg_deployment desired"] in
      \<open>auto simp: plan_of_diffs_parts with_deployment_def merged_fields list_all_iff list_ex_iff filter_empty_conv\<close>)
qed

section \<open>Examples\<close>

text \<open>A conversion that shows the storage service only.\<close>

definition sample_value :: "deploy_config \<Rightarrow> yaml res" where
  "sample_value cfg = Inr (YMap [(YString ''deployment'', YMap [(YString ''storage_service'',
     if dep_storage_service (cfg_deployment cfg) = None then YNull else YBool True)])])"

definition old_config :: deploy_config where
  "old_config = bare_config (bare_deployment ''kv'' ''/opt'' (bare_service [''a:1''] None None))"

definition wanted_config :: deploy_config where
  "wanted_config = with_deployment old_config ((cfg_deployment old_config)\<lparr>checkpoint_interval := Some 30,
     dep_storage_service := Some \<lparr>st_dynamodb = None, st_rocksdb = None, st_eloqdss = None\<rparr>\<rparr>)"

lemma sample_plan:
  "\<exists>p. build_reconcile_plan sample_value old_config wanted_config None = Inr p \<and> pl_tx_updates p = [''checkpointer_interval:30''] \<and>
     list_ex (starts_with store_prefix) (pl_changes p)"
proof -
  let ?d = "push_yaml_diff [] (Some (YMap [(YString ''deployment'', YMap [(YString ''storage_service'', YNull)])]))
      (Some (YMap [(YString ''deployment'', YMap [(YString ''storage_service'', YBool True)])]))"
  have d: "?d = [''deployment.storage_service'']" by code_simp
  have n: "cluster_name (cfg_deployment old_config) = cluster_name (cfg_deployment wanted_config)"
    by (simp add: wanted_config_def with_deployment_def)
  have s: "dep_storage_service (cfg_deployment old_config) = None" "checkpoint_interval (cfg_deployment old_config) = None"
    "enable_tls (cfg_deployment old_config) = None" "cluster_mode (cfg_deployment old_config) = None" "prom_of (cfg_deployment old_config) = None"
    by (simp_all add: old_config_def bare_config_def bare_deployment_def prom_of_def)
  have w: "dep_storage_service (cfg_deployment wanted_config) \<noteq> None" "checkpoint_interval (cfg_deployment wanted_config) = Some 30"
    "enable_tls (cfg_deployment wanted_config) = None" "cluster_mode (cfg_deployment wanted_config) = None" "prom_of (cfg_deployment wanted_config) = None"
    using s by (simp_all add: wanted_config_def with_deployment_def prom_of_def)
  let ?acc = "plan_fields (cfg_deployment old_config) (cfg_deployment wanted_config)"
  have u: "pa_updates ?acc = [''checkpointer_interval:30'']"
    by (simp add: plan_fields_head head_fields_def plan_monitor_def plan_field_def plan_tls_def s w Let_def show_u32_def show_nat.simps [of 30] show_nat.simps [of 3])
  have ds: "dep_storage_service (pa_diff ?acc) \<noteq> None"
    by (auto simp: plan_fields_head head_fields_def plan_monitor_def plan_field_def plan_tls_def s w Let_def update_prom_def)
  have c: "config_diffs sample_value (with_deployment old_config (normalize_config_for_apply_diff (cfg_deployment old_config)))
     (with_deployment wanted_config (normalize_config_for_apply_diff (pa_diff ?acc))) = Inr [''deployment.storage_service'']"
    using ds by (auto simp: config_diffs_def sample_value_def with_deployment_def normalize_config_for_apply_diff_def s d simp del: push_yaml_diff.simps)
  have "build_reconcile_plan sample_value old_config wanted_config None = Inr (plan_of_diffs old_config None ?acc [''deployment.storage_service''])"
    using c n by (simp add: build_reconcile_plan_def Let_def)
  then show ?thesis by (simp add: plan_of_diffs_parts u starts_with_def store_prefix_def)
qed

theorem applied_plan_settles_witness:
  "\<exists>p q. build_reconcile_plan sample_value old_config wanted_config None = Inr p \<and> pl_tx_updates p = [''checkpointer_interval:30''] \<and>
     build_reconcile_plan sample_value (pl_merged p) wanted_config None = Inr q \<and>
     pl_tx_updates q = [] \<and> RestartMonitor \<notin> set (pl_actions q) \<and> list_all (starts_with store_prefix) (pl_changes q)"
proof -
  obtain p where p: "build_reconcile_plan sample_value old_config wanted_config None = Inr p" "pl_tx_updates p = [''checkpointer_interval:30'']"
    using sample_plan by blast
  have "cluster_name (cfg_deployment (pl_merged p)) = cluster_name (cfg_deployment wanted_config)"
    unfolding plan_merged [OF p(1)] by (simp add: merged_fields wanted_config_def with_deployment_def)
  then obtain q where q: "build_reconcile_plan sample_value (pl_merged p) wanted_config None = Inr q"
    by (auto simp: build_reconcile_plan_def Let_def config_diffs_def sample_value_def simp del: push_yaml_diff.simps)
  from applied_plan_settles [OF p(1) q] p q show ?thesis by blast
qed

theorem storage_change_not_taken_over_witness:
  "\<exists>p. build_reconcile_plan sample_value old_config wanted_config None = Inr p \<and>
     list_ex (starts_with store_prefix) (pl_changes p) \<and> RegenerateEloqKvNodeConfig \<in> set (pl_actions p) \<and>
     dep_storage_service (cfg_deployment (pl_merged p)) = dep_storage_service (cfg_deployment old_config)"
proof -
  obtain p where p: "build_reconcile_plan sample_value old_config wanted_config None = Inr p" "list_ex (starts_with store_prefix) (pl_changes p)"
    using sample_plan by blast
  from storage_change_not_taken_over [OF p(1)] p show ?thesis by blast
qed

end
