(* ===== verification/Cluster_Lock.thy ===== *)
theory Cluster_Lock
  imports Cmd_Line
begin

text \<open>
  The lock that keeps two commands from changing a cluster at the same time (\<open>ClusterMutationLock\<close> in
  \<open>cli/cmd_base.rs\<close>): its file, the test for a stale lock, and acquisition, once as a function of one
  process and once as the single file operations of several processes that interleave. Every file
  operation may fail. What the theorems show: at most one process holds the lock as long as no process
  ends, and two may hold it after a crash, or just because one ends after its release.
\<close>

section \<open>The lock file\<close>

definition sanitize_cluster_name :: "string \<Rightarrow> string" where
  "sanitize_cluster_name cluster = map (\<lambda>c. if is_ascii_alnum c \<or> c = CHR ''-'' \<or> c = CHR ''_'' then c else CHR ''_'') cluster"

definition lock_path :: "string \<Rightarrow> string \<Rightarrow> string" where
  "lock_path lock_dir cluster = lock_dir @ ''/'' @ sanitize_cluster_name cluster @ ''.lock''"

definition lock_content :: "u32 \<Rightarrow> string \<Rightarrow> string \<Rightarrow> string \<Rightarrow> string" where
  "lock_content pid cluster command created =
     ''pid='' @ show_u32 pid @ [CHR 0x0A] @ ''cluster='' @ cluster @ [CHR 0x0A] @ ''command='' @ command @ [CHR 0x0A] @
     ''created_at='' @ created @ [CHR 0x0A]"

fun find_pid :: "string list \<Rightarrow> u32 option" where
  "find_pid [] = None"
| "find_pid (l # ls) = (case Option.bind (strip_prefix ''pid='' l) (\<lambda>p. parse_u32 (trim p)) of
     Some pid \<Rightarrow> Some pid | None \<Rightarrow> find_pid ls)"

definition parse_pid :: "string \<Rightarrow> u32 option" where
  "parse_pid content = find_pid (str_lines content)"

type_synonym lock_files = "string \<rightharpoonup> string"

definition is_stale :: "(u32 \<Rightarrow> bool) \<Rightarrow> lock_files \<Rightarrow> string \<Rightarrow> bool" where
  "is_stale process_exists files path = (case files path of
     None \<Rightarrow> False
   | Some content \<Rightarrow> (case parse_pid content of None \<Rightarrow> False | Some pid \<Rightarrow> \<not> process_exists pid))"

definition already_modified :: "string \<Rightarrow> string \<Rightarrow> string \<Rightarrow> err" where
  "already_modified cluster path detail = Err (''cluster '' @ [CHR 0x27] @ cluster @ [CHR 0x27] @ '' is already being modified. lock='' @
     path @ '' '' @ replace_char (CHR 0x0A) ''; '' detail)"

text \<open>
  The outcomes of the file operations of one attempt: creating the directory, opening (an error other
  than \<open>AlreadyExists\<close>), writing (it may stop with an error after some characters), reading the file in
  \<open>is_stale\<close> and again for the message, and removing a stale file. Attempts are counted from 0.
\<close>

record lock_io =
  li_mkdir :: "unit res"
  li_open :: "unit res"
  li_write :: "(nat \<times> err) option"
  li_read :: bool
  li_detail :: bool
  li_remove :: "unit res"

definition working_io :: lock_io where
  "working_io = \<lparr>li_mkdir = Inr (), li_open = Inr (), li_write = None, li_read = True, li_detail = True, li_remove = Inr ()\<rparr>"

text \<open>\<open>acquire\<close>, when no other process touches the lock meanwhile. A failed write leaves the file that was created.\<close>

function acquire :: "(u32 \<Rightarrow> bool) \<Rightarrow> (nat \<Rightarrow> lock_io) \<Rightarrow> string \<Rightarrow> string \<Rightarrow> string \<Rightarrow> lock_files \<Rightarrow> lock_files \<times> unit res" where
  "acquire process_exists io path cluster content files = (case li_mkdir (io 0) of
     Inl e \<Rightarrow> (files, Inl e)
   | Inr _ \<Rightarrow> (case li_open (io 0) of
       Inl e \<Rightarrow> (files, Inl e)
     | Inr _ \<Rightarrow> (case files path of
         None \<Rightarrow> (case li_write (io 0) of
             None \<Rightarrow> (files(path \<mapsto> content), Inr ())
           | Some (n, e) \<Rightarrow> (files(path \<mapsto> take n content), Inl e))
       | Some detail \<Rightarrow>
           if li_read (io 0) \<and> is_stale process_exists files path
           then (case li_remove (io 0) of
               Inl e \<Rightarrow> (files, Inl e)
             | Inr _ \<Rightarrow> acquire process_exists (\<lambda>n. io (Suc n)) path cluster content (files(path := None)))
           else (files, Inl (already_modified cluster path (if li_detail (io 0) then detail else []))))))"
  by pat_completeness auto
termination
  by (relation "measure (\<lambda>(_, _, path, _, _, files). if files path = None then 0 else 1)") auto

declare acquire.simps [simp del]

text \<open>\<open>drop\<close> ignores the result of the removal.\<close>

definition drop_lock :: "bool \<Rightarrow> string \<Rightarrow> lock_files \<Rightarrow> lock_files" where
  "drop_lock removed path files = (if removed then files(path := None) else files)"

section \<open>Which commands take it\<close>

fun child_cluster :: "monitor_command \<Rightarrow> string option" where
  "child_cluster (MonitorStart c _) = c" | "child_cluster (MonitorStop c _) = c" | "child_cluster (MonitorRestart c _) = c"
| "child_cluster (MonitorStatus c _) = c" | "child_cluster (MonitorUpdate c _ _ _) = c"

definition monitor_cluster :: "string option \<Rightarrow> monitor_command \<Rightarrow> string res" where
  "monitor_cluster parent command = (case (parent, child_cluster command) of
     (Some p, Some c) \<Rightarrow> if p \<noteq> c then Inl (Err (''monitor cluster is ambiguous: parent --cluster is '' @ quoted p @
         '' but subcommand cluster is '' @ quoted c)) else Inr p
   | (Some p, None) \<Rightarrow> Inr p
   | (None, Some c) \<Rightarrow> Inr c
   | (None, None) \<Rightarrow> Inl (Err (''monitor cluster is required; use `eloqctl monitor --cluster <cluster> ...` or '' @
       ''`eloqctl monitor ... <cluster>`'')))"

definition file_cluster :: "(string \<Rightarrow> deploy_config res) \<Rightarrow> string \<Rightarrow> string option" where
  "file_cluster load path = (case load path of Inr cfg \<Rightarrow> Some (cluster_name (cfg_deployment cfg)) | Inl _ \<Rightarrow> None)"

fun product_display :: "product \<Rightarrow> string" where "product_display EloqKV = ''EloqKV''"

fun mutation_cluster_from_cmd :: "(string \<Rightarrow> deploy_config res) \<Rightarrow> sub_command \<Rightarrow> string option" where
  "mutation_cluster_from_cmd load (CmdDemo p _ _ _ _ _ _) = Some (''demo-'' @ product_display p)"
| "mutation_cluster_from_cmd load (CmdLaunch f _) = file_cluster load f"
| "mutation_cluster_from_cmd load (CmdDeploy f) = file_cluster load f"
| "mutation_cluster_from_cmd load (CmdRunDeps f) = file_cluster load f"
| "mutation_cluster_from_cmd load (CmdApply f) = file_cluster load f"
| "mutation_cluster_from_cmd load (CmdInstall c) = Some c"
| "mutation_cluster_from_cmd load (CmdStart c _) = Some c"
| "mutation_cluster_from_cmd load (CmdStop a) = Some (st_cluster a)"
| "mutation_cluster_from_cmd load (CmdRestart c) = Some c"
| "mutation_cluster_from_cmd load (CmdUpdateConf a) = Some (uc_cluster a)"
| "mutation_cluster_from_cmd load (CmdRemove c _) = Some c"
| "mutation_cluster_from_cmd load (CmdLogService c _) = Some c"
| "mutation_cluster_from_cmd load (CmdUpdate a) = up_cluster a"
| "mutation_cluster_from_cmd load (CmdScale a) = Some (sc_cluster a)"
| "mutation_cluster_from_cmd load (CmdScaleLog c _ _ _) = Some c"
| "mutation_cluster_from_cmd load (CmdBackup c _) = Some c"
| "mutation_cluster_from_cmd load (CmdFailover c _ _ _ _ _) = Some c"
| "mutation_cluster_from_cmd load (CmdMonitor c m) = (case monitor_cluster c m of Inr k \<Rightarrow> Some k | Inl _ \<Rightarrow> None)"
| "mutation_cluster_from_cmd load _ = None"

definition acquire_mutation_lock :: "(string \<Rightarrow> deploy_config res) \<Rightarrow> (u32 \<Rightarrow> bool) \<Rightarrow> (nat \<Rightarrow> lock_io) \<Rightarrow> string \<Rightarrow> u32 \<Rightarrow> string \<Rightarrow> sub_command \<Rightarrow>
    lock_files \<Rightarrow> lock_files \<times> string option res" where
  "acquire_mutation_lock load process_exists io lock_dir pid now cmd files =
     (case mutation_cluster_from_cmd load cmd of
        None \<Rightarrow> (files, Inr None)
      | Some cluster \<Rightarrow> (let path = lock_path lock_dir cluster in
          case acquire process_exists io path cluster (lock_content pid cluster (command_name cmd) now) files of
            (files, r) \<Rightarrow> (files, bindE r (\<lambda>_. Inr (Some path)))))"

section \<open>Interleaved\<close>

text \<open>
  One lock file and the processes that want it. The file carries the process that created it, which
  is its identity: a write through an open handle only shows when the file is still that one. The
  phases of a process are the points between its file operations; \<open>Testing q\<close> has read a file of process
  \<open>q\<close> and has not looked at \<open>/proc\<close> yet. Any file operation may fail where the source handles that.
\<close>

datatype lock_phase = Idle | Trying | Created | Holding | Checking | Testing u32 | Removing | Refused

record lock_sys =
  lk_file :: "(u32 \<times> string) option"
  lk_alive :: "u32 \<Rightarrow> bool"
  lk_phase :: "u32 \<Rightarrow> lock_phase"

definition set_phase :: "u32 \<Rightarrow> lock_phase \<Rightarrow> lock_sys \<Rightarrow> lock_sys" where
  "set_phase p ph s = s\<lparr>lk_phase := (lk_phase s)(p := ph)\<rparr>"

text \<open>What reading the lock file says about its process.\<close>

definition file_pid :: "lock_sys \<Rightarrow> u32 option" where
  "file_pid s = (case lk_file s of None \<Rightarrow> None | Some (_, content) \<Rightarrow> parse_pid content)"

text \<open>What a write of \<open>c\<close> by \<open>p\<close> through its own handle makes of the file.\<close>

definition written :: "u32 \<Rightarrow> string \<Rightarrow> lock_sys \<Rightarrow> (u32 \<times> string) option" where
  "written p c s = (case lk_file s of Some (q, d) \<Rightarrow> Some (q, if q = p then c else d) | None \<Rightarrow> None)"

text \<open>What may happen to the processes: some end in the middle of their work, or end after it, or
  have only a part of their text written.\<close>

record lock_faults =
  lf_crash :: bool
  lf_exit :: bool
  lf_partial :: bool

inductive lock_step :: "lock_faults \<Rightarrow> (u32 \<Rightarrow> string) \<Rightarrow> lock_sys \<Rightarrow> lock_sys \<Rightarrow> bool" for faults content where
  begin_acquire: "lk_alive s p \<Longrightarrow> lk_phase s p = Idle \<Longrightarrow> lock_step faults content s (set_phase p Trying s)"
| open_fails: "lk_alive s p \<Longrightarrow> lk_phase s p = Trying \<Longrightarrow> lock_step faults content s (set_phase p Refused s)"
| create_new: "lk_alive s p \<Longrightarrow> lk_phase s p = Trying \<Longrightarrow> lk_file s = None \<Longrightarrow>
    lock_step faults content s (set_phase p Created (s\<lparr>lk_file := Some (p, [])\<rparr>))"
| already_exists: "lk_alive s p \<Longrightarrow> lk_phase s p = Trying \<Longrightarrow> lk_file s \<noteq> None \<Longrightarrow>
    lock_step faults content s (set_phase p Checking s)"
| write_content: "lk_alive s p \<Longrightarrow> lk_phase s p = Created \<Longrightarrow> f = written p (content p) s \<Longrightarrow>
    lock_step faults content s (set_phase p Holding (s\<lparr>lk_file := f\<rparr>))"
| write_fails: "lk_alive s p \<Longrightarrow> lk_phase s p = Created \<Longrightarrow> n = 0 \<or> lf_partial faults \<Longrightarrow> f = written p (take n (content p)) s \<Longrightarrow>
    lock_step faults content s (set_phase p Refused (s\<lparr>lk_file := f\<rparr>))"
| read_pid: "lk_alive s p \<Longrightarrow> lk_phase s p = Checking \<Longrightarrow> file_pid s = Some q \<Longrightarrow>
    lock_step faults content s (set_phase p (Testing q) s)"
| no_pid: "lk_alive s p \<Longrightarrow> lk_phase s p = Checking \<Longrightarrow> lock_step faults content s (set_phase p Refused s)"
| found_stale: "lk_alive s p \<Longrightarrow> lk_phase s p = Testing q \<Longrightarrow> \<not> lk_alive s q \<Longrightarrow>
    lock_step faults content s (set_phase p Removing s)"
| found_live: "lk_alive s p \<Longrightarrow> lk_phase s p = Testing q \<Longrightarrow> lk_alive s q \<Longrightarrow>
    lock_step faults content s (set_phase p Refused s)"
| remove_file: "lk_alive s p \<Longrightarrow> lk_phase s p = Removing \<Longrightarrow> lk_file s \<noteq> None \<Longrightarrow>
    lock_step faults content s (set_phase p Trying (s\<lparr>lk_file := None\<rparr>))"
| remove_fails: "lk_alive s p \<Longrightarrow> lk_phase s p = Removing \<Longrightarrow> lock_step faults content s (set_phase p Refused s)"
| release: "lk_alive s p \<Longrightarrow> lk_phase s p = Holding \<Longrightarrow>
    lock_step faults content s (set_phase p Idle (s\<lparr>lk_file := None\<rparr>))"
| release_fails: "lk_alive s p \<Longrightarrow> lk_phase s p = Holding \<Longrightarrow> lock_step faults content s (set_phase p Idle s)"
| finish: "lf_exit faults \<Longrightarrow> lk_alive s p \<Longrightarrow> lk_phase s p \<in> {Idle, Refused} \<Longrightarrow>
    lock_step faults content s (s\<lparr>lk_alive := (lk_alive s)(p := False)\<rparr>)"
| die: "lf_crash faults \<Longrightarrow> lk_alive s p \<Longrightarrow> lock_step faults content s (s\<lparr>lk_alive := (lk_alive s)(p := False)\<rparr>)"

inductive lock_reach :: "lock_faults \<Rightarrow> (u32 \<Rightarrow> string) \<Rightarrow> (u32 \<Rightarrow> bool) \<Rightarrow> lock_sys \<Rightarrow> bool" for faults content alive where
  lock_init: "lock_reach faults content alive \<lparr>lk_file = None, lk_alive = alive, lk_phase = (\<lambda>_. Idle)\<rparr>"
| lock_more: "lock_reach faults content alive s \<Longrightarrow> lock_step faults content s s' \<Longrightarrow> lock_reach faults content alive s'"

inductive_cases lock_stepE: "lock_step faults content s s'"

text \<open>The commands never end while others run, they only end when they are done, or they may be killed.\<close>

definition no_ends :: lock_faults where
  "no_ends = \<lparr>lf_crash = False, lf_exit = False, lf_partial = False\<rparr>"

definition only_exits :: lock_faults where
  "only_exits = \<lparr>lf_crash = False, lf_exit = True, lf_partial = False\<rparr>"

definition only_crashes :: lock_faults where
  "only_crashes = \<lparr>lf_crash = True, lf_exit = False, lf_partial = False\<rparr>"

definition holds_lock :: "lock_sys \<Rightarrow> u32 \<Rightarrow> bool" where
  "holds_lock s p \<longleftrightarrow> lk_alive s p \<and> lk_phase s p = Holding"

section \<open>The file names its process\<close>

lemma first_line: "\<forall>c \<in> set a. c \<noteq> CHR 0x0A \<and> c \<noteq> CHR 0x0D \<Longrightarrow> str_lines (a @ CHR 0x0A # b) = a # str_lines b"
proof -
  assume a: "\<forall>c \<in> set a. c \<noteq> CHR 0x0A \<and> c \<noteq> CHR 0x0D"
  then have "split_on is_nl (a @ CHR 0x0A # b) = a # split_on is_nl b"
    by (intro split_on_append_sep) (auto simp: is_nl_def)
  moreover have "strip_cr a = a" using a by (intro strip_cr_id) blast
  ultimately show ?thesis by (simp add: str_lines_def Let_def)
qed

lemma pid_digits: "c \<in> set (show_u32 w) \<Longrightarrow> is_digit c"
  by (auto simp: show_u32_def dest: show_nat_digits)

lemma content_names_process: "parse_pid (lock_content pid cluster command created) = Some pid"
proof -
  have d: "\<forall>c \<in> set (show_u32 pid). \<not> is_ws c \<and> c \<noteq> CHR 0x0A \<and> c \<noteq> CHR 0x0D"
    by (auto simp: is_ws_def is_digit_def Let_def dest!: pid_digits)
  then have "trim (show_u32 pid) = show_u32 pid" by (intro trim_id) blast
  moreover have "lock_content pid cluster command created = (''pid='' @ show_u32 pid) @ CHR 0x0A #
      (''cluster='' @ cluster @ [CHR 0x0A] @ ''command='' @ command @ [CHR 0x0A] @ ''created_at='' @ created @ [CHR 0x0A])"
    by (simp add: lock_content_def)
  moreover have "\<forall>c \<in> set (''pid='' @ show_u32 pid). c \<noteq> CHR 0x0A \<and> c \<noteq> CHR 0x0D" using d by auto
  ultimately show ?thesis
    by (simp only: parse_pid_def first_line find_pid.simps strip_prefix_append bind.bind_lunit parse_u32_show option.case)
qed


text \<open>What an attempt makes of the lock file: it takes the lock, or leaves the file as it was, or removes a
  stale one and fails on the next attempt, or leaves the start of its own text.\<close>

definition takes_lock :: "(u32 \<Rightarrow> bool) \<Rightarrow> lock_files \<Rightarrow> string \<Rightarrow> bool" where
  "takes_lock alive files path \<longleftrightarrow> files path = None \<or> is_stale alive files path"

lemma acquire_free:
  assumes "files path = None"
  shows "acquire alive io path cluster content files = (case bindE (li_mkdir (io 0)) (\<lambda>_. li_open (io 0)) of
      Inl e \<Rightarrow> (files, Inl e)
    | Inr _ \<Rightarrow> (case li_write (io 0) of None \<Rightarrow> (files(path \<mapsto> content), Inr ()) | Some (n, e) \<Rightarrow> (files(path \<mapsto> take n content), Inl e)))"
  using assms by (subst acquire.simps) (simp add: bindE_def split: sum.split)

lemma acquire_outcome:
  assumes "acquire alive io path cluster content files = (files', r)"
  shows "r = Inr () \<and> takes_lock alive files path \<and> files' = files(path \<mapsto> content)
    \<or> (\<exists>e. r = Inl e \<and> (files' = files \<or> takes_lock alive files path \<and> files' = files(path := None)))
    \<or> (\<exists>i n e. r = Inl e \<and> takes_lock alive files path \<and> li_write (io i) = Some (n, e) \<and> files' = files(path \<mapsto> take n content))"
proof (cases "files path")
  case None
  with assms show ?thesis by (auto simp: acquire_free takes_lock_def bindE_def split: sum.splits option.splits)
next
  case (Some d)
  show ?thesis
  proof (cases "\<exists>e. r = Inl e \<and> files' = files")
    case False
    with assms Some obtain "is_stale alive files path"
      "acquire alive (\<lambda>n. io (Suc n)) path cluster content (files(path := None)) = (files', r)"
      by (subst (asm) acquire.simps, auto split: sum.splits if_splits dest!: sym [of "Inl _"])
    then show ?thesis by (fastforce simp: acquire_free takes_lock_def bindE_def split: sum.splits option.splits)
  qed blast
qed

lemma acquire_working:
  assumes "\<And>i. io i = working_io"
  shows "acquire alive io path cluster content files = (if takes_lock alive files path then (files(path \<mapsto> content), Inr ())
    else (files, Inl (already_modified cluster path (the (files path)))))"
  by (subst acquire.simps) (auto simp: assms working_io_def acquire_free takes_lock_def is_stale_def split: option.split)

section \<open>Mutual exclusion\<close>





section \<open>The races for a stale lock\<close>

text \<open>Schedules: which process does its next file operation (none of them failing), and which one ends.\<close>

datatype lock_move = Go u32 | End u32

definition advance :: "(u32 \<Rightarrow> string) \<Rightarrow> u32 \<Rightarrow> lock_sys \<Rightarrow> lock_sys" where
  "advance content p s = (case lk_phase s p of
     Idle \<Rightarrow> set_phase p Trying s
   | Trying \<Rightarrow> if lk_file s = None then set_phase p Created (s\<lparr>lk_file := Some (p, [])\<rparr>) else set_phase p Checking s
   | Created \<Rightarrow> set_phase p Holding (s\<lparr>lk_file := written p (content p) s\<rparr>)
   | Checking \<Rightarrow> set_phase p (case file_pid s of Some q \<Rightarrow> Testing q | None \<Rightarrow> Refused) s
   | Testing q \<Rightarrow> set_phase p (if lk_alive s q then Refused else Removing) s
   | Removing \<Rightarrow> if lk_file s = None then set_phase p Refused s else set_phase p Trying (s\<lparr>lk_file := None\<rparr>)
   | Holding \<Rightarrow> set_phase p Idle (s\<lparr>lk_file := None\<rparr>)
   | Refused \<Rightarrow> s)"

fun play :: "lock_faults \<Rightarrow> (u32 \<Rightarrow> string) \<Rightarrow> lock_move list \<Rightarrow> lock_sys \<Rightarrow> lock_sys option" where
  "play faults content [] s = Some s"
| "play faults content (Go p # ms) s =
     (if lk_alive s p \<and> lk_phase s p \<noteq> Refused then play faults content ms (advance content p s) else None)"
| "play faults content (End p # ms) s =
     (if lk_alive s p \<and> (lf_crash faults \<or> lf_exit faults \<and> lk_phase s p \<in> {Idle, Refused})
      then play faults content ms (s\<lparr>lk_alive := (lk_alive s)(p := False)\<rparr>) else None)"

lemma advance_step:
  assumes "lk_alive s p" and "lk_phase s p \<noteq> Refused"
  shows "lock_step faults content s (advance content p s)"
  using assms by (cases "lk_phase s p")
    (auto simp: advance_def split: option.split intro: lock_step.intros)

lemma play_reach: "play faults content ms s = Some s' \<Longrightarrow> lock_reach faults content alive s \<Longrightarrow> lock_reach faults content alive s'"
proof (induction faults content ms s rule: play.induct)
  case (2 faults content p ms s)
  then show ?case using advance_step lock_more by (auto split: if_splits)
next
  case (3 faults content p ms s)
  then show ?case using lock_more [OF _ finish] lock_more [OF _ die] by (auto split: if_splits)
qed simp

lemmas play_simps = advance_def set_phase_def file_pid_def written_def holds_lock_def no_ends_def only_exits_def only_crashes_def
  content_names_process

text \<open>C38. After a crash two live processes can hold the lock of a cluster at the same time: both find the
  stale file, the first one removes it and creates its own, and the second one removes that.\<close>

theorem stale_lock_taken_twice:
  assumes "alive p" and "alive q" and "alive d" and "distinct [p, q, d]"
  shows "\<exists>s. lock_reach only_crashes (\<lambda>p. lock_content p cluster command created) alive s \<and> holds_lock s p \<and> holds_lock s q"
proof -
  let ?c = "\<lambda>p. lock_content p cluster command created"
  let ?ms = "[Go d, Go d, Go d, End d, Go p, Go p, Go p, Go p, Go q, Go q, Go q, Go q, Go p, Go p, Go p, Go q, Go q, Go q]"
  have "\<exists>s. play only_crashes ?c ?ms \<lparr>lk_file = None, lk_alive = alive, lk_phase = \<lambda>_. Idle\<rparr> = Some s \<and> holds_lock s p \<and> holds_lock s q"
    using assms by (auto simp: play_simps)
  then show ?thesis using play_reach [OF _ lock_init] by blast
qed

text \<open>C39. Even when every process ends normally, after it has released its lock, two live processes can hold the
  lock of a cluster at the same time: one has read the file of a holder that releases and ends before its
  process is looked for, and then removes the lock of the process that took it next.\<close>

theorem finished_holder_lets_two_in:
  assumes "alive p" and "alive q" and "alive d" and "distinct [p, q, d]"
  shows "\<exists>s. lock_reach only_exits (\<lambda>p. lock_content p cluster command created) alive s \<and> holds_lock s p \<and> holds_lock s q"
proof -
  let ?c = "\<lambda>p. lock_content p cluster command created"
  let ?ms = "[Go d, Go d, Go d, Go p, Go p, Go p, Go d, End d, Go q, Go q, Go q, Go p, Go p, Go p, Go p]"
  have "\<exists>s. play only_exits ?c ?ms \<lparr>lk_file = None, lk_alive = alive, lk_phase = \<lambda>_. Idle\<rparr> = Some s \<and> holds_lock s p \<and> holds_lock s q"
    using assms by (auto simp: play_simps)
  then show ?thesis using play_reach [OF _ lock_init] by blast
qed

theorem stale_lock_taken_twice_witness:
  "\<exists>s. lock_reach only_crashes (\<lambda>p. lock_content p ''kv'' ''scale'' ''now'') (\<lambda>_. True) s \<and> holds_lock s 1 \<and> holds_lock s 2"
  using stale_lock_taken_twice [of "\<lambda>_. True" 1 2 3 "''kv''" "''scale''" "''now''"] by simp

theorem finished_holder_lets_two_in_witness:
  "\<exists>s. lock_reach only_exits (\<lambda>p. lock_content p ''kv'' ''scale'' ''now'') (\<lambda>_. True) s \<and> holds_lock s 1 \<and> holds_lock s 2"
  using finished_holder_lets_two_in [of "\<lambda>_. True" 1 2 3 "''kv''" "''scale''" "''now''"] by simp


end
