(* ===== verification/Releases.thy ===== *)
theory Releases
  imports Paths Storage "HOL-Library.Option_ord" "HOL-Library.Product_Lexorder"
begin

text \<open>
  Published releases (\<open>github_release.rs\<close>): names of assets, the versions on offer, and how the version
  and the images of a deployment are resolved (\<open>resolve_version\<close> in \<open>cli/cmd_base.rs\<close>). What GitHub
  answers, the operating system and the architecture are arguments.
\<close>

section \<open>Releases and assets\<close>

record github_asset =
  ga_name :: string
  ga_url :: string
  ga_digest :: "string option"

record github_release =
  gr_tag :: string
  gr_draft :: bool
  gr_prerelease :: bool
  gr_assets :: "github_asset list"

record asset_name =
  an_product :: string
  an_version :: string
  an_store :: string
  an_os :: string
  an_arch :: string

record asset_match =
  am_version :: string
  am_url :: string
  am_digest :: "string option"

text \<open>A row of the list, in the order of the triples of the \<open>BTreeSet\<close>.\<close>

datatype version_row = VersionRow (vr_product: string) (vr_store: string) (vr_version: string)

definition row_key :: "version_row \<Rightarrow> string \<times> string \<times> string" where
  "row_key r = (vr_product r, vr_store r, vr_version r)"

instantiation version_row :: linorder
begin
definition less_eq_version_row :: "version_row \<Rightarrow> version_row \<Rightarrow> bool" where
  "a \<le> b \<longleftrightarrow> row_key a \<le> row_key b"
definition less_version_row :: "version_row \<Rightarrow> version_row \<Rightarrow> bool" where
  "a < b \<longleftrightarrow> row_key a < row_key b"
instance
  by standard (auto simp: less_eq_version_row_def less_version_row_def row_key_def intro: version_row.expand)
end

definition published :: "github_release list \<Rightarrow> github_release list" where
  "published rs = filter (\<lambda>r. \<not> gr_draft r \<and> \<not> gr_prerelease r) rs"

definition normalize_tag :: "string \<Rightarrow> string" where
  "normalize_tag tag = dropWhile (\<lambda>c. c = CHR ''v'') tag"

definition product_len :: "string list \<Rightarrow> nat option" where
  "product_len parts = (if parts ! 0 = ''eloqkv'' then Some 1
     else if parts ! 0 = ''log'' \<and> parts ! 1 = ''service'' then Some 2 else None)"

definition parse_asset_name :: "string \<Rightarrow> asset_name option" where
  "parse_asset_name name = Option.bind (strip_suffix ''.tar.gz'' name) (\<lambda>stem.
     let parts = split_on is_dash stem; n = length parts in
     if n < 5 then None
     else Option.bind (product_len parts) (\<lambda>k.
       let store = join ''-'' (drop (k + 1) (take (n - 2) parts)) in
       if store = [] then None
       else Some \<lparr>an_product = join ''-'' (take k parts), an_version = parts ! k, an_store = store,
         an_os = parts ! (n - 2), an_arch = parts ! (n - 1)\<rparr>))"

definition asset_row :: "string \<Rightarrow> string \<Rightarrow> string option \<Rightarrow> github_asset \<Rightarrow> version_row option" where
  "asset_row pname release_version store asset = (case parse_asset_name (ga_name asset) of
     None \<Rightarrow> None
   | Some a \<Rightarrow>
       if an_product a \<noteq> pname then None
       else if an_version a \<noteq> release_version then None
       else if (case store of Some s \<Rightarrow> s \<noteq> an_store a | None \<Rightarrow> False) then None
       else Some (VersionRow (an_product a) (an_store a) (an_version a)))"

definition release_rows :: "string \<Rightarrow> string option \<Rightarrow> github_release \<Rightarrow> version_row list" where
  "release_rows pname store r = (let v = normalize_tag (gr_tag r) in
     if version_digits v = None then [] else List.map_filter (asset_row pname v store) (gr_assets r))"

definition list_versions_from_releases :: "github_release list \<Rightarrow> product option \<Rightarrow> string option \<Rightarrow> version_row list" where
  "list_versions_from_releases releases p store =
     sort (remdups (concat (map (release_rows (product_name (case p of None \<Rightarrow> EloqKV | Some q \<Rightarrow> q)) store) releases)))"

definition asset_matches :: "string \<Rightarrow> string \<Rightarrow> string \<Rightarrow> string \<Rightarrow> string \<Rightarrow> github_asset \<Rightarrow> bool" where
  "asset_matches pname version store os arch asset = (case parse_asset_name (ga_name asset) of
     None \<Rightarrow> False
   | Some a \<Rightarrow> an_product a = pname \<and> an_version a = version \<and> an_store a = store \<and> an_os a = os \<and> an_arch a = arch)"

definition find_product_asset :: "github_release list \<Rightarrow> string \<Rightarrow> string \<Rightarrow> string \<Rightarrow> string \<Rightarrow> string \<Rightarrow> asset_match res" where
  "find_product_asset releases pname version store os arch =
     (let v = normalize_tag version;
          candidates = concat (map gr_assets (filter (\<lambda>r. normalize_tag (gr_tag r) = v) releases))
      in case find (asset_matches pname v store os arch) candidates of
           Some a \<Rightarrow> Inr \<lparr>am_version = v, am_url = ga_url a, am_digest = ga_digest a\<rparr>
         | None \<Rightarrow> Inl (Err (''no GitHub release asset found for product='' @ pname @ '', version='' @ v @ '', store='' @ store @
             '', os='' @ os @ '', arch='' @ arch @ '' in eloqdata/eloqkv'')))"

definition find_eloqkv_asset :: "github_release list \<Rightarrow> product \<Rightarrow> string \<Rightarrow> string \<Rightarrow> string \<Rightarrow> string \<Rightarrow> asset_match res" where
  "find_eloqkv_asset releases p = find_product_asset releases (product_name p)"

section \<open>Resolving a version\<close>

definition asset_file :: "string \<Rightarrow> string \<Rightarrow> string \<Rightarrow> string \<Rightarrow> string \<Rightarrow> string" where
  "asset_file pname version store os arch = join ''-'' [pname, version, store, os, arch] @ ''.tar.gz''"

definition release_asset_url :: "string \<Rightarrow> string \<Rightarrow> string \<Rightarrow> string \<Rightarrow> string \<Rightarrow> string" where
  "release_asset_url pname version store os arch =
     ''https://github.com/eloqdata/eloqkv/releases/download/'' @ version @ ''/'' @ asset_file pname version store os arch"

text \<open>\<open>max_by\<close> keeps the last one of equal elements.\<close>

definition max_version :: "string list \<Rightarrow> string option" where
  "max_version vs = fold (\<lambda>v best. case best of
     None \<Rightarrow> Some v
   | Some b \<Rightarrow> if version_digits v < version_digits b then Some b else Some v) vs None"

definition store_of :: "deployment \<Rightarrow> string res" where
  "store_of d = (case dep_storage_service d of None \<Rightarrow> Inr ''rocksdb'' | Some s \<Rightarrow> pretty_name s)"

definition needs_latest :: "deployment \<Rightarrow> bool" where
  "needs_latest d \<longleftrightarrow> dep_version d \<noteq> None \<and> eq_ignore_case (version_str d) ''latest''"

definition latest_version :: "github_release list \<Rightarrow> product \<Rightarrow> string \<Rightarrow> string res" where
  "latest_version releases p store =
     (case max_version (map vr_version (list_versions_from_releases releases (Some p) (Some store))) of
        None \<Rightarrow> Inl (Err (''no available GitHub release found for store='' @ store))
      | Some v \<Rightarrow> Inr v)"

text \<open>The image of one product, when none is configured.\<close>

definition image_url :: "github_release list option \<Rightarrow> string \<Rightarrow> string option \<Rightarrow> string \<Rightarrow> string \<Rightarrow> string \<Rightarrow> string res" where
  "image_url releases pname version store os arch = (case version of
     None \<Rightarrow> Inl (Panic ''version is missing'')
   | Some v \<Rightarrow> (case releases of
       Some rs \<Rightarrow> bindE (find_product_asset rs pname v store os arch) (\<lambda>m. Inr (am_url m))
     | None \<Rightarrow> Inr (release_asset_url pname v store os arch)))"

definition resolve_tx_image :: "github_release list option \<Rightarrow> string \<Rightarrow> string \<Rightarrow> string \<Rightarrow> deployment \<Rightarrow> deployment res" where
  "resolve_tx_image releases store os arch d =
     (if tx_srv_image (tx_service d) = None
      then bindE (image_url releases (product_name (dep_product d)) (dep_version d) store os arch) (\<lambda>img.
        Inr (d\<lparr>tx_service := (tx_service d)\<lparr>tx_srv_image := Some img\<rparr>\<rparr>))
      else Inr d)"

definition resolve_log_image :: "github_release list option \<Rightarrow> string \<Rightarrow> string \<Rightarrow> string \<Rightarrow> deployment \<Rightarrow> deployment res" where
  "resolve_log_image releases store os arch d = (case dep_log_service d of
     None \<Rightarrow> Inr d
   | Some l \<Rightarrow> if log_srv_image l = None
       then bindE (image_url releases ''log-service'' (dep_version d) store os arch) (\<lambda>img.
         Inr (d\<lparr>dep_log_service := Some (l\<lparr>log_srv_image := Some img\<rparr>)\<rparr>))
       else Inr d)"

definition resolve_version :: "github_release list res \<Rightarrow> string \<Rightarrow> string \<Rightarrow> deployment \<Rightarrow> deployment res" where
  "resolve_version fetched os arch d = bindE (store_of d) (\<lambda>store.
     let images = (\<lambda>releases d. bindE (resolve_tx_image releases store os arch d) (resolve_log_image releases store os arch))
     in if needs_latest d
        then bindE fetched (\<lambda>rs. bindE (latest_version rs (dep_product d) store) (\<lambda>v.
          images (Some rs) (d\<lparr>dep_version := Some v\<rparr>)))
        else images None d)"

section \<open>Properties\<close>

lemma parse_parts:
  assumes "split_on is_dash stem = ps @ [v] @ ss @ [os, arch]" and "product_len (ps @ [v] @ ss @ [os, arch]) = Some (length ps)"
    and "ps \<noteq> []" and "ss \<noteq> []" and "join ''-'' ss \<noteq> []"
  shows "parse_asset_name (stem @ ''.tar.gz'') = Some \<lparr>an_product = join ''-'' ps, an_version = v, an_store = join ''-'' ss,
    an_os = os, an_arch = arch\<rparr>"
proof -
  obtain x xs y ys where "ps = x # xs" "ss = y # ys" using assms(3,4) by (cases ps; cases ss) auto
  then show ?thesis unfolding parse_asset_name_def strip_suffix_append bind.bind_lunit assms(1) Let_def
    using assms(2,5) by (simp add: nth_append)
qed

lemma dashes: "is_dash = (\<lambda>c. c = CHR ''-'')" by (simp add: fun_eq_iff is_dash_def)

text \<open>The name under which a release publishes an asset reads back as the product, version, store, operating
  system and architecture it was put together from.\<close>

theorem asset_file_reads_back:
  assumes "pname \<in> {''eloqkv'', ''log-service''}" and "store \<noteq> []"
    and "\<forall>s \<in> {version, os, arch}. \<forall>c \<in> set s. \<not> is_dash c"
  shows "parse_asset_name (asset_file pname version store os arch) =
      Some \<lparr>an_product = pname, an_version = version, an_store = store, an_os = os, an_arch = arch\<rparr>"
proof -
  let ?ps = "split_on is_dash pname" and ?ss = "split_on is_dash store"
  have j: "join ''-'' ?ps = pname" "join ''-'' ?ss = store" unfolding dashes by (rule join_split_on)+
  have "split_on is_dash (join ''-'' [pname, version, store, os, arch]) = ?ps @ [version] @ ?ss @ [os, arch]"
    using assms(3) by (subst split_on_join_concat) (auto simp: dashes split_on_no_sep)
  moreover have "product_len (?ps @ [version] @ ?ss @ [os, arch]) = Some (length ?ps)"
    using assms(1) by (auto simp: product_len_def dashes)
  ultimately have "parse_asset_name (asset_file pname version store os arch) = Some \<lparr>an_product = join ''-'' ?ps, an_version = version,
      an_store = join ''-'' ?ss, an_os = os, an_arch = arch\<rparr>"
    unfolding asset_file_def by (rule parse_parts) (use assms(2) j in simp_all)
  then show ?thesis unfolding j .
qed

theorem asset_file_reads_back_witness:
  "parse_asset_name (asset_file ''log-service'' ''1.2.2'' ''a-b'' ''ubuntu24'' ''amd64'') =
     Some \<lparr>an_product = ''log-service'', an_version = ''1.2.2'', an_store = ''a-b'', an_os = ''ubuntu24'', an_arch = ''amd64''\<rparr>"
  by (rule asset_file_reads_back) (simp_all add: is_dash_def)

lemma max_version_spec: "case max_version vs of None \<Rightarrow> vs = []
    | Some m \<Rightarrow> m \<in> set vs \<and> (\<forall>v \<in> set vs. version_digits v \<le> version_digits m)"
proof (induction vs rule: rev_induct)
  case (snoc v vs)
  have "max_version (vs @ [v]) = (case max_version vs of None \<Rightarrow> Some v
    | Some b \<Rightarrow> if version_digits v < version_digits b then Some b else Some v)" by (simp add: max_version_def)
  then show ?case using snoc by (cases "max_version vs") (auto intro: order_trans less_imp_le)
qed (simp add: max_version_def)

text \<open>The list of versions on offer is sorted without repetition, and has a row exactly for every product,
  store and version of which some asset of a release with this version exists.\<close>

theorem listed_versions_exact:
  "sorted (list_versions_from_releases releases (Some p) store) \<and> distinct (list_versions_from_releases releases (Some p) store) \<and>
   set (list_versions_from_releases releases (Some p) store) =
     {VersionRow (product_name p) (an_store a) (an_version a) | a r x. r \<in> set releases \<and> x \<in> set (gr_assets r) \<and>
        parse_asset_name (ga_name x) = Some a \<and> an_product a = product_name p \<and> an_version a = normalize_tag (gr_tag r) \<and>
        version_digits (an_version a) \<noteq> None \<and> store \<in> {None, Some (an_store a)}}"
proof -
  have row: "asset_row (product_name p) v store x = Some w \<longleftrightarrow> (\<exists>a. parse_asset_name (ga_name x) = Some a \<and> an_product a = product_name p \<and>
      an_version a = v \<and> store \<in> {None, Some (an_store a)} \<and> w = VersionRow (product_name p) (an_store a) (an_version a))" for v x w
  proof (cases "parse_asset_name (ga_name x)")
    case (Some a)
    then show ?thesis by (cases store) (auto simp: asset_row_def)
  qed (simp add: asset_row_def)
  have rows: "w \<in> set (release_rows (product_name p) store r) \<longleftrightarrow> version_digits (normalize_tag (gr_tag r)) \<noteq> None \<and>
      (\<exists>x \<in> set (gr_assets r). asset_row (product_name p) (normalize_tag (gr_tag r)) store x = Some w)" for w r
    by (force simp: release_rows_def Let_def List.map_filter_def)
  show ?thesis unfolding list_versions_from_releases_def option.case set_sort set_remdups set_concat set_map
    by (simp only: sorted_sort distinct_sort distinct_remdups simp_thms set_eq_iff mem_Collect_eq UN_iff image_image rows row)
      (intro allI iffI; elim bexE exE conjE; intro exI bexI conjI; (assumption | simp))
qed

text \<open>What a search finds is an asset with exactly the requested properties.\<close>

lemma asset_matches_iff: "asset_matches pname v store os arch x \<longleftrightarrow> parse_asset_name (ga_name x) =
    Some \<lparr>an_product = pname, an_version = v, an_store = store, an_os = os, an_arch = arch\<rparr>"
proof (cases "parse_asset_name (ga_name x)")
  case (Some a)
  then show ?thesis by (cases a) (simp add: asset_matches_def)
qed (simp add: asset_matches_def)

lemma find_mem: "find P xs = Some x \<Longrightarrow> x \<in> set xs \<and> P x"
  by (auto simp: find_Some_iff)

lemma found_asset:
  assumes "find_product_asset rs pname v store os arch = Inr m"
  shows "am_version m = normalize_tag v \<and> (\<exists>r \<in> set rs. \<exists>x \<in> set (gr_assets r). normalize_tag (gr_tag r) = normalize_tag v \<and>
    am_url m = ga_url x \<and> parse_asset_name (ga_name x) =
      Some \<lparr>an_product = pname, an_version = normalize_tag v, an_store = store, an_os = os, an_arch = arch\<rparr>)"
proof -
  let ?c = "concat (map gr_assets (filter (\<lambda>r. normalize_tag (gr_tag r) = normalize_tag v) rs))"
  from assms obtain x where x: "find (asset_matches pname (normalize_tag v) store os arch) ?c = Some x"
    "am_version m = normalize_tag v" "am_url m = ga_url x"
    by (auto simp: find_product_asset_def Let_def split: option.splits)
  from x(1) have "x \<in> set ?c" "asset_matches pname (normalize_tag v) store os arch x" using find_mem by fast+
  then show ?thesis using x(2,3) unfolding asset_matches_iff by auto
qed

text \<open>A deployment that asks for the latest version gets one that is on offer for its product and store and
  that no other version on offer is above; an image that was not configured is the address of a
  published asset of that version for the operating system and architecture.\<close>

theorem latest_version_resolved:
  assumes "resolve_version (Inr rs) os arch d = Inr d'" and "needs_latest d"
  shows "\<exists>v store. store_of d = Inr store \<and> dep_version d' = Some v \<and>
    v \<in> vr_version ` set (list_versions_from_releases rs (Some (dep_product d)) (Some store)) \<and>
    (\<forall>r \<in> set (list_versions_from_releases rs (Some (dep_product d)) (Some store)). version_digits (vr_version r) \<le> version_digits v) \<and>
    (tx_srv_image (tx_service d) = None \<longrightarrow>
      (\<exists>r \<in> set rs. \<exists>x \<in> set (gr_assets r). tx_srv_image (tx_service d') = Some (ga_url x) \<and> parse_asset_name (ga_name x) =
        Some \<lparr>an_product = product_name (dep_product d), an_version = normalize_tag v, an_store = store, an_os = os, an_arch = arch\<rparr>))"
proof -
  from assms obtain store v d1 where s: "store_of d = Inr store" and v: "latest_version rs (dep_product d) store = Inr v"
    and t: "resolve_tx_image (Some rs) store os arch (d\<lparr>dep_version := Some v\<rparr>) = Inr d1"
    and l: "resolve_log_image (Some rs) store os arch d1 = Inr d'"
    by (auto simp: resolve_version_def res_simps Let_def)
  from v have m: "max_version (map vr_version (list_versions_from_releases rs (Some (dep_product d)) (Some store))) = Some v"
    by (auto simp: latest_version_def split: option.splits)
  have k: "dep_version d' = dep_version d1 \<and> tx_service d' = tx_service d1"
    using l by (auto simp: resolve_log_image_def res_simps split: option.splits if_splits)
  have i: "dep_version d1 = Some v \<and> (tx_srv_image (tx_service d) = None \<longrightarrow> (\<exists>m. find_product_asset rs (product_name (dep_product d)) v store os arch = Inr m \<and>
      tx_srv_image (tx_service d1) = Some (am_url m)))"
    using t by (auto simp: resolve_tx_image_def image_url_def res_simps split: if_splits)
  note mx = max_version_spec [of "map vr_version (list_versions_from_releases rs (Some (dep_product d)) (Some store))", unfolded m option.case set_map]
  have "\<exists>r \<in> set rs. \<exists>x \<in> set (gr_assets r). tx_srv_image (tx_service d') = Some (ga_url x) \<and> parse_asset_name (ga_name x) =
        Some \<lparr>an_product = product_name (dep_product d), an_version = normalize_tag v, an_store = store, an_os = os, an_arch = arch\<rparr>"
    if "tx_srv_image (tx_service d) = None"
  proof -
    from i that obtain a where a: "find_product_asset rs (product_name (dep_product d)) v store os arch = Inr a"
      "tx_srv_image (tx_service d') = Some (am_url a)" using k by auto
    show ?thesis using found_asset [OF a(1)] a(2) by metis
  qed
  moreover have "dep_version d' = Some v" using k i by simp
  moreover have "\<forall>r \<in> set (list_versions_from_releases rs (Some (dep_product d)) (Some store)). version_digits (vr_version r) \<le> version_digits v"
    using mx by simp
  ultimately show ?thesis using s mx by (intro exI conjI) (assumption | simp | blast)+
qed

text \<open>One release with one asset.\<close>

definition sample_asset :: github_asset where
  "sample_asset = \<lparr>ga_name = asset_file ''eloqkv'' ''1.2.2'' ''rocksdb'' ''ubuntu24'' ''amd64'', ga_url = ''https://x/a.tar.gz'', ga_digest = None\<rparr>"

definition sample_releases :: "github_release list" where
  "sample_releases = [\<lparr>gr_tag = ''v1.2.2'', gr_draft = False, gr_prerelease = False, gr_assets = [sample_asset]\<rparr>]"

definition latest_deployment :: deployment where
  "latest_deployment = (bare_deployment ''c'' ''/opt'' (bare_service [''h:6379''] None None))\<lparr>dep_version := Some ''latest''\<rparr>"

lemma sample_name: "parse_asset_name (ga_name sample_asset) = Some \<lparr>an_product = ''eloqkv'', an_version = ''1.2.2'',
    an_store = ''rocksdb'', an_os = ''ubuntu24'', an_arch = ''amd64''\<rparr>"
  unfolding sample_asset_def github_asset.simps by (rule asset_file_reads_back) (simp_all add: is_dash_def)

lemma sample_resolved: "\<exists>d'. resolve_version (Inr sample_releases) ''ubuntu24'' ''amd64'' latest_deployment = Inr d'"
proof -
  have n: "normalize_tag ''v1.2.2'' = ''1.2.2''" "normalize_tag ''1.2.2'' = ''1.2.2''" by code_simp+
  have v: "version_digits ''1.2.2'' \<noteq> None"
    by (simp add: version_digits_def is_dot_def parse_u32_def parse_below_def is_digit_def)
  have l: "list_versions_from_releases sample_releases (Some EloqKV) (Some ''rocksdb'') = [VersionRow ''eloqkv'' ''rocksdb'' ''1.2.2'']"
    by (simp add: list_versions_from_releases_def sample_releases_def release_rows_def n v sample_name asset_row_def List.map_filter_def)
  have f: "find_product_asset sample_releases ''eloqkv'' ''1.2.2'' ''rocksdb'' ''ubuntu24'' ''amd64'' =
      Inr \<lparr>am_version = ''1.2.2'', am_url = ga_url sample_asset, am_digest = ga_digest sample_asset\<rparr>"
    by (simp add: find_product_asset_def sample_releases_def n asset_matches_iff sample_name)
  have k: "needs_latest latest_deployment" by code_simp
  have d: "dep_storage_service latest_deployment = None" "dep_product latest_deployment = EloqKV" "dep_log_service latest_deployment = None"
    by (simp_all add: latest_deployment_def)
  show ?thesis
    by (simp add: resolve_version_def store_of_def k d latest_version_def l max_version_def resolve_tx_image_def image_url_def f resolve_log_image_def)
qed

theorem latest_version_resolved_witness:
  "\<exists>d' v. resolve_version (Inr sample_releases) ''ubuntu24'' ''amd64'' latest_deployment = Inr d' \<and> dep_version d' = Some v \<and>
     v \<in> vr_version ` set (list_versions_from_releases sample_releases (Some EloqKV) (Some ''rocksdb''))"
proof -
  obtain d' where d: "resolve_version (Inr sample_releases) ''ubuntu24'' ''amd64'' latest_deployment = Inr d'" using sample_resolved by blast
  have k: "needs_latest latest_deployment" by code_simp
  have s: "store_of latest_deployment = Inr ''rocksdb''" "dep_product latest_deployment = EloqKV" by (simp_all add: store_of_def latest_deployment_def)
  show ?thesis using latest_version_resolved [OF d k] d unfolding s by auto
qed

end
