(* ===== verification/Cmd_State.thy ===== *)
theory Cmd_State
  imports Releases Cluster_Lock Reconcile_Plan Topology_Update Tx_Ctl
begin

text \<open>
  What the commands of \<open>cli/cmd_base.rs\<close> run in: the world they see (\<open>exec_env\<close>), the state they change
  (\<open>exec_state\<close>: the state manager, the lock files, and a log of what was done), and the sequencing of
  operations that can fail or not return. The task contexts come from the task groups.
\<close>

section \<open>World and state\<close>

text \<open>
  \<open>xe_load\<close> is \<open>DeployConfig::load\<close> of a topology file, \<open>xe_read_yaml\<close> the parser of saved topologies,
  \<open>xe_group\<close> the builder of the task group of a command, \<open>xe_exec\<close> the tasks' executors, and \<open>xe_effect\<close> what
  the started tasks do to the database and the files. \<open>xe_lock_io\<close> and \<open>xe_unlock\<close> say which file operations
  on the lock work. Numbers are the run, counted from the start of
  the command, as the hosts answer differently each time.
\<close>

record 'x exec_env =
  xe_home :: string
  xe_load :: "string \<Rightarrow> deploy_config res"
  xe_read_yaml :: "string \<Rightarrow> deploy_config res"
  xe_load_legacy :: "string \<Rightarrow> deploy_config res"
  xe_to_yaml :: "deploy_config \<Rightarrow> string res"
  xe_to_value :: "deploy_config \<Rightarrow> yaml res"
  xe_now :: "nat \<Rightarrow> timestamp"
  xe_stamp :: string
  xe_pid :: u32
  xe_alive :: "u32 \<Rightarrow> bool"
  xe_lock_io :: "nat \<Rightarrow> lock_io"
  xe_unlock :: bool
  xe_os :: string
  xe_arch :: string
  xe_releases :: "github_release list res"
  xe_path_exists :: "string \<Rightarrow> bool"
  xe_write :: "string \<Rightarrow> string \<Rightarrow> unit res"
  xe_gen_node :: "deployment \<Rightarrow> string \<Rightarrow> string \<Rightarrow> unit res"
  xe_self_update :: "string res"
  xe_group :: "nat \<Rightarrow> sub_command \<Rightarrow> deploy_config \<Rightarrow> 'x task_context res"
  xe_downloads :: "deploy_config \<Rightarrow> (task_id \<times> 'x task_instance) list res"
  xe_monitor_update :: "sub_command \<Rightarrow> deploy_config \<Rightarrow> update_monitor_component \<Rightarrow> 'x task_context res"
  xe_exec :: "nat \<Rightarrow> 'x task_instance \<Rightarrow> task_result option"
  xe_effect :: "nat \<Rightarrow> 'x task_instance list \<Rightarrow> mgr_state \<Rightarrow> mgr_state"
  xe_task_json :: "task_id \<Rightarrow> string"
  xe_read_task :: "string \<Rightarrow> task_id option"
  xe_open :: "string \<Rightarrow> unit res"
  xe_ping :: "nat \<Rightarrow> string \<Rightarrow> u16 \<Rightarrow> nat \<Rightarrow> ping_answer"

record deploy_abstract =
  da_name :: string
  da_product :: product
  da_store :: string
  da_version :: string
  da_user :: string

text \<open>What was done, in order. Tables and lists are kept as the rows that are laid out.\<close>

datatype event =
    Printed string
  | Clusters "deploy_abstract list"
  | Versions "version_row list"
  | Statuses "summary_row list"
  | Snapshots "(string \<times> timestamp \<times> string \<times> string \<times> string \<times> string) list"
  | Started string "task_id list"
  | Generated string string
  | Wrote string string
  | UploadsRemoved string

record exec_state =
  xs_mgr :: mgr_state
  xs_locks :: lock_files
  xs_run :: nat
  xs_log :: "event list"

text \<open>An operation: None when it does not return.\<close>

type_synonym 'a cmd = "exec_state \<Rightarrow> ('a res \<times> exec_state) option"

definition returnC :: "'a \<Rightarrow> 'a cmd" where
  "returnC a s = Some (Inr a, s)"

definition failC :: "err \<Rightarrow> 'a cmd" where
  "failC e s = Some (Inl e, s)"

definition liftC :: "'a res \<Rightarrow> 'a cmd" where
  "liftC r s = Some (r, s)"

definition bindC :: "'a cmd \<Rightarrow> ('a \<Rightarrow> 'b cmd) \<Rightarrow> 'b cmd" where
  "bindC m f s = (case m s of
     None \<Rightarrow> None
   | Some (Inl e, s') \<Rightarrow> Some (Inl e, s')
   | Some (Inr a, s') \<Rightarrow> f a s')"

definition seqC :: "unit cmd \<Rightarrow> 'b cmd \<Rightarrow> 'b cmd" where
  "seqC m f = bindC m (\<lambda>_. f)"

definition whenC :: "bool \<Rightarrow> unit cmd \<Rightarrow> unit cmd" where
  "whenC b m = (if b then m else returnC ())"

fun eachC :: "('a \<Rightarrow> unit cmd) \<Rightarrow> 'a list \<Rightarrow> unit cmd" where
  "eachC f [] = returnC ()"
| "eachC f (x # xs) = seqC (f x) (eachC f xs)"

definition log_event :: "event \<Rightarrow> unit cmd" where
  "log_event e s = Some (Inr (), s\<lparr>xs_log := xs_log s @ [e]\<rparr>)"

definition print_line :: "string \<Rightarrow> unit cmd" where
  "print_line l = log_event (Printed l)"

definition print_lines :: "string list \<Rightarrow> unit cmd" where
  "print_lines ls = eachC print_line ls"

section \<open>The state manager\<close>

definition load_cluster :: "'x exec_env \<Rightarrow> string \<Rightarrow> deploy_config option cmd" where
  "load_cluster env cluster s = Some (load_deployment_from_state (xe_read_yaml env) cluster (xs_mgr s), s)"

definition not_found :: "string \<Rightarrow> err" where
  "not_found cluster = Err (''cluster '' @ cluster @ '' not found'')"

definition require_cluster :: "'x exec_env \<Rightarrow> string \<Rightarrow> deploy_config cmd" where
  "require_cluster env cluster = bindC (load_cluster env cluster) (\<lambda>c. case c of
     None \<Rightarrow> failC (not_found cluster) | Some cfg \<Rightarrow> returnC cfg)"

definition save_config :: "'x exec_env \<Rightarrow> deploy_config \<Rightarrow> bool \<Rightarrow> unit cmd" where
  "save_config env cfg upsrt s =
     (case save_deployment_config (xe_home env) (xe_to_yaml env) (xe_now env (xs_run s)) cfg upsrt (xs_mgr s) of
        Inl e \<Rightarrow> Some (Inl e, s)
      | Inr st \<Rightarrow> Some (Inr (), s\<lparr>xs_mgr := st\<rparr>))"

definition modify_mgr :: "(mgr_state \<Rightarrow> mgr_state) \<Rightarrow> unit cmd" where
  "modify_mgr f s = Some (Inr (), s\<lparr>xs_mgr := f (xs_mgr s)\<rparr>)"

section \<open>Running tasks\<close>

text \<open>The row that \<open>post_task_execute!\<close> saves for a task that ended.\<close>

definition task_row :: "'x exec_env \<Rightarrow> nat \<Rightarrow> string \<Rightarrow> string \<Rightarrow> 'x task_instance \<Rightarrow> task_result \<Rightarrow> status_row" where
  "task_row env n cluster grp t r = \<lparr>tsr_cluster = cluster, tsr_task = xe_task_json env (ti_identifier t), tsr_command = grp,
     tsr_host = snd (snd (ssh_conn_tuple (ti_host t))), tsr_status = (if is_success r then 0 else 1),
     tsr_created = xe_now env n, tsr_updated = xe_now env n\<rparr>"

definition save_rows :: "'x exec_env \<Rightarrow> nat \<Rightarrow> string \<Rightarrow> string \<Rightarrow> 'x task_instance list \<Rightarrow> mgr_state \<Rightarrow> mgr_state" where
  "save_rows env n cluster grp ts st = fold (\<lambda>t st. case xe_exec env n t of
     None \<Rightarrow> st | Some r \<Rightarrow> save_task_status (task_row env n cluster grp t r) st) ts st"

definition run_context :: "'x exec_env \<Rightarrow> 'x task_context \<Rightarrow> deploy_config \<Rightarrow> bool \<Rightarrow> task_result_pair list cmd" where
  "run_context env ctx cfg err_brk s =
     (let n = xs_run s in case run_all_tasks (xe_exec env n) err_brk ctx of
        (started, r) \<Rightarrow> Some (r, s\<lparr>xs_run := Suc n, xs_log := xs_log s @ [Started (task_group ctx) (map ti_identifier started)],
          xs_mgr := save_rows env n (cluster_name (cfg_deployment cfg)) (task_group ctx) started (xe_effect env n started (xs_mgr s))\<rparr>))"

text \<open>The keys of \<open>init_task_group\<close>.\<close>

definition group_names :: "string list" where
  "group_names = [''deploy'', ''install'', ''start'', ''stop'', ''restart'', ''status'', ''exec_cmd'', ''run-deps'', ''monitor'',
     ''log-srv'', ''update'', ''update-conf'', ''launch'', ''remove'', ''demo'', ''check'', ''backup'', ''failover'', ''scale'', ''scalelog'']"

definition task_context_of :: "'x exec_env \<Rightarrow> nat \<Rightarrow> sub_command \<Rightarrow> deploy_config \<Rightarrow> 'x task_context res" where
  "task_context_of env n cmd cfg =
     (if command_name cmd \<in> set group_names then xe_group env n cmd cfg
      else Inr \<lparr>task_group = command_name cmd, barrier = None, executable = []\<rparr>)"

definition run_tasks_with_error_break :: "'x exec_env \<Rightarrow> sub_command \<Rightarrow> deploy_config \<Rightarrow> bool \<Rightarrow> task_result_pair list cmd" where
  "run_tasks_with_error_break env cmd cfg err_brk s =
     bindC (liftC (task_context_of env (xs_run s) cmd cfg)) (\<lambda>ctx. run_context env ctx cfg err_brk) s"

fun is_remove :: "sub_command \<Rightarrow> bool" where
  "is_remove (CmdRemove _ _) = True"
| "is_remove _ = False"

definition run_tasks :: "'x exec_env \<Rightarrow> sub_command \<Rightarrow> deploy_config \<Rightarrow> task_result_pair list cmd" where
  "run_tasks env cmd cfg = run_tasks_with_error_break env cmd cfg (\<not> is_remove cmd)"

section \<open>Rules\<close>

lemma bindC_simps [simp]:
  "bindC (returnC a) f = f a" "bindC (failC e) f = failC e" "bindC (liftC (Inr a)) f = f a" "bindC (liftC (Inl e)) f = failC e"
  by (simp_all add: fun_eq_iff bindC_def returnC_def failC_def liftC_def)

lemma seqC_simps [simp]: "seqC (returnC u) f = f" "seqC (failC e) f = failC e"
  by (simp_all add: seqC_def)

lemma whenC_simps [simp]: "whenC True m = m" "whenC False m = returnC ()"
  by (simp_all add: whenC_def)

lemma bindC_assoc: "bindC (bindC m f) g = bindC m (\<lambda>a. bindC (f a) g)"
  by (auto simp: fun_eq_iff bindC_def split: option.split sum.split prod.split)

lemma bindC_Some: "bindC m f s = Some (r, s') \<longleftrightarrow>
   (\<exists>e. m s = Some (Inl e, s') \<and> r = Inl e) \<or> (\<exists>a s1. m s = Some (Inr a, s1) \<and> f a s1 = Some (r, s'))"
  by (auto simp: bindC_def split: option.splits sum.splits)

lemma bindC_Inr: "m s = Some (Inr a, s1) \<Longrightarrow> bindC m f s = f a s1"
  and bindC_Inl: "m s = Some (Inl e, s1) \<Longrightarrow> bindC m f s = Some (Inl e, s1)"
  by (simp_all add: bindC_def)

end
