(* ===== verification/Cmd_Config.thy ===== *)
theory Cmd_Config
  imports Cmd_State
begin

text \<open>
  Where a command gets its configuration from (\<open>get_config\<close> in \<open>cli/cmd_base.rs\<close>): a topology file, the
  saved one, the demo topology that is completed from the arguments, or the saved one with a monitor
  component added or changed.
\<close>

section \<open>Checks\<close>

definition validate_metrics_config :: "deploy_config \<Rightarrow> unit res" where
  "validate_metrics_config cfg = (case dep_monitor (cfg_deployment cfg) of
     Some m \<Rightarrow> if mon_eloq_metrics m = None
       then Inl (Err ''Monitor configuration is provided but eloq_metrics is not specified'') else Inr ()
   | None \<Rightarrow> Inr ())"

definition check_keypair :: "'x exec_env \<Rightarrow> deploy_config \<Rightarrow> unit res" where
  "check_keypair env cfg = (case auth_keypair (conn_auth (cfg_connection cfg)) of
     Some k \<Rightarrow> if xe_path_exists env k then Inr () else Inl (Err (''ssh key '' @ k @ '' not exist''))
   | None \<Rightarrow> Inr ())"

definition fetched :: "'x exec_env \<Rightarrow> github_release list res" where
  "fetched env = bindE (xe_releases env) (\<lambda>rs. Inr (published rs))"

definition resolve :: "'x exec_env \<Rightarrow> deploy_config \<Rightarrow> deploy_config res" where
  "resolve env cfg = bindE (resolve_version (fetched env) (xe_os env) (xe_arch env) (cfg_deployment cfg)) (\<lambda>d.
     Inr (with_deployment cfg d))"

section \<open>A monitor component\<close>

definition monitor_host_of :: "monitor \<Rightarrow> string option" where
  "monitor_host_of m = (case mon_prometheus m of Some p \<Rightarrow> Some (prom_host p)
     | None \<Rightarrow> (case mon_grafana m of Some g \<Rightarrow> Some (graf_host g)
     | None \<Rightarrow> map_option am_host (mon_alertmanager m)))"

definition monitor_default_host :: "deployment \<Rightarrow> string" where
  "monitor_default_host d = (case Option.bind (dep_monitor d) monitor_host_of of
     Some h \<Rightarrow> h
   | None \<Rightarrow> (case tx_host_ports (tx_service d) of hp # _ \<Rightarrow> hd (split_on is_colon hp) | [] \<Rightarrow> ''127.0.0.1''))"

definition empty_monitor :: monitor where
  "empty_monitor = \<lparr>mon_data_dir = None, mon_prometheus = None, mon_alertmanager = None, mon_grafana = None,
     mon_node_exporter = None, mon_eloq_metrics = None\<rparr>"

definition or_default :: "'a \<Rightarrow> 'a option \<Rightarrow> 'a" where
  "or_default a v = (case v of None \<Rightarrow> a | Some x \<Rightarrow> x)"

definition default_grafana :: "string \<Rightarrow> grafana" where
  "default_grafana host = \<lparr>graf_download_url = ''https://dl.grafana.com/oss/release/grafana-9.3.6.linux-amd64.tar.gz'',
     graf_port = 3301, graf_host = host\<rparr>"

definition default_prometheus :: "string \<Rightarrow> prometheus" where
  "default_prometheus host = \<lparr>prom_download_url =
       ''https://github.com/prometheus/prometheus/releases/download/v2.42.0/prometheus-2.42.0.linux-amd64.tar.gz'',
     prom_port = 9500, prom_host = host, retention_time = None, retention_size = None, remote_write_urls = None,
     alertmanager_targets = None, alert_thresholds_of = None\<rparr>"

definition webhook_adapter_url :: string where
  "webhook_adapter_url = ''https://github.com/bougou/alertmanager-webhook-adapter/releases/download/v1.1.11/alertmanager-webhook-adapter-v1.1.11-linux-amd64''"

definition default_alertmanager :: "string \<Rightarrow> alertmanager" where
  "default_alertmanager host = \<lparr>am_download_url =
       ''https://github.com/prometheus/alertmanager/releases/download/v0.32.1/alertmanager-0.32.1.linux-amd64.tar.gz'',
     am_port = 9093, am_host = host, am_feishu_robot_urls = None, am_webhook_adapter_download_url = webhook_adapter_url,
     am_webhook_adapter_port = 18080\<rparr>"

definition default_exporter :: exporter where
  "default_exporter = \<lparr>exporter_url =
     ''https://github.com/prometheus/node_exporter/releases/download/v1.5.0/node_exporter-1.5.0.linux-amd64.tar.gz'', exporter_port = 9200\<rparr>"

definition set_robots :: "string list \<Rightarrow> alertmanager \<Rightarrow> alertmanager" where
  "set_robots urls a = (if urls = [] then a else a\<lparr>am_feishu_robot_urls := Some urls\<rparr>)"

fun update_component :: "string \<Rightarrow> string \<Rightarrow> string option \<Rightarrow> string list \<Rightarrow> monitor \<Rightarrow> update_monitor_component \<Rightarrow> monitor" where
  "update_component host prom_pref url robots m UpdGrafana =
     (let g = or_default (default_grafana host) (mon_grafana m)
      in m\<lparr>mon_grafana := Some (case url of Some u \<Rightarrow> g\<lparr>graf_download_url := u\<rparr> | None \<Rightarrow> g)\<rparr>)"
| "update_component host prom_pref url robots m UpdPrometheus =
     (let p = or_default (default_prometheus host) (mon_prometheus m)
      in m\<lparr>mon_prometheus := Some (case url of Some u \<Rightarrow> p\<lparr>prom_download_url := u\<rparr> | None \<Rightarrow> p)\<rparr>)"
| "update_component host prom_pref url robots m UpdAlertmanager =
     (let a = or_default (default_alertmanager prom_pref) (mon_alertmanager m)
      in m\<lparr>mon_alertmanager := Some (set_robots robots (case url of Some u \<Rightarrow> a\<lparr>am_download_url := u\<rparr> | None \<Rightarrow> a))\<rparr>)"
| "update_component host prom_pref url robots m UpdPrometheusalert =
     (let a = or_default (default_alertmanager prom_pref) (mon_alertmanager m)
      in m\<lparr>mon_alertmanager := Some (set_robots robots (case url of Some u \<Rightarrow> a\<lparr>am_webhook_adapter_download_url := u\<rparr> | None \<Rightarrow> a))\<rparr>)"
| "update_component host prom_pref url robots m UpdNodeExporter =
     (let e = or_default default_exporter (mon_node_exporter m)
      in m\<lparr>mon_node_exporter := Some (case url of Some u \<Rightarrow> e\<lparr>exporter_url := u\<rparr> | None \<Rightarrow> e)\<rparr>)"

definition configure_monitor_update :: "update_monitor_component \<Rightarrow> string option \<Rightarrow> string list \<Rightarrow> deploy_config \<Rightarrow> deploy_config" where
  "configure_monitor_update component url robots cfg =
     (let d = cfg_deployment cfg;
          host = monitor_default_host d;
          prom_pref = (case Option.bind (dep_monitor d) mon_prometheus of Some p \<Rightarrow> prom_host p | None \<Rightarrow> host);
          m = or_default empty_monitor (dep_monitor d)
      in with_deployment cfg (d\<lparr>dep_monitor := Some (update_component host prom_pref url robots m component)\<rparr>))"

section \<open>The demo cluster\<close>

fun provider_display :: "storage_provider \<Rightarrow> string" where
  "provider_display RocksdbProvider = ''rocksdb''"
| "provider_display EloqDSSProvider = ''eloqdss''"

definition empty_storage :: storage_service where
  "empty_storage = \<lparr>st_dynamodb = None, st_rocksdb = None, st_eloqdss = None\<rparr>"

definition plain_eloq_store :: "u32 option \<Rightarrow> string option \<Rightarrow> eloq_store_config" where
  "plain_eloq_store workers paths = \<lparr>es_worker_num = workers, es_data_path_list = paths, es_open_files_limit = None,
     es_data_page_restart_interval = None, es_index_page_restart_interval = None, es_init_page_count = None,
     es_skip_verify_checksum = None, es_buffer_pool_size = None, es_manifest_limit = None, es_io_queue_size = None,
     es_max_inflight_write = None, es_max_write_batch_pages = None, es_buf_ring_size = None, es_coroutine_stack_size = None,
     es_num_retained_archives = None, es_archive_interval_secs = None, es_max_archive_tasks = None, es_file_amplify_factor = None,
     es_local_space_limit = None, es_reserve_space_ratio = None, es_data_page_size = None, es_pages_per_file_shift = None,
     es_overflow_pointers = None, es_enable_compression = None, es_max_upload_batch = None, es_standby_max_concurrency = None,
     es_cloud_store_path = None, es_data_append_mode = None, es_cloud_config = None\<rparr>"

fun demo_storage :: "storage_provider \<Rightarrow> storage_service option \<Rightarrow> storage_service" where
  "demo_storage RocksdbProvider st = (or_default empty_storage st)\<lparr>st_rocksdb := Some (LOCAL \<lparr>rl_path = Some ''/tmp''\<rparr>)\<rparr>"
| "demo_storage EloqDSSProvider st =
     (let (workers, paths) = (case Option.bind st st_eloqdss of
            Some dss \<Rightarrow> (case dss_backend_of dss of EloqStore c \<Rightarrow> (es_worker_num c, es_data_path_list c))
          | None \<Rightarrow> (Some 4, Some ''/tmp''))
      in (or_default empty_storage st)\<lparr>st_eloqdss := Some \<lparr>dss_backend_of = EloqStore (plain_eloq_store workers paths),
           dss_peer_host_ports = None, dss_mode_of = Internal\<rparr>\<rparr>)"

text \<open>The process id is appended to the first data directory of the first log node.\<close>

definition demo_wal :: "u32 \<Rightarrow> log_service \<Rightarrow> log_service res" where
  "demo_wal pid l = (case log_nodes l of
     n # ns \<Rightarrow> (case lsn_data_dir n of
       dir # dirs \<Rightarrow> Inr (l\<lparr>log_nodes := n\<lparr>lsn_data_dir := (dir @ show_u32 pid) # dirs\<rparr> # ns\<rparr>)
     | [] \<Rightarrow> Inl (Panic ''called `Option::unwrap()` on a `None` value''))
   | [] \<Rightarrow> Inl (Panic ''called `Option::unwrap()` on a `None` value''))"

definition demo_log :: "u32 \<Rightarrow> bool \<Rightarrow> log_service option \<Rightarrow> log_service option res" where
  "demo_log pid joint l = (if joint then Inr None
     else (case l of None \<Rightarrow> Inr None | Some x \<Rightarrow> bindE (demo_wal pid x) (\<lambda>y. Inr (Some y))))"

definition demo_deployment :: "u32 \<Rightarrow> storage_provider \<Rightarrow> string \<Rightarrow> bool \<Rightarrow> bool \<Rightarrow> deployment \<Rightarrow> deployment res" where
  "demo_deployment pid store version no_monitor joint d =
     bindE (demo_log pid joint (dep_log_service d)) (\<lambda>l.
       let d = d\<lparr>dep_storage_service := Some (demo_storage store (dep_storage_service d)), dep_log_service := l,
         dep_monitor := (if no_monitor then None else dep_monitor d)\<rparr>
       in case dep_monitor d of
            Some m \<Rightarrow> if mon_eloq_metrics m = None
              then Inl (Err ''Monitor configuration is provided but eloq_metrics is not specified'')
              else Inr (d\<lparr>dep_version := Some version\<rparr>)
          | None \<Rightarrow> Inr (d\<lparr>dep_version := Some version\<rparr>))"

definition demo_rename :: "storage_provider \<Rightarrow> bool \<Rightarrow> deployment \<Rightarrow> deployment" where
  "demo_rename store unlimited d = d\<lparr>cluster_name := cluster_name d @ ''-'' @ provider_display store,
     dep_hardware := (if unlimited then None else dep_hardware d)\<rparr>"

definition gen_demo_config :: "'x exec_env \<Rightarrow> product \<Rightarrow> storage_provider \<Rightarrow> string \<Rightarrow> bool \<Rightarrow> bool \<Rightarrow> bool \<Rightarrow> deploy_config cmd" where
  "gen_demo_config env prd store version unlimited no_monitor joint =
     bindC (liftC (bindE (xe_load env (xe_home env @ ''/config/demo-'' @ product_display prd @ ''.yaml'')) (\<lambda>cfg.
       bindE (demo_deployment (xe_pid env) store version no_monitor joint (cfg_deployment cfg)) (\<lambda>d.
       bindE (resolve env (with_deployment cfg d)) (\<lambda>cfg'.
         Inr (with_deployment cfg' (demo_rename store unlimited (cfg_deployment cfg')))))))) (\<lambda>cfg.
     seqC (save_config env cfg False) (returnC cfg))"

section \<open>The configuration of a command\<close>

definition load_valid :: "'x exec_env \<Rightarrow> string \<Rightarrow> deploy_config res" where
  "load_valid env file = bindE (xe_load env file) (\<lambda>cfg. bindE (validate_metrics_config cfg) (\<lambda>_. Inr cfg))"

definition saved_valid :: "'x exec_env \<Rightarrow> string \<Rightarrow> deploy_config cmd" where
  "saved_valid env cluster = bindC (require_cluster env cluster) (\<lambda>cfg. bindC (liftC (validate_metrics_config cfg)) (\<lambda>_. returnC cfg))"

definition forget_images :: "deployment \<Rightarrow> deployment" where
  "forget_images d = d\<lparr>tx_service := (tx_service d)\<lparr>tx_srv_image := None\<rparr>,
     dep_log_service := map_option (log_srv_image_update (\<lambda>_. None)) (dep_log_service d)\<rparr>"

definition new_version_config :: "'x exec_env \<Rightarrow> string \<Rightarrow> deploy_config \<Rightarrow> deploy_config res" where
  "new_version_config env v cfg = resolve env (with_deployment cfg (forget_images ((cfg_deployment cfg)\<lparr>dep_version := Some v\<rparr>)))"

definition check_update_args :: "string \<Rightarrow> update_args \<Rightarrow> unit res" where
  "check_update_args cluster a =
     (if up_download_only a \<and> up_version a = None
      then Inl (Err (''`update --download-only` requires a target version. Use `eloqctl update '' @ cluster @ '' <version> --download-only`''))
      else if (case up_version a of Some v \<Rightarrow> eq_ignore_case v ''download-only'' | None \<Rightarrow> False)
      then Inl (Err (''`download-only` is a flag, not a version. Use `eloqctl update '' @ cluster @ '' <version> --download-only`''))
      else Inr ())"

definition launch_config :: "'x exec_env \<Rightarrow> string \<Rightarrow> deploy_config cmd" where
  "launch_config env file = bindC (liftC (bindE (load_valid env file) (resolve env))) (\<lambda>cfg.
     seqC (save_config env cfg True) (returnC cfg))"

definition update_config :: "'x exec_env \<Rightarrow> string \<Rightarrow> update_args \<Rightarrow> deploy_config cmd" where
  "update_config env cluster a =
     bindC (liftC (check_update_args cluster a)) (\<lambda>_.
     bindC (require_cluster env cluster) (\<lambda>cfg.
     bindC (liftC (case up_version a of None \<Rightarrow> Inr cfg | Some v \<Rightarrow> new_version_config env v cfg)) (\<lambda>cfg.
     bindC (liftC (validate_metrics_config cfg)) (\<lambda>_. returnC cfg))))"

definition monitor_config :: "'x exec_env \<Rightarrow> string option \<Rightarrow> monitor_command \<Rightarrow> deploy_config cmd" where
  "monitor_config env parent command =
     bindC (liftC (monitor_cluster parent command)) (\<lambda>cluster.
     bindC (require_cluster env cluster) (\<lambda>cfg.
       let cfg = (case command of MonitorUpdate _ component url robots \<Rightarrow> configure_monitor_update component url robots cfg | _ \<Rightarrow> cfg)
       in bindC (liftC (validate_metrics_config cfg)) (\<lambda>_. returnC cfg)))"

fun get_config :: "'x exec_env \<Rightarrow> sub_command \<Rightarrow> deploy_config cmd" where
  "get_config env (CmdPlan f) = liftC (load_valid env f)"
| "get_config env (CmdApply f) = liftC (load_valid env f)"
| "get_config env (CmdDeploy f) = launch_config env f"
| "get_config env (CmdLaunch f _) = launch_config env f"
| "get_config env (CmdDemo p store version _ unlimited no_monitor joint) = gen_demo_config env p store version unlimited no_monitor joint"
| "get_config env (CmdInstall c) = saved_valid env c"
| "get_config env (CmdStop a) = saved_valid env (st_cluster a)"
| "get_config env (CmdStart c _) = saved_valid env c"
| "get_config env (CmdLogService c _) = saved_valid env c"
| "get_config env (CmdRestart c) = saved_valid env c"
| "get_config env (CmdUpdateConf a) = saved_valid env (uc_cluster a)"
| "get_config env (CmdStatus c _ _ _ _) = saved_valid env c"
| "get_config env (CmdExport c _) = saved_valid env c"
| "get_config env (CmdRemove c _) = saved_valid env c"
| "get_config env (CmdConnect c) = saved_valid env c"
| "get_config env (CmdBackup c _) = saved_valid env c"
| "get_config env (CmdFailover c _ _ _ _ _) = saved_valid env c"
| "get_config env (CmdScale a) = saved_valid env (sc_cluster a)"
| "get_config env (CmdScaleLog c _ _ _) = saved_valid env c"
| "get_config env (CmdRunDeps f) = liftC (load_valid env f)"
| "get_config env (CmdCheck f) = liftC (load_valid env f)"
| "get_config env (CmdExec _ f) = liftC (load_valid env f)"
| "get_config env (CmdUpdate a) = (case up_cluster a of
     Some cluster \<Rightarrow> update_config env cluster a
   | None \<Rightarrow> failC (Err ''unexpected command: update''))"
| "get_config env (CmdMonitor parent command) = monitor_config env parent command"
| "get_config env cmd = failC (Err (''unexpected command: '' @ command_name cmd))"

end
