(* ===== verification/Cmd_Exec.thy ===== *)
theory Cmd_Exec
  imports Cmd_Config
begin

text \<open>
  The execution of a command (\<open>run_impl\<close>, \<open>run_impl_default\<close>, \<open>run_update_command\<close>, \<open>apply_topology\<close>,
  \<open>finishing\<close> in \<open>cli/cmd_base.rs\<close>): the lock, the checks before it, the configuration, the tasks, what is
  printed and saved afterwards, and the check of the result. Log messages are left out, and the
  printer of task results is not modelled. The file operations on the lock may fail, as given by
  \<open>xe_lock_io\<close> and \<open>xe_unlock\<close>; those on the state database and the topology files do not fail.
\<close>

section \<open>Looking at the cluster\<close>

definition observe_cluster :: "'x exec_env \<Rightarrow> deploy_config \<Rightarrow> u16 option \<Rightarrow> observed_cluster cmd" where
  "observe_cluster env cfg wait =
     (let cluster = cluster_name (cfg_deployment cfg) in
      bindC (run_tasks_with_error_break env (CmdStatus cluster None None wait False) cfg False) (\<lambda>rs.
        liftC (from_task_results cluster rs)))"

definition cluster_has_running_tx :: "'x exec_env \<Rightarrow> deploy_config \<Rightarrow> bool cmd" where
  "cluster_has_running_tx env cfg = bindC (observe_cluster env cfg None) (\<lambda>oc. returnC (has_running_service oc ''tx''))"

definition probe_node :: "'x exec_env \<Rightarrow> nat \<Rightarrow> deploy_config \<Rightarrow> string \<Rightarrow> string \<Rightarrow> unit res option" where
  "probe_node env n cfg operation node =
     (let (host, port_str) = (case split_once is_colon node of Some hp \<Rightarrow> hp | None \<Rightarrow> (node, ''6379''));
          p = (case parse_u16 port_str of Some p \<Rightarrow> p | None \<Rightarrow> 6379);
          (eh, ep) = cfg_service_endpoint cfg host p
      in map_option (\<lambda>r. case r of
             Inr _ \<Rightarrow> Inr ()
           | Inl (Err e) \<Rightarrow> Inl (Err (''cannot '' @ operation @ '': node '' @ node @ '' is not serving Redis after waiting: '' @ e))
           | Inl (Panic e) \<Rightarrow> Inl (Panic e))
           (probe (xe_open env) (xe_ping env n eh ep) \<lparr>pr_host = eh, pr_port = ep, pr_password = redis_password cfg None,
              pr_tls = tls_enabled (cfg_deployment cfg)\<rparr> 10))"

text \<open>\<open>join_all\<close> waits for every probe; then the first error counts.\<close>

definition probe_all :: "'x exec_env \<Rightarrow> deploy_config \<Rightarrow> string \<Rightarrow> string list \<Rightarrow> unit cmd" where
  "probe_all env cfg operation nodes s =
     map_option (\<lambda>rs. (checkE (\<lambda>r. r) rs, s)) (those (map (probe_node env (xs_run s) cfg operation) nodes))"

definition not_healthy :: "observed_cluster \<Rightarrow> bool" where
  "not_healthy oc \<longleftrightarrow> has_errors oc \<or> unavailable_services oc \<noteq> []"

definition ensure_critical_services_healthy :: "'x exec_env \<Rightarrow> deploy_config \<Rightarrow> string \<Rightarrow> unit cmd" where
  "ensure_critical_services_healthy env cfg operation =
     bindC (observe_cluster env cfg (Some 30)) (\<lambda>oc.
       if not_healthy oc
       then seqC (print_lines (observed_lines oc)) (failC (Err (''cannot '' @ operation @ '': live cluster '' @
         quoted (cluster_name (cfg_deployment cfg)) @ '' is not healthy'')))
       else probe_all env cfg operation
         (get_host_port_list (cfg_deployment cfg) EloqStandby @ get_host_port_list (cfg_deployment cfg) EloqVoter))"

section \<open>Requests with nothing to do\<close>

definition noop_of :: "string list \<Rightarrow> string list \<Rightarrow> string list \<Rightarrow> string \<Rightarrow> string \<Rightarrow> string option" where
  "noop_of existing add remove msg_add msg_remove =
     (if add \<noteq> [] \<and> list_all (\<lambda>n. n \<in> set existing) add then Some msg_add
      else if remove \<noteq> [] \<and> list_all (\<lambda>n. n \<notin> set existing) remove then Some msg_remove else None)"

fun idempotent_noop_message :: "sub_command \<Rightarrow> deploy_config \<Rightarrow> string option" where
  "idempotent_noop_message (CmdScale a) cfg = (let d = cfg_deployment cfg in
     noop_of (get_host_port_list d EloqTx @ get_host_port_list d EloqStandby @ get_host_port_list d EloqVoter)
       (sc_add_nodes a) (sc_remove_nodes a) ''All requested nodes already exist; scale add is a no-op.''
       ''All requested nodes are already absent; scale remove is a no-op.'')"
| "idempotent_noop_message (CmdScaleLog _ add remove _) cfg =
     noop_of (case dep_log_service (cfg_deployment cfg) of None \<Rightarrow> [] | Some l \<Rightarrow> map (\<lambda>n. addr (lsn_host n) (lsn_port n)) (log_nodes l))
       add remove ''All requested log nodes already exist; scalelog add is a no-op.''
       ''All requested log nodes are already absent; scalelog remove is a no-op.''"
| "idempotent_noop_message _ cfg = None"

section \<open>After the tasks\<close>

definition print_summary :: "string \<Rightarrow> summary_row list \<Rightarrow> unit cmd" where
  "print_summary none_found rows = (if rows = [] then print_line none_found else log_event (Statuses rows))"

definition connect_hint :: "deploy_config \<Rightarrow> string option \<Rightarrow> unit cmd" where
  "connect_hint cfg password = (case redis_cli_connect_command cfg password of
     Some c \<Rightarrow> print_line (''Connect with redis-cli:'' @ [CHR 0x0A, CHR 0x09] @ c) | None \<Rightarrow> returnC ())"

definition monitor_log_hints :: "string list" where
  "monitor_log_hints = [''Control-node execution log:'', [CHR 0x09] @ ''~/.eloqctl/logs/last-monitor.log'',
     ''Remote component runtime logs:'', [CHR 0x09] @ ''prometheus -> /tmp/eloq_prometheus.log'',
     [CHR 0x09] @ ''alertmanager -> /tmp/eloq_alertmanager.log'', [CHR 0x09] @ ''grafana -> /tmp/eloq_grafana_server.log'',
     [CHR 0x09] @ ''alertmanager-webhook-adapter -> /tmp/eloq_alertmanager_webhook_adapter.log'',
     [CHR 0x09] @ ''node_exporter -> /tmp/eloq_node_exporter.log'']"

fun print_status_output :: "sub_command \<Rightarrow> deploy_config \<Rightarrow> task_result_pair list \<Rightarrow> bool \<Rightarrow> unit cmd" where
  "print_status_output (CmdStatus _ _ password _ detail) cfg rs verbose =
     (if detail then connect_hint cfg password
      else bindC (liftC (summarize_status_rows rs)) (\<lambda>rows.
        seqC (print_summary ''No status rows found.'' rows) (seqC (connect_hint cfg password)
          (whenC (\<not> verbose) (print_line ''Tip: use `--verbose` to show per-task execution details.'')))))"
| "print_status_output (CmdMonitor _ (MonitorStatus _ _)) cfg rs verbose =
     bindC (liftC (summarize_monitor_status_rows rs)) (\<lambda>rows.
       seqC (print_summary ''No monitor status rows found.'' rows) (seqC (print_lines monitor_log_hints)
         (whenC (\<not> verbose) (print_line ''Tip: use `--verbose` to show per-operation execution details.''))))"
| "print_status_output _ cfg rs verbose = returnC ()"

definition monitor_urls :: "deployment \<Rightarrow> string list" where
  "monitor_urls d = (case dep_monitor d of None \<Rightarrow> []
     | Some m \<Rightarrow> (case mon_prometheus m of None \<Rightarrow> [] | Some p \<Rightarrow> [''Prometheus: http://'' @ addr (prom_host p) (prom_port p)]) @
         (case mon_grafana m of None \<Rightarrow> [] | Some g \<Rightarrow> [''Grafana: http://'' @ addr (graf_host g) (graf_port g)]) @
         (case mon_eloq_metrics m of None \<Rightarrow> [] | Some e \<Rightarrow> (case (metrics_path e, metrics_port e) of
            (Some path, Some p) \<Rightarrow> [''Eloq Metrics: http://<host>:'' @ show_u16 p @ path] | _ \<Rightarrow> [])))"

definition finish_launch :: "deploy_config \<Rightarrow> unit cmd" where
  "finish_launch cfg = seqC (print_line ''Launch cluster finished, Enjoy!'') (bindC (liftC (client_conn cfg)) (\<lambda>c.
     print_lines ((''Connect to server: '' @ [CHR 0x0A, CHR 0x09] @ c) # monitor_urls (cfg_deployment cfg))))"

definition failed_line :: "'x exec_env \<Rightarrow> status_row \<Rightarrow> string" where
  "failed_line env r = ''  - '' @ tsr_host r @ '': '' @ (case xe_read_task env (tsr_task r) of
     Some i \<Rightarrow> task_action_summary (tid_cmd i) (tid_task i) | None \<Rightarrow> ''finish cleanup'')"

definition failed_report :: "'x exec_env \<Rightarrow> string \<Rightarrow> deploy_config \<Rightarrow> status_row list \<Rightarrow> string list" where
  "failed_report env cluster cfg failed = (if failed = [] then []
     else (''Remove finished with '' @ show_nat (length failed) @ '' cleanup task(s) still incomplete:'') # map (failed_line env) failed @
       [''If those hosts are reachable, retry `eloqctl remove '' @ cluster @ ''`. Otherwise clean them manually.'',
        ''Manual cleanup command: rm -rf '' @ install_dir (cfg_deployment cfg)])"

definition force_report :: "deploy_config \<Rightarrow> string list" where
  "force_report cfg = ''Force remove enabled: local state will be cleared even if remote cleanup is incomplete.'' #
     (let hosts = get_unique_host_list cfg in if hosts = [] then []
      else [''Manual cleanup may still be required on: '' @ join '', '' hosts,
        ''Example command: ssh <host> '' @ [CHR 0x27] @ ''rm -rf '' @ install_dir (cfg_deployment cfg) @ [CHR 0x27]])"

definition finish_remove :: "'x exec_env \<Rightarrow> string \<Rightarrow> bool \<Rightarrow> deploy_config \<Rightarrow> unit cmd" where
  "finish_remove env cluster force cfg s =
     seqC (print_lines (failed_report env cluster cfg (load_task_status cluster (Some 1) (Some [''remove'']) (xs_mgr s))))
       (seqC (whenC force (print_lines (force_report cfg))) (modify_mgr (delete_cluster (xe_home env) cluster))) s"

definition split_manifests :: "string \<Rightarrow> string list" where
  "split_manifests m = (if m = [] then [] else filter (\<lambda>p. p \<noteq> []) (map trim (split_on is_comma m)))"

definition is_eloqstore_cloud :: "deployment \<Rightarrow> bool" where
  "is_eloqstore_cloud d = (case Option.bind (dep_storage_service d) st_eloqdss of
     Some dss \<Rightarrow> (case dss_backend_of dss of EloqStore c \<Rightarrow> is_cloud_mode c) | None \<Rightarrow> False)"

definition display_path :: "bool \<Rightarrow> snapshot_row \<Rightarrow> string" where
  "display_path cloud r =
     (if snr_host r = []
      then if cloud then (if trim (snr_path r) = [] then ''backup_ts: (empty)'' else ''backup_ts: '' @ trim (snr_path r))
        else (let ms = split_manifests (snr_path r) in
          if ms = [] then ''[0 manifests]: '' else if length ms = 1 then snr_path r
          else ''['' @ show_nat (length ms) @ '' manifests]: '' @ join '', '' ms)
      else snr_path r)"

definition snapshot_line :: "bool \<Rightarrow> snapshot_row \<Rightarrow> string \<times> timestamp \<times> string \<times> string \<times> string \<times> string" where
  "snapshot_line cloud r = (snr_cluster r, snr_ts r, display_path cloud r, snr_host r, snr_user r,
     if snr_host r = [] then ''cloud (S3)'' else ''local'')"

definition finish_backup_list :: "'x exec_env \<Rightarrow> string \<Rightarrow> unit cmd" where
  "finish_backup_list env cluster s = bindC (require_cluster env cluster) (\<lambda>cfg.
     log_event (Snapshots (map (snapshot_line (is_eloqstore_cloud (cfg_deployment cfg)))
       (filter (\<lambda>r. snr_status r = 0) (list_snapshots cluster (xs_mgr s)))))) s"

fun finishing :: "'x exec_env \<Rightarrow> sub_command \<Rightarrow> deploy_config \<Rightarrow> unit cmd" where
  "finishing env (CmdLaunch _ _) cfg = finish_launch cfg"
| "finishing env (CmdDemo _ _ _ _ _ _ _) cfg = finish_launch cfg"
| "finishing env (CmdRemove cluster force) cfg = finish_remove env cluster force cfg"
| "finishing env (CmdUpdate a) cfg = (case up_cluster a of
     Some cluster \<Rightarrow> seqC (save_config env cfg True) (print_line (''cluster '' @ cluster @ '' is updated!''))
   | None \<Rightarrow> returnC ())"
| "finishing env (CmdBackup cluster BackupList) cfg = finish_backup_list env cluster"
| "finishing env _ cfg = returnC ()"

section \<open>A command on its configuration\<close>

text \<open>
  With \<open>quiet\<close> the results go to a file that is opened with \<open>create\<close> and \<open>truncate\<close> but without \<open>write\<close>,
  which \<open>std::fs::OpenOptions\<close> refuses.
\<close>

definition open_result_file :: "bool \<Rightarrow> unit res" where
  "open_result_file quiet = (if quiet then Inl (Err ''Invalid argument (os error 22)'') else Inr ())"

fun scale_version :: "'x exec_env \<Rightarrow> sub_command \<Rightarrow> deploy_config \<Rightarrow> (sub_command \<times> deploy_config) res" where
  "scale_version env (CmdScale a) cfg = (case sc_version a of
     None \<Rightarrow> Inr (CmdScale a, cfg)
   | Some v \<Rightarrow>
       if sc_add_nodes a = [] then Inl (Err ''--version requires at least one entry in --add-nodes'')
       else if sc_remove_nodes a \<noteq> [] then Inl (Err ''--version cannot be combined with --remove-nodes'')
       else bindE (new_version_config env v cfg) (\<lambda>vc.
         case (dep_version (cfg_deployment vc), tx_srv_image (tx_service (cfg_deployment vc))) of
           (Some rv, Some img) \<Rightarrow> Inr (CmdScale (a\<lparr>sc_version := Some rv\<rparr>), cfg\<lparr>tx_version_override := Some rv, tx_image_override := Some img\<rparr>)
         | _ \<Rightarrow> Inl (Panic ''called `Option::unwrap()` on a `None` value'')))"
| "scale_version env cmd cfg = Inr (cmd, cfg)"

text \<open>After the tasks of these commands the cluster is checked again.\<close>

fun verifies :: "sub_command \<Rightarrow> bool" where
  "verifies (CmdUpdate a) = (up_cluster a \<noteq> None)"
| "verifies (CmdUpdateConf _) = True"
| "verifies (CmdScale _) = True"
| "verifies (CmdScaleLog _ _ _ _) = True"
| "verifies _ = False"

fun scaled_cluster :: "sub_command \<Rightarrow> string option" where
  "scaled_cluster (CmdScale a) = Some (sc_cluster a)"
| "scaled_cluster (CmdScaleLog c _ _ _) = Some c"
| "scaled_cluster _ = None"

definition verify_mutation :: "'x exec_env \<Rightarrow> sub_command \<Rightarrow> deploy_config \<Rightarrow> unit cmd" where
  "verify_mutation env cmd cfg = (if verifies cmd
     then bindC (case scaled_cluster cmd of
         Some c \<Rightarrow> bindC (load_cluster env c) (\<lambda>r. returnC (or_default cfg r)) | None \<Rightarrow> returnC cfg) (\<lambda>vc.
       ensure_critical_services_healthy env vc ''verify mutation'')
     else returnC ())"

definition run_with_tasks :: "'x exec_env \<Rightarrow> sub_command \<Rightarrow> deploy_config \<Rightarrow> bool \<Rightarrow> bool \<Rightarrow> unit cmd" where
  "run_with_tasks env cmd cfg quiet verbose =
     (case idempotent_noop_message cmd cfg of
        Some msg \<Rightarrow> print_line msg
      | None \<Rightarrow>
          bindC (liftC (open_result_file quiet)) (\<lambda>_.
          bindC (run_tasks env cmd cfg) (\<lambda>rs.
          seqC (print_status_output cmd cfg rs verbose)
          (seqC (finishing env cmd cfg) (verify_mutation env cmd cfg)))))"

definition export_config :: "'x exec_env \<Rightarrow> string \<Rightarrow> string option \<Rightarrow> deploy_config \<Rightarrow> unit cmd" where
  "export_config env cluster output cfg = bindC (liftC (xe_to_yaml env cfg)) (\<lambda>y. case output of
     Some path \<Rightarrow> (case xe_write env path y of
         Inl (Err e) \<Rightarrow> failC (Err (''failed to write '' @ path @ '': '' @ e))
       | Inl (Panic e) \<Rightarrow> failC (Panic e)
       | Inr _ \<Rightarrow> seqC (log_event (Wrote path y)) (print_line (''Exported cluster '' @ quoted cluster @ '' topology to '' @ path)))
   | None \<Rightarrow> print_line y)"

text \<open>The common end of \<open>run_impl\<close> and \<open>run_impl_default\<close>.\<close>

fun run_configured :: "'x exec_env \<Rightarrow> sub_command \<Rightarrow> deploy_config \<Rightarrow> bool \<Rightarrow> bool \<Rightarrow> unit cmd" where
  "run_configured env (CmdConnect _) cfg quiet verbose = bindC (liftC (client_conn cfg)) print_line"
| "run_configured env (CmdExport cluster output) cfg quiet verbose = export_config env cluster output cfg"
| "run_configured env cmd cfg quiet verbose =
     bindC (liftC (scale_version env cmd cfg)) (\<lambda>(cmd, cfg). run_with_tasks env cmd cfg quiet verbose)"

section \<open>Updates\<close>

definition run_download_only :: "'x exec_env \<Rightarrow> deploy_config \<Rightarrow> bool \<Rightarrow> unit cmd" where
  "run_download_only env cfg quiet =
     bindC (liftC (xe_downloads env cfg)) (\<lambda>tasks.
     bindC (liftC (open_result_file quiet)) (\<lambda>_.
     bindC (run_context env \<lparr>task_group = ''update-download'', barrier = Some [length tasks], executable = tasks\<rparr> cfg True) (\<lambda>_.
     print_line ''required tarballs downloaded into cache'')))"

fun update_monitor_component_name :: "update_monitor_component \<Rightarrow> string" where
  "update_monitor_component_name UpdGrafana = ''grafana''"
| "update_monitor_component_name UpdPrometheus = ''prometheus''"
| "update_monitor_component_name UpdAlertmanager = ''alertmanager''"
| "update_monitor_component_name UpdPrometheusalert = ''alertmanager-webhook-adapter''"
| "update_monitor_component_name UpdNodeExporter = ''node_exporter''"

text \<open>The context asks the command for its cluster; only the parent option is looked at.\<close>

definition monitor_update_context :: "'x exec_env \<Rightarrow> sub_command \<Rightarrow> deploy_config \<Rightarrow> update_monitor_component \<Rightarrow> 'x task_context res" where
  "monitor_update_context env cmd cfg component = (case cmd of
     CmdMonitor None _ \<Rightarrow> Inl (Panic ''monitor cluster is resolved'')
   | _ \<Rightarrow> xe_monitor_update env cmd cfg component)"

definition run_monitor_update :: "'x exec_env \<Rightarrow> sub_command \<Rightarrow> update_monitor_component \<Rightarrow> deploy_config \<Rightarrow> bool \<Rightarrow> unit cmd" where
  "run_monitor_update env cmd component cfg quiet =
     bindC (liftC (monitor_update_context env cmd cfg component)) (\<lambda>ctx.
     bindC (liftC (open_result_file quiet)) (\<lambda>_.
     bindC (run_context env ctx cfg True) (\<lambda>_.
     seqC (save_config env cfg True) (print_line (''cluster '' @ cluster_name (cfg_deployment cfg) @ '' monitor component '' @
       update_monitor_component_name component @ '' is updated!'')))))"

fun run_update_command :: "'x exec_env \<Rightarrow> sub_command \<Rightarrow> deploy_config \<Rightarrow> bool \<Rightarrow> bool \<Rightarrow> unit cmd" where
  "run_update_command env (CmdUpdate a) cfg quiet verbose =
     (if up_download_only a then run_download_only env cfg quiet else run_configured env (CmdUpdate a) cfg quiet verbose)"
| "run_update_command env (CmdMonitor c (MonitorUpdate c' component url robots)) cfg quiet verbose =
     run_monitor_update env (CmdMonitor c (MonitorUpdate c' component url robots)) component cfg quiet"
| "run_update_command env cmd cfg quiet verbose = failC (Panic ''internal error: entered unreachable code'')"

section \<open>A command without its lock\<close>

definition require_healthy :: "'x exec_env \<Rightarrow> string \<Rightarrow> string \<Rightarrow> unit cmd" where
  "require_healthy env cluster operation =
     bindC (require_cluster env cluster) (\<lambda>cfg. ensure_critical_services_healthy env cfg operation)"

definition skip_running :: "'x exec_env \<Rightarrow> string \<Rightarrow> bool cmd" where
  "skip_running env cluster =
     bindC (require_cluster env cluster) (\<lambda>cfg. bindC (cluster_has_running_tx env cfg) (\<lambda>running.
       if running then seqC (print_line (''Cluster '' @ cluster @ '' already has running tx service; skipping bootstrap.'')) (returnC True)
       else returnC False))"

definition remove_uploads :: "'x exec_env \<Rightarrow> string \<Rightarrow> unit cmd" where
  "remove_uploads env cluster = whenC (xe_path_exists env (xe_home env @ ''/upload/'' @ cluster)) (log_event (UploadsRemoved cluster))"

definition upgrade_schema :: "'x exec_env \<Rightarrow> unit cmd" where
  "upgrade_schema env s = (case migrate_legacy_deployments (xe_home env) (xe_to_yaml env) (xe_load_legacy env) (xe_now env (xs_run s)) (xs_mgr s) of
     (st, Inl e) \<Rightarrow> Some (Inl e, s\<lparr>xs_mgr := st\<rparr>)
   | (st, Inr _) \<Rightarrow> print_line ''Schema and local cluster topology upgrade complete'' (s\<lparr>xs_mgr := st\<rparr>))"

text \<open>What happens before the configuration is fetched; True when the command is done.\<close>

fun preflight :: "'x exec_env \<Rightarrow> sub_command \<Rightarrow> bool cmd" where
  "preflight env (CmdUpdate a) = (case up_cluster a of
     Some c \<Rightarrow> seqC (require_healthy env c ''update'') (returnC False) | None \<Rightarrow> returnC False)"
| "preflight env (CmdUpdateConf a) = seqC (require_healthy env (uc_cluster a) ''update-conf'') (returnC False)"
| "preflight env (CmdScale a) = seqC (require_healthy env (sc_cluster a) ''scale'') (returnC False)"
| "preflight env (CmdScaleLog c _ _ _) = seqC (require_healthy env c ''scalelog'') (returnC False)"
| "preflight env (CmdBackup c (BackupStart _ _ _ _)) = seqC (require_healthy env c ''backup start'') (returnC False)"
| "preflight env (CmdInstall c) = skip_running env c"
| "preflight env (CmdRemove c _) = seqC (remove_uploads env c) (returnC False)"
| "preflight env CmdUpgrade = seqC (upgrade_schema env) (returnC True)"
| "preflight env _ = returnC False"

fun is_update :: "sub_command \<Rightarrow> bool" where
  "is_update (CmdUpdate a) = (up_cluster a \<noteq> None)"
| "is_update (CmdMonitor _ (MonitorUpdate _ _ _ _)) = True"
| "is_update _ = False"

definition given_config :: "'x exec_env \<Rightarrow> deploy_config \<Rightarrow> deploy_config cmd" where
  "given_config env cfg =
     bindC (liftC (bindE (check_keypair env cfg) (\<lambda>_. resolve env cfg))) (\<lambda>cfg. seqC (save_config env cfg True) (returnC cfg))"

definition run_command :: "'x exec_env \<Rightarrow> sub_command \<Rightarrow> deploy_config option \<Rightarrow> bool \<Rightarrow> bool \<Rightarrow> unit cmd" where
  "run_command env cmd opt quiet verbose =
     bindC (preflight env cmd) (\<lambda>done.
       if done then returnC ()
       else if is_update cmd
       then bindC (case opt of Some cfg \<Rightarrow> returnC cfg | None \<Rightarrow> get_config env cmd) (\<lambda>cfg.
         run_update_command env cmd cfg quiet verbose)
       else bindC (case opt of Some cfg \<Rightarrow> given_config env cfg | None \<Rightarrow> get_config env cmd) (\<lambda>cfg.
         run_configured env cmd cfg quiet verbose))"

section \<open>Plan and apply\<close>

definition desired_and_current :: "'x exec_env \<Rightarrow> string \<Rightarrow> (deploy_config \<times> deploy_config) cmd" where
  "desired_and_current env file =
     bindC (liftC (load_valid env file)) (\<lambda>desired.
     bindC (require_cluster env (cluster_name (cfg_deployment desired))) (\<lambda>current. returnC (desired, current)))"

definition plan_topology :: "'x exec_env \<Rightarrow> string \<Rightarrow> unit cmd" where
  "plan_topology env file =
     bindC (desired_and_current env file) (\<lambda>(desired, current).
     bindC (observe_cluster env current None) (\<lambda>oc.
     bindC (liftC (build_reconcile_plan (xe_to_value env) current desired (Some oc))) (\<lambda>plan.
     print_lines (plan_lines plan))))"

definition apply_gate :: "string \<Rightarrow> observed_cluster \<Rightarrow> unit cmd" where
  "apply_gate cluster oc =
     (if has_errors oc
      then seqC (print_lines (observed_lines oc)) (failC (Err (''cannot apply: failed to observe live cluster state for '' @ quoted cluster)))
      else if unavailable_services oc \<noteq> []
      then seqC (print_lines (observed_lines oc)) (failC (Err (''cannot apply: live cluster '' @ quoted cluster @
        '' is not healthy; fix status before applying changes'')))
      else returnC ())"

definition regenerate_node :: "'x exec_env \<Rightarrow> deployment \<Rightarrow> string \<Rightarrow> unit cmd" where
  "regenerate_node env d host_port = (case split_once is_colon host_port of
     None \<Rightarrow> returnC ()
   | Some (host, p) \<Rightarrow> bindC (liftC (xe_gen_node env d host p)) (\<lambda>_. log_event (Generated host p)))"

definition regenerate_nodes :: "'x exec_env \<Rightarrow> deployment \<Rightarrow> unit cmd" where
  "regenerate_nodes env d = eachC (regenerate_node env d)
     (get_host_port_list d EloqTx @ get_host_port_list d EloqStandby @ get_host_port_list d EloqVoter)"

definition apply_actions :: "'x exec_env \<Rightarrow> string \<Rightarrow> reconcile_plan \<Rightarrow> bool \<Rightarrow> bool \<Rightarrow> unit cmd" where
  "apply_actions env cluster plan quiet verbose =
     seqC (whenC (SaveClusterIndex \<in> set (pl_actions plan)) (save_config env (pl_merged plan) True))
     (seqC (whenC (RegenerateEloqKvNodeConfig \<in> set (pl_actions plan)) (regenerate_nodes env (cfg_deployment (pl_merged plan))))
     (seqC (whenC (RestartTxWithUpdatedConfig \<in> set (pl_actions plan))
        (run_command env (CmdUpdateConf \<lparr>uc_cluster = cluster, uc_restart = True, uc_password = None,
           uc_fields = pl_tx_updates plan, uc_tx_node_id = None\<rparr>) None quiet verbose))
     (seqC (whenC (RestartMonitor \<in> set (pl_actions plan))
        (seqC (run_command env (CmdMonitor (Some cluster) (MonitorStop None [])) None quiet verbose)
              (run_command env (CmdMonitor (Some cluster) (MonitorStart None [])) None quiet verbose)))
     (whenC (VerifyClusterStatus \<in> set (pl_actions plan))
        (bindC (observe_cluster env (pl_merged plan) None) (\<lambda>oc.
           seqC (print_lines (observed_lines oc)) (if not_healthy oc
             then failC (Err (''apply completed actions but final live status is not healthy for '' @ quoted cluster))
             else returnC ())))))))"

definition apply_topology :: "'x exec_env \<Rightarrow> string \<Rightarrow> bool \<Rightarrow> bool \<Rightarrow> unit cmd" where
  "apply_topology env file quiet verbose =
     bindC (desired_and_current env file) (\<lambda>(desired, current).
     bindC (observe_cluster env current None) (\<lambda>oc.
     seqC (apply_gate (cluster_name (cfg_deployment desired)) oc)
     (bindC (liftC (build_reconcile_plan (xe_to_value env) current desired (Some oc))) (\<lambda>plan.
     seqC (print_lines (plan_lines plan))
       (if plan_is_empty plan then returnC ()
        else apply_actions env (cluster_name (cfg_deployment desired)) plan quiet verbose)))))"

section \<open>Any command\<close>

definition abstract_info :: "deploy_config \<Rightarrow> deploy_abstract res" where
  "abstract_info cfg = bindE (store_of (cfg_deployment cfg)) (\<lambda>store.
     Inr \<lparr>da_name = cluster_name (cfg_deployment cfg), da_product = dep_product (cfg_deployment cfg), da_store = store,
       da_version = or_default [] (dep_version (cfg_deployment cfg)), da_user = username (cfg_connection cfg)\<rparr>)"

definition list_clusters :: "'x exec_env \<Rightarrow> unit cmd" where
  "list_clusters env s = bindC (liftC (bindE (list_deployments (xe_read_yaml env) (xs_mgr s)) (mapE abstract_info)))
     (\<lambda>rows. log_event (Clusters rows)) s"

definition list_cluster_names :: "'x exec_env \<Rightarrow> string list cmd" where
  "list_cluster_names env s = liftC (bindE (list_deployments (xe_read_yaml env) (xs_mgr s)) (\<lambda>ds.
     Inr (sort (map (\<lambda>c. cluster_name (cfg_deployment c)) ds)))) s"

definition list_versions :: "'x exec_env \<Rightarrow> product option \<Rightarrow> storage_provider option \<Rightarrow> unit cmd" where
  "list_versions env prd store = bindC (liftC (fetched env)) (\<lambda>rs.
     log_event (Versions (list_versions_from_releases rs prd (map_option provider_display store))))"

fun run_unlocked :: "'x exec_env \<Rightarrow> sub_command \<Rightarrow> deploy_config option \<Rightarrow> bool \<Rightarrow> bool \<Rightarrow> unit cmd" where
  "run_unlocked env CmdList opt quiet verbose = list_clusters env"
| "run_unlocked env (CmdVersions p st) opt quiet verbose = list_versions env p st"
| "run_unlocked env (CmdUpdate a) opt quiet verbose = (case up_cluster a of
     None \<Rightarrow> bindC (liftC (xe_self_update env)) print_line
   | Some _ \<Rightarrow> run_command env (CmdUpdate a) opt quiet verbose)"
| "run_unlocked env (CmdApply f) opt quiet verbose = apply_topology env f quiet verbose"
| "run_unlocked env (CmdPlan f) opt quiet verbose = plan_topology env f"
| "run_unlocked env cmd opt quiet verbose = run_command env cmd opt quiet verbose"

definition lock_dir :: "'x exec_env \<Rightarrow> string" where
  "lock_dir env = xe_home env @ ''/locks''"

definition run_impl :: "'x exec_env \<Rightarrow> sub_command \<Rightarrow> deploy_config option \<Rightarrow> bool \<Rightarrow> bool \<Rightarrow> bool \<Rightarrow> unit cmd" where
  "run_impl env cmd opt quiet verbose lock s =
     (if lock
      then (case acquire_mutation_lock (xe_load env) (xe_alive env) (xe_lock_io env) (lock_dir env) (xe_pid env) (xe_stamp env) cmd (xs_locks s) of
          (files, Inl e) \<Rightarrow> Some (Inl e, s\<lparr>xs_locks := files\<rparr>)
        | (files, Inr held) \<Rightarrow> map_option (\<lambda>(r, s'). (r, case held of
              None \<Rightarrow> s' | Some path \<Rightarrow> s'\<lparr>xs_locks := drop_lock (xe_unlock env) path (xs_locks s')\<rparr>))
            (run_unlocked env cmd opt quiet verbose (s\<lparr>xs_locks := files\<rparr>)))
      else run_unlocked env cmd opt quiet verbose s)"

definition run :: "'x exec_env \<Rightarrow> sub_command \<Rightarrow> deploy_config option \<Rightarrow> bool \<Rightarrow> bool \<Rightarrow> unit cmd" where
  "run env cmd opt quiet verbose = run_impl env cmd opt quiet verbose True"

end
