(* ===== verification/Cmd_Rules.thy ===== *)
theory Cmd_Rules
  imports Cmd_Exec Reconcile_Props
begin

text \<open>
  Reasoning about commands: a triple for operations that can fail or not return, its rules, and what
  every command keeps. A property of the state that logging, running tasks, saving and deleting keep is
  kept by every command; that is the locale \<open>command_invariant\<close>.
\<close>

section \<open>Triples\<close>

text \<open>When the operation starts in a state with P and returns, P holds again, and a value it gives has Q.\<close>

named_theorems keeps_rules \<open>introduction rules for triples\<close>

definition keeps :: "(exec_state \<Rightarrow> bool) \<Rightarrow> 'a cmd \<Rightarrow> ('a \<Rightarrow> bool) \<Rightarrow> bool" where
  "keeps P m Q \<longleftrightarrow> (\<forall>s r s'. P s \<longrightarrow> m s = Some (r, s') \<longrightarrow> P s' \<and> (\<forall>a. r = Inr a \<longrightarrow> Q a))"

lemma keepsI: "(\<And>s r s'. P s \<Longrightarrow> m s = Some (r, s') \<Longrightarrow> P s' \<and> (\<forall>a. r = Inr a \<longrightarrow> Q a)) \<Longrightarrow> keeps P m Q"
  by (simp add: keeps_def)

lemma keepsD: "keeps P m Q \<Longrightarrow> P s \<Longrightarrow> m s = Some (r, s') \<Longrightarrow> P s'"
  by (simp add: keeps_def)

lemma keeps_return [keeps_rules]: "Q a \<Longrightarrow> keeps P (returnC a) Q"
  and keeps_fail [keeps_rules]: "keeps P (failC e) Q"
  by (simp_all add: keeps_def returnC_def failC_def)

lemma keeps_lift [keeps_rules]: "(\<And>a. r = Inr a \<Longrightarrow> Q a) \<Longrightarrow> keeps P (liftC r) Q"
  by (simp add: keeps_def liftC_def)

lemma keeps_weaken: "keeps P m Q \<Longrightarrow> (\<And>a. Q a \<Longrightarrow> R a) \<Longrightarrow> keeps P m R"
  unfolding keeps_def by blast

lemma keeps_bind: "keeps P m Q \<Longrightarrow> (\<And>a. Q a \<Longrightarrow> keeps P (f a) R) \<Longrightarrow> keeps P (bindC m f) R"
  unfolding keeps_def bindC_Some by blast

lemma keeps_bind_lift [keeps_rules]: "(\<And>a. r = Inr a \<Longrightarrow> keeps P (f a) R) \<Longrightarrow> keeps P (bindC (liftC r) f) R"
  by (cases r) (simp_all add: keeps_fail)

lemma keeps_seq [keeps_rules]: "keeps P m (\<lambda>_. True) \<Longrightarrow> keeps P f R \<Longrightarrow> keeps P (seqC m f) R"
  unfolding seqC_def by (rule keeps_bind)

lemma keeps_when [keeps_rules]: "(b \<Longrightarrow> keeps P m (\<lambda>_. True)) \<Longrightarrow> keeps P (whenC b m) (\<lambda>_. True)"
  by (cases b) (simp_all add: keeps_return)

lemma keeps_each [keeps_rules]: "(\<And>x. x \<in> set xs \<Longrightarrow> keeps P (f x) (\<lambda>_. True)) \<Longrightarrow> keeps P (eachC f xs) (\<lambda>_. True)"
  by (induction xs) (auto intro: keeps_rules)

lemma keeps_dep: "(\<And>t. keeps P (g t) Q) \<Longrightarrow> keeps P (\<lambda>s. g s s) Q"
  by (simp add: keeps_def)

lemma keeps_if [keeps_rules]: "(b \<Longrightarrow> keeps P m Q) \<Longrightarrow> (\<not> b \<Longrightarrow> keeps P n Q) \<Longrightarrow> keeps P (if b then m else n) Q"
  by simp

lemma keeps_option [keeps_rules]: "(x = None \<Longrightarrow> keeps P m Q) \<Longrightarrow> (\<And>y. x = Some y \<Longrightarrow> keeps P (f y) Q) \<Longrightarrow>
    keeps P (case x of None \<Rightarrow> m | Some y \<Rightarrow> f y) Q"
  by (cases x) simp_all

section \<open>The names of configurations\<close>

abbreviation name_of :: "deploy_config \<Rightarrow> string" where
  "name_of cfg \<equiv> cluster_name (cfg_deployment cfg)"

lemma resolve_name: "resolve env cfg = Inr cfg' \<Longrightarrow> name_of cfg' = name_of cfg"
  by (auto simp: resolve_def resolve_version_def resolve_tx_image_def resolve_log_image_def res_simps with_deployment_def Let_def
      split: if_splits option.splits)

lemma load_valid_Inr: "load_valid env f = Inr cfg \<longleftrightarrow> xe_load env f = Inr cfg \<and> validate_metrics_config cfg = Inr ()"
  by (auto simp: load_valid_def res_simps)

lemma new_version_name: "new_version_config env v cfg = Inr cfg' \<Longrightarrow> name_of cfg' = name_of cfg"
  by (auto simp: new_version_config_def with_deployment_def forget_images_def dest!: resolve_name)

lemma monitor_update_name: "name_of (configure_monitor_update c url robots cfg) = name_of cfg"
  by (simp add: configure_monitor_update_def with_deployment_def Let_def)

lemma demo_deployment_name: "demo_deployment pid store v nm j d = Inr d' \<Longrightarrow> cluster_name d' = cluster_name d"
  by (auto simp: demo_deployment_def res_simps Let_def split: option.splits if_splits)

lemma loaded_from_file: "load_deployment_from_state rd c st = Inr (Some cfg) \<Longrightarrow> \<exists>y. rd y = Inr cfg"
  by (auto simp: load_deployment_from_state_def read_topology_def res_simps split: list.splits option.splits)

section \<open>What commands without changes to the state manager keep\<close>

text \<open>
  Any property that logging and the running of tasks keep is kept by everything that neither saves nor
  deletes: the look at the cluster, the health check, reports, and the commands that only run tasks.
\<close>

locale task_invariant =
  fixes env :: "'x exec_env" and P :: "exec_state \<Rightarrow> bool"
  assumes on_log: "P s \<Longrightarrow> P (s\<lparr>xs_log := l\<rparr>)"
    and on_run: "P s \<Longrightarrow> P (s\<lparr>xs_run := n, xs_log := l, xs_mgr := save_rows env k c g ts (xe_effect env k ts (xs_mgr s))\<rparr>)"
begin

lemma keeps_any: "keeps P m (\<lambda>_. True) \<Longrightarrow> (\<And>a. keeps P (f a) R) \<Longrightarrow> keeps P (bindC m f) R"
  by (rule keeps_bind)

lemma keeps_log [keeps_rules]: "keeps P (log_event e) (\<lambda>_. True)"
  by (auto simp: keeps_def log_event_def on_log)

lemma keeps_print [keeps_rules]: "keeps P (print_line l) (\<lambda>_. True)" "keeps P (print_lines ls) (\<lambda>_. True)"
  unfolding print_lines_def print_line_def by (intro keeps_rules)+

lemma keeps_load_any: "keeps P (load_cluster env c) (\<lambda>_. True)"
  by (auto simp: keeps_def load_cluster_def)

lemma keeps_require_any: "keeps P (require_cluster env c) (\<lambda>_. True)"
  unfolding require_cluster_def by (rule keeps_any [OF keeps_load_any]) (auto intro!: keeps_rules)

lemma keeps_saved_any: "keeps P (saved_valid env c) (\<lambda>_. True)"
  unfolding saved_valid_def by (rule keeps_any [OF keeps_require_any]) (auto intro!: keeps_rules)

lemma keeps_context [keeps_rules]: "keeps P (run_context env ctx cfg b) (\<lambda>_. True)"
  by (auto simp: keeps_def run_context_def Let_def split: prod.splits intro: on_run)

lemma keeps_tasks [keeps_rules]: "keeps P (run_tasks_with_error_break env cmd cfg b) (\<lambda>_. True)" "keeps P (run_tasks env cmd cfg) (\<lambda>_. True)"
proof -
  have "keeps P (bindC (liftC r) (\<lambda>ctx. run_context env ctx cfg b)) (\<lambda>_. True)" for r b by (intro keeps_rules)
  then show "keeps P (run_tasks_with_error_break env cmd cfg b) (\<lambda>_. True)" for b
    unfolding keeps_def run_tasks_with_error_break_def by blast
  then show "keeps P (run_tasks env cmd cfg) (\<lambda>_. True)" by (simp add: run_tasks_def)
qed

lemma keeps_observe [keeps_rules]: "keeps P (observe_cluster env cfg w) (\<lambda>_. True)"
  unfolding observe_cluster_def Let_def by (rule keeps_any) (intro keeps_rules TrueI)+

lemma keeps_probes [keeps_rules]: "keeps P (probe_all env cfg op nodes) (\<lambda>_. True)"
  by (auto simp: keeps_def probe_all_def)

lemma keeps_healthy [keeps_rules]: "keeps P (ensure_critical_services_healthy env cfg op) (\<lambda>_. True)"
  unfolding ensure_critical_services_healthy_def by (rule keeps_any) (intro keeps_rules TrueI)+

lemma keeps_require_healthy [keeps_rules]: "keeps P (require_healthy env c op) (\<lambda>_. True)"
  unfolding require_healthy_def by (rule keeps_any [OF keeps_require_any]) (intro keeps_rules)

lemma keeps_summary [keeps_rules]: "keeps P (print_summary e rows) (\<lambda>_. True)" "keeps P (connect_hint cfg pw) (\<lambda>_. True)"
  unfolding print_summary_def connect_hint_def by (intro keeps_rules TrueI)+

lemma keeps_status_output [keeps_rules]: "keeps P (print_status_output cmd cfg rs v) (\<lambda>_. True)"
  by (cases "(cmd, cfg, rs, v)" rule: print_status_output.cases) (auto intro!: keeps_rules)

lemma keeps_backup_list: "keeps P (finish_backup_list env c) (\<lambda>_. True)"
proof -
  have "keeps P (bindC (require_cluster env c) (\<lambda>cfg. log_event (e cfg))) (\<lambda>_. True)" for e
    by (rule keeps_any [OF keeps_require_any]) (intro keeps_rules)
  then show ?thesis using keeps_dep [where Q = "\<lambda>_. True" and g = "\<lambda>t. bindC (require_cluster env c) (\<lambda>cfg.
      log_event (Snapshots (map (snapshot_line (is_eloqstore_cloud (cfg_deployment cfg)))
        (filter (\<lambda>r. snr_status r = 0) (list_snapshots c (xs_mgr t))))))"]
    by (simp add: finish_backup_list_def [abs_def])
qed

lemma keeps_verify: "keeps P (verify_mutation env cmd cfg) (\<lambda>_. True)"
  unfolding verify_mutation_def
  by (intro keeps_if keeps_any keeps_option keeps_load_any keeps_return keeps_healthy TrueI)

lemma keeps_list: "keeps P (list_clusters env) (\<lambda>_. True)"
  unfolding list_clusters_def [abs_def]
  by (rule keeps_dep [where g = "\<lambda>t. bindC (liftC (bindE (list_deployments (xe_read_yaml env) (xs_mgr t)) (mapE abstract_info)))
     (\<lambda>rows. log_event (Clusters rows))"]) (rule keeps_bind_lift, rule keeps_log)

text \<open>The two kinds of command that \<open>apply\<close> runs.\<close>

lemma keeps_update_conf: "keeps P (run_command env (CmdUpdateConf a) None q v) (\<lambda>_. True)"
  unfolding run_command_def preflight.simps is_update.simps get_config.simps run_configured.simps scale_version.simps run_with_tasks_def
    idempotent_noop_message.simps finishing.simps option.case if_False prod.case bindC_simps
  by (intro keeps_any keeps_seq keeps_if keeps_bind_lift keeps_return keeps_require_healthy keeps_saved_any keeps_tasks
    keeps_status_output keeps_verify TrueI)

lemma keeps_monitor_command: "keeps P (run_command env (CmdMonitor (Some c) (MonitorStop None xs)) None q v) (\<lambda>_. True)"
  "keeps P (run_command env (CmdMonitor (Some c) (MonitorStart None xs)) None q v) (\<lambda>_. True)"
proof -
  have k: "keeps P (monitor_config env (Some c) m) (\<lambda>_. True)" for m
    unfolding monitor_config_def Let_def by (intro keeps_bind_lift keeps_any keeps_require_any keeps_return TrueI)
  show "keeps P (run_command env (CmdMonitor (Some c) (MonitorStop None xs)) None q v) (\<lambda>_. True)"
    "keeps P (run_command env (CmdMonitor (Some c) (MonitorStart None xs)) None q v) (\<lambda>_. True)"
    unfolding run_command_def preflight.simps is_update.simps get_config.simps run_configured.simps scale_version.simps run_with_tasks_def
      idempotent_noop_message.simps finishing.simps option.case if_False prod.case bindC_simps
    by (intro keeps_any keeps_seq keeps_if keeps_bind_lift keeps_return k keeps_tasks keeps_status_output keeps_verify TrueI)+
qed

text \<open>Everything that \<open>apply\<close> does after saving.\<close>

lemma keeps_after_save: "SaveClusterIndex \<notin> set (pl_actions plan) \<Longrightarrow> keeps P (apply_actions env c plan q v) (\<lambda>_. True)"
  unfolding apply_actions_def regenerate_nodes_def regenerate_node_def
  by (auto intro!: keeps_rules keeps_any keeps_update_conf keeps_monitor_command)

end

section \<open>What every command keeps\<close>

text \<open>
  \<open>good\<close> are the cluster names for which saving and deleting are allowed to happen; all names in topology
  files have to be good, and a good name with the suffix of a demo has to be.
\<close>

locale command_invariant = task_invariant env P for env :: "'x exec_env" and P :: "exec_state \<Rightarrow> bool" +
  fixes good :: "string \<Rightarrow> bool"
  assumes on_save: "P s \<Longrightarrow> good (name_of cfg) \<Longrightarrow>
      save_deployment_config (xe_home env) (xe_to_yaml env) now cfg u (xs_mgr s) = Inr st \<Longrightarrow> P (s\<lparr>xs_mgr := st\<rparr>)"
    and on_delete: "P s \<Longrightarrow> good c \<Longrightarrow> P (s\<lparr>xs_mgr := delete_cluster (xe_home env) c (xs_mgr s)\<rparr>)"
    and on_upgrade: "P s \<Longrightarrow> migrate_legacy_deployments (xe_home env) (xe_to_yaml env) (xe_load_legacy env) now (xs_mgr s) = (st, r) \<Longrightarrow>
      P (s\<lparr>xs_mgr := st\<rparr>)"
    and load_good: "xe_load env f = Inr cfg \<Longrightarrow> good (name_of cfg)"
    and saved_good: "xe_read_yaml env y = Inr cfg \<Longrightarrow> good (name_of cfg)"
    and demo_good: "good c \<Longrightarrow> good (c @ ''-'' @ provider_display p)"
begin

lemma keeps_load: "keeps P (load_cluster env c) (\<lambda>r. \<forall>cfg. r = Some cfg \<longrightarrow> good (name_of cfg))"
  by (auto simp: keeps_def load_cluster_def dest!: loaded_from_file saved_good)

lemma keeps_require: "keeps P (require_cluster env c) (\<lambda>cfg. good (name_of cfg))"
  unfolding require_cluster_def by (rule keeps_bind [OF keeps_load]) (auto intro!: keeps_rules)

lemma keeps_save [keeps_rules]: "good (name_of cfg) \<Longrightarrow> keeps P (save_config env cfg u) (\<lambda>_. True)"
  by (auto simp: keeps_def save_config_def split: sum.splits intro: on_save)

lemma keeps_delete: "good c \<Longrightarrow> keeps P (modify_mgr (delete_cluster (xe_home env) c)) (\<lambda>_. True)"
  by (auto simp: keeps_def modify_mgr_def on_delete)

text \<open>The configuration of a command has a good name.\<close>

lemma keeps_saved: "keeps P (saved_valid env c) (\<lambda>cfg. good (name_of cfg))"
  unfolding saved_valid_def by (rule keeps_bind [OF keeps_require]) (auto intro!: keeps_rules)

lemma keeps_load_valid: "keeps P (liftC (load_valid env f)) (\<lambda>cfg. good (name_of cfg))"
  by (rule keeps_lift) (auto simp: load_valid_Inr dest: load_good)

lemma keeps_launch_config: "keeps P (launch_config env f) (\<lambda>cfg. good (name_of cfg))"
  unfolding launch_config_def
  by (rule keeps_bind_lift) (auto intro!: keeps_rules simp: res_simps load_valid_Inr dest!: resolve_name load_good)

lemma keeps_demo: "keeps P (gen_demo_config env p st v u nm j) (\<lambda>cfg. good (name_of cfg))"
proof -
  have g: "good (c @ CHR ''-'' # provider_display p)" if "good c" for c p using demo_good [OF that, of p] by simp
  show ?thesis unfolding gen_demo_config_def
    by (rule keeps_bind_lift) (auto intro!: keeps_rules g simp: res_simps with_deployment_def demo_rename_def
      dest!: resolve_name demo_deployment_name load_good)
qed

lemma keeps_update_config: "keeps P (update_config env c a) (\<lambda>cfg. good (name_of cfg))"
  unfolding update_config_def
  by (intro keeps_bind_lift keeps_bind [OF keeps_require] keeps_return) (auto dest!: new_version_name split: option.splits)

lemma keeps_monitor_config: "keeps P (monitor_config env p c) (\<lambda>cfg. good (name_of cfg))"
  unfolding monitor_config_def Let_def
  by (intro keeps_bind_lift keeps_bind [OF keeps_require] keeps_return) (auto simp: monitor_update_name split: monitor_command.splits)

lemma keeps_config: "keeps P (get_config env cmd) (\<lambda>cfg. good (name_of cfg))"
  by (cases cmd) (auto intro!: keeps_saved keeps_load_valid keeps_launch_config keeps_demo keeps_update_config keeps_monitor_config
      keeps_fail split: option.split)

lemma keeps_some_config: "(\<And>cfg. opt = Some cfg \<Longrightarrow> good (name_of cfg)) \<Longrightarrow>
    keeps P (case opt of Some cfg \<Rightarrow> returnC cfg | None \<Rightarrow> get_config env cmd) (\<lambda>cfg. good (name_of cfg))"
  "(\<And>cfg. opt = Some cfg \<Longrightarrow> good (name_of cfg)) \<Longrightarrow>
    keeps P (case opt of Some cfg \<Rightarrow> given_config env cfg | None \<Rightarrow> get_config env cmd) (\<lambda>cfg. good (name_of cfg))"
  by (cases opt; auto simp: keeps_config given_config_def res_simps intro!: keeps_rules dest!: resolve_name)+

text \<open>The commands that name the cluster they delete.\<close>

definition deletes_good :: "sub_command \<Rightarrow> bool" where
  "deletes_good cmd \<longleftrightarrow> (case cmd of CmdRemove c _ \<Rightarrow> good c | _ \<Rightarrow> True)"

lemma keeps_remove: "good c \<Longrightarrow> keeps P (finish_remove env c force cfg) (\<lambda>_. True)"
proof -
  assume "good c"
  then have "keeps P (seqC (print_lines ls) (seqC (whenC force (print_lines (force_report cfg))) (modify_mgr (delete_cluster (xe_home env) c)))) (\<lambda>_. True)" for ls
    by (intro keeps_rules keeps_delete)
  then show ?thesis unfolding keeps_def finish_remove_def by blast
qed

lemma keeps_finishing: "good (name_of cfg) \<Longrightarrow> deletes_good cmd \<Longrightarrow> keeps P (finishing env cmd cfg) (\<lambda>_. True)"
  by (cases "(env, cmd, cfg)" rule: finishing.cases)
    (auto simp: finish_launch_def deletes_good_def intro!: keeps_rules keeps_remove keeps_backup_list split: option.split)

lemma keeps_with_tasks: "good (name_of cfg) \<Longrightarrow> deletes_good cmd \<Longrightarrow> keeps P (run_with_tasks env cmd cfg q v) (\<lambda>_. True)"
  unfolding run_with_tasks_def
  by (intro keeps_option keeps_print keeps_bind_lift keeps_any keeps_tasks keeps_seq keeps_status_output keeps_finishing keeps_verify)

lemma scale_version_Inr:
  assumes "scale_version env cmd cfg = Inr (cmd', cfg')"
  shows "name_of cfg' = name_of cfg \<and> deletes_good cmd' = deletes_good cmd"
proof (cases "(env, cmd, cfg)" rule: scale_version.cases)
  case (1 e a c)
  then show ?thesis using assms
    by (cases "sc_version a") (auto simp: deletes_good_def res_simps split: if_splits, auto split: option.split_asm)
qed (use assms in \<open>auto simp: deletes_good_def\<close>)

lemma keeps_configured: "good (name_of cfg) \<Longrightarrow> deletes_good cmd \<Longrightarrow> keeps P (run_configured env cmd cfg q v) (\<lambda>_. True)"
proof -
  assume g: "good (name_of cfg)" "deletes_good cmd"
  have "keeps P (bindC (liftC (scale_version env cmd cfg)) (\<lambda>(cmd, cfg). run_with_tasks env cmd cfg q v)) (\<lambda>_. True)"
    by (rule keeps_bind_lift) (use g scale_version_Inr in \<open>auto intro!: keeps_with_tasks\<close>)
  then show ?thesis
    by (cases "(env, cmd, cfg, q, v)" rule: run_configured.cases)
      (auto simp: export_config_def intro!: keeps_rules split: option.split sum.split err.split)
qed

lemma keeps_update_command: "good (name_of cfg) \<Longrightarrow> keeps P (run_update_command env cmd cfg q v) (\<lambda>_. True)"
  by (cases "(env, cmd, cfg, q, v)" rule: run_update_command.cases)
    (auto simp del: run_configured.simps simp: run_download_only_def run_monitor_update_def deletes_good_def intro!: keeps_rules keeps_any keeps_configured)

lemma keeps_upgrade: "keeps P (upgrade_schema env) (\<lambda>_. True)"
  by (rule keepsI) (auto simp: upgrade_schema_def print_line_def log_event_def intro: on_upgrade on_log split: prod.splits sum.splits)

lemma keeps_preflight: "keeps P (preflight env cmd) (\<lambda>_. True)"
  by (cases "(env, cmd)" rule: preflight.cases)
    (auto simp: skip_running_def cluster_has_running_tx_def remove_uploads_def intro!: keeps_rules keeps_upgrade keeps_any
      keeps_bind [OF keeps_require] split: option.split)

lemma keeps_command: "(\<And>cfg. opt = Some cfg \<Longrightarrow> good (name_of cfg)) \<Longrightarrow> deletes_good cmd \<Longrightarrow>
    keeps P (run_command env cmd opt q v) (\<lambda>_. True)"
  unfolding run_command_def
  by (rule keeps_any [OF keeps_preflight])
    (auto intro!: keeps_rules keeps_bind [OF keeps_some_config(1)] keeps_bind [OF keeps_some_config(2)] keeps_update_command keeps_configured)

lemma keeps_desired: "keeps P (desired_and_current env f) (\<lambda>(desired, current). good (name_of desired) \<and> good (name_of current))"
  unfolding desired_and_current_def
  by (rule keeps_bind [OF keeps_load_valid], rule keeps_bind [OF keeps_require]) (simp add: keeps_return)

lemma keeps_plan: "keeps P (plan_topology env f) (\<lambda>_. True)"
  unfolding plan_topology_def
  by (rule keeps_bind [OF keeps_desired]) (auto intro!: keeps_rules keeps_any)

lemma plan_name: "build_reconcile_plan tv current desired oc = Inr plan \<Longrightarrow> name_of (pl_merged plan) = name_of current"
  by (auto simp: plan_merged with_deployment_def merged_fields)

lemma keeps_actions: "good (name_of (pl_merged plan)) \<Longrightarrow> keeps P (apply_actions env c plan q v) (\<lambda>_. True)"
  unfolding apply_actions_def regenerate_nodes_def regenerate_node_def
  by (auto intro!: keeps_rules keeps_any keeps_command simp: deletes_good_def)

lemma keeps_apply: "keeps P (apply_topology env f q v) (\<lambda>_. True)"
  unfolding apply_topology_def apply_gate_def
  by (rule keeps_bind [OF keeps_desired]) (auto intro!: keeps_rules keeps_any keeps_actions dest!: plan_name)

theorem keeps_unlocked: "(\<And>cfg. opt = Some cfg \<Longrightarrow> good (name_of cfg)) \<Longrightarrow> deletes_good cmd \<Longrightarrow>
    keeps P (run_unlocked env cmd opt q v) (\<lambda>_. True)"
  by (cases "(env, cmd, opt, q, v)" rule: run_unlocked.cases)
    (auto simp: list_versions_def intro!: keeps_rules keeps_list keeps_command keeps_apply keeps_plan split: option.split)

end

end
