(* ===== verification/Cmd_Props.thy ===== *)
theory Cmd_Props
  imports Cmd_Rules
begin

text \<open>
  What commands do as a whole. They change no lock file but their own and release it, unless a file
  operation fails; one that could not be written blocks the cluster. They keep the state database well
  formed. With \<open>quiet\<close> nothing but status tasks starts. \<open>remove\<close> forgets a cluster whatever its tasks
  did, the health check takes a node that refuses every connection for one that serves, and \<open>apply\<close> saves
  the new configuration before it acts on it.
\<close>

section \<open>The lock\<close>

text \<open>No command touches a lock file between taking and releasing its lock.\<close>

interpretation kept_locks: command_invariant env "\<lambda>s. xs_locks s = files" "\<lambda>_. True"
  for env :: "'x exec_env" and files :: lock_files
  by unfold_locales simp_all

lemma unlocked_keeps_locks:
  assumes "run_unlocked env cmd opt quiet verbose t = Some (x, t')"
  shows "xs_locks t' = xs_locks t"
  using keepsD [OF kept_locks.keeps_unlocked [of opt cmd "xs_locks t"] _ assms]
  by (simp add: kept_locks.deletes_good_def split: sub_command.split)

text \<open>The lock of a command and what it writes there.\<close>

definition own_lock :: "'x exec_env \<Rightarrow> sub_command \<Rightarrow> (string \<times> string) option" where
  "own_lock env cmd = map_option (\<lambda>c. (lock_path (lock_dir env) c, lock_content (xe_pid env) c (command_name cmd) (xe_stamp env)))
     (mutation_cluster_from_cmd (xe_load env) cmd)"

text \<open>How a command leaves its lock file \<open>p\<close>: released; as it was, because the command was refused before it did
  anything; with its own text, because the file could not be removed; or cut off, because it could not
  be written.\<close>

definition lock_left :: "'x exec_env \<Rightarrow> string \<Rightarrow> string \<Rightarrow> exec_state \<Rightarrow> unit res \<Rightarrow> exec_state \<Rightarrow> bool" where
  "lock_left env p content s r s' \<longleftrightarrow>
     xs_locks s' p = None \<and> takes_lock (xe_alive env) (xs_locks s) p
   \<or> xs_locks s' p = xs_locks s p \<and> (\<exists>e. r = Inl e) \<and> s' = s
   \<or> xs_locks s' p = Some content \<and> takes_lock (xe_alive env) (xs_locks s) p \<and> \<not> xe_unlock env
   \<or> (\<exists>i n e. li_write (xe_lock_io env i) = Some (n, e) \<and> r = Inl e \<and> takes_lock (xe_alive env) (xs_locks s) p \<and>
       s' = s\<lparr>xs_locks := (xs_locks s)(p \<mapsto> take n content)\<rparr>)"

lemma run_with_lock:
  assumes "own_lock env cmd = Some (p, content)"
    and "acquire (xe_alive env) (xe_lock_io env) p (the (mutation_cluster_from_cmd (xe_load env) cmd)) content (xs_locks s) = (files, a)"
  shows "run env cmd opt quiet verbose s = (case a of
      Inl e \<Rightarrow> Some (Inl e, s\<lparr>xs_locks := files\<rparr>)
    | Inr _ \<Rightarrow> map_option (\<lambda>(r, s'). (r, s'\<lparr>xs_locks := drop_lock (xe_unlock env) p files\<rparr>))
        (run_unlocked env cmd opt quiet verbose (s\<lparr>xs_locks := files\<rparr>)))"
proof -
  have d: "map_option (\<lambda>(r, s'). (r, s'\<lparr>xs_locks := drop_lock (xe_unlock env) p (xs_locks s')\<rparr>)) m =
      map_option (\<lambda>(r, s'). (r, s'\<lparr>xs_locks := drop_lock (xe_unlock env) p files\<rparr>)) m"
    if "\<And>r s'. m = Some (r, s') \<Longrightarrow> xs_locks s' = files" for m :: "(unit res \<times> exec_state) option"
    using that by (cases m) auto
  have "map_option (\<lambda>(r, s'). (r, s'\<lparr>xs_locks := drop_lock (xe_unlock env) p (xs_locks s')\<rparr>))
        (run_unlocked env cmd opt quiet verbose (s\<lparr>xs_locks := files\<rparr>)) =
      map_option (\<lambda>(r, s'). (r, s'\<lparr>xs_locks := drop_lock (xe_unlock env) p files\<rparr>))
        (run_unlocked env cmd opt quiet verbose (s\<lparr>xs_locks := files\<rparr>))"
    by (rule d) (drule unlocked_keeps_locks, simp)
  then show ?thesis
    using assms by (cases a) (auto simp: own_lock_def run_def run_impl_def acquire_mutation_lock_def Let_def)
qed

text \<open>C4. A command that returns, an error included, touches no lock file but the one of its cluster, and leaves that
  one released, or as it was when the command was refused without having done anything. There are two
  exceptions: the file stays with the text of the command when it cannot be removed, and cut off when the
  text could not be written. When all file operations on the lock work, the lock is released exactly
  when no file was there or a stale one.\<close>

theorem command_releases_lock:
  assumes "run env cmd opt quiet verbose s = Some (r, s')"
  shows "case own_lock env cmd of
      None \<Rightarrow> xs_locks s' = xs_locks s
    | Some (p, content) \<Rightarrow> (\<forall>q. q \<noteq> p \<longrightarrow> xs_locks s' q = xs_locks s q) \<and> lock_left env p content s r s' \<and>
        ((\<forall>i. xe_lock_io env i = working_io) \<and> xe_unlock env \<longrightarrow>
          xs_locks s' p = (if takes_lock (xe_alive env) (xs_locks s) p then None else xs_locks s p))"
proof (cases "own_lock env cmd")
  case None
  with assms show ?thesis by (auto simp: run_def run_impl_def acquire_mutation_lock_def own_lock_def dest!: unlocked_keeps_locks)
next
  case (Some pc)
  then obtain p content where pc: "own_lock env cmd = Some (p, content)" by (cases pc) simp
  let ?c = "the (mutation_cluster_from_cmd (xe_load env) cmd)"
  obtain files a where a: "acquire (xe_alive env) (xe_lock_io env) p ?c content (xs_locks s) = (files, a)"
    by (cases "acquire (xe_alive env) (xe_lock_io env) p ?c content (xs_locks s)") simp
  note r = assms [unfolded run_with_lock [OF pc a]]
  have w: "files = (if takes_lock (xe_alive env) (xs_locks s) p then (xs_locks s)(p \<mapsto> content) else xs_locks s) \<and>
      (a = Inr () \<longleftrightarrow> takes_lock (xe_alive env) (xs_locks s) p)" if "\<forall>i. xe_lock_io env i = working_io"
    using a acquire_working [of "xe_lock_io env" "xe_alive env" p ?c content "xs_locks s"] that by (auto split: if_splits)
  have "(\<forall>q. q \<noteq> p \<longrightarrow> xs_locks s' q = xs_locks s q) \<and> lock_left env p content s r s'"
    using acquire_outcome [OF a] r by (cases "xe_unlock env"; elim disjE conjE exE) (auto simp: lock_left_def drop_lock_def)
  moreover have "xs_locks s' p = (if takes_lock (xe_alive env) (xs_locks s) p then None else xs_locks s p)"
    if "\<forall>i. xe_lock_io env i = working_io" "xe_unlock env"
    using w [OF that(1)] r that(2) by (cases a) (auto simp: drop_lock_def)
  ultimately show ?thesis by (simp add: pc)
qed



section \<open>The state database\<close>

lemma save_rows_ok: "state_ok home st \<Longrightarrow> state_ok home (save_rows env n c g ts st)"
  unfolding save_rows_def
proof (induction ts arbitrary: st)
  case (Cons t ts)
  have "state_ok home (save_task_status x st)" for x
    using step_ok [OF mgr_step.status Cons.prems] .
  then show ?case using Cons by (simp split: option.split)
qed simp

text \<open>C5. Every command leaves the state database well formed, with distinct keys and a topology file for every
  cluster of the index, whether it succeeds, fails or panics, when the tasks it runs do and the clusters
  of all topologies have names that are names of directories.\<close>

theorem commands_keep_state_ok:
  assumes "\<And>k ts st. state_ok (xe_home env) st \<Longrightarrow> state_ok (xe_home env) (xe_effect env k ts st)"
    and "\<And>f cfg. xe_load env f = Inr cfg \<or> xe_read_yaml env f = Inr cfg \<or> xe_load_legacy env f = Inr cfg \<Longrightarrow> dir_name (name_of cfg)"
    and "\<And>cfg. opt = Some cfg \<Longrightarrow> dir_name (name_of cfg)" and "\<And>c f. cmd = CmdRemove c f \<Longrightarrow> dir_name c"
    and "state_ok (xe_home env) (xs_mgr s)" and "run_impl env cmd opt quiet verbose lock s = Some (r, s')"
  shows "state_ok (xe_home env) (xs_mgr s')"
proof -
  have demo: "dir_name (c @ ''-'' @ provider_display p)" if "dir_name c" for c p
    using that by (cases p) (simp_all add: dir_name_def is_slash_def)
  have legacy: "list_all (\<lambda>r. case xe_load_legacy env (dpr_config r) of Inr cfg \<Rightarrow> dir_name (name_of cfg) | Inl _ \<Rightarrow> True) rs" for rs
    using assms(2) by (auto simp: list_all_iff split: sum.split)
  have ci: "command_invariant env (\<lambda>s. state_ok (xe_home env) (xs_mgr s)) dir_name"
  proof unfold_locales
    show "dir_name (name_of cfg)" if "xe_load env f = Inr cfg" for f cfg using assms(2) that by blast
    show "dir_name (name_of cfg)" if "xe_read_yaml env y = Inr cfg" for y cfg using assms(2) that by blast
    show "dir_name (c @ ''-'' @ provider_display p)" if "dir_name c" for c p using demo [OF that] .
    show "state_ok (xe_home env) (xs_mgr (t\<lparr>xs_mgr := st\<rparr>))"
      if "state_ok (xe_home env) (xs_mgr t)" "migrate_legacy_deployments (xe_home env) (xe_to_yaml env) (xe_load_legacy env) now (xs_mgr t) = (st, x)"
      for t now st x using migrate_ok [OF that(1) legacy] that(2) by (simp add: migrate_legacy_deployments_def)
  qed (simp_all add: save_rows_ok save_ok delete_ok assms(1) del: provider_display.simps append_Cons)
  have u: "state_ok (xe_home env) (xs_mgr t')" if "run_unlocked env cmd opt quiet verbose t = Some (x, t')" "state_ok (xe_home env) (xs_mgr t)" for t x t'
    by (rule keepsD [OF command_invariant.keeps_unlocked [OF ci] that(2,1)])
      (use assms(3,4) in \<open>auto simp: command_invariant.deletes_good_def [OF ci] split: sub_command.split\<close>)
  show ?thesis using assms(5,6) by (auto simp: run_impl_def split: prod.splits sum.splits option.splits if_splits dest!: u)
qed

lemma save_rows_files: "st_index (save_rows env k c g ts st) = st_index st \<and> st_files (save_rows env k c g ts st) = st_files st"
  unfolding save_rows_def by (induction ts arbitrary: st) (auto simp: save_task_status_def split: option.split)

section \<open>Quiet\<close>

text \<open>The start of a context of the status tasks, by which a command looks at a cluster.\<close>

definition status_started :: "'x exec_env \<Rightarrow> event \<Rightarrow> bool" where
  "status_started env e \<longleftrightarrow> (\<exists>n cluster w cfg ctx. task_context_of env n (CmdStatus cluster None None w False) cfg = Inr ctx \<and>
     e = Started (task_group ctx) (map ti_identifier (fst (run_all_tasks (xe_exec env n) False ctx))))"

fun is_started :: "event \<Rightarrow> bool" where
  "is_started (Started g ids) = True"
| "is_started e = False"

definition only_status :: "'x exec_env \<Rightarrow> event list \<Rightarrow> exec_state \<Rightarrow> bool" where
  "only_status env before s \<longleftrightarrow> (\<forall>e \<in> set (xs_log s). is_started e \<longrightarrow> e \<in> set before \<or> status_started env e)"

named_theorems quiet_rules \<open>operations that start status tasks only\<close>

lemma quiet_log [quiet_rules]: "\<not> is_started e \<Longrightarrow> keeps (only_status env l) (log_event e) (\<lambda>_. True)"
  by (auto simp: keeps_def log_event_def only_status_def)

lemma quiet_print [quiet_rules]: "keeps (only_status env l) (print_line x) (\<lambda>_. True)" "keeps (only_status env l) (print_lines xs) (\<lambda>_. True)"
  unfolding print_lines_def print_line_def by (intro keeps_rules quiet_log; simp)+

lemma quiet_same: "(\<And>s r s'. m s = Some (r, s') \<Longrightarrow> xs_log s' = xs_log s) \<Longrightarrow> keeps (only_status env l) m (\<lambda>_. True)"
  by (simp add: keeps_def only_status_def)

lemma quiet_bind: "keeps P m (\<lambda>_. True) \<Longrightarrow> (\<And>a. keeps P (f a) R) \<Longrightarrow> keeps P (bindC m f) R"
  by (rule keeps_bind)

lemma quiet_load [quiet_rules]: "keeps (only_status env l) (load_cluster env c) (\<lambda>_. True)"
  by (rule quiet_same) (simp add: load_cluster_def)

lemma quiet_save [quiet_rules]: "keeps (only_status env l) (save_config env cfg u) (\<lambda>_. True)"
  by (rule quiet_same) (auto simp: save_config_def split: sum.splits)

lemma quiet_require [quiet_rules]: "keeps (only_status env l) (require_cluster env c) (\<lambda>_. True)"
  unfolding require_cluster_def by (rule quiet_bind [OF quiet_load]) (intro keeps_rules TrueI)

lemma quiet_saved [quiet_rules]: "keeps (only_status env l) (saved_valid env c) (\<lambda>_. True)"
  unfolding saved_valid_def by (rule quiet_bind [OF quiet_require]) (intro keeps_rules TrueI)

lemma quiet_config [quiet_rules]: "keeps (only_status env l) (get_config env cmd) (\<lambda>_. True)"
  by (cases cmd) (auto simp: launch_config_def gen_demo_config_def update_config_def monitor_config_def Let_def
      intro!: keeps_rules quiet_rules quiet_bind split: option.split)

lemma quiet_observe [quiet_rules]: "keeps (only_status env l) (observe_cluster env cfg w) (\<lambda>_. True)"
proof -
  have "keeps (only_status env l) (run_tasks_with_error_break env (CmdStatus c None None w False) cfg False) (\<lambda>_. True)" for c
  proof (rule keepsI)
    fix s r s'
    assume s: "only_status env l s" "run_tasks_with_error_break env (CmdStatus c None None w False) cfg False s = Some (r, s')"
    show "only_status env l s' \<and> (\<forall>a. r = Inr a \<longrightarrow> True)"
    proof (cases "task_context_of env (xs_run s) (CmdStatus c None None w False) cfg")
      case (Inr ctx)
      then have "status_started env (Started (task_group ctx) (map ti_identifier (fst (run_all_tasks (xe_exec env (xs_run s)) False ctx))))"
        unfolding status_started_def by blast
      with s Inr show ?thesis
        by (auto simp: run_tasks_with_error_break_def run_context_def only_status_def Let_def split: prod.splits)
    qed (use s in \<open>simp add: run_tasks_with_error_break_def failC_def\<close>)
  qed
  then show ?thesis unfolding observe_cluster_def Let_def by (rule quiet_bind) (intro keeps_rules TrueI)
qed

lemma quiet_healthy [quiet_rules]: "keeps (only_status env l) (ensure_critical_services_healthy env cfg op) (\<lambda>_. True)"
proof -
  have "keeps (only_status env l) (probe_all env cfg op nodes) (\<lambda>_. True)" for nodes
    by (rule quiet_same) (auto simp: probe_all_def)
  then show ?thesis unfolding ensure_critical_services_healthy_def by (intro quiet_bind [OF quiet_observe] keeps_rules quiet_rules)
qed

lemma quiet_require_healthy [quiet_rules]: "keeps (only_status env l) (require_healthy env c op) (\<lambda>_. True)"
  unfolding require_healthy_def by (rule quiet_bind [OF quiet_require]) (rule quiet_healthy)

text \<open>Behind the result file nothing happens.\<close>

lemma quiet_configured [quiet_rules]: "keeps (only_status env l) (run_configured env cmd cfg True v) (\<lambda>_. True)"
proof -
  have "keeps (only_status env l) (run_with_tasks env cmd cfg True v) (\<lambda>_. True)" for cmd cfg
    unfolding run_with_tasks_def open_result_file_def by (auto intro!: keeps_rules quiet_rules)
  then have "keeps (only_status env l) (bindC (liftC (scale_version env cmd cfg)) (\<lambda>(cmd, cfg). run_with_tasks env cmd cfg True v)) (\<lambda>_. True)"
    by (intro keeps_rules) auto
  then show ?thesis
    by (cases "(env, cmd, cfg, True, v)" rule: run_configured.cases)
      (auto simp: export_config_def intro!: keeps_rules quiet_rules split: option.split sum.split err.split)
qed

lemma quiet_update [quiet_rules]: "keeps (only_status env l) (run_update_command env cmd cfg True v) (\<lambda>_. True)"
  by (cases "(env, cmd, cfg, True, v)" rule: run_update_command.cases)
    (auto simp del: run_configured.simps simp: run_download_only_def run_monitor_update_def open_result_file_def intro!: keeps_rules quiet_rules)

lemma quiet_preflight [quiet_rules]: "keeps (only_status env l) (preflight env cmd) (\<lambda>_. True)"
proof -
  have "keeps (only_status env l) (upgrade_schema env) (\<lambda>_. True)"
    by (rule keepsI) (auto simp: upgrade_schema_def print_line_def log_event_def only_status_def split: prod.splits sum.splits)
  then show ?thesis
    by (cases "(env, cmd)" rule: preflight.cases)
      (auto simp: skip_running_def cluster_has_running_tx_def remove_uploads_def intro!: keeps_rules quiet_rules quiet_bind split: option.split)
qed

lemma quiet_command [quiet_rules]: "keeps (only_status env l) (run_command env cmd opt True v) (\<lambda>_. True)"
  unfolding run_command_def given_config_def
  by (rule quiet_bind [OF quiet_preflight]) (auto intro!: keeps_rules quiet_rules quiet_bind split: option.split)

lemma quiet_desired [quiet_rules]: "keeps (only_status env l) (desired_and_current env f) (\<lambda>_. True)"
  unfolding desired_and_current_def by (intro keeps_rules quiet_bind quiet_require TrueI)

lemma quiet_actions [quiet_rules]: "keeps (only_status env l) (apply_actions env c plan True v) (\<lambda>_. True)"
  unfolding apply_actions_def regenerate_nodes_def regenerate_node_def
  by (auto intro!: keeps_rules quiet_rules quiet_bind)

lemma quiet_unlocked: "keeps (only_status env l) (run_unlocked env cmd opt True v) (\<lambda>_. True)"
proof -
  have "keeps (only_status env l) (list_clusters env) (\<lambda>_. True)"
    unfolding list_clusters_def [abs_def]
    by (rule keeps_dep [where g = "\<lambda>t. bindC (liftC (bindE (list_deployments (xe_read_yaml env) (xs_mgr t)) (mapE abstract_info)))
       (\<lambda>rows. log_event (Clusters rows))"]) (intro keeps_rules quiet_rules; simp)
  then show ?thesis
    by (cases "(env, cmd, opt, True, v)" rule: run_unlocked.cases)
      (auto simp: list_versions_def plan_topology_def apply_topology_def apply_gate_def intro!: keeps_rules quiet_rules quiet_bind split: option.split)
qed

text \<open>C8. With \<open>--quiet\<close> no command starts a task of its own: whatever the command is and however it ends, every
  context that it starts is one of the status tasks by which it looks at a cluster. The file for the
  results, which is opened before the tasks are started, cannot be opened.\<close>

theorem quiet_runs_nothing:
  assumes "run env cmd opt True verbose s = Some (r, s')" and "Started g ids \<in> set (xs_log s')" and "Started g ids \<notin> set (xs_log s)"
  shows "\<exists>n cluster wait cfg ctx. task_context_of env n (CmdStatus cluster None None wait False) cfg = Inr ctx \<and>
    g = task_group ctx \<and> ids = map ti_identifier (fst (run_all_tasks (xe_exec env n) False ctx))"
proof -
  have q: "only_status env (xs_log s) t'" if "run_unlocked env cmd opt True verbose t = Some (x, t')" "xs_log t = xs_log s" for t x t'
    using keepsD [OF quiet_unlocked [of env "xs_log s"] _ that(1)] that(2) by (simp add: only_status_def)
  have "only_status env (xs_log s) s'"
  proof (cases "own_lock env cmd")
    case None
    with assms(1) show ?thesis by (auto simp: run_def run_impl_def acquire_mutation_lock_def own_lock_def intro: q)
  next
    case (Some pc)
    then obtain p content where pc: "own_lock env cmd = Some (p, content)" by (cases pc) simp
    obtain files a where a: "acquire (xe_alive env) (xe_lock_io env) p (the (mutation_cluster_from_cmd (xe_load env) cmd)) content (xs_locks s)
        = (files, a)" by fastforce
    from assms(1) [unfolded run_with_lock [OF pc a]] show ?thesis
      by (cases a) (auto simp: only_status_def dest!: q)
  qed
  with assms(2,3) have "status_started env (Started g ids)" by (auto simp: only_status_def)
  then show ?thesis unfolding status_started_def event.inject .
qed

section \<open>Health\<close>

lemma print_lines_runs: "print_lines ls s = Some (Inr (), s\<lparr>xs_log := xs_log s @ map Printed ls\<rparr>)"
  by (induction ls arbitrary: s) (simp_all add: print_lines_def seqC_def bindC_def print_line_def log_event_def returnC_def)

lemma unreachable_probe:
  assumes "\<And>k. \<exists>e. ans k = NotReachable e"
  shows "\<exists>e. probe_loop ans n w = Some (-1, e)"
proof (induction "nat w" arbitrary: n w)
  case 0
  obtain e where "ans n = NotReachable e" using assms by blast
  then show ?case using 0 by (subst probe_loop.simps) simp
next
  case (Suc k)
  obtain e where e: "ans n = NotReachable e" using assms by blast
  have "0 < w" and "k = nat (w - 1)" using Suc.hyps(2) by simp_all
  with Suc.hyps(1) [of "w - 1" "Suc n"] e show ?case by (subst probe_loop.simps) simp
qed

lemma probe_no_error:
  assumes "\<And>u. open_client u = Inr ()"
  shows "probe open_client ans pr w = None \<or> (\<exists>v. probe open_client ans pr w = Some (Inr v))"
  by (cases "probe_loop ans 0 w") (auto simp: probe_def assms Let_def)

lemma probed_nodes:
  assumes "\<And>u. xe_open env u = Inr ()"
  shows "probe_all env cfg operation nodes s = None \<or> probe_all env cfg operation nodes s = Some (Inr (), s)"
proof -
  have "probe_node env n cfg operation node \<in> {None, Some (Inr ())}" for n node
  proof -
    have "map_option (\<lambda>r. case r of Inr _ \<Rightarrow> Inr () | Inl e \<Rightarrow> f e) (probe (xe_open env) ans pr 10) \<in> {None, Some (Inr ())}"
      for ans pr and f :: "err \<Rightarrow> unit res"
      using probe_no_error [of "xe_open env" ans pr 10] assms by auto
    then show ?thesis 
      unfolding probe_node_def Let_def by (split prod.split, intro allI impI, split prod.split, intro allI impI, rule)
  qed
  then have p: "probe_node env (xs_run s) cfg operation node \<in> {None, Some (Inr ())}" for node .
  have "those (map (probe_node env (xs_run s) cfg operation) nodes) \<in> {None, Some (map (\<lambda>_. Inr ()) nodes)}"
  proof (induction nodes)
    case (Cons node nodes)
    then show ?case using p [of node] by auto
  qed simp
  moreover have "checkE (\<lambda>r. r) (map (\<lambda>_. Inr ()) nodes) = Inr ()" by (induction nodes) simp_all
  ultimately show ?thesis by (auto simp: probe_all_def)
qed

lemma unreachable_nodes:
  assumes "\<And>u. xe_open env u = Inr ()" and "\<And>n h p k. \<exists>e. xe_ping env n h p k = NotReachable e"
  shows "probe_all env cfg operation nodes s = Some (Inr (), s)"
proof -
  have "probe_node env n cfg operation node = Some (Inr ())" for n node
  proof -
    have "\<exists>v. probe (xe_open env) (xe_ping env n h p) pr w = Some (Inr v)" for h p pr w
      using unreachable_probe [of "xe_ping env n h p" 0 w] assms by (auto simp: probe_def Let_def)
    then show ?thesis by (fastforce simp: probe_node_def Let_def split: prod.split)
  qed
  then have "those (map (probe_node env (xs_run s) cfg operation) nodes) = Some (map (\<lambda>_. Inr ()) nodes)" by (induction nodes) simp_all
  moreover have "checkE (\<lambda>r. r) (map (\<lambda>_. Inr ()) nodes) = Inr ()" by (induction nodes) simp_all
  ultimately show ?thesis by (simp add: probe_all_def)
qed

lemma health_outcome:
  assumes "observe_cluster env cfg (Some 30) s = Some (Inr oc, t)"
  shows "ensure_critical_services_healthy env cfg operation s =
      (if not_healthy oc then seqC (print_lines (observed_lines oc)) (failC (Err (''cannot '' @ operation @ '': live cluster '' @
         quoted (name_of cfg) @ '' is not healthy'')))
       else probe_all env cfg operation
         (get_host_port_list (cfg_deployment cfg) EloqStandby @ get_host_port_list (cfg_deployment cfg) EloqVoter)) t"
  unfolding ensure_critical_services_healthy_def using assms by (rule bindC_Inr)

text \<open>C9. The health check of a cluster is decided by the status tasks alone. When they report a service that is
  down, unknown or in error it fails before any node is asked. Otherwise each standby and voter is asked
  whether it serves Redis, and no answer of theirs makes the check fail: it passes or never returns, and
  when none of them can be reached it passes. So a voter, of which the status tasks only look for the
  process, need not serve anything.\<close>

theorem unreachable_nodes_pass_health_check:
  assumes "observe_cluster env cfg (Some 30) s = Some (Inr oc, t)" and "\<And>u. xe_open env u = Inr ()"
  shows "if not_healthy oc
    then map_option fst (ensure_critical_services_healthy env cfg operation s) =
      Some (Inl (Err (''cannot '' @ operation @ '': live cluster '' @ quoted (name_of cfg) @ '' is not healthy'')))
    else ensure_critical_services_healthy env cfg operation s \<in> {None, Some (Inr (), t)} \<and>
      ((\<forall>n h p k. \<exists>e. xe_ping env n h p k = NotReachable e) \<longrightarrow>
        ensure_critical_services_healthy env cfg operation s = Some (Inr (), t))"
proof -
  let ?ns = "get_host_port_list (cfg_deployment cfg) EloqStandby @ get_host_port_list (cfg_deployment cfg) EloqVoter"
  show ?thesis
  proof (cases "not_healthy oc")
    case True
    then show ?thesis unfolding health_outcome [OF assms(1)] by (simp add: seqC_def bindC_def print_lines_runs failC_def)
  next
    case False
    then show ?thesis unfolding health_outcome [OF assms(1)]
      using probed_nodes [OF assms(2), of cfg operation ?ns t] unreachable_nodes [OF assms(2), of cfg operation ?ns t] by auto
  qed
qed

section \<open>Removal\<close>

lemma finish_remove_runs: "\<exists>l. finish_remove env c force cfg s =
    Some (Inr (), s\<lparr>xs_log := xs_log s @ l, xs_mgr := delete_cluster (xe_home env) c (xs_mgr s)\<rparr>)"
proof
  let ?rep = "failed_report env c cfg (load_task_status c (Some 1) (Some [''remove'']) (xs_mgr s))"
  show "finish_remove env c force cfg s = Some (Inr (), s\<lparr>xs_log := xs_log s @ (map Printed ?rep @
      (if force then map Printed (force_report cfg) else [])), xs_mgr := delete_cluster (xe_home env) c (xs_mgr s)\<rparr>)"
    by (cases force) (simp_all add: finish_remove_def seqC_def bindC_def print_lines_runs returnC_def modify_mgr_def)
qed

lemma run_all_tasks_goes_on: "split_task ctx = Inr stages \<Longrightarrow>
    \<exists>rs. run_all_tasks exec False ctx = (concat stages, Inr rs)"
proof -
  have "\<exists>rs. run_stages exec False stages = (concat stages, Inr rs)" for stages
    by (induction stages) (auto simp: Let_def)
  then show "split_task ctx = Inr stages \<Longrightarrow> ?thesis" by (simp add: run_all_tasks_def)
qed

lemma remove_run:
  assumes "xe_group env (xs_run s) (CmdRemove c force) cfg = Inr ctx" and "split_task ctx = Inr stages"
  shows "\<exists>s'. run_configured env (CmdRemove c force) cfg False verbose s = Some (Inr (), s') \<and>
    Started (task_group ctx) (map ti_identifier (concat stages)) \<in> set (xs_log s') \<and> (\<exists>m. xs_mgr s' = delete_cluster (xe_home env) c m)"
proof -
  let ?n = "xs_run s"
  obtain rs where rs: "run_all_tasks (xe_exec env ?n) False ctx = (concat stages, Inr rs)"
    using run_all_tasks_goes_on [OF assms(2)] by blast
  let ?t = "s\<lparr>xs_run := Suc ?n, xs_log := xs_log s @ [Started (task_group ctx) (map ti_identifier (concat stages))],
    xs_mgr := save_rows env ?n (name_of cfg) (task_group ctx) (concat stages) (xe_effect env ?n (concat stages) (xs_mgr s))\<rparr>"
  have "run_tasks env (CmdRemove c force) cfg s = Some (Inr rs, ?t)"
    using assms(1) rs by (simp add: run_tasks_def run_tasks_with_error_break_def task_context_of_def group_names_def run_context_def Let_def)
  moreover obtain l where "finish_remove env c force cfg ?t = Some (Inr (), ?t\<lparr>xs_log := xs_log ?t @ l, xs_mgr := delete_cluster (xe_home env) c (xs_mgr ?t)\<rparr>)"
    using finish_remove_runs by blast
  ultimately have "run_configured env (CmdRemove c force) cfg False verbose s =
      Some (Inr (), ?t\<lparr>xs_log := xs_log ?t @ l, xs_mgr := delete_cluster (xe_home env) c (xs_mgr ?t)\<rparr>)"
    by (simp add: run_with_tasks_def open_result_file_def verify_mutation_def seqC_def bindC_def returnC_def)
  then show ?thesis by (intro exI [of _ "?t\<lparr>xs_log := xs_log ?t @ l, xs_mgr := delete_cluster (xe_home env) c (xs_mgr ?t)\<rparr>"]) auto
qed

text \<open>C6. When the tasks of a removal form stages, the removal starts all of them, succeeds and forgets the
  cluster, even if every single task fails; the retry that it then recommends is refused because the
  cluster is no longer known.\<close>

theorem remove_forgets_despite_failures:
  assumes "xe_group env (xs_run s) (CmdRemove c force) cfg = Inr ctx" and "split_task ctx = Inr stages"
  shows "\<exists>s'. run_configured env (CmdRemove c force) cfg False verbose s = Some (Inr (), s') \<and>
    Started (task_group ctx) (map ti_identifier (concat stages)) \<in> set (xs_log s') \<and>
    map_option fst (run_command env (CmdRemove c force') None False verbose' s') = Some (Inl (not_found c))"
proof -
  have "map_option fst (run_command env (CmdRemove c force') None False verbose' u) = Some (Inl (not_found c))"
    if "xs_mgr u = delete_cluster (xe_home env) c m" for u m
    using that by (auto simp: run_command_def remove_uploads_def whenC_def seqC_def bindC_def returnC_def log_event_def saved_valid_def
      require_cluster_def load_cluster_def load_deployment_from_state_def delete_cluster_def filter_False failC_def)
  then show ?thesis using remove_run [OF assms, of verbose] by blast
qed

section \<open>Applying\<close>

lemma settled_plan_empty:
  assumes "build_reconcile_plan to_value current desired obs = Inr p" and "build_reconcile_plan to_value (pl_merged p) desired obs' = Inr q"
    and "pl_changes q = []"
  shows "plan_is_empty q"
proof -
  note s = settled [of "cfg_deployment current" "cfg_deployment desired", folded plan_merged [OF assms(1)], unfolded traces_def prod.inject]
  from assms(2) show ?thesis
  proof (rule plan_parts)
    fix diffs
    assume q: "q = plan_of_diffs (pl_merged p) obs' (plan_fields (cfg_deployment (pl_merged p)) (cfg_deployment desired)) diffs"
    then have f: "filter (starts_with store_prefix) diffs = []" using assms(3) s by (simp add: plan_of_diffs_parts)
    have "set (pl_actions q) = {}" unfolding q plan_of_diffs_parts f using s by simp
    moreover have "pl_tx_updates q = []" unfolding q plan_of_diffs_parts using s by simp
    ultimately show ?thesis using assms(3) by (simp add: plan_is_empty_def)
  qed
qed

text \<open>C7. \<open>apply\<close> saves the new configuration before it regenerates, updates and restarts, so whatever these steps
  end with, an error included, the configuration that is loaded afterwards is the new one. Another
  \<open>apply\<close> of the same file then finds no field to update and no monitor to restart, and of all changes at
  most those of the storage service, which the new configuration does not take over; where there are
  none of them its plan is empty and nothing that failed is tried again.\<close>

theorem failed_apply_is_not_repeated:
  assumes "build_reconcile_plan (xe_to_value env) current desired oc = Inr plan" and "SaveClusterIndex \<in> set (pl_actions plan)"
    and "apply_actions env (name_of current) plan quiet verbose s = Some (r, s')"
    and "xe_to_yaml env (pl_merged plan) = Inr y" and "xe_read_yaml env y = Inr (pl_merged plan)"
    and "\<And>k ts st. st_index (xe_effect env k ts st) = st_index st \<and> st_files (xe_effect env k ts st) = st_files st"
  shows "load_deployment_from_state (xe_read_yaml env) (name_of current) (xs_mgr s') = Inr (Some (pl_merged plan)) \<and>
    (\<forall>oc' p'. build_reconcile_plan (xe_to_value env) (pl_merged plan) desired oc' = Inr p' \<longrightarrow>
      pl_tx_updates p' = [] \<and> RestartMonitor \<notin> set (pl_actions p') \<and> list_all (starts_with store_prefix) (pl_changes p') \<and>
      (pl_changes p' = [] \<longrightarrow> plan_is_empty p'))"
proof -
  let ?P = "\<lambda>s. load_deployment_from_state (xe_read_yaml env) (name_of current) (xs_mgr s) = Inr (Some (pl_merged plan))"
  let ?rest = "plan\<lparr>pl_actions := filter (\<lambda>a. a \<noteq> SaveClusterIndex) (pl_actions plan)\<rparr>"
  have n: "name_of (pl_merged plan) = name_of current" using plan_merged [OF assms(1)] by (simp add: with_deployment_def merged_fields)
  have eff: "load_deployment_from_state (xe_read_yaml env) c (save_rows env k c' g ts (xe_effect env k' ts st)) =
      load_deployment_from_state (xe_read_yaml env) c st" for c k c' g ts k' st
    by (simp add: save_rows_files assms(6) load_deployment_from_state_def read_topology_def split: list.split)
  have ti: "task_invariant env ?P" by unfold_locales (simp_all add: eff)
  have "apply_actions env (name_of current) plan quiet verbose = seqC (save_config env (pl_merged plan) True) (apply_actions env (name_of current) ?rest quiet verbose)"
    using assms(2) by (simp add: apply_actions_def)
  moreover obtain st where st: "save_deployment_config (xe_home env) (xe_to_yaml env) (xe_now env (xs_run s)) (pl_merged plan) True (xs_mgr s) = Inr st"
    using assms(4) by (auto simp: save_deployment_config_def Let_def)
  ultimately have "apply_actions env (name_of current) ?rest quiet verbose (s\<lparr>xs_mgr := st\<rparr>) = Some (r, s')"
    using assms(3) by (simp add: seqC_def bindC_def save_config_def)
  moreover have "?P (s\<lparr>xs_mgr := st\<rparr>)" using save_loads [OF st assms(4), of "xe_read_yaml env"] assms(5) n by simp
  moreover have "SaveClusterIndex \<notin> set (pl_actions ?rest)" by simp
  ultimately have "?P s'" using keepsD [OF task_invariant.keeps_after_save [OF ti, of ?rest "name_of current" quiet verbose]] by blast
  then show ?thesis using plan_settles [OF assms(1)] settled_plan_empty [OF assms(1)] by blast
qed

section \<open>Examples\<close>

text \<open>One cluster, whose tasks all fail and whose nodes do not answer.\<close>

definition removal :: "unit task_instance" where
  "removal = \<lparr>ti_input = (\<lambda>_. None), ti_task = (), ti_identifier = \<lparr>tid_cmd = ''remove'', tid_task = ''rm'', tid_host = ''a''\<rparr>, ti_host = LocalHost\<rparr>"

definition plain_env :: "deploy_config \<Rightarrow> unit exec_env" where
  "plain_env cfg = \<lparr>xe_home = ''/h'', xe_load = \<lambda>_. Inr cfg, xe_read_yaml = \<lambda>_. Inr cfg, xe_load_legacy = \<lambda>_. Inr cfg,
     xe_to_yaml = \<lambda>_. Inr ''y'', xe_to_value = sample_value, xe_now = \<lambda>n. n, xe_stamp = ''now'', xe_pid = 7, xe_alive = (\<lambda>p. p = 7),
     xe_lock_io = (\<lambda>_. working_io), xe_unlock = True,
     xe_os = ''linux'', xe_arch = ''x86_64'', xe_releases = Inr [], xe_path_exists = \<lambda>_. False, xe_write = \<lambda>_ _. Inr (),
     xe_gen_node = \<lambda>_ _ _. Inl (Err ''no space left on device''), xe_self_update = Inr ''updated'',
     xe_group = \<lambda>_ _ _. Inr \<lparr>task_group = ''remove'', barrier = Some [1], executable = [(ti_identifier removal, removal)]\<rparr>,
     xe_downloads = \<lambda>_. Inr [], xe_monitor_update = \<lambda>_ _ _. Inr \<lparr>task_group = ''monitor'', barrier = None, executable = []\<rparr>,
     xe_exec = \<lambda>_ _. Some (TaskError ''unreachable''), xe_effect = \<lambda>_ _ st. st, xe_task_json = \<lambda>t. tid_task t, xe_read_task = \<lambda>_. None,
     xe_open = \<lambda>_. Inr (), xe_ping = \<lambda>_ _ _ _. NotReachable ''refused''\<rparr>"

lemma plain_env_simps [simp]:
  "xe_home (plain_env cfg) = ''/h''" "xe_read_yaml (plain_env cfg) = (\<lambda>_. Inr cfg)" "xe_path_exists (plain_env cfg) p = False"
  "xe_load (plain_env cfg) = (\<lambda>_. Inr cfg)" "xe_load_legacy (plain_env cfg) = (\<lambda>_. Inr cfg)" "xe_to_yaml (plain_env cfg) = (\<lambda>_. Inr ''y'')"
  "xe_to_value (plain_env cfg) = sample_value" "xe_now (plain_env cfg) = (\<lambda>n. n)" "xe_effect (plain_env cfg) = (\<lambda>_ _ st. st)"
  "xe_alive (plain_env cfg) = (\<lambda>p. p = 7)" "xe_lock_io (plain_env cfg) = (\<lambda>_. working_io)" "xe_unlock (plain_env cfg)" "xe_gen_node (plain_env cfg) = (\<lambda>_ _ _. Inl (Err ''no space left on device''))"
  "xe_open (plain_env cfg) = (\<lambda>_. Inr ())" "xe_ping (plain_env cfg) = (\<lambda>_ _ _ _. NotReachable ''refused'')"
  "xe_group (plain_env cfg) = (\<lambda>_ _ _. Inr \<lparr>task_group = ''remove'', barrier = Some [1], executable = [(ti_identifier removal, removal)]\<rparr>)"
  by (simp_all add: plain_env_def)

definition kv_state :: "lock_files \<Rightarrow> exec_state" where
  "kv_state files = \<lparr>xs_mgr = kv_saved, xs_locks = files, xs_run = 0, xs_log = []\<rparr>"

lemma kv_loads: "load_deployment_from_state (\<lambda>_. Inr kv_config) ''kv'' kv_saved = Inr (Some kv_config)"
  using save_loads [OF kv_save, of "''y''" "\<lambda>_. Inr kv_config"] by (simp add: kv_name)

lemma kv_valid: "validate_metrics_config kv_config = Inr ()"
  by (simp add: validate_metrics_config_def kv_config_def bare_config_def bare_deployment_def)

lemma kv_removed: "\<exists>s'. run_unlocked (plain_env kv_config) (CmdRemove ''kv'' False) None False False (kv_state files) = Some (Inr (), s') \<and>
    (\<exists>m. xs_mgr s' = delete_cluster ''/h'' ''kv'' m)"
proof -
  have "run_unlocked (plain_env kv_config) (CmdRemove ''kv'' False) None False False (kv_state files) =
      run_configured (plain_env kv_config) (CmdRemove ''kv'' False) kv_config False False (kv_state files)"
    by (simp add: run_command_def remove_uploads_def saved_valid_def require_cluster_def load_cluster_def kv_state_def kv_loads kv_valid
      seqC_def bindC_def returnC_def liftC_def del: run_configured.simps)
  then show ?thesis
    using remove_run [of "plain_env kv_config" "kv_state files" "''kv''" False kv_config
        "\<lparr>task_group = ''remove'', barrier = Some [1], executable = [(ti_identifier removal, removal)]\<rparr>" "[[removal]]" False]
    by (auto simp: split_task_def)
qed

lemma kv_saved_ok: "state_ok ''/h'' kv_saved"
  by (rule save_ok [OF _ _ kv_save]) (simp_all add: state_ok_def keys_ok_def files_ok_def empty_state_def kv_name dir_name_def is_slash_def)

lemma dir_name_kv: "dir_name (name_of kv_config)"
  by (simp add: kv_name dir_name_def is_slash_def)

theorem commands_keep_state_ok_witness:
  "\<exists>s'. run_impl (plain_env kv_config) (CmdRemove ''kv'' False) None False False False (kv_state Map.empty) = Some (Inr (), s') \<and>
     state_ok ''/h'' (xs_mgr s')"
proof -
  obtain s' where s': "run_impl (plain_env kv_config) (CmdRemove ''kv'' False) None False False False (kv_state Map.empty) = Some (Inr (), s')"
    using kv_removed by (auto simp: run_impl_def)
  have "state_ok (xe_home (plain_env kv_config)) (xs_mgr s')"
    by (rule commands_keep_state_ok [OF _ _ _ _ _ s']) (use dir_name_kv kv_saved_ok in \<open>auto simp: kv_state_def dir_name_def is_slash_def\<close>)
  with s' show ?thesis by simp
qed

text \<open>A lock file of another cluster stays, a stale one of the cluster is taken over and removed.\<close>

lemma kv_lock: "own_lock (plain_env kv_config) (CmdRemove ''kv'' False) =
    Some (''/h/locks/kv.lock'', lock_content 7 ''kv'' ''remove'' ''now'')"
  by (simp add: own_lock_def lock_path_def lock_dir_def sanitize_cluster_name_def is_ascii_alnum_def plain_env_def)

theorem command_releases_lock_witness:
  "\<exists>s'. run (plain_env kv_config) (CmdRemove ''kv'' False) None False False
       (kv_state [''/h/locks/kv.lock'' \<mapsto> lock_content 9 ''kv'' ''stop'' ''now'', ''/h/locks/other.lock'' \<mapsto> []]) = Some (Inr (), s') \<and>
     xs_locks s' ''/h/locks/kv.lock'' = None \<and> xs_locks s' ''/h/locks/other.lock'' = Some []"
proof -
  let ?env = "plain_env kv_config" and ?s = "kv_state [''/h/locks/kv.lock'' \<mapsto> lock_content 9 ''kv'' ''stop'' ''now'', ''/h/locks/other.lock'' \<mapsto> []]"
  let ?files = "(xs_locks ?s)(''/h/locks/kv.lock'' \<mapsto> lock_content 7 ''kv'' ''remove'' ''now'')"
  have st: "takes_lock (xe_alive ?env) (xs_locks ?s) ''/h/locks/kv.lock''"
    by (simp add: takes_lock_def is_stale_def kv_state_def content_names_process)
  have a: "acquire (xe_alive ?env) (xe_lock_io ?env) ''/h/locks/kv.lock'' (the (mutation_cluster_from_cmd (xe_load ?env) (CmdRemove ''kv'' False)))
      (lock_content 7 ''kv'' ''remove'' ''now'') (xs_locks ?s) = (?files, Inr ())"
    using st by (subst acquire_working) simp_all
  have f: "?s\<lparr>xs_locks := ?files\<rparr> = kv_state ?files" by (simp add: kv_state_def)
  obtain s' where r: "run ?env (CmdRemove ''kv'' False) None False False ?s = Some (Inr (), s')"
    using kv_removed [of ?files] unfolding run_with_lock [OF kv_lock a] f by auto
  from command_releases_lock [OF r] have "xs_locks s' ''/h/locks/kv.lock'' = None" "xs_locks s' ''/h/locks/other.lock'' = Some []"
    using st by (simp_all add: kv_lock) (simp add: kv_state_def)
  with r show ?thesis by blast
qed


text \<open>A cluster with a voter whose process runs and which refuses every connection.\<close>

definition voter_config :: deploy_config where
  "voter_config = bare_config (bare_deployment ''kv'' ''/opt'' (bare_service [''a:1''] None (Some [''b:2''])))"

definition voter_task :: "unit task_instance" where
  "voter_task = \<lparr>ti_input = (\<lambda>_. None), ti_task = (), ti_identifier = tx_task_id ''status'' VoterServer ''b'' (show_u16 2), ti_host = LocalHost\<rparr>"

definition voter_ctx :: "unit task_context" where
  "voter_ctx = \<lparr>task_group = ''status'', barrier = Some [1], executable = [(ti_identifier voter_task, voter_task)]\<rparr>"

definition voter_env :: "unit exec_env" where
  "voter_env = (plain_env voter_config)\<lparr>
     xe_group := (\<lambda>_ _ _. Inr voter_ctx),
     xe_exec := (\<lambda>_ _. Some (Success (Some (status_value ''ps'' (Inr [process_pid_key \<mapsto> StrValue ''77''])))))\<rparr>"

lemma voter_env_simps [simp]:
  "xe_read_yaml voter_env = (\<lambda>_. Inr voter_config)" "xe_load voter_env = (\<lambda>_. Inr voter_config)" "xe_open voter_env = (\<lambda>_. Inr ())"
  "xe_ping voter_env = (\<lambda>_ _ _ _. NotReachable ''refused'')" "xe_effect voter_env = (\<lambda>_ _ st. st)" "xe_lock_io voter_env = (\<lambda>_. working_io)"
  "xe_exec voter_env = (\<lambda>_ _. Some (Success (Some (status_value ''ps'' (Inr [process_pid_key \<mapsto> StrValue ''77''])))))"
  "xe_group voter_env = (\<lambda>_ _ _. Inr voter_ctx)"
  by (simp_all add: voter_env_def)

lemma voter_context: "task_context_of voter_env n (CmdStatus c None None w False) cfg =
    Inr voter_ctx"
  by (simp add: task_context_of_def group_names_def)

lemma voter_group: "task_group voter_ctx = ''status''" by (simp add: voter_ctx_def)

lemma voter_runs: "run_all_tasks (xe_exec voter_env n) b voter_ctx =
    ([voter_task], Inr [\<lparr>rp_task_id = format_string (ti_identifier voter_task),
      rp_result = Success (Some (status_value ''ps'' (Inr [process_pid_key \<mapsto> StrValue ''77''])))\<rparr>])"
  by (simp add: run_all_tasks_def split_task_def run_task_split_def map_filter_simps Let_def voter_ctx_def)

lemma voter_seen: "\<exists>d t. observe_cluster voter_env voter_config (Some 30) s =
    Some (Inr \<lparr>oc_cluster = ''kv'', oc_services = [\<lparr>os_host = ''b'', os_service = ''voter'', os_port = show_u16 2, os_status = Up, os_detail = d\<rparr>]\<rparr>, t) \<and>
    xs_log t = xs_log s @ [Started ''status'' [ti_identifier voter_task]] \<and>
    (\<forall>rd c. load_deployment_from_state rd c (xs_mgr t) = load_deployment_from_state rd c (xs_mgr s))"
proof -
  have b: "trim ''b'' = ''b''" "\<forall>c \<in> set ''b''. \<not> is_comma c" by code_simp+
  obtain d where d: "observed_service_from_task_result
      \<lparr>rp_task_id = format_string (ti_identifier voter_task), rp_result = Success (Some (status_value ''ps'' (Inr [process_pid_key \<mapsto> StrValue ''77''])))\<rparr> =
    Inr (Some \<lparr>os_host = ''b'', os_service = ''voter'', os_port = show_u16 2, os_status = Up, os_detail = d\<rparr>)"
    using status_reflects_process [OF _ _ b, of VoterServer "[process_pid_key \<mapsto> StrValue ''77'']" "StrValue ''77''" 2 "''ps''"]
    by (auto simp: pid_not_found_def voter_task_def)
  have n: "name_of voter_config = ''kv''" by (simp add: voter_config_def bare_config_def bare_deployment_def)
  have l: "load_deployment_from_state rd c (save_rows voter_env k c' g ts st) = load_deployment_from_state rd c st" for rd c k c' g ts st
    using save_rows_files [of voter_env k c' g ts st] by (simp add: load_deployment_from_state_def read_topology_def split: list.split)
  show ?thesis
    by (intro exI [of _ d]) (simp add: observe_cluster_def run_tasks_with_error_break_def run_context_def bindC_def liftC_def voter_context voter_runs
      voter_group d l n Let_def from_task_results_def bindE_def map_filter_simps del: voter_env_simps(7))
qed

lemma voter_healthy: "\<exists>t. ensure_critical_services_healthy voter_env voter_config op s = Some (Inr (), t) \<and>
    xs_log t = xs_log s @ [Started ''status'' [ti_identifier voter_task]] \<and>
    (\<forall>rd c. load_deployment_from_state rd c (xs_mgr t) = load_deployment_from_state rd c (xs_mgr s))"
proof -
  obtain d t where o: "observe_cluster voter_env voter_config (Some 30) s = Some (Inr \<lparr>oc_cluster = ''kv'',
      oc_services = [\<lparr>os_host = ''b'', os_service = ''voter'', os_port = show_u16 2, os_status = Up, os_detail = d\<rparr>]\<rparr>, t)"
    and t: "xs_log t = xs_log s @ [Started ''status'' [ti_identifier voter_task]]"
      "\<forall>rd c. load_deployment_from_state rd c (xs_mgr t) = load_deployment_from_state rd c (xs_mgr s)"
    using voter_seen [of s] by blast
  have "ensure_critical_services_healthy voter_env voter_config op s = Some (Inr (), t)"
    unfolding health_outcome [OF o]
    by (simp add: not_healthy_def has_errors_def unavailable_services_def critical_services_def unreachable_nodes)
  with t show ?thesis by blast
qed

theorem unreachable_nodes_pass_health_check_witness:
  "\<exists>t. ensure_critical_services_healthy voter_env voter_config ''scale'' (kv_state Map.empty) = Some (Inr (), t) \<and>
     get_host_port_list (cfg_deployment voter_config) EloqVoter = [''b:2''] \<and> xe_ping voter_env = (\<lambda>_ _ _ _. NotReachable ''refused'')"
proof -
  obtain d t where o: "observe_cluster voter_env voter_config (Some 30) (kv_state Map.empty) = Some (Inr \<lparr>oc_cluster = ''kv'',
      oc_services = [\<lparr>os_host = ''b'', os_service = ''voter'', os_port = show_u16 2, os_status = Up, os_detail = d\<rparr>]\<rparr>, t)"
    using voter_seen by blast
  have "ensure_critical_services_healthy voter_env voter_config ''scale'' (kv_state Map.empty) = Some (Inr (), t)"
    using unreachable_nodes_pass_health_check [OF o, of "''scale''"]
    by (simp add: not_healthy_def has_errors_def unavailable_services_def critical_services_def)
  moreover have "get_host_port_list (cfg_deployment voter_config) EloqVoter = [''b:2'']"
    by (simp add: voter_config_def bare_config_def bare_deployment_def get_host_port_list_internal_def is_pipe_comma_def)
  ultimately show ?thesis by simp
qed

text \<open>A quiet update: the health check starts the status tasks, the update itself starts nothing.\<close>

lemma quiet_update_fails: "\<exists>s'. run voter_env (CmdUpdateConf \<lparr>uc_cluster = ''kv'', uc_restart = True, uc_password = None, uc_fields = [], uc_tx_node_id = None\<rparr>)
      None True False (kv_state Map.empty) = Some (Inl (Err ''Invalid argument (os error 22)''), s') \<and>
    xs_log s' = [Started ''status'' [ti_identifier voter_task]]"
proof -
  let ?c = "CmdUpdateConf \<lparr>uc_cluster = ''kv'', uc_restart = True, uc_password = None, uc_fields = [], uc_tx_node_id = None\<rparr>"
  obtain p content where o: "own_lock voter_env ?c = Some (p, content)" by (simp add: own_lock_def)
  have a: "acquire (xe_alive voter_env) (xe_lock_io voter_env) p (the (mutation_cluster_from_cmd (xe_load voter_env) ?c)) content (xs_locks (kv_state Map.empty))
      = ([p \<mapsto> content], Inr ())"
    by (subst acquire_working) (simp_all add: takes_lock_def kv_state_def)
  have ld: "load_deployment_from_state (\<lambda>_. Inr voter_config) ''kv'' kv_saved = Inr (Some voter_config)"
    using kv_loads by (auto simp: load_deployment_from_state_def read_topology_def res_simps split: list.splits option.splits)
  have v: "validate_metrics_config voter_config = Inr ()"
    by (simp add: validate_metrics_config_def voter_config_def bare_config_def bare_deployment_def)
  let ?s = "kv_state [p \<mapsto> content]"
  obtain t where t: "ensure_critical_services_healthy voter_env voter_config ''update-conf'' ?s = Some (Inr (), t)"
    "xs_log t = xs_log ?s @ [Started ''status'' [ti_identifier voter_task]]"
    "\<forall>rd c. load_deployment_from_state rd c (xs_mgr t) = load_deployment_from_state rd c (xs_mgr ?s)"
    using voter_healthy by blast
  have m: "xs_mgr ?s = kv_saved" "xs_log ?s = []" by (simp_all add: kv_state_def)
  have q: "require_cluster voter_env ''kv'' u = Some (Inr voter_config, u)" if "u = ?s \<or> u = t" for u
    using that t(3) ld by (auto simp: require_cluster_def load_cluster_def bindC_def returnC_def m)
  have "run_unlocked voter_env ?c None True False ?s = Some (Inl (Err ''Invalid argument (os error 22)''), t)"
    using t(1) by (simp add: run_command_def require_healthy_def seqC_def bindC_def q returnC_def saved_valid_def v liftC_def
      run_with_tasks_def open_result_file_def failC_def)
  moreover have "(kv_state Map.empty)\<lparr>xs_locks := [p \<mapsto> content]\<rparr> = ?s" by (simp add: kv_state_def)
  ultimately show ?thesis using t(2) unfolding run_with_lock [OF o a] by (simp add: m)
qed

theorem quiet_runs_nothing_witness:
  "\<exists>s' ids. run voter_env (CmdUpdateConf \<lparr>uc_cluster = ''kv'', uc_restart = True, uc_password = None, uc_fields = [], uc_tx_node_id = None\<rparr>)
      None True False (kv_state Map.empty) = Some (Inl (Err ''Invalid argument (os error 22)''), s') \<and>
    Started ''status'' ids \<in> set (xs_log s') \<and>
    (\<exists>n cluster wait cfg ctx. task_context_of voter_env n (CmdStatus cluster None None wait False) cfg = Inr ctx \<and> ''status'' = task_group ctx)"
proof -
  obtain s' where s': "run voter_env (CmdUpdateConf \<lparr>uc_cluster = ''kv'', uc_restart = True, uc_password = None, uc_fields = [], uc_tx_node_id = None\<rparr>)
      None True False (kv_state Map.empty) = Some (Inl (Err ''Invalid argument (os error 22)''), s')"
    "xs_log s' = [Started ''status'' [ti_identifier voter_task]]"
    using quiet_update_fails by blast
  have "Started ''status'' [ti_identifier voter_task] \<in> set (xs_log s')" "Started ''status'' [ti_identifier voter_task] \<notin> set (xs_log (kv_state Map.empty))"
    by (simp_all add: s'(2) kv_state_def)
  from quiet_runs_nothing [OF s'(1) this] s' this(1) show ?thesis by blast
qed

theorem remove_forgets_despite_failures_witness:
  "\<exists>s'. run_configured (plain_env kv_config) (CmdRemove ''kv'' False) kv_config False False (kv_state Map.empty) = Some (Inr (), s') \<and>
    Started ''remove'' [ti_identifier removal] \<in> set (xs_log s') \<and>
    map_option fst (run_command (plain_env kv_config) (CmdRemove ''kv'' True) None False False s') = Some (Inl (not_found ''kv''))"
  using remove_forgets_despite_failures [of "plain_env kv_config" "kv_state Map.empty" "''kv''" False kv_config
      "\<lparr>task_group = ''remove'', barrier = Some [1], executable = [(ti_identifier removal, removal)]\<rparr>" "[[removal]]" False True False]
  by (simp add: split_task_def)

text \<open>The checkpoint interval changes and the restart fails.\<close>

definition slower_config :: deploy_config where
  "slower_config = with_deployment old_config ((cfg_deployment old_config)\<lparr>checkpoint_interval := Some 30\<rparr>)"

lemma slower_plan:
  "\<exists>p q. build_reconcile_plan sample_value old_config slower_config None = Inr p \<and> pl_tx_updates p = [''checkpointer_interval:30''] \<and>
     set (pl_actions p) = {SaveClusterIndex, RestartTxWithUpdatedConfig, VerifyClusterStatus} \<and>
     build_reconcile_plan sample_value (pl_merged p) slower_config None = Inr q \<and> pl_changes q = []"
proof -
  let ?y = "YMap [(YString ''deployment'', YMap [(YString ''storage_service'', YNull)])]"
  have d: "push_yaml_diff [] (Some ?y) (Some ?y) = []" by code_simp
  have n: "cluster_name (cfg_deployment old_config) = cluster_name (cfg_deployment slower_config)"
    by (simp add: slower_config_def with_deployment_def)
  have s: "dep_storage_service (cfg_deployment old_config) = None" "checkpoint_interval (cfg_deployment old_config) = None"
    "enable_tls (cfg_deployment old_config) = None" "cluster_mode (cfg_deployment old_config) = None" "prom_of (cfg_deployment old_config) = None"
    by (simp_all add: old_config_def bare_config_def bare_deployment_def prom_of_def)
  have w: "dep_storage_service (cfg_deployment slower_config) = None" "checkpoint_interval (cfg_deployment slower_config) = Some 30"
    "enable_tls (cfg_deployment slower_config) = None" "cluster_mode (cfg_deployment slower_config) = None" "prom_of (cfg_deployment slower_config) = None"
    using s by (simp_all add: slower_config_def with_deployment_def prom_of_def)
  let ?acc = "plan_fields (cfg_deployment old_config) (cfg_deployment slower_config)"
  have u: "pa_updates ?acc = [''checkpointer_interval:30'']" "\<not> pa_store ?acc" "\<not> pa_monitor ?acc" "pa_changes ?acc \<noteq> []"
    by (simp_all add: plan_fields_head head_fields_def plan_monitor_def plan_field_def plan_tls_def s w Let_def show_u32_def show_nat.simps [of 30] show_nat.simps [of 3])
  have ds: "dep_storage_service (pa_diff (plan_fields cur (cfg_deployment slower_config))) = None" if "prom_of cur = None" for cur
    using that by (auto simp: plan_fields_head head_fields_def plan_monitor_def plan_field_def plan_tls_def w Let_def update_prom_def)
  have c: "config_diffs sample_value (with_deployment cur (normalize_config_for_apply_diff (cfg_deployment cur)))
     (with_deployment slower_config (normalize_config_for_apply_diff (pa_diff (plan_fields (cfg_deployment cur) (cfg_deployment slower_config))))) = Inr []"
    if "prom_of (cfg_deployment cur) = None" "dep_storage_service (cfg_deployment cur) = None" for cur
    using ds [OF that(1)] that(2)
    by (simp add: config_diffs_def sample_value_def with_deployment_def normalize_config_for_apply_diff_def d del: push_yaml_diff.simps)
  let ?p = "plan_of_diffs old_config None ?acc []"
  have p: "build_reconcile_plan sample_value old_config slower_config None = Inr ?p"
    using c [OF s(5,1)] n by (simp add: build_reconcile_plan_def Let_def)
  note m = plan_merged [OF p]
  have q: "build_reconcile_plan sample_value (pl_merged ?p) slower_config None = Inr (plan_of_diffs (pl_merged ?p) None
      (plan_fields (cfg_deployment (pl_merged ?p)) (cfg_deployment slower_config)) [])"
    using c [of "pl_merged ?p"] n s merged_prom(2) [OF s(5)] by (simp add: build_reconcile_plan_def Let_def m merged_fields)
  have "pl_changes (plan_of_diffs (pl_merged ?p) None (plan_fields (cfg_deployment (pl_merged ?p)) (cfg_deployment slower_config)) []) = []"
    using settled [of "cfg_deployment old_config" "cfg_deployment slower_config"]
    by (simp add: plan_of_diffs_parts with_deployment_def traces_def)
  moreover have "set (pl_actions ?p) = {SaveClusterIndex, RestartTxWithUpdatedConfig, VerifyClusterStatus}" "pl_tx_updates ?p = [''checkpointer_interval:30'']"
    using u by (auto simp: plan_of_diffs_parts)
  ultimately show ?thesis using p q by blast
qed

theorem failed_apply_is_not_repeated_witness:
  "\<exists>p s' q. build_reconcile_plan sample_value old_config slower_config None = Inr p \<and> pl_tx_updates p = [''checkpointer_interval:30''] \<and>
     apply_actions ((plain_env (pl_merged p))\<lparr>xe_group := \<lambda>_ _ _. Inl (Err ''no route to host'')\<rparr>) ''kv'' p False False (kv_state Map.empty) =
       Some (Inl (Err ''no route to host''), s') \<and>
     load_deployment_from_state (\<lambda>_. Inr (pl_merged p)) ''kv'' (xs_mgr s') = Inr (Some (pl_merged p)) \<and>
     build_reconcile_plan sample_value (pl_merged p) slower_config None = Inr q \<and> plan_is_empty q"
proof -
  obtain p q where p: "build_reconcile_plan sample_value old_config slower_config None = Inr p" "pl_tx_updates p = [''checkpointer_interval:30'']"
    "set (pl_actions p) = {SaveClusterIndex, RestartTxWithUpdatedConfig, VerifyClusterStatus}"
    and q: "build_reconcile_plan sample_value (pl_merged p) slower_config None = Inr q" "pl_changes q = []"
    using slower_plan by blast
  let ?env = "(plain_env (pl_merged p))\<lparr>xe_group := \<lambda>_ _ _. Inl (Err ''no route to host'')\<rparr>"
  have n: "name_of (pl_merged p) = ''kv''" "name_of old_config = ''kv''"
    by (simp_all add: plan_merged [OF p(1)] merged_fields old_config_def bare_config_def bare_deployment_def)
  obtain st where st: "save_deployment_config ''/h'' (\<lambda>_. Inr ''y'') 0 (pl_merged p) True kv_saved = Inr st"
    by (auto simp: save_deployment_config_def Let_def)
  have ld: "load_deployment_from_state (\<lambda>_. Inr (pl_merged p)) ''kv'' st = Inr (Some (pl_merged p))"
    using save_loads [OF st, of "''y''" "\<lambda>_. Inr (pl_merged p)"] n by simp
  let ?t = "(kv_state Map.empty)\<lparr>xs_mgr := st\<rparr>"
  have "observe_cluster ?env cfg w ?t = Some (Inl (Err ''no route to host''), ?t)" for cfg w
    by (simp add: observe_cluster_def run_tasks_with_error_break_def task_context_of_def group_names_def bindC_def failC_def Let_def)
  then have "require_healthy ?env ''kv'' op ?t = Some (Inl (Err ''no route to host''), ?t)" for op
    by (simp add: require_healthy_def require_cluster_def load_cluster_def ld ensure_critical_services_healthy_def bindC_def returnC_def)
  then have "run_command ?env (CmdUpdateConf a) None False False ?t = Some (Inl (Err ''no route to host''), ?t)" if "uc_cluster a = ''kv''" for a
    using that by (simp add: run_command_def seqC_def bindC_def)
  then have run: "apply_actions ?env ''kv'' p False False (kv_state Map.empty) = Some (Inl (Err ''no route to host''), ?t)"
    using st by (simp add: apply_actions_def p(3) save_config_def seqC_def bindC_def kv_state_def)
  have save: "SaveClusterIndex \<in> set (pl_actions p)" by (simp add: p(3))
  from run have run': "apply_actions ?env (name_of old_config) p False False (kv_state Map.empty) = Some (Inl (Err ''no route to host''), ?t)"
    by (simp only: n)
  from failed_apply_is_not_repeated [OF _ save run', of slower_config None "''y''"] p(1)
  have "load_deployment_from_state (\<lambda>_. Inr (pl_merged p)) ''kv'' st = Inr (Some (pl_merged p))" "plan_is_empty q"
    using q by (auto simp: n)
  with run p(1,2) q(1) show ?thesis by (intro exI conjI) auto
qed

end
