(* ===== verification/Log_Ctl.thy ===== *)
theory Log_Ctl
  imports Tx_Ctl Log_Groups
begin

text \<open>
  Starting, stopping and inspecting the log service (\<open>cli/task/eloq_log_ctl_task.rs\<close>), and the probe that
  waits for its leaders (\<open>cli/task/eloq_log_probe_task.rs\<close>).

  The order in which the hash maps of the code list the hosts is an argument, and so are the remote
  shell and the answers of the health endpoints. None is a call that does not return, which can only
  come from the grouping of the log nodes.
\<close>

section \<open>Control commands\<close>

datatype log_ctl_cmd = LogStart string | LogStop string | LogStatus string

fun log_cmd_value :: "log_ctl_cmd \<Rightarrow> string" where
  "log_cmd_value (LogStart c) = c" | "log_cmd_value (LogStop c) = c" | "log_cmd_value (LogStatus c) = c"

definition find_log_process_cmd :: string where
  "find_log_process_cmd = ''ps -e -o pid,cmd --no-headers -u _USER | grep '' @ quoted ''_LOG_BIN_CMD'' @ '' | grep '' @
     quoted ''_STORAGE_PATH'' @ '' | grep -v grep''"

definition log_process_cmd :: "string \<Rightarrow> string \<Rightarrow> string \<Rightarrow> string" where
  "log_process_cmd user log_home storage = replace_all ''_STORAGE_PATH'' storage
     (replace_all ''_LOG_BIN_CMD'' (log_home @ ''/bin/launch_sv'') (replace_all ''_USER'' user find_log_process_cmd))"

text \<open>The command for one process, from the command that starts it and the one that lists it.\<close>

definition log_ctl_of :: "sub_command \<Rightarrow> string \<Rightarrow> string \<Rightarrow> log_ctl_cmd res" where
  "log_ctl_of cmd start ps = (let kill9 = LogStop (ps @ awk_pid @ '' | xargs -r kill -9'') in case cmd of
     CmdStart _ _ \<Rightarrow> Inr (LogStart start)
   | CmdLaunch _ _ \<Rightarrow> Inr (LogStart start)
   | CmdStatus _ _ _ _ _ \<Rightarrow> Inr (LogStatus ps)
   | CmdStop a \<Rightarrow> Inr (if st_force a then kill9 else LogStop (ps @ awk_pid @ '' | xargs -r kill''))
   | CmdRemove _ _ \<Rightarrow> Inr kill9
   | CmdLogService _ c \<Rightarrow>
       if c = [] then Inl (Panic ''LogService command only support start | stop'')
       else if to_lower c = ''start'' then Inr (LogStart start)
       else if to_lower c = ''stop'' then Inr (LogStop (ps @ '' | xargs kill''))
       else if to_lower c = ''status'' then Inr (LogStatus ps)
       else Inl (Panic ''internal error: entered unreachable code'')
   | _ \<Rightarrow> Inl (Panic ''internal error: entered unreachable code''))"

type_synonym log_key = "string \<times> u16"

definition log_items :: "string list \<Rightarrow> log_service \<Rightarrow> log_cmd_items list option" where
  "log_items hosts srv = map_option (\<lambda>cmds. concat (map (\<lambda>h. case cmds h of Some is \<Rightarrow> is | None \<Rightarrow> []) hosts)) (log_start_cmd srv)"

definition item_key :: "log_cmd_items \<Rightarrow> log_key" where
  "item_key i = (member_host (log_member i), member_port (log_member i))"

definition item_cmd :: "deploy_config \<Rightarrow> sub_command \<Rightarrow> log_cmd_items \<Rightarrow> (log_key \<times> log_ctl_cmd) res" where
  "item_cmd cfg cmd i = bindE (log_ctl_of cmd
       (''/bin/bash '' @ install_dir (cfg_deployment cfg) @ ''/start_tx_log_'' @ show_u16 (member_port (log_member i)) @ ''.bash'')
       (log_process_cmd (username (cfg_connection cfg)) (log_srv_home (cfg_deployment cfg)) (storage_path (log_member i))))
     (\<lambda>c. Inr (item_key i, c))"

definition build_log_cmd_with :: "string list \<Rightarrow> (log_key \<Rightarrow> bool) \<Rightarrow> deploy_config \<Rightarrow> sub_command \<Rightarrow>
    (log_key \<times> log_ctl_cmd) list res option" where
  "build_log_cmd_with hosts test cfg cmd = (case dep_log_service (cfg_deployment cfg) of
     None \<Rightarrow> Some (Inl (Panic ''called `Option::unwrap()` on a `None` value''))
   | Some srv \<Rightarrow> map_option (\<lambda>is. bindE (mapE (item_cmd cfg cmd) (filter (\<lambda>i. test (item_key i)) is)) (\<lambda>cs. Inr (im_extend [] cs)))
       (log_items hosts srv))"

definition build_log_cmd :: "string list \<Rightarrow> deploy_config \<Rightarrow> sub_command \<Rightarrow> (log_key \<times> log_ctl_cmd) list res option" where
  "build_log_cmd hosts cfg cmd = build_log_cmd_with hosts (\<lambda>_. True) cfg cmd"

section \<open>The tasks\<close>

record log_ctl_task =
  lc_config :: deploy_config
  lc_id :: task_id
  lc_cmds :: "(log_key \<times> log_ctl_cmd) list"

definition cluster_cmd_key :: string where "cluster_cmd_key = ''cluster_cmd''"

definition cluster_cmd_string :: "sub_command \<Rightarrow> string res" where
  "cluster_cmd_string cmd = (case cmd of
     CmdLogService _ c \<Rightarrow> Inr c
   | _ \<Rightarrow> if command_name cmd \<in> {''start'', ''stop'', ''status'', ''remove''} then Inr (command_name cmd)
          else Inl (Panic ''internal error: entered unreachable code''))"

definition log_task :: "deploy_config \<Rightarrow> sub_command \<Rightarrow> string \<Rightarrow> (log_key \<times> log_ctl_cmd) list \<Rightarrow> string \<Rightarrow>
    task_id \<times> log_ctl_task task_instance" where
  "log_task cfg cmd ref cmds host =
     (let tid = \<lparr>tid_cmd = ''eloq_log_'' @ ref, tid_task = command_name cmd, tid_host = host\<rparr>
      in (tid, \<lparr>ti_input = [cluster_cmd_key \<mapsto> StrValue ref],
           ti_task = \<lparr>lc_config = cfg, lc_id = tid, lc_cmds = filter (\<lambda>(k, _). fst k = host) cmds\<rparr>,
           ti_identifier = tid, ti_host = remote_host (cfg_connection cfg) host\<rparr>))"

definition log_from_config :: "string list \<Rightarrow> sub_command \<Rightarrow> deploy_config \<Rightarrow>
    (task_id \<times> log_ctl_task task_instance) list res option" where
  "log_from_config hosts cmd cfg = (if dep_log_service (cfg_deployment cfg) = None then Some (Inr [])
     else map_option (\<lambda>r. bindE r (\<lambda>cmds. bindE (cluster_cmd_string cmd) (\<lambda>ref.
        Inr (map (log_task cfg cmd ref cmds) (uniq (map (fst \<circ> fst) cmds)))))) (build_log_cmd hosts cfg cmd))"

section \<open>Merging the results of the processes of a host\<close>

definition status_number :: "task_arg_value \<Rightarrow> int res" where
  "status_number v = (case v of NumberValue n \<Rightarrow> Inr n | _ \<Rightarrow> Inl (Panic ''internal error: entered unreachable code''))"

definition key_values :: "execution_value list \<Rightarrow> string \<Rightarrow> task_arg_value list" where
  "key_values vs k = List.map_filter (\<lambda>v. v k) vs"

definition merge_execution_value :: "execution_value list \<Rightarrow> execution_value res" where
  "merge_execution_value vs = bindE (mapE status_number (key_values vs cmd_status_key)) (\<lambda>ns. Inr (\<lambda>k.
     if key_values vs k = [] then None
     else if k = cmd_status_key then Some (NumberValue (sum_list ns))
     else Some (StrValue (join '';'' (map show_task_arg (key_values vs k))))))"

text \<open>\<open>join_all_command_result\<close>: failed commands are logged and dropped.\<close>

definition successes :: "(log_key \<times> execution_value res) list \<Rightarrow> (log_key \<times> execution_value) list" where
  "successes rs = List.map_filter (\<lambda>(k, r). case r of Inr v \<Rightarrow> Some (k, v) | Inl _ \<Rightarrow> None) rs"

section \<open>What a task does\<close>

record log_world =
  lw_session :: "(string \<times> string) res"
  lw_run :: "log_key \<Rightarrow> string \<Rightarrow> nat \<Rightarrow> (int \<times> string) res"
  lw_close :: "unit res"

definition run_command_on :: "log_world \<Rightarrow> log_key \<Rightarrow> log_ctl_cmd \<Rightarrow> execution_value res" where
  "run_command_on w k c = bindE (lw_run w k (log_cmd_value c) 0) (\<lambda>(status, out). Inr (task_output (log_cmd_value c) status out))"

definition plain_status :: "deploy_config \<Rightarrow> sub_command" where
  "plain_status cfg = CmdStatus (cluster_name (cfg_deployment cfg)) None None None False"

definition status_checks :: "string list \<Rightarrow> deploy_config \<Rightarrow> log_key list \<Rightarrow> (log_key \<times> log_ctl_cmd) list res option" where
  "status_checks hosts cfg keys = map_option (\<lambda>rs. bindE (mapE (\<lambda>r. r) rs) (\<lambda>cs. Inr (im_extend [] (concat cs))))
     (those_opt (map (\<lambda>k. build_log_cmd_with hosts (\<lambda>k'. k' = k) cfg (plain_status cfg)) keys))"

definition found_pids :: "log_world \<Rightarrow> (log_key \<times> log_ctl_cmd) list \<Rightarrow> (log_key \<times> execution_value) list" where
  "found_pids w checks = successes (map (\<lambda>(k, c). (k, check_pid (log_cmd_value c) (lw_run w k (log_cmd_value c)))) checks)"

definition log_status_output :: "execution_value \<Rightarrow> execution_value" where
  "log_status_output v = v(cmd_output_key \<mapsto> StrValue ([CHR 0x0A] @ (case v process_pid_key of
     Some p \<Rightarrow> if p = StrValue pid_not_found then ''log service is down.''
               else ''log service is running, pid: '' @ show_task_arg p @ ''.''
   | None \<Rightarrow> ''log service status unknown (missing PID).'')))"

definition unknown_status :: execution_value where
  "unknown_status = [process_pid_key \<mapsto> StrValue pid_not_found,
     cmd_output_key \<mapsto> StrValue ([CHR 0x0A] @ ''log service status unknown (SSH failure).'')]"

definition log_status_values :: "log_key list \<Rightarrow> (log_key \<times> execution_value) list \<Rightarrow> execution_value list" where
  "log_status_values keys found =
     map (\<lambda>(k, v). if k \<in> set keys then log_status_output v else v) found @
     map (\<lambda>_. unknown_status) (filter (\<lambda>k. k \<notin> fst ` set found) keys)"

text \<open>Whether a process gets the command: what was found about it is None when the look failed.\<close>

definition should_execute :: "string \<Rightarrow> execution_value option \<Rightarrow> bool res" where
  "should_execute ref v = (let pid = Option.bind v (\<lambda>v. v process_pid_key) in
     if ref \<in> {''stop'', ''remove''} then Inr (case pid of Some p \<Rightarrow> p \<noteq> StrValue pid_not_found | None \<Rightarrow> False)
     else if ref = ''start'' then Inr (case pid of Some p \<Rightarrow> p = StrValue pid_not_found | None \<Rightarrow> True)
     else Inl (Panic ''internal error: entered unreachable code''))"

definition to_execute :: "string \<Rightarrow> (log_key \<times> execution_value) list \<Rightarrow> (log_key \<times> log_ctl_cmd) list \<Rightarrow>
    (log_key \<times> log_ctl_cmd) list res" where
  "to_execute ref found cmds = bindE (mapE (\<lambda>(k, c). bindE (should_execute ref (map_of found k)) (\<lambda>b. Inr (b, k, c))) cmds)
     (\<lambda>bs. Inr (map snd (filter fst bs)))"

definition with_status :: "execution_value \<Rightarrow> execution_value \<Rightarrow> execution_value" where
  "with_status defaults v = (if v cmd_status_key = None then v ++ defaults else v)"

definition log_control :: "log_world \<Rightarrow> string \<Rightarrow> (log_key \<times> execution_value) list \<Rightarrow> (log_key \<times> log_ctl_cmd) list \<Rightarrow> execution_value res" where
  "log_control w ref found cmds = bindE (to_execute ref found cmds) (\<lambda>cs.
     if cs = [] then bindE (merge_execution_value (map snd found)) (\<lambda>v. Inr (with_status
         [cmd_status_key \<mapsto> NumberValue 0, cmd_output_key \<mapsto> StrValue ''No processes to execute''] v))
     else bindE (merge_execution_value (map snd (successes (map (\<lambda>(k, c). (k, run_command_on w k c)) cs))))
       (\<lambda>v. Inr (with_status [cmd_status_key \<mapsto> NumberValue 0] v)))"

definition log_result :: "log_world \<Rightarrow> string \<Rightarrow> (log_key \<times> log_ctl_cmd) list \<Rightarrow> (log_key \<times> log_ctl_cmd) list \<Rightarrow> execution_value res" where
  "log_result w ref checks cmds = (let found = found_pids w checks in
     if ref = ''status'' then merge_execution_value (log_status_values (map fst cmds) found)
     else log_control w ref found cmds)"

definition log_execute :: "string list \<Rightarrow> log_world \<Rightarrow> log_ctl_task \<Rightarrow> execution_value \<Rightarrow> execution_value option res option" where
  "log_execute hosts w t input = (case input cluster_cmd_key of
     Some (StrValue ref) \<Rightarrow>
       if ssh_auth_key (cfg_connection (lc_config t)) = None
       then Some (Inl (Panic ''called `Option::unwrap()` on a `None` value''))
       else (case lw_session w of Inl e \<Rightarrow> Some (Inl e) | Inr _ \<Rightarrow>
         map_option (\<lambda>r. bindE r (\<lambda>checks. bindE (log_result w ref checks (lc_cmds t)) (\<lambda>v.
           bindE (lw_close w) (\<lambda>_. task_return v (ExecUserCmdErr ref)))))
         (status_checks hosts (lc_config t) (map fst (lc_cmds t))))
   | _ \<Rightarrow> Some (Inl (Panic ''called `Option::unwrap()` on a `None` value'')))"

section \<open>The probe for leaders\<close>

record log_probe_task =
  lp_id :: task_id
  lp_urls :: "(nat \<times> string list) list"
  lp_readiness :: log_readiness
  lp_nodes :: nat
  lp_replica :: nat

definition log_probe_from_config :: "deploy_config \<Rightarrow> (task_id \<times> log_probe_task task_instance) list option" where
  "log_probe_from_config cfg = (case dep_log_service (cfg_deployment cfg) of
     None \<Rightarrow> Some []
   | Some srv \<Rightarrow> map_option (\<lambda>gs.
       (let tid = \<lparr>tid_cmd = ''eloq_log_service_probe'', tid_task = ''readiness'', tid_host = ''_NONE''\<rparr>
        in [local_task tid \<lparr>lp_id = tid, lp_urls = map (\<lambda>(g, ms). (g, map check_health_url ms)) gs, lp_readiness = readiness_opts srv,
             lp_nodes = length (log_nodes srv), lp_replica = log_replica srv\<rparr>])) (group_members srv))"

text \<open>
  The answer of a health endpoint: no response, a response with an error status, one that is no health
  report, or the states of the groups, each but the first two with the address that answered.
\<close>

datatype health_answer =
    HealthFailed
  | HealthRefused string
  | HealthInvalid string
  | HealthStates string "(string \<times> string) list"

fun leader_info :: "health_answer \<Rightarrow> (nat \<times> string) option" where
  "leader_info HealthFailed = None"
| "leader_info (HealthRefused url) = Some (0, url)"
| "leader_info (HealthInvalid url) = None"
| "leader_info (HealthStates url []) = Some (0, url)"
| "leader_info (HealthStates url ((_, state) # _)) = Some (if map ascii_upper state = ''LEADER'' then 1 else 0, url)"

definition probe_round :: "(nat \<Rightarrow> string \<Rightarrow> health_answer) \<Rightarrow> log_probe_task \<Rightarrow> (nat \<times> nat \<times> string) list" where
  "probe_round ans t = concat (map (\<lambda>(g, urls).
     List.map_filter (\<lambda>u. map_option (\<lambda>(n, url). (g, n, url)) (leader_info (ans g u))) urls) (lp_urls t))"

definition leader_total :: "(nat \<times> nat \<times> string) list \<Rightarrow> nat" where
  "leader_total infos = sum_list (map (\<lambda>(_, n, _). n) infos)"

definition show_leader_info :: "nat \<times> nat \<times> string \<Rightarrow> string" where
  "show_leader_info = (\<lambda>(g, n, url). ''(group:'' @ show_nat g @ '', leaders:'' @ show_nat n @ '', addr:'' @ url @ '')'')"

definition needed_rounds :: "log_probe_task \<Rightarrow> nat" where
  "needed_rounds t = (case success_threshold (lp_readiness t) of Some n \<Rightarrow> n | None \<Rightarrow> 3)"

text \<open>\<open>left\<close> is the number of rounds before the timeout.\<close>

fun log_probe_loop :: "(nat \<Rightarrow> (nat \<times> nat \<times> string) list) \<Rightarrow> nat \<Rightarrow> nat \<Rightarrow> nat \<Rightarrow> nat \<Rightarrow> nat \<Rightarrow> (nat \<times> nat \<times> string) list option" where
  "log_probe_loop round expect success n counter 0 = None"
| "log_probe_loop round expect success n counter (Suc left) =
     (if leader_total (round n) = expect
      then if counter < success then log_probe_loop round expect success (Suc n) (Suc counter) left else Some (round n)
      else log_probe_loop round expect success (Suc n) counter left)"

definition check_health_string :: "log_probe_task \<Rightarrow> string" where
  "check_health_string t = join [CHR 0x09] (map (\<lambda>(g, urls). ''group_id='' @ show_nat g @ '',check_health_url='' @ join '';'' urls) (lp_urls t))"

definition log_probe_execute :: "(nat \<Rightarrow> nat \<Rightarrow> string \<Rightarrow> health_answer) \<Rightarrow> nat \<Rightarrow> log_probe_task \<Rightarrow> execution_value option res" where
  "log_probe_execute ans rounds t =
     (if lp_replica t = 0 then Inl (Panic ''attempt to divide by zero'')
      else task_return (case log_probe_loop (\<lambda>n. probe_round (ans n) t) (lp_nodes t div lp_replica t) (needed_rounds t) 0 0 rounds of
          Some infos \<Rightarrow> task_output (check_health_string t) 0 (join [CHR 0x0A] (uniq (map show_leader_info infos)))
        | None \<Rightarrow> task_output (check_health_string t) (-1) (''EloqLogProbeTask timeout elapsed=Elapsed(()), timeout='' @
            show_u64 (timeout_sec (lp_readiness t)) @ '' secs''))
        (ExecUserCmdErr (check_health_string t)))"

section \<open>The ids of the tasks\<close>

lemma log_from_config_tasks:
  assumes "log_from_config hosts cmd cfg = Some (Inr ts)" and "ts \<noteq> []"
  obtains ref cmds where "cluster_cmd_string cmd = Inr ref" "build_log_cmd hosts cfg cmd = Some (Inr cmds)"
    "ts = map (log_task cfg cmd ref cmds) (uniq (map (fst \<circ> fst) cmds))"
  using assms by (auto simp: log_from_config_def bindE_Inr_iff split: if_splits)

lemma log_task_id: "fst (log_task cfg cmd ref cmds h) = \<lparr>tid_cmd = ''eloq_log_'' @ ref, tid_task = command_name cmd, tid_host = h\<rparr>"
  by (simp add: log_task_def Let_def)

lemma log_tasks_ids:
  assumes "log_from_config hosts cmd cfg = Some (Inr ts)"
  shows "unique_ids ts \<and> (ts \<noteq> [] \<longrightarrow> (\<exists>ref. cluster_cmd_string cmd = Inr ref \<and> under {''eloq_log_'' @ ref} ts))"
proof (cases "ts = []")
  case False
  then obtain ref cmds where t: "cluster_cmd_string cmd = Inr ref" "ts = map (log_task cfg cmd ref cmds) (uniq (map (fst \<circ> fst) cmds))"
    using log_from_config_tasks [OF assms] by metis
  have "inj (\<lambda>h. fst (log_task cfg cmd ref cmds h))" by (auto simp: inj_def log_task_id)
  then have "unique_ids ts" by (simp add: t(2) unique_ids_map comp_def distinct_map inj_on_def)
  moreover have "under {''eloq_log_'' @ ref} ts" by (auto simp: t(2) under_def ids_of_def log_task_id)
  ultimately show ?thesis using t(1) by blast
qed simp

section \<open>A host on which no command can be run\<close>

lemma merge_Nil [simp]: "merge_execution_value [] = Inr (\<lambda>_. None)"
  by (simp add: merge_execution_value_def key_values_def map_filter_simps)

lemma check_attempts_fail: "(\<And>n. \<exists>e. run n = Inl e) \<Longrightarrow> \<exists>e. check_attempts run n m = Inl e"
proof (induction m arbitrary: n)
  case (Suc m)
  obtain e where "run n = Inl e" using Suc.prems by blast
  with Suc.IH [OF Suc.prems, of "Suc n"] show ?case by simp
qed simp

lemma check_pid_fail: "(\<And>n. \<exists>e. run n = Inl e) \<Longrightarrow> \<exists>e. check_pid c run = Inl e"
  using check_attempts_fail [of run 0 3] by (auto simp: check_pid_def)

lemma found_pids_none:
  assumes "\<And>k c n. \<exists>e. lw_run w k c n = Inl e"
  shows "found_pids w checks = []"
proof -
  have e: "\<exists>e. check_pid p (lw_run w k p) = Inl e" for k p by (rule check_pid_fail) (rule assms)
  show ?thesis
  proof (induction checks)
    case (Cons x checks)
    obtain e' where "check_pid (log_cmd_value (snd x)) (lw_run w (fst x) (log_cmd_value (snd x))) = Inl e'" using e by blast
    with Cons show ?case by (simp add: found_pids_def successes_def map_filter_simps case_prod_beta)
  qed (simp add: found_pids_def successes_def map_filter_simps)
qed

lemma no_successes: "(\<And>k c n. \<exists>e. lw_run w k c n = Inl e) \<Longrightarrow> successes (map (\<lambda>(k, c). (k, run_command_on w k c)) cs) = []"
proof (induction cs)
  case (Cons x cs)
  obtain e where "lw_run w (fst x) (log_cmd_value (snd x)) 0 = Inl e" using Cons.prems by blast
  with Cons show ?case by (simp add: successes_def map_filter_simps run_command_on_def case_prod_beta)
qed (simp add: successes_def map_filter_simps)

lemma to_execute_blind:
  "to_execute ''start'' [] cmds = Inr cmds" "to_execute ''stop'' [] cmds = Inr []" "to_execute ''remove'' [] cmds = Inr []"
  by (induction cmds) (auto simp: to_execute_def should_execute_def bindE_Inr_iff split: prod.split)

lemma status_checks_return:
  assumes "dep_log_service (cfg_deployment cfg) = Some srv" and "log_items hosts srv = Some is"
  shows "\<exists>checks. status_checks hosts cfg keys = Some (Inr checks)"
proof -
  have m: "\<exists>cs. mapE (item_cmd cfg (plain_status cfg)) xs = Inr cs" for xs
    by (induction xs) (auto simp: item_cmd_def log_ctl_of_def plain_status_def Let_def)
  have "\<exists>cs. build_log_cmd_with hosts test cfg (plain_status cfg) = Some (Inr cs)" for test
    using m [of "filter (\<lambda>i. test (item_key i)) is"] assms by (auto simp: build_log_cmd_with_def)
  then obtain f where f: "build_log_cmd_with hosts test cfg (plain_status cfg) = Some (Inr (f test))" for test by metis
  have "\<exists>css. those_opt (map (\<lambda>k. build_log_cmd_with hosts (\<lambda>k'. k' = k) cfg (plain_status cfg)) keys) = Some (map Inr css)"
  proof (induction keys)
    case (Cons k keys)
    then obtain css where "those_opt (map (\<lambda>k. build_log_cmd_with hosts (\<lambda>k'. k' = k) cfg (plain_status cfg)) keys) = Some (map Inr css)" by blast
    then show ?case by (auto simp: f intro: exI [of _ "f (\<lambda>k'. k' = k) # css"])
  qed simp
  moreover have "mapE (\<lambda>r. r) (map Inr css) = Inr css" for css :: "(log_key \<times> log_ctl_cmd) list list"
    by (induction css) auto
  ultimately show ?thesis by (auto simp: status_checks_def)
qed

lemma no_status: "key_values (map (\<lambda>_. unknown_status) ks) cmd_status_key = []"
proof -
  have "unknown_status cmd_status_key = None"
    by (simp add: unknown_status_def cmd_output_key_def cmd_status_key_def process_pid_key_def)
  then show ?thesis by (induction ks) (simp_all add: key_values_def map_filter_simps)
qed

text \<open>C27. On a host whose shell fails on every command, a start of the log service reports success with status 0
  although nothing was started, a stop reports success with \<open>No processes to execute\<close>, and a status
  request panics instead of reporting the failure, since the entry made for it has no status.\<close>

theorem failing_shell_outcome:
  assumes "\<And>k c n. \<exists>e. lw_run w k c n = Inl e" and "lw_session w = Inr x" and "lw_close w = Inr ()"
    and "ssh_auth_key (cfg_connection (lc_config t)) \<noteq> None"
    and "status_checks hosts (lc_config t) (map fst (lc_cmds t)) = Some (Inr checks)" and "lc_cmds t \<noteq> []"
  shows "(\<exists>v. log_execute hosts w t [cluster_cmd_key \<mapsto> StrValue ''start''] = Some (Inr (Some v)) \<and> v cmd_status_key = Some (NumberValue 0)) \<and>
    (\<exists>v. log_execute hosts w t [cluster_cmd_key \<mapsto> StrValue ''stop''] = Some (Inr (Some v)) \<and>
       v cmd_output_key = Some (StrValue ''No processes to execute'')) \<and>
    (\<exists>m. log_execute hosts w t [cluster_cmd_key \<mapsto> StrValue ''status''] = Some (Inl (Panic m)))"
proof -
  have keys: "cmd_status_key \<noteq> cmd_output_key" "process_pid_key \<noteq> cmd_status_key"
    by (simp_all add: cmd_output_key_def cmd_status_key_def process_pid_key_def)
  have found: "found_pids w checks = []" by (rule found_pids_none) (rule assms(1))
  have none: "successes (map (\<lambda>(k, c). (k, run_command_on w k c)) (lc_cmds t)) = []" by (rule no_successes) (rule assms(1))
  have run: "log_execute hosts w t [cluster_cmd_key \<mapsto> StrValue ref] =
      Some (bindE (log_result w ref checks (lc_cmds t)) (\<lambda>v. task_return v (ExecUserCmdErr ref)))" for ref
    using assms(2-5) by (auto simp: log_execute_def)
  have start: "log_result w ''start'' checks (lc_cmds t) = Inr [cmd_status_key \<mapsto> NumberValue 0]"
    using assms(6) none by (simp add: log_result_def found log_control_def to_execute_blind with_status_def map_add_def Let_def)
  have stop: "log_result w ''stop'' checks (lc_cmds t) =
      Inr [cmd_status_key \<mapsto> NumberValue 0, cmd_output_key \<mapsto> StrValue ''No processes to execute'']"
    by (simp add: log_result_def found log_control_def to_execute_blind with_status_def map_add_def Let_def)
  have "key_values (log_status_values (map fst (lc_cmds t)) []) cmd_status_key = []"
    by (simp add: log_status_values_def no_status comp_def)
  then obtain v where "log_result w ''status'' checks (lc_cmds t) = Inr v" "v cmd_status_key = None"
    by (simp add: log_result_def found merge_execution_value_def Let_def)
  then show ?thesis using keys by (simp add: run start stop task_return_def)
qed

definition unreachable_host :: log_world where
  "unreachable_host = \<lparr>lw_session = Inr ([], []), lw_run = (\<lambda>_ _ _. Inl (Err ''no route to host'')), lw_close = Inr ()\<rparr>"

definition logged_config :: deploy_config where
  "logged_config = keyed_config\<lparr>cfg_deployment := (cfg_deployment keyed_config)\<lparr>dep_log_service := Some sample_log_service\<rparr>\<rparr>"

definition sample_log_task :: log_ctl_task where
  "sample_log_task = \<lparr>lc_config = logged_config,
     lc_id = \<lparr>tid_cmd = ''eloq_log_start'', tid_task = ''start'', tid_host = ''h0''\<rparr>, lc_cmds = [((''h0'', 9000), LogStart ''run'')]\<rparr>"

theorem failing_shell_outcome_witness:
  "\<exists>v. log_execute [] unreachable_host sample_log_task [cluster_cmd_key \<mapsto> StrValue ''start''] = Some (Inr (Some v)) \<and>
     v cmd_status_key = Some (NumberValue 0)"
proof -
  have h: "no_hole_dirs sample_log_service" by (simp add: no_hole_dirs_def sample_log_service_def)
  have d: "distinct (map node_addr_of (log_nodes sample_log_service))" by (simp add: sample_log_service_def node_addr_of_def)
  obtain ms where "group_member_as_vec sample_log_service = Some ms" using group_members_vec [OF h d] by blast
  then have "log_items [] sample_log_service = Some []" by (simp add: log_items_def log_start_cmd_def)
  moreover have "dep_log_service (cfg_deployment (lc_config sample_log_task)) = Some sample_log_service" by (simp add: sample_log_task_def logged_config_def)
  ultimately obtain checks where c: "status_checks [] (lc_config sample_log_task) (map fst (lc_cmds sample_log_task)) = Some (Inr checks)"
    using status_checks_return by blast
  have f: "\<exists>e. lw_run unreachable_host k c n = Inl e" for k c n by (simp add: unreachable_host_def)
  have k: "ssh_auth_key (cfg_connection (lc_config sample_log_task)) \<noteq> None"
    using keyed_config_key by (simp add: sample_log_task_def logged_config_def)
  show ?thesis
    by (rule failing_shell_outcome [OF f _ _ k c, THEN conjunct1]) (simp_all add: unreachable_host_def sample_log_task_def)
qed

text \<open>\<open>log-srv\<close> compares its command with any case when it builds the tasks, and with the exact letters when
  they run: a task built for another spelling of start, stop or status panics on its host.\<close>

theorem log_srv_spelling_panics:
  assumes "log_from_config hosts (CmdLogService c s) cfg = Some (Inr ts)" and "(i, t) \<in> set ts"
    and "s \<notin> {''start'', ''stop'', ''status'', ''remove''}" and "lw_session w = Inr x" and "ssh_auth_key (cfg_connection cfg) \<noteq> None"
  shows "\<exists>m. log_execute hosts w (ti_task t) (ti_input t) = Some (Inl (Panic m))"
proof -
  have "ts \<noteq> []" using assms(2) by auto
  then obtain ref cmds where t: "cluster_cmd_string (CmdLogService c s) = Inr ref" "build_log_cmd hosts cfg (CmdLogService c s) = Some (Inr cmds)"
    "ts = map (log_task cfg (CmdLogService c s) ref cmds) (uniq (map (fst \<circ> fst) cmds))"
    using log_from_config_tasks [OF assms(1)] by metis
  from t(1) have ref: "ref = s" by (simp add: cluster_cmd_string_def)
  from assms(2) obtain h where h: "h \<in> set (uniq (map (fst \<circ> fst) cmds))" and "(i, t) = log_task cfg (CmdLogService c s) s cmds h"
    unfolding t(3) ref by auto
  then have it: "t = snd (log_task cfg (CmdLogService c s) s cmds h)" by (metis snd_conv)
  from h have "\<exists>x \<in> set cmds. fst (fst x) = h" by auto
  then have "filter (\<lambda>(k, _). fst k = h) cmds \<noteq> []" by (force simp: filter_empty_conv)
  with it have ne: "lc_cmds (ti_task t) \<noteq> []" and parts: "lc_config (ti_task t) = cfg" "ti_input t = [cluster_cmd_key \<mapsto> StrValue s]"
    by (simp_all add: log_task_def Let_def)
  obtain srv "is" where "dep_log_service (cfg_deployment cfg) = Some srv" "log_items hosts srv = Some is"
    using t(2) by (auto simp: build_log_cmd_def build_log_cmd_with_def split: option.splits)
  then obtain checks where checks: "status_checks hosts cfg (map fst (lc_cmds (ti_task t))) = Some (Inr checks)"
    using status_checks_return by blast
  have "\<exists>m. to_execute s found cs = Inl (Panic m)" if "cs \<noteq> []" for found cs
  proof (cases cs)
    case (Cons x xs)
    have "\<exists>m. should_execute s v = Inl (Panic m)" for v using assms(3) by (simp add: should_execute_def Let_def)
    then obtain m where "should_execute s (map_of found (fst x)) = Inl (Panic m)" by blast
    then show ?thesis by (simp add: Cons to_execute_def case_prod_beta)
  qed (use that in simp)
  then obtain m where "to_execute s (found_pids w checks) (lc_cmds (ti_task t)) = Inl (Panic m)" using ne by blast
  then have "\<exists>m. log_result w s checks (lc_cmds (ti_task t)) = Inl (Panic m)"
    using assms(3) by (simp add: log_result_def log_control_def Let_def)
  then show ?thesis using assms(4,5) checks parts by (auto simp: log_execute_def)
qed

section \<open>When the probe succeeds\<close>

lemma log_probe_loop_counts:
  "c \<le> success \<Longrightarrow> log_probe_loop round expect success n c left \<noteq> None \<longleftrightarrow>
   success < c + card {k. n \<le> k \<and> k < n + left \<and> leader_total (round k) = expect}"
proof (induction left arbitrary: n c)
  case (Suc left)
  let ?S = "\<lambda>n m. {k. n \<le> k \<and> k < n + m \<and> leader_total (round k) = expect}"
  have fin: "finite (?S m l)" for m l by simp
  have split: "?S n (Suc left) = (if leader_total (round n) = expect then insert n (?S (Suc n) left) else ?S (Suc n) left)"
    by (auto simp: le_Suc_eq not_less_eq_eq) (metis Suc_leI le_neq_implies_less)+
  show ?case
  proof (cases "leader_total (round n) = expect")
    case True
    have "card (?S n (Suc left)) = Suc (card (?S (Suc n) left))" using True split fin by simp
    then show ?thesis using True Suc.IH [of "Suc c" "Suc n"] Suc.prems by (cases "c < success") auto
  next
    case False
    then show ?thesis using split Suc.IH [of c "Suc n"] Suc.prems by simp
  qed
next
  case 0
  have "{k. n \<le> k \<and> k < n + 0 \<and> leader_total (round k) = expect} = {}" by auto
  with 0 show ?case by (simp only: log_probe_loop.simps card.empty) simp
qed

text \<open>C26. The probe of the log service succeeds exactly when in more rounds than the threshold, before its timeout, the
  number of leaders is what it expects; the rounds need not follow each other.\<close>

theorem log_probe_succeeds_iff:
  assumes "0 < lp_replica t"
  shows "(\<exists>v. log_probe_execute ans rounds t = Inr v) \<longleftrightarrow>
    needed_rounds t < card {n. n < rounds \<and> leader_total (probe_round (ans n) t) = lp_nodes t div lp_replica t}"
proof -
  have r: "task_return (task_output c s out) e = (if s \<noteq> 0 then Inl (Err (cmd_err_text (e (show_task_arg (NumberValue s))))) else Inr (Some (task_output c s out)))"
    for c s out e by (simp add: task_return_def)
  have "(\<exists>v. log_probe_execute ans rounds t = Inr v) \<longleftrightarrow>
      log_probe_loop (\<lambda>n. probe_round (ans n) t) (lp_nodes t div lp_replica t) (needed_rounds t) 0 0 rounds \<noteq> None"
    using assms by (auto simp: log_probe_execute_def r split: option.split)
  then show ?thesis using log_probe_loop_counts [of 0 "needed_rounds t"] by simp
qed

definition one_round_probe :: log_probe_task where
  "one_round_probe = \<lparr>lp_id = \<lparr>tid_cmd = [], tid_task = [], tid_host = []\<rparr>, lp_urls = [(0, [''u''])],
     lp_readiness = default_readiness\<lparr>success_threshold := Some 0\<rparr>, lp_nodes = 1, lp_replica = 1\<rparr>"

theorem log_probe_succeeds_iff_witness:
  "\<exists>v. log_probe_execute (\<lambda>_ _ u. HealthStates u [(''0'', ''LEADER'')]) 1 one_round_probe = Inr v"
proof -
  have "leader_total (probe_round (\<lambda>_ u. HealthStates u [(''0'', ''LEADER'')]) one_round_probe) = 1"
    by (simp add: one_round_probe_def probe_round_def leader_total_def ascii_upper_def map_filter_simps)
  then show ?thesis by (subst log_probe_succeeds_iff) (simp_all add: one_round_probe_def needed_rounds_def)
qed

text \<open>C25. The probe expects as many leaders as whole groups of replicas fit into the nodes, the grouping makes one more
  group for the rest. When the replica count does not divide the number of nodes and every group has its
  one leader, the probe never succeeds: starting the log service ends with a timeout.\<close>

theorem log_probe_never_ready:
  assumes "dep_log_service (cfg_deployment cfg) = Some srv" and "log_probe_from_config cfg = Some [(i, t)]"
    and "no_hole_dirs srv" and "0 < log_replica srv" and "\<not> log_replica srv dvd length (log_nodes srv)"
    and "\<And>n. leader_total (probe_round (ans n) (ti_task t)) = length (lp_urls (ti_task t))"
  shows "\<exists>e. log_probe_execute ans rounds (ti_task t) = Inl (Err e)"
proof -
  obtain gs where gs: "group_members srv = Some gs" "length (lp_urls (ti_task t)) = length gs"
    and n: "lp_nodes (ti_task t) = length (log_nodes srv)" "lp_replica (ti_task t) = log_replica srv"
    using assms(1,2) by (auto simp: log_probe_from_config_def local_task_def Let_def)
  let ?n = "length (log_nodes srv)" and ?r = "log_replica srv"
  have "?n \<le> length gs * ?r" using groups_cover [OF assms(3) gs(1)] assms(4) by (simp add: max_def split: if_splits)
  moreover have "?n div ?r * ?r < ?n" using assms(5) by (metis div_times_less_eq_dividend dvd_triv_right le_neq_implies_less)
  ultimately have "?n div ?r \<noteq> length gs" by auto
  then have "leader_total (probe_round (ans k) (ti_task t)) \<noteq> lp_nodes (ti_task t) div lp_replica (ti_task t)" for k
    using assms(6) gs(2) n by simp
  then have "log_probe_loop (\<lambda>n. probe_round (ans n) (ti_task t)) (lp_nodes (ti_task t) div lp_replica (ti_task t)) s k c m = None" for s k c m
    by (induction m arbitrary: k c) simp_all
  then show ?thesis using n assms(4) by (simp add: log_probe_execute_def task_return_def)
qed

text \<open>Three nodes in groups of two, the first node of each group its leader.\<close>

lemma grouping_done: "list_all (\<lambda>b. b) asg \<Longrightarrow> grouping_loop ns hosts r asg lhi acc = Some acc"
  by (simp add: grouping_loop.simps)

lemma grouping_step:
  "\<not> list_all (\<lambda>b. b) asg \<Longrightarrow> grouping_loop ns hosts r asg lhi acc =
     (case build_group ns hosts r asg lhi of (st, lhi') \<Rightarrow>
        grouping_loop ns hosts r (gs_assigned st) lhi' (if gs_cells st = [] then acc else acc @ [gs_cells st]))"
  by (subst grouping_loop.simps) (simp only: if_False)

definition sample_sorted :: "log_service_node list" where
  "sample_sorted = [\<lparr>lsn_host = ''h0'', lsn_data_dir = [''/d0''], lsn_port = 9000\<rparr>,
     \<lparr>lsn_host = ''h1'', lsn_data_dir = [''/d1''], lsn_port = 9000\<rparr>, \<lparr>lsn_host = ''h2'', lsn_data_dir = [], lsn_port = 9100\<rparr>]"

definition sample_url :: "string \<Rightarrow> u16 \<Rightarrow> string" where
  "sample_url h p = ''http://'' @ addr h p @ ''/healthz''"

definition sample_urls :: "(nat \<times> string list) list" where
  "sample_urls = [(0, [sample_url ''h0'' 9000, sample_url ''h1'' 9000]), (1, [sample_url ''h2'' 9100])]"

definition sample_table :: "node_disk_cell list list" where
  "sample_table = [[mk_cell 0 (sample_sorted ! 0), mk_cell 1 (sample_sorted ! 1)], [mk_cell 2 (sample_sorted ! 2)]]"

lemma sample_order: "sort_key lsn_host (log_nodes sample_log_service) = sample_sorted" "sorted_hosts sample_sorted = [''h0'', ''h1'', ''h2'']"
  by code_simp+

lemma sample_builds:
  "build_group sample_sorted [''h0'', ''h1'', ''h2''] 2 [False, False, False] 0 = (\<lparr>gs_assigned = [True, True, False], gs_used = [''h1'', ''h0''],
     gs_cells = [mk_cell 0 (sample_sorted ! 0), mk_cell 1 (sample_sorted ! 1)]\<rparr>, 1)"
  "build_group sample_sorted [''h0'', ''h1'', ''h2''] 2 [True, True, False] 1 = (\<lparr>gs_assigned = [True, True, True], gs_used = [''h2''],
     gs_cells = [mk_cell 2 (sample_sorted ! 2)]\<rparr>, 3)"
  by code_simp+

lemma sample_grouping: "members_grouping sample_log_service sample_sorted = Some sample_table"
proof -
  have "log_replica sample_log_service = 2" "replicate (length sample_sorted) False = [False, False, False]" by code_simp+
  then show ?thesis
    by (simp add: members_grouping_def sample_order sample_table_def grouping_step grouping_done sample_builds del: One_nat_def)
qed

lemma sample_rows:
  "\<exists>gs. group_rows sample_log_service sample_sorted (log_replica sample_log_service) 0 sample_table = Some gs \<and>
     map (\<lambda>(g, ms). (g, map check_health_url ms)) gs = sample_urls"
  by (simp add: merge_cells_def is_hole_def mk_cell_def sample_sorted_def sample_table_def mk_member_def nth_opt_def cell_idx_def
      sample_url_def sample_urls_def Let_def)

lemma sample_group_urls:
  "\<exists>gs. group_members sample_log_service = Some gs \<and> map (\<lambda>(g, ms). (g, map check_health_url ms)) gs = sample_urls"
proof -
  obtain gs where gs: "group_rows sample_log_service sample_sorted (log_replica sample_log_service) 0 sample_table = Some gs"
      "map (\<lambda>(g, ms). (g, map check_health_url ms)) gs = sample_urls"
    using sample_rows by (elim exE conjE) (rule that)
  have "check_health_url (fix_node_id ix m) = check_health_url m" for ix m by (simp add: fix_node_id_def split: option.splits)
  then have "map (\<lambda>(g, ms). (g, map check_health_url ms)) (map (\<lambda>(gid, ms). (gid, map (fix_node_id ix) ms)) gs) = sample_urls" for ix
    unfolding gs(2) [symmetric] by (simp add: case_prod_beta comp_def)
  then show ?thesis unfolding group_members_def Let_def sample_order sample_grouping option.case gs(1) by blast
qed

definition first_leads :: "string \<Rightarrow> health_answer" where
  "first_leads u = HealthStates u [(''0'', if u = sample_url ''h1'' 9000 then ''FOLLOWER'' else ''LEADER'')]"

theorem log_probe_never_ready_witness:
  "\<exists>i t. log_probe_from_config logged_config = Some [(i, t)] \<and> lp_urls (ti_task t) = sample_urls \<and>
     (\<exists>e. log_probe_execute (\<lambda>_ _. first_leads) 100 (ti_task t) = Inl (Err e))"
proof -
  have dep: "dep_log_service (cfg_deployment logged_config) = Some sample_log_service" by (simp add: logged_config_def)
  obtain gs where gs: "group_members sample_log_service = Some gs" "map (\<lambda>(g, ms). (g, map check_health_url ms)) gs = sample_urls"
    using sample_group_urls by (elim exE conjE) (rule that)
  then obtain i t where t: "log_probe_from_config logged_config = Some [(i, t)]" and u: "lp_urls (ti_task t) = sample_urls"
    by (simp add: log_probe_from_config_def dep local_task_def Let_def)
  have ne: "sample_url ''h0'' 9000 \<noteq> sample_url ''h1'' 9000" "sample_url ''h2'' 9100 \<noteq> sample_url ''h1'' 9000"
    by (simp_all add: sample_url_def addr_def)
  have lead: "leader_info (first_leads v) = Some (if v = sample_url ''h1'' 9000 then 0 else 1, v)" for v
    by (simp add: first_leads_def ascii_upper_def Let_def)
  have total: "leader_total (probe_round (\<lambda>_. first_leads) (ti_task t)) = length (lp_urls (ti_task t))"
    using ne by (simp add: u sample_urls_def probe_round_def leader_total_def lead map_filter_simps)
  have hole: "no_hole_dirs sample_log_service" by (simp add: no_hole_dirs_def sample_log_service_def)
  have r: "log_replica sample_log_service = 2" "length (log_nodes sample_log_service) = 3"
    by (simp_all add: log_replica_def sample_log_service_def)
  have "\<exists>e. log_probe_execute (\<lambda>_ _. first_leads) 100 (ti_task t) = Inl (Err e)"
    by (rule log_probe_never_ready [OF dep t hole _ _ total]) (simp_all add: r)
  with t u show ?thesis by blast
qed

end
