(* ===== verification/Dss_Ctl.thy ===== *)
theory Dss_Ctl
  imports Tx_Ctl Storage
begin

text \<open>
  Starting, stopping and inspecting the data store service (\<open>cli/task/eloq_dss_ctl_task.rs\<close>). The commands
  with which a task looks for the process are cut out of the commands that start or stop it; that the
  result is the look of the status command is a theorem. The remote shell is an argument.
\<close>

section \<open>Control commands\<close>

datatype dss_ctl_cmd = DssStart string | DssStop string | DssForceStop string | DssStatus string

text \<open>\<open>^([^:]+):(\d+)$\<close>\<close>

definition dss_host_port :: "string \<Rightarrow> (string \<times> string) res" where
  "dss_host_port hp = (case split_once is_colon hp of
     Some (h, p) \<Rightarrow> if h \<noteq> [] \<and> p \<noteq> [] \<and> list_all is_digit p then Inr (h, p)
       else Inl (Err (''invalid host:port '' @ quoted hp @ '', expected host:port''))
   | None \<Rightarrow> Inl (Err (''invalid host:port '' @ quoted hp @ '', expected host:port'')))"

text \<open>The nodes that are managed here: none of an external service, none of a local store.\<close>

definition dss_peers :: "deployment \<Rightarrow> string list" where
  "dss_peers d = (case dep_storage_service d of
     None \<Rightarrow> []
   | Some st \<Rightarrow> (case st_rocksdb st of
       Some (EloqDssRocksdb e) \<Rightarrow> ed_peer_host_ports e
     | _ \<Rightarrow> (case st_eloqdss st of
         Some dss \<Rightarrow> if is_remote_mode dss \<and> \<not> is_external dss
           then (case dss_peer_host_ports dss of Some ps \<Rightarrow> ps | None \<Rightarrow> []) else []
       | None \<Rightarrow> [])))"

definition dss_ps_cmd :: "string \<Rightarrow> string \<Rightarrow> string \<Rightarrow> string" where
  "dss_ps_cmd user tx_home ini = ''ps -e -o pid,cmd --no-headers -u '' @ user @ '' | grep '' @ quoted (tx_home @ ''/bin/dss_server'') @
     '' | grep '' @ quoted ('' --config='' @ ini) @ '' | grep -v grep''"

definition dss_start_cmd :: "string \<Rightarrow> string \<Rightarrow> string \<Rightarrow> string" where
  "dss_start_cmd tx_home ini p = ''cd '' @ tx_home @ ''; mkdir -p '' @ tx_home @ ''/logs/dss; '' @ tx_home @ ''/bin/dss_server --config='' @ ini @
     '' > '' @ tx_home @ ''/logs/dss/std-'' @ p @ ''.log 2>&1 &''"

definition dss_cmd_of :: "deploy_config \<Rightarrow> sub_command \<Rightarrow> string \<Rightarrow> dss_ctl_cmd res" where
  "dss_cmd_of cfg cmd p =
     (let home = tx_srv_home (cfg_deployment cfg); ini = dss_srv_ini (cfg_deployment cfg) p;
          ps = dss_ps_cmd (username (cfg_connection cfg)) home ini
      in case cmd of
           CmdStart _ _ \<Rightarrow> Inr (DssStart (dss_start_cmd home ini p))
         | CmdLaunch _ _ \<Rightarrow> Inr (DssStart (dss_start_cmd home ini p))
         | CmdInstall _ \<Rightarrow> Inr (DssStart (dss_start_cmd home ini p))
         | CmdStatus _ _ _ _ _ \<Rightarrow> Inr (DssStatus ps)
         | CmdStop a \<Rightarrow> Inr (if st_force a then DssForceStop (ps @ awk_pid @ '' | xargs -r kill -9'')
                           else DssStop (ps @ awk_pid @ '' | xargs -r kill''))
         | CmdRemove _ _ \<Rightarrow> Inr (DssForceStop (ps @ awk_pid @ '' | xargs -r kill -9''))
         | _ \<Rightarrow> Inl (Panic ''internal error: entered unreachable code''))"

definition dss_cmd_for :: "deploy_config \<Rightarrow> sub_command \<Rightarrow> string \<Rightarrow> (string \<times> dss_ctl_cmd) res" where
  "dss_cmd_for cfg cmd peer = (case dss_host_port peer of
     Inl e \<Rightarrow> Inl (Panic (''invalid dss host:port: '' @ err_text e))
   | Inr (host, p) \<Rightarrow> bindE (dss_cmd_of cfg cmd p) (\<lambda>c. Inr (host, c)))"

definition build_dss_cmd :: "deploy_config \<Rightarrow> sub_command \<Rightarrow> (string \<times> dss_ctl_cmd) list res" where
  "build_dss_cmd cfg cmd = mapE (dss_cmd_for cfg cmd) (dss_peers (cfg_deployment cfg))"

section \<open>The tasks\<close>

record dss_ctl_task =
  dc_config :: deploy_config
  dc_id :: task_id
  dc_cmds :: "(string \<times> dss_ctl_cmd) list"

definition dss_task :: "deploy_config \<Rightarrow> string \<Rightarrow> (string \<times> dss_ctl_cmd) list \<Rightarrow> string \<Rightarrow> task_id \<times> dss_ctl_task task_instance" where
  "dss_task cfg name cmds host =
     (let tid = \<lparr>tid_cmd = ''dss_'' @ name, tid_task = name, tid_host = host\<rparr>
      in (tid, \<lparr>ti_input = [cmd_key \<mapsto> StrValue name], ti_task = \<lparr>dc_config = cfg, dc_id = tid, dc_cmds = cmds\<rparr>,
           ti_identifier = tid, ti_host = remote_host (cfg_connection cfg) host\<rparr>))"

text \<open>One task per host, which runs the commands of all its processes.\<close>

definition dss_from_config :: "sub_command \<Rightarrow> deploy_config \<Rightarrow> (task_id \<times> dss_ctl_task task_instance) list res" where
  "dss_from_config cmd cfg = bindE (build_dss_cmd cfg cmd) (\<lambda>cmds.
     Inr (im_extend [] (map (\<lambda>(host, _). dss_task cfg (command_name cmd) cmds host) cmds)))"

section \<open>What a task does\<close>

definition status_from_stop :: "string \<Rightarrow> string" where
  "status_from_stop c = (case split_once_str '' | xargs'' c of Some (a, _) \<Rightarrow> a | None \<Rightarrow> c)"

definition ends_path :: "char \<Rightarrow> bool" where
  "ends_path c \<longleftrightarrow> is_ws c \<or> c = CHR ''>'' \<or> c = CHR ''&''"

definition status_from_start :: "string \<Rightarrow> string \<Rightarrow> string \<Rightarrow> string option" where
  "status_from_start user tx_home c = map_option (\<lambda>(_, tail). dss_ps_cmd user tx_home (takeWhile (\<lambda>c. \<not> ends_path c) tail))
     (split_once_str ''--config='' c)"

record ctl_entry =
  ce_status :: string
  ce_exec :: "string option"
  ce_kind :: string

definition ctl_entry_of :: "string \<Rightarrow> string \<Rightarrow> dss_ctl_cmd \<Rightarrow> ctl_entry option" where
  "ctl_entry_of user tx_home c = (case c of
     DssStatus s \<Rightarrow> Some \<lparr>ce_status = s, ce_exec = None, ce_kind = ''status''\<rparr>
   | DssStop s \<Rightarrow> Some \<lparr>ce_status = status_from_stop s, ce_exec = Some s, ce_kind = ''stop''\<rparr>
   | DssForceStop s \<Rightarrow> Some \<lparr>ce_status = status_from_stop s, ce_exec = Some s, ce_kind = ''forcestop''\<rparr>
   | DssStart s \<Rightarrow> map_option (\<lambda>ps. \<lparr>ce_status = ps, ce_exec = Some s, ce_kind = ''start''\<rparr>) (status_from_start user tx_home s))"

definition has_pid :: "execution_value \<Rightarrow> bool" where
  "has_pid v \<longleftrightarrow> (case v process_pid_key of Some (StrValue p) \<Rightarrow> p \<noteq> [] \<and> p \<noteq> pid_not_found | _ \<Rightarrow> False)"

definition dss_status_value :: "execution_value list \<Rightarrow> execution_value" where
  "dss_status_value vs =
     (let first = (case vs of v # _ \<Rightarrow> v | [] \<Rightarrow> Map.empty);
          out = (if list_ex has_pid vs
             then (case first process_pid_key of
                 Some p \<Rightarrow> if has_pid first then ''dss_server is running, pid: '' @ show_task_arg p @ ''.'' else ''dss_server is down.''
               | None \<Rightarrow> ''dss_server is running.'')
             else ''dss_server is down.'');
          v = first(cmd_output_key \<mapsto> StrValue ([CHR 0x0A] @ out))
      in if v cmd_status_key = None then v(cmd_status_key \<mapsto> NumberValue 0) else v)"

text \<open>The commands to run, with whether they start a process.\<close>

definition dss_to_run :: "string \<Rightarrow> (ctl_entry \<times> execution_value) list \<Rightarrow> (string \<times> bool) list" where
  "dss_to_run task pids =
     (if task \<in> {''stop'', ''remove''} then List.map_filter (\<lambda>(e, v).
          if ce_kind e \<in> {''stop'', ''forcestop''} \<and> has_pid v then map_option (\<lambda>c. (c, False)) (ce_exec e) else None) pids
      else if task \<in> {''start'', ''launch'', ''install''} then List.map_filter (\<lambda>(e, v).
          if ce_kind e = ''start'' \<and> \<not> has_pid v then map_option (\<lambda>c. (c, True)) (ce_exec e) else None) pids
      else [])"

text \<open>\<open>look j n\<close> is the \<open>n\<close>-th attempt of the \<open>j\<close>-th look for the process.\<close>

fun await_ready :: "string \<Rightarrow> (nat \<Rightarrow> nat \<Rightarrow> (int \<times> string) res) \<Rightarrow> nat \<Rightarrow> nat \<Rightarrow> bool res" where
  "await_ready c look j 0 = Inr False"
| "await_ready c look j (Suc left) = bindE (check_pid c (look j)) (\<lambda>v. if has_pid v then Inr True else await_ready c look (Suc j) left)"

definition run_dss_cmd :: "host_world \<Rightarrow> string option \<Rightarrow> execution_value \<Rightarrow> nat \<times> string \<times> bool \<Rightarrow> execution_value res" where
  "run_dss_cmd w status v = (\<lambda>(i, c, is_start).
     bindE (hw_run w c 0) (\<lambda>(s, out). let v = v ++ task_output c s out in
       case (is_start, status) of
         (True, Some sc) \<Rightarrow> bindE (await_ready sc (\<lambda>j n. hw_run w sc (3 + 90 * i + 3 * j + n)) 0 30) (\<lambda>ready.
            Inr (if ready then v else v(cmd_output_key \<mapsto> StrValue ''dss_server readiness wait timeout (continuing)'')))
       | _ \<Rightarrow> Inr v))"

definition dss_control :: "host_world \<Rightarrow> string \<Rightarrow> ctl_entry list \<Rightarrow> (ctl_entry \<times> execution_value) list \<Rightarrow> execution_value res" where
  "dss_control w task entries pids =
     bindE (foldE (run_dss_cmd w (case entries of e # _ \<Rightarrow> Some (ce_status e) | [] \<Rightarrow> None)) Map.empty (enumerate 0 (dss_to_run task pids)))
       (\<lambda>v. Inr (if v cmd_status_key = None then v(cmd_status_key \<mapsto> NumberValue 0) else v))"

definition dss_execute :: "host_world \<Rightarrow> dss_ctl_task \<Rightarrow> execution_value option res" where
  "dss_execute w t =
     (if ssh_auth_key (cfg_connection (dc_config t)) = None then Inl (Panic ''called `Option::unwrap()` on a `None` value'')
      else bindE (hw_session w) (\<lambda>_.
        let cmds = map snd (filter (\<lambda>(h, _). h = tid_host (dc_id t)) (dc_cmds t));
            entries = List.map_filter (ctl_entry_of (username (cfg_connection (dc_config t))) (tx_srv_home (cfg_deployment (dc_config t)))) cmds
        in if cmds = [] then bindE (hw_close w) (\<lambda>_. Inr (Some
             [cmd_status_key \<mapsto> NumberValue 0, cmd_output_key \<mapsto> StrValue ''no dss command for host'']))
           else bindE (mapE (\<lambda>e. bindE (check_pid (ce_status e) (hw_run w (ce_status e))) (\<lambda>v. Inr (e, v))) entries) (\<lambda>pids.
             if tid_task (dc_id t) = ''status'' then bindE (hw_close w) (\<lambda>_. Inr (Some (dss_status_value (map snd pids))))
             else bindE (dss_control w (tid_task (dc_id t)) entries pids) (\<lambda>v.
               bindE (hw_close w) (\<lambda>_. task_return v (ExecUserCmdErr ''dss_ctl''))))))"

section \<open>The looks of start, stop and status\<close>

lemma split_once_str_first:
  assumes "\<And>k. k < length a \<Longrightarrow> \<not> starts_with p (drop k (a @ p @ b))" and "p \<noteq> []"
  shows "split_once_str p (a @ p @ b) = Some (a, b)"
  using assms(1)
proof (induction a)
  case Nil
  then show ?case using assms(2) by (cases p) (auto simp: starts_with_def)
next
  case (Cons c a)
  have "\<not> starts_with p (c # a @ p @ b)" using Cons.prems [of 0] by simp
  moreover have "split_once_str p (a @ p @ b) = Some (a, b)" by (rule Cons.IH) (use Cons.prems in \<open>force\<close>)
  ultimately show ?case by simp
qed

lemma no_early_match:
  assumes "k < length a" and "p \<noteq> []" and "last a \<notin> set p" and "last p \<notin> set a"
  shows "\<not> starts_with p (drop k (a @ r))"
proof
  assume "starts_with p (drop k (a @ r))"
  then have p: "p = take (length p) (drop k (a @ r))" by (simp add: starts_with_def)
  show False
  proof (cases "k + length p < length a")
    case True
    then have "p = take (length p) (drop k a)" using p by simp
    then have "set p \<subseteq> set a" by (metis set_drop_subset set_take_subset subset_trans)
    then show False using assms(2,4) last_in_set by blast
  next
    case False
    then have i: "length a - 1 - k < length p" using assms(1) by simp
    have "p ! (length a - 1 - k) = (drop k (a @ r)) ! (length a - 1 - k)" using i p by (metis nth_take)
    also have "\<dots> = last a" using assms(1) by (cases "a = []") (auto simp: nth_append last_conv_nth)
    finally show False using assms(3) i by (metis nth_mem)
  qed
qed

text \<open>A path without blanks and signs of the shell.\<close>

definition plain_path :: "string \<Rightarrow> bool" where
  "plain_path s \<longleftrightarrow> list_all (\<lambda>c. \<not> ends_path c \<and> c \<noteq> CHR ''='') s"

text \<open>What a start of the data store service looks for on a host is what a status request looks for: the command that
  is cut out of the start command is the one that lists the process, on a plain installation path.\<close>

theorem dss_start_looks_for_its_process:
  assumes "plain_path (tx_srv_home (cfg_deployment cfg))" and "list_all is_digit p"
    and "dss_cmd_of cfg (CmdStart c ns) p = Inr (DssStart s)" and "dss_cmd_of cfg (CmdStatus c' u pw w d) p = Inr (DssStatus ps)"
  shows "status_from_start (username (cfg_connection cfg)) (tx_srv_home (cfg_deployment cfg)) s = Some ps"
proof -
  let ?home = "tx_srv_home (cfg_deployment cfg)" and ?ini = "dss_srv_ini (cfg_deployment cfg) p"
  let ?a = "''cd '' @ ?home @ ''; mkdir -p '' @ ?home @ ''/logs/dss; '' @ ?home @ ''/bin/dss_server ''"
  let ?b = "'' > '' @ ?home @ ''/logs/dss/std-'' @ p @ ''.log 2>&1 &''"
  have s: "s = ?a @ ''--config='' @ (?ini @ ?b)" and ps: "ps = dss_ps_cmd (username (cfg_connection cfg)) ?home ?ini"
    using assms(3,4) by (auto simp: dss_cmd_of_def Let_def dss_start_cmd_def)
  have home: "CHR ''='' \<notin> set ?home" using assms(1) by (auto simp: plain_path_def list_all_iff)
  have early: "\<not> starts_with ''--config='' (drop k (?a @ ''--config='' @ (?ini @ ?b)))" if "k < length ?a" for k
    by (rule no_early_match [OF that]) (use home in auto)
  have split: "split_once_str ''--config='' s = Some (?a, ?ini @ ?b)"
    unfolding s by (rule split_once_str_first [OF early]) simp_all
  have digits: "\<not> ends_path c" if "is_digit c" for c
    using that by (auto simp: ends_path_def is_ws_def is_digit_def Let_def)
  have "list_all (\<lambda>c. \<not> ends_path c) ?home" "list_all (\<lambda>c. \<not> ends_path c) p"
    using assms(1,2) digits by (auto simp: plain_path_def list_all_iff)
  moreover have "list_all (\<lambda>c. \<not> ends_path c) ''/EloqDss-''" "list_all (\<lambda>c. \<not> ends_path c) ''.ini''"
    by (simp_all add: ends_path_def is_ws_def)
  ultimately have "list_all (\<lambda>c. \<not> ends_path c) ?ini" unfolding dss_srv_ini_def list_all_append by blast
  moreover have "ends_path (CHR '' '')" by (simp add: ends_path_def is_ws_def)
  ultimately have "takeWhile (\<lambda>c. \<not> ends_path c) (?ini @ ?b) = ?ini"
    by (subst takeWhile_append2) (simp_all add: list_all_iff)
  then show ?thesis by (simp add: status_from_start_def split ps)
qed

lemma dss_tasks_ids:
  assumes "dss_from_config cmd cfg = Inr ts"
  shows "unique_ids ts \<and> under {''dss_'' @ command_name cmd} ts"
proof -
  obtain cmds where ts: "ts = im_extend [] (map (\<lambda>(host, _). dss_task cfg (command_name cmd) cmds host) cmds)"
    using assms by (auto simp: dss_from_config_def res_simps)
  have "under {''dss_'' @ command_name cmd} (map (\<lambda>(host, _). dss_task cfg (command_name cmd) cs host) xs)" for cs xs
    by (induction xs) (auto simp: dss_task_def Let_def)
  then show ?thesis by (simp add: ts)
qed

section \<open>Starting without success\<close>

lemma not_found_pid: "run 0 = Inr (1, out) \<Longrightarrow> check_pid c run = Inr (no_pid (task_output c 0 out))"
  by (simp add: check_pid_def numeral_3_eq_3)

lemma no_pid_absent: "\<not> has_pid (no_pid v)"
  by (simp add: has_pid_def no_pid_def process_pid_key_def process_pid_list_key_def)

lemma never_ready: "(\<And>j. \<exists>out. look j 0 = Inr (1, out)) \<Longrightarrow> await_ready c look j left = Inr False"
proof (induction left arbitrary: j)
  case (Suc left)
  obtain out where "look j 0 = Inr (1, out)" using Suc.prems by blast
  then have "check_pid c (look j) = Inr (no_pid (task_output c 0 out))" by (rule not_found_pid)
  then show ?case using Suc by (simp add: no_pid_absent)
qed simp

text \<open>A start of the data store service succeeds when its process is never seen: thirty looks later the task
  notes the timeout in its output and returns the status of the shell that put the server into the background.\<close>

theorem dss_start_ignores_readiness:
  assumes "dc_cmds t = [(tid_host (dc_id t), DssStart c)]" and "tid_task (dc_id t) = ''start''"
    and "status_from_start (username (cfg_connection (dc_config t))) (tx_srv_home (cfg_deployment (dc_config t))) c = Some ps"
    and "\<And>n. \<exists>out. hw_run w ps n = Inr (1, out)" and "hw_run w c 0 = Inr (0, out)" and "hw_session w = Inr x" and "hw_close w = Inr ()"
    and "ssh_auth_key (cfg_connection (dc_config t)) \<noteq> None"
  shows "\<exists>v. dss_execute w t = Inr (Some v) \<and> v cmd_output_key = Some (StrValue ''dss_server readiness wait timeout (continuing)'')"
proof -
  have keys: "cmd_status_key \<noteq> cmd_output_key" by (simp add: cmd_output_key_def cmd_status_key_def)
  obtain out0 where first: "hw_run w ps 0 = Inr (1, out0)" using assms(4) by blast
  have pid: "check_pid ps (hw_run w ps) = Inr (no_pid (task_output ps 0 out0))" using first by (rule not_found_pid)
  have look: "await_ready ps (\<lambda>j n. hw_run w ps (3 + 3 * j + n)) 0 30 = Inr False"
    by (rule never_ready) (rule assms(4))
  have "dss_execute w t = task_return ((task_output c 0 out)(cmd_output_key \<mapsto> StrValue ''dss_server readiness wait timeout (continuing)''))
      (ExecUserCmdErr ''dss_ctl'')"
    using assms(1-3,5-8) pid look keys
    by (auto simp: dss_execute_def ctl_entry_of_def map_filter_simps dss_control_def dss_to_run_def no_pid_absent run_dss_cmd_def Let_def)
  then show ?thesis using keys by (simp add: task_return_def)
qed

end
