(* ===== verification/Monitor_Ctl.thy ===== *)
theory Monitor_Ctl
  imports Tx_Ctl Cluster_Lock
begin

text \<open>
  Starting, stopping and inspecting the monitoring components (\<open>cli/task/monitor_ctl_task.rs\<close>,
  \<open>cli/task/group/monitor_ctl_group.rs\<close>): the shell commands of a component, the tasks for a monitor
  command, what a task does on its host, and the context of a monitor command. The remote shell, the
  request that reloads Prometheus, the order of the host map and the upload tasks are arguments.
\<close>

section \<open>Components\<close>

datatype monitor_ctl = NodeExporterCtl string | PrometheusCtl string | AlertmanagerCtl string | GrafanaCtl string | WebhookAdapterCtl string

fun ctl_home :: "monitor_ctl \<Rightarrow> string" where
  "ctl_home (NodeExporterCtl h) = h" | "ctl_home (PrometheusCtl h) = h" | "ctl_home (AlertmanagerCtl h) = h"
| "ctl_home (GrafanaCtl h) = h" | "ctl_home (WebhookAdapterCtl h) = h"

fun service_name :: "monitor_ctl \<Rightarrow> string" where
  "service_name (NodeExporterCtl _) = ''node_exporter''"
| "service_name (PrometheusCtl _) = ''prometheus''"
| "service_name (AlertmanagerCtl _) = ''alertmanager''"
| "service_name (GrafanaCtl _) = ''grafana''"
| "service_name (WebhookAdapterCtl _) = ''alertmanager_webhook_adapter''"

fun log_path :: "monitor_ctl \<Rightarrow> string" where
  "log_path (NodeExporterCtl _) = ''/tmp/eloq_node_exporter.log''"
| "log_path (PrometheusCtl _) = ''/tmp/eloq_prometheus.log''"
| "log_path (AlertmanagerCtl _) = ''/tmp/eloq_alertmanager.log''"
| "log_path (GrafanaCtl _) = ''/tmp/eloq_grafana_server.log''"
| "log_path (WebhookAdapterCtl _) = ''/tmp/eloq_alertmanager_webhook_adapter.log''"

definition webhook_adapter_binary :: string where "webhook_adapter_binary = ''alertmanager-webhook-adapter''"

fun executable_paths :: "monitor_ctl \<Rightarrow> string list" where
  "executable_paths (NodeExporterCtl h) = [h @ ''/node_exporter'']"
| "executable_paths (PrometheusCtl h) = [h @ ''/prometheus'']"
| "executable_paths (AlertmanagerCtl h) = [h @ ''/alertmanager'']"
| "executable_paths (GrafanaCtl h) = [h @ ''/bin/grafana-server'', h @ ''/bin/grafana'']"
| "executable_paths (WebhookAdapterCtl h) = [h @ ''/'' @ webhook_adapter_binary]"

definition retention_flags :: "prometheus \<Rightarrow> string" where
  "retention_flags p = join '' ''
     ((case retention_time p of Some t \<Rightarrow> [''--storage.tsdb.retention.time='' @ dq # t @ [dq]] | None \<Rightarrow> []) @
      (case retention_size p of Some s \<Rightarrow> [''--storage.tsdb.retention.size='' @ dq # s @ [dq]] | None \<Rightarrow> []))"

definition to_log :: "monitor_ctl \<Rightarrow> string" where
  "to_log c = '' > '' @ log_path c @ '' 2>&1 &''"

fun monitor_start_cmd :: "monitor \<Rightarrow> monitor_ctl \<Rightarrow> string option" where
  "monitor_start_cmd m (NodeExporterCtl h) = map_option (\<lambda>e.
     h @ ''/node_exporter --web.listen-address=:'' @ show_u16 (exporter_port e) @ to_log (NodeExporterCtl h)) (mon_node_exporter m)"
| "monitor_start_cmd m (GrafanaCtl h) = Some (''if [ -x '' @ h @ ''/bin/grafana-server ]; then '' @ h @ ''/bin/grafana-server -homepath '' @ h @
     '' -config '' @ h @ ''/conf/custom.ini; else '' @ h @ ''/bin/grafana server -homepath '' @ h @ '' -config '' @ h @
     ''/conf/custom.ini; fi'' @ to_log (GrafanaCtl h))"
| "monitor_start_cmd m (AlertmanagerCtl h) = map_option (\<lambda>a. h @ ''/alertmanager --config.file='' @ h @ ''/alertmanager.yml --storage.path='' @ h @
     ''/data --web.listen-address=0.0.0.0:'' @ show_u16 (am_port a) @ to_log (AlertmanagerCtl h)) (mon_alertmanager m)"
| "monitor_start_cmd m (PrometheusCtl h) = map_option (\<lambda>p. h @ ''/prometheus --web.listen-address='' @ dq # ''0.0.0.0:'' @ show_u16 (prom_port p) @
     dq # '' --web.enable-lifecycle --storage.tsdb.path='' @ h @ ''/data'' @
     (if retention_flags p = [] then [] else CHR '' '' # retention_flags p) @ '' --config.file='' @ h @ ''/prometheus.yml'' @
     to_log (PrometheusCtl h)) (mon_prometheus m)"
| "monitor_start_cmd m (WebhookAdapterCtl h) = map_option (\<lambda>a. ''sh -c '' @ quoted (''cd '' @ h @ '' && exec '' @ h @ ''/'' @ webhook_adapter_binary @
     '' --listen-address=0.0.0.0:'' @ show_u16 (am_webhook_adapter_port a) @ '' --tmpl-dir '' @ h @
     ''/templates --tmpl-lang zh --signature EloqKV'') @ to_log (WebhookAdapterCtl h)) (mon_alertmanager m)"

definition reload_url :: "monitor \<Rightarrow> monitor_ctl \<Rightarrow> string option" where
  "reload_url m c = (case c of
     PrometheusCtl _ \<Rightarrow> map_option (\<lambda>p. ''http://'' @ addr (prom_host p) (prom_port p) @ ''/-/reload'') (mon_prometheus m)
   | _ \<Rightarrow> None)"

definition process_info :: "monitor_ctl \<Rightarrow> string" where
  "process_info c = ''ps -e -o pid,cmd --no-headers | grep '' @ dq # ctl_home c @ dq # '' | grep -v grep''"

section \<open>The tasks\<close>

fun monitor_command_name :: "monitor_command \<Rightarrow> string" where
  "monitor_command_name (MonitorStart _ _) = ''start''"
| "monitor_command_name (MonitorStop _ _) = ''stop''"
| "monitor_command_name (MonitorRestart _ _) = ''restart''"
| "monitor_command_name (MonitorStatus _ _) = ''status''"
| "monitor_command_name (MonitorUpdate _ _ _ _) = ''update''"

record monitor_ctl_task =
  mc_config :: deploy_config
  mc_id :: task_id
  mc_ctl :: monitor_ctl
  mc_command :: monitor_command

text \<open>The host in the id is the one of the ssh endpoint.\<close>

definition monitor_task :: "deploy_config \<Rightarrow> monitor_command \<Rightarrow> monitor_ctl \<Rightarrow> string \<Rightarrow> string \<Rightarrow> task_id \<times> monitor_ctl_task task_instance" where
  "monitor_task cfg m ctl name host =
     (let rh = remote_host (cfg_connection cfg) host;
          tid = \<lparr>tid_cmd = ''monitor'', tid_task = name, tid_host = snd (snd (ssh_conn_tuple rh))\<rparr>
      in (tid, \<lparr>ti_input = Map.empty, ti_task = \<lparr>mc_config = cfg, mc_id = tid, mc_ctl = ctl, mc_command = m\<rparr>,
           ti_identifier = tid, ti_host = rh\<rparr>))"

definition component_home :: "deploy_config \<Rightarrow> string \<Rightarrow> string" where
  "component_home cfg key = install_dir (cfg_deployment cfg) @ ''/'' @ key"

definition ctl_name :: "string \<Rightarrow> monitor_command \<Rightarrow> u16 \<Rightarrow> string" where
  "ctl_name component m p = component @ ''-'' @ monitor_command_name m @ ''-'' @ show_u16 p"

definition no_monitor :: "'a res" where
  "no_monitor = Inl (Panic ''called `Option::unwrap()` on a `None` value'')"

definition component_tasks :: "deploy_config \<Rightarrow> monitor_command \<Rightarrow> (monitor \<Rightarrow> 'c option) \<Rightarrow> ('c \<Rightarrow> string) \<Rightarrow> ('c \<Rightarrow> u16) \<Rightarrow>
    string \<Rightarrow> monitor_ctl \<Rightarrow> (task_id \<times> monitor_ctl_task task_instance) list res" where
  "component_tasks cfg m get host prt name ctl = (case dep_monitor (cfg_deployment cfg) of
     None \<Rightarrow> no_monitor
   | Some mon \<Rightarrow> Inr (case get mon of Some c \<Rightarrow> [monitor_task cfg m ctl (ctl_name name m (prt c)) (host c)] | None \<Rightarrow> []))"

definition grafana_tasks :: "deploy_config \<Rightarrow> monitor_command \<Rightarrow> (task_id \<times> monitor_ctl_task task_instance) list res" where
  "grafana_tasks cfg m = component_tasks cfg m mon_grafana graf_host graf_port ''grafana'' (GrafanaCtl (component_home cfg ''grafana''))"

definition prometheus_tasks :: "deploy_config \<Rightarrow> monitor_command \<Rightarrow> (task_id \<times> monitor_ctl_task task_instance) list res" where
  "prometheus_tasks cfg m = component_tasks cfg m mon_prometheus prom_host prom_port ''prometheus'' (PrometheusCtl (component_home cfg ''prometheus''))"

definition alertmanager_tasks :: "deploy_config \<Rightarrow> monitor_command \<Rightarrow> (task_id \<times> monitor_ctl_task task_instance) list res" where
  "alertmanager_tasks cfg m = component_tasks cfg m mon_alertmanager am_host am_port ''alertmanager''
     (AlertmanagerCtl (component_home cfg ''alertmanager''))"

definition webhook_adapter_tasks :: "deploy_config \<Rightarrow> monitor_command \<Rightarrow> (task_id \<times> monitor_ctl_task task_instance) list res" where
  "webhook_adapter_tasks cfg m = component_tasks cfg m mon_alertmanager am_host am_webhook_adapter_port ''alertmanager-webhook-adapter''
     (WebhookAdapterCtl (component_home cfg ''alertmanager-webhook-adapter''))"

text \<open>\<open>pkgs\<close> are the packages in the order in which the host map lists them.\<close>

definition exporter_hosts :: "deployment_package list \<Rightarrow> deploy_config \<Rightarrow> string list" where
  "exporter_hosts pkgs cfg = concat (map (\<lambda>p. case get_host_as_map cfg p of Some hs \<Rightarrow> uniq hs | None \<Rightarrow> [])
     (filter (\<lambda>p. p \<in> {EloqTx, EloqStandby, EloqLog, Storage}) pkgs))"

definition exporter_task :: "deploy_config \<Rightarrow> monitor_command \<Rightarrow> monitor \<Rightarrow> string \<Rightarrow> (task_id \<times> monitor_ctl_task task_instance) res" where
  "exporter_task cfg m mon host = (case mon_node_exporter mon of
     None \<Rightarrow> no_monitor
   | Some e \<Rightarrow> Inr (monitor_task cfg m (NodeExporterCtl (component_home cfg ''node_exporter'')) (ctl_name ''node_exporter'' m (exporter_port e)) host))"

definition exporter_tasks :: "deployment_package list \<Rightarrow> deploy_config \<Rightarrow> monitor_command \<Rightarrow> (task_id \<times> monitor_ctl_task task_instance) list res" where
  "exporter_tasks pkgs cfg m = (case dep_monitor (cfg_deployment cfg) of
     None \<Rightarrow> no_monitor
   | Some mon \<Rightarrow> bindE (mapE (exporter_task cfg m mon) (exporter_hosts pkgs cfg)) (\<lambda>ts. Inr (im_extend [] ts)))"

section \<open>What a task does\<close>

text \<open>
  \<open>mw_look n\<close> is the \<open>n\<close>-th run of the command that lists the process, \<open>mw_run c\<close> what the other commands
  give. A look for a process takes up to three runs.
\<close>

record monitor_world =
  mw_session :: "(string \<times> string) res"
  mw_look :: "nat \<Rightarrow> (int \<times> string) res"
  mw_run :: "string \<Rightarrow> (int \<times> string) res"
  mw_close :: "unit res"

definition look_at :: "monitor_world \<Rightarrow> monitor_ctl \<Rightarrow> nat \<Rightarrow> execution_value res" where
  "look_at w c j = check_pid (process_info c) (\<lambda>n. mw_look w (3 * j + n))"

definition value_pid :: "execution_value \<Rightarrow> string res" where
  "value_pid v = (case v process_pid_key of Some (StrValue p) \<Rightarrow> Inr p | _ \<Rightarrow> no_monitor)"

text \<open>\<open>wait_started\<close> and \<open>wait_stopped\<close>: fifteen looks, then a last one.\<close>

fun wait_process :: "monitor_world \<Rightarrow> monitor_ctl \<Rightarrow> (string \<Rightarrow> bool) \<Rightarrow> nat \<Rightarrow> nat \<Rightarrow> execution_value res" where
  "wait_process w c done j 0 = look_at w c j"
| "wait_process w c done j (Suc left) = bindE (look_at w c j) (\<lambda>v. bindE (value_pid v) (\<lambda>p.
     if done p then Inr v else wait_process w c done (Suc j) left))"

definition diagnosis :: "monitor_world \<Rightarrow> string \<Rightarrow> string \<Rightarrow> string list" where
  "diagnosis w title c = (case mw_run w c of
     Inl _ \<Rightarrow> []
   | Inr (_, out) \<Rightarrow> if trim out = [] then [] else [title @ [CHR 0x0A] @ trim out])"

definition start_failure_details :: "monitor_world \<Rightarrow> monitor_ctl \<Rightarrow> string" where
  "start_failure_details w c =
     (let ss = diagnosis w ''startup log:'' (''tail -n 40 '' @ log_path c @ '' 2>/dev/null || echo '' @ quoted ''<no startup log output>'') @
               diagnosis w ''file modes:'' (''ls -l '' @ join '' '' (executable_paths c))
      in if ss = [] then ''no additional diagnostics captured for '' @ service_name c else join [CHR 0x0A] ss)"

text \<open>
  The outcome of a command: an error inside an error is returned at once, one in the value is returned
  when the session was closed.
\<close>

definition start_component :: "monitor_world \<Rightarrow> monitor_ctl_task \<Rightarrow> monitor \<Rightarrow> execution_value \<Rightarrow> string \<Rightarrow> execution_value res res" where
  "start_component w t mon v pid =
     (if pid = pid_not_found
      then (case monitor_start_cmd mon (mc_ctl t) of
          None \<Rightarrow> Inr (Inr v)
        | Some c \<Rightarrow> bindE (mw_run w c) (\<lambda>_. bindE (wait_process w (mc_ctl t) (\<lambda>p. p \<noteq> pid_not_found) 1 15) (\<lambda>v'. bindE (value_pid v') (\<lambda>p.
            Inr (if p = pid_not_found then Inl (Err (''monitor component '' @ format_string (mc_id t) @ '' failed to start'' @ [CHR 0x0A] @
              start_failure_details w (mc_ctl t))) else Inr v')))))
      else Inr (Inr v))"

definition stop_component :: "monitor_world \<Rightarrow> monitor_ctl_task \<Rightarrow> execution_value \<Rightarrow> string \<Rightarrow> execution_value res res" where
  "stop_component w t v pid =
     (if pid = pid_not_found then Inr (Inr v)
      else bindE (mw_run w (''kill '' @ pid)) (\<lambda>_.
        bindE (wait_process w (mc_ctl t) (\<lambda>p. p = pid_not_found) 1 15) (\<lambda>v1. bindE (value_pid v1) (\<lambda>p1.
        if p1 = pid_not_found then Inr (Inr v1)
        else bindE (mw_run w (''kill -9 '' @ p1)) (\<lambda>_.
          bindE (wait_process w (mc_ctl t) (\<lambda>p. p = pid_not_found) 17 15) (\<lambda>v2. bindE (value_pid v2) (\<lambda>p2.
          Inr (if p2 = pid_not_found then Inr v2
          else Inl (Err (''monitor component '' @ format_string (mc_id t) @ '' failed to stop after SIGTERM and SIGKILL''))))))))))"

definition monitor_status_value :: "monitor_ctl \<Rightarrow> execution_value \<Rightarrow> execution_value" where
  "monitor_status_value c v = (case v process_pid_key of
     None \<Rightarrow> v
   | Some p \<Rightarrow> v(cmd_output_key \<mapsto> StrValue ([CHR 0x0A] @ service_name c @
       (if p = StrValue pid_not_found then '' is down.'' else '' is running, pid: '' @ show_task_arg p @ ''.''))))"

text \<open>The request that reloads a running Prometheus never fails.\<close>

definition monitor_action :: "monitor_world \<Rightarrow> monitor_ctl_task \<Rightarrow> monitor \<Rightarrow> execution_value \<Rightarrow> string \<Rightarrow> execution_value res res" where
  "monitor_action w t mon v pid = (case mc_command t of
     MonitorStart _ _ \<Rightarrow> start_component w t mon v pid
   | MonitorStop _ _ \<Rightarrow> stop_component w t v pid
   | MonitorStatus _ _ \<Rightarrow> Inr (Inr v)
   | _ \<Rightarrow> Inl (Panic ''internal error: entered unreachable code''))"

definition monitor_execute :: "monitor_world \<Rightarrow> monitor_ctl_task \<Rightarrow> execution_value option res" where
  "monitor_execute w t =
     (if ssh_auth_key (cfg_connection (mc_config t)) = None then no_monitor
      else bindE (mw_session w) (\<lambda>_. bindE (look_at w (mc_ctl t) 0) (\<lambda>v. bindE (value_pid v) (\<lambda>pid.
        case dep_monitor (cfg_deployment (mc_config t)) of
          None \<Rightarrow> no_monitor
        | Some mon \<Rightarrow> bindE (monitor_action w t mon v pid) (\<lambda>r. bindE (mw_close w) (\<lambda>_. bindE r (\<lambda>r.
            task_return (if monitor_command_name (mc_command t) = ''status'' then monitor_status_value (mc_ctl t) r else r)
              (MonitorCtlCmdErr (format_string (mc_id t))))))))))"

section \<open>The context of a monitor command\<close>

fun selected_components :: "monitor_command \<Rightarrow> monitor_component list" where
  "selected_components (MonitorStart _ cs) = cs"
| "selected_components (MonitorStop _ cs) = cs"
| "selected_components (MonitorRestart _ cs) = cs"
| "selected_components (MonitorStatus _ cs) = cs"
| "selected_components (MonitorUpdate _ _ _ _) = []"

definition component_enabled :: "monitor_component list \<Rightarrow> monitor_component \<Rightarrow> bool" where
  "component_enabled selected c \<longleftrightarrow> selected = [] \<or> c \<in> set selected"

text \<open>The five stages of one command, in their order.\<close>

definition phase :: "monitor_component list \<Rightarrow> monitor_component \<Rightarrow> 'a list res \<Rightarrow> 'a list res" where
  "phase selected c ts = (if component_enabled selected c then ts else Inr [])"

definition phase_sets :: "deployment_package list \<Rightarrow> deploy_config \<Rightarrow> monitor_component list \<Rightarrow> monitor_command \<Rightarrow>
    (task_id \<times> monitor_ctl_task task_instance) list list res" where
  "phase_sets pkgs cfg selected m = mapE (\<lambda>x. x)
     [phase selected McNodeExporter (exporter_tasks pkgs cfg m), phase selected McPrometheus (prometheus_tasks cfg m),
      phase selected McAlertmanager (alertmanager_tasks cfg m), phase selected McGrafana (grafana_tasks cfg m),
      phase selected McWebhookAdapter (webhook_adapter_tasks cfg m)]"

fun starts_components :: "monitor_command \<Rightarrow> bool" where
  "starts_components (MonitorStart _ _) = True" | "starts_components (MonitorRestart _ _) = True" | "starts_components _ = False"

fun restarts :: "monitor_command \<Rightarrow> bool" where
  "restarts (MonitorRestart _ _) = True" | "restarts _ = False"

datatype monitor_group_task = MgUpload "task_id" | MgCtl monitor_ctl_task

definition as_ctl :: "(task_id \<times> monitor_ctl_task task_instance) list \<Rightarrow> (task_id \<times> monitor_group_task task_instance) list" where
  "as_ctl ts = map (\<lambda>(i, t). (i, \<lparr>ti_input = ti_input t, ti_task = MgCtl (ti_task t), ti_identifier = ti_identifier t, ti_host = ti_host t\<rparr>)) ts"

definition monitor_group :: "(task_id \<times> monitor_group_task task_instance) list \<Rightarrow> deployment_package list \<Rightarrow> string option \<Rightarrow> monitor_command \<Rightarrow>
    deploy_config \<Rightarrow> monitor_group_task task_context res" where
  "monitor_group uploads pkgs cluster m cfg =
     (if dep_monitor (cfg_deployment cfg) = None then Inr \<lparr>task_group = ''control-monitor'', barrier = None, executable = []\<rparr>
      else (let selected = selected_components m;
          acc = (if starts_components m then push_nonempty uploads ([], []) else ([], []))
        in case cluster of None \<Rightarrow> Inl (Panic ''monitor cluster is resolved'') | Some _ \<Rightarrow>
          bindE (phase_sets pkgs cfg selected (if restarts m then MonitorStop None selected else m)) (\<lambda>sets.
          bindE (if restarts m then phase_sets pkgs cfg selected (MonitorStart None selected) else Inr []) (\<lambda>again.
          let acc = fold (\<lambda>ts. push_stage (as_ctl ts)) (sets @ again) acc
          in Inr \<lparr>task_group = ''control-monitor'', barrier = Some (fst acc), executable = snd acc\<rparr>))))"

section \<open>Ids\<close>

definition component_names :: "string set" where
  "component_names = {''node_exporter'', ''prometheus'', ''alertmanager'', ''grafana'', ''alertmanager-webhook-adapter''}"

lemma component_namesI [simp]:
  shows "''node_exporter'' \<in> component_names" and "''prometheus'' \<in> component_names" and "''alertmanager'' \<in> component_names"
    and "''grafana'' \<in> component_names" and "''alertmanager-webhook-adapter'' \<in> component_names"
  by (simp_all add: component_names_def)

text \<open>Only the hyphen before \<open>webhook\<close> is followed by a letter no command begins with.\<close>

lemma component_prefix:
  assumes "c @ CHR ''-'' # a # r = c' @ CHR ''-'' # a' # r'" and "c \<in> component_names" and "c' \<in> component_names"
    and "a \<noteq> CHR ''w''" and "a' \<noteq> CHR ''w''"
  shows "c = c'"
  using assms unfolding component_names_def by (elim insertE emptyE; hypsubst_thin; simp)

lemma command_name_letter: "\<exists>a r. monitor_command_name m = a # r \<and> a \<noteq> CHR ''w''"
  by (cases m) simp_all

lemma ctl_name_component:
  assumes "ctl_name c m p = ctl_name c' m' q" and "c \<in> component_names" and "c' \<in> component_names"
  shows "c = c'"
proof -
  obtain a r where m: "monitor_command_name m = a # r" "a \<noteq> CHR ''w''" using command_name_letter by blast
  obtain a' r' where m': "monitor_command_name m' = a' # r'" "a' \<noteq> CHR ''w''" using command_name_letter by blast
  have "c @ CHR ''-'' # a # (r @ CHR ''-'' # show_u16 p) = c' @ CHR ''-'' # a' # (r' @ CHR ''-'' # show_u16 q)"
    using assms(1) by (simp add: ctl_name_def m(1) m'(1))
  then show ?thesis by (rule component_prefix [OF _ assms(2,3) m(2) m'(2)])
qed

lemma ctl_name_command:
  assumes "ctl_name c m p = ctl_name c m' q"
  shows "monitor_command_name m = monitor_command_name m'"
proof -
  have "monitor_command_name m @ CHR ''-'' # show_u16 p = monitor_command_name m' @ CHR ''-'' # show_u16 q"
    using assms by (simp add: ctl_name_def)
  then show ?thesis by (cases m; cases m') simp_all
qed

text \<open>The tasks of one command for one component.\<close>

definition named :: "string \<Rightarrow> monitor_command \<Rightarrow> (task_id \<times> 'x) list \<Rightarrow> bool" where
  "named c m ts \<longleftrightarrow> unique_ids ts \<and> (\<forall>i \<in> ids_of ts. tid_cmd i = ''monitor'' \<and> (\<exists>p. tid_task i = ctl_name c m p))"

lemma named_Nil: "named c m []"
  by (simp add: named_def)

lemma named_disjoint:
  assumes "named c m ts" and "named c' m' us" and "c \<in> component_names" and "c' \<in> component_names"
    and "c \<noteq> c' \<or> monitor_command_name m \<noteq> monitor_command_name m'"
  shows "ids_of ts \<inter> ids_of us = {}"
proof (rule ccontr)
  assume "ids_of ts \<inter> ids_of us \<noteq> {}"
  then obtain i p q where "ctl_name c m p = ctl_name c' m' q" using assms(1,2) by (fastforce simp: named_def)
  with ctl_name_component [OF this assms(3,4)] ctl_name_command assms(5) show False by blast
qed

lemma named_component:
  assumes "component_tasks cfg m get host prt name ctl = Inr ts"
  shows "named name m ts"
  using assms by (auto simp: component_tasks_def no_monitor_def named_def monitor_task_def Let_def split: option.splits)

lemma named_exporter:
  assumes "exporter_tasks pkgs cfg m = Inr ts"
  shows "named ''node_exporter'' m ts"
proof -
  obtain mon us where us: "mapE (exporter_task cfg m mon) (exporter_hosts pkgs cfg) = Inr us" "ts = im_extend [] us"
    using assms by (auto simp: exporter_tasks_def no_monitor_def res_simps split: option.splits)
  have "tid_cmd i = ''monitor'' \<and> (\<exists>p. tid_task i = ctl_name ''node_exporter'' m p)" if i: "i \<in> ids_of us" for i
  proof -
    obtain x where "(i, x) \<in> set us" using i by (auto simp: ids_of_def)
    then obtain h where "exporter_task cfg m mon h = Inr (i, x)" using mapE_mem [OF us(1)] by blast
    then show ?thesis by (auto simp: exporter_task_def no_monitor_def monitor_task_def Let_def split: option.splits)
  qed
  then show ?thesis by (simp add: named_def us(2))
qed

lemma named_as_ctl [simp]: "named c m (as_ctl ts) \<longleftrightarrow> named c m ts"
proof -
  have f: "map fst (as_ctl ts) = map fst ts" by (simp add: as_ctl_def case_prod_beta)
  then have "ids_of (as_ctl ts) = ids_of ts" by (metis ids_of_def list.set_map)
  then show ?thesis by (simp add: named_def unique_ids_def f)
qed

lemma named_phase:
  assumes "phase selected k r = Inr ts" and "\<And>us. r = Inr us \<Longrightarrow> named c m us"
  shows "named c m ts"
  using assms by (auto simp: phase_def named_Nil split: if_splits)

lemma phase_sets_named:
  assumes "phase_sets pkgs cfg selected m = Inr sets"
  obtains a b c d e where "sets = [a, b, c, d, e]" "named ''node_exporter'' m a" "named ''prometheus'' m b"
    "named ''alertmanager'' m c" "named ''grafana'' m d" "named ''alertmanager-webhook-adapter'' m e"
proof -
  obtain a b c d e where s: "sets = [a, b, c, d, e]"
    and r: "phase selected McNodeExporter (exporter_tasks pkgs cfg m) = Inr a" "phase selected McPrometheus (prometheus_tasks cfg m) = Inr b"
      "phase selected McAlertmanager (alertmanager_tasks cfg m) = Inr c" "phase selected McGrafana (grafana_tasks cfg m) = Inr d"
      "phase selected McWebhookAdapter (webhook_adapter_tasks cfg m) = Inr e"
    using assms by (auto simp: phase_sets_def res_simps)
  have "named ''node_exporter'' m a" using r(1) named_exporter by (rule named_phase)
  moreover have "named ''prometheus'' m b" using r(2) by (rule named_phase) (simp add: prometheus_tasks_def named_component)
  moreover have "named ''alertmanager'' m c" using r(3) by (rule named_phase) (simp add: alertmanager_tasks_def named_component)
  moreover have "named ''grafana'' m d" using r(4) by (rule named_phase) (simp add: grafana_tasks_def named_component)
  moreover have "named ''alertmanager-webhook-adapter'' m e" using r(5) by (rule named_phase) (simp add: webhook_adapter_tasks_def named_component)
  ultimately show ?thesis using s that by blast
qed

section \<open>The context of a monitor command runs\<close>

lemma fold_push_balanced:
  assumes "balanced acc" and "\<forall>ts \<in> set sets. unique_ids ts \<and> ids_of (snd acc) \<inter> ids_of ts = {}"
    and "pairwise (\<lambda>i j. ids_of (sets ! i) \<inter> ids_of (sets ! j) = {}) {..<length sets}"
  shows "balanced (fold push_stage sets acc)"
  using assms
proof (induction sets arbitrary: acc)
  case (Cons ts sets)
  have "balanced (push_stage ts acc)" using Cons.prems(1,2) by (intro balanced_push_stage) auto
  moreover have "\<forall>us \<in> set sets. unique_ids us \<and> ids_of (snd (push_stage ts acc)) \<inter> ids_of us = {}"
  proof
    fix us assume us: "us \<in> set sets"
    then obtain j where "us = sets ! j" "j < length sets" by (metis in_set_conv_nth)
    then have "ids_of ts \<inter> ids_of us = {}" using pairwiseD [OF Cons.prems(3), of 0 "Suc j"] by simp
    then show "unique_ids us \<and> ids_of (snd (push_stage ts acc)) \<inter> ids_of us = {}" using Cons.prems(2) us by auto
  qed
  moreover have "pairwise (\<lambda>i j. ids_of (sets ! i) \<inter> ids_of (sets ! j) = {}) {..<length sets}"
  proof (rule pairwiseI)
    fix i j assume "i \<in> {..<length sets}" "j \<in> {..<length sets}" "i \<noteq> j"
    then show "ids_of (sets ! i) \<inter> ids_of (sets ! j) = {}" using pairwiseD [OF Cons.prems(3), of "Suc i" "Suc j"] by simp
  qed
  ultimately show ?case using Cons.IH by simp
qed simp

text \<open>A list of stages that are told apart by component and command.\<close>

definition told_apart :: "(string \<times> monitor_command \<times> (task_id \<times> 'x task_instance) list) list \<Rightarrow> bool" where
  "told_apart xs \<longleftrightarrow> (\<forall>(c, m, ts) \<in> set xs. c \<in> component_names \<and> named c m ts) \<and>
     distinct (map (\<lambda>(c, m, _). (c, monitor_command_name m)) xs)"

lemma told_apart_balanced:
  assumes "balanced acc" and "told_apart xs" and "\<forall>i \<in> ids_of (snd acc). \<forall>c \<in> component_names. \<forall>m p. tid_task i \<noteq> ctl_name c m p"
  shows "balanced (fold push_stage (map (\<lambda>(_, _, ts). ts) xs) acc)"
proof (rule fold_push_balanced [OF assms(1)])
  have n: "c \<in> component_names \<and> named c m ts" if "(c, m, ts) \<in> set xs" for c m ts
    using bspec [OF assms(2) [unfolded told_apart_def, THEN conjunct1] that] by (simp only: prod.case)
  show "\<forall>ts \<in> set (map (\<lambda>(_, _, ts). ts) xs). unique_ids ts \<and> ids_of (snd acc) \<inter> ids_of ts = {}"
  proof
    fix ts assume "ts \<in> set (map (\<lambda>(_, _, ts). ts) xs)"
    then obtain c m where "(c, m, ts) \<in> set xs" by auto
    then have c: "c \<in> component_names" and nm: "named c m ts" using n by blast+
    have "i \<notin> ids_of ts" if i: "i \<in> ids_of (snd acc)" for i
    proof
      assume "i \<in> ids_of ts"
      then obtain p where "tid_task i = ctl_name c m p" using nm by (auto simp: named_def)
      then show False using assms(3) [rule_format, OF i c] by blast
    qed
    then show "unique_ids ts \<and> ids_of (snd acc) \<inter> ids_of ts = {}" using nm by (auto simp: named_def)
  qed
  show "pairwise (\<lambda>i j. ids_of (map (\<lambda>(_, _, ts). ts) xs ! i) \<inter> ids_of (map (\<lambda>(_, _, ts). ts) xs ! j) = {}) {..<length (map (\<lambda>(_, _, ts). ts) xs)}"
  proof (rule pairwiseI)
    fix i j assume ij: "i \<in> {..<length (map (\<lambda>(_, _, ts). ts) xs)}" "j \<in> {..<length (map (\<lambda>(_, _, ts). ts) xs)}" "i \<noteq> j"
    obtain c m ts c' m' us where x: "xs ! i = (c, m, ts)" "xs ! j = (c', m', us)" by (metis prod_cases3)
    have "(c, monitor_command_name m) \<noteq> (c', monitor_command_name m')"
      using assms(2) ij x nth_eq_iff_index_eq [of "map (\<lambda>(c, m, _). (c, monitor_command_name m)) xs" i j]
      by (auto simp: told_apart_def)
    moreover have "(c, m, ts) \<in> set xs" "(c', m', us) \<in> set xs" using ij x nth_mem [of i xs] nth_mem [of j xs] by auto
    ultimately have "ids_of ts \<inter> ids_of us = {}" using n named_disjoint by blast
    then show "ids_of (map (\<lambda>(_, _, ts). ts) xs ! i) \<inter> ids_of (map (\<lambda>(_, _, ts). ts) xs ! j) = {}" using ij x by simp
  qed
qed

lemma ids_as_ctl [simp]: "ids_of (as_ctl ts) = ids_of ts"
proof -
  have "map fst (as_ctl ts) = map fst ts" by (simp add: as_ctl_def case_prod_beta)
  then show ?thesis by (metis ids_of_def list.set_map)
qed

lemma fold_stage_ids:
  "ids_of (snd (fold (\<lambda>ts. push_stage (as_ctl ts)) sets acc)) = ids_of (snd acc) \<union> (\<Union>ts \<in> set sets. ids_of ts)"
  by (induction sets arbitrary: acc) (auto)

lemma phase_sets_ids:
  assumes "phase_sets pkgs cfg selected m = Inr sets"
  shows "\<forall>ts \<in> set sets. \<forall>i \<in> ids_of ts. tid_cmd i = ''monitor''"
proof -
  obtain a b c d e where "sets = [a, b, c, d, e]" and n: "named ''node_exporter'' m a" "named ''prometheus'' m b"
      "named ''alertmanager'' m c" "named ''grafana'' m d" "named ''alertmanager-webhook-adapter'' m e"
    using phase_sets_named [OF assms] by metis
  then show ?thesis by (simp add: named_def)
qed

lemma monitor_group_stages:
  assumes "monitor_group uploads pkgs cluster m cfg = Inr ctx" and "unique_ids uploads"
    and "\<forall>i \<in> ids_of uploads. \<forall>c \<in> component_names. \<forall>m p. tid_task i \<noteq> ctl_name c m p"
    and "dep_monitor (cfg_deployment cfg) \<noteq> None"
  shows "\<exists>b. barrier ctx = Some b \<and> balanced (b, executable ctx) \<and> (\<forall>i \<in> ids_of (executable ctx). i \<in> ids_of uploads \<or> tid_cmd i = ''monitor'')"
proof -
  note some = assms(4)
  let ?sel = "selected_components m" and ?first = "if restarts m then MonitorStop None (selected_components m) else m"
  let ?acc = "if starts_components m then push_nonempty uploads ([], []) else ([], [])"
  obtain sets again where s: "phase_sets pkgs cfg ?sel ?first = Inr sets"
    and ag: "(if restarts m then phase_sets pkgs cfg ?sel (MonitorStart None ?sel) else Inr []) = Inr again"
    and ctx: "ctx = \<lparr>task_group = ''control-monitor'', barrier = Some (fst (fold (\<lambda>ts. push_stage (as_ctl ts)) (sets @ again) ?acc)),
      executable = snd (fold (\<lambda>ts. push_stage (as_ctl ts)) (sets @ again) ?acc)\<rparr>"
    using assms(1) some by (auto simp: monitor_group_def Let_def res_simps split: option.splits if_splits)
  let ?cs = "[''node_exporter'', ''prometheus'', ''alertmanager'', ''grafana'', ''alertmanager-webhook-adapter'']"
  obtain a b c d e where sets: "sets = [a, b, c, d, e]" "named ''node_exporter'' ?first a" "named ''prometheus'' ?first b"
    "named ''alertmanager'' ?first c" "named ''grafana'' ?first d" "named ''alertmanager-webhook-adapter'' ?first e"
    using phase_sets_named [OF s] by metis
  have acc: "balanced ?acc" "\<forall>i \<in> ids_of (snd ?acc). \<forall>c \<in> component_names. \<forall>m p. tid_task i \<noteq> ctl_name c m p"
    using assms(2,3) by (auto simp: balanced_push_nonempty)
  have "balanced (fold push_stage (map as_ctl (sets @ again)) ?acc)"
  proof (cases "restarts m")
    case True
    obtain a' b' c' d' e' where ag': "again = [a', b', c', d', e']" "named ''node_exporter'' (MonitorStart None ?sel) a'"
      "named ''prometheus'' (MonitorStart None ?sel) b'" "named ''alertmanager'' (MonitorStart None ?sel) c'"
      "named ''grafana'' (MonitorStart None ?sel) d'" "named ''alertmanager-webhook-adapter'' (MonitorStart None ?sel) e'"
      using True ag phase_sets_named [of pkgs cfg ?sel "MonitorStart None ?sel" again] by metis
    have "told_apart (zip ?cs (zip (replicate 5 ?first) (map as_ctl sets)) @ zip ?cs (zip (replicate 5 (MonitorStart None ?sel)) (map as_ctl again)))"
      using True sets ag' by (simp add: told_apart_def numeral_eq_Suc)
    from told_apart_balanced [OF acc(1) this acc(2)] sets(1) ag'(1) show ?thesis by (simp add: numeral_eq_Suc)
  next
    case False
    have "told_apart (zip ?cs (zip (replicate 5 ?first) (map as_ctl sets)))"
      using False sets by (simp add: told_apart_def numeral_eq_Suc)
    from told_apart_balanced [OF acc(1) this acc(2)] sets(1) ag False show ?thesis by (simp add: numeral_eq_Suc)
  qed
  then have "balanced (fold (\<lambda>ts. push_stage (as_ctl ts)) (sets @ again) ?acc)" by (simp add: fold_map comp_def)
  moreover have "\<forall>i \<in> ids_of (snd (fold (\<lambda>ts. push_stage (as_ctl ts)) (sets @ again) ?acc)). i \<in> ids_of uploads \<or> tid_cmd i = ''monitor''"
  proof -
    have "\<forall>ts \<in> set (sets @ again). \<forall>i \<in> ids_of ts. tid_cmd i = ''monitor''"
      using phase_sets_ids [OF s] phase_sets_ids [of pkgs cfg ?sel "MonitorStart None ?sel" again] ag by (auto split: if_splits)
    moreover have "ids_of (snd ?acc) \<subseteq> ids_of uploads" by simp
    ultimately show ?thesis by (auto simp: fold_stage_ids)
  qed
  ultimately show ?thesis unfolding ctx by simp
qed

text \<open>C28. The context of a monitor command is well formed, so the controller runs exactly its stages: the uploads when
  components are started, then one stage for each of the five components, and for a restart five stages that
  stop and five that start them, whenever the uploads have distinct ids that are not names of control tasks.\<close>

theorem monitor_group_well_formed:
  assumes "monitor_group uploads pkgs cluster m cfg = Inr ctx" and "unique_ids uploads"
    and "\<forall>i \<in> ids_of uploads. \<forall>c \<in> component_names. \<forall>m p. tid_task i \<noteq> ctl_name c m p"
  shows "wf_context ctx"
proof (cases "dep_monitor (cfg_deployment cfg) = None")
  case True
  then show ?thesis using assms(1) by (auto simp: monitor_group_def wf_context_def)
next
  case False
  then obtain b where "barrier ctx = Some b" "balanced (b, executable ctx)" using monitor_group_stages [OF assms] by blast
  then show ?thesis by (simp add: wf_context_def balanced_def unique_ids_def)
qed

definition sample_alertmanager :: alertmanager where
  "sample_alertmanager = \<lparr>am_download_url = [], am_port = 9093, am_host = ''a'', am_feishu_robot_urls = None,
     am_webhook_adapter_download_url = [], am_webhook_adapter_port = 8080\<rparr>"

definition alert_monitor :: monitor where
  "alert_monitor = \<lparr>mon_data_dir = None, mon_prometheus = None, mon_alertmanager = Some sample_alertmanager, mon_grafana = None,
     mon_node_exporter = None, mon_eloq_metrics = None\<rparr>"

definition monitored_config :: deploy_config where
  "monitored_config = keyed_config\<lparr>cfg_deployment := (cfg_deployment keyed_config)\<lparr>dep_monitor := Some alert_monitor\<rparr>\<rparr>"

theorem monitor_group_well_formed_witness:
  "\<exists>ctx. monitor_group [] [] (Some ''c'') (MonitorRestart None [McAlertmanager, McWebhookAdapter]) monitored_config = Inr ctx \<and>
     length (executable ctx) = 4 \<and> wf_context ctx"
proof -
  let ?m = "MonitorRestart None [McAlertmanager, McWebhookAdapter]"
  have "\<exists>ctx. monitor_group [] [] (Some ''c'') ?m monitored_config = Inr ctx \<and> length (executable ctx) = 4"
    by (simp add: monitor_group_def monitored_config_def phase_sets_def phase_def component_enabled_def alertmanager_tasks_def
        webhook_adapter_tasks_def component_tasks_def alert_monitor_def monitor_task_def as_ctl_def push_stage_def push_nonempty_def
        im_extend_def im_insert_def ctl_name_def Let_def)
  then obtain ctx where ctx: "monitor_group [] [] (Some ''c'') ?m monitored_config = Inr ctx" "length (executable ctx) = 4" by blast
  from monitor_group_well_formed [OF ctx(1)] ctx show ?thesis by (simp add: unique_ids_def ids_of_def)
qed

section \<open>One process for two components\<close>

text \<open>The command line of a running webhook adapter.\<close>

definition adapter_line :: "deploy_config \<Rightarrow> string \<Rightarrow> string" where
  "adapter_line cfg args = component_home cfg ''alertmanager-webhook-adapter'' @ ''/'' @ webhook_adapter_binary @ args"

text \<open>C29. The home of the alertmanager is a prefix of the home of its webhook adapter, and processes are found by their home.
  On a host where only the adapter runs, starting the alertmanager runs no command and succeeds, and
  stopping it kills the adapter.\<close>

theorem adapter_taken_for_alertmanager:
  assumes "mc_ctl t = AlertmanagerCtl (component_home (mc_config t) ''alertmanager'')" and "dep_monitor (cfg_deployment (mc_config t)) \<noteq> None"
    and "ssh_auth_key (cfg_connection (mc_config t)) \<noteq> None" and "mw_session w = Inr x" and "mw_close w = Inr ()"
    and "mw_look w 0 = Inr (0, show_task_arg (NumberValue pid) @ CHR '' '' # adapter_line (mc_config t) args)"
    and "parse_process_pid (trim (show_task_arg (NumberValue pid) @ CHR '' '' # adapter_line (mc_config t) args)) = Some pid"
    and "show_task_arg (NumberValue pid) \<noteq> pid_not_found"
  shows "contains_sub (ctl_home (mc_ctl t)) (adapter_line (mc_config t) args) \<and>
    (mc_command t = MonitorStart c ks \<longrightarrow> (\<exists>v. \<forall>run. monitor_execute (w\<lparr>mw_run := run\<rparr>) t = Inr (Some v))) \<and>
    (mc_command t = MonitorStop c ks \<longrightarrow> (\<forall>e. mw_run w (''kill '' @ show_task_arg (NumberValue pid)) = Inl e \<longrightarrow> monitor_execute w t = Inl e))"
proof -
  let ?line = "show_task_arg (NumberValue pid) @ CHR '' '' # adapter_line (mc_config t) args"
  let ?v = "(task_output (process_info (mc_ctl t)) 0 ?line)(process_pid_key \<mapsto> StrValue (show_task_arg (NumberValue pid)))"
  have "adapter_line (mc_config t) args = [] @ component_home (mc_config t) ''alertmanager'' @ ''-webhook-adapter/'' @ webhook_adapter_binary @ args"
    by (simp add: adapter_line_def component_home_def)
  then have sub: "contains_sub (ctl_home (mc_ctl t)) (adapter_line (mc_config t) args)"
    using assms(1) by (metis contains_sub_append ctl_home.simps(3))
  have look: "look_at (w\<lparr>mw_run := run\<rparr>) (mc_ctl t) 0 = Inr ?v" "look_at w (mc_ctl t) 0 = Inr ?v" for run
    using assms(6,7) by (simp_all add: look_at_def check_pid_def numeral_3_eq_3)
  have pid: "value_pid ?v = Inr (show_task_arg (NumberValue pid))" by (simp add: value_pid_def)
  have status: "?v cmd_status_key = Some (NumberValue 0)"
    by (simp add: task_output_def cmd_key_def cmd_status_key_def cmd_output_key_def process_pid_key_def)
  obtain mon where mon: "dep_monitor (cfg_deployment (mc_config t)) = Some mon" using assms(2) by blast
  obtain k where key: "ssh_auth_key (cfg_connection (mc_config t)) = Some k" using assms(3) by blast
  have "monitor_execute (w\<lparr>mw_run := run\<rparr>) t = Inr (Some ?v)" if "mc_command t = MonitorStart c ks" for run
    using that key assms(4,5,8) mon status
    by (simp add: monitor_execute_def look pid monitor_action_def start_component_def task_return_def del: show_task_arg.simps)
  moreover have "monitor_execute w t = Inl e" if "mc_command t = MonitorStop c ks" "mw_run w (''kill '' @ show_task_arg (NumberValue pid)) = Inl e" for e
    using that key assms(4,8) mon by (simp add: monitor_execute_def look pid monitor_action_def stop_component_def del: show_task_arg.simps)
  ultimately show ?thesis using sub by blast
qed

definition adapter_only :: "(int \<times> string) res \<Rightarrow> monitor_world" where
  "adapter_only r = \<lparr>mw_session = Inr ([], []), mw_look = (\<lambda>_. Inr (0, ''77 '' @ adapter_line monitored_config [])), mw_run = (\<lambda>_. r), mw_close = Inr ()\<rparr>"

definition alertmanager_task :: "monitor_command \<Rightarrow> monitor_ctl_task" where
  "alertmanager_task m = \<lparr>mc_config = monitored_config, mc_id = \<lparr>tid_cmd = ''monitor'', tid_task = [], tid_host = ''a''\<rparr>,
     mc_ctl = AlertmanagerCtl (component_home monitored_config ''alertmanager''), mc_command = m\<rparr>"

theorem adapter_taken_for_alertmanager_witness:
  "\<exists>v. \<forall>run. monitor_execute ((adapter_only (Inl (Err ''x'')))\<lparr>mw_run := run\<rparr>) (alertmanager_task (MonitorStart None [])) = Inr (Some v)"
proof -
  let ?t = "alertmanager_task (MonitorStart None [])" and ?w = "adapter_only (Inl (Err ''x''))"
  have n: "show_task_arg (NumberValue 77) = ''77''" by code_simp
  have p: "parse_process_pid (trim (show_task_arg (NumberValue 77) @ CHR '' '' # adapter_line (mc_config ?t) [])) = Some 77"
  proof -
    have "show_task_arg (NumberValue 77) @ CHR '' '' # adapter_line (mc_config ?t) [] = ''77 /opt/c/alertmanager-webhook-adapter/alertmanager-webhook-adapter''"
      by code_simp
    moreover have "parse_process_pid (trim ''77 /opt/c/alertmanager-webhook-adapter/alertmanager-webhook-adapter'') = Some 77"
      by (simp add: parse_process_pid_def ps_cmd_output_extract_def str_lines_def split_ws_def parse_i32_def strip_cr_def
          map_filter_simps eval_str uniq_def)
    ultimately show ?thesis by (simp only:)
  qed
  have k: "ssh_auth_key (cfg_connection (mc_config ?t)) \<noteq> None"
    using keyed_config_key by (simp add: alertmanager_task_def monitored_config_def)
  have l: "mw_look ?w 0 = Inr (0, show_task_arg (NumberValue 77) @ CHR '' '' # adapter_line (mc_config ?t) [])"
    unfolding n by (simp add: adapter_only_def alertmanager_task_def)
  have "show_task_arg (NumberValue 77) \<noteq> pid_not_found" unfolding n by (simp add: pid_not_found_def)
  from adapter_taken_for_alertmanager [OF _ _ k _ _ l p this, of "([], [])" None "[]"]
  show ?thesis by (simp add: alertmanager_task_def adapter_only_def monitored_config_def)
qed

text \<open>Without a node exporter in the monitor configuration every monitor command that does not name other components
  panics while its tasks are built, and so does a status request for the cluster.\<close>

theorem monitor_without_exporter_panics:
  assumes "dep_monitor (cfg_deployment cfg) = Some mon" and "mon_node_exporter mon = None" and "exporter_hosts pkgs cfg \<noteq> []"
  shows "(\<exists>e. exporter_tasks pkgs cfg m = Inl (Panic e)) \<and>
    (component_enabled (selected_components m) McNodeExporter \<longrightarrow> (\<exists>e. monitor_group uploads pkgs cluster m cfg = Inl (Panic e)))"
proof -
  have me: "\<exists>e. mapE (exporter_task cfg k mon) hs = Inl (Panic e)" if "hs \<noteq> []" for hs k
    using that assms(2) by (cases hs) (simp_all add: exporter_task_def no_monitor_def)
  have t: "\<exists>e. exporter_tasks pkgs cfg k = Inl (Panic e)" for k
  proof -
    obtain e where "mapE (exporter_task cfg k mon) (exporter_hosts pkgs cfg) = Inl (Panic e)"
      using me [OF assms(3)] by blast
    then show ?thesis using assms(1) by (simp add: exporter_tasks_def)
  qed
  have p: "\<exists>e. phase_sets pkgs cfg sel k = Inl (Panic e)" if "component_enabled sel McNodeExporter" for sel k
  proof -
    obtain e where "exporter_tasks pkgs cfg k = Inl (Panic e)" using t by blast
    then show ?thesis using that by (simp add: phase_sets_def phase_def)
  qed
  have "\<exists>e. monitor_group uploads pkgs cluster m cfg = Inl (Panic e)" if en: "component_enabled (selected_components m) McNodeExporter"
  proof -
    obtain e where "phase_sets pkgs cfg (selected_components m) (if restarts m then MonitorStop None (selected_components m) else m) = Inl (Panic e)"
      using p [OF en] by blast
    then show ?thesis using assms(1) by (cases cluster) (simp_all add: monitor_group_def Let_def)
  qed
  then show ?thesis using t by blast
qed

end
