(* ===== verification/Store_Clean.thy ===== *)
theory Store_Clean
  imports Dss_Ctl
begin

text \<open>
  Clearing the data directories of an EloqStore in cloud mode (\<open>cli/task/eloq_store_data_clean_task.rs\<close>):
  which paths on which hosts, the look for a running data store server, and what a task does. The
  remote shell is an argument.
\<close>

section \<open>Paths and hosts\<close>

definition port_data_path :: "deployment \<Rightarrow> string \<Rightarrow> string" where
  "port_data_path d p = compute_default_eloq_store_data_path (tx_srv_home d @ ''/data/port-'' @ p)"

definition default_paths_of :: "deployment \<Rightarrow> string list \<Rightarrow> string list" where
  "default_paths_of d hps = uniq (List.map_filter (\<lambda>hp. map_option (\<lambda>(_, p). port_data_path d p) (split_once is_colon hp)) hps)"

definition compute_default_data_paths :: "data_store_service \<Rightarrow> deployment \<Rightarrow> string list" where
  "compute_default_data_paths dss d =
     (if is_local_mode dss then default_paths_of d (get_host_port_list d EloqTx)
      else if is_remote_mode dss \<and> \<not> is_external dss
        then (case dss_peer_host_ports dss of Some ps \<Rightarrow> default_paths_of d ps | None \<Rightarrow> [])
      else [])"

definition clean_paths :: "data_store_service \<Rightarrow> eloq_store_config \<Rightarrow> deployment \<Rightarrow> string list" where
  "clean_paths dss c d = (case es_data_path_list c of
     Some l \<Rightarrow> (let ps = filter (\<lambda>p. p \<noteq> []) (map trim (split_on is_comma l))
               in if ps = [] then compute_default_data_paths dss d else ps)
   | None \<Rightarrow> compute_default_data_paths dss d)"

definition clean_ps_cmd :: "string \<Rightarrow> string \<Rightarrow> string \<Rightarrow> string" where
  "clean_ps_cmd user tx_home ini = ''ps uxwe -u '' @ user @ '' | grep '' @ quoted (tx_home @ ''/bin/dss_server'') @
     '' | grep '' @ quoted ('' --config='' @ ini) @ '' | grep -v grep | awk '' @ quoted ''{print $2}''"

definition peer_check :: "deploy_config \<Rightarrow> string \<Rightarrow> (string \<times> string) res" where
  "peer_check cfg peer = (case split_once is_colon peer of
     None \<Rightarrow> Inl (Panic ''invalid dss host:port'')
   | Some (host, p) \<Rightarrow> Inr (host, clean_ps_cmd (username (cfg_connection cfg)) (tx_srv_home (cfg_deployment cfg))
       (dss_srv_ini (cfg_deployment cfg) p)))"

text \<open>The hosts and the map of looks: a later process on a host replaces an earlier one.\<close>

definition clean_targets :: "deploy_config \<Rightarrow> data_store_service \<Rightarrow> (string list \<times> (string \<rightharpoonup> string)) res" where
  "clean_targets cfg dss =
     (if is_local_mode dss
      then Inr (uniq (map (\<lambda>hp. hd (split_on is_colon hp)) (get_host_port_list (cfg_deployment cfg) EloqTx)), Map.empty)
      else if is_remote_mode dss \<and> \<not> is_external dss then (case dss_peer_host_ports dss of
          Some ps \<Rightarrow> bindE (mapE (peer_check cfg) ps) (\<lambda>cs. Inr (uniq (map fst cs), map_of (rev cs)))
        | None \<Rightarrow> Inr ([], Map.empty))
      else Inr ([], Map.empty))"

definition clean_cmd_of :: "string list \<Rightarrow> string" where
  "clean_cmd_of paths = join '' && '' (map (\<lambda>p. ''find '' @ p @ '' -mindepth 1 -delete 2>/dev/null || true'') paths)"

section \<open>The tasks\<close>

record store_clean_task =
  sc_cmd :: string
  sc_id :: task_id
  sc_config :: deploy_config
  sc_check :: "string option"

definition clean_task_of :: "sub_command \<Rightarrow> deploy_config \<Rightarrow> string list \<Rightarrow> (string \<rightharpoonup> string) \<Rightarrow> string \<Rightarrow>
    task_id \<times> store_clean_task task_instance" where
  "clean_task_of cmd cfg paths checks host =
     (let tid = \<lparr>tid_cmd = command_name cmd, tid_task = ''eloq_store_data_clean@'' @ host, tid_host = host\<rparr>
      in (tid, \<lparr>ti_input = Map.empty, ti_task = \<lparr>sc_cmd = clean_cmd_of paths, sc_id = tid, sc_config = cfg, sc_check = checks host\<rparr>,
           ti_identifier = tid, ti_host = remote_host (cfg_connection cfg) host\<rparr>))"

definition build_clean_tasks :: "sub_command \<Rightarrow> deploy_config \<Rightarrow> string list option \<Rightarrow>
    (task_id \<times> store_clean_task task_instance) list res" where
  "build_clean_tasks cmd cfg only = (case Option.bind (dep_storage_service (cfg_deployment cfg)) st_eloqdss of
     None \<Rightarrow> Inr []
   | Some dss \<Rightarrow> (case dss_backend_of dss of EloqStore c \<Rightarrow>
       (let paths = clean_paths dss c (cfg_deployment cfg)
        in if \<not> is_cloud_mode c \<or> paths = [] then Inr []
           else bindE (clean_targets cfg dss) (\<lambda>(hosts, checks).
             Inr (im_extend [] (map (clean_task_of cmd cfg paths checks)
               (case only of Some hs \<Rightarrow> filter (\<lambda>h. h \<in> set hs) hosts | None \<Rightarrow> hosts)))))))"

section \<open>What a task does\<close>

definition skipped_value :: "execution_value \<Rightarrow> execution_value" where
  "skipped_value v = [cmd_output_key \<mapsto> StrValue (''DSS server is running (PID: '' @
     (case v process_pid_key of Some p \<Rightarrow> show_task_arg p | None \<Rightarrow> []) @ ''), skipped data directory cleanup''),
     cmd_status_key \<mapsto> NumberValue 0]"

definition run_clean :: "host_world \<Rightarrow> store_clean_task \<Rightarrow> execution_value option res" where
  "run_clean w t = bindE (hw_run w (sc_cmd t) 0) (\<lambda>(s, out). bindE (hw_close w) (\<lambda>_.
     task_return (task_output (sc_cmd t) s out) (ExecUserCmdErr (''eloq_store_data_clean: '' @ sc_cmd t))))"

definition store_clean_execute :: "host_world \<Rightarrow> store_clean_task \<Rightarrow> execution_value option res" where
  "store_clean_execute w t =
     (if ssh_auth_key (cfg_connection (sc_config t)) = None then Inl (Panic ''called `Option::unwrap()` on a `None` value'')
      else bindE (hw_session w) (\<lambda>_. case sc_check t of
          None \<Rightarrow> run_clean w t
        | Some ps \<Rightarrow> bindE (check_pid ps (hw_run w ps)) (\<lambda>v.
            if has_pid v then bindE (hw_close w) (\<lambda>_. Inr (Some (skipped_value v))) else run_clean w t)))"

section \<open>Ids\<close>

definition is_clean_id :: "string \<Rightarrow> task_id \<Rightarrow> bool" where
  "is_clean_id cmd i \<longleftrightarrow> tid_cmd i = cmd \<and> (\<exists>h. tid_task i = ''eloq_store_data_clean@'' @ h)"

lemma clean_tasks_cases:
  assumes "build_clean_tasks cmd cfg only = Inr ts"
  obtains "ts = []" | dss c hosts checks where "Option.bind (dep_storage_service (cfg_deployment cfg)) st_eloqdss = Some dss"
    "dss_backend_of dss = EloqStore c" "clean_targets cfg dss = Inr (hosts, checks)"
    "ts = im_extend [] (map (clean_task_of cmd cfg (clean_paths dss c (cfg_deployment cfg)) checks)
       (case only of Some hs \<Rightarrow> filter (\<lambda>h. h \<in> set hs) hosts | None \<Rightarrow> hosts))"
  using assms by (auto simp: build_clean_tasks_def Let_def res_simps split: option.splits dss_backend.splits if_splits)

lemma clean_tasks_ids:
  assumes "build_clean_tasks cmd cfg only = Inr ts"
  shows "unique_ids ts \<and> (\<forall>i \<in> ids_of ts. is_clean_id (command_name cmd) i)"
  using assms
proof (cases rule: clean_tasks_cases)
  case (2 dss c hosts checks)
  show ?thesis unfolding 2(4) by (auto simp: ids_of_def keys_im_extend clean_task_of_def is_clean_id_def Let_def)
qed simp

lemma set_im_extend: "set (im_extend m kvs) \<subseteq> set m \<union> set kvs"
proof (induction kvs arbitrary: m)
  case (Cons kv kvs)
  have "set (AList.update k v m) \<subseteq> insert (k, v) (set m)" for k :: 'a and v :: 'b by (induction m) auto
  then have "set (im_insert (fst kv) (snd kv) m) \<subseteq> insert kv (set m)" by (metis im_insert_def prod.collapse)
  with Cons [of "im_insert (fst kv) (snd kv) m"] show ?case by (cases kv) auto
qed simp

section \<open>No look at running processes in local mode\<close>

lemma local_clean_task:
  assumes "Option.bind (dep_storage_service (cfg_deployment cfg)) st_eloqdss = Some dss" and "is_local_mode dss"
    and "build_clean_tasks cmd cfg only = Inr ts" and "(i, t) \<in> set ts"
  shows "sc_check (ti_task t) = None \<and> sc_config (ti_task t) = cfg"
  using assms(3)
proof (cases rule: clean_tasks_cases)
  case 1
  then show ?thesis using assms(4) by simp
next
  case (2 dss' c hosts checks)
  then have "checks = Map.empty" using assms(1,2) by (simp add: clean_targets_def)
  moreover have "(i, t) \<in> set (map (clean_task_of cmd cfg (clean_paths dss' c (cfg_deployment cfg)) checks)
      (case only of Some hs \<Rightarrow> filter (\<lambda>h. h \<in> set hs) hosts | None \<Rightarrow> hosts))"
    using assms(4) set_im_extend unfolding 2(4) by fastforce
  ultimately show ?thesis by (auto simp: clean_task_of_def Let_def)
qed

end
