(* ===== verification/Cluster_Ctl.thy ===== *)
theory Cluster_Ctl
  imports Rolling_Steps Log_Ctl Dss_Ctl Monitor_Ctl Store_Clean
begin

text \<open>
  The stages of starting, stopping, restarting, inspecting and removing a cluster
  (\<open>cli/task/group/db_cluster_ctrl_group.rs\<close>, \<open>stop_with_hot_standby\<close> of \<open>cli/task/task_utils.rs\<close>). The contexts are
  well formed, so the controller runs exactly the stages that are pushed here, and with addresses that
  can be taken apart there always is a context.

  Arguments: the time stamp of start commands, the orders of hash maps, and whether the checkpoint is
  skipped. None is a grouping of log nodes that does not return.
\<close>

section \<open>Tasks and stages\<close>

datatype cluster_task =
    CtTx tx_ctl_task
  | CtLog log_ctl_task
  | CtProbe log_probe_task
  | CtDss dss_ctl_task
  | CtClean store_clean_task
  | CtMonitor monitor_group_task
  | CtRedis redis_op
  | CtSaveTopology
  | CtDisplay string

type_synonym cluster_tasks = "(task_id \<times> cluster_task task_instance) list"
type_synonym cluster_acc = "cluster_task stage_acc"

record cluster_env =
  cl_datetime :: string
  cl_log_hosts :: "string list"
  cl_pkgs :: "deployment_package list"
  cl_skip_checkpoint :: bool

text \<open>Results of computations that may not return.\<close>

definition bindO :: "'a res option \<Rightarrow> ('a \<Rightarrow> 'b res option) \<Rightarrow> 'b res option" where
  "bindO m f = (case m of None \<Rightarrow> None | Some (Inl e) \<Rightarrow> Some (Inl e) | Some (Inr x) \<Rightarrow> f x)"

definition tx_tasks :: "cluster_env \<Rightarrow> sub_command \<Rightarrow> deploy_config \<Rightarrow> server_type \<Rightarrow> cluster_tasks res" where
  "tx_tasks e cmd cfg st = bindE (tx_from_config (cl_datetime e) cmd cfg st) (\<lambda>ts. Inr (lift_tasks CtTx ts))"

definition tx_tasks_channel :: "cluster_env \<Rightarrow> sub_command \<Rightarrow> deploy_config \<Rightarrow> server_type \<Rightarrow> bool \<Rightarrow> cluster_tasks res" where
  "tx_tasks_channel e cmd cfg st receives =
     bindE (tx_from_config_with_channel (cl_datetime e) cmd cfg st receives) (\<lambda>ts. Inr (lift_tasks CtTx ts))"

definition log_tasks :: "cluster_env \<Rightarrow> sub_command \<Rightarrow> deploy_config \<Rightarrow> cluster_tasks res option" where
  "log_tasks e cmd cfg = bindO (log_from_config (cl_log_hosts e) cmd cfg) (\<lambda>ts. Some (Inr (lift_tasks CtLog ts)))"

definition dss_tasks :: "sub_command \<Rightarrow> deploy_config \<Rightarrow> cluster_tasks res" where
  "dss_tasks cmd cfg = bindE (dss_from_config cmd cfg) (\<lambda>ts. Inr (lift_tasks CtDss ts))"

definition redis_stage :: "deploy_config \<Rightarrow> string \<Rightarrow> string \<Rightarrow> string list \<Rightarrow> string option \<Rightarrow> bool \<Rightarrow> task_id \<times> cluster_task task_instance" where
  "redis_stage cfg name host nodes pw skip = local_task \<lparr>tid_cmd = ''topology'', tid_task = name, tid_host = host\<rparr>
     (CtRedis ((redis_op_new ''topology'' nodes ''cluster topology'' pw skip)\<lparr>ro_endpoints := service_endpoints (cfg_connection cfg)\<rparr>))"

definition tx_and_standby :: "deploy_config \<Rightarrow> string list" where
  "tx_and_standby cfg = get_host_port_list (cfg_deployment cfg) EloqTx @ get_host_port_list (cfg_deployment cfg) EloqStandby"

definition push_some :: "'a option \<Rightarrow> cluster_tasks res \<Rightarrow> cluster_acc \<Rightarrow> cluster_acc res" where
  "push_some present ts acc = (if present = None then Inr acc else bindE ts (\<lambda>ts. Inr (push_stage ts acc)))"

definition has_standbys :: "deploy_config \<Rightarrow> bool" where
  "has_standbys cfg \<longleftrightarrow> standby_host_ports (tx_service (cfg_deployment cfg)) \<noteq> None"

section \<open>Stopping\<close>

definition stop_force :: "sub_command \<Rightarrow> bool" where
  "stop_force cmd = (case cmd of CmdStop a \<Rightarrow> st_force a | _ \<Rightarrow> False)"

definition retried_once :: "task_id \<times> cluster_task task_instance \<Rightarrow> task_id \<times> cluster_task task_instance" where
  "retried_once t = (fst t, map_instance (\<lambda>x. case x of CtRedis op \<Rightarrow> CtRedis (with_topology_retries 1 op) | x \<Rightarrow> x) (snd t))"

definition check_topology_stage :: "cluster_env \<Rightarrow> sub_command \<Rightarrow> deploy_config \<Rightarrow> task_id \<times> cluster_task task_instance" where
  "check_topology_stage e cmd cfg = retried_once (redis_stage cfg ''check-topology'' ''_local'' (tx_and_standby cfg)
     (case cmd of CmdStop a \<Rightarrow> redis_password cfg (st_password a) | _ \<Rightarrow> None) (cl_skip_checkpoint e))"

definition stop_with_hot_standby :: "cluster_env \<Rightarrow> sub_command \<Rightarrow> deploy_config \<Rightarrow> cluster_acc \<Rightarrow> cluster_acc res" where
  "stop_with_hot_standby e cmd cfg acc =
     (let receives = \<not> stop_force cmd; voters = voter_host_ports (tx_service (cfg_deployment cfg));
          acc = (if stop_force cmd then acc else push_task (check_topology_stage e cmd cfg) acc)
      in bindE (tx_tasks_channel e cmd cfg StandbyServer receives) (\<lambda>standbys.
         bindE (push_some voters (tx_tasks e cmd cfg VoterServer) (push_stage standbys acc)) (\<lambda>acc.
         bindE (tx_tasks_channel e cmd cfg TxServer receives) (\<lambda>txs. Inr (push_stage txs acc)))))"

definition stop_tx_stages :: "cluster_env \<Rightarrow> sub_command \<Rightarrow> deploy_config \<Rightarrow> bool \<Rightarrow> cluster_acc \<Rightarrow> cluster_acc res" where
  "stop_tx_stages e cmd cfg is_from_remove acc =
     (let d = tx_service (cfg_deployment cfg) in
      if (case cmd of CmdStop a \<Rightarrow> st_nodes a \<noteq> [] | _ \<Rightarrow> False)
      then bindE (tx_tasks_channel e cmd cfg NodeServer False) (\<lambda>ts. Inr (push_stage ts acc))
      else if is_from_remove \<or> stop_force cmd
      then bindE (push_some (standby_host_ports d) (tx_tasks e cmd cfg StandbyServer) acc) (\<lambda>acc.
           bindE (push_some (voter_host_ports d) (tx_tasks e cmd cfg VoterServer) acc) (\<lambda>acc.
           bindE (tx_tasks e cmd cfg TxServer) (\<lambda>ts. Inr (push_stage ts acc))))
      else if standby_host_ports d \<noteq> None then stop_with_hot_standby e cmd cfg acc
      else bindE (tx_tasks e cmd cfg TxServer) (\<lambda>ts. Inr (push_stage ts acc)))"

text \<open>Data store servers that are stopped: those of a managed remote store, or of the rocksdb provider.\<close>

definition managed_remote :: "data_store_service \<Rightarrow> bool" where
  "managed_remote dss \<longleftrightarrow> is_remote_mode dss \<and> \<not> is_external dss"

definition stops_dss :: "deployment \<Rightarrow> bool" where
  "stops_dss d \<longleftrightarrow> (case dep_storage_service d of None \<Rightarrow> False
     | Some st \<Rightarrow> (case st_eloqdss st of Some dss \<Rightarrow> managed_remote dss
         | None \<Rightarrow> (case st_rocksdb st of Some (EloqDssRocksdb _) \<Rightarrow> True | _ \<Rightarrow> False)))"

definition stop_tasks :: "cluster_env \<Rightarrow> bool \<Rightarrow> bool \<Rightarrow> bool \<Rightarrow> sub_command \<Rightarrow> deploy_config \<Rightarrow> bool \<Rightarrow> cluster_acc res option" where
  "stop_tasks e tx log store cmd cfg is_from_remove =
     bindO (Some (if tx then stop_tx_stages e cmd cfg is_from_remove ([], []) else Inr ([], []))) (\<lambda>acc.
     bindO (if log \<and> dep_log_service (cfg_deployment cfg) \<noteq> None
            then bindO (log_tasks e cmd cfg) (\<lambda>ts. Some (Inr (push_stage ts acc))) else Some (Inr acc)) (\<lambda>acc.
     Some (if store \<and> stops_dss (cfg_deployment cfg) then bindE (dss_tasks cmd cfg) (\<lambda>ts. Inr (push_nonempty ts acc)) else Inr acc)))"

section \<open>Inspecting\<close>

definition starts_dss :: "deployment \<Rightarrow> bool" where
  "starts_dss d \<longleftrightarrow> (case dep_storage_service d of None \<Rightarrow> False
     | Some st \<Rightarrow> (case st_rocksdb st of Some (EloqDssRocksdb _) \<Rightarrow> True | _ \<Rightarrow> False) \<or>
         (case st_eloqdss st of Some dss \<Rightarrow> managed_remote dss | None \<Rightarrow> False))"

definition status_tx_command :: "sub_command \<Rightarrow> sub_command" where
  "status_tx_command cmd = (case cmd of
     CmdStatus c u p w d \<Rightarrow> CmdStatus c u p (Some (case w of Some n \<Rightarrow> n | None \<Rightarrow> 0)) d
   | _ \<Rightarrow> cmd)"

definition monitor_status_tasks :: "cluster_env \<Rightarrow> deploy_config \<Rightarrow> cluster_tasks res" where
  "monitor_status_tasks e cfg = (if dep_monitor (cfg_deployment cfg) = None then Inr []
     else bindE (phase_sets (cl_pkgs e) cfg [] (MonitorStatus None [])) (\<lambda>sets. Inr (lift_tasks CtMonitor (concat (map as_ctl sets)))))"

definition status_tasks :: "cluster_env \<Rightarrow> sub_command \<Rightarrow> deploy_config \<Rightarrow> cluster_tasks res option" where
  "status_tasks e cmd cfg =
     (let d = cfg_deployment cfg in
      bindO (Some (if starts_dss d then dss_tasks cmd cfg else Inr [])) (\<lambda>dss.
      bindO (if dep_log_service d \<noteq> None then log_tasks e cmd cfg else Some (Inr [])) (\<lambda>logs.
      bindO (Some (if has_standbys cfg then tx_tasks e (status_tx_command cmd) cfg StandbyServer else Inr [])) (\<lambda>standbys.
      bindO (Some (if voter_host_ports (tx_service d) \<noteq> None then tx_tasks e cmd cfg VoterServer else Inr [])) (\<lambda>voters.
      bindO (Some (tx_tasks e (status_tx_command cmd) cfg TxServer)) (\<lambda>txs.
      bindO (Some (monitor_status_tasks e cfg)) (\<lambda>mons.
      Some (Inr (im_extend [] (dss @ logs @ standbys @ voters @ txs @ mons))))))))))"

section \<open>Starting\<close>

definition reuses_local_files :: "eloq_store_config \<Rightarrow> bool" where
  "reuses_local_files c \<longleftrightarrow> (case Option.bind (es_cloud_config c) reuse_local_files of Some r \<Rightarrow> r | None \<Rightarrow> False)"

definition start_clean_tasks :: "sub_command \<Rightarrow> deploy_config \<Rightarrow> cluster_tasks res" where
  "start_clean_tasks cmd cfg = (case Option.bind (dep_storage_service (cfg_deployment cfg)) st_eloqdss of
     None \<Rightarrow> Inr []
   | Some dss \<Rightarrow> (case dss_backend_of dss of EloqStore c \<Rightarrow>
       if is_cloud_mode c \<and> \<not> reuses_local_files c
       then bindE (build_clean_tasks cmd cfg None) (\<lambda>ts. Inr (lift_tasks CtClean ts)) else Inr []))"

definition start_log_stages :: "cluster_env \<Rightarrow> sub_command \<Rightarrow> deploy_config \<Rightarrow> cluster_acc \<Rightarrow> cluster_acc res option" where
  "start_log_stages e cmd cfg acc = (if dep_log_service (cfg_deployment cfg) = None then Some (Inr acc)
     else bindO (log_tasks e cmd cfg) (\<lambda>logs. map_option (\<lambda>probe.
       Inr (push_nonempty (lift_tasks CtProbe probe) (push_nonempty logs acc))) (log_probe_from_config cfg)))"

definition start_tx_tasks :: "cluster_env \<Rightarrow> sub_command \<Rightarrow> deploy_config \<Rightarrow> cluster_tasks res" where
  "start_tx_tasks e cmd cfg =
     bindE (tx_tasks e cmd cfg TxServer) (\<lambda>txs.
     bindE (if has_standbys cfg then tx_tasks e cmd cfg StandbyServer else Inr []) (\<lambda>standbys.
     bindE (if voter_host_ports (tx_service (cfg_deployment cfg)) \<noteq> None then tx_tasks e cmd cfg VoterServer else Inr []) (\<lambda>voters.
     Inr (im_extend (im_extend txs standbys) voters))))"

definition start_stages :: "cluster_env \<Rightarrow> sub_command \<Rightarrow> string list \<Rightarrow> deploy_config \<Rightarrow> bool \<Rightarrow> cluster_acc res option" where
  "start_stages e cmd nodes cfg skip_log_service =
     (if nodes \<noteq> [] then Some (bindE (tx_tasks e cmd cfg NodeServer) (\<lambda>ts. Inr (push_stage ts ([], []))))
      else bindO (Some (start_clean_tasks cmd cfg)) (\<lambda>cleans.
           bindO (Some (if starts_dss (cfg_deployment cfg)
              then bindE (dss_tasks cmd cfg) (\<lambda>ts. Inr (push_stage ts (push_nonempty cleans ([], [])))) else Inr (push_nonempty cleans ([], [])))) (\<lambda>acc.
           bindO (if skip_log_service then Some (Inr acc) else start_log_stages e cmd cfg acc) (\<lambda>acc.
           Some (bindE (start_tx_tasks e cmd cfg) (\<lambda>ts. Inr (push_stage ts acc)))))))"

definition awaits_master :: "deploy_config \<Rightarrow> bool" where
  "awaits_master cfg \<longleftrightarrow> dep_product (cfg_deployment cfg) = EloqKV \<and> cluster_mode (cfg_deployment cfg) = Some True"

definition start_tasks :: "cluster_env \<Rightarrow> sub_command \<Rightarrow> deploy_config \<Rightarrow> bool \<Rightarrow> cluster_acc res option" where
  "start_tasks e cmd cfg skip_log_service = (case cmd of
     CmdStart cluster nodes \<Rightarrow>
       bindO (start_stages e cmd nodes cfg skip_log_service) (\<lambda>acc.
       bindO (status_tasks e (CmdStatus cluster None None None False) cfg) (\<lambda>status.
       (let acc = push_stage status acc in
        Some (Inr (if awaits_master cfg
          then push_task (redis_stage cfg ''wait-current-master'' ''_local'' (tx_and_standby cfg) (redis_password cfg None) True) acc
          else acc)))))
   | _ \<Rightarrow> Some (Inr ([], [])))"

section \<open>Commands\<close>

text \<open>\<open>stop\<close> and \<open>restart\<close> stop the data store servers of a managed store without being asked.\<close>

definition stops_store_anyway :: "deployment \<Rightarrow> bool" where
  "stops_store_anyway d \<longleftrightarrow> (case Option.bind (dep_storage_service d) st_eloqdss of
     None \<Rightarrow> False
   | Some dss \<Rightarrow> managed_remote dss \<or> (case dss_backend_of dss of EloqStore c \<Rightarrow> is_cloud_mode c \<and> \<not> is_external dss))"

definition with_monitor_stop :: "cluster_env \<Rightarrow> string \<Rightarrow> deploy_config \<Rightarrow> bool \<Rightarrow> cluster_acc \<Rightarrow> cluster_acc res" where
  "with_monitor_stop e cluster cfg monitor acc = (if monitor \<and> dep_monitor (cfg_deployment cfg) \<noteq> None
     then bindE (monitor_group [] (cl_pkgs e) (Some cluster) (MonitorStop None []) cfg) (\<lambda>ctx.
       Inr (fst acc @ (case barrier ctx of Some b \<Rightarrow> b | None \<Rightarrow> [length (executable ctx)]), im_extend (snd acc) (lift_tasks CtMonitor (executable ctx))))
     else Inr acc)"

definition restart_stop_command :: "string \<Rightarrow> bool \<Rightarrow> sub_command" where
  "restart_stop_command cluster store = CmdStop \<lparr>st_cluster = cluster, st_tx = Some True, st_log = True, st_store = store,
     st_monitor = False, st_force = False, st_all = False, st_password = None, st_nodes = []\<rparr>"

definition detail_stages :: "sub_command \<Rightarrow> deploy_config \<Rightarrow> cluster_acc" where
  "detail_stages cmd cfg =
     (let acc = push_task (redis_stage cfg ''redis-topology'' ''local'' (tx_host_ports (tx_service (cfg_deployment cfg))) (redis_password cfg None) True) ([], []);
          acc = push_nonempty [local_task \<lparr>tid_cmd = ''topology-update'', tid_task = ''redis'', tid_host = ''local''\<rparr> CtSaveTopology] acc
      in push_stage (case cmd of CmdStatus c _ _ _ True \<Rightarrow>
           [local_task \<lparr>tid_cmd = ''topology-display'', tid_task = ''status'', tid_host = ''local''\<rparr> (CtDisplay c)] | _ \<Rightarrow> []) acc)"

definition control_stages :: "cluster_env \<Rightarrow> sub_command \<Rightarrow> deploy_config \<Rightarrow> cluster_acc res option" where
  "control_stages e cmd cfg = (case cmd of
     CmdRemove cluster _ \<Rightarrow> bindO (stop_tasks e True True True cmd cfg True) (\<lambda>acc. Some (with_monitor_stop e cluster cfg True acc))
   | CmdRestart cluster \<Rightarrow> (let store = stops_store_anyway (cfg_deployment cfg) in
       bindO (stop_tasks e True True store (restart_stop_command cluster store) cfg False) (\<lambda>acc.
       bindO (start_tasks e (CmdStart cluster []) cfg False) (\<lambda>(b, ex). Some (Inr (fst acc @ b, im_extend (snd acc) ex)))))
   | CmdStart _ _ \<Rightarrow> start_tasks e cmd cfg False
   | CmdStop a \<Rightarrow>
       (let tx = st_all a \<or> (case st_tx a of Some t \<Rightarrow> t | None \<Rightarrow> True); log = st_all a \<or> st_log a;
            store = st_all a \<or> st_store a \<or> stops_store_anyway (cfg_deployment cfg); monitor = st_all a \<or> st_monitor a
        in bindO (stop_tasks e tx log store cmd cfg False) (\<lambda>acc. Some (with_monitor_stop e (st_cluster a) cfg monitor acc)))
   | CmdStatus _ _ _ _ detail \<Rightarrow> if detail then Some (Inr (detail_stages cmd cfg))
       else bindO (status_tasks e cmd cfg) (\<lambda>ts. Some (Inr ([length ts], ts)))
   | _ \<Rightarrow> Some (Inl (Panic ''internal error: entered unreachable code'')))"

definition cluster_control :: "cluster_env \<Rightarrow> sub_command \<Rightarrow> deploy_config \<Rightarrow> cluster_task task_context res option" where
  "cluster_control e cmd cfg = bindO (control_stages e cmd cfg) (\<lambda>(b, ex).
     Some (Inr \<lparr>task_group = ''cluster-control-'' @ command_name cmd, barrier = Some b, executable = ex\<rparr>))"

section \<open>Stages told apart\<close>

text \<open>
  The tag of a task id says which kind of task it is: the command and the kind of process for control
  commands, the name for topology queries, else the command. Stages with different tags share no id.
\<close>

definition tag :: "task_id \<Rightarrow> string" where
  "tag i = (if tid_cmd i \<in> {''start'', ''stop'', ''status'', ''remove''}
            then tid_cmd i @ '':'' @ takeWhile (\<lambda>c. c \<noteq> CHR ''-'' \<and> c \<noteq> CHR ''@'') (tid_task i)
            else if tid_cmd i = ''topology'' then ''topology:'' @ tid_task i else tid_cmd i)"

definition piece :: "string set \<Rightarrow> (task_id \<times> 'x) list \<Rightarrow> bool" where
  "piece T ts \<longleftrightarrow> unique_ids ts \<and> tag ` ids_of ts \<subseteq> T"

definition tagged :: "string set \<Rightarrow> 'x stage_acc \<Rightarrow> bool" where
  "tagged S acc \<longleftrightarrow> balanced acc \<and> tag ` ids_of (snd acc) \<subseteq> S"

lemma tagged_Nil [simp]: "tagged {} ([], [])"
  by (simp add: tagged_def)

lemma piece_Nil [simp]: "piece T []"
  by (simp add: piece_def)

lemma tagged_push:
  assumes "tagged S acc" and "piece T ts" and "S \<inter> T = {}"
  shows "tagged (S \<union> T) (push_stage ts acc)" and "tagged (S \<union> T) (push_nonempty ts acc)"
proof -
  have "ids_of (snd acc) \<inter> ids_of ts = {}" using assms by (auto simp: tagged_def piece_def)
  then have "balanced (push_stage ts acc)" "balanced (push_nonempty ts acc)"
    using assms by (auto simp: tagged_def piece_def intro: balanced_push_stage balanced_push_nonempty)
  then show "tagged (S \<union> T) (push_stage ts acc)" "tagged (S \<union> T) (push_nonempty ts acc)"
    using assms by (auto simp: tagged_def piece_def)
qed

lemma tagged_push_task:
  assumes "tagged S acc" and "tag (fst t) \<notin> S"
  shows "tagged (insert (tag (fst t)) S) (push_task t acc)"
proof -
  have "fst t \<notin> ids_of (snd acc)" using assms by (auto simp: tagged_def)
  then show ?thesis using assms by (auto simp: tagged_def intro: balanced_push_task)
qed

lemma tagged_append:
  assumes "tagged S (b, ex)" and "tagged T (b', ex')" and "S \<inter> T = {}"
  shows "tagged (S \<union> T) (b @ b', im_extend ex ex')"
proof -
  have "ids_of ex \<inter> ids_of ex' = {}" using assms by (auto simp: tagged_def)
  then have e: "im_extend ex ex' = ex @ ex'" using assms(2)
    by (intro im_extend_disjoint) (auto simp: tagged_def balanced_def unique_ids_def ids_of_def)
  have "unique_ids (im_extend ex ex')" using assms(1) by (intro unique_ids_im(2)) (simp add: tagged_def balanced_def)
  with e have "balanced (b @ b', im_extend ex ex')" using assms(1,2) by (simp add: tagged_def balanced_def)
  then show ?thesis using assms(1,2) by (auto simp: tagged_def)
qed

lemma tagged_mono: "tagged S acc \<Longrightarrow> S \<subseteq> T \<Longrightarrow> tagged T acc"
  by (auto simp: tagged_def)

lemma piece_mono: "piece S ts \<Longrightarrow> S \<subseteq> T \<Longrightarrow> piece T ts"
  by (auto simp: piece_def)

lemma tagged_wf: "tagged S (b, ex) \<Longrightarrow> wf_context \<lparr>task_group = g, barrier = Some b, executable = ex\<rparr>"
  by (simp add: tagged_def balanced_wf)

lemma piece_lift [simp]: "piece T (lift_tasks f ts) \<longleftrightarrow> piece T ts"
proof -
  have f: "map fst (lift_tasks f ts) = map fst ts" by (simp add: lift_tasks_def case_prod_beta)
  then have "ids_of (lift_tasks f ts) = ids_of ts" by (metis ids_of_def list.set_map)
  then show ?thesis by (simp add: piece_def unique_ids_def f)
qed

lemma piece_im_extend: "piece S ts \<Longrightarrow> piece T us \<Longrightarrow> piece (S \<union> T) (im_extend ts us)"
  by (auto simp: piece_def)

lemma bindO_Inr: "bindO m f = Some (Inr y) \<longleftrightarrow> (\<exists>x. m = Some (Inr x) \<and> f x = Some (Inr y))"
  by (auto simp: bindO_def split: option.splits sum.splits)

abbreviation ctl_name_of :: "sub_command \<Rightarrow> bool" where
  "ctl_name_of cmd \<equiv> command_name cmd \<in> {''start'', ''stop'', ''status'', ''remove''}"

lemma generated_piece:
  assumes "generate_tasks_for_host_ports g cfg hps st = Inr ts" and "tg_cmd g \<in> {''start'', ''stop'', ''status'', ''remove''}"
  shows "piece {tg_cmd g @ '':'' @ server_type_str st} ts"
proof -
  obtain us where us: "mapE (generate_task g cfg st) hps = Inr us" "ts = im_extend [] us"
    using assms(1) by (auto simp: generate_tasks_for_host_ports_def res_simps)
  have "tag i = tg_cmd g @ '':'' @ server_type_str st" if i: "i \<in> ids_of us" for i
  proof -
    obtain x where "(i, x) \<in> set us" using i by (auto simp: ids_of_def)
    then obtain hp where "generate_task g cfg st hp = Inr (i, x)" using mapE_mem [OF us(1)] by blast
    then obtain h p where "i = tx_task_id (tg_cmd g) st h p"
      by (auto simp: generate_task_def Let_def bindE_Inr_iff split: option.splits)
    moreover have "takeWhile (\<lambda>c. c \<noteq> CHR ''-'' \<and> c \<noteq> CHR ''@'') (server_type_str st @ CHR ''-'' # r) = server_type_str st" for r
      by (cases st) simp_all
    ultimately show ?thesis using assms(2) by (simp add: tag_def tx_task_id_def)
  qed
  then show ?thesis by (auto simp: piece_def us(2))
qed

lemma tx_from_config_generates:
  "tx_from_config dt cmd cfg st = Inr us \<Longrightarrow> \<exists>hps. generate_tasks_for_host_ports (generation_of dt cmd False) cfg hps st = Inr us"
  by (cases cmd) (auto simp: tx_from_config_def split: if_splits)

lemma tx_piece:
  assumes "ctl_name_of cmd"
  shows "tx_tasks e cmd cfg st = Inr ts \<Longrightarrow> piece {command_name cmd @ '':'' @ server_type_str st} ts"
    and "tx_tasks_channel e cmd cfg st receives = Inr ts \<Longrightarrow> piece {command_name cmd @ '':'' @ server_type_str st} ts"
proof -
  have g: "tg_cmd (generation_of dt cmd r) = command_name cmd" for dt r by (simp add: generation_of_def)
  show "piece {command_name cmd @ '':'' @ server_type_str st} ts" if a: "tx_tasks e cmd cfg st = Inr ts"
  proof -
    obtain us hps where "generate_tasks_for_host_ports (generation_of (cl_datetime e) cmd False) cfg hps st = Inr us" "ts = lift_tasks CtTx us"
      using a tx_from_config_generates by (fastforce simp: tx_tasks_def bindE_Inr_iff)
    from generated_piece [OF this(1)] assms this(2) g show ?thesis by simp
  qed
  show "piece {command_name cmd @ '':'' @ server_type_str st} ts" if a: "tx_tasks_channel e cmd cfg st receives = Inr ts"
  proof -
    obtain us hps where "generate_tasks_for_host_ports (generation_of (cl_datetime e) cmd receives) cfg hps st = Inr us" "ts = lift_tasks CtTx us"
      using a by (auto simp: tx_tasks_channel_def tx_from_config_with_channel_def bindE_Inr_iff Let_def)
    from generated_piece [OF this(1)] assms this(2) g show ?thesis by simp
  qed
qed

lemma under_piece:
  assumes "unique_ids ts" and "under {n} ts" and "n \<notin> {''start'', ''stop'', ''status'', ''remove'', ''topology''}"
  shows "piece {n} ts"
  using assms by (auto simp: piece_def under_def tag_def)

lemma log_piece:
  assumes "log_tasks e cmd cfg = Some (Inr ts)" and "cluster_cmd_string cmd = Inr ref"
  shows "piece {''eloq_log_'' @ ref} ts"
proof -
  obtain us where us: "log_from_config (cl_log_hosts e) cmd cfg = Some (Inr us)" "ts = lift_tasks CtLog us"
    using assms(1) by (auto simp: log_tasks_def bindO_Inr)
  from log_tasks_ids [OF us(1)] assms(2) have "unique_ids us" "us \<noteq> [] \<Longrightarrow> under {''eloq_log_'' @ ref} us" by auto
  then have "piece {''eloq_log_'' @ ref} us" by (cases "us = []") (auto intro: under_piece)
  then show ?thesis by (simp add: us(2))
qed

lemma dss_piece:
  assumes "dss_tasks cmd cfg = Inr ts"
  shows "piece {''dss_'' @ command_name cmd} ts"
proof -
  obtain us where us: "dss_from_config cmd cfg = Inr us" "ts = lift_tasks CtDss us"
    using assms by (auto simp: dss_tasks_def bindE_Inr_iff)
  from dss_tasks_ids [OF us(1)] show ?thesis by (auto simp: us(2) intro: under_piece)
qed

lemma probe_piece:
  assumes "log_probe_from_config cfg = Some ts"
  shows "piece {''eloq_log_service_probe''} ts"
  using assms by (auto simp: log_probe_from_config_def local_task_def piece_def tag_def Let_def split: option.splits)

lemma clean_piece:
  assumes "start_clean_tasks cmd cfg = Inr ts" and "ctl_name_of cmd"
  shows "piece {command_name cmd @ '':eloq_store_data_clean''} ts"
proof (cases "ts = []")
  case False
  then obtain us where us: "build_clean_tasks cmd cfg None = Inr us" "ts = lift_tasks CtClean us"
    using assms(1) by (auto simp: start_clean_tasks_def bindE_Inr_iff split: option.splits dss_backend.splits if_splits)
  have "tag i = command_name cmd @ '':eloq_store_data_clean''" if "is_clean_id (command_name cmd) i" for i
    using that assms(2) by (auto simp: tag_def is_clean_id_def)
  with clean_tasks_ids [OF us(1)] have "piece {command_name cmd @ '':eloq_store_data_clean''} us" by (auto simp: piece_def)
  then show ?thesis by (simp add: us(2))
qed simp

lemma tags_lift [simp]: "ids_of (lift_tasks f ts) = ids_of ts"
proof -
  have "map fst (lift_tasks f ts) = map fst ts" by (simp add: lift_tasks_def case_prod_beta)
  then show ?thesis by (metis ids_of_def list.set_map)
qed

lemma piece_ids: "piece T ts \<Longrightarrow> tag ` ids_of ts \<subseteq> T"
  by (simp add: piece_def)

lemma piece_new: "tag ` ids_of ts \<subseteq> T \<Longrightarrow> piece T (im_extend [] ts)"
  by (simp add: piece_def)

lemma push_some_tagged:
  assumes "push_some p r acc = Inr acc'" and "tagged S acc" and "\<And>ts. r = Inr ts \<Longrightarrow> piece T ts" and "S \<inter> T = {}"
  shows "tagged (S \<union> T) acc'"
  using assms by (auto simp: push_some_def bindE_Inr_iff intro: tagged_push tagged_mono split: if_splits)

section \<open>Stops\<close>

definition stop_tx_tags :: "string \<Rightarrow> string set" where
  "stop_tx_tags n = {''topology:check-topology'', n @ '':standby'', n @ '':voter'', n @ '':txservice'', n @ '':node''}"

lemma stop_name_tags:
  assumes "n \<in> {''stop'', ''remove''}"
  shows "distinct [''topology:check-topology'', n @ '':standby'', n @ '':voter'', n @ '':txservice'', n @ '':node'', ''eloq_log_'' @ n, ''dss_'' @ n, ''monitor'']"
  using assms by auto

lemma tag_check_topology [simp]: "tag (fst (check_topology_stage e cmd cfg)) = ''topology:check-topology''"
  by (simp add: check_topology_stage_def retried_once_def redis_stage_def local_task_def tag_def)

lemma hot_standby_tagged:
  assumes "stop_with_hot_standby e cmd cfg ([], []) = Inr acc" and n: "command_name cmd \<in> {''stop'', ''remove''}"
  shows "tagged (stop_tx_tags (command_name cmd)) acc"
proof -
  let ?n = "command_name cmd"
  have name: "ctl_name_of cmd" using n by auto
  note d = stop_name_tags [OF n]
  define acc0 where "acc0 = (if stop_force cmd then ([], []) else push_task (check_topology_stage e cmd cfg) ([], []))"
  obtain ss mid ts where r: "tx_tasks_channel e cmd cfg StandbyServer (\<not> stop_force cmd) = Inr ss"
      "push_some (voter_host_ports (tx_service (cfg_deployment cfg))) (tx_tasks e cmd cfg VoterServer) (push_stage ss acc0) = Inr mid"
      "tx_tasks_channel e cmd cfg TxServer (\<not> stop_force cmd) = Inr ts" "acc = push_stage ts mid"
    using assms(1) by (auto simp: stop_with_hot_standby_def Let_def bindE_Inr_iff acc0_def)
  have "tagged {''topology:check-topology''} acc0"
    using tagged_push_task [OF tagged_Nil, of "check_topology_stage e cmd cfg"] by (auto simp: acc0_def intro: tagged_mono [OF tagged_Nil])
  from tagged_push(1) [OF this tx_piece(2) [OF name r(1)]] d
  have "tagged {''topology:check-topology'', ?n @ '':standby''} (push_stage ss acc0)" by (simp add: insert_commute)
  from push_some_tagged [OF r(2) this tx_piece(1) [OF name, where e = e and cfg = cfg and st = VoterServer]] d
  have "tagged {''topology:check-topology'', ?n @ '':standby'', ?n @ '':voter''} mid" by (simp add: insert_commute)
  from tagged_push(1) [OF this tx_piece(2) [OF name r(3)]] d show ?thesis
    unfolding r(4) by (auto simp: stop_tx_tags_def elim: tagged_mono)
qed

lemma stop_tx_tagged:
  assumes "stop_tx_stages e cmd cfg rm ([], []) = Inr acc" and n: "command_name cmd \<in> {''stop'', ''remove''}"
  shows "tagged (stop_tx_tags (command_name cmd)) acc"
proof -
  let ?n = "command_name cmd" and ?d = "tx_service (cfg_deployment cfg)"
  have name: "ctl_name_of cmd" using n by auto
  note d = stop_name_tags [OF n]
  have one: "tagged (stop_tx_tags ?n) (push_stage ts ([], []))" if "piece {?n @ '':'' @ server_type_str st} ts" for ts st
    using tagged_push(1) [OF tagged_Nil that] by (cases st) (auto simp: stop_tx_tags_def elim: tagged_mono)
  consider (nodes) ts where "tx_tasks_channel e cmd cfg NodeServer False = Inr ts" "acc = push_stage ts ([], [])"
    | (forced) a1 a2 ts where "push_some (standby_host_ports ?d) (tx_tasks e cmd cfg StandbyServer) ([], []) = Inr a1"
        "push_some (voter_host_ports ?d) (tx_tasks e cmd cfg VoterServer) a1 = Inr a2" "tx_tasks e cmd cfg TxServer = Inr ts" "acc = push_stage ts a2"
    | (hot) "stop_with_hot_standby e cmd cfg ([], []) = Inr acc"
    | (tx) ts where "tx_tasks e cmd cfg TxServer = Inr ts" "acc = push_stage ts ([], [])"
    using assms(1) unfolding stop_tx_stages_def Let_def by (auto simp: bindE_Inr_iff split: if_splits)
  then show ?thesis
  proof cases
    case nodes
    then show ?thesis using one [of NodeServer] tx_piece(2) [OF name nodes(1)] by simp
  next
    case forced
    from push_some_tagged [OF forced(1) tagged_Nil tx_piece(1) [OF name, where e = e and cfg = cfg and st = StandbyServer]] have "tagged {?n @ '':standby''} a1" by simp
    from push_some_tagged [OF forced(2) this tx_piece(1) [OF name, where e = e and cfg = cfg and st = VoterServer]] d have "tagged {?n @ '':standby'', ?n @ '':voter''} a2" by (simp add: insert_commute)
    from tagged_push(1) [OF this tx_piece(1) [OF name forced(3)]] d show ?thesis
      unfolding forced(4) by (auto simp: stop_tx_tags_def elim: tagged_mono)
  next
    case hot
    then show ?thesis by (rule hot_standby_tagged) (rule n)
  next
    case tx
    then show ?thesis using one [of TxServer] tx_piece(1) [OF name tx(1)] by simp
  qed
qed

definition stop_tags :: "string \<Rightarrow> string set" where
  "stop_tags n = stop_tx_tags n \<union> {''eloq_log_'' @ n, ''dss_'' @ n}"

lemma stop_tasks_tagged:
  assumes "stop_tasks e tx log store cmd cfg rm = Some (Inr acc)" and n: "command_name cmd \<in> {''stop'', ''remove''}"
  shows "tagged (stop_tags (command_name cmd)) acc"
proof -
  let ?n = "command_name cmd"
  note d = stop_name_tags [OF n]
  have "\<forall>a. command_name cmd \<noteq> ''log-srv''" using n by auto
  then have ref: "cluster_cmd_string cmd = Inr ?n" using n by (cases cmd) (auto simp: cluster_cmd_string_def)
  obtain a1 a2 where r: "(if tx then stop_tx_stages e cmd cfg rm ([], []) else Inr ([], [])) = Inr a1"
      "(if log \<and> dep_log_service (cfg_deployment cfg) \<noteq> None
        then bindO (log_tasks e cmd cfg) (\<lambda>ts. Some (Inr (push_stage ts a1))) else Some (Inr a1)) = Some (Inr a2)"
      "(if store \<and> stops_dss (cfg_deployment cfg) then bindE (dss_tasks cmd cfg) (\<lambda>ts. Inr (push_nonempty ts a2)) else Inr a2) = Inr acc"
    using assms(1) by (auto simp: stop_tasks_def bindO_Inr)
  have t1: "tagged (stop_tx_tags ?n) a1"
    using r(1) stop_tx_tagged [OF _ n] tagged_mono [OF tagged_Nil] by (auto split: if_splits)
  have "tagged (stop_tx_tags ?n \<union> {''eloq_log_'' @ ?n}) (push_stage ts a1)" if ts: "log_tasks e cmd cfg = Some (Inr ts)" for ts
    using d by (intro tagged_push(1) [OF t1 log_piece [OF ts ref]]) (auto simp: stop_tx_tags_def)
  then have t: "tagged (insert (''eloq_log_'' @ ?n) (stop_tx_tags ?n)) a2"
    using r(2) t1 by (auto simp: bindO_Inr split: if_splits intro: tagged_mono)
  have "tagged (insert (''eloq_log_'' @ ?n) (stop_tx_tags ?n) \<union> {''dss_'' @ ?n}) (push_nonempty ts a2)" if ts: "dss_tasks cmd cfg = Inr ts" for ts
    using d by (intro tagged_push(2) [OF t dss_piece [OF ts]]) (auto simp: stop_tx_tags_def)
  then show ?thesis using r(3) t by (auto simp: bindE_Inr_iff stop_tags_def split: if_splits elim: tagged_mono)
qed

lemma monitor_stop_tagged:
  assumes "with_monitor_stop e cluster cfg monitor acc = Inr acc'" and "tagged S acc" and "''monitor'' \<notin> S"
  shows "tagged (insert ''monitor'' S) acc'"
proof (cases "monitor \<and> dep_monitor (cfg_deployment cfg) \<noteq> None")
  case True
  then obtain ctx where ctx: "monitor_group [] (cl_pkgs e) (Some cluster) (MonitorStop None []) cfg = Inr ctx"
    and acc': "acc' = (fst acc @ (case barrier ctx of Some b \<Rightarrow> b | None \<Rightarrow> [length (executable ctx)]), im_extend (snd acc) (lift_tasks CtMonitor (executable ctx)))"
    using assms(1) by (auto simp: with_monitor_stop_def bindE_Inr_iff)
  obtain b where b: "barrier ctx = Some b" "balanced (b, executable ctx)" "\<forall>i \<in> ids_of (executable ctx). tid_cmd i = ''monitor''"
    using monitor_group_stages [OF ctx] True by auto
  have "unique_ids (lift_tasks CtMonitor (executable ctx))" "length (lift_tasks CtMonitor (executable ctx)) = length (executable ctx)"
    using b(2) by (simp_all add: lift_tasks_def unique_ids_def balanced_def case_prod_beta comp_def)
  then have "tagged {''monitor''} (b, lift_tasks CtMonitor (executable ctx))"
    using b(2,3) by (auto simp: tagged_def balanced_def tag_def)
  from tagged_append [OF _ this, of S "fst acc" "snd acc"] assms(2,3) show ?thesis by (simp add: acc' b(1))
next
  case False
  then have "acc' = acc" using assms(1) by (auto simp: with_monitor_stop_def)
  then show ?thesis using assms(2) by (auto intro: tagged_mono)
qed

section \<open>Starts and status\<close>

definition status_tags :: "string set" where
  "status_tags = {''dss_status'', ''eloq_log_status'', ''status:standby'', ''status:voter'', ''status:txservice'', ''monitor''}"

lemma monitor_status_tags:
  assumes "monitor_status_tasks e cfg = Inr ts"
  shows "tag ` ids_of ts \<subseteq> {''monitor''}"
proof -
  have "tag i = ''monitor''" if i: "i \<in> ids_of ts" for i
  proof -
    obtain sets where s: "phase_sets (cl_pkgs e) cfg [] (MonitorStatus None []) = Inr sets" and ts: "ts = lift_tasks CtMonitor (concat (map as_ctl sets))"
      using assms i by (cases "dep_monitor (cfg_deployment cfg)") (auto simp: monitor_status_tasks_def bindE_Inr_iff)
    have "ids_of (concat (map as_ctl xs)) = (\<Union>ts \<in> set xs. ids_of ts)" for xs by (induction xs) simp_all
    with i ts have "\<exists>us \<in> set sets. i \<in> ids_of us" by simp
    then have "tid_cmd i = ''monitor''" using phase_sets_ids [OF s] by blast
    then show ?thesis by (simp add: tag_def)
  qed
  then show ?thesis by blast
qed

lemma status_tasks_piece:
  assumes "status_tasks e (CmdStatus c u p w d) cfg = Some (Inr ts)"
  shows "piece status_tags ts"
proof -
  let ?cmd = "CmdStatus c u p w d"
  obtain dss logs ss vs txs ms where r: "(if starts_dss (cfg_deployment cfg) then dss_tasks ?cmd cfg else Inr []) = Inr dss"
      "(if dep_log_service (cfg_deployment cfg) \<noteq> None then log_tasks e ?cmd cfg else Some (Inr [])) = Some (Inr logs)"
      "(if has_standbys cfg then tx_tasks e (status_tx_command ?cmd) cfg StandbyServer else Inr []) = Inr ss"
      "(if voter_host_ports (tx_service (cfg_deployment cfg)) \<noteq> None then tx_tasks e ?cmd cfg VoterServer else Inr []) = Inr vs"
      "tx_tasks e (status_tx_command ?cmd) cfg TxServer = Inr txs" "monitor_status_tasks e cfg = Inr ms"
      "ts = im_extend [] (dss @ logs @ ss @ vs @ txs @ ms)"
    using assms by (auto simp: status_tasks_def Let_def bindO_Inr)
  have ref: "cluster_cmd_string ?cmd = Inr ''status''" by (simp add: cluster_cmd_string_def)
  have name: "ctl_name_of ?cmd" "ctl_name_of (status_tx_command ?cmd)" "command_name (status_tx_command ?cmd) = ''status''"
    by (simp_all add: status_tx_command_def)
  have "piece {''dss_status''} dss" using r(1) dss_piece [of ?cmd cfg dss] by (auto split: if_splits)
  moreover have "piece {''eloq_log_status''} logs" using r(2) log_piece [OF _ ref] by (auto split: if_splits)
  moreover have "piece {''status:standby''} ss" using r(3) tx_piece(1) [OF name(2), of e cfg StandbyServer ss] name(3) by (auto split: if_splits)
  moreover have "piece {''status:voter''} vs" using r(4) tx_piece(1) [OF name(1), of e cfg VoterServer vs] by (auto split: if_splits)
  moreover have "piece {''status:txservice''} txs" using tx_piece(1) [OF name(2) r(5)] name(3) by simp
  ultimately have "tag ` ids_of (dss @ logs @ ss @ vs @ txs @ ms) \<subseteq> status_tags"
    using monitor_status_tags [OF r(6)] by (auto simp: status_tags_def piece_def)
  then show ?thesis unfolding r(7) by (rule piece_new)
qed

definition start_tx_tags :: "string set" where
  "start_tx_tags = {''start:txservice'', ''start:standby'', ''start:voter''}"

lemma start_tx_piece:
  assumes "start_tx_tasks e (CmdStart c ns) cfg = Inr ts"
  shows "piece start_tx_tags ts"
proof -
  let ?cmd = "CmdStart c ns"
  have name: "ctl_name_of ?cmd" by simp
  obtain txs ss vs where r: "tx_tasks e ?cmd cfg TxServer = Inr txs"
      "(if has_standbys cfg then tx_tasks e ?cmd cfg StandbyServer else Inr []) = Inr ss"
      "(if voter_host_ports (tx_service (cfg_deployment cfg)) \<noteq> None then tx_tasks e ?cmd cfg VoterServer else Inr []) = Inr vs"
      "ts = im_extend (im_extend txs ss) vs"
    using assms by (auto simp: start_tx_tasks_def bindE_Inr_iff)
  have "piece {''start:txservice''} txs" using tx_piece(1) [OF name r(1)] by simp
  moreover have "piece {''start:standby''} ss" using r(2) tx_piece(1) [OF name, of e cfg StandbyServer ss] by (auto split: if_splits)
  moreover have "piece {''start:voter''} vs" using r(3) tx_piece(1) [OF name, of e cfg VoterServer vs] by (auto split: if_splits)
  ultimately show ?thesis unfolding r(4) by (auto simp: start_tx_tags_def piece_def)
qed

definition start_tags :: "string set" where
  "start_tags = {''start:eloq_store_data_clean'', ''dss_start'', ''eloq_log_start'', ''eloq_log_service_probe''} \<union> start_tx_tags \<union> {''start:node''}"

lemma start_log_tagged:
  assumes "start_log_stages e (CmdStart c ns) cfg acc = Some (Inr acc')" and "tagged S acc"
    and "''eloq_log_start'' \<notin> S" and "''eloq_log_service_probe'' \<notin> S"
  shows "tagged ({''eloq_log_start'', ''eloq_log_service_probe''} \<union> S) acc'"
proof (cases "dep_log_service (cfg_deployment cfg) = None")
  case False
  have ref: "cluster_cmd_string (CmdStart c ns) = Inr ''start''" by (simp add: cluster_cmd_string_def)
  obtain logs ps where r: "log_tasks e (CmdStart c ns) cfg = Some (Inr logs)" "log_probe_from_config cfg = Some ps"
      "acc' = push_nonempty (lift_tasks CtProbe ps) (push_nonempty logs acc)"
    using assms(1) False by (auto simp: start_log_stages_def bindO_Inr)
  have "tagged (S \<union> {''eloq_log_start''}) (push_nonempty logs acc)"
    using log_piece [OF r(1) ref] assms(3) by (intro tagged_push(2) [OF assms(2)]) simp_all
  moreover have "piece {''eloq_log_service_probe''} (lift_tasks CtProbe ps)" using probe_piece [OF r(2)] by simp
  ultimately have "tagged (S \<union> {''eloq_log_start''} \<union> {''eloq_log_service_probe''}) acc'"
    unfolding r(3) by (rule tagged_push(2)) (use assms(4) in simp)
  then show ?thesis by (rule tagged_mono) auto
next
  case True
  then show ?thesis using assms(1,2) by (auto simp: start_log_stages_def elim: tagged_mono)
qed

lemma start_stages_tagged:
  assumes "start_stages e (CmdStart c ns) nodes cfg skip = Some (Inr acc)"
  shows "tagged start_tags acc"
proof (cases "nodes = []")
  case False
  then obtain ts where r: "tx_tasks e (CmdStart c ns) cfg NodeServer = Inr ts" "acc = push_stage ts ([], [])"
    using assms by (auto simp: start_stages_def bindE_Inr_iff)
  have "piece {''start:node''} ts" using tx_piece(1) [OF _ r(1)] by simp
  from tagged_push(1) [OF tagged_Nil this] show ?thesis
    unfolding r(2) by (rule tagged_mono) (simp_all add: start_tags_def)
next
  case True
  let ?cmd = "CmdStart c ns"
  obtain cleans a1 a2 txs where r: "start_clean_tasks ?cmd cfg = Inr cleans"
      "(if starts_dss (cfg_deployment cfg) then bindE (dss_tasks ?cmd cfg) (\<lambda>ts. Inr (push_stage ts (push_nonempty cleans ([], []))))
        else Inr (push_nonempty cleans ([], []))) = Inr a1"
      "(if skip then Some (Inr a1) else start_log_stages e ?cmd cfg a1) = Some (Inr a2)"
      "start_tx_tasks e ?cmd cfg = Inr txs" "acc = push_stage txs a2"
    using assms True by (auto simp: start_stages_def bindO_Inr bindE_Inr_iff)
  have "piece {''start:eloq_store_data_clean''} cleans" using clean_piece [OF r(1)] by simp
  from tagged_push(2) [OF tagged_Nil this] have t0: "tagged {''start:eloq_store_data_clean''} (push_nonempty cleans ([], []))" by simp
  have "tagged ({''start:eloq_store_data_clean''} \<union> {''dss_start''}) (push_stage ts (push_nonempty cleans ([], [])))"
    if ts: "dss_tasks ?cmd cfg = Inr ts" for ts
    using dss_piece [OF ts] by (intro tagged_push(1) [OF t0]) simp_all
  then have t1: "tagged {''start:eloq_store_data_clean'', ''dss_start''} a1"
    using r(2) tagged_mono [OF t0] by (auto simp: bindE_Inr_iff insert_commute split: if_splits)
  have t2: "tagged ({''eloq_log_start'', ''eloq_log_service_probe''} \<union> {''start:eloq_store_data_clean'', ''dss_start''}) a2"
  proof (cases skip)
    case True
    then show ?thesis using r(3) t1 by (auto elim: tagged_mono)
  next
    case False
    then show ?thesis using r(3) start_log_tagged [OF _ t1] by simp
  qed
  have "tagged (({''eloq_log_start'', ''eloq_log_service_probe''} \<union> {''start:eloq_store_data_clean'', ''dss_start''}) \<union> start_tx_tags) acc"
    unfolding r(5) by (rule tagged_push(1) [OF t2 start_tx_piece [OF r(4)]]) (simp add: start_tx_tags_def)
  then show ?thesis by (rule tagged_mono) (auto simp: start_tags_def)
qed

definition all_start_tags :: "string set" where
  "all_start_tags = insert ''topology:wait-current-master'' (start_tags \<union> status_tags)"

lemma start_tasks_tagged:
  assumes "start_tasks e (CmdStart c ns) cfg skip = Some (Inr acc)"
  shows "tagged all_start_tags acc"
proof -
  let ?wait = "redis_stage cfg ''wait-current-master'' ''_local'' (tx_and_standby cfg) (redis_password cfg None) True"
  obtain a1 ts where r: "start_stages e (CmdStart c ns) ns cfg skip = Some (Inr a1)"
      "status_tasks e (CmdStatus c None None None False) cfg = Some (Inr ts)"
      "acc = (if awaits_master cfg then push_task ?wait (push_stage ts a1) else push_stage ts a1)"
    using assms by (auto simp: start_tasks_def bindO_Inr Let_def)
  have t: "tagged (start_tags \<union> status_tags) (push_stage ts a1)"
    by (rule tagged_push(1) [OF start_stages_tagged [OF r(1)] status_tasks_piece [OF r(2)]])
      (simp add: start_tags_def start_tx_tags_def status_tags_def)
  have w: "tag (fst ?wait) = ''topology:wait-current-master''" by (simp add: redis_stage_def local_task_def tag_def)
  have "tag (fst ?wait) \<notin> start_tags \<union> status_tags" unfolding w by (simp add: start_tags_def start_tx_tags_def status_tags_def)
  from tagged_push_task [OF t this] w have "tagged all_start_tags (push_task ?wait (push_stage ts a1))" by (simp add: all_start_tags_def)
  moreover have "tagged all_start_tags (push_stage ts a1)" using t by (rule tagged_mono) (simp add: all_start_tags_def subset_insertI)
  ultimately show ?thesis by (simp add: r(3))
qed

section \<open>Commands that succeed\<close>

text \<open>Addresses that the tasks can take apart, of a cluster without log service and monitor.\<close>

definition has_colon :: "string \<Rightarrow> bool" where
  "has_colon hp \<longleftrightarrow> split_once is_colon hp \<noteq> None"

definition plain_addresses :: "deploy_config \<Rightarrow> bool" where
  "plain_addresses cfg \<longleftrightarrow> (let d = cfg_deployment cfg in dep_log_service d = None \<and> dep_monitor d = None \<and>
     list_all has_colon (get_host_port_list d EloqTx @ get_host_port_list d EloqStandby @ get_host_port_list d EloqVoter) \<and>
     list_all (\<lambda>peer. case dss_host_port peer of Inr _ \<Rightarrow> True | Inl _ \<Rightarrow> False) (dss_peers d) \<and>
     list_all has_colon (case Option.bind (Option.bind (dep_storage_service d) st_eloqdss) dss_peer_host_ports of Some ps \<Rightarrow> ps | None \<Rightarrow> []))"

lemma mapE_total: "list_all (\<lambda>x. \<exists>y. f x = Inr y) xs \<Longrightarrow> \<exists>ys. mapE f xs = Inr ys"
  by (induction xs) auto

lemma generate_total:
  assumes "tg_cmd g \<in> {''start'', ''stop'', ''status'', ''remove''}" and "list_all has_colon hps"
  shows "\<exists>ts. generate_tasks_for_host_ports g cfg hps st = Inr ts"
proof -
  have "\<exists>r. tx_cmd_and_input g cfg st p = Inr r" for p
    using assms(1) by (cases "st = NodeServer") (auto simp: tx_cmd_and_input_def srv_start_cmd_def srv_start_cmd_with_host_def Let_def)
  then have "\<exists>y. generate_task g cfg st hp = Inr y" if "split_once is_colon hp = Some (h, p)" for hp h p
  proof -
    obtain c x where "tx_cmd_and_input g cfg st p = Inr (c, x)" using \<open>\<And>p. \<exists>r. tx_cmd_and_input g cfg st p = Inr r\<close> [of p] by auto
    then show ?thesis using that by (simp add: generate_task_def Let_def)
  qed
  then have "\<exists>ys. mapE (generate_task g cfg st) hps = Inr ys"
    using assms(2) by (intro mapE_total) (auto simp: list_all_iff has_colon_def)
  then show ?thesis by (auto simp: generate_tasks_for_host_ports_def)
qed

lemma tx_total:
  assumes "plain_addresses cfg" and "ctl_name_of cmd"
  shows "st \<noteq> NodeServer \<Longrightarrow> \<exists>ts. tx_tasks e cmd cfg st = Inr ts" and "st \<noteq> NodeServer \<Longrightarrow> \<exists>ts. tx_tasks_channel e cmd cfg st r = Inr ts"
    and "cmd = CmdStart c ns \<Longrightarrow> list_all has_colon ns \<Longrightarrow> \<exists>ts. tx_tasks e cmd cfg NodeServer = Inr ts"
    and "cmd = CmdStop a \<Longrightarrow> list_all has_colon (st_nodes a) \<Longrightarrow> \<exists>ts. tx_tasks_channel e cmd cfg NodeServer r = Inr ts"
proof -
  have g: "\<exists>ts. generate_tasks_for_host_ports (generation_of (cl_datetime e) cmd r) cfg hps st = Inr ts" if "list_all has_colon hps" for hps r st
    by (rule generate_total [OF _ that]) (use assms(2) in \<open>simp add: generation_of_def\<close>)
  have hp: "list_all has_colon (server_host_ports cfg st ns)" if "st \<noteq> NodeServer" for ns st
    using assms(1) that by (cases st) (simp_all add: plain_addresses_def server_host_ports_def Let_def)
  show "\<exists>ts. tx_tasks e cmd cfg st = Inr ts" if "st \<noteq> NodeServer"
  proof -
    obtain ns where ns: "tx_from_config (cl_datetime e) cmd cfg st =
        generate_tasks_for_host_ports (generation_of (cl_datetime e) cmd False) cfg (server_host_ports cfg st ns) st"
      using \<open>st \<noteq> NodeServer\<close> by (cases cmd) (auto simp: tx_from_config_def)
    obtain ts where "generate_tasks_for_host_ports (generation_of (cl_datetime e) cmd False) cfg (server_host_ports cfg st ns) st = Inr ts"
      using g [OF hp [OF \<open>st \<noteq> NodeServer\<close>]] by blast
    then show ?thesis by (simp add: tx_tasks_def ns)
  qed
  show "\<exists>ts. tx_tasks_channel e cmd cfg st r = Inr ts" if "st \<noteq> NodeServer"
  proof -
    let ?ns = "case cmd of CmdStop a \<Rightarrow> if st = NodeServer then st_nodes a else [] | _ \<Rightarrow> []"
    obtain ts where "generate_tasks_for_host_ports (generation_of (cl_datetime e) cmd r) cfg (server_host_ports cfg st ?ns) st = Inr ts"
      using g [OF hp [OF \<open>st \<noteq> NodeServer\<close>]] by blast
    then show ?thesis by (simp add: tx_tasks_channel_def tx_from_config_with_channel_def Let_def)
  qed
  show "\<exists>ts. tx_tasks e cmd cfg NodeServer = Inr ts" if "cmd = CmdStart c ns" "list_all has_colon ns"
    using g [OF that(2), of False NodeServer] that(1) by (auto simp: tx_tasks_def tx_from_config_def server_host_ports_def)
  show "\<exists>ts. tx_tasks_channel e cmd cfg NodeServer r = Inr ts" if "cmd = CmdStop a" "list_all has_colon (st_nodes a)"
    using g [OF that(2), of r NodeServer] that(1) by (auto simp: tx_tasks_channel_def tx_from_config_with_channel_def server_host_ports_def Let_def)
qed

lemma dss_total:
  assumes "plain_addresses cfg" and "ctl_name_of cmd"
  shows "\<exists>ts. dss_tasks cmd cfg = Inr ts"
proof -
  have "\<exists>c. dss_cmd_of cfg cmd p = Inr c" for p using assms(2) by (cases cmd) (simp_all add: dss_cmd_of_def Let_def)
  then have "\<exists>y. dss_cmd_for cfg cmd peer = Inr y" if "dss_host_port peer = Inr (h, p)" for peer h p
  proof -
    obtain c where "dss_cmd_of cfg cmd p = Inr c" using \<open>\<And>p. \<exists>c. dss_cmd_of cfg cmd p = Inr c\<close> [of p] by auto
    then show ?thesis using that by (simp add: dss_cmd_for_def)
  qed
  then have d: "\<exists>y. dss_cmd_for cfg cmd peer = Inr y" if "case dss_host_port peer of Inr _ \<Rightarrow> True | Inl _ \<Rightarrow> False" for peer
    using that by (cases "dss_host_port peer") (auto split: prod.splits)
  have "list_all (\<lambda>peer. case dss_host_port peer of Inr _ \<Rightarrow> True | Inl _ \<Rightarrow> False) (dss_peers (cfg_deployment cfg))"
    using assms(1) by (simp add: plain_addresses_def Let_def)
  then have "list_all (\<lambda>x. \<exists>y. dss_cmd_for cfg cmd x = Inr y) (dss_peers (cfg_deployment cfg))"
    by (rule list.pred_mono_strong) (rule d)
  from mapE_total [OF this] have "\<exists>ys. mapE (dss_cmd_for cfg cmd) (dss_peers (cfg_deployment cfg)) = Inr ys" .
  then show ?thesis by (auto simp: dss_tasks_def dss_from_config_def build_dss_cmd_def)
qed

lemma plain_peers:
  assumes "plain_addresses cfg" and "Option.bind (dep_storage_service (cfg_deployment cfg)) st_eloqdss = Some dss"
    and "dss_peer_host_ports dss = Some ps"
  shows "list_all has_colon ps"
  using assms(1) unfolding plain_addresses_def Let_def assms(2) bind.bind_lunit assms(3) option.case by blast

lemma clean_total:
  assumes "plain_addresses cfg"
  shows "\<exists>ts. start_clean_tasks cmd cfg = Inr ts"
proof -
  have p: "\<exists>r. peer_check cfg peer = Inr r" if "has_colon peer" for peer
    using that by (auto simp: has_colon_def peer_check_def)
  have "\<exists>r. clean_targets cfg dss = Inr r" if d: "Option.bind (dep_storage_service (cfg_deployment cfg)) st_eloqdss = Some dss" for dss
  proof (cases "dss_peer_host_ports dss")
    case (Some ps)
    have "list_all (\<lambda>x. \<exists>y. peer_check cfg x = Inr y) ps" using plain_peers [OF assms d Some] p by (auto simp: list_all_iff)
    then obtain cs where "mapE (peer_check cfg) ps = Inr cs" using mapE_total [of "peer_check cfg" ps] by auto
    then show ?thesis by (simp add: clean_targets_def Some)
  qed (simp add: clean_targets_def)
  then show ?thesis
    by (fastforce simp: start_clean_tasks_def build_clean_tasks_def Let_def split: option.splits dss_backend.splits)
qed

lemma bindO_Some_Inr [simp]: "bindO m (\<lambda>x. Some (Inr x)) = m"
  by (simp add: bindO_def split: option.splits sum.splits)

lemma bindO_total: "\<exists>x. m = Some (Inr x) \<Longrightarrow> (\<And>x. m = Some (Inr x) \<Longrightarrow> \<exists>y. f x = Some (Inr y)) \<Longrightarrow> \<exists>y. bindO m f = Some (Inr y)"
  by (auto simp: bindO_def)

lemma bindE_total: "\<exists>x. m = Inr x \<Longrightarrow> (\<And>x. \<exists>y. f x = Inr y) \<Longrightarrow> \<exists>y. bindE m f = Inr y"
  by auto

lemma if_total: "(b \<Longrightarrow> \<exists>y. m = Inr y) \<Longrightarrow> (\<not> b \<Longrightarrow> \<exists>y. n = Inr y) \<Longrightarrow> \<exists>y. (if b then m else n) = Inr y"
  by simp

lemma push_some_total: "(\<exists>ts. m = Inr ts) \<Longrightarrow> \<exists>acc'. push_some present m acc = Inr acc'"
  by (auto simp: push_some_def)

lemma stop_tx_total:
  assumes "plain_addresses cfg" and "ctl_name_of cmd" and "\<And>a. cmd = CmdStop a \<Longrightarrow> list_all has_colon (st_nodes a)"
  shows "\<exists>acc'. stop_tx_stages e cmd cfg rm acc = Inr acc'"
proof -
  note t = tx_total(1,2) [OF assms(1,2)]
  have tx: "\<exists>ts. tx_tasks e cmd cfg TxServer = Inr ts" "\<exists>ts. tx_tasks e cmd cfg StandbyServer = Inr ts" "\<exists>ts. tx_tasks e cmd cfg VoterServer = Inr ts"
    by (rule t; simp)+
  have ch: "\<exists>ts. tx_tasks_channel e cmd cfg TxServer r = Inr ts" "\<exists>ts. tx_tasks_channel e cmd cfg StandbyServer r = Inr ts" for r
    by (rule t; simp)+
  have node: "\<exists>ts. tx_tasks_channel e cmd cfg NodeServer r = Inr ts" if "case cmd of CmdStop a \<Rightarrow> st_nodes a \<noteq> [] | _ \<Rightarrow> False" for r
    using that tx_total(4) [OF assms(1,2) _ assms(3)] by (cases cmd) simp_all
  have hot: "\<exists>acc'. stop_with_hot_standby e cmd cfg acc = Inr acc'" for acc
    unfolding stop_with_hot_standby_def Let_def by (intro bindE_total ch push_some_total tx) simp
  show ?thesis unfolding stop_tx_stages_def Let_def
    by (intro if_total) (rule hot | (rule bindE_total, rule node, assumption, simp) | (intro bindE_total push_some_total tx, simp))+
qed

lemma stop_total:
  assumes "plain_addresses cfg" and "ctl_name_of cmd" and "\<And>a. cmd = CmdStop a \<Longrightarrow> list_all has_colon (st_nodes a)"
  shows "\<exists>acc. stop_tasks e tx log store cmd cfg rm = Some (Inr acc)"
proof -
  have "dep_log_service (cfg_deployment cfg) = None" using assms(1) by (simp add: plain_addresses_def Let_def)
  then show ?thesis using stop_tx_total [OF assms, of e rm "([], [])"] dss_total [OF assms(1,2)]
    by (cases tx) (auto simp: stop_tasks_def bindO_def)
qed

lemma status_total:
  assumes "plain_addresses cfg"
  shows "\<exists>ts. status_tasks e (CmdStatus c u p w d) cfg = Some (Inr ts)"
proof -
  let ?cmd = "CmdStatus c u p w d"
  have n: "ctl_name_of ?cmd" "ctl_name_of (status_tx_command ?cmd)" by (simp_all add: status_tx_command_def)
  have tx: "\<exists>ts. tx_tasks e (status_tx_command ?cmd) cfg TxServer = Inr ts" "\<exists>ts. tx_tasks e (status_tx_command ?cmd) cfg StandbyServer = Inr ts"
    "\<exists>ts. tx_tasks e ?cmd cfg VoterServer = Inr ts"
    by (rule tx_total(1) [OF assms n(2)] tx_total(1) [OF assms n(1)]; simp)+
  have none: "dep_log_service (cfg_deployment cfg) = None" "dep_monitor (cfg_deployment cfg) = None"
    using assms by (simp_all add: plain_addresses_def Let_def)
  show ?thesis unfolding status_tasks_def Let_def
    by (intro bindO_total) (use tx dss_total [OF assms n(1)] none in \<open>simp_all add: monitor_status_tasks_def\<close>)
qed

lemma start_total:
  assumes "plain_addresses cfg" and "list_all has_colon ns"
  shows "\<exists>acc. start_tasks e (CmdStart c ns) cfg skip = Some (Inr acc)"
proof -
  let ?cmd = "CmdStart c ns"
  have n: "ctl_name_of ?cmd" by simp
  have tx: "\<exists>ts. tx_tasks e ?cmd cfg TxServer = Inr ts" "\<exists>ts. tx_tasks e ?cmd cfg StandbyServer = Inr ts" "\<exists>ts. tx_tasks e ?cmd cfg VoterServer = Inr ts"
    by (rule tx_total(1) [OF assms(1) n]; simp)+
  have "\<exists>ts. start_tx_tasks e ?cmd cfg = Inr ts" unfolding start_tx_tasks_def
    by (intro bindE_total) (use tx in simp_all)
  then obtain txs where txs: "start_tx_tasks e ?cmd cfg = Inr txs" by blast
  obtain ts where ts: "tx_tasks e ?cmd cfg NodeServer = Inr ts" using tx_total(3) [OF assms(1) n refl assms(2)] by blast
  obtain cleans where cleans: "start_clean_tasks ?cmd cfg = Inr cleans" using clean_total [OF assms(1)] by blast
  obtain dss where dss: "dss_tasks ?cmd cfg = Inr dss" using dss_total [OF assms(1) n] by blast
  have "dep_log_service (cfg_deployment cfg) = None" using assms(1) by (simp add: plain_addresses_def Let_def)
  then have "\<exists>acc. start_stages e ?cmd ns cfg skip = Some (Inr acc)"
    by (cases "ns = []") (use ts txs cleans dss in \<open>auto simp: start_stages_def start_log_stages_def bindO_def\<close>)
  moreover obtain ts where "status_tasks e (CmdStatus c None None None False) cfg = Some (Inr ts)" using status_total [OF assms(1)] by blast
  ultimately show ?thesis by (auto simp: start_tasks_def bindO_def Let_def)
qed

definition nodes_of_command :: "sub_command \<Rightarrow> string list" where
  "nodes_of_command cmd = (case cmd of CmdStart _ ns \<Rightarrow> ns | CmdStop a \<Rightarrow> st_nodes a | _ \<Rightarrow> [])"

lemma cluster_control_total:
  assumes "plain_addresses cfg" and "command_name cmd \<in> {''start'', ''stop'', ''restart'', ''status'', ''remove''}"
    and "list_all has_colon (nodes_of_command cmd)"
  shows "\<exists>ctx. cluster_control e cmd cfg = Some (Inr ctx)"
proof -
  have m: "with_monitor_stop e c cfg mon acc = Inr acc" for c mon acc
    using assms(1) by (simp add: with_monitor_stop_def plain_addresses_def Let_def)
  have stop: "\<exists>acc. stop_tasks e tx log store cmd' cfg rm = Some (Inr acc)"
    if "ctl_name_of cmd'" "\<And>a. cmd' = CmdStop a \<Longrightarrow> list_all has_colon (st_nodes a)" for tx log store cmd' rm
    by (rule stop_total [OF assms(1) that])
  have "\<exists>acc. control_stages e cmd cfg = Some (Inr acc)"
  proof (cases cmd)
    case (CmdStart c ns)
    then show ?thesis using start_total [OF assms(1)] assms(3) by (simp add: control_stages_def nodes_of_command_def)
  next
    case (CmdStop a)
    have "\<exists>acc. stop_tasks e tx log store (CmdStop a) cfg False = Some (Inr acc)" for tx log store
      using assms(3) by (intro stop) (auto simp: CmdStop nodes_of_command_def)
    then show ?thesis by (simp add: control_stages_def CmdStop Let_def m)
  next
    case (CmdRestart c)
    let ?s = "stops_store_anyway (cfg_deployment cfg)"
    obtain acc where "stop_tasks e True True ?s (restart_stop_command c ?s) cfg False = Some (Inr acc)"
      using stop [of "restart_stop_command c ?s" True True ?s False] by (auto simp: restart_stop_command_def)
    moreover have "\<exists>acc'. start_tasks e (CmdStart c []) cfg False = Some (Inr acc')" by (rule start_total [OF assms(1)]) simp
    ultimately show ?thesis by (auto simp: control_stages_def CmdRestart Let_def bindO_def)
  next
    case (CmdStatus c u p w d)
    obtain ts where "status_tasks e cmd cfg = Some (Inr ts)" using status_total [OF assms(1)] CmdStatus by blast
    then show ?thesis by (cases d) (auto simp: control_stages_def bindO_def CmdStatus)
  next
    case (CmdRemove c f)
    have "\<exists>acc. stop_tasks e tx log store (CmdRemove c f) cfg True = Some (Inr acc)" for tx log store by (rule stop) simp_all
    then show ?thesis by (simp add: control_stages_def CmdRemove m)
  qed (use assms(2) in simp_all)
  then show ?thesis by (auto simp: cluster_control_def bindO_def)
qed

section \<open>Every command\<close>

lemma control_stages_tagged:
  assumes "control_stages e cmd cfg = Some (Inr acc)"
  shows "\<exists>S. tagged S acc"
proof (cases cmd)
  case (CmdStart c ns)
  then show ?thesis using assms start_tasks_tagged [of e c ns cfg False acc] by (auto simp: control_stages_def)
next
  case (CmdStop a)
  obtain tx log store monitor a1 where r: "stop_tasks e tx log store cmd cfg False = Some (Inr a1)"
      "with_monitor_stop e (st_cluster a) cfg monitor a1 = Inr acc"
    using assms by (auto simp: control_stages_def CmdStop Let_def bindO_Inr)
  have n: "command_name cmd \<in> {''stop'', ''remove''}" by (simp add: CmdStop)
  show ?thesis using monitor_stop_tagged [OF r(2) stop_tasks_tagged [OF r(1) n]]
    by (auto simp: CmdStop stop_tags_def stop_tx_tags_def)
next
  case (CmdRemove c f)
  obtain a1 where r: "stop_tasks e True True True cmd cfg True = Some (Inr a1)" "with_monitor_stop e c cfg True a1 = Inr acc"
    using assms by (auto simp: control_stages_def CmdRemove bindO_Inr)
  have n: "command_name cmd \<in> {''stop'', ''remove''}" by (simp add: CmdRemove)
  show ?thesis using monitor_stop_tagged [OF r(2) stop_tasks_tagged [OF r(1) n]]
    by (auto simp: CmdRemove stop_tags_def stop_tx_tags_def)
next
  case (CmdRestart c)
  let ?store = "stops_store_anyway (cfg_deployment cfg)"
  obtain b1 ex1 b2 ex2 where r: "stop_tasks e True True ?store (restart_stop_command c ?store) cfg False = Some (Inr (b1, ex1))"
      "start_tasks e (CmdStart c []) cfg False = Some (Inr (b2, ex2))" "acc = (b1 @ b2, im_extend ex1 ex2)"
    using assms by (auto simp: control_stages_def CmdRestart Let_def bindO_Inr)
  have n: "command_name (restart_stop_command c ?store) = ''stop''" by (simp add: restart_stop_command_def)
  have "tagged (stop_tags ''stop'') (b1, ex1)" using stop_tasks_tagged [OF r(1)] by (simp add: n)
  from tagged_append [OF this start_tasks_tagged [OF r(2)]] show ?thesis
    unfolding r(3) by (auto simp: stop_tags_def stop_tx_tags_def all_start_tags_def start_tags_def start_tx_tags_def status_tags_def)
next
  case (CmdStatus c u p w d)
  show ?thesis
  proof (cases d)
    case True
    let ?acc1 = "push_task (redis_stage cfg ''redis-topology'' ''local'' (tx_host_ports (tx_service (cfg_deployment cfg))) (redis_password cfg None) True) ([], [])"
    have "acc = detail_stages cmd cfg" using assms True by (simp add: control_stages_def CmdStatus)
    then have "balanced acc" using True
      by (simp add: CmdStatus detail_stages_def redis_stage_def local_task_def push_task_def push_nonempty_def push_stage_def
          balanced_def im_insert_def unique_ids_def Let_def)
    then show ?thesis by (auto simp: tagged_def)
  next
    case False
    then obtain ts where "status_tasks e cmd cfg = Some (Inr ts)" "acc = ([length ts], ts)"
      using assms by (auto simp: control_stages_def CmdStatus bindO_Inr)
    then show ?thesis using status_tasks_piece [of e c u p w d cfg ts] by (auto simp: CmdStatus tagged_def piece_def balanced_def)
  qed
qed (use assms in \<open>simp_all add: control_stages_def\<close>)

definition sample_env :: cluster_env where
  "sample_env = \<lparr>cl_datetime = ''now'', cl_log_hosts = [], cl_pkgs = [], cl_skip_checkpoint = True\<rparr>"

lemma sample_plain: "plain_addresses sample_config"
  by (simp add: plain_addresses_def sample_config_def Let_def get_host_port_list_internal_def has_colon_def split_once_def is_colon_def
      is_pipe_comma_def dss_peers_def)

text \<open>C30. Whatever the configuration and the arguments, the context of a start, stop, restart, status or remove is
  well formed: its barriers add up to its tasks and no two tasks share an id, so the controller runs
  exactly the stages that were pushed and never panics on them.\<close>

theorem cluster_control_well_formed:
  assumes "cluster_control e cmd cfg = Some (Inr ctx)"
  shows "wf_context ctx"
proof -
  obtain b ex where r: "control_stages e cmd cfg = Some (Inr (b, ex))"
      "ctx = \<lparr>task_group = ''cluster-control-'' @ command_name cmd, barrier = Some b, executable = ex\<rparr>"
    using assms by (auto simp: cluster_control_def bindO_Inr)
  obtain S where "tagged S (b, ex)" using control_stages_tagged [OF r(1)] by blast
  then show ?thesis unfolding r(2) by (rule tagged_wf)
qed

theorem cluster_control_well_formed_witness:
  "\<exists>ctx. cluster_control sample_env (CmdStart ''c'' []) sample_config = Some (Inr ctx) \<and> wf_context ctx"
proof -
  obtain ctx where "cluster_control sample_env (CmdStart ''c'' []) sample_config = Some (Inr ctx)"
    using cluster_control_total [OF sample_plain, of "CmdStart ''c'' []"] by (auto simp: nodes_of_command_def)
  then show ?thesis using cluster_control_well_formed [of sample_env "CmdStart ''c'' []" sample_config ctx] by blast
qed

end
