(* ===== verification/Cluster_Props.thy ===== *)
theory Cluster_Props
  imports Cluster_Ctl Node_Props
begin

text \<open>
  What starting and stopping do to the processes of a cluster: which stages of \<open>Cluster_Ctl\<close> a
  configuration leads to, and where stop and start are no inverses of each other.
\<close>

section \<open>Stages stay where they were pushed\<close>

definition extends :: "'x stage_acc \<Rightarrow> 'x stage_acc \<Rightarrow> bool" where
  "extends acc acc' \<longleftrightarrow> (\<exists>b x. acc' = (fst acc @ b, snd acc @ x))"

lemma extends_refl [simp]: "extends acc acc"
  unfolding extends_def by (metis append_Nil2 prod.collapse)

lemma extends_trans: "extends a b \<Longrightarrow> extends b c \<Longrightarrow> extends a c"
  by (auto simp: extends_def)

lemma extends_push:
  assumes "tagged S acc" and "piece T ts" and "S \<inter> T = {}"
  shows "extends acc (push_stage ts acc)" and "extends acc (push_nonempty ts acc)" and "snd (push_nonempty ts acc) = snd acc @ ts"
proof -
  have "ids_of (snd acc) \<inter> ids_of ts = {}" using assms by (auto simp: tagged_def piece_def)
  then have "im_extend (snd acc) ts = snd acc @ ts"
    using assms(2) by (intro im_extend_disjoint) (simp_all add: piece_def unique_ids_def ids_of_def)
  then show e: "extends acc (push_stage ts acc)" and "snd (push_nonempty ts acc) = snd acc @ ts"
    by (auto simp: extends_def push_stage_def)
  show "extends acc (push_nonempty ts acc)" using e by (simp add: push_nonempty_def)
qed

lemma extends_ids: "extends acc acc' \<Longrightarrow> ids_of (snd acc) \<subseteq> ids_of (snd acc')"
  by (auto simp: extends_def)

lemma lift_tasks_mem: "(i, t) \<in> set ts \<Longrightarrow> (i, map_instance f t) \<in> set (lift_tasks f ts)"
  by (force simp: lift_tasks_def)

lemma stage_ids: "ids_of ts \<subseteq> ids_of (snd (push_stage ts acc))" "ids_of (snd acc) \<subseteq> ids_of (snd (push_stage ts acc))"
  "ids_of ts \<subseteq> ids_of (snd (push_nonempty ts acc))"
  by simp_all

lemma monitor_stop_ids:
  "with_monitor_stop e cluster cfg monitor acc = Inr acc' \<Longrightarrow> ids_of (snd acc) \<subseteq> ids_of (snd acc')"
  by (auto simp: with_monitor_stop_def bindE_Inr_iff split: if_splits)

section \<open>The ids of generated tasks\<close>

lemma mapE_hits: "mapE f xs = Inr ys \<Longrightarrow> x \<in> set xs \<Longrightarrow> \<exists>y \<in> set ys. f x = Inr y"
  using mapE_Inr_nth [of f xs ys] by (metis in_set_conv_nth)

lemma tx_task_present:
  assumes "tx_tasks e cmd cfg st = Inr ts" and "hp \<in> set (server_host_ports cfg st [])" and "split_once is_colon hp = Some (h, p)"
    and "st \<noteq> NodeServer"
  shows "tx_task_id (command_name cmd) st h p \<in> ids_of ts"
proof -
  define hps where "hps = server_host_ports cfg st []"
  have same: "server_host_ports cfg st ns = hps" for ns using assms(4) by (cases st) (simp_all add: server_host_ports_def hps_def)
  obtain us where g: "generate_tasks_for_host_ports (generation_of (cl_datetime e) cmd False) cfg hps st = Inr us"
      and ts: "ts = lift_tasks CtTx us"
  proof -
    obtain us where "tx_from_config (cl_datetime e) cmd cfg st = Inr us" "ts = lift_tasks CtTx us"
      using assms(1) by (auto simp: tx_tasks_def bindE_Inr_iff)
    then show ?thesis using that [of us] assms(4) same by (cases cmd) (simp_all add: tx_from_config_def)
  qed
  obtain vs where v: "mapE (generate_task (generation_of (cl_datetime e) cmd False) cfg st) hps = Inr vs" "us = im_extend [] vs"
    using g by (auto simp: generate_tasks_for_host_ports_def bindE_Inr_iff)
  obtain y where y: "y \<in> set vs" "generate_task (generation_of (cl_datetime e) cmd False) cfg st hp = Inr y"
    using mapE_hits [OF v(1), of hp] assms(2) unfolding hps_def by blast
  then have "fst y = tx_task_id (command_name cmd) st h p"
    using assms(3) by (auto simp: generate_task_def Let_def bindE_Inr_iff generation_of_def)
  then have "tx_task_id (command_name cmd) st h p \<in> ids_of vs" using y(1) unfolding ids_of_def by (metis imageI)
  then show ?thesis by (simp add: ts v(2))
qed

lemma dss_task_present:
  assumes "dss_tasks cmd cfg = Inr ts" and "peer \<in> set (dss_peers (cfg_deployment cfg))" and "dss_host_port peer = Inr (h, p)"
  shows "\<lparr>tid_cmd = ''dss_'' @ command_name cmd, tid_task = command_name cmd, tid_host = h\<rparr> \<in> ids_of ts"
proof -
  obtain cmds where c: "mapE (dss_cmd_for cfg cmd) (dss_peers (cfg_deployment cfg)) = Inr cmds"
    and ts: "ts = lift_tasks CtDss (im_extend [] (map (\<lambda>(host, _). dss_task cfg (command_name cmd) cmds host) cmds))"
    using assms(1) by (auto simp: dss_tasks_def dss_from_config_def build_dss_cmd_def bindE_Inr_iff)
  obtain y where y: "y \<in> set cmds" "dss_cmd_for cfg cmd peer = Inr y" using mapE_hits [OF c assms(2)] by blast
  then have "fst y = h" using assms(3) by (auto simp: dss_cmd_for_def bindE_Inr_iff)
  then have "\<lparr>tid_cmd = ''dss_'' @ command_name cmd, tid_task = command_name cmd, tid_host = h\<rparr> =
      fst ((\<lambda>(host, _). dss_task cfg (command_name cmd) cmds host) y)"
    by (simp add: dss_task_def Let_def case_prod_beta)
  then show ?thesis using y(1) by (simp add: ts) (auto simp: ids_of_def)
qed

section \<open>Sample clusters\<close>

definition plain_stop :: "string list \<Rightarrow> stop_args" where
  "plain_stop ns = \<lparr>st_cluster = ''c'', st_tx = None, st_log = False, st_store = False, st_monitor = False, st_force = False,
     st_all = False, st_password = None, st_nodes = ns\<rparr>"

definition one_master :: "string list option \<Rightarrow> storage_service option \<Rightarrow> deploy_config" where
  "one_master voters st = bare_config ((bare_deployment ''c'' ''/opt'' (bare_service [''a:6379''] None voters))\<lparr>dep_storage_service := st\<rparr>)"

definition remote_config :: deploy_config where
  "remote_config = one_master None (Some (dss_storage (Some [''s:9100'']) Internal bare_store))"

definition voter_config :: deploy_config where
  "voter_config = one_master (Some [''v:6380'']) None"

definition cloud_store :: eloq_store_config where
  "cloud_store = bare_store\<lparr>es_cloud_store_path := Some ''b''\<rparr>"

definition cloud_config :: deploy_config where
  "cloud_config = one_master None (Some (dss_storage None Internal cloud_store))"

lemmas plain_evaluation = one_master_def plain_addresses_def Let_def get_host_port_list_internal_def has_colon_def split_once_def
  is_colon_def is_pipe_comma_def dss_peers_def dss_storage_def is_remote_mode_def is_external_def dss_host_port_def is_digit_def

lemma sample_clusters_plain: "plain_addresses remote_config" "plain_addresses voter_config" "plain_addresses cloud_config"
  by (simp_all add: remote_config_def voter_config_def cloud_config_def plain_evaluation)

lemma start_exists: "plain_addresses cfg \<Longrightarrow> list_all has_colon ns \<Longrightarrow> \<exists>ctx. cluster_control e (CmdStart c ns) cfg = Some (Inr ctx)"
  by (rule cluster_control_total) (simp_all add: nodes_of_command_def)

lemma stop_exists: "plain_addresses cfg \<Longrightarrow> list_all has_colon ns \<Longrightarrow> \<exists>ctx. cluster_control e (CmdStop (plain_stop ns)) cfg = Some (Inr ctx)"
  by (rule cluster_control_total) (simp_all add: nodes_of_command_def plain_stop_def)

section \<open>Stopping one node\<close>

text \<open>C32. A stop of single nodes also stops every data store server of a managed remote store, although it is said to stop
  only the nodes, and the start of the same nodes does not start them again.\<close>

theorem stopping_a_node_stops_the_store:
  assumes "dep_storage_service (cfg_deployment cfg) = Some st" and "st_eloqdss st = Some dss" and "managed_remote dss"
    and "cluster_control e (CmdStop a) cfg = Some (Inr ctx)"
    and "st_nodes a \<noteq> []" and "cluster_control e (CmdStart c (st_nodes a)) cfg = Some (Inr ctx')"
    and "peer \<in> set (dss_peers (cfg_deployment cfg))" and "dss_host_port peer = Inr (h, p)"
  shows "\<lparr>tid_cmd = ''dss_stop'', tid_task = ''stop'', tid_host = h\<rparr> \<in> ids_of (executable ctx) \<and>
    (\<forall>i \<in> ids_of (executable ctx'). tid_cmd i \<noteq> ''dss_start'')"
proof
  have anyway: "stops_store_anyway (cfg_deployment cfg)" "stops_dss (cfg_deployment cfg)"
    using assms(1-3) by (simp_all add: stops_store_anyway_def stops_dss_def)
  obtain tx log monitor b ex a1 where r: "stop_tasks e tx log True (CmdStop a) cfg False = Some (Inr a1)"
      "with_monitor_stop e (st_cluster a) cfg monitor a1 = Inr (b, ex)" "executable ctx = ex"
    using assms(4) anyway(1) by (auto simp: cluster_control_def control_stages_def Let_def bindO_Inr)
  obtain a2 ts where d: "dss_tasks (CmdStop a) cfg = Inr ts" "a1 = push_nonempty ts a2"
    using r(1) anyway(2) by (auto simp: stop_tasks_def bindO_Inr bindE_Inr_iff)
  have "\<lparr>tid_cmd = ''dss_stop'', tid_task = ''stop'', tid_host = h\<rparr> \<in> ids_of ts"
    using dss_task_present [OF d(1) assms(7,8)] by simp
  then show "\<lparr>tid_cmd = ''dss_stop'', tid_task = ''stop'', tid_host = h\<rparr> \<in> ids_of (executable ctx)"
    using monitor_stop_ids [OF r(2)] stage_ids(3) [of ts a2] unfolding r(3) d(2) by auto
next
  let ?wait = "redis_stage cfg ''wait-current-master'' ''_local'' (tx_and_standby cfg) (redis_password cfg None) True"
  obtain b ex where ex: "start_tasks e (CmdStart c (st_nodes a)) cfg False = Some (Inr (b, ex))" "executable ctx' = ex"
    using assms(6) by (auto simp: cluster_control_def control_stages_def bindO_Inr)
  obtain a1 ts where st: "start_stages e (CmdStart c (st_nodes a)) (st_nodes a) cfg False = Some (Inr a1)"
      "status_tasks e (CmdStatus c None None None False) cfg = Some (Inr ts)"
      "(b, ex) = (if awaits_master cfg then push_task ?wait (push_stage ts a1) else push_stage ts a1)"
    using ex(1) by (auto simp: start_tasks_def bindO_Inr Let_def)
  obtain ns where r: "tx_tasks e (CmdStart c (st_nodes a)) cfg NodeServer = Inr ns" "a1 = push_stage ns ([], [])"
    using st(1) assms(5) by (auto simp: start_stages_def bindE_Inr_iff)
  have "piece {''start:node''} ns" using tx_piece(1) [OF _ r(1)] by simp
  then have "tag ` ids_of (snd (push_stage ts (push_stage ns ([], [])))) \<subseteq> {''start:node''} \<union> status_tags"
    using status_tasks_piece [OF st(2)] by (auto simp: piece_def)
  moreover have "tag (fst ?wait) = ''topology:wait-current-master''" by (simp add: redis_stage_def local_task_def tag_def)
  moreover have "ids_of ex \<subseteq> insert (fst ?wait) (ids_of (snd (push_stage ts (push_stage ns ([], [])))))"
    using arg_cong [OF st(3), of snd] unfolding r(2) by (auto split: if_splits)
  ultimately have "tag ` ids_of ex \<subseteq> {''topology:wait-current-master'', ''start:node''} \<union> status_tags" by auto
  moreover have "tag i = ''dss_start''" if "tid_cmd i = ''dss_start''" for i using that by (simp add: tag_def)
  ultimately show "\<forall>i \<in> ids_of (executable ctx'). tid_cmd i \<noteq> ''dss_start''"
    unfolding ex(2) by (fastforce simp: status_tags_def)
qed

theorem stopping_a_node_stops_the_store_witness:
  "\<exists>ctx. cluster_control sample_env (CmdStop (plain_stop [''a:6379''])) remote_config = Some (Inr ctx) \<and>
     \<lparr>tid_cmd = ''dss_stop'', tid_task = ''stop'', tid_host = ''s''\<rparr> \<in> ids_of (executable ctx)"
proof -
  have ns: "list_all has_colon [''a:6379'']" by (simp add: plain_evaluation)
  obtain ctx where stop: "cluster_control sample_env (CmdStop (plain_stop [''a:6379''])) remote_config = Some (Inr ctx)"
    using stop_exists [OF sample_clusters_plain(1) ns] by blast
  obtain ctx' where start: "cluster_control sample_env (CmdStart ''c'' (st_nodes (plain_stop [''a:6379'']))) remote_config = Some (Inr ctx')"
    using start_exists [OF sample_clusters_plain(1) ns] by (auto simp: plain_stop_def)
  let ?dss = "\<lparr>dss_backend_of = EloqStore bare_store, dss_peer_host_ports = Some [''s:9100''], dss_mode_of = Internal\<rparr>"
  have st: "dep_storage_service (cfg_deployment remote_config) = Some (dss_storage (Some [''s:9100'']) Internal bare_store)"
    "st_eloqdss (dss_storage (Some [''s:9100'']) Internal bare_store) = Some ?dss" "managed_remote ?dss"
    by (simp_all add: remote_config_def one_master_def dss_storage_def managed_remote_def is_remote_mode_def is_external_def)
  have peer: "''s:9100'' \<in> set (dss_peers (cfg_deployment remote_config))" "dss_host_port ''s:9100'' = Inr (''s'', ''9100'')"
    by (simp_all add: remote_config_def plain_evaluation)
  have "\<lparr>tid_cmd = ''dss_stop'', tid_task = ''stop'', tid_host = ''s''\<rparr> \<in> ids_of (executable ctx)"
    using stopping_a_node_stops_the_store [OF st stop _ start peer] by (simp add: plain_stop_def)
  then show ?thesis using stop by blast
qed

section \<open>Voters without standbys\<close>

lemma monitor_stop_new_ids:
  assumes "with_monitor_stop e cluster cfg monitor acc = Inr acc'" and "i \<in> ids_of (snd acc')"
  shows "i \<in> ids_of (snd acc) \<or> tid_cmd i = ''monitor''"
proof (cases "monitor \<and> dep_monitor (cfg_deployment cfg) \<noteq> None")
  case True
  then obtain ctx where ctx: "monitor_group [] (cl_pkgs e) (Some cluster) (MonitorStop None []) cfg = Inr ctx"
    and acc': "snd acc' = im_extend (snd acc) (lift_tasks CtMonitor (executable ctx))"
    using assms(1) by (auto simp: with_monitor_stop_def bindE_Inr_iff)
  have "\<forall>i \<in> ids_of (executable ctx). tid_cmd i = ''monitor''" using monitor_group_stages [OF ctx] True by auto
  then show ?thesis using assms(2) by (auto simp: acc')
next
  case False
  then show ?thesis using assms by (auto simp: with_monitor_stop_def)
qed

lemma graceful_stop_tags:
  assumes "stop_tasks e tx log store (CmdStop a) cfg False = Some (Inr acc)"
    and "standby_host_ports (tx_service (cfg_deployment cfg)) = None" and "st_nodes a = []" and "\<not> st_force a"
  shows "tag ` ids_of (snd acc) \<subseteq> {''stop:txservice'', ''eloq_log_stop'', ''dss_stop''}"
proof -
  let ?cmd = "CmdStop a"
  obtain a1 a2 where r: "(if tx then stop_tx_stages e ?cmd cfg False ([], []) else Inr ([], [])) = Inr a1"
      "(if log \<and> dep_log_service (cfg_deployment cfg) \<noteq> None
        then bindO (log_tasks e ?cmd cfg) (\<lambda>ts. Some (Inr (push_stage ts a1))) else Some (Inr a1)) = Some (Inr a2)"
      "(if store \<and> stops_dss (cfg_deployment cfg) then bindE (dss_tasks ?cmd cfg) (\<lambda>ts. Inr (push_nonempty ts a2)) else Inr a2) = Inr acc"
    using assms(1) by (auto simp: stop_tasks_def bindO_Inr)
  have "stop_tx_stages e ?cmd cfg False ([], []) = bindE (tx_tasks e ?cmd cfg TxServer) (\<lambda>ts. Inr (push_stage ts ([], [])))"
    using assms(2-4) by (simp add: stop_tx_stages_def stop_force_def Let_def)
  then consider "a1 = ([], [])" | ts where "tx_tasks e ?cmd cfg TxServer = Inr ts" "a1 = push_stage ts ([], [])"
    using r(1) by (cases tx) (auto simp: bindE_Inr_iff)
  then have t1: "tag ` ids_of (snd a1) \<subseteq> {''stop:txservice''}"
    using tx_piece(1) [of ?cmd e cfg TxServer] by cases (simp_all add: piece_def)
  have ref: "cluster_cmd_string ?cmd = Inr ''stop''" by (simp add: cluster_cmd_string_def)
  have "tag i = ''eloq_log_stop''" if ts: "log_tasks e ?cmd cfg = Some (Inr ts)" and i: "i \<in> ids_of ts" for ts i
    using piece_ids [OF log_piece [OF ts ref]] i by auto
  then have t2: "tag ` ids_of (snd a2) \<subseteq> tag ` ids_of (snd a1) \<union> {''eloq_log_stop''}"
    using r(2) by (auto simp: bindO_Inr piece_def split: if_splits)
  have t3: "tag ` ids_of (snd acc) \<subseteq> tag ` ids_of (snd a2) \<union> {''dss_stop''}"
  proof -
    have "tag i = ''dss_stop''" if ts: "dss_tasks ?cmd cfg = Inr ts" and i: "i \<in> ids_of ts" for ts i
      using piece_ids [OF dss_piece [OF ts]] i by auto
    then show ?thesis using r(3) by (auto simp: bindE_Inr_iff split: if_splits)
  qed
  have "tag ` ids_of (snd acc) \<subseteq> ({''stop:txservice''} \<union> {''eloq_log_stop''}) \<union> {''dss_stop''}"
    by (intro order_trans [OF t3] Un_mono order_trans [OF t2] t1 order_refl)
  then show ?thesis by (rule order_trans) simp
qed

lemma start_tasks_stages:
  assumes "start_tasks e (CmdStart c ns) cfg skip = Some (Inr acc)"
  obtains a1 where "start_stages e (CmdStart c ns) ns cfg skip = Some (Inr a1)" "extends a1 acc"
proof -
  let ?wait = "redis_stage cfg ''wait-current-master'' ''_local'' (tx_and_standby cfg) (redis_password cfg None) True"
  obtain a1 ts where r: "start_stages e (CmdStart c ns) ns cfg skip = Some (Inr a1)"
      "status_tasks e (CmdStatus c None None None False) cfg = Some (Inr ts)"
      "acc = (if awaits_master cfg then push_task ?wait (push_stage ts a1) else push_stage ts a1)"
    using assms by (auto simp: start_tasks_def bindO_Inr Let_def)
  have d: "start_tags \<inter> status_tags = {}" by (simp add: start_tags_def start_tx_tags_def status_tags_def)
  note t = start_stages_tagged [OF r(1)] and p = status_tasks_piece [OF r(2)]
  have e1: "extends a1 (push_stage ts a1)" by (rule extends_push(1) [OF t p d])
  have w: "tag (fst ?wait) = ''topology:wait-current-master''" by (simp add: redis_stage_def local_task_def tag_def)
  have "piece {''topology:wait-current-master''} [?wait]" using w by (simp add: piece_def)
  then have e2: "extends (push_stage ts a1) (push_stage [?wait] (push_stage ts a1))"
    by (rule extends_push(1) [OF tagged_push(1) [OF t p d]]) (simp add: start_tags_def start_tx_tags_def status_tags_def)
  have "push_stage [?wait] (push_stage ts a1) = push_task ?wait (push_stage ts a1)"
    by (simp add: push_stage_def push_task_def case_prod_beta im_extend_def)
  then have "extends a1 acc" using e1 extends_trans [OF e1 e2] by (simp add: r(3))
  then show ?thesis using that r(1) by blast
qed

text \<open>C33. With voters and without standbys, which the topology check accepts, a graceful stop of the whole cluster has no
  task for any voter, while the start has one for each: the voters are left running.\<close>

theorem graceful_stop_leaves_voters:
  assumes "standby_host_ports (tx_service (cfg_deployment cfg)) = None" and "voter_host_ports (tx_service (cfg_deployment cfg)) \<noteq> None"
    and "st_nodes a = []" and "\<not> st_force a" and "cluster_control e (CmdStop a) cfg = Some (Inr ctx)"
    and "cluster_control e (CmdStart c []) cfg = Some (Inr ctx')"
    and "hp \<in> set (get_host_port_list (cfg_deployment cfg) EloqVoter)" and "split_once is_colon hp = Some (h, p)"
  shows "(\<forall>h p. tx_task_id ''stop'' VoterServer h p \<notin> ids_of (executable ctx)) \<and> tx_task_id ''start'' VoterServer h p \<in> ids_of (executable ctx')"
proof
  obtain tx log store monitor b ex a1 where r: "stop_tasks e tx log store (CmdStop a) cfg False = Some (Inr a1)"
      "with_monitor_stop e (st_cluster a) cfg monitor a1 = Inr (b, ex)" "executable ctx = ex"
    using assms(5) by (auto simp: cluster_control_def control_stages_def Let_def bindO_Inr)
  have "tag (tx_task_id ''stop'' VoterServer h p) = ''stop:voter''" for h p by (simp add: tag_def tx_task_id_def)
  then have "tx_task_id ''stop'' VoterServer h p \<notin> ids_of (snd a1)" for h p
    using graceful_stop_tags [OF r(1) assms(1,3,4)] by force
  moreover have "tid_cmd (tx_task_id ''stop'' VoterServer h p) \<noteq> ''monitor''" for h p by (simp add: tx_task_id_def)
  ultimately show "\<forall>h p. tx_task_id ''stop'' VoterServer h p \<notin> ids_of (executable ctx)"
    using monitor_stop_new_ids [OF r(2)] unfolding r(3) snd_conv by blast
next
  obtain b ex where s: "start_tasks e (CmdStart c []) cfg False = Some (Inr (b, ex))" "executable ctx' = ex"
    using assms(6) by (auto simp: cluster_control_def control_stages_def bindO_Inr)
  obtain a1 where a1: "start_stages e (CmdStart c []) [] cfg False = Some (Inr a1)" "extends a1 (b, ex)"
    by (rule start_tasks_stages [OF s(1)])
  obtain ts a0 where t: "start_tx_tasks e (CmdStart c []) cfg = Inr ts" "a1 = push_stage ts a0"
    using a1(1) by (auto simp: start_stages_def bindO_Inr bindE_Inr_iff)
  obtain vs us where v: "tx_tasks e (CmdStart c []) cfg VoterServer = Inr vs" "ts = im_extend us vs"
    using t(1) assms(2) by (auto simp: start_tx_tasks_def bindE_Inr_iff)
  have "tx_task_id ''start'' VoterServer h p \<in> ids_of vs"
    using tx_task_present [OF v(1) _ assms(8)] assms(7) by (simp add: server_host_ports_def)
  then show "tx_task_id ''start'' VoterServer h p \<in> ids_of (executable ctx')"
    using extends_ids [OF a1(2)] by (auto simp: s(2) t(2) v(2))
qed

theorem graceful_stop_leaves_voters_witness:
  "\<exists>ctx ctx'. cluster_control sample_env (CmdStop (plain_stop [])) voter_config = Some (Inr ctx) \<and>
     cluster_control sample_env (CmdStart ''c'' []) voter_config = Some (Inr ctx') \<and>
     tx_task_id ''stop'' VoterServer ''v'' ''6380'' \<notin> ids_of (executable ctx) \<and> tx_task_id ''start'' VoterServer ''v'' ''6380'' \<in> ids_of (executable ctx')"
proof -
  obtain ctx where stop: "cluster_control sample_env (CmdStop (plain_stop [])) voter_config = Some (Inr ctx)"
    using stop_exists [OF sample_clusters_plain(2), of "[]"] by auto
  obtain ctx' where start: "cluster_control sample_env (CmdStart ''c'' []) voter_config = Some (Inr ctx')"
    using start_exists [OF sample_clusters_plain(2), of "[]"] by auto
  have "(\<forall>h p. tx_task_id ''stop'' VoterServer h p \<notin> ids_of (executable ctx)) \<and> tx_task_id ''start'' VoterServer ''v'' ''6380'' \<in> ids_of (executable ctx')"
    by (rule graceful_stop_leaves_voters [OF _ _ _ _ stop start, of "''v:6380''"])
      (simp_all add: voter_config_def plain_evaluation plain_stop_def)
  then show ?thesis using stop start by blast
qed

section \<open>Data directories of running nodes\<close>

lemma start_log_extends:
  assumes "start_log_stages e (CmdStart c ns) cfg acc = Some (Inr acc')" and "tagged S acc"
    and "''eloq_log_start'' \<notin> S" and "''eloq_log_service_probe'' \<notin> S"
  shows "extends acc acc'"
proof (cases "dep_log_service (cfg_deployment cfg) = None")
  case False
  have ref: "cluster_cmd_string (CmdStart c ns) = Inr ''start''" by (simp add: cluster_cmd_string_def)
  obtain logs ps where r: "log_tasks e (CmdStart c ns) cfg = Some (Inr logs)" "log_probe_from_config cfg = Some ps"
      "acc' = push_nonempty (lift_tasks CtProbe ps) (push_nonempty logs acc)"
    using assms(1) False by (auto simp: start_log_stages_def bindO_Inr)
  have p: "piece {''eloq_log_start''} logs" using log_piece [OF r(1) ref] by simp
  have q: "piece {''eloq_log_service_probe''} (lift_tasks CtProbe ps)" using probe_piece [OF r(2)] by simp
  have "extends acc (push_nonempty logs acc)" by (rule extends_push(2) [OF assms(2) p]) (use assms(3) in simp)
  moreover have "tagged (S \<union> {''eloq_log_start''}) (push_nonempty logs acc)" by (rule tagged_push(2) [OF assms(2) p]) (use assms(3) in simp)
  from extends_push(2) [OF this q] have "extends (push_nonempty logs acc) acc'" using assms(4) by (simp add: r(3))
  ultimately show ?thesis by (rule extends_trans)
qed (use assms(1) in \<open>simp add: start_log_stages_def\<close>)

lemma start_stages_clean:
  assumes "start_stages e (CmdStart c ns) [] cfg skip = Some (Inr acc)"
  obtains cleans where "start_clean_tasks (CmdStart c ns) cfg = Inr cleans" "extends (push_nonempty cleans ([], [])) acc"
proof -
  let ?cmd = "CmdStart c ns" and ?S = "{''start:eloq_store_data_clean''}"
  obtain cleans a1 a2 txs where r: "start_clean_tasks ?cmd cfg = Inr cleans"
      "(if starts_dss (cfg_deployment cfg) then bindE (dss_tasks ?cmd cfg) (\<lambda>ts. Inr (push_stage ts (push_nonempty cleans ([], []))))
        else Inr (push_nonempty cleans ([], []))) = Inr a1"
      "(if skip then Some (Inr a1) else start_log_stages e ?cmd cfg a1) = Some (Inr a2)"
      "start_tx_tasks e ?cmd cfg = Inr txs" "acc = push_stage txs a2"
    using assms by (auto simp: start_stages_def bindO_Inr bindE_Inr_iff)
  have "piece ?S cleans" using clean_piece [OF r(1)] by simp
  from tagged_push(2) [OF tagged_Nil this] have t0: "tagged ?S (push_nonempty cleans ([], []))" by simp
  have d: "tagged (?S \<union> {''dss_start''}) (push_stage ts (push_nonempty cleans ([], []))) \<and>
      extends (push_nonempty cleans ([], [])) (push_stage ts (push_nonempty cleans ([], [])))" if ts: "dss_tasks ?cmd cfg = Inr ts" for ts
  proof -
    have p: "piece {''dss_start''} ts" using dss_piece [OF ts] by simp
    have "?S \<inter> {''dss_start''} = {}" by simp
    then show ?thesis using tagged_push(1) [OF t0 p] extends_push(1) [OF t0 p] by blast
  qed
  have e1: "extends (push_nonempty cleans ([], [])) a1" and t1: "tagged (?S \<union> {''dss_start''}) a1"
    using r(2) d tagged_mono [OF t0] by (auto simp: bindE_Inr_iff split: if_splits)
  have e2: "extends a1 a2" and t2: "tagged ({''eloq_log_start'', ''eloq_log_service_probe''} \<union> (?S \<union> {''dss_start''})) a2"
  proof -
    have "extends a1 a2 \<and> tagged ({''eloq_log_start'', ''eloq_log_service_probe''} \<union> (?S \<union> {''dss_start''})) a2"
    proof (cases skip)
      case True
      then show ?thesis using r(3) t1 by (auto elim: tagged_mono)
    next
      case False
      then have l: "start_log_stages e ?cmd cfg a1 = Some (Inr a2)" using r(3) by simp
      show ?thesis using start_log_tagged [OF l t1] start_log_extends [OF l t1] by simp
    qed
    then show "extends a1 a2" "tagged ({''eloq_log_start'', ''eloq_log_service_probe''} \<union> (?S \<union> {''dss_start''})) a2" by blast+
  qed
  have "extends a2 acc" unfolding r(5) by (rule extends_push(1) [OF t2 start_tx_piece [OF r(4)]]) (simp add: start_tx_tags_def)
  then show ?thesis using that r(1) extends_trans [OF extends_trans [OF e1 e2]] by blast
qed

lemma host_of_split: "split_once is_colon hp = Some (h, p) \<Longrightarrow> hd (split_on is_colon hp) = h"
  using split_once_Some [of is_colon hp h p] by (auto simp: split_on_append_sep)

lemma contains_part:
  assumes "p \<in> set ps"
  shows "contains_sub (''find '' @ p @ '' -mindepth 1 -delete'') (clean_cmd_of ps)"
proof -
  have c: "contains_sub x (a @ x @ b)" for x a b :: string by (rule contains_sub_append)
  obtain us vs where "ps = us @ p # vs" using assms by (meson split_list)
  moreover have "\<exists>a b. join sep (xs @ y # ys) = a @ y @ b" for sep y and xs ys :: "string list"
  proof (induction xs)
    case Nil
    show ?case by (cases ys) (auto intro: exI [of _ "[]"])
  next
    case (Cons x xs)
    then obtain a b where "join sep (xs @ y # ys) = a @ y @ b" by blast
    then have "join sep ((x # xs) @ y # ys) = (x @ sep @ a) @ y @ b" by (simp add: join_Cons)
    then show ?case by blast
  qed
  ultimately obtain a b where "clean_cmd_of ps = a @ (''find '' @ p @ '' -mindepth 1 -delete 2>/dev/null || true'') @ b"
    unfolding clean_cmd_of_def by (metis (no_types, lifting) list.simps(9) map_append)
  then have "clean_cmd_of ps = a @ (''find '' @ p @ '' -mindepth 1 -delete'') @ ('' 2>/dev/null || true'' @ b)" by simp
  then show ?thesis using c by metis
qed

lemma port_path_cleaned:
  assumes "is_local_mode dss" and "hp \<in> set (get_host_port_list d EloqTx)" and "split_once is_colon hp = Some (h, p)"
  shows "clean_paths dss c d \<noteq> [] \<and> (es_data_path_list c = None \<longrightarrow> port_data_path d p \<in> set (clean_paths dss c d))"
proof -
  have "port_data_path d p \<in> set (List.map_filter (\<lambda>hp. map_option (\<lambda>(_, p). port_data_path d p) (split_once is_colon hp)) (get_host_port_list d EloqTx))"
    using assms(2,3) by (force simp: List.map_filter_def)
  then have m: "port_data_path d p \<in> set (compute_default_data_paths dss d)"
    using assms(1) by (simp add: compute_default_data_paths_def default_paths_of_def)
  then have "compute_default_data_paths dss d \<noteq> []" by auto
  then show ?thesis using m by (auto simp: clean_paths_def Let_def split: option.splits)
qed

text \<open>C31. The start of a cluster with an embedded EloqStore in cloud mode begins with a stage that empties the data
  directories on the host of every master node, among them the directory its node file names, and none of
  these tasks looks whether the node is running: a start of a running cluster deletes under it.\<close>

theorem start_clears_without_looking:
  assumes "Option.bind (dep_storage_service (cfg_deployment cfg)) st_eloqdss = Some dss" and "is_local_mode dss"
    and "dss_backend_of dss = EloqStore c" and "is_cloud_mode c" and "\<not> reuses_local_files c"
    and "cluster_control e (CmdStart cl []) cfg = Some (Inr ctx)"
    and "hp \<in> set (get_host_port_list (cfg_deployment cfg) EloqTx)" and "split_once is_colon hp = Some (h, p)"
  shows "\<exists>n rest i t ct. barrier ctx = Some (n # rest) \<and> (i, t) \<in> set (take n (executable ctx)) \<and> tid_host i = h \<and> ti_task t = CtClean ct \<and>
    (es_data_path_list c = None \<longrightarrow> contains_sub (''find '' @ port_data_path (cfg_deployment cfg) p @ '' -mindepth 1 -delete'') (sc_cmd ct)) \<and>
    (\<forall>w x. hw_session w = Inr x \<and> ssh_auth_key (cfg_connection cfg) \<noteq> None \<longrightarrow> store_clean_execute w ct = run_clean w ct)"
proof -
  let ?d = "cfg_deployment cfg" and ?cmd = "CmdStart cl []"
  let ?paths = "clean_paths dss c ?d"
  note cleaned = port_path_cleaned [OF assms(2,7,8), of c]
  obtain b ex where s: "start_tasks e ?cmd cfg False = Some (Inr (b, ex))" "executable ctx = ex" "barrier ctx = Some b"
    using assms(6) by (auto simp: cluster_control_def control_stages_def bindO_Inr)
  obtain acc where acc: "start_stages e ?cmd [] cfg False = Some (Inr acc)" "extends acc (b, ex)"
    by (rule start_tasks_stages [OF s(1)])
  obtain cleans where cl: "start_clean_tasks ?cmd cfg = Inr cleans" "extends (push_nonempty cleans ([], [])) acc"
    by (rule start_stages_clean [OF acc(1)])
  let ?hosts = "uniq (map (\<lambda>hp. hd (split_on is_colon hp)) (get_host_port_list ?d EloqTx))"
  let ?mk = "clean_task_of ?cmd cfg ?paths Map.empty"
  have cleans: "cleans = lift_tasks CtClean (im_extend [] (map ?mk ?hosts))"
    using cl(1) assms(1-5) cleaned by (simp add: start_clean_tasks_def build_clean_tasks_def clean_targets_def Let_def)
  have h: "h \<in> set ?hosts" using assms(7) host_of_split [OF assms(8)] by force
  have "inj_on (fst \<circ> ?mk) A" for A by (rule inj_onI) (simp add: clean_task_of_def Let_def)
  then have "unique_ids (map ?mk ?hosts)" unfolding unique_ids_map by (simp add: distinct_map)
  then have c2: "cleans = lift_tasks CtClean (map ?mk ?hosts)" unfolding cleans by (simp only: im_extend_Nil)
  let ?t = "map_instance CtClean (snd (?mk h))"
  have mem: "(fst (?mk h), ?t) \<in> set cleans" unfolding c2 by (rule lift_tasks_mem) (use h in simp)
  have "cleans \<noteq> []" using mem by auto
  then have one: "push_nonempty cleans ([], []) = ([length cleans], cleans)"
    using clean_piece [OF cl(1)] by (simp add: push_nonempty_def push_stage_def im_extend_Nil piece_def)
  obtain rest x where "(b, ex) = (length cleans # rest, cleans @ x)"
    using extends_trans [OF cl(2) acc(2)] unfolding one extends_def fst_conv snd_conv append_Cons append_Nil by blast
  then have "barrier ctx = Some (length cleans # rest) \<and> (fst (?mk h), ?t) \<in> set (take (length cleans) (executable ctx))"
    using mem by (simp add: s)
  moreover have "tid_host (fst (?mk h)) = h" "ti_task ?t = CtClean (ti_task (snd (?mk h)))" "sc_cmd (ti_task (snd (?mk h))) = clean_cmd_of ?paths"
    "sc_check (ti_task (snd (?mk h))) = None" "sc_config (ti_task (snd (?mk h))) = cfg"
    by (simp_all add: clean_task_of_def map_instance_def Let_def)
  ultimately show ?thesis using contains_part cleaned
    by (intro exI [of _ "length cleans"] exI [of _ rest] exI [of _ "fst (?mk h)"] exI [of _ ?t] exI [of _ "ti_task (snd (?mk h))"])
      (auto simp: store_clean_execute_def)
qed

theorem start_clears_without_looking_witness:
  "\<exists>ctx i t ct. cluster_control sample_env (CmdStart ''c'' []) cloud_config = Some (Inr ctx) \<and> (i, t) \<in> set (executable ctx) \<and>
     ti_task t = CtClean ct \<and> tid_host i = ''a'' \<and>
     contains_sub (''find '' @ port_data_path (cfg_deployment cloud_config) ''6379'' @ '' -mindepth 1 -delete'') (sc_cmd ct)"
proof -
  obtain ctx where start: "cluster_control sample_env (CmdStart ''c'' []) cloud_config = Some (Inr ctx)"
    using start_exists [OF sample_clusters_plain(3), of "[]"] by auto
  have cfg: "Option.bind (dep_storage_service (cfg_deployment cloud_config)) st_eloqdss =
      Some \<lparr>dss_backend_of = EloqStore cloud_store, dss_peer_host_ports = None, dss_mode_of = Internal\<rparr>"
    by (simp add: cloud_config_def one_master_def dss_storage_def)
  have cloud: "es_data_path_list cloud_store = None" "is_cloud_mode cloud_store" "\<not> reuses_local_files cloud_store"
    by (simp_all add: cloud_store_def bare_store_def is_cloud_mode_def reuses_local_files_def)
  have host: "''a:6379'' \<in> set (get_host_port_list (cfg_deployment cloud_config) EloqTx)" "split_once is_colon ''a:6379'' = Some (''a'', ''6379'')"
    by (simp_all add: cloud_config_def plain_evaluation)
  obtain n i t ct where "(i, t) \<in> set (take n (executable ctx))" "tid_host i = ''a''" "ti_task t = CtClean ct"
      "contains_sub (''find '' @ port_data_path (cfg_deployment cloud_config) ''6379'' @ '' -mindepth 1 -delete'') (sc_cmd ct)"
    using start_clears_without_looking [OF cfg _ _ cloud(2,3) start host] cloud(1)
    by (auto simp: is_local_mode_def is_remote_mode_def)
  then show ?thesis using start in_set_takeD by fastforce
qed

end
