(* ===== verification/Check_Group.thy ===== *)
theory Check_Group
  imports Tx_Ctl Log_Groups
begin

text \<open>
  The checks before a launch (\<open>cli/task/check_task.rs\<close>, \<open>cli/task/group/check_group.rs\<close>): one task per
  service and host, which looks whether the ports of the service are free on its host. The shell is an
  argument.
\<close>

section \<open>The tasks\<close>

fun package_name :: "deployment_package \<Rightarrow> string" where
  "package_name EloqTx = ''eloq''"
| "package_name Storage = ''storage''"
| "package_name PrometheusPkg = ''prometheus''"
| "package_name AlertmanagerPkg = ''alertmanager''"
| "package_name GrafanaPkg = ''grafana''"
| "package_name PrometheusAlert = ''prometheusalert''"
| "package_name EloqLog = ''eloq_log''"
| "package_name EloqStandby = ''eloq_standby''"
| "package_name EloqVoter = ''eloq_voter''"

record check_task =
  ck_kind :: deployment_package
  ck_host :: string
  ck_config :: deploy_config

definition check_id :: "deployment_package \<Rightarrow> string \<Rightarrow> task_id" where
  "check_id kind host = \<lparr>tid_cmd = ''check'', tid_task = package_name kind, tid_host = host\<rparr>"

definition check_tasks_for :: "deploy_config \<Rightarrow> deployment_package \<Rightarrow> (task_id \<times> check_task task_instance) list" where
  "check_tasks_for cfg kind = im_extend [] (map (\<lambda>host. (check_id kind host,
     \<lparr>ti_input = Map.empty, ti_task = \<lparr>ck_kind = kind, ck_host = host, ck_config = cfg\<rparr>, ti_identifier = check_id kind host,
      ti_host = remote_host (cfg_connection cfg) host\<rparr>)) (get_host_list (cfg_deployment cfg) kind))"

definition checked_packages :: "deployment \<Rightarrow> deployment_package list" where
  "checked_packages d = [EloqTx, EloqStandby, EloqVoter, EloqLog] @
     (if dep_monitor d = None then [] else [PrometheusPkg, AlertmanagerPkg, GrafanaPkg, PrometheusAlert])"

definition check_group :: "sub_command \<Rightarrow> deploy_config \<Rightarrow> check_task task_context" where
  "check_group cmd cfg = \<lparr>task_group = command_name cmd, barrier = None,
     executable = fold (\<lambda>kind ex. im_extend ex (check_tasks_for cfg kind)) (checked_packages (cfg_deployment cfg)) []\<rparr>"

section \<open>What a task does\<close>

definition configured_ports_for_host :: "check_task \<Rightarrow> u16 list" where
  "configured_ports_for_host t = List.map_filter (\<lambda>hp. case rsplit_once is_colon hp of
       None \<Rightarrow> None
     | Some (host, p) \<Rightarrow> if host = ck_host t then parse_u16 p else None)
     (get_host_port_list (cfg_deployment (ck_config t)) (ck_kind t))"

definition node_exporter_port :: "deploy_config \<Rightarrow> u16 option" where
  "node_exporter_port cfg = map_option exporter_port (Option.bind (dep_monitor (cfg_deployment cfg)) mon_node_exporter)"

definition tx_conflict :: "check_task \<Rightarrow> u16 \<Rightarrow> string option" where
  "tx_conflict t p =
     (if p \<in> set (configured_ports_for_host t) then Some ''tx-service''
      else if configured_eloq_metrics_port 18081 (ck_config t) = Some p then Some ''eloq metrics''
      else if node_exporter_port (ck_config t) = Some p then Some ''node exporter'' else None)"

definition log_conflict :: "check_task \<Rightarrow> log_service \<Rightarrow> u16 \<Rightarrow> string option" where
  "log_conflict t srv p =
     (if p \<in> set (host_used_ports srv (ck_host t)) then Some ''log-service''
      else if node_exporter_port (ck_config t) = Some p then Some ''node exporter'' else None)"

text \<open>The port of a monitoring component with the name the message gives it.\<close>

definition component_socket :: "deployment_package \<Rightarrow> monitor \<Rightarrow> (string \<times> u16) option" where
  "component_socket kind m = (case kind of
     PrometheusPkg \<Rightarrow> map_option (\<lambda>c. (''prometheus'', prom_port c)) (mon_prometheus m)
   | AlertmanagerPkg \<Rightarrow> map_option (\<lambda>c. (''alertmanager'', am_port c)) (mon_alertmanager m)
   | GrafanaPkg \<Rightarrow> map_option (\<lambda>c. (''grafana'', graf_port c)) (mon_grafana m)
   | PrometheusAlert \<Rightarrow> map_option (\<lambda>c. (''alertmanager-webhook-adapter'', am_webhook_adapter_port c)) (mon_alertmanager m)
   | _ \<Rightarrow> None)"

fun report_used :: "(u16 \<Rightarrow> string option) \<Rightarrow> string \<Rightarrow> u16 list \<Rightarrow> execution_value option res" where
  "report_used conflict host [] = Inr None"
| "report_used conflict host (p # ps) = (case conflict p of
     Some what \<Rightarrow> Inl (Err (what @ '' socket '' @ host @ '':'' @ show_u16 p @ '' is already used''))
   | None \<Rightarrow> report_used conflict host ps)"

definition unwrap_none :: "'a res" where
  "unwrap_none = Inl (Panic ''called `Option::unwrap()` on a `None` value'')"

definition with_session :: "host_world \<Rightarrow> check_task \<Rightarrow> (string \<Rightarrow> 'a res) \<Rightarrow> 'a res" where
  "with_session w t f = (if ssh_auth_key (cfg_connection (ck_config t)) = None then unwrap_none
     else bindE (hw_session w) (\<lambda>(host, _). f host))"

definition check_tx_sv :: "host_world \<Rightarrow> check_task \<Rightarrow> execution_value option res" where
  "check_tx_sv w t = with_session w t (\<lambda>host. bindE (tx_used w host 0) (report_used (tx_conflict t) (ck_host t)))"

definition check_log_sv :: "host_world \<Rightarrow> check_task \<Rightarrow> execution_value option res" where
  "check_log_sv w t = (case dep_log_service (cfg_deployment (ck_config t)) of
     None \<Rightarrow> unwrap_none
   | Some srv \<Rightarrow> with_session w t (\<lambda>host. bindE (tx_used w host 0) (report_used (log_conflict t srv) (ck_host t))))"

definition check_component :: "host_world \<Rightarrow> check_task \<Rightarrow> execution_value option res" where
  "check_component w t = with_session w t (\<lambda>host.
     case Option.bind (dep_monitor (cfg_deployment (ck_config t))) (component_socket (ck_kind t)) of
       None \<Rightarrow> unwrap_none
     | Some (what, port) \<Rightarrow> bindE (tx_used w host 0) (report_used (\<lambda>p. if port = p then Some what else None) (ck_host t)))"

definition check_execute :: "host_world \<Rightarrow> check_task \<Rightarrow> execution_value option res" where
  "check_execute w t = (case ck_kind t of
     EloqTx \<Rightarrow> check_tx_sv w t | EloqStandby \<Rightarrow> check_tx_sv w t | EloqVoter \<Rightarrow> check_tx_sv w t
   | Storage \<Rightarrow> Inr None
   | EloqLog \<Rightarrow> check_log_sv w t
   | _ \<Rightarrow> check_component w t)"

section \<open>Lemmas\<close>

lemma check_task_ids:
  "unique_ids (check_tasks_for cfg kind)" "ids_of (check_tasks_for cfg kind) = check_id kind ` set (get_host_list (cfg_deployment cfg) kind)"
proof -
  show "unique_ids (check_tasks_for cfg kind)" by (simp add: check_tasks_for_def)
  show "ids_of (check_tasks_for cfg kind) = check_id kind ` set (get_host_list (cfg_deployment cfg) kind)"
    by (simp add: check_tasks_for_def) (simp add: ids_of_def image_image)
qed

lemma fold_extend_ids:
  "ids_of (fold (\<lambda>k ex. im_extend ex (f k)) ks ex) = ids_of ex \<union> (\<Union>k \<in> set ks. ids_of (f k))"
  "unique_ids ex \<Longrightarrow> unique_ids (fold (\<lambda>k ex. im_extend ex (f k)) ks ex)"
  by (induction ks arbitrary: ex) auto

lemma check_group_ids:
  "unique_ids (executable (check_group cmd cfg))" "\<forall>i \<in> ids_of (executable (check_group cmd cfg)). tid_cmd i = ''check''"
  by (auto simp: check_group_def fold_extend_ids check_task_ids check_id_def)

lemma check_group_wf: "wf_context (check_group cmd cfg)"
  using check_group_ids(1) [of cmd cfg] by (simp add: wf_context_def check_group_def unique_ids_def)

lemma report_used_iff: "report_used conflict host ps = Inr None \<longleftrightarrow> (\<forall>p \<in> set ps. conflict p = None)"
  by (induction ps) (auto split: option.splits)

text \<open>The check of a host passes exactly when none of its listening ports is a configured port of the service
  there, the metrics port or the port of the node exporter. The internal port of a node, which its start
  waits for as well, is not among them: with only that port taken the check passes.\<close>

lemma node_check_passes_iff:
  assumes "ck_kind t \<in> {EloqTx, EloqStandby, EloqVoter}" and "ssh_auth_key (cfg_connection (ck_config t)) \<noteq> None"
    and "hw_session w = Inr (host, user)" and "tx_used w host 0 = Inr used"
  shows "(check_execute w t = Inr None \<longleftrightarrow> (\<forall>p \<in> set used. p \<notin> set (configured_ports_for_host t) \<and>
      configured_eloq_metrics_port 18081 (ck_config t) \<noteq> Some p \<and> node_exporter_port (ck_config t) \<noteq> Some p)) \<and>
    (\<forall>base \<in> set (configured_ports_for_host t). used = [saturating_add_u16 base 10000] \<and>
      saturating_add_u16 base 10000 \<notin> set (configured_ports_for_host t) \<and> dep_monitor (cfg_deployment (ck_config t)) = None \<longrightarrow>
      check_execute w t = Inr None \<and> \<not> ports_match_state used (runtime_ports (ck_config t) base) False)"
proof -
  have e: "check_execute w t = report_used (tx_conflict t) (ck_host t) used"
    using assms by (auto simp: check_execute_def check_tx_sv_def with_session_def)
  have passes: "check_execute w t = Inr None \<longleftrightarrow> (\<forall>p \<in> set used. p \<notin> set (configured_ports_for_host t) \<and>
      configured_eloq_metrics_port 18081 (ck_config t) \<noteq> Some p \<and> node_exporter_port (ck_config t) \<noteq> Some p)"
    by (auto simp: e report_used_iff tx_conflict_def)
  moreover have "saturating_add_u16 base 10000 \<in> set (runtime_ports (ck_config t) base)" for base
    using critical_runtime_ports_exact [of 18081 "ck_config t" base] by (simp add: runtime_ports_def)
  moreover have "configured_eloq_metrics_port 18081 (ck_config t) = None \<and> node_exporter_port (ck_config t) = None"
    if "dep_monitor (cfg_deployment (ck_config t)) = None"
    using that by (simp add: configured_eloq_metrics_port_def node_exporter_port_def)
  ultimately show ?thesis by (auto simp: ports_match_state_def list_all_iff)
qed

definition node_check :: check_task where
  "node_check = \<lparr>ck_kind = EloqTx, ck_host = ''a'', ck_config = keyed_config\<rparr>"

text \<open>A listening socket on port 16379, as \<open>/proc/net/tcp\<close> shows it.\<close>

definition internal_port_taken :: host_world where
  "internal_port_taken = silent_host (\<lambda>_. Inr (0, ''0: 00000000:3FFB 00000000:0000 0A''))"

lemma internal_port_not_checked:
  "check_execute internal_port_taken node_check = Inr None \<and> \<not> ports_match_state [16379] (runtime_ports keyed_config 6379) False"
proof -
  have "str_lines ''0: 00000000:3FFB 00000000:0000 0A'' = [''0: 00000000:3FFB 00000000:0000 0A'']"
    using str_lines_join [of "[''0: 00000000:3FFB 00000000:0000 0A'']"] by simp
  moreover have "listening_port ''0: 00000000:3FFB 00000000:0000 0A'' = Some 16379"
    by (simp add: listening_port_def split_ws_def is_ws_def is_colon_def parse_hex_u16_def hex_digit_def)
  ultimately have used: "tx_used internal_port_taken ''a'' 0 = Inr [16379]"
    by (simp add: tx_used_def internal_port_taken_def silent_host_def used_tcp_ports_def map_filter_simps uniq_def)
  have "parse_u16 ''6379'' = Some 6379" by (simp add: eval_str)
  moreover have "rsplit_once is_colon ''a:6379'' = Some (''a'', ''6379'')" by (simp add: rsplit_once_def split_once_def is_colon_def)
  ultimately have ports: "configured_ports_for_host node_check = [6379]"
    by (simp add: configured_ports_for_host_def node_check_def keyed_config_def sample_config_def get_host_port_list_internal_def
        is_pipe_comma_def map_filter_simps)
  have key: "ssh_auth_key (cfg_connection (ck_config node_check)) \<noteq> None" by (simp add: node_check_def keyed_config_key)
  have session: "hw_session internal_port_taken = Inr (''a'', ''eloq'')" by (simp add: internal_port_taken_def silent_host_def)
  have none: "dep_monitor (cfg_deployment (ck_config node_check)) = None"
    by (simp add: node_check_def keyed_config_def sample_config_def)
  have "saturating_add_u16 6379 10000 = 16379" by (simp add: saturating_add_u16_def)
  then show ?thesis
    using node_check_passes_iff [of node_check internal_port_taken, OF _ key session used, THEN conjunct2] none
    by (simp add: ports) (simp add: node_check_def)
qed

end
