(* ===== verification/Launch_Groups.thy ===== *)
theory Launch_Groups
  imports Cluster_Ctl Check_Group Cluster_Lock
begin

text \<open>
  Task groups built from other groups and tasks: \<open>failover\<close> (\<open>cli/task/group/failover_group.rs\<close>), \<open>log-srv\<close>
  (\<open>cli/task/group/log_srv_ctl_group.rs\<close>), the bootstrap of EloqKV (\<open>cli/task/group/bootstrap_group.rs\<close>,
  \<open>cli/task/eloq_bootstrap_task.rs\<close>), \<open>remove\<close> (\<open>cli/task/group/remove_group.rs\<close>) and \<open>launch\<close>
  (\<open>cli/task/group/launch_group.rs\<close>).

  Arguments: what \<open>Cluster_Ctl\<close> takes, and the contexts of the groups for dependencies, deployment and
  backups with their tasks, of which \<open>'u\<close> stands for the executor.
\<close>

section \<open>Tasks\<close>

record install_task =
  it_config :: deploy_config
  it_id :: task_id

datatype 'u group_task =
    GtCluster cluster_task
  | GtFailover failover_op
  | GtInstall install_task
  | GtCheck check_task
  | GtExec string
  | GtGiven 'u

type_synonym 'u group_tasks = "(task_id \<times> 'u group_task task_instance) list"

definition cluster_part :: "cluster_tasks \<Rightarrow> 'u group_tasks" where
  "cluster_part ts = lift_tasks GtCluster ts"

definition topology_stage :: "deploy_config \<Rightarrow> string \<Rightarrow> string option \<Rightarrow> task_id \<times> 'u group_task task_instance" where
  "topology_stage cfg name pw = (let t = redis_stage cfg name ''_local'' (tx_and_standby cfg) pw True in (fst t, map_instance GtCluster (snd t)))"

definition context_of :: "string \<Rightarrow> 'x stage_acc \<Rightarrow> 'x task_context" where
  "context_of name acc = \<lparr>task_group = name, barrier = Some (fst acc), executable = snd acc\<rparr>"

section \<open>Failover\<close>

definition failover_task :: "deploy_config \<Rightarrow> string \<Rightarrow> u16 \<Rightarrow> string \<Rightarrow> u16 \<Rightarrow> string option \<Rightarrow> task_id \<times> 'u group_task task_instance" where
  "failover_task cfg old_host old_port new_host new_port pw =
     local_task \<lparr>tid_cmd = ''failover'', tid_task = ''execute-failover'', tid_host = ''_local''\<rparr>
       (GtFailover \<lparr>fo_old_host = old_host, fo_old_port = old_port, fo_new_host = new_host, fo_new_port = new_port, fo_password = pw,
          fo_endpoints = service_endpoints (cfg_connection cfg), fo_explicit = False\<rparr>)"

definition failover_group :: "sub_command \<Rightarrow> deploy_config \<Rightarrow> 'u group_task task_context res" where
  "failover_group cmd cfg = (case cmd of
     CmdFailover _ old_host old_port new_host new_port cli \<Rightarrow>
       (let pw = redis_password cfg cli;
            acc = push_task (topology_stage cfg ''pre-failover-topology'' pw) ([], []);
            acc = push_task (failover_task cfg old_host old_port new_host new_port pw) acc
        in Inr (context_of ''failover'' (push_task (topology_stage cfg ''post-failover-topology'' pw) acc)))
   | _ \<Rightarrow> Inl (Err ''Expected Failover command''))"

section \<open>The log service\<close>

definition probes_after :: "string \<Rightarrow> bool" where
  "probes_after c \<longleftrightarrow> to_lower c = ''start'' \<or> to_lower c = ''status''"

definition log_srv_group :: "cluster_env \<Rightarrow> sub_command \<Rightarrow> deploy_config \<Rightarrow> 'u group_task task_context res option" where
  "log_srv_group e cmd cfg = (case cmd of
     CmdLogService _ c \<Rightarrow> bindO (log_tasks e cmd cfg) (\<lambda>logs.
       (let acc = push_stage logs ([], []); name = ''log-srv-'' @ c
        in if probes_after c then map_option (\<lambda>probe. let acc = push_stage (lift_tasks CtProbe probe) acc
                in Inr \<lparr>task_group = name, barrier = Some (fst acc), executable = cluster_part (snd acc)\<rparr>) (log_probe_from_config cfg)
           else Some (Inr \<lparr>task_group = name, barrier = None, executable = cluster_part (snd acc)\<rparr>)))
   | _ \<Rightarrow> Some (Inl (Panic ''internal error: entered unreachable code: Expected LogService command'')))"

section \<open>Bootstrap\<close>

text \<open>The id has the host of the ssh endpoint.\<close>

definition install_from_config :: "deploy_config \<Rightarrow> task_host \<Rightarrow> string \<Rightarrow> task_id \<times> 'u group_task task_instance" where
  "install_from_config cfg th p =
     (let tid = \<lparr>tid_cmd = ''install'', tid_task = ''eloq-install-'' @ p, tid_host = snd (snd (ssh_conn_tuple th))\<rparr>
      in (tid, \<lparr>ti_input = Map.empty, ti_task = GtInstall \<lparr>it_config = cfg, it_id = tid\<rparr>, ti_identifier = tid, ti_host = th\<rparr>))"

definition bootstrap_task :: "deploy_config \<Rightarrow> string \<Rightarrow> (task_id \<times> 'u group_task task_instance) res" where
  "bootstrap_task cfg hp = (case split_on is_colon hp of
     h # p # _ \<Rightarrow> Inr (install_from_config cfg (remote_host (cfg_connection cfg) h) p)
   | _ \<Rightarrow> unwrap_none)"

definition first_host_only :: "deployment \<Rightarrow> bool" where
  "first_host_only d \<longleftrightarrow> (case dep_storage_service d of None \<Rightarrow> False | Some st \<Rightarrow> st_dynamodb st \<noteq> None \<or> st_eloqdss st \<noteq> None)"

definition skips_bootstrap :: "deployment \<Rightarrow> bool" where
  "skips_bootstrap d \<longleftrightarrow> (case dep_storage_service d of None \<Rightarrow> False
     | Some st \<Rightarrow> st_eloqdss st \<noteq> None \<and> length (get_host_port_list d EloqTx) = 1 \<and>
         \<not> (case standby_host_ports (tx_service d) of Some ps \<Rightarrow> ps \<noteq> [] | None \<Rightarrow> False))"

definition bootstrap_targets :: "deployment \<Rightarrow> string list" where
  "bootstrap_targets d = (let hps = get_host_port_list d EloqTx in take (if first_host_only d then 1 else length hps) hps)"

definition install_servers :: "deploy_config \<Rightarrow> cluster_tasks res" where
  "install_servers cfg = (case Option.bind (dep_storage_service (cfg_deployment cfg)) st_eloqdss of
     Some dss \<Rightarrow> if managed_remote dss then dss_tasks (CmdInstall (cluster_name (cfg_deployment cfg))) cfg else Inr []
   | None \<Rightarrow> Inr [])"

definition install_cleans :: "sub_command \<Rightarrow> deploy_config \<Rightarrow> (task_id \<times> store_clean_task task_instance) list res" where
  "install_cleans cmd cfg = (case Option.bind (dep_storage_service (cfg_deployment cfg)) st_eloqdss of
     Some _ \<Rightarrow> build_clean_tasks cmd cfg (Some (map (hd \<circ> split_on is_colon) (bootstrap_targets (cfg_deployment cfg))))
   | None \<Rightarrow> Inr [])"

definition install_stages :: "sub_command \<Rightarrow> deploy_config \<Rightarrow> 'u group_task stage_acc res" where
  "install_stages cmd cfg = bindE (install_servers cfg) (\<lambda>servers.
     let acc = push_nonempty (cluster_part servers) ([], [])
     in if skips_bootstrap (cfg_deployment cfg) then Inr acc
        else bindE (mapE (bootstrap_task cfg) (bootstrap_targets (cfg_deployment cfg))) (\<lambda>ts.
             bindE (install_cleans cmd cfg) (\<lambda>cleans.
             Inr (push_nonempty (cluster_part (lift_tasks CtClean cleans)) (push_stage (im_extend [] ts) acc)))))"

definition install_group :: "sub_command \<Rightarrow> deploy_config \<Rightarrow> 'u group_task task_context res" where
  "install_group cmd cfg = bindE (install_stages cmd cfg) (\<lambda>acc. Inr (context_of (command_name cmd) acc))"

text \<open>The backslashes before the line ends are part of the raw string; the shell joins the lines.\<close>

definition joined_line :: string where "joined_line = [bslash, CHR 0x0A]"

definition bootstrap_sh :: "deployment \<Rightarrow> string \<Rightarrow> string" where
  "bootstrap_sh d p =
     (let dir = tx_srv_home d;
          head = (if version_of d = Some Debug then export_asan ''logs/bootstrap-asan'' (uses_eloqstore_storage d) (\<not> uses_eloqstore_storage d)
                  else ''export LD_PRELOAD='' @ dir @ ''/lib/libmimalloc.so.2'')
      in ''cd '' @ dir @ ''; mkdir -p logs/std-output; '' @ gen_env_exports d @ ''export '' @ joined_line @ ''LD_LIBRARY_PATH='' @ dir @
         ''/lib:$LD_LIBRARY_PATH; '' @ head @ ''; bin/eloqkv --config='' @ tx_srv_ini d p @ '' '' @ joined_line @
         ''--bootstrap > logs/bootstrap-'' @ p @ ''.log 2>&1 '')"

definition install_execute :: "host_world \<Rightarrow> install_task \<Rightarrow> execution_value option res" where
  "install_execute w t =
     (if ssh_auth_key (cfg_connection (it_config t)) = None then unwrap_none
      else bindE (hw_session w) (\<lambda>_.
        (let d = cfg_deployment (it_config t);
             p = (case rsplit_once is_dash (tid_task (it_id t)) of Some (_, p) \<Rightarrow> p | None \<Rightarrow> tid_task (it_id t));
             sh = bootstrap_sh d p
         in if tx_srv_ini d p = [] then Inl (Err (''cannot bootstrap EloqKV: missing config file for port '' @ p))
            else bindE (hw_run w sh 0) (\<lambda>(s, out). bindE (hw_close w) (\<lambda>_. task_return (task_output sh s out) (EloqInstallErr sh))))))"

section \<open>Removal\<close>

definition log_clean_task :: "sub_command \<Rightarrow> deploy_config \<Rightarrow> (string \<rightharpoonup> string list) \<Rightarrow> string \<Rightarrow> task_id \<times> 'u group_task task_instance" where
  "log_clean_task cmd cfg dirs host =
     (let tid = \<lparr>tid_cmd = command_name cmd, tid_task = ''clean_log@'' @ host, tid_host = host\<rparr>
      in (tid, \<lparr>ti_input = Map.empty, ti_task = GtExec (join '' && '' (map (\<lambda>d. ''rm -rf '' @ d) (case dirs host of Some ds \<Rightarrow> ds | None \<Rightarrow> []))),
           ti_identifier = tid, ti_host = remote_host (cfg_connection cfg) host\<rparr>))"

definition exec_from_config :: "sub_command \<Rightarrow> string \<Rightarrow> string \<Rightarrow> deploy_config \<Rightarrow> 'u group_tasks" where
  "exec_from_config cmd name content cfg = im_extend [] (map (\<lambda>host.
     (let tid = \<lparr>tid_cmd = command_name cmd, tid_task = name @ ''@'' @ host, tid_host = host\<rparr>
      in (tid, \<lparr>ti_input = Map.empty, ti_task = GtExec content, ti_identifier = tid, ti_host = remote_host (cfg_connection cfg) host\<rparr>)))
     (get_unique_host_list cfg))"

definition custom_group :: "sub_command \<Rightarrow> deploy_config \<Rightarrow> 'u group_task task_context res" where
  "custom_group cmd cfg = (case cmd of
     CmdExec content _ \<Rightarrow> Inr \<lparr>task_group = command_name cmd, barrier = None, executable = exec_from_config cmd ''exec'' content cfg\<rparr>
   | _ \<Rightarrow> Inl (Panic ''internal error: entered unreachable code''))"

definition remove_stop :: "cluster_env \<Rightarrow> string \<Rightarrow> deploy_config \<Rightarrow> 'u group_task stage_acc res option" where
  "remove_stop e cluster cfg = bindO (cluster_control e (CmdRemove cluster False) cfg) (\<lambda>ctx.
     Some (Inr (case barrier ctx of Some b \<Rightarrow> b | None \<Rightarrow> [length (executable ctx)], cluster_part (executable ctx))))"

definition log_clean_stage :: "cluster_env \<Rightarrow> sub_command \<Rightarrow> deploy_config \<Rightarrow> 'u group_task stage_acc \<Rightarrow> 'u group_task stage_acc res option" where
  "log_clean_stage e cmd cfg acc = (case dep_log_service (cfg_deployment cfg) of
     None \<Rightarrow> Some (Inr acc)
   | Some srv \<Rightarrow> map_option (\<lambda>dirs. Inr (push_stage (im_extend [] (map (log_clean_task cmd cfg dirs)
       (filter (\<lambda>h. dirs h \<noteq> None) (cl_log_hosts e)))) acc)) (log_directories srv))"

definition provider_known :: "deployment \<Rightarrow> unit res" where
  "provider_known d = (case dep_storage_service d of None \<Rightarrow> Inr () | Some st \<Rightarrow> if provider st = None then unwrap_none else Inr ())"

definition remove_group :: "cluster_env \<Rightarrow> (task_id \<times> 'u task_instance) list res \<Rightarrow> sub_command \<Rightarrow> deploy_config \<Rightarrow>
    'u group_task task_context res option" where
  "remove_group e backups cmd cfg = (case cmd of
     CmdRemove cluster force \<Rightarrow>
       (let d = cfg_deployment cfg; name = command_name cmd
        in if force then Some (bindE (provider_known d) (\<lambda>_. Inr (context_of name ([], []))))
           else bindO (remove_stop e cluster cfg) (\<lambda>acc.
                bindO (log_clean_stage e cmd cfg acc) (\<lambda>acc.
                Some (bindE (provider_known d) (\<lambda>_. bindE backups (\<lambda>bs.
                  Inr (context_of name (push_stage (lift_tasks GtGiven bs)
                    (push_stage (exec_from_config cmd ''clean'' (''rm -rf '' @ install_dir d) cfg) acc)))))))))
   | _ \<Rightarrow> Some (Inl (Panic ''internal error: entered unreachable code'')))"

section \<open>Launch\<close>

text \<open>What the groups that are arguments give: by the topology file where they get one.\<close>

record 'u launch_parts =
  la_ssh :: "(task_id \<times> 'u task_instance) list"
  la_deps :: "string \<Rightarrow> 'u task_context res"
  la_deploy :: "string \<Rightarrow> 'u task_context res"
  la_conf_dir :: "string res"
  la_uploads :: "(task_id \<times> monitor_group_task task_instance) list"

definition lift_context :: "('a \<Rightarrow> 'b) \<Rightarrow> 'a task_context \<Rightarrow> 'b task_context" where
  "lift_context f ctx = \<lparr>task_group = task_group ctx, barrier = barrier ctx, executable = lift_tasks f (executable ctx)\<rparr>"

definition launch_source :: "'u launch_parts \<Rightarrow> sub_command \<Rightarrow> (bool \<times> string) res" where
  "launch_source parts cmd = (case cmd of
     CmdLaunch topo skip \<Rightarrow> Inr (skip, topo)
   | CmdDemo product _ _ skip _ _ _ \<Rightarrow> bindE (la_conf_dir parts) (\<lambda>dir. Inr (skip, dir @ ''/demo-'' @ product_display product @ ''.yaml''))
   | _ \<Rightarrow> Inl (Panic ''internal error: entered unreachable code''))"

definition log_startup :: "cluster_env \<Rightarrow> deploy_config \<Rightarrow> 'u group_task task_context res option" where
  "log_startup e cfg = (if dep_log_service (cfg_deployment cfg) = None then Some (Inr dummy_context)
     else bindO (start_log_stages e (CmdStart (cluster_name (cfg_deployment cfg)) []) cfg ([], [])) (\<lambda>(b, ex).
       Some (Inr \<lparr>task_group = ''log-service-startup'', barrier = Some b, executable = cluster_part ex\<rparr>)))"

definition launch_start :: "cluster_env \<Rightarrow> deploy_config \<Rightarrow> 'u group_task task_context res option" where
  "launch_start e cfg = bindO (start_tasks e (CmdStart (cluster_name (cfg_deployment cfg)) []) cfg True) (\<lambda>(b, ex).
     Some (Inr \<lparr>task_group = ''cluster-control-start'', barrier = Some b, executable = cluster_part ex\<rparr>))"

definition launch_contexts :: "cluster_env \<Rightarrow> 'u launch_parts \<Rightarrow> sub_command \<Rightarrow> deploy_config \<Rightarrow> 'u group_task task_context list res option" where
  "launch_contexts e parts cmd cfg =
     (let d = cfg_deployment cfg; name = cluster_name d in
      bindO (Some (launch_source parts cmd)) (\<lambda>(skip, topo).
      bindO (Some (if skip then Inr dummy_context else la_deps parts topo)) (\<lambda>deps.
      bindO (log_startup e cfg) (\<lambda>logs.
      bindO (Some (la_deploy parts topo)) (\<lambda>deploy.
      bindO (Some (if dep_storage_service d = None then Inr dummy_context else install_group (CmdInstall name) cfg)) (\<lambda>install.
      bindO (launch_start e cfg) (\<lambda>start.
      bindO (Some (monitor_group (la_uploads parts) (cl_pkgs e) (Some name) (MonitorStart None []) cfg)) (\<lambda>monitor.
      Some (Inr [lift_context GtGiven deps, lift_context GtCheck (check_group (CmdCheck topo) cfg), lift_context GtGiven deploy,
        logs, install, start, lift_context (GtCluster \<circ> CtMonitor) monitor])))))))))"

definition launch_group :: "cluster_env \<Rightarrow> 'u launch_parts \<Rightarrow> sub_command \<Rightarrow> deploy_config \<Rightarrow> 'u group_task task_context res option" where
  "launch_group e parts cmd cfg = bindO (launch_contexts e parts cmd cfg) (\<lambda>ctxs.
     (let acc = push_stage (lift_tasks GtGiven (la_ssh parts)) ([], []);
          acc = merge_execution (fst acc) (snd acc) ctxs;
          acc = push_task (topology_stage cfg ''get-topology'' (redis_password cfg None)) acc;
          acc = push_stage [local_task \<lparr>tid_cmd = ''topology-update'', tid_task = ''redis'', tid_host = ''local''\<rparr> (GtCluster CtSaveTopology)] acc;
          acc = push_task (local_task \<lparr>tid_cmd = ''topology'', tid_task = ''display-topology'', tid_host = ''_local''\<rparr>
                  (GtCluster (CtDisplay (cluster_name (cfg_deployment cfg))))) acc
      in Some (Inr (context_of (command_name cmd) acc))))"

section \<open>Contexts of single groups\<close>

lemma ids_lift [simp]: "ids_of (lift_tasks f ts) = ids_of ts" "unique_ids (lift_tasks f ts) = unique_ids ts" "length (lift_tasks f ts) = length ts"
proof -
  have f: "map fst (lift_tasks f ts) = map fst ts" by (simp add: lift_tasks_def case_prod_beta)
  then show "ids_of (lift_tasks f ts) = ids_of ts" "unique_ids (lift_tasks f ts) = unique_ids ts"
    by (metis ids_of_def list.set_map) (simp add: unique_ids_def f)
  show "length (lift_tasks f ts) = length ts" by (simp add: lift_tasks_def)
qed

lemma ids_cluster_part [simp]: "ids_of (cluster_part ts) = ids_of ts" "unique_ids (cluster_part ts) = unique_ids ts" "length (cluster_part ts) = length ts"
  by (simp_all add: cluster_part_def)

lemma context_of_wf: "balanced acc \<Longrightarrow> wf_context (context_of name acc)"
  using balanced_wf [of "fst acc" "snd acc"] by (simp add: context_of_def)

lemma failover_group_wf:
  assumes "failover_group cmd cfg = Inr ctx"
  shows "wf_context ctx" and "barrier ctx = Some [1, 1, 1]"
proof -
  obtain c oh op nh np cli where cmd: "cmd = CmdFailover c oh op nh np cli" using assms by (cases cmd) (simp_all add: failover_group_def)
  show "wf_context ctx" using assms unfolding cmd
    by (auto simp: failover_group_def topology_stage_def redis_stage_def failover_task_def local_task_def Let_def
        intro!: context_of_wf balanced_push_task)
  show "barrier ctx = Some [1, 1, 1]" using assms unfolding cmd
    by (auto simp: failover_group_def context_of_def push_task_def Let_def)
qed

lemma log_srv_group_wf:
  assumes "log_srv_group e cmd cfg = Some (Inr ctx)"
  shows "wf_context ctx"
proof -
  obtain cl c where cmd: "cmd = CmdLogService cl c" using assms by (cases cmd) (simp_all add: log_srv_group_def)
  obtain logs where logs: "log_tasks e cmd cfg = Some (Inr logs)" using assms by (auto simp: cmd log_srv_group_def bindO_Inr)
  have p: "piece {''eloq_log_'' @ c} logs" using log_piece [OF logs] by (simp add: cmd cluster_cmd_string_def)
  then have one: "tagged {''eloq_log_'' @ c} (push_stage logs ([], []))" using tagged_push(1) [OF tagged_Nil p] by simp
  show ?thesis
  proof (cases "probes_after c")
    case True
    obtain ps where ps: "log_probe_from_config cfg = Some ps" and ctx: "ctx = \<lparr>task_group = ''log-srv-'' @ c,
        barrier = Some (fst (push_stage (lift_tasks CtProbe ps) (push_stage logs ([], [])))),
        executable = cluster_part (snd (push_stage (lift_tasks CtProbe ps) (push_stage logs ([], []))))\<rparr>"
      using assms logs True by (auto simp: cmd log_srv_group_def bindO_Inr Let_def)
    have "c \<noteq> ''service_probe''" using True by (auto simp: probes_after_def to_lower_def)
    then have "tagged ({''eloq_log_'' @ c} \<union> {''eloq_log_service_probe''}) (push_stage (lift_tasks CtProbe ps) (push_stage logs ([], [])))"
      using probe_piece [OF ps] by (intro tagged_push(1) [OF one]) simp_all
    then show ?thesis by (simp add: ctx tagged_def balanced_def wf_context_def unique_ids_def [symmetric] del: snd_push)
  next
    case False
    have "unique_ids (cluster_part (snd (push_stage logs ([], []))))" using one by (simp add: tagged_def balanced_def)
    then show ?thesis using assms logs False by (auto simp: cmd log_srv_group_def bindO_def wf_context_def unique_ids_def Let_def)
  qed
qed

lemma bootstrap_ids:
  assumes "mapE (bootstrap_task cfg) hps = Inr ts"
  shows "\<forall>i \<in> ids_of ts. tid_cmd i = ''install'' \<and> (\<exists>p. tid_task i = ''eloq-install-'' @ p)"
proof
  fix i assume "i \<in> ids_of ts"
  then obtain x where "(i, x) \<in> set ts" by (auto simp: ids_of_def)
  then obtain hp where "bootstrap_task cfg hp = Inr (i, x)" using mapE_mem [OF assms] by blast
  then show "tid_cmd i = ''install'' \<and> (\<exists>p. tid_task i = ''eloq-install-'' @ p)"
    by (auto simp: bootstrap_task_def unwrap_none_def install_from_config_def Let_def split: list.splits)
qed

lemma install_stages_balanced:
  assumes "install_stages (CmdInstall c) cfg = Inr acc"
  shows "balanced acc \<and> (\<forall>i \<in> ids_of (snd acc). tid_cmd i \<in> {''dss_install'', ''install''})"
proof -
  obtain servers where s: "install_servers cfg = Inr servers"
    and rest: "(let acc = push_nonempty (cluster_part servers) ([], [])
         in if skips_bootstrap (cfg_deployment cfg) then Inr acc
            else bindE (mapE (bootstrap_task cfg) (bootstrap_targets (cfg_deployment cfg))) (\<lambda>ts. bindE (install_cleans (CmdInstall c) cfg) (\<lambda>cleans.
                 Inr (push_nonempty (cluster_part (lift_tasks CtClean cleans)) (push_stage (im_extend [] ts) acc))))) = Inr acc"
    using assms unfolding install_stages_def bindE_Inr_iff by blast
  have "piece {''dss_install''} servers"
    using s dss_piece [of "CmdInstall (cluster_name (cfg_deployment cfg))" cfg servers] by (auto simp: install_servers_def split: option.splits if_splits)
  then have su: "unique_ids servers" "\<forall>i \<in> ids_of servers. tid_cmd i = ''dss_install''"
  proof -
    show "unique_ids servers" using \<open>piece {''dss_install''} servers\<close> by (simp add: piece_def)
    have "tag i = ''dss_install'' \<Longrightarrow> tid_cmd i = ''dss_install''" for i by (auto simp: tag_def split: if_splits)
    then show "\<forall>i \<in> ids_of servers. tid_cmd i = ''dss_install''" using piece_ids [OF \<open>piece {''dss_install''} servers\<close>] by blast
  qed
  let ?acc = "push_nonempty (cluster_part servers) ([], [])"
  have b0: "balanced ?acc" using su(1) by (intro balanced_push_nonempty) simp_all
  show ?thesis
  proof (cases "skips_bootstrap (cfg_deployment cfg)")
    case True
    then show ?thesis using rest b0 su(2) by auto
  next
    case False
    obtain ts cleans where ts: "mapE (bootstrap_task cfg) (bootstrap_targets (cfg_deployment cfg)) = Inr ts"
      and cl: "install_cleans (CmdInstall c) cfg = Inr cleans"
      and acc: "acc = push_nonempty (cluster_part (lift_tasks CtClean cleans)) (push_stage (im_extend [] ts) ?acc)"
      using rest False by (auto simp: Let_def bindE_Inr_iff)
    note ti = bootstrap_ids [OF ts]
    have ci: "unique_ids cleans" "\<forall>i \<in> ids_of cleans. is_clean_id ''install'' i"
      using cl clean_tasks_ids [of "CmdInstall c" cfg] by (auto simp: install_cleans_def split: option.splits)
    have "balanced (push_stage (im_extend [] ts) ?acc)"
      using su(2) ti by (intro balanced_push_stage [OF b0]) auto
    moreover have "ids_of ts \<inter> ids_of cleans = {}" using ti ci(2) by (fastforce simp: is_clean_id_def)
    moreover have "ids_of servers \<inter> ids_of cleans = {}" using su(2) ci(2) by (fastforce simp: is_clean_id_def)
    ultimately have "balanced acc" unfolding acc using ci(1) by (intro balanced_push_nonempty) auto
    then show ?thesis using su(2) ti ci(2) by (auto simp: acc is_clean_id_def)
  qed
qed

end
