(* ===== verification/Launch_Props.thy ===== *)
theory Launch_Props
  imports Launch_Groups
begin

text \<open>
  The context of a launch is well formed. Its parts are told apart by the command of the task ids; only the tasks
  that look at the monitoring components and those that start them share a command, and differ in the
  name of the task.
\<close>

section \<open>Classes of ids\<close>

definition status_named :: "task_id \<Rightarrow> bool" where
  "status_named i \<longleftrightarrow> (\<exists>c \<in> component_names. \<exists>p. tid_task i = ctl_name c (MonitorStatus None []) p)"

definition class_of :: "task_id \<Rightarrow> string" where
  "class_of i = (if tag i = ''monitor'' \<and> status_named i then ''monitor:status'' else tag i)"

definition classed :: "string set \<Rightarrow> 'x stage_acc \<Rightarrow> bool" where
  "classed S acc \<longleftrightarrow> balanced acc \<and> class_of ` ids_of (snd acc) \<subseteq> S"

lemma merge_classed:
  assumes "classed S acc" and "wf_context c" and "class_of ` ids_of (executable c) \<subseteq> T" and "S \<inter> T = {}"
  shows "classed (S \<union> T) (merge_one acc c)"
proof (cases acc)
  case (Pair b ex)
  have d: "fst ` set ex \<inter> fst ` set (executable c) = {}"
    using assms(1,3,4) unfolding classed_def Pair snd_conv ids_of_def by blast
  obtain b' where b': "merge_one (b, ex) c = (b', ex @ executable c)" "sum_list b' = length (ex @ executable c)"
      "distinct (map fst (ex @ executable c))"
    using merge_one_wf [OF _ _ assms(2) d, of b] assms(1) unfolding classed_def Pair balanced_def unique_ids_def by auto
  then show ?thesis using assms(1,3) by (auto simp: Pair classed_def balanced_def unique_ids_def)
qed

lemma merge_all_classed:
  assumes "list_all2 (\<lambda>c T. wf_context c \<and> class_of ` ids_of (executable c) \<subseteq> set T) cs Ts"
    and "classed (set S) acc" and "distinct (concat (S # Ts))"
  shows "classed (set (concat (S # Ts))) (merge_execution (fst acc) (snd acc) cs)"
  using assms
proof (induction cs Ts arbitrary: S acc rule: list_all2_induct)
  case (Cons c cs T Ts)
  have "classed (set S \<union> set T) (merge_one acc c)"
    by (rule merge_classed [OF Cons.prems(1)]) (use Cons.hyps(1) Cons.prems(2) in auto)
  then have "classed (set (concat ((S @ T) # Ts))) (merge_execution (fst (merge_one acc c)) (snd (merge_one acc c)) cs)"
    using Cons.prems(2) by (intro Cons.IH) simp_all
  then show ?case by (simp add: merge_execution_def Un_assoc)
qed (simp add: merge_execution_def)

section \<open>The parts\<close>

text \<open>With the log service started earlier, a start does not start it again.\<close>

definition started_tags :: "string set" where
  "started_tags = insert ''topology:wait-current-master''
     (({''start:eloq_store_data_clean'', ''dss_start''} \<union> start_tx_tags) \<union> status_tags)"

lemma start_skip_stages:
  assumes "start_tasks e (CmdStart c []) cfg True = Some (Inr acc)"
  obtains a1 ts where "tagged ({''start:eloq_store_data_clean'', ''dss_start''} \<union> start_tx_tags) a1"
    "status_tasks e (CmdStatus c None None None False) cfg = Some (Inr ts)"
    "acc = (if awaits_master cfg then push_task (redis_stage cfg ''wait-current-master'' ''_local'' (tx_and_standby cfg) (redis_password cfg None) True)
        (push_stage ts a1) else push_stage ts a1)"
proof -
  let ?cmd = "CmdStart c []"
  let ?wait = "redis_stage cfg ''wait-current-master'' ''_local'' (tx_and_standby cfg) (redis_password cfg None) True"
  obtain a1 ts where r: "start_stages e ?cmd [] cfg True = Some (Inr a1)"
      "status_tasks e (CmdStatus c None None None False) cfg = Some (Inr ts)"
      "acc = (if awaits_master cfg then push_task ?wait (push_stage ts a1) else push_stage ts a1)"
    using assms by (auto simp: start_tasks_def bindO_Inr Let_def)
  obtain cleans a0 txs where q: "start_clean_tasks ?cmd cfg = Inr cleans"
      "(if starts_dss (cfg_deployment cfg) then bindE (dss_tasks ?cmd cfg) (\<lambda>ts. Inr (push_stage ts (push_nonempty cleans ([], []))))
        else Inr (push_nonempty cleans ([], []))) = Inr a0"
      "start_tx_tasks e ?cmd cfg = Inr txs" "a1 = push_stage txs a0"
    using r(1) by (auto simp: start_stages_def bindO_Inr bindE_Inr_iff)
  have "piece {''start:eloq_store_data_clean''} cleans" using clean_piece [OF q(1)] by simp
  from tagged_push(2) [OF tagged_Nil this] have t0: "tagged {''start:eloq_store_data_clean''} (push_nonempty cleans ([], []))" by simp
  have "tagged ({''start:eloq_store_data_clean''} \<union> {''dss_start''}) (push_stage ts (push_nonempty cleans ([], [])))"
    if ts: "dss_tasks ?cmd cfg = Inr ts" for ts
    using dss_piece [OF ts] by (intro tagged_push(1) [OF t0]) simp_all
  then have "tagged {''start:eloq_store_data_clean'', ''dss_start''} a0"
    using q(2) tagged_mono [OF t0] by (auto simp: bindE_Inr_iff insert_commute split: if_splits)
  from tagged_push(1) [OF this start_tx_piece [OF q(3)]] show ?thesis using that r(2,3) by (simp add: q(4) start_tx_tags_def)
qed

lemma start_skip_tagged:
  assumes "start_tasks e (CmdStart c []) cfg True = Some (Inr acc)"
  shows "tagged started_tags acc"
proof -
  let ?T = "{''start:eloq_store_data_clean'', ''dss_start''} \<union> start_tx_tags"
  let ?wait = "redis_stage cfg ''wait-current-master'' ''_local'' (tx_and_standby cfg) (redis_password cfg None) True"
  obtain a1 ts where t1: "tagged ?T a1" and r: "status_tasks e (CmdStatus c None None None False) cfg = Some (Inr ts)"
      "acc = (if awaits_master cfg then push_task ?wait (push_stage ts a1) else push_stage ts a1)"
    by (rule start_skip_stages [OF assms])
  have t2: "tagged (?T \<union> status_tags) (push_stage ts a1)"
    by (rule tagged_push(1) [OF t1 status_tasks_piece [OF r(1)]]) (simp add: start_tx_tags_def status_tags_def)
  have w: "tag (fst ?wait) = ''topology:wait-current-master''" by (simp add: redis_stage_def local_task_def tag_def)
  have "tag (fst ?wait) \<notin> ?T \<union> status_tags" unfolding w by (simp add: start_tx_tags_def status_tags_def)
  from tagged_push_task [OF t2 this] w have "tagged started_tags (push_task ?wait (push_stage ts a1))" by (simp add: started_tags_def)
  moreover have "tagged started_tags (push_stage ts a1)" using t2 by (rule tagged_mono) (unfold started_tags_def, rule subset_insertI)
  ultimately show ?thesis by (simp add: r(2))
qed

lemma tag_monitor: "tag i = ''monitor'' \<longleftrightarrow> tid_cmd i = ''monitor''"
  by (auto simp: tag_def)

text \<open>Of the tasks of a start, those under \<open>monitor\<close> look at a component.\<close>

lemma monitor_status_named:
  assumes "monitor_status_tasks e cfg = Inr ts" and "i \<in> ids_of ts"
  shows "status_named i"
proof -
  obtain sets where s: "phase_sets (cl_pkgs e) cfg [] (MonitorStatus None []) = Inr sets" and ts: "ts = lift_tasks CtMonitor (concat (map as_ctl sets))"
    using assms by (cases "dep_monitor (cfg_deployment cfg)") (auto simp: monitor_status_tasks_def bindE_Inr_iff)
  obtain a b c d f where n: "sets = [a, b, c, d, f]" "named ''node_exporter'' (MonitorStatus None []) a" "named ''prometheus'' (MonitorStatus None []) b"
      "named ''alertmanager'' (MonitorStatus None []) c" "named ''grafana'' (MonitorStatus None []) d"
      "named ''alertmanager-webhook-adapter'' (MonitorStatus None []) f"
    using phase_sets_named [OF s] by metis
  from assms(2) have "i \<in> ids_of a \<or> i \<in> ids_of b \<or> i \<in> ids_of c \<or> i \<in> ids_of d \<or> i \<in> ids_of f" by (simp add: ts n(1))
  moreover have "status_named i" if "named k (MonitorStatus None []) us" "i \<in> ids_of us" "k \<in> component_names" for k us
    using that unfolding named_def status_named_def by blast
  ultimately show ?thesis using n(2-6) component_namesI by blast
qed

lemma status_monitor_named:
  assumes "status_tasks e (CmdStatus c u p w d) cfg = Some (Inr ts)" and "i \<in> ids_of ts" and "tag i = ''monitor''"
  shows "status_named i"
proof -
  let ?cmd = "CmdStatus c u p w d"
  obtain dss logs ss vs txs ms where r: "(if starts_dss (cfg_deployment cfg) then dss_tasks ?cmd cfg else Inr []) = Inr dss"
      "(if dep_log_service (cfg_deployment cfg) \<noteq> None then log_tasks e ?cmd cfg else Some (Inr [])) = Some (Inr logs)"
      "(if has_standbys cfg then tx_tasks e (status_tx_command ?cmd) cfg StandbyServer else Inr []) = Inr ss"
      "(if voter_host_ports (tx_service (cfg_deployment cfg)) \<noteq> None then tx_tasks e ?cmd cfg VoterServer else Inr []) = Inr vs"
      "tx_tasks e (status_tx_command ?cmd) cfg TxServer = Inr txs" "monitor_status_tasks e cfg = Inr ms"
      "ts = im_extend [] (dss @ logs @ ss @ vs @ txs @ ms)"
    using assms(1) by (auto simp: status_tasks_def Let_def bindO_Inr)
  have ref: "cluster_cmd_string ?cmd = Inr ''status''" by (simp add: cluster_cmd_string_def)
  have name: "ctl_name_of ?cmd" "ctl_name_of (status_tx_command ?cmd)" "command_name (status_tx_command ?cmd) = ''status''"
    by (simp_all add: status_tx_command_def)
  have "piece {''dss_status''} dss" using r(1) dss_piece [of ?cmd cfg dss] by (auto split: if_splits)
  moreover have "piece {''eloq_log_status''} logs" using r(2) log_piece [OF _ ref] by (auto split: if_splits)
  moreover have "piece {''status:standby''} ss" using r(3) tx_piece(1) [OF name(2), of e cfg StandbyServer ss] name(3) by (auto split: if_splits)
  moreover have "piece {''status:voter''} vs" using r(4) tx_piece(1) [OF name(1), of e cfg VoterServer vs] by (auto split: if_splits)
  moreover have "piece {''status:txservice''} txs" using tx_piece(1) [OF name(2) r(5)] name(3) by simp
  ultimately have "i \<in> ids_of ms" using assms(2,3) by (auto simp: r(7) piece_def)
  then show ?thesis by (rule monitor_status_named [OF r(6)])
qed

lemma start_classes:
  assumes "start_tasks e (CmdStart c []) cfg True = Some (Inr acc)"
  shows "class_of ` ids_of (snd acc) \<subseteq> insert ''monitor:status'' (started_tags - {''monitor''})"
proof -
  obtain a1 ts where t1: "tagged ({''start:eloq_store_data_clean'', ''dss_start''} \<union> start_tx_tags) a1"
    and r: "status_tasks e (CmdStatus c None None None False) cfg = Some (Inr ts)"
      "acc = (if awaits_master cfg then push_task (redis_stage cfg ''wait-current-master'' ''_local'' (tx_and_standby cfg) (redis_password cfg None) True)
        (push_stage ts a1) else push_stage ts a1)"
    by (rule start_skip_stages [OF assms])
  have n: "status_named i" if i: "i \<in> ids_of (snd acc)" and m: "tag i = ''monitor''" for i
  proof -
    have "i \<notin> ids_of (snd a1)" using t1 m by (auto simp: tagged_def start_tx_tags_def)
    moreover have "i \<noteq> fst (redis_stage cfg ''wait-current-master'' ''_local'' (tx_and_standby cfg) (redis_password cfg None) True)"
      using m by (auto simp: redis_stage_def local_task_def tag_def)
    ultimately have "i \<in> ids_of ts" using i by (auto simp: r(2) split: if_splits)
    then show ?thesis using status_monitor_named [OF r(1)] m by blast
  qed
  have t: "tag ` ids_of (snd acc) \<subseteq> started_tags" using start_skip_tagged [OF assms] by (simp add: tagged_def)
  show ?thesis
  proof
    fix x assume "x \<in> class_of ` ids_of (snd acc)"
    then obtain i where "i \<in> ids_of (snd acc)" "x = class_of i" by blast
    then show "x \<in> insert ''monitor:status'' (started_tags - {''monitor''})" using n t by (auto simp: class_of_def)
  qed
qed

text \<open>Uploads have other names than the tasks that control components.\<close>

definition upload_named :: "task_id \<Rightarrow> bool" where
  "upload_named i \<longleftrightarrow> tid_cmd i = ''monitor'' \<and> (\<forall>c \<in> component_names. \<forall>m p. tid_task i \<noteq> ctl_name c m p)"

lemma started_not_status:
  assumes "named k (MonitorStart None []) us" and "k \<in> component_names" and "i \<in> ids_of us"
  shows "\<not> status_named i \<and> tid_cmd i = ''monitor''"
proof -
  obtain p where p: "tid_task i = ctl_name k (MonitorStart None []) p" "tid_cmd i = ''monitor''" using assms(1,3) by (auto simp: named_def)
  have "ctl_name k (MonitorStart None []) p \<noteq> ctl_name c (MonitorStatus None []) q" if "c \<in> component_names" for c q
  proof
    assume eq: "ctl_name k (MonitorStart None []) p = ctl_name c (MonitorStatus None []) q"
    have "k = c" by (rule ctl_name_component [OF eq assms(2) that])
    then show False using ctl_name_command [of k "MonitorStart None []" p "MonitorStatus None []" q] eq by simp
  qed
  then show ?thesis using p by (auto simp: status_named_def)
qed

lemma monitor_start_classes:
  assumes "monitor_group uploads pkgs cluster (MonitorStart None []) cfg = Inr ctx" and "unique_ids uploads" and "\<forall>i \<in> ids_of uploads. upload_named i"
  shows "wf_context ctx \<and> class_of ` ids_of (executable ctx) \<subseteq> {''monitor''}"
proof
  show "wf_context ctx"
  proof (cases "dep_monitor (cfg_deployment cfg) = None")
    case True
    then show ?thesis using assms(1) by (auto simp: monitor_group_def wf_context_def)
  next
    case False
    have "\<forall>i \<in> ids_of uploads. \<forall>c \<in> component_names. \<forall>m p. tid_task i \<noteq> ctl_name c m p" using assms(3) by (simp add: upload_named_def)
    from monitor_group_stages [OF assms(1,2) this False] show ?thesis by (auto simp: wf_context_def balanced_def unique_ids_def)
  qed
  show "class_of ` ids_of (executable ctx) \<subseteq> {''monitor''}"
  proof (cases "dep_monitor (cfg_deployment cfg) = None")
    case True
    then show ?thesis using assms(1) by (auto simp: monitor_group_def)
  next
    case False
    let ?m = "MonitorStart None []"
    obtain sets where s: "phase_sets pkgs cfg [] ?m = Inr sets"
      and ctx: "executable ctx = snd (fold (\<lambda>ts. push_stage (as_ctl ts)) sets (push_nonempty uploads ([], [])))"
      using assms(1) False by (auto simp: monitor_group_def Let_def bindE_Inr_iff split: option.splits)
    obtain a b c d f where n: "sets = [a, b, c, d, f]" "named ''node_exporter'' ?m a" "named ''prometheus'' ?m b"
        "named ''alertmanager'' ?m c" "named ''grafana'' ?m d" "named ''alertmanager-webhook-adapter'' ?m f"
      using phase_sets_named [OF s] by metis
    have up: "\<not> status_named i \<and> tid_cmd i = ''monitor''" if "i \<in> ids_of uploads" for i
      using assms(3) that by (auto simp: upload_named_def status_named_def)
    have "\<not> status_named i \<and> tid_cmd i = ''monitor''" if "i \<in> ids_of (executable ctx)" for i
      using that up started_not_status [OF n(2)] started_not_status [OF n(3)] started_not_status [OF n(4)] started_not_status [OF n(5)]
        started_not_status [OF n(6)] by (auto simp: ctx n(1) fold_stage_ids)
    then show ?thesis by (auto simp: class_of_def tag_monitor)
  qed
qed

section \<open>A launch is well formed\<close>

definition deploy_commands :: "string set" where
  "deploy_commands = {''deploy'', ''extract'', ''config-update'', ''upload'', ''upload-cluster-config''}"

text \<open>The contexts of the parts that are arguments: well formed, under the commands that
  \<open>SshCheckTask\<close>, \<open>DepPkgTask\<close> and the tasks of a deployment use, and uploads that no control task is named like.\<close>

definition parts_apart :: "'u launch_parts \<Rightarrow> bool" where
  "parts_apart parts \<longleftrightarrow> unique_ids (la_ssh parts) \<and> under {''ssh-check''} (la_ssh parts) \<and>
     (\<forall>topo c. la_deps parts topo = Inr c \<longrightarrow> wf_context c \<and> under {''run_deps''} (executable c)) \<and>
     (\<forall>topo c. la_deploy parts topo = Inr c \<longrightarrow> wf_context c \<and> under deploy_commands (executable c)) \<and>
     unique_ids (la_uploads parts) \<and> (\<forall>i \<in> ids_of (la_uploads parts). upload_named i)"

lemma wf_lift: "wf_context (lift_context f c) = wf_context c"
  using ids_lift(2,3) [of f "executable c"] by (simp add: lift_context_def wf_context_def unique_ids_def split: option.splits)

lemma balanced_part_wf:
  assumes "balanced (b, ex)"
  shows "wf_context \<lparr>task_group = g, barrier = Some b, executable = cluster_part ex\<rparr>"
  by (rule balanced_wf) (use assms in \<open>simp add: balanced_def\<close>)

lemma lift_classes: "wf_context (lift_context f c) = wf_context c" "executable (lift_context f c) = lift_tasks f (executable c)"
  by (simp_all add: wf_lift) (simp add: lift_context_def)

lemma wf_dummy: "wf_context dummy_context"
  by (simp add: dummy_context_def wf_context_def)

lemma class_plain: "tid_cmd i \<notin> {''start'', ''stop'', ''status'', ''remove'', ''topology'', ''monitor''} \<Longrightarrow> class_of i = tid_cmd i"
  by (simp add: class_of_def tag_def)

lemma under_classes:
  "under T ts \<Longrightarrow> T \<inter> {''start'', ''stop'', ''status'', ''remove'', ''topology'', ''monitor''} = {} \<Longrightarrow> class_of ` ids_of ts \<subseteq> T"
proof
  fix x assume u: "under T ts" "T \<inter> {''start'', ''stop'', ''status'', ''remove'', ''topology'', ''monitor''} = {}" "x \<in> class_of ` ids_of ts"
  then obtain i where i: "x = class_of i" "tid_cmd i \<in> T" by (auto simp: under_def)
  then have "class_of i = tid_cmd i" using u(2) by (intro class_plain) blast
  then show "x \<in> T" using i by simp
qed

lemma class_tags: "tag ` ids_of ts \<subseteq> S \<Longrightarrow> ''monitor'' \<notin> S \<Longrightarrow> class_of ` ids_of ts \<subseteq> S"
  by (auto simp: class_of_def)

lemma log_startup_classes:
  assumes "log_startup e cfg = Some (Inr ctx)"
  shows "wf_context ctx \<and> class_of ` ids_of (executable ctx) \<subseteq> {''eloq_log_start'', ''eloq_log_service_probe''}"
proof (cases "dep_log_service (cfg_deployment cfg) = None")
  case True
  then show ?thesis using assms wf_dummy by (auto simp: log_startup_def dummy_context_def)
next
  case False
  then obtain b ex where s: "start_log_stages e (CmdStart (cluster_name (cfg_deployment cfg)) []) cfg ([], []) = Some (Inr (b, ex))"
      "ctx = \<lparr>task_group = ''log-service-startup'', barrier = Some b, executable = cluster_part ex\<rparr>"
    using assms by (auto simp: log_startup_def bindO_Inr)
  have t: "tagged ({''eloq_log_start'', ''eloq_log_service_probe''} \<union> {}) (b, ex)" by (rule start_log_tagged [OF s(1) tagged_Nil]) simp_all
  then have "tag ` ids_of ex \<subseteq> {''eloq_log_start'', ''eloq_log_service_probe''}" by (simp add: tagged_def)
  then have "class_of ` ids_of ex \<subseteq> {''eloq_log_start'', ''eloq_log_service_probe''}" by (rule class_tags) simp
  moreover have "wf_context ctx" unfolding s(2) by (rule balanced_part_wf) (use t in \<open>simp add: tagged_def\<close>)
  ultimately show ?thesis by (simp add: s(2))
qed

lemma install_classes:
  assumes "install_group (CmdInstall c) cfg = Inr ctx"
  shows "wf_context ctx \<and> class_of ` ids_of (executable ctx) \<subseteq> {''dss_install'', ''install''}"
proof -
  obtain acc where acc: "install_stages (CmdInstall c) cfg = Inr acc" "ctx = context_of ''install'' acc"
    using assms by (auto simp: install_group_def bindE_Inr_iff)
  note b = install_stages_balanced [OF acc(1)]
  have "class_of i \<in> {''dss_install'', ''install''}" if "i \<in> ids_of (snd acc)" for i
    using b that class_plain [of i] by (cases "tid_cmd i = ''install''") auto
  moreover have "wf_context ctx" unfolding acc(2) by (rule context_of_wf) (use b in blast)
  moreover have "executable ctx = snd acc" by (simp add: acc(2) context_of_def)
  ultimately show ?thesis by auto
qed

lemma launch_start_classes:
  assumes "launch_start e cfg = Some (Inr ctx)"
  shows "wf_context ctx \<and> class_of ` ids_of (executable ctx) \<subseteq> insert ''monitor:status'' (started_tags - {''monitor''})"
proof -
  obtain b ex where s: "start_tasks e (CmdStart (cluster_name (cfg_deployment cfg)) []) cfg True = Some (Inr (b, ex))"
      "ctx = \<lparr>task_group = ''cluster-control-start'', barrier = Some b, executable = cluster_part ex\<rparr>"
    using assms by (auto simp: launch_start_def bindO_Inr)
  have "wf_context ctx" unfolding s(2) by (rule balanced_part_wf) (use start_skip_tagged [OF s(1)] in \<open>simp add: tagged_def\<close>)
  then show ?thesis using start_classes [OF s(1)] by (simp add: s(2))
qed

lemma launch_contexts_cases:
  assumes "launch_contexts e parts cmd cfg = Some (Inr ctxs)"
  obtains deps topo logs deploy install start monitor where
    "ctxs = [lift_context GtGiven deps, lift_context GtCheck (check_group (CmdCheck topo) cfg), lift_context GtGiven deploy,
        logs, install, start, lift_context (GtCluster \<circ> CtMonitor) monitor]"
    "deps = dummy_context \<or> la_deps parts topo = Inr deps" "la_deploy parts topo = Inr deploy" "log_startup e cfg = Some (Inr logs)"
    "install = dummy_context \<or> install_group (CmdInstall (cluster_name (cfg_deployment cfg))) cfg = Inr install" "launch_start e cfg = Some (Inr start)"
    "monitor_group (la_uploads parts) (cl_pkgs e) (Some (cluster_name (cfg_deployment cfg))) (MonitorStart None []) cfg = Inr monitor"
proof -
  let ?name = "cluster_name (cfg_deployment cfg)"
  obtain skip topo deps logs deploy install start monitor where
    "(if skip then Inr dummy_context else la_deps parts topo) = Inr deps" "log_startup e cfg = Some (Inr logs)" "la_deploy parts topo = Inr deploy"
    "(if dep_storage_service (cfg_deployment cfg) = None then Inr dummy_context else install_group (CmdInstall ?name) cfg) = Inr install"
    "launch_start e cfg = Some (Inr start)" "monitor_group (la_uploads parts) (cl_pkgs e) (Some ?name) (MonitorStart None []) cfg = Inr monitor"
    "ctxs = [lift_context GtGiven deps, lift_context GtCheck (check_group (CmdCheck topo) cfg), lift_context GtGiven deploy,
        logs, install, start, lift_context (GtCluster \<circ> CtMonitor) monitor]"
    using assms by (auto simp: launch_contexts_def Let_def bindO_Inr)
  then show ?thesis using that by (auto split: if_splits)
qed

text \<open>The classes of the ids: of the first stage, of the contexts in their order, and of the last three tasks.\<close>

definition launch_classes :: "string list list" where
  "launch_classes = [[''run_deps''], [''check''], [''deploy'', ''extract'', ''config-update'', ''upload'', ''upload-cluster-config''],
     [''eloq_log_start'', ''eloq_log_service_probe''], [''dss_install'', ''install''],
     [''monitor:status'', ''topology:wait-current-master'', ''dss_status'', ''eloq_log_status'', ''status:standby'', ''status:voter'',
      ''status:txservice'', ''start:txservice'', ''start:standby'', ''start:voter'', ''start:eloq_store_data_clean'', ''dss_start''],
     [''monitor'']]"

lemma start_class_set:
  "insert ''monitor:status'' (started_tags - {''monitor''}) =
     {''monitor:status'', ''topology:wait-current-master'', ''dss_status'', ''eloq_log_status'', ''status:standby'', ''status:voter'',
      ''status:txservice'', ''start:txservice'', ''start:standby'', ''start:voter'', ''start:eloq_store_data_clean'', ''dss_start''}"
  by (simp add: started_tags_def start_tx_tags_def status_tags_def insert_Diff_if)

lemma launch_classes_distinct:
  "distinct (concat ([''topology:get-topology'', ''topology-update'', ''topology:display-topology''] # [''ssh-check''] # launch_classes))"
  by code_simp

text \<open>Every context of a launch is well formed, with ids of its class.\<close>

lemma launch_contexts_classed:
  assumes "launch_contexts e parts cmd cfg = Some (Inr ctxs)" and "parts_apart parts"
  shows "list_all2 (\<lambda>c T. wf_context c \<and> class_of ` ids_of (executable c) \<subseteq> set T) ctxs launch_classes"
proof -
  obtain deps topo logs deploy install start monitor where
    ctxs: "ctxs = [lift_context GtGiven deps, lift_context GtCheck (check_group (CmdCheck topo) cfg), lift_context GtGiven deploy,
        logs, install, start, lift_context (GtCluster \<circ> CtMonitor) monitor]"
    and p: "deps = dummy_context \<or> la_deps parts topo = Inr deps" "la_deploy parts topo = Inr deploy" "log_startup e cfg = Some (Inr logs)"
    "install = dummy_context \<or> install_group (CmdInstall (cluster_name (cfg_deployment cfg))) cfg = Inr install" "launch_start e cfg = Some (Inr start)"
    "monitor_group (la_uploads parts) (cl_pkgs e) (Some (cluster_name (cfg_deployment cfg))) (MonitorStart None []) cfg = Inr monitor"
    by (rule launch_contexts_cases [OF assms(1)])
  have deps: "wf_context (lift_context GtGiven deps) \<and> class_of ` ids_of (executable (lift_context GtGiven deps)) \<subseteq> {''run_deps''}"
    using p(1)
  proof
    assume "deps = dummy_context"
    then show ?thesis using wf_dummy by (simp add: lift_classes) (simp add: dummy_context_def)
  next
    assume "la_deps parts topo = Inr deps"
    then have "wf_context deps" "under {''run_deps''} (executable deps)" using assms(2) unfolding parts_apart_def by blast+
    then show ?thesis using under_classes [of "{''run_deps''}" "executable deps"] by (simp add: lift_classes)
  qed
  have check: "wf_context (lift_context GtCheck (check_group (CmdCheck topo) cfg)) \<and>
      class_of ` ids_of (executable (lift_context GtCheck (check_group (CmdCheck topo) cfg))) \<subseteq> {''check''}"
    using check_group_wf [of "CmdCheck topo" cfg] check_group_ids(2) [of "CmdCheck topo" cfg]
      under_classes [of "{''check''}" "executable (check_group (CmdCheck topo) cfg)"]
    by (auto simp: lift_classes under_def)
  have "wf_context deploy" "under deploy_commands (executable deploy)" using assms(2) p(2) unfolding parts_apart_def by blast+
  then have deploy: "wf_context (lift_context GtGiven deploy) \<and> class_of ` ids_of (executable (lift_context GtGiven deploy)) \<subseteq> deploy_commands"
    using under_classes [of deploy_commands] by (simp add: lift_classes deploy_commands_def)
  have install: "wf_context install \<and> class_of ` ids_of (executable install) \<subseteq> {''dss_install'', ''install''}"
    using p(4)
  proof
    assume "install = dummy_context"
    then show ?thesis using wf_dummy by (simp add: dummy_context_def)
  qed (rule install_classes)
  have "unique_ids (la_uploads parts)" "\<forall>i \<in> ids_of (la_uploads parts). upload_named i" using assms(2) by (simp_all add: parts_apart_def)
  note monitor = monitor_start_classes [OF p(6) this]
  show ?thesis
    unfolding ctxs launch_classes_def
    using deps check deploy log_startup_classes [OF p(3)] install launch_start_classes [OF p(5)] monitor
    by (simp add: lift_classes deploy_commands_def start_class_set)
qed

text \<open>The stages of a launch fit its tasks.\<close>

lemma launch_well_formed:
  assumes "launch_group e parts cmd cfg = Some (Inr ctx)" and "parts_apart parts"
  shows "wf_context ctx"
proof -
  obtain ctxs where c: "launch_contexts e parts cmd cfg = Some (Inr ctxs)"
    using assms(1) by (auto simp: launch_group_def bindO_Inr)
  let ?acc0 = "push_stage (lift_tasks GtGiven (la_ssh parts)) ([], [])"
  let ?acc1 = "merge_execution (fst ?acc0) (snd ?acc0) ctxs"
  have "under {''ssh-check''} (la_ssh parts)" "unique_ids (la_ssh parts)" using assms(2) by (simp_all add: parts_apart_def)
  then have first: "classed (set [''ssh-check'']) ?acc0"
    using under_classes [of "{''ssh-check''}" "la_ssh parts"] by (simp add: classed_def balanced_push_stage)
  let ?T = "concat ([''ssh-check''] # launch_classes)"
  have merged: "classed (set ?T) ?acc1"
    by (rule merge_all_classed [OF launch_contexts_classed [OF c assms(2)] first]) (use launch_classes_distinct in simp)
  let ?id1 = "\<lparr>tid_cmd = ''topology'', tid_task = ''get-topology'', tid_host = ''_local''\<rparr>"
    and ?id2 = "\<lparr>tid_cmd = ''topology-update'', tid_task = ''redis'', tid_host = ''local''\<rparr>"
    and ?id3 = "\<lparr>tid_cmd = ''topology'', tid_task = ''display-topology'', tid_host = ''_local''\<rparr>"
  have cl: "class_of ?id1 = ''topology:get-topology''" "class_of ?id2 = ''topology-update''" "class_of ?id3 = ''topology:display-topology''"
    by (simp_all add: class_of_def tag_def)
  have new: "i \<notin> ids_of (snd ?acc1)" if "class_of i \<in> {''topology:get-topology'', ''topology-update'', ''topology:display-topology''}" for i
    using merged launch_classes_distinct that by (fastforce simp: classed_def)
  have "?id1 \<notin> ids_of (snd ?acc1)" "?id2 \<notin> ids_of (snd ?acc1)" "?id3 \<notin> ids_of (snd ?acc1)" by (intro new, simp add: cl)+
  moreover have "balanced ?acc1" using merged by (simp add: classed_def)
  ultimately show ?thesis
    using assms(1) c
    by (auto simp: launch_group_def bindO_def Let_def topology_stage_def redis_stage_def local_task_def
        intro!: context_of_wf balanced_push_task balanced_push_stage)
qed

end
