(* ===== verification/Spec2Isabelle.thy ===== *)
theory Spec2Isabelle
  imports Node_Props Task_Core Node_Groups Config_Fields Update_Conf Saved_Topology Group_Lists Topology_Update Rolling_Props Reconcile_Props Cluster_Lock Cmd_Props Log_Ctl Dss_Ctl Monitor_Ctl Cluster_Props Launch_Props
begin

text \<open>
  A model of \<open>eloqctl\<close>, the cluster manager of EloqKV (\<open>src/src/cluster_mgr/src\<close>, Rust).

  The program. A deployment is described by a YAML file. A command checks it, generates one
  configuration file per node, builds a context of tasks in stages, and a controller runs the stages;
  the tasks reach the hosts over ssh, Redis and gRPC. What a cluster looks like is kept in a state
  database and in node files, and scale operations, field updates and refreshes change both.

  The theories, in the order of the program.

  \<^item> \<open>Eloq_Prelude\<close>: results (\<open>Err\<close> for a returned error, \<open>Panic\<close> for a panic), machine integers, the
    string functions of the Rust library that the code uses (\<open>split\<close>, \<open>split_once\<close>, \<open>trim\<close>, \<open>lines\<close>,
    \<open>parse\<close>, \<open>Display\<close> of integers), insertion-ordered maps, and the lemmas on them that all theories share.
  \<^item> \<open>Deploy_Model\<close> (\<open>config/\<close>): the configuration as records and datatypes with the fields of the structs.
  \<^item> \<open>Endpoints\<close> (\<open>config/connection.rs\<close>), \<open>Hosts\<close>, \<open>Paths\<close>, \<open>Storage\<close>, \<open>Topology_Check\<close>
    (\<open>config/deployment.rs\<close>, \<open>config/config_base.rs\<close>, \<open>config/storage_service_config.rs\<close>): endpoint
    redirection, host lists and the topology, paths and versions, the storage provider, and what
    \<open>validate_topology\<close> establishes for the functions that read the same lists.
  \<^item> \<open>Log_Groups\<close> (\<open>config/log_service.rs\<close>): how log nodes are placed in groups. The loop of the code has no
    bound, so it is a \<^theory_text>\<open>partial_function\<close> into \<open>option\<close>, and that it returns is a theorem.
  \<^item> \<open>Eloq_Ini\<close>, \<open>Node_Conf\<close>, \<open>Node_Props\<close>: the generated node configuration. The ini library is an argument
    with the laws of the locale \<open>ini_lib\<close>, shown for an association list of sections.
  \<^item> \<open>Task_Core\<close>, \<open>Task_Stages\<close> (\<open>cli/task/task_base.rs\<close>, \<open>cli/task/task_controller.rs\<close>): task ids, contexts,
    barriers, merging, the controller; the accumulators with which builders make a context.
    A context is good when the barriers add up to the number of tasks; the controller panics otherwise.
  \<^item> \<open>Config_Fields\<close>, \<open>Update_Conf\<close> (\<open>cli/task/config_fields.rs\<close>, \<open>cli/task/group/update_config_group.rs\<close>,
    \<open>cli/task/exec_custom_cmd.rs\<close>): the registry of fields and the tasks of \<open>update-conf\<close>.
  \<^item> \<open>Node_Groups\<close>, \<open>Group_Lists\<close>, \<open>Saved_Topology\<close> (\<open>cli/task/cluster_config_utils.rs\<close>,
    \<open>cli/task/task_utils.rs\<close>, \<open>cli/task/db_update_task.rs\<close>, \<open>cli/task/tx_conf_update_task.rs\<close>): the group table
    the cluster reports, the address lists that are saved from it, the groups computed from such lists,
    and the node files after scaling. The locale \<open>group_adder\<close> states what the reader of a standby or voter
    list needs from adding one member; both kinds of member are its instances.
  \<^item> \<open>Ini_Lines\<close>, \<open>State_Tables\<close>, \<open>Topology_Update\<close> (\<open>state/\<close>, \<open>cli/task/topology_update_task.rs\<close>,
    \<open>cli/task/topology_display_task.rs\<close>): the line editor of node files, the state database as six keyed
    tables (locale \<open>keyed_table\<close>) with a step relation for its operations, and the topology task on them.

  \<^item> \<open>Cmd_Line\<close> (\<open>cli/mod.rs\<close>): the subcommands with their arguments, the parser of node arguments, the
    values and errors that tasks return.
  \<^item> \<open>Cluster_View\<close> (\<open>cli/task/redis_op_task.rs\<close>, \<open>cli/task/failover_op_task.rs\<close>,
    \<open>cli/task/wait_replica_ready_task.rs\<close>): what a cluster answers about its nodes, the failover that uses
    it, and the waits for replicas and nodes.
  \<^item> \<open>Tx_Ctl\<close> (\<open>cli/task/eloq_tx_ctl_task.rs\<close>): start, stop and status of EloqKV processes. The probe may run
    for ever: it is a \<^theory_text>\<open>partial_function\<close>, and a theorem says exactly when it returns.
  \<^item> \<open>Log_Ctl\<close>, \<open>Dss_Ctl\<close>, \<open>Monitor_Ctl\<close> (\<open>cli/task/eloq_log_ctl_task.rs\<close>, \<open>cli/task/eloq_log_probe_task.rs\<close>,
    \<open>cli/task/eloq_dss_ctl_task.rs\<close>, \<open>cli/task/monitor_ctl_task.rs\<close>, \<open>cli/task/group/monitor_ctl_group.rs\<close>): the same for
    the log service with the probe for its leaders, the data store service, and the monitoring components
    with the context of a monitor command. Waits have the bound of the code.
  \<^item> \<open>Store_Clean\<close>, \<open>Cluster_Ctl\<close>, \<open>Cluster_Props\<close> (\<open>cli/task/eloq_store_data_clean_task.rs\<close>,
    \<open>cli/task/group/db_cluster_ctrl_group.rs\<close>): the stages of start, stop, restart, status and remove, made of
    the tasks above and of the tasks that clear data directories; that they are well formed and, for addresses
    that can be taken apart, exist; and what stop and start leave running or delete.
  \<^item> \<open>Check_Group\<close>, \<open>Launch_Groups\<close>, \<open>Launch_Props\<close> (\<open>cli/task/check_task.rs\<close>, \<open>cli/task/eloq_bootstrap_task.rs\<close>,
    \<open>cli/task/group/\<close>): the checks of ports before a launch, bootstrap, removal, failover, and the launch,
    which merges seven contexts; with well-formed contexts for dependencies and deployment under commands of
    their own, the stages of a launch fit its tasks.
  \<^item> \<open>Rolling_Steps\<close>, \<open>Rolling_Upgrade\<close>, \<open>Rolling_Props\<close> (\<open>cli/task/rolling_upgrade/\<close>): the steps of an upgrade
    with the state they hand on, the runner, and what an upgrade as a whole does to the nodes. Each step
    gets the topology it would fetch and each task its result from a world indexed by the step's number.
  \<^item> \<open>Observed_State\<close>, \<open>Reconcile_Plan\<close>, \<open>Reconcile_Props\<close> (\<open>cli/reconcile.rs\<close>, \<open>cli/cmd_base.rs\<close>): what the status
    tasks say about the services of a cluster, and the plan that \<open>apply\<close> makes from the difference of two
    configurations, compared as YAML values; the conversion to such a value is an argument.
  \<^item> \<open>Cluster_Lock\<close> (\<open>cli/cmd_base.rs\<close>): the lock of a cluster, once as a function of one process and once as a
    step relation of the file operations of several processes, each of which may fail, with an invariant
    for mutual exclusion. Reading the file and the look into \<open>/proc\<close> are two steps, and processes may end
    after their release or be killed: then two of them can hold the lock, as two schedules show.
  \<^item> \<open>Releases\<close> (\<open>github_release.rs\<close>): names of published assets, versions on offer, and how the version and the
    images of a deployment are resolved.
  \<^item> \<open>Cmd_State\<close>, \<open>Cmd_Config\<close>, \<open>Cmd_Exec\<close> (\<open>cli/cmd_base.rs\<close>): commands as operations on the state manager, the
    lock files and a log of what was done; an operation fails with an error, or does not return when a probe
    does not. The world it sees (files, releases, task groups, executors, answers of Redis, the outcomes
    of the file operations on the lock) is a record.
  \<^item> \<open>Cmd_Rules\<close>, \<open>Cmd_Props\<close>: triples for such operations, what every command keeps (the locales
    \<open>task_invariant\<close> and \<open>command_invariant\<close>), and what whole commands do with their lock, with \<open>--quiet\<close>,
    with a cluster whose nodes do not answer, with a plan that fails halfway, and with a removed cluster.

  What the theorems show. Generated node files carry the identity, paths and lists they should, and
  are generated exactly for configurations with a usable storage, usable lists and hardware; accepted
  address lists mean the same nodes to the host list, the node list and the generator; the grouping
  loop ends and places each node once; contexts run all their tasks in order and panics are exactly the
  unbalanced ones; the lists saved after scaling read back as the reported groups, with the members that the
  reader adds to small ones; an edited node file reads back the
  configuration; the database keeps its keys and files in every reachable state; a refresh changes
  exactly the rows it should; a successful rolling upgrade restarts each node exactly once; every command whose file
  operations succeed releases its lock, and all keep the database well formed.
  Where the code does something else than it means to, the theorem states what it does and the
  manifest lists it as a finding.

  Conventions. Strings are lists of characters, integers have the width of the source. Sets and hash
  maps whose order the code can observe are association lists in that order. Input and output are
  arguments: the contents of files, what a host or a channel answers, the time.

  Not modelled: argument parsing and logging, ssh, gRPC, Redis and HTTP clients, file transfer, the SQL
  driver, certificate creation, serde; failing operations on the database and on local files other than
  the lock. The context of a monitor update is an argument of the command that uses it. Not modelled yet: the builders of the
  task groups for deployment, dependencies and scaling, and backup and restore.
\<close>

end
